(* ===== verification/Prelude.thy ===== *)
theory Prelude
  imports Complex_Main "HOL-Library.AList" "HOL-Library.List_Lexorder" "HOL-Library.Char_ord"
    "HOL-Library.Product_Lexorder"
begin

text \<open>
  Shared vocabulary of the development.

  \<^item> Points in time are exact rationals (\<open>time\<close>): the values of \<open>time.time()\<close>.
  \<^item> A Python dict with insertion order is an association list with distinct keys; assignment is
    \<open>AList.update\<close> (an existing key keeps its position, a new one goes last), \<open>del\<close> is
    \<open>AList.delete\<close>, \<open>get\<close> is \<open>map_of\<close>.
  \<^item> A fallible pure function returns \<open>error + value\<close>; \<open>bindE\<close> sequences two of them and stops
    at the first error, as a raised exception does. \<open>mapE\<close> is a list comprehension whose element
    expression may raise.
  \<^item> \<open>err_simps\<close>, \<open>dict_simps\<close> collect the rewrite rules the component proofs share.
\<close>

named_theorems err_simps "unfolding of the error combinators"
named_theorems dict_simps "facts on association lists used as dicts"

type_synonym time = rat

type_synonym 'v dict = "(string \<times> 'v) list"

section \<open>Errors\<close>

definition bindE :: "'e + 'a \<Rightarrow> ('a \<Rightarrow> 'e + 'b) \<Rightarrow> 'e + 'b" where
  "bindE m f = (case m of Inl e \<Rightarrow> Inl e | Inr x \<Rightarrow> f x)"

definition guardE :: "bool \<Rightarrow> 'e \<Rightarrow> 'e + unit" where
  "guardE ok e = (if ok then Inr () else Inl e)"

fun mapE :: "('a \<Rightarrow> 'e + 'b) \<Rightarrow> 'a list \<Rightarrow> 'e + 'b list" where
  "mapE f [] = Inr []"
| "mapE f (x # xs) = bindE (f x) (\<lambda>y. bindE (mapE f xs) (\<lambda>ys. Inr (y # ys)))"

definition map_err :: "('e \<Rightarrow> 'f) \<Rightarrow> 'e + 'a \<Rightarrow> 'f + 'a" where
  "map_err g m = (case m of Inl e \<Rightarrow> Inl (g e) | Inr x \<Rightarrow> Inr x)"

lemma bindE_simps [simp]:
  "bindE (Inl e) f = Inl e"
  "bindE (Inr x) f = f x"
  by (simp_all add: bindE_def)

lemma bindE_Inr_iff [err_simps]:
  "bindE m f = Inr y \<longleftrightarrow> (\<exists>x. m = Inr x \<and> f x = Inr y)"
  by (cases m) auto

lemma bindE_Inl_iff:
  "bindE m f = Inl e \<longleftrightarrow> m = Inl e \<or> (\<exists>x. m = Inr x \<and> f x = Inl e)"
  by (cases m) auto

lemma bindE_cong [fundef_cong]:
  "m = m' \<Longrightarrow> (\<And>x. m' = Inr x \<Longrightarrow> f x = f' x) \<Longrightarrow> bindE m f = bindE m' f'"
  by (cases m') (auto simp: bindE_def)

lemma guardE_Inr_iff [err_simps]: "guardE ok e = Inr u \<longleftrightarrow> ok"
  by (simp add: guardE_def)

lemma guardE_Inl_iff [err_simps]: "guardE ok e = Inl e' \<longleftrightarrow> \<not> ok \<and> e' = e"
  by (auto simp: guardE_def)

lemma guardE_simps [simp]: "guardE True e = Inr ()" "guardE False e = Inl e"
  by (simp_all add: guardE_def)

lemma map_err_simps [simp]:
  "map_err g (Inl e) = Inl (g e)"
  "map_err g (Inr x) = Inr x"
  by (simp_all add: map_err_def)

lemma map_err_Inr_iff [err_simps]: "map_err g m = Inr x \<longleftrightarrow> m = Inr x"
  by (cases m) auto

lemma mapE_Inr_iff:
  "mapE f xs = Inr ys \<longleftrightarrow> list_all2 (\<lambda>x y. f x = Inr y) xs ys"
  by (induction xs arbitrary: ys) (auto simp: err_simps list_all2_Cons1)

lemma mapE_length: "mapE f xs = Inr ys \<Longrightarrow> length ys = length xs"
  by (auto simp: mapE_Inr_iff dest: list_all2_lengthD)

lemma mapE_setD: "mapE f xs = Inr ys \<Longrightarrow> y \<in> set ys \<Longrightarrow> \<exists>x \<in> set xs. f x = Inr y"
  by (force simp: mapE_Inr_iff list_all2_conv_all_nth in_set_conv_nth)

text \<open>
  An operation on a state returns its result and the state it leaves: a raised exception does not
  undo what was done before it. \<open>bindS\<close> sequences two such operations, \<open>withE\<close> evaluates a pure
  expression that may raise.
\<close>

definition bindS :: "('e + 'a) \<times> 's \<Rightarrow> ('a \<Rightarrow> 's \<Rightarrow> ('e + 'b) \<times> 's) \<Rightarrow> ('e + 'b) \<times> 's" where
  "bindS m f = (case m of (Inl e, s) \<Rightarrow> (Inl e, s) | (Inr x, s) \<Rightarrow> f x s)"

definition withE :: "'e + 'a \<Rightarrow> 's \<Rightarrow> ('a \<Rightarrow> ('e + 'b) \<times> 's) \<Rightarrow> ('e + 'b) \<times> 's" where
  "withE m s f = (case m of Inl e \<Rightarrow> (Inl e, s) | Inr x \<Rightarrow> f x)"

lemma bindS_simps [simp]:
  "bindS (Inl e, s) f = (Inl e, s)"
  "bindS (Inr x, s) f = f x s"
  by (simp_all add: bindS_def)

lemma withE_simps [simp]:
  "withE (Inl e) s f = (Inl e, s)"
  "withE (Inr x) s f = f x"
  by (simp_all add: withE_def)

lemma bindS_Inr_iff [err_simps]:
  "bindS m f = (Inr y, t) \<longleftrightarrow> (\<exists>x s. m = (Inr x, s) \<and> f x s = (Inr y, t))"
  by (cases m; cases "fst m") auto

lemma withE_Inr_iff [err_simps]:
  "withE m s f = (Inr y, t) \<longleftrightarrow> (\<exists>x. m = Inr x \<and> f x = (Inr y, t))"
  by (cases m) auto

lemma bindS_split:
  "P (bindS m f) \<longleftrightarrow> (\<forall>e s. m = (Inl e, s) \<longrightarrow> P (Inl e, s)) \<and> (\<forall>x s. m = (Inr x, s) \<longrightarrow> P (f x s))"
  by (cases m; cases "fst m") auto

lemma withE_split:
  "P (withE m s f) \<longleftrightarrow> (\<forall>e. m = Inl e \<longrightarrow> P (Inl e, s)) \<and> (\<forall>x. m = Inr x \<longrightarrow> P (f x))"
  by (cases m) auto

section \<open>Dicts\<close>

abbreviation dset :: "string \<Rightarrow> 'v \<Rightarrow> 'v dict \<Rightarrow> 'v dict" where
  "dset \<equiv> AList.update"

abbreviation ddel :: "string \<Rightarrow> 'v dict \<Rightarrow> 'v dict" where
  "ddel \<equiv> AList.delete"

definition dkeys :: "'v dict \<Rightarrow> string list" where
  "dkeys d = map fst d"

definition dvals :: "'v dict \<Rightarrow> 'v list" where
  "dvals d = map snd d"

abbreviation wf_dict :: "'v dict \<Rightarrow> bool" where
  "wf_dict d \<equiv> distinct (map fst d)"

lemma map_of_dset [dict_simps]: "map_of (dset k v d) x = (if x = k then Some v else map_of d x)"
  by (simp add: update_conv)

lemma map_of_ddel [dict_simps]: "map_of (ddel k d) x = (if x = k then None else map_of d x)"
  by (simp add: delete_conv)

lemma wf_dict_dset [dict_simps, intro]: "wf_dict d \<Longrightarrow> wf_dict (dset k v d)"
  by (rule distinct_update)

lemma wf_dict_ddel [dict_simps, intro]: "wf_dict d \<Longrightarrow> wf_dict (ddel k d)"
  by (rule distinct_delete)

lemma wf_dict_filter [intro]: "wf_dict d \<Longrightarrow> wf_dict (filter P d)"
  by (induction d) auto

lemma dict_mem_iff: "wf_dict d \<Longrightarrow> (k, v) \<in> set d \<longleftrightarrow> map_of d k = Some v"
  by (metis map_of_is_SomeI map_of_SomeD)

lemma dkeys_iff [dict_simps]: "k \<in> set (dkeys d) \<longleftrightarrow> map_of d k \<noteq> None"
  by (simp add: dkeys_def map_of_eq_None_iff)

lemma dvals_iff: "wf_dict d \<Longrightarrow> v \<in> set (dvals d) \<longleftrightarrow> (\<exists>k. map_of d k = Some v)"
  by (force simp: dvals_def dict_mem_iff [symmetric])

lemma set_dset:
  "wf_dict d \<Longrightarrow> set (dset k v d) = insert (k, v) {p \<in> set d. fst p \<noteq> k}"
  by (induction d) (auto simp: image_iff)

lemma set_ddel: "set (ddel k d) = {p \<in> set d. fst p \<noteq> k}"
  by (induction d) auto

lemma length_dset:
  "length (dset k v d) = (if map_of d k = None then Suc (length d) else length d)"
  by (induction d) (auto split: if_splits)

lemma length_ddel:
  "wf_dict d \<Longrightarrow> length (ddel k d) = (if map_of d k = None then length d else length d - 1)"
proof (induction d)
  case (Cons p d)
  show ?case
  proof (cases "fst p = k")
    case True
    with Cons.prems have "k \<notin> fst ` set d" by auto
    with True show ?thesis by simp
  next
    case False
    have "map_of d k \<noteq> None \<Longrightarrow> d \<noteq> []" by auto
    with Cons False show ?thesis by (auto simp: Suc_diff_Suc)
  qed
qed simp

lemma dset_new: "map_of d k = None \<Longrightarrow> dset k v d = d @ [(k, v)]"
  by (induction d) (auto split: if_splits)

lemma map_of_filter_fst:
  "map_of (filter (\<lambda>p. P (fst p)) d) k = (if P k then map_of d k else None)"
  by (induction d) auto

lemma map_of_filter_dict:
  "wf_dict d \<Longrightarrow> map_of (filter (\<lambda>p. P (snd p)) d) k =
     (case map_of d k of None \<Rightarrow> None | Some v \<Rightarrow> if P v then Some v else None)"
proof (induction d)
  case (Cons p d)
  have "fst p = k \<Longrightarrow> map_of d k = None"
    using Cons.prems by (simp add: map_of_eq_None_iff)
  then show ?case using Cons by (cases p) auto
qed simp

text \<open>Deleting a list of keys one by one, as the \<open>for tid in stale: del d[tid]\<close> loops do.\<close>

definition ddel_all :: "string list \<Rightarrow> 'v dict \<Rightarrow> 'v dict" where
  "ddel_all ks d = fold ddel ks d"

lemma ddel_all_filter: "ddel_all ks d = filter (\<lambda>p. fst p \<notin> set ks) d"
proof (induction ks arbitrary: d)
  case (Cons k ks)
  then show ?case
    by (auto simp: ddel_all_def AList.delete_eq split_def intro: filter_cong)
qed (simp add: ddel_all_def)

lemma wf_dict_ddel_all [intro]: "wf_dict d \<Longrightarrow> wf_dict (ddel_all ks d)"
  by (simp add: ddel_all_filter wf_dict_filter)

lemma map_of_ddel_all [dict_simps]:
  "map_of (ddel_all ks d) k = (if k \<in> set ks then None else map_of d k)"
  using map_of_filter_fst [of "\<lambda>k. k \<notin> set ks" d k] by (simp add: ddel_all_filter)

lemma length_ddel_all: "length (ddel_all ks d) \<le> length d"
  by (simp add: ddel_all_filter)

text \<open>Counting the values of a dict that satisfy a predicate (\<open>sum(1 for p in d.values() if ..)\<close>).\<close>

definition dcount :: "('v \<Rightarrow> bool) \<Rightarrow> 'v dict \<Rightarrow> nat" where
  "dcount P d = length (filter P (dvals d))"

lemma dcount_filter: "dcount P d = length (filter (\<lambda>p. P (snd p)) d)"
  by (simp add: dcount_def dvals_def filter_map o_def)

lemma dcount_sublist: "dcount P (filter Q d) \<le> dcount P d"
  by (induction d) (auto simp: dcount_filter)

lemma dcount_ddel: "dcount P (ddel k d) \<le> dcount P d"
  unfolding AList.delete_eq split_def by (rule dcount_sublist)

lemma dcount_ddel_all: "dcount P (ddel_all k d) \<le> dcount P d"
  unfolding ddel_all_filter by (rule dcount_sublist)

lemma dcount_dset_new:
  "map_of d k = None \<Longrightarrow> dcount P (dset k v d) = dcount P d + (if P v then 1 else 0)"
  by (simp add: dset_new dcount_filter)

lemma dcount_dset_le: "dcount P (dset k v d) \<le> dcount P d + (if P v then 1 else 0)"
  by (induction d) (auto simp: dcount_filter)

lemma length_dset_le: "length (dset k v d) \<le> Suc (length d)"
  by (simp add: length_dset)

lemma length_ddel_le: "length (ddel k d) \<le> length d"
  using dcount_ddel [of "\<lambda>_. True" k d] by (simp add: dcount_def dvals_def)

lemma dcount_le_length: "dcount P d \<le> length d"
  by (simp add: dcount_filter)

lemma dcount_ddel_dset:
  "wf_dict d \<Longrightarrow> map_of d k = Some v \<Longrightarrow> dcount P (dset k v (ddel k d)) = dcount P d"
proof (induction d)
  case (Cons p d)
  show ?case
  proof (cases "fst p = k")
    case True
    with Cons.prems have "ddel k d = d" "map_of d k = None" "snd p = v"
      by (auto simp: map_of_eq_None_iff)
    with True Cons.prems show ?thesis by (simp add: dset_new dcount_filter)
  next
    case False
    with Cons show ?thesis by (auto simp: dcount_filter)
  qed
qed simp

text \<open>A table whose rows carry their own key.\<close>

definition keyed :: "('v \<Rightarrow> string) \<Rightarrow> 'v dict \<Rightarrow> bool" where
  "keyed key d \<longleftrightarrow> wf_dict d \<and> (\<forall>(k, v) \<in> set d. key v = k)"

lemma keyedD: "keyed key d \<Longrightarrow> map_of d k = Some v \<Longrightarrow> key v = k"
  by (auto simp: keyed_def dest!: map_of_SomeD)

lemma keyed_wf: "keyed key d \<Longrightarrow> wf_dict d"
  by (simp add: keyed_def)

lemma keyed_Nil [simp]: "keyed key []"
  by (simp add: keyed_def)

lemma keyed_filter [intro]: "keyed key d \<Longrightarrow> keyed key (filter P d)"
  by (auto simp: keyed_def)

lemma keyed_dset [intro]: "keyed key d \<Longrightarrow> key v = k \<Longrightarrow> keyed key (dset k v d)"
  by (auto simp: keyed_def set_dset)

lemma keyed_ddel [intro]: "keyed key d \<Longrightarrow> keyed key (ddel k d)"
  by (auto simp: keyed_def set_ddel)

lemma keyed_ddel_all [intro]: "keyed key d \<Longrightarrow> keyed key (ddel_all ks d)"
  by (auto simp: ddel_all_filter)

lemma keyed_vals: "keyed key d \<Longrightarrow> v \<in> set (dvals d) \<longleftrightarrow> map_of d (key v) = Some v"
  by (auto simp: dvals_iff [OF keyed_wf] dest: keyedD)

lemma keyed_count_le:
  assumes "keyed key d" "length d = n" "map_of d k = Some v"
  shows "length (ddel k d) < n"
proof -
  have "0 < length d" using assms(3) by (cases d) auto
  then show ?thesis using assms by (simp add: length_ddel keyed_wf)
qed

text \<open>Deleting the rows that satisfy a predicate, by the list of their keys.\<close>

lemma dkeys_filter: "k \<in> set (dkeys (filter P d)) \<longleftrightarrow> (\<exists>v. (k, v) \<in> set d \<and> P (k, v))"
  by (force simp: dkeys_def)

lemma keys_of_filter:
  assumes "wf_dict d" "map_of d k = Some v"
  shows "k \<in> set (dkeys (filter P d)) \<longleftrightarrow> P (k, v)"
  using assms(2) by (simp add: dkeys_filter dict_mem_iff [OF assms(1)])

lemma map_of_sweep:
  assumes "wf_dict d"
  shows "map_of (ddel_all (dkeys (filter P d)) d) k =
    (case map_of d k of None \<Rightarrow> None | Some v \<Rightarrow> if P (k, v) then None else Some v)"
  using assms keys_of_filter [OF assms, of k _ P] by (auto simp: map_of_ddel_all split: option.splits)

lemma length_ddel_dset:
  "wf_dict d \<Longrightarrow> map_of d k = Some v \<Longrightarrow> length (dset k v (ddel k d)) = length d"
  using dcount_ddel_dset [of d k v "\<lambda>_. True"] by (simp add: dcount_def dvals_def)

section \<open>Lists\<close>

lemma sorted_dropWhile_less:
  "sorted xs \<Longrightarrow> dropWhile (\<lambda>x. x < c) xs = filter (\<lambda>x. c \<le> x) (xs :: 'a :: linorder list)"
proof (induction xs)
  case (Cons x xs)
  show ?case
  proof (cases "x < c")
    case False
    with Cons.prems have "\<forall>y \<in> set xs. c \<le> y" by force
    with False show ?thesis by (simp add: not_less)
  qed (use Cons in \<open>simp add: not_le\<close>)
qed simp

lemma sorted_dropWhile [intro]: "sorted xs \<Longrightarrow> sorted (dropWhile P xs)"
  using sorted_append [of "takeWhile P xs" "dropWhile P xs"] by simp

lemma filter_ge_conj:
  "c \<le> (d :: 'a :: linorder) \<Longrightarrow> filter (\<lambda>x. c \<le> x \<and> d \<le> x) xs = filter (\<lambda>x. d \<le> x) xs"
  by (rule filter_cong) auto

section \<open>Machines\<close>

text \<open>
  The contract between a component and its traces: a step that keeps an invariant keeps it along
  every list of inputs; a step that keeps a relation between the state before and after relates the
  ends of every list of inputs.
\<close>

locale machine =
  fixes inv :: "'s \<Rightarrow> bool"
    and ok :: "'i \<Rightarrow> bool"
    and step :: "'i \<Rightarrow> 's \<Rightarrow> 's"
  assumes step_inv: "ok i \<Longrightarrow> inv s \<Longrightarrow> inv (step i s)"
begin

lemma run_inv: "list_all ok is \<Longrightarrow> inv s \<Longrightarrow> inv (fold step is s)"
  by (induction "is" arbitrary: s) (auto intro: step_inv)

lemma run_stable:
  assumes "\<And>i t. ok i \<Longrightarrow> Q i \<Longrightarrow> inv t \<Longrightarrow> P t \<Longrightarrow> P (step i t)"
    and "list_all ok is" "list_all Q is" "inv s" "P s"
  shows "P (fold step is s)"
  using assms(2-) by (induction "is" arbitrary: s) (auto intro: step_inv assms(1))

end

end
