(* ===== verification/PyText.thy ===== *)
theory PyText
  imports Prelude
begin

text \<open>
  The text operations of Python's \<^verbatim>\<open>str\<close> that the sources use. A string is a list of 8-bit
  characters, each read as the code point of the same number; code points above 255 are outside the
  model. Case mapping and white space follow Python on that range (\<^verbatim>\<open>"\ss".upper()\<close> is
  \<^verbatim>\<open>"SS"\<close>; the two letters whose upper case lies above 255 stay as they are, and no comparison
  of the sources tells them apart).
\<close>

abbreviation code_of :: "char \<Rightarrow> nat" where
  "code_of c \<equiv> of_char c"

abbreviation NL :: char where "NL \<equiv> CHR 0x0A"
abbreviation TAB :: char where "TAB \<equiv> CHR 0x09"
abbreviation CR :: char where "CR \<equiv> CHR 0x0D"
abbreviation BACKSLASH :: char where "BACKSLASH \<equiv> CHR 0x5C"
abbreviation QUOTE :: char where "QUOTE \<equiv> CHR 0x27"
abbreviation DQUOTE :: char where "DQUOTE \<equiv> CHR 0x22"

section \<open>Character classes\<close>

definition is_space :: "char \<Rightarrow> bool" where
  "is_space c = (let n = code_of c in (9 \<le> n \<and> n \<le> 13) \<or> (28 \<le> n \<and> n \<le> 32) \<or> n = 133 \<or> n = 160)"

definition is_digit :: "char \<Rightarrow> bool" where
  "is_digit c = (48 \<le> code_of c \<and> code_of c \<le> 57)"

definition is_lower_ascii :: "char \<Rightarrow> bool" where
  "is_lower_ascii c = (97 \<le> code_of c \<and> code_of c \<le> 122)"

definition is_upper_ascii :: "char \<Rightarrow> bool" where
  "is_upper_ascii c = (65 \<le> code_of c \<and> code_of c \<le> 90)"

definition is_alnum_ascii :: "char \<Rightarrow> bool" where
  "is_alnum_ascii c = (is_digit c \<or> is_lower_ascii c \<or> is_upper_ascii c)"

definition is_hex_lower :: "char \<Rightarrow> bool" where
  "is_hex_lower c = (is_digit c \<or> (97 \<le> code_of c \<and> code_of c \<le> 102))"

section \<open>Case\<close>

definition lower_char :: "char \<Rightarrow> char" where
  "lower_char c = (let n = code_of c
     in if (65 \<le> n \<and> n \<le> 90) \<or> (192 \<le> n \<and> n \<le> 222 \<and> n \<noteq> 215) then char_of (n + 32) else c)"

definition upper_char :: "char \<Rightarrow> string" where
  "upper_char c = (let n = code_of c
     in if n = 223 then ''SS''
        else if (97 \<le> n \<and> n \<le> 122) \<or> (224 \<le> n \<and> n \<le> 254 \<and> n \<noteq> 247) then [char_of (n - 32)]
        else [c])"

definition py_lower :: "string \<Rightarrow> string" where
  "py_lower s = map lower_char s"

definition py_upper :: "string \<Rightarrow> string" where
  "py_upper s = concat (map upper_char s)"

section \<open>Strip, split, join\<close>

definition py_lstrip :: "string \<Rightarrow> string" where
  "py_lstrip s = dropWhile is_space s"

definition py_rstrip :: "string \<Rightarrow> string" where
  "py_rstrip s = rev (dropWhile is_space (rev s))"

definition py_strip :: "string \<Rightarrow> string" where
  "py_strip s = py_rstrip (py_lstrip s)"

definition rstrip_char :: "char \<Rightarrow> string \<Rightarrow> string" where
  "rstrip_char c s = rev (dropWhile (\<lambda>x. x = c) (rev s))"

text \<open>\<^verbatim>\<open>s.split(c)\<close> for one separator character: always at least one part.\<close>

fun split_on :: "char \<Rightarrow> string \<Rightarrow> string list" where
  "split_on c [] = [[]]"
| "split_on c (x # xs) =
     (if x = c then [] # split_on c xs
      else (case split_on c xs of [] \<Rightarrow> [[x]] | p # ps \<Rightarrow> (x # p) # ps))"

text \<open>\<^verbatim>\<open>s.split()\<close>: the maximal runs of characters that are not white space.\<close>

definition split_ws :: "string \<Rightarrow> string list" where
  "split_ws s = (let f = (\<lambda>c (cur, acc). if is_space c
                            then (if cur = [] then ([], acc) else ([], cur # acc))
                            else (c # cur, acc));
                     (cur, acc) = foldr f s ([], [])
                 in if cur = [] then acc else cur # acc)"

fun join_with :: "string \<Rightarrow> string list \<Rightarrow> string" where
  "join_with sep [] = []"
| "join_with sep [x] = x"
| "join_with sep (x # y # ys) = x @ sep @ join_with sep (y # ys)"

definition starts_with :: "string \<Rightarrow> string \<Rightarrow> bool" where
  "starts_with s p = (take (length p) s = p)"

definition ends_with :: "string \<Rightarrow> string \<Rightarrow> bool" where
  "ends_with s p = (length p \<le> length s \<and> drop (length s - length p) s = p)"

definition replace_char :: "char \<Rightarrow> string \<Rightarrow> string \<Rightarrow> string" where
  "replace_char c r s = concat (map (\<lambda>x. if x = c then r else [x]) s)"

fun contains_sub :: "string \<Rightarrow> string \<Rightarrow> bool" where
  "contains_sub p [] = (p = [])"
| "contains_sub p (x # xs) = (starts_with (x # xs) p \<or> contains_sub p xs)"

text \<open>\<^verbatim>\<open>s.partition(c)\<close> and \<^verbatim>\<open>s.rpartition(c)\<close>: text before, whether found, text after.\<close>

definition partition_at :: "char \<Rightarrow> string \<Rightarrow> string \<times> bool \<times> string" where
  "partition_at c s = (if c \<in> set s
     then (takeWhile (\<lambda>x. x \<noteq> c) s, True, drop 1 (dropWhile (\<lambda>x. x \<noteq> c) s))
     else (s, False, []))"

definition rpartition_at :: "char \<Rightarrow> string \<Rightarrow> string \<times> bool \<times> string" where
  "rpartition_at c s = (if c \<in> set s
     then (rev (drop 1 (dropWhile (\<lambda>x. x \<noteq> c) (rev s))), True, rev (takeWhile (\<lambda>x. x \<noteq> c) (rev s)))
     else ([], False, s))"

text \<open>\<^verbatim>\<open>str.splitlines()\<close>.\<close>

definition line_break :: "char \<Rightarrow> bool" where
  "line_break c = (code_of c \<in> {10, 11, 12, 13, 28, 29, 30, 133})"

definition skip_lf :: "char \<Rightarrow> string \<Rightarrow> string" where
  "skip_lf c s = (case s of d # ds \<Rightarrow> if code_of c = 13 \<and> code_of d = 10 then ds else s | [] \<Rightarrow> [])"

function py_splitlines :: "string \<Rightarrow> string list" where
  "py_splitlines [] = []"
| "py_splitlines (c # cs) =
     (if line_break c then [] # py_splitlines (skip_lf c cs)
      else (case py_splitlines cs of [] \<Rightarrow> [[c]] | l # ls \<Rightarrow> (c # l) # ls))"
  by pat_completeness auto
termination
  by (relation "measure length") (auto simp: skip_lf_def split: list.split)

text \<open>\<^verbatim>\<open>str.isdigit()\<close>: the superscript digits count, \<^verbatim>\<open>int\<close> refuses them.\<close>

definition py_isdigit :: "string \<Rightarrow> bool" where
  "py_isdigit s = (s \<noteq> [] \<and> list_all (\<lambda>c. is_digit c \<or> code_of c \<in> {178, 179, 185}) s)"

section \<open>Numbers as text, and \<open>repr\<close>\<close>

definition digit_char :: "nat \<Rightarrow> char" where
  "digit_char n = char_of (48 + n)"

fun nat_text :: "nat \<Rightarrow> string" where
  "nat_text n = (if n < 10 then [digit_char n] else nat_text (n div 10) @ [digit_char (n mod 10)])"

declare nat_text.simps [simp del]

definition int_text :: "int \<Rightarrow> string" where
  "int_text i = (if i < 0 then CHR ''-'' # nat_text (nat (- i)) else nat_text (nat i))"

definition hex_digit :: "nat \<Rightarrow> char" where
  "hex_digit n = (if n < 10 then char_of (48 + n) else char_of (87 + n))"

definition hex2 :: "char \<Rightarrow> string" where
  "hex2 c = [hex_digit (code_of c div 16), hex_digit (code_of c mod 16)]"

definition is_printable :: "char \<Rightarrow> bool" where
  "is_printable c = (let n = code_of c in (32 \<le> n \<and> n \<le> 126) \<or> (161 \<le> n \<and> n \<noteq> 173))"

definition repr_char :: "char \<Rightarrow> char \<Rightarrow> string" where
  "repr_char q c =
     (if c = q \<or> c = BACKSLASH then [BACKSLASH, c]
      else if c = TAB then [BACKSLASH, CHR ''t'']
      else if c = NL then [BACKSLASH, CHR ''n'']
      else if c = CR then [BACKSLASH, CHR ''r'']
      else if is_printable c then [c]
      else [BACKSLASH, CHR ''x''] @ hex2 c)"

definition py_repr :: "string \<Rightarrow> string" where
  "py_repr s =
     (let q = (if QUOTE \<in> set s \<and> DQUOTE \<notin> set s then DQUOTE else QUOTE)
      in [q] @ concat (map (repr_char q) s) @ [q])"

section \<open>Facts\<close>

lemma starts_with_iff: "starts_with s p \<longleftrightarrow> (\<exists>r. s = p @ r)"
  by (auto simp: starts_with_def) (metis append_take_drop_id)

lemma ends_with_iff: "ends_with s p \<longleftrightarrow> (\<exists>r. s = r @ p)"
  by (auto simp: ends_with_def) (metis append_take_drop_id)

lemma contains_sub_iff: "contains_sub p s \<longleftrightarrow> (\<exists>a b. s = a @ p @ b)"
proof (induction s)
  case (Cons x s)
  show ?case
  proof
    assume "contains_sub p (x # s)"
    then consider "starts_with (x # s) p" | "contains_sub p s" by auto
    then show "\<exists>a b. x # s = a @ p @ b"
    proof cases
      case 1 then show ?thesis by (metis append_Nil starts_with_iff)
    next
      case 2 then show ?thesis using Cons.IH by (metis append_Cons)
    qed
  next
    assume "\<exists>a b. x # s = a @ p @ b"
    then obtain a b where ab: "x # s = a @ p @ b" by blast
    show "contains_sub p (x # s)"
    proof (cases a)
      case Nil
      then have "starts_with (x # s) p" using ab by (auto simp: starts_with_iff)
      then show ?thesis by simp
    next
      case (Cons y a') then show ?thesis using ab Cons.IH by auto
    qed
  qed
qed simp

lemma split_on_not_Nil [simp]: "split_on c s \<noteq> []"
  by (cases s) (auto split: list.splits)

lemma split_on_no_sep: "p \<in> set (split_on c s) \<Longrightarrow> c \<notin> set p"
  by (induction s arbitrary: p) (auto split: if_splits list.splits)

lemma join_with_Cons: "join_with sep ((x # a) # ps) = x # join_with sep (a # ps)"
  by (cases ps) auto

lemma join_split_on: "join_with [c] (split_on c s) = s"
proof (induction s)
  case (Cons x s)
  obtain p ps where p: "split_on c s = p # ps"
    using split_on_not_Nil by (metis neq_Nil_conv)
  then show ?case using Cons by (auto simp: join_with_Cons)
qed simp

lemma split_on_plain: "c \<notin> set s \<Longrightarrow> split_on c s = [s]"
  by (induction s) auto

lemma split_on_append: "c \<notin> set p \<Longrightarrow> split_on c (p @ c # s) = p # split_on c s"
  by (induction p) auto

lemma split_join:
  assumes "ps \<noteq> []" "\<forall>p \<in> set ps. c \<notin> set p"
  shows "split_on c (join_with [c] ps) = ps"
  using assms
proof (induction ps)
  case IC: (Cons p ps)
  show ?case
  proof (cases ps)
    case Nil
    then show ?thesis using IC.prems split_on_plain [of c p] by simp
  next
    case (Cons q qs)
    then have "join_with [c] (p # ps) = p @ c # join_with [c] ps" by simp
    moreover have "split_on c (p @ c # join_with [c] ps) = p # split_on c (join_with [c] ps)"
      using IC.prems by (intro split_on_append) simp
    ultimately show ?thesis using IC.IH IC.prems Cons by simp
  qed
qed simp

lemma join_inj:
  assumes "ps \<noteq> []" "qs \<noteq> []" "\<forall>p \<in> set ps. c \<notin> set p" "\<forall>p \<in> set qs. c \<notin> set p"
    and "join_with [c] ps = join_with [c] qs"
  shows "ps = qs"
  using split_join [OF assms(1,3)] split_join [OF assms(2,4)] unfolding assms(5) by (rule trans [OF sym])

lemma join_append:
  "ps \<noteq> [] \<Longrightarrow> qs \<noteq> [] \<Longrightarrow> join_with s (ps @ qs) = join_with s ps @ s @ join_with s qs"
proof (induction s ps rule: join_with.induct)
  case (2 sep x) then show ?case by (cases qs) auto
qed auto

lemma set_join: "set (join_with s ps) \<subseteq> set s \<union> (\<Union>p \<in> set ps. set p)"
  by (induction s ps rule: join_with.induct) auto

lemma lstrip_hd: "py_lstrip s = x # xs \<Longrightarrow> \<not> is_space x"
  unfolding py_lstrip_def using hd_dropWhile [of is_space s] by auto

lemma py_strip_shape:
  "py_strip s = [] \<or> (\<exists>x xs. py_strip s = x # xs \<and> \<not> is_space x)"
proof (cases "py_lstrip s")
  case (Cons x xs)
  then have "\<not> is_space x" by (rule lstrip_hd)
  then show ?thesis
    using Cons by (simp add: py_strip_def py_rstrip_def dropWhile_append3)
qed (simp add: py_strip_def py_rstrip_def)

lemma py_strip_idem [simp]: "py_strip (py_strip s) = py_strip s"
proof -
  have "py_lstrip (py_strip s) = py_strip s"
    using py_strip_shape [of s] by (auto simp: py_lstrip_def)
  moreover have "py_rstrip (py_strip s) = py_strip s"
    by (simp add: py_strip_def py_rstrip_def)
  ultimately show ?thesis by (simp add: py_strip_def [of "py_strip s"])
qed

lemma strip_plain: "\<forall>c \<in> set s. \<not> is_space c \<Longrightarrow> py_strip s = s"
proof -
  assume a: "\<forall>c \<in> set s. \<not> is_space c"
  have "dropWhile is_space xs = xs" if "set xs \<subseteq> set s" for xs
    using that a by (cases xs) auto
  then show ?thesis by (simp add: py_strip_def py_lstrip_def py_rstrip_def)
qed

lemma hex_lower_plain:
  assumes "list_all is_hex_lower s" shows "py_lower s = s" "py_strip s = s"
proof -
  have "is_hex_lower c \<Longrightarrow> lower_char c = c" for c
    by (auto simp: is_hex_lower_def is_digit_def lower_char_def is_upper_ascii_def)
  then show "py_lower s = s" using assms by (auto simp: py_lower_def list_all_iff intro: map_idI)
  have "is_hex_lower c \<Longrightarrow> \<not> is_space c" for c by (auto simp: is_hex_lower_def is_digit_def is_space_def)
  then show "py_strip s = s" using assms by (auto intro: strip_plain simp: list_all_iff)
qed

lemma hex2_lower: "list_all is_hex_lower (hex2 c)"
proof -
  have "is_hex_lower (hex_digit n)" if "n < 16" for n
    using that by (auto simp: hex_digit_def is_hex_lower_def is_digit_def)
  then show ?thesis by (simp add: hex2_def div_less_dividend less_mult_imp_div_less)
qed

end
