(* ===== verification/Codec.thy ===== *)
theory Codec
  imports PyText "HOL-Library.Word"
begin

unbundle bit_operations_syntax

text \<open>
  The codecs of the standard library that \<^verbatim>\<open>relay/oauth.py\<close> builds its tokens and its PKCE check
  from: \<^verbatim>\<open>hashlib.sha256\<close> (FIPS 180-4 on 32-bit words, wrap-around included), unpadded
  \<^verbatim>\<open>base64.urlsafe_b64encode\<close>, \<^verbatim>\<open>secrets.token_urlsafe\<close>, \<^verbatim>\<open>urllib.parse.quote_plus\<close>/\<^verbatim>\<open>urlencode\<close> and
  \<^verbatim>\<open>html.escape\<close>. Random bytes are an argument (the operating system's generator is not under src/).
\<close>

type_synonym byte = "8 word"

definition bytes_of :: "string \<Rightarrow> byte list" where
  "bytes_of s = map (\<lambda>c. word_of_nat (code_of c)) s"

section \<open>SHA-256\<close>

text \<open>
  The constants of the standard are the first 32 bits of the fractional parts of the cube roots of
  the first 64 primes, and of the square roots of the first eight. \<open>root_floor e n\<close> finds the
  \<open>e\<close>-th root of \<open>n\<close>, rounded down, bit by bit; 35 bits are enough for the roots taken here. The
  conversion to a 32-bit word drops the integer part.
\<close>

definition root_floor :: "nat \<Rightarrow> int \<Rightarrow> int" where
  "root_floor e n = fold (\<lambda>k r. if (r + 2 ^ k) ^ e \<le> n then r + 2 ^ k else r) (rev [0..<35]) 0"

definition first_primes :: "int list" where
  "first_primes = map int (filter (\<lambda>n. list_all (\<lambda>d. n mod d \<noteq> 0) [2..<n]) [2..<312])"

definition sha_k :: "32 word list" where
  "sha_k = map (\<lambda>p. word_of_int (root_floor 3 (p * 2 ^ 96))) first_primes"

definition sha_init :: "32 word list" where
  "sha_init = map (\<lambda>p. word_of_int (root_floor 2 (p * 2 ^ 64))) (take 8 first_primes)"

definition rotr :: "nat \<Rightarrow> 32 word \<Rightarrow> 32 word" where
  "rotr n x = (drop_bit n x) OR (push_bit (32 - n) x)"

definition be_bytes64 :: "nat \<Rightarrow> byte list" where
  "be_bytes64 n = map (\<lambda>k. word_of_int (int n div 2 ^ k)) [56, 48, 40, 32, 24, 16, 8, 0]"

definition sha_pad :: "byte list \<Rightarrow> byte list" where
  "sha_pad m = m @ [0x80] @ replicate ((119 - length m mod 64) mod 64) 0 @ be_bytes64 (8 * length m)"

definition be_word32 :: "byte list \<Rightarrow> 32 word" where
  "be_word32 bs = foldl (\<lambda>a b. push_bit 8 a OR ucast b) 0 bs"

fun chunks :: "nat \<Rightarrow> 'a list \<Rightarrow> 'a list list" where
  "chunks n xs = (if n = 0 \<or> xs = [] then [] else take n xs # chunks n (drop n xs))"

declare chunks.simps [simp del]

text \<open>The message schedule is kept newest word first, so that \<open>W (t - 2)\<close> is \<open>w ! 1\<close>.\<close>

definition schedule_next :: "32 word list \<Rightarrow> 32 word list" where
  "schedule_next w =
     (let w15 = w ! 14; w2 = w ! 1;
          s0 = (rotr 7 w15 XOR rotr 18 w15) XOR drop_bit 3 w15;
          s1 = (rotr 17 w2 XOR rotr 19 w2) XOR drop_bit 10 w2
      in (w ! 15 + s0 + w ! 6 + s1) # w)"

definition sha_schedule :: "byte list \<Rightarrow> 32 word list" where
  "sha_schedule blk = rev ((schedule_next ^^ 48) (rev (map be_word32 (chunks 4 blk))))"

fun sha_round :: "32 word list \<Rightarrow> 32 word \<times> 32 word \<Rightarrow> 32 word list" where
  "sha_round [a, b, c, d, e, f, g, h] (k, w) =
     (let s1 = (rotr 6 e XOR rotr 11 e) XOR rotr 25 e;
          ch = (e AND f) XOR (NOT e AND g);
          t1 = h + s1 + ch + k + w;
          s0 = (rotr 2 a XOR rotr 13 a) XOR rotr 22 a;
          maj = ((a AND b) XOR (a AND c)) XOR (b AND c);
          t2 = s0 + maj
      in [t1 + t2, a, b, c, d + t1, e, f, g])"
| "sha_round st _ = st"

definition sha_block :: "32 word list \<Rightarrow> byte list \<Rightarrow> 32 word list" where
  "sha_block st blk = map2 (+) st (foldl sha_round st (zip sha_k (sha_schedule blk)))"

definition word_bytes :: "32 word \<Rightarrow> byte list" where
  "word_bytes x = [ucast (drop_bit 24 x), ucast (drop_bit 16 x), ucast (drop_bit 8 x), ucast x]"

definition sha256 :: "byte list \<Rightarrow> byte list" where
  "sha256 m = concat (map word_bytes (foldl sha_block sha_init (chunks 64 (sha_pad m))))"

definition hex_text :: "byte list \<Rightarrow> string" where
  "hex_text bs = concat (map (\<lambda>b. hex2 (char_of (unat b))) bs)"

section \<open>Base64, URL-safe alphabet, no padding\<close>

definition b64_char :: "nat \<Rightarrow> char" where
  "b64_char n =
     (if n < 26 then char_of (65 + n)
      else if n < 52 then char_of (71 + n)
      else if n < 62 then char_of (n - 4)
      else if n = 62 then CHR ''-'' else CHR ''_'')"

fun b64url :: "byte list \<Rightarrow> string" where
  "b64url [] = []"
| "b64url [a] = [b64_char (unat a div 4), b64_char (unat a mod 4 * 16)]"
| "b64url [a, b] = [b64_char (unat a div 4), b64_char (unat a mod 4 * 16 + unat b div 16),
     b64_char (unat b mod 16 * 4)]"
| "b64url (a # b # c # bs) =
     [b64_char (unat a div 4), b64_char (unat a mod 4 * 16 + unat b div 16),
      b64_char (unat b mod 16 * 4 + unat c div 64), b64_char (unat c mod 64)] @ b64url bs"

definition new_token :: "string \<Rightarrow> byte list \<Rightarrow> string" where
  "new_token prefix bs = prefix @ ''_'' @ b64url bs"

definition is_ascii :: "string \<Rightarrow> bool" where
  "is_ascii s = (\<forall>c \<in> set s. code_of c < 128)"

definition pkce_s256 :: "string \<Rightarrow> string" where
  "pkce_s256 verifier = b64url (sha256 (bytes_of verifier))"

section \<open>URL quoting and HTML escaping\<close>

definition hex_upper :: "nat \<Rightarrow> char" where
  "hex_upper n = (if n < 10 then char_of (48 + n) else char_of (55 + n))"

definition utf8 :: "char \<Rightarrow> nat list" where
  "utf8 c = (let n = code_of c in if n < 128 then [n] else [192 + n div 64, 128 + n mod 64])"

definition url_safe :: "char \<Rightarrow> bool" where
  "url_safe c = (is_alnum_ascii c \<or> c \<in> set ''_.-~'')"

definition quote_plus_char :: "char \<Rightarrow> string" where
  "quote_plus_char c =
     (if c = CHR '' '' then ''+''
      else if url_safe c then [c]
      else concat (map (\<lambda>n. [CHR 0x25, hex_upper (n div 16), hex_upper (n mod 16)]) (utf8 c)))"

definition quote_plus :: "string \<Rightarrow> string" where
  "quote_plus s = concat (map quote_plus_char s)"

definition urlencode :: "(string \<times> string) list \<Rightarrow> string" where
  "urlencode q = join_with ''&'' (map (\<lambda>(k, v). quote_plus k @ ''='' @ quote_plus v) q)"

definition html_escape_char :: "char \<Rightarrow> string" where
  "html_escape_char c =
     (if c = CHR ''&'' then ''&amp;'' else if c = CHR ''<'' then ''&lt;''
      else if c = CHR ''>'' then ''&gt;'' else if c = DQUOTE then ''&quot;''
      else if c = QUOTE then ''&#x27;'' else [c])"

definition html_escape :: "string \<Rightarrow> string" where
  "html_escape s = concat (map html_escape_char s)"

lemma html_escape_safe: "c \<in> set (html_escape s) \<Longrightarrow> c \<notin> {CHR ''<'', CHR ''>'', DQUOTE, QUOTE}"
  by (auto simp: html_escape_def html_escape_char_def split: if_splits)

lemma new_token_prefix: "starts_with (new_token p bs) (p @ ''_'')"
  by (simp add: new_token_def starts_with_iff)

lemma new_token_nonempty [simp]: "new_token p bs \<noteq> []"
  by (simp add: new_token_def)

lemma new_token_kind:
  assumes "new_token p bs = new_token q cs" "CHR ''_'' \<notin> set p" "CHR ''_'' \<notin> set q"
  shows "p = q"
proof -
  have "takeWhile (\<lambda>c. c \<noteq> CHR ''_'') (new_token r ds) = r" if "CHR ''_'' \<notin> set r" for r ds
    using that by (induction r) (auto simp: new_token_def)
  then show ?thesis using assms by metis
qed

end
