(* ===== verification/IpAddr.thy ===== *)
theory IpAddr
  imports PyText
begin

text \<open>
  \<^verbatim>\<open>ipaddress.ip_address\<close> of the standard library (CPython 3.11), as \<^verbatim>\<open>relay/config.py\<close> uses it: parsing
  of dotted IPv4 text and of IPv6 text with \<^verbatim>\<open>::\<close>, an IPv4 suffix or a scope id, the address classes
  (loopback, private, link-local, multicast, reserved, unspecified) and the normalised text of an
  address. An address is its integer value.
\<close>

datatype ip = IPv4 int | IPv6 int "string option"

definition digits_value :: "string \<Rightarrow> int" where
  "digits_value s = foldl (\<lambda>a c. 10 * a + int (code_of c - 48)) 0 s"

definition parse_octet :: "string \<Rightarrow> int option" where
  "parse_octet s =
     (if s = [] \<or> \<not> list_all is_digit s then None
      else if length s > 3 then None
      else if s \<noteq> ''0'' \<and> hd s = CHR ''0'' then None
      else if digits_value s > 255 then None
      else Some (digits_value s))"

definition ipv4_int :: "string \<Rightarrow> int option" where
  "ipv4_int s =
     (case map parse_octet (split_on CHR ''.'' s) of
        [Some a, Some b, Some c, Some d] \<Rightarrow> Some (((a * 256 + b) * 256 + c) * 256 + d)
      | _ \<Rightarrow> None)"

definition is_hex :: "char \<Rightarrow> bool" where
  "is_hex c = (is_hex_lower c \<or> (65 \<le> code_of c \<and> code_of c \<le> 70))"

definition hex_value :: "char \<Rightarrow> int" where
  "hex_value c = (let n = int (code_of c)
     in if is_digit c then n - 48 else if n \<le> 70 then n - 55 else n - 87)"

definition parse_hextet :: "string \<Rightarrow> int option" where
  "parse_hextet s =
     (if s = [] \<or> length s > 4 \<or> \<not> list_all is_hex s then None
      else Some (foldl (\<lambda>a c. 16 * a + hex_value c) 0 s))"

fun hextets_value :: "int \<Rightarrow> string list \<Rightarrow> int option" where
  "hextets_value acc [] = Some acc"
| "hextets_value acc (p # ps) =
     (case parse_hextet p of None \<Rightarrow> None | Some h \<Rightarrow> hextets_value (acc * 65536 + h) ps)"

fun hex_nat :: "nat \<Rightarrow> string" where
  "hex_nat n = (if n < 16 then [hex_digit n] else hex_nat (n div 16) @ [hex_digit (n mod 16)])"

declare hex_nat.simps [simp del]

definition ipv6_parts :: "string \<Rightarrow> string list option" where
  "ipv6_parts s =
     (let parts = split_on CHR '':'' s
      in if s = [] \<or> length parts < 3 then None
         else if CHR ''.'' \<in> set (last parts) then
           (case ipv4_int (last parts) of
              None \<Rightarrow> None
            | Some v \<Rightarrow> Some (butlast parts @ [hex_nat (nat (v div 65536)), hex_nat (nat (v mod 65536))]))
         else Some parts)"

definition ipv6_int :: "string \<Rightarrow> int option" where
  "ipv6_int s =
     (case ipv6_parts s of
        None \<Rightarrow> None
      | Some parts \<Rightarrow>
          if length parts > 9 then None
          else (case filter (\<lambda>i. parts ! i = []) [1..<length parts - 1] of
                  [] \<Rightarrow> (if length parts \<noteq> 8 \<or> hd parts = [] \<or> last parts = [] then None
                          else hextets_value 0 parts)
                | [i] \<Rightarrow>
                    (let hi = (if hd parts = [] then int i - 1 else int i);
                         lo = (if last parts = [] then int (length parts - i - 1) - 1
                               else int (length parts - i - 1));
                         skipped = 8 - (hi + lo)
                     in if (hd parts = [] \<and> hi \<noteq> 0) \<or> (last parts = [] \<and> lo \<noteq> 0) \<or> skipped < 1 then None
                        else (case hextets_value 0 (take (nat hi) parts) of
                                None \<Rightarrow> None
                              | Some hival \<Rightarrow> hextets_value (hival * 65536 ^ nat skipped)
                                  (drop (length parts - nat lo) parts)))
                | _ \<Rightarrow> None))"

definition ip_address :: "string \<Rightarrow> ip option" where
  "ip_address s =
     (if CHR ''/'' \<in> set s then None
      else (case ipv4_int s of
              Some v \<Rightarrow> Some (IPv4 v)
            | None \<Rightarrow>
                (case partition_at CHR 0x25 s of
                   (addr, sep, scope) \<Rightarrow>
                     if sep \<and> (scope = [] \<or> CHR 0x25 \<in> set scope) then None
                     else (case ipv6_int addr of
                             None \<Rightarrow> None
                           | Some v \<Rightarrow> Some (IPv6 v (if sep then Some scope else None))))))"

section \<open>Address classes\<close>

definition in_net :: "nat \<Rightarrow> int \<Rightarrow> int \<times> nat \<Rightarrow> bool" where
  "in_net width v net = (let shift = 2 ^ (width - snd net) in v div shift = fst net div shift)"

definition net4 :: "int \<Rightarrow> int \<Rightarrow> int \<Rightarrow> int \<Rightarrow> nat \<Rightarrow> int \<times> nat" where
  "net4 a b c d plen = (((a * 256 + b) * 256 + c) * 256 + d, plen)"

definition net6 :: "int list \<Rightarrow> nat \<Rightarrow> int \<times> nat" where
  "net6 hs plen = (foldl (\<lambda>a h. a * 65536 + h) 0 hs * 65536 ^ (8 - length hs), plen)"

definition private_nets4 :: "(int \<times> nat) list" where
  "private_nets4 = [net4 0 0 0 0 8, net4 10 0 0 0 8, net4 127 0 0 0 8, net4 169 254 0 0 16,
     net4 172 16 0 0 12, net4 192 0 0 0 24, net4 192 0 0 170 31, net4 192 0 2 0 24,
     net4 192 168 0 0 16, net4 198 18 0 0 15, net4 198 51 100 0 24, net4 203 0 113 0 24,
     net4 240 0 0 0 4, net4 255 255 255 255 32]"

definition private_except4 :: "(int \<times> nat) list" where
  "private_except4 = [net4 192 0 0 9 32, net4 192 0 0 10 32]"

definition private_nets6 :: "(int \<times> nat) list" where
  "private_nets6 = [net6 [0, 0, 0, 0, 0, 0, 0, 1] 128, net6 [] 128, net6 [0, 0, 0, 0, 0, 0xffff] 96,
     net6 [0x64, 0xff9b, 1] 48, net6 [0x100] 64, net6 [0x2001] 23, net6 [0x2001, 0xdb8] 32,
     net6 [0x2002] 16, net6 [0xfc00] 7, net6 [0xfe80] 10]"

definition private_except6 :: "(int \<times> nat) list" where
  "private_except6 = [net6 [0x2001, 1, 0, 0, 0, 0, 0, 1] 128, net6 [0x2001, 1, 0, 0, 0, 0, 0, 2] 128,
     net6 [0x2001, 3] 32, net6 [0x2001, 4, 0x112] 48, net6 [0x2001, 0x20] 28, net6 [0x2001, 0x30] 28]"

definition reserved_nets6 :: "(int \<times> nat) list" where
  "reserved_nets6 = [net6 [] 8, net6 [0x100] 8, net6 [0x200] 7, net6 [0x400] 6, net6 [0x800] 5,
     net6 [0x1000] 4, net6 [0x4000] 3, net6 [0x6000] 3, net6 [0x8000] 3, net6 [0xa000] 3,
     net6 [0xc000] 3, net6 [0xe000] 4, net6 [0xf000] 5, net6 [0xf800] 6, net6 [0xfe00] 9]"

definition is_private4 :: "int \<Rightarrow> bool" where
  "is_private4 v = (list_ex (in_net 32 v) private_nets4 \<and> \<not> list_ex (in_net 32 v) private_except4)"

fun is_loopback :: "ip \<Rightarrow> bool" where
  "is_loopback (IPv4 v) = in_net 32 v (net4 127 0 0 0 8)"
| "is_loopback (IPv6 v _) = (v = 1)"

fun is_private :: "ip \<Rightarrow> bool" where
  "is_private (IPv4 v) = is_private4 v"
| "is_private (IPv6 v _) =
     (if v div 2 ^ 32 = 0xffff then is_private4 (v mod 2 ^ 32)
      else list_ex (in_net 128 v) private_nets6 \<and> \<not> list_ex (in_net 128 v) private_except6)"

fun is_link_local :: "ip \<Rightarrow> bool" where
  "is_link_local (IPv4 v) = in_net 32 v (net4 169 254 0 0 16)"
| "is_link_local (IPv6 v _) = in_net 128 v (net6 [0xfe80] 10)"

fun is_multicast :: "ip \<Rightarrow> bool" where
  "is_multicast (IPv4 v) = in_net 32 v (net4 224 0 0 0 4)"
| "is_multicast (IPv6 v _) = in_net 128 v (net6 [0xff00] 8)"

fun is_reserved :: "ip \<Rightarrow> bool" where
  "is_reserved (IPv4 v) = in_net 32 v (net4 240 0 0 0 4)"
| "is_reserved (IPv6 v _) = list_ex (in_net 128 v) reserved_nets6"

fun is_unspecified :: "ip \<Rightarrow> bool" where
  "is_unspecified (IPv4 v) = (v = 0)"
| "is_unspecified (IPv6 v _) = (v = 0)"

section \<open>Normalised text\<close>

definition ipv4_text :: "int \<Rightarrow> string" where
  "ipv4_text v = join_with ''.'' (map (\<lambda>k. int_text (v div 256 ^ k mod 256)) [3, 2, 1, 0])"

text \<open>The first longest run of zero hextets: start and length (the loop of \<^verbatim>\<open>_compress_hextets\<close>).\<close>

definition zero_run_step :: "(nat \<times> nat) \<times> nat \<times> nat \<Rightarrow> nat \<times> int \<Rightarrow> (nat \<times> nat) \<times> nat \<times> nat" where
  "zero_run_step st p =
     (let (best, start, len) = st; (idx, h) = p
      in if h = 0
         then (let start' = (if len = 0 then idx else start); len' = len + 1
               in (if len' > snd best then (start', len') else best, start', len'))
         else (best, 0, 0))"

definition best_zero_run :: "int list \<Rightarrow> nat \<times> nat" where
  "best_zero_run hs = fst (foldl zero_run_step ((0, 0), 0, 0) (zip [0..<length hs] hs))"

definition ipv6_text :: "int \<Rightarrow> string" where
  "ipv6_text v =
     (let hs = map (\<lambda>k. v div 65536 ^ k mod 65536) [7, 6, 5, 4, 3, 2, 1, 0];
          ts = map (\<lambda>h. hex_nat (nat h)) hs;
          (start, len) = best_zero_run hs;
          stop = start + len
      in if len > 1
         then join_with '':'' ((if start = 0 then [[]] else []) @ take start ts @ [[]] @ drop stop ts
                @ (if stop = 8 then [[]] else []))
         else join_with '':'' ts)"

fun ip_text :: "ip \<Rightarrow> string" where
  "ip_text (IPv4 v) = ipv4_text v"
| "ip_text (IPv6 v None) = ipv6_text v"
| "ip_text (IPv6 v (Some scope)) = (if scope = [] then ipv6_text v else ipv6_text v @ CHR 0x25 # scope)"

end
