(* ===== verification/Url.thy ===== *)
theory Url
  imports IpAddr
begin

text \<open>
  \<^verbatim>\<open>urllib.parse.urlparse\<close> and \<^verbatim>\<open>urlunparse\<close> (CPython 3.11) and the derived attributes \<^verbatim>\<open>hostname\<close>,
  \<^verbatim>\<open>port\<close>, \<^verbatim>\<open>username\<close>, \<^verbatim>\<open>password\<close>. \<open>None\<close> of \<open>urlsplit\<close> is the \<^verbatim>\<open>ValueError\<close> for a malformed
  bracketed host; the NFKC check of a non-ASCII authority is outside the model.
\<close>

record url =
  scheme :: string
  netloc :: string
  upath :: string
  uparams :: string
  uquery :: string
  fragment :: string

definition scheme_char :: "char \<Rightarrow> bool" where
  "scheme_char c = (is_alnum_ascii c \<or> c \<in> set ''+-.'')"

definition is_c0_or_space :: "char \<Rightarrow> bool" where
  "is_c0_or_space c = (code_of c \<le> 32)"

definition split_netloc :: "string \<Rightarrow> string \<times> string" where
  "split_netloc s = (takeWhile (\<lambda>c. c \<notin> set ''/?#'') s, dropWhile (\<lambda>c. c \<notin> set ''/?#'') s)"

text \<open>\<^verbatim>\<open>_check_bracketed_host\<close>: an IPvFuture literal or an IPv6 address.\<close>

definition ipvfuture_ok :: "string \<Rightarrow> bool" where
  "ipvfuture_ok h =
     (let body = drop 1 h; hex = takeWhile is_hex body; rest = dropWhile is_hex body
      in hex \<noteq> [] \<and> length rest \<ge> 2 \<and> hd rest = CHR ''.'' \<and> NL \<notin> set (tl rest))"

definition bracketed_host_ok :: "string \<Rightarrow> bool" where
  "bracketed_host_ok h =
     (if starts_with h ''v'' then ipvfuture_ok h
      else (case ip_address h of Some (IPv6 _ _) \<Rightarrow> True | _ \<Rightarrow> False))"

definition brackets_ok :: "string \<Rightarrow> bool" where
  "brackets_ok n =
     (let l = CHR ''['' \<in> set n; r = CHR '']'' \<in> set n
      in if l \<noteq> r then False
         else if l then bracketed_host_ok (fst (partition_at CHR '']'' (snd (snd (partition_at CHR ''['' n)))))
         else True)"

definition urlsplit :: "string \<Rightarrow> url option" where
  "urlsplit raw =
     (let u0 = filter (\<lambda>c. c \<notin> {TAB, CR, NL}) (dropWhile is_c0_or_space raw);
          (pre, colon, post) = partition_at CHR '':'' u0;
          has_scheme = colon \<and> pre \<noteq> [] \<and> (is_lower_ascii (hd pre) \<or> is_upper_ascii (hd pre))
            \<and> list_all scheme_char pre;
          sch = (if has_scheme then py_lower pre else []);
          u1 = (if has_scheme then post else u0);
          has_netloc = starts_with u1 ''//'';
          (net, u2) = (if has_netloc then split_netloc (drop 2 u1) else ([], u1))
      in if has_netloc \<and> \<not> brackets_ok net then None
         else (let (u3, _, frag) = partition_at CHR ''#'' u2;
                   (u4, _, q) = partition_at CHR ''?'' u3
               in Some \<lparr>scheme = sch, netloc = net, upath = u4, uparams = [], uquery = q, fragment = frag\<rparr>))"

definition uses_params :: "string list" where
  "uses_params = [[], ''ftp'', ''hdl'', ''prospero'', ''http'', ''imap'', ''https'', ''shttp'', ''rtsp'',
     ''rtsps'', ''rtspu'', ''sip'', ''sips'', ''mms'', ''sftp'', ''tel'']"

definition uses_netloc :: "string list" where
  "uses_netloc = [[], ''ftp'', ''http'', ''gopher'', ''nntp'', ''telnet'', ''imap'', ''wais'', ''file'', ''mms'',
     ''https'', ''shttp'', ''snews'', ''prospero'', ''rtsp'', ''rtsps'', ''rtspu'', ''rsync'', ''svn'', ''svn+ssh'',
     ''sftp'', ''nfs'', ''git'', ''git+ssh'', ''ws'', ''wss'']"

text \<open>\<^verbatim>\<open>_splitparams\<close>: the text after the first \<^verbatim>\<open>;\<close> of the last path segment.\<close>

definition split_params :: "string \<Rightarrow> string \<times> string" where
  "split_params p =
     (case rpartition_at CHR ''/'' p of
        (dir, slash, seg) \<Rightarrow>
          (case partition_at CHR '';'' seg of
             (a, semi, b) \<Rightarrow> if semi then (dir @ (if slash then ''/'' else []) @ a, b) else (p, [])))"

definition urlparse :: "string \<Rightarrow> url option" where
  "urlparse raw =
     (case urlsplit raw of
        None \<Rightarrow> None
      | Some u \<Rightarrow>
          if scheme u \<in> set uses_params \<and> CHR '';'' \<in> set (upath u)
          then Some (u\<lparr>upath := fst (split_params (upath u)), uparams := snd (split_params (upath u))\<rparr>)
          else Some u)"

definition urlunparse :: "url \<Rightarrow> string" where
  "urlunparse u =
     (let p0 = (if uparams u \<noteq> [] then upath u @ '';'' @ uparams u else upath u);
          p1 = (if netloc u \<noteq> [] \<or> (scheme u \<noteq> [] \<and> scheme u \<in> set uses_netloc) \<or> starts_with p0 ''//''
                then ''//'' @ netloc u @ (if p0 \<noteq> [] \<and> hd p0 \<noteq> CHR ''/'' then CHR ''/'' # p0 else p0)
                else p0);
          p2 = (if scheme u \<noteq> [] then scheme u @ '':'' @ p1 else p1);
          p3 = (if uquery u \<noteq> [] then p2 @ ''?'' @ uquery u else p2)
      in if fragment u \<noteq> [] then p3 @ ''#'' @ fragment u else p3)"

definition hostinfo :: "url \<Rightarrow> string \<times> string" where
  "hostinfo u =
     (let hp = snd (snd (rpartition_at CHR ''@'' (netloc u)));
          (_, br, bracketed) = partition_at CHR ''['' hp
      in if br
         then (let (h, _, rest) = partition_at CHR '']'' bracketed;
                   (_, _, port) = partition_at CHR '':'' rest
               in (h, port))
         else (let (h, _, port) = partition_at CHR '':'' hp in (h, port)))"

definition hostname :: "url \<Rightarrow> string option" where
  "hostname u =
     (let h = fst (hostinfo u)
      in if h = [] then None
         else (case partition_at CHR 0x25 h of
                 (a, pct, zone) \<Rightarrow> Some (py_lower a @ (if pct then CHR 0x25 # zone else []))))"

definition username :: "url \<Rightarrow> string option" where
  "username u =
     (case rpartition_at CHR ''@'' (netloc u) of
        (info, have, _) \<Rightarrow> if have then Some (fst (partition_at CHR '':'' info)) else None)"

definition password :: "url \<Rightarrow> string option" where
  "password u =
     (case rpartition_at CHR ''@'' (netloc u) of
        (info, have, _) \<Rightarrow>
          if have then (case partition_at CHR '':'' info of (_, hp, p) \<Rightarrow> if hp then Some p else None)
          else None)"

text \<open>\<^verbatim>\<open>port\<close>: \<open>Inl ()\<close> is the \<^verbatim>\<open>ValueError\<close> of a port that is no number or out of range.\<close>

definition port :: "url \<Rightarrow> unit + int option" where
  "port u =
     (let p = snd (hostinfo u)
      in if p = [] then Inr None
         else if \<not> list_all is_digit p then Inl ()
         else if digits_value p > 65535 then Inl ()
         else Inr (Some (digits_value p)))"

end
