(* ===== verification/Config.thy ===== *)
theory Config
  imports Url
begin

text \<open>
  \<^verbatim>\<open>relay/config.py\<close>: the relay's configuration record and the SSRF-resistant validation of the upstream
  URL. The environment is a dict of strings. Name resolution (\<^verbatim>\<open>socket.getaddrinfo\<close>) is the argument
  \<open>resolve\<close>: \<open>None\<close> for \<^verbatim>\<open>gaierror\<close>, otherwise the list of resolved addresses as text. \<open>ConfigError\<close>
  is the module's own exception, \<open>UrlValueError\<close> the plain \<^verbatim>\<open>ValueError\<close> that \<^verbatim>\<open>urlparse\<close> raises on a
  malformed bracketed host, which the module does not convert.
\<close>

datatype config_error = ConfigError string | UrlValueError

datatype pyfloat = Finite rat | PosInf | NegInf | NaN

record relay_config =
  bind_host :: string
  bind_port :: int
  upstream_url :: string
  upstream_connect_ips :: "string list"
  upstream_token :: "string option"
  allow_loopback_upstream :: bool
  mock_plugin_token :: string
  request_timeout_s :: pyfloat
  auth_mode :: string
  public_base_url :: "string option"
  resource_url :: "string option"
  owner_approval_secret :: "string option"
  allow_non_loopback_bind :: bool
  oauth_state_path :: "string option"
  oauth_allow_ephemeral :: bool

record validated_upstream =
  vu_url :: string
  vu_hostname :: string
  vu_connect_ips :: "string list"

section \<open>Numbers from text: \<open>int(s)\<close> and \<open>float(s)\<close>\<close>

text \<open>Underscores are allowed between two digits only; \<open>None\<close> otherwise.\<close>

fun drop_underscores :: "bool \<Rightarrow> string \<Rightarrow> string option" where
  "drop_underscores prev [] = Some []"
| "drop_underscores prev (c # cs) =
     (if c = CHR ''_'' then
        (if prev \<and> cs \<noteq> [] \<and> is_digit (hd cs) then drop_underscores False cs else None)
      else map_option (Cons c) (drop_underscores (is_digit c) cs))"

definition sign_split :: "string \<Rightarrow> bool \<times> string" where
  "sign_split s = (case s of
     c # cs \<Rightarrow> if c = CHR ''-'' then (True, cs) else if c = CHR ''+'' then (False, cs) else (False, s)
   | [] \<Rightarrow> (False, []))"

definition py_int :: "string \<Rightarrow> int option" where
  "py_int s =
     (case sign_split (py_strip s) of
        (neg, body) \<Rightarrow>
          (case drop_underscores False body of
             None \<Rightarrow> None
           | Some ds \<Rightarrow>
               if ds = [] \<or> \<not> list_all is_digit ds then None
               else Some (if neg then - digits_value ds else digits_value ds)))"

definition decimal_value :: "string \<Rightarrow> string \<Rightarrow> int \<Rightarrow> rat" where
  "decimal_value ip fp e =
     (let m = rat_of_int (digits_value (ip @ fp)); k = e - int (length fp)
      in if k \<ge> 0 then m * 10 ^ nat k else m / 10 ^ nat (- k))"

definition parse_number :: "string \<Rightarrow> rat option" where
  "parse_number s =
     (let (mant, has_e, ex) = partition_at CHR ''e'' (py_lower s);
          (ip, _, fp) = partition_at CHR ''.'' mant;
          (eneg, ed) = sign_split ex
      in if \<not> list_all is_digit ip \<or> \<not> list_all is_digit fp \<or> (ip = [] \<and> fp = []) then None
         else if has_e \<and> (ed = [] \<or> \<not> list_all is_digit ed) then None
         else Some (decimal_value ip fp
                (if has_e then (if eneg then - digits_value ed else digits_value ed) else 0)))"

definition py_float :: "string \<Rightarrow> pyfloat option" where
  "py_float s =
     (case sign_split (py_strip s) of
        (neg, body) \<Rightarrow>
          (let w = py_lower body
           in if w = ''inf'' \<or> w = ''infinity'' then Some (if neg then NegInf else PosInf)
              else if w = ''nan'' then Some NaN
              else (case drop_underscores False body of
                      None \<Rightarrow> None
                    | Some ds \<Rightarrow> map_option (\<lambda>r. Finite (if neg then - r else r)) (parse_number ds))))"

text \<open>\<^verbatim>\<open>x <= 0\<close> on floats: false for NaN.\<close>

fun float_nonpos :: "pyfloat \<Rightarrow> bool" where
  "float_nonpos (Finite r) = (r \<le> 0)"
| "float_nonpos PosInf = False"
| "float_nonpos NegInf = True"
| "float_nonpos NaN = False"

section \<open>Upstream address checks\<close>

definition strip_brackets :: "string \<Rightarrow> string" where
  "strip_brackets s = (let b = (\<lambda>c. c \<in> set ''[]'') in rev (dropWhile b (rev (dropWhile b s))))"

definition is_loopback_host :: "string \<Rightarrow> bool" where
  "is_loopback_host hn =
     (let host = py_lower (strip_brackets hn)
      in if host \<in> {''localhost'', ''127.0.0.1'', ''::1''} then True
         else (case ip_address host of None \<Rightarrow> False | Some ip \<Rightarrow> is_loopback ip))"

definition assert_connect_ip_allowed :: "string \<Rightarrow> bool \<Rightarrow> config_error + string" where
  "assert_connect_ip_allowed ip_str allow_loopback =
     (case ip_address ip_str of
        None \<Rightarrow> Inl (ConfigError (''invalid upstream connect address: '' @ ip_str))
      | Some ip \<Rightarrow>
          if is_loopback ip then
            (if \<not> allow_loopback
             then Inl (ConfigError ''loopback upstream requires DRLINK_RELAY_ALLOW_LOOPBACK_UPSTREAM=1'')
             else Inr (ip_text ip))
          else if is_private ip \<or> is_link_local ip \<or> is_multicast ip \<or> is_reserved ip \<or> is_unspecified ip
          then Inl (ConfigError (''upstream resolves to a non-public address which is blocked: '' @ ip_text ip))
          else Inr (ip_text ip))"

definition blocked_hostnames :: "string set" where
  "blocked_hostnames = {''metadata.google.internal'', ''metadata''}"

fun collect_allowed :: "bool \<Rightarrow> string list \<Rightarrow> string list \<Rightarrow> config_error + string list" where
  "collect_allowed lb acc [] = Inr acc"
| "collect_allowed lb acc (a # as) =
     bindE (assert_connect_ip_allowed a lb) (\<lambda>ip_str.
       collect_allowed lb (if ip_str \<in> set acc then acc else acc @ [ip_str]) as)"

definition resolve_allowed_ips ::
    "(string \<Rightarrow> string list option) \<Rightarrow> string \<Rightarrow> bool \<Rightarrow> config_error + string list" where
  "resolve_allowed_ips resolve hn allow_loopback =
     (if hn = [] then Inl (ConfigError ''upstream URL hostname is required'')
      else (let host = py_lower (strip_brackets hn);
                unresolved = ConfigError (''upstream hostname cannot be resolved: '' @ host)
            in if host \<in> blocked_hostnames then Inl (ConfigError ''upstream hostname is blocked'')
               else (case resolve host of
                       None \<Rightarrow> Inl unresolved
                     | Some infos \<Rightarrow>
                         if infos = [] then Inl unresolved
                         else bindE (collect_allowed allow_loopback [] infos) (\<lambda>allowed.
                                if allowed = [] then Inl unresolved else Inr allowed))))"

definition opt_truthy :: "string option \<Rightarrow> bool" where
  "opt_truthy x = (case x of None \<Rightarrow> False | Some s \<Rightarrow> s \<noteq> [])"

definition validate_upstream_binding ::
    "(string \<Rightarrow> string list option) \<Rightarrow> string \<Rightarrow> bool \<Rightarrow> config_error + validated_upstream" where
  "validate_upstream_binding resolve url_text allow_loopback =
     (let raw = py_strip url_text
      in if raw = [] then Inl (ConfigError ''DRLINK_RELAY_UPSTREAM_URL is required'')
         else (case urlparse raw of
                 None \<Rightarrow> Inl UrlValueError
               | Some parsed \<Rightarrow>
                   if scheme parsed \<notin> {''http'', ''https''}
                   then Inl (ConfigError ''upstream URL scheme must be http or https'')
                   else (case hostname parsed of
                           None \<Rightarrow> Inl (ConfigError ''upstream URL must include a hostname'')
                         | Some hn \<Rightarrow>
                             if opt_truthy (username parsed) \<or> opt_truthy (password parsed)
                             then Inl (ConfigError ''upstream URL must not embed credentials'')
                             else if fragment parsed \<noteq> []
                             then Inl (ConfigError ''upstream URL must not include a fragment'')
                             else if scheme parsed = ''http'' \<and> \<not> is_loopback_host hn
                             then Inl (ConfigError ''non-loopback upstream URLs must use https'')
                             else if is_loopback_host hn \<and> \<not> allow_loopback
                             then Inl (ConfigError ''loopback upstream requires DRLINK_RELAY_ALLOW_LOOPBACK_UPSTREAM=1'')
                             else bindE (resolve_allowed_ips resolve hn allow_loopback) (\<lambda>ips.
                               Inr \<lparr>vu_url = py_rstrip raw, vu_hostname = strip_brackets hn,
                                    vu_connect_ips = ips\<rparr>))))"

definition validate_upstream_url ::
    "(string \<Rightarrow> string list option) \<Rightarrow> string \<Rightarrow> bool \<Rightarrow> config_error + string" where
  "validate_upstream_url resolve url_text allow_loopback =
     bindE (validate_upstream_binding resolve url_text allow_loopback) (\<lambda>v. Inr (vu_url v))"

section \<open>\<open>load_config\<close>\<close>

type_synonym environ = "string dict"

definition DEFAULT_MOCK_PLUGIN_TOKEN :: string where
  "DEFAULT_MOCK_PLUGIN_TOKEN = ''dev-plugin-token''"

definition AUTH_MODE_MOCK :: string where "AUTH_MODE_MOCK = ''mock''"
definition AUTH_MODE_OAUTH :: string where "AUTH_MODE_OAUTH = ''oauth''"

definition env_get :: "environ \<Rightarrow> string \<Rightarrow> string \<Rightarrow> string" where
  "env_get env k d = (case map_of env k of None \<Rightarrow> d | Some v \<Rightarrow> v)"

text \<open>\<^verbatim>\<open>(env.get(k) or d)\<close>.\<close>

definition env_or :: "environ \<Rightarrow> string \<Rightarrow> string \<Rightarrow> string" where
  "env_or env k d = (if env_get env k [] = [] then d else env_get env k [])"

definition env_flag :: "environ \<Rightarrow> string \<Rightarrow> bool" where
  "env_flag env k = (py_strip (env_get env k []) \<in> {''1'', ''true'', ''TRUE'', ''yes'', ''YES''})"

definition or_none :: "string \<Rightarrow> string option" where
  "or_none s = (if s = [] then None else Some s)"

record oauth_settings =
  os_public_base_url :: "string option"
  os_resource_url :: "string option"
  os_owner_secret :: "string option"
  os_state_path :: "string option"
  os_ephemeral :: bool

definition no_oauth :: oauth_settings where
  "no_oauth = \<lparr>os_public_base_url = None, os_resource_url = None, os_owner_secret = None,
     os_state_path = None, os_ephemeral = False\<rparr>"

definition public_origin :: "environ \<Rightarrow> config_error + string \<times> string" where
  "public_origin env =
     (let public_raw = rstrip_char CHR ''/'' (py_strip (env_or env ''DRLINK_RELAY_PUBLIC_BASE_URL'' []))
      in if public_raw = [] then Inl (ConfigError (''oauth mode requires DRLINK_RELAY_PUBLIC_BASE_URL ''
               @ ''(canonical public HTTPS origin of the relay)''))
         else (case urlparse public_raw of
                 None \<Rightarrow> Inl UrlValueError
               | Some p \<Rightarrow>
                   (let host = (case hostname p of None \<Rightarrow> [] | Some h \<Rightarrow> h)
                    in if scheme p \<notin> {''http'', ''https''} \<or> netloc p = []
                       then Inl (ConfigError ''DRLINK_RELAY_PUBLIC_BASE_URL must be an absolute http(s) URL'')
                       else if scheme p = ''http'' \<and> \<not> is_loopback_host host
                       then Inl (ConfigError ''non-loopback DRLINK_RELAY_PUBLIC_BASE_URL must use https'')
                       else if upath p \<notin> {[], ''/''}
                       then Inl (ConfigError (''DRLINK_RELAY_PUBLIC_BASE_URL must be an origin (no path); ''
                              @ ''set DRLINK_RELAY_RESOURCE_URL for a non-default MCP resource URI''))
                       else Inr (public_raw, host))))"

definition resource_setting :: "environ \<Rightarrow> string \<Rightarrow> config_error + string" where
  "resource_setting env base =
     (let resource_raw = rstrip_char CHR ''/'' (py_strip (env_or env ''DRLINK_RELAY_RESOURCE_URL'' []))
      in if resource_raw \<noteq> [] then
           (case urlparse resource_raw of
              None \<Rightarrow> Inl UrlValueError
            | Some p \<Rightarrow>
                if scheme p \<notin> {''http'', ''https''} \<or> netloc p = []
                then Inl (ConfigError ''DRLINK_RELAY_RESOURCE_URL must be an absolute http(s) URL'')
                else Inr resource_raw)
         else Inr (base @ ''/mcp''))"

definition owner_secret_setting :: "environ \<Rightarrow> config_error + string" where
  "owner_secret_setting env =
     (case map_of env ''DRLINK_RELAY_OWNER_APPROVAL_SECRET'' of
        None \<Rightarrow> Inl (ConfigError (''oauth mode requires DRLINK_RELAY_OWNER_APPROVAL_SECRET ''
               @ ''(runtime owner approval secret; never commit it)''))
      | Some secret \<Rightarrow>
          if py_strip secret = [] then Inl (ConfigError (''oauth mode requires DRLINK_RELAY_OWNER_APPROVAL_SECRET ''
               @ ''(runtime owner approval secret; never commit it)''))
          else if length (py_strip secret) < 16
          then Inl (ConfigError ''DRLINK_RELAY_OWNER_APPROVAL_SECRET must be at least 16 characters'')
          else Inr (py_strip secret))"

definition state_setting :: "environ \<Rightarrow> string \<Rightarrow> string \<Rightarrow> config_error + string option" where
  "state_setting env bind public_host =
     (let state_raw = py_strip (env_or env ''DRLINK_RELAY_OAUTH_STATE_PATH'' []);
          ephemeral = env_flag env ''DRLINK_RELAY_OAUTH_ALLOW_EPHEMERAL'';
          requires_durable = \<not> is_loopback_host bind \<or> \<not> is_loopback_host public_host
      in if state_raw \<noteq> [] then
           (if ephemeral then Inl (ConfigError (''DRLINK_RELAY_OAUTH_ALLOW_EPHEMERAL cannot be set together with ''
                  @ ''DRLINK_RELAY_OAUTH_STATE_PATH''))
            else Inr (Some state_raw))
         else if requires_durable then Inl (ConfigError
                (''public/non-loopback oauth mode requires DRLINK_RELAY_OAUTH_STATE_PATH ''
                  @ ''(durable client/refresh state)''))
         else if \<not> ephemeral then Inl (ConfigError
                (''loopback oauth mode requires DRLINK_RELAY_OAUTH_STATE_PATH ''
                  @ ''or explicit DRLINK_RELAY_OAUTH_ALLOW_EPHEMERAL=1 for tests''))
         else Inr None)"

definition load_oauth_settings :: "environ \<Rightarrow> string \<Rightarrow> config_error + oauth_settings" where
  "load_oauth_settings env bind =
     bindE (public_origin env) (\<lambda>(base, host).
     bindE (resource_setting env base) (\<lambda>res.
     bindE (owner_secret_setting env) (\<lambda>secret.
     bindE (state_setting env bind host) (\<lambda>path.
       Inr \<lparr>os_public_base_url = Some base, os_resource_url = Some res, os_owner_secret = Some secret,
            os_state_path = path, os_ephemeral = env_flag env ''DRLINK_RELAY_OAUTH_ALLOW_EPHEMERAL''\<rparr>))))"

definition bind_check :: "string \<Rightarrow> string \<Rightarrow> bool \<Rightarrow> string \<Rightarrow> config_error + unit" where
  "bind_check bind mode allow_nl token =
     (if \<not> is_loopback_host bind then
        (if mode = AUTH_MODE_OAUTH then Inr ()
         else if \<not> allow_nl then Inl (ConfigError (''non-loopback bind requires DRLINK_RELAY_AUTH_MODE=oauth ''
                @ ''(or legacy DRLINK_RELAY_ALLOW_NON_LOOPBACK_BIND=1 for local mock only)''))
         else if token = DEFAULT_MOCK_PLUGIN_TOKEN
         then Inl (ConfigError (''non-loopback bind rejects the default mock plugin token; ''
                @ ''set an explicit strong DRLINK_RELAY_MOCK_PLUGIN_TOKEN''))
         else Inr ())
      else Inr ())"

definition load_config :: "(string \<Rightarrow> string list option) \<Rightarrow> environ \<Rightarrow> config_error + relay_config" where
  "load_config resolve env =
     (let allow_loopback = env_flag env ''DRLINK_RELAY_ALLOW_LOOPBACK_UPSTREAM''
      in bindE (validate_upstream_binding resolve (env_get env ''DRLINK_RELAY_UPSTREAM_URL'' []) allow_loopback)
        (\<lambda>upstream.
         let token = or_none (py_strip (env_or env ''DRLINK_RELAY_UPSTREAM_TOKEN'' []));
             bind = py_strip (env_or env ''DRLINK_RELAY_BIND'' ''127.0.0.1'')
         in case py_int (py_strip (env_or env ''DRLINK_RELAY_PORT'' ''8741'')) of
              None \<Rightarrow> Inl (ConfigError ''DRLINK_RELAY_PORT must be an integer'')
            | Some prt \<Rightarrow>
         if \<not> (1 \<le> prt \<and> prt \<le> 65535) then Inl (ConfigError ''DRLINK_RELAY_PORT out of range'')
         else (case py_float (py_strip (env_or env ''DRLINK_RELAY_TIMEOUT_S'' ''30'')) of
              None \<Rightarrow> Inl (ConfigError ''DRLINK_RELAY_TIMEOUT_S must be a number'')
            | Some timeout \<Rightarrow>
         if float_nonpos timeout then Inl (ConfigError ''DRLINK_RELAY_TIMEOUT_S must be positive'')
         else (let mode = py_lower (py_strip (env_or env ''DRLINK_RELAY_AUTH_MODE'' AUTH_MODE_MOCK));
                   mock = (case map_of env ''DRLINK_RELAY_MOCK_PLUGIN_TOKEN'' of
                             None \<Rightarrow> DEFAULT_MOCK_PLUGIN_TOKEN | Some t \<Rightarrow> py_strip t);
                   allow_nl = env_flag env ''DRLINK_RELAY_ALLOW_NON_LOOPBACK_BIND''
         in if mode \<notin> {AUTH_MODE_MOCK, AUTH_MODE_OAUTH}
            then Inl (ConfigError (''DRLINK_RELAY_AUTH_MODE must be '' @ [QUOTE] @ ''mock'' @ [QUOTE] @ '' or '' @ [QUOTE] @ ''oauth'' @ [QUOTE]))
            else if mock = [] then Inl (ConfigError ''DRLINK_RELAY_MOCK_PLUGIN_TOKEN must not be empty'')
            else bindE (if mode = AUTH_MODE_OAUTH then load_oauth_settings env bind else Inr no_oauth) (\<lambda>oas.
                 bindE (bind_check bind mode allow_nl mock) (\<lambda>_.
                 Inr \<lparr>bind_host = bind, bind_port = prt, upstream_url = vu_url upstream,
                      upstream_connect_ips = vu_connect_ips upstream, upstream_token = token,
                      allow_loopback_upstream = allow_loopback, mock_plugin_token = mock,
                      request_timeout_s = timeout, auth_mode = mode,
                      public_base_url = os_public_base_url oas, resource_url = os_resource_url oas,
                      owner_approval_secret = os_owner_secret oas, allow_non_loopback_bind = allow_nl,
                      oauth_state_path = os_state_path oas, oauth_allow_ephemeral = os_ephemeral oas\<rparr>))))))"

end
