(* ===== verification/RateLimit.thy ===== *)
theory RateLimit
  imports Prelude
begin

text \<open>
  \<open>_SlidingWindow\<close> of \<^verbatim>\<open>relay/oauth.py\<close>: one deque of event times per source, pruned on use, with
  a cap on the number of sources. \<open>prune_bucket\<close>, \<open>sweep_expired\<close>, \<open>allow_event\<close> and
  \<open>record_event\<close> are the four methods; each returns the window it leaves behind. A call with
  \<open>now=None\<close> reads the clock, so the model takes the reading \<open>ts\<close> as an argument.

  The locale \<open>rate_limiter\<close> is what the authorization service relies on: \<open>allow\<close> answers whether a
  source has fewer than the limit of recent hits, \<open>record\<close> adds one. It is interpreted on the code's
  window below. \<open>attempt\<close> and \<open>run_attempts\<close> describe a client that records only what was allowed,
  which is how the service uses the window.
\<close>

record window =
  max_events :: nat
  window_s :: time
  max_sources :: nat
  events :: "time list dict"

definition prune_bucket :: "window \<Rightarrow> string \<Rightarrow> time list \<Rightarrow> time \<Rightarrow> window" where
  "prune_bucket w key bucket cutoff =
     (let bucket' = dropWhile (\<lambda>e. e < cutoff) bucket
      in if bucket' = [] then w\<lparr>events := ddel key (events w)\<rparr>
         else w\<lparr>events := dset key bucket' (events w)\<rparr>)"

definition sweep_expired :: "window \<Rightarrow> time \<Rightarrow> window" where
  "sweep_expired w cutoff =
     fold (\<lambda>key w. case map_of (events w) key of
             None \<Rightarrow> w
           | Some bucket \<Rightarrow> prune_bucket w key bucket cutoff)
       (dkeys (events w)) w"

definition allow_event :: "window \<Rightarrow> string \<Rightarrow> time \<Rightarrow> bool \<times> window" where
  "allow_event w key ts =
     (let cutoff = ts - window_s w
      in case map_of (events w) key of
           None \<Rightarrow> (True, w)
         | Some bucket \<Rightarrow>
             (let w' = prune_bucket w key bucket cutoff
              in case map_of (events w') key of
                   None \<Rightarrow> (True, w')
                 | Some bucket' \<Rightarrow> (length bucket' < max_events w', w')))"

definition evict_oldest :: "window \<Rightarrow> time \<Rightarrow> window" where
  "evict_oldest w ts =
     (let victim = fst (arg_min_list (\<lambda>item. if snd item \<noteq> [] then hd (snd item) else ts) (events w))
      in w\<lparr>events := ddel victim (events w)\<rparr>)"

definition record_event :: "window \<Rightarrow> string \<Rightarrow> time \<Rightarrow> window" where
  "record_event w key ts =
     (let cutoff = ts - window_s w;
          w1 = sweep_expired w cutoff;
          w2 = (case map_of (events w1) key of
                  None \<Rightarrow> w1
                | Some bucket \<Rightarrow> prune_bucket w1 key bucket cutoff)
      in case map_of (events w2) key of
           Some bucket \<Rightarrow> w2\<lparr>events := dset key (bucket @ [ts]) (events w2)\<rparr>
         | None \<Rightarrow>
             (let w3 = (if length (events w2) \<ge> max_sources w2 then evict_oldest w2 ts else w2)
              in w3\<lparr>events := dset key [ts] (events w3)\<rparr>))"

definition new_window :: "nat \<Rightarrow> time \<Rightarrow> nat \<Rightarrow> window" where
  "new_window n s m = \<lparr>max_events = n, window_s = s, max_sources = m, events = []\<rparr>"

section \<open>The history a window keeps for a source\<close>

definition hist :: "window \<Rightarrow> string \<Rightarrow> time list" where
  "hist w key = (case map_of (events w) key of None \<Rightarrow> [] | Some b \<Rightarrow> b)"

definition hits :: "window \<Rightarrow> string \<Rightarrow> time \<Rightarrow> nat" where
  "hits w key ts = length (filter (\<lambda>e. ts - window_s w \<le> e) (hist w key))"

definition buckets_ok :: "window \<Rightarrow> bool" where
  "buckets_ok w \<longleftrightarrow>
     wf_dict (events w) \<and> (\<forall>(k, b) \<in> set (events w). b \<noteq> [] \<and> sorted b)"

definition window_ok :: "window \<Rightarrow> bool" where
  "window_ok w \<longleftrightarrow> buckets_ok w \<and> 0 < max_events w \<and> 0 \<le> window_s w \<and> 0 < max_sources w \<and> length (events w) \<le> max_sources w"

text \<open>No recorded event lies after \<open>ts\<close>: the clock has not run backwards.\<close>

definition events_upto :: "window \<Rightarrow> time \<Rightarrow> bool" where
  "events_upto w ts \<longleftrightarrow> (\<forall>(k, b) \<in> set (events w). \<forall>e \<in> set b. e \<le> ts)"

lemma events_upto_mono: "events_upto w s \<Longrightarrow> s \<le> t \<Longrightarrow> events_upto w t"
  by (fastforce simp: events_upto_def)

lemma window_ok_new [simp]: "0 < n \<Longrightarrow> 0 \<le> s \<Longrightarrow> 0 < m \<Longrightarrow> window_ok (new_window n s m)"
  by (simp add: window_ok_def buckets_ok_def new_window_def)

lemma events_upto_new [simp]: "events_upto (new_window n s m) t"
  by (simp add: events_upto_def new_window_def)

lemma buckets_okD:
  "buckets_ok w \<Longrightarrow> map_of (events w) k = Some b \<Longrightarrow> b \<noteq> [] \<and> sorted b"
  by (auto simp: buckets_ok_def dest!: map_of_SomeD)

lemma hist_sorted: "buckets_ok w \<Longrightarrow> sorted (hist w k)"
  by (auto simp: hist_def split: option.splits dest: buckets_okD)

lemma hist_Nil_iff: "buckets_ok w \<Longrightarrow> hist w k = [] \<longleftrightarrow> map_of (events w) k = None"
  by (auto simp: hist_def split: option.splits dest: buckets_okD)

lemma hist_upto: "events_upto w ts \<Longrightarrow> e \<in> set (hist w k) \<Longrightarrow> e \<le> ts"
  by (cases "map_of (events w) k") (force simp: hist_def events_upto_def dest: map_of_SomeD)+

lemma window_ok_buckets: "window_ok w \<Longrightarrow> buckets_ok w"
  by (simp add: window_ok_def)

section \<open>What each method does to the history\<close>

lemma prune_params [simp]:
  "max_events (prune_bucket w k b c) = max_events w"
  "window_s (prune_bucket w k b c) = window_s w"
  "max_sources (prune_bucket w k b c) = max_sources w"
  by (simp_all add: prune_bucket_def Let_def)

lemma prune_ok:
  assumes "buckets_ok w" "map_of (events w) k = Some b"
  shows "buckets_ok (prune_bucket w k b c)"
  using assms buckets_okD [OF assms]
  by (auto simp: buckets_ok_def prune_bucket_def Let_def set_dset set_ddel dict_simps)

lemma prune_length:
  assumes "buckets_ok w" "map_of (events w) k = Some b"
  shows "length (events (prune_bucket w k b c)) \<le> length (events w)"
  using assms by (simp add: prune_bucket_def Let_def length_dset length_ddel buckets_ok_def)

lemma prune_hist:
  assumes "buckets_ok w" "map_of (events w) k = Some b"
  shows "hist (prune_bucket w k b c) x =
    (if x = k then filter (\<lambda>e. c \<le> e) (hist w x) else hist w x)"
proof -
  have "dropWhile (\<lambda>e. e < c) b = filter (\<lambda>e. c \<le> e) b"
    using buckets_okD [OF assms] by (simp add: sorted_dropWhile_less)
  then show ?thesis
    using assms(2) by (simp add: prune_bucket_def Let_def hist_def dict_simps)
qed

lemma prune_upto:
  assumes "buckets_ok w" "map_of (events w) k = Some b" "events_upto w ts"
  shows "events_upto (prune_bucket w k b c) ts"
proof -
  have "\<forall>e \<in> set b. e \<le> ts"
    using assms(2,3) by (auto simp: events_upto_def dest!: map_of_SomeD)
  then show ?thesis
    using assms(1,3)
    by (auto simp: events_upto_def prune_bucket_def Let_def set_dset set_ddel buckets_ok_def
        dest: set_dropWhileD)
qed

definition sweep_step :: "time \<Rightarrow> string \<Rightarrow> window \<Rightarrow> window" where
  "sweep_step c key w = (case map_of (events w) key of
     None \<Rightarrow> w | Some bucket \<Rightarrow> prune_bucket w key bucket c)"

lemma sweep_step_facts:
  assumes "buckets_ok w"
  shows "buckets_ok (sweep_step c k w)"
    and "length (events (sweep_step c k w)) \<le> length (events w)"
    and "hist (sweep_step c k w) x =
      (if x = k then filter (\<lambda>e. c \<le> e) (hist w x) else hist w x)"
    and "events_upto w ts \<Longrightarrow> events_upto (sweep_step c k w) ts"
    and "max_events (sweep_step c k w) = max_events w"
    and "window_s (sweep_step c k w) = window_s w"
    and "max_sources (sweep_step c k w) = max_sources w"
proof -
  have "map_of (events w) k = None \<Longrightarrow> hist w k = []"
    by (simp add: hist_def)
  note h = this
  show "buckets_ok (sweep_step c k w)"
    and "length (events (sweep_step c k w)) \<le> length (events w)"
    and "hist (sweep_step c k w) x =
      (if x = k then filter (\<lambda>e. c \<le> e) (hist w x) else hist w x)"
    and "events_upto w ts \<Longrightarrow> events_upto (sweep_step c k w) ts"
    and "max_events (sweep_step c k w) = max_events w"
    and "window_s (sweep_step c k w) = window_s w"
    and "max_sources (sweep_step c k w) = max_sources w"
    using assms h
    by (cases "map_of (events w) k";
        simp add: sweep_step_def prune_ok prune_length prune_hist prune_upto)+
qed

lemma sweep_fold_facts:
  assumes "buckets_ok w"
  shows "buckets_ok (fold (sweep_step c) ks w) \<and>
    length (events (fold (sweep_step c) ks w)) \<le> length (events w) \<and>
    (\<forall>x. hist (fold (sweep_step c) ks w) x =
      (if x \<in> set ks then filter (\<lambda>e. c \<le> e) (hist w x) else hist w x)) \<and>
    (events_upto w ts \<longrightarrow> events_upto (fold (sweep_step c) ks w) ts) \<and>
    max_events (fold (sweep_step c) ks w) = max_events w \<and>
    window_s (fold (sweep_step c) ks w) = window_s w \<and>
    max_sources (fold (sweep_step c) ks w) = max_sources w"
  using assms
proof (induction ks arbitrary: w)
  case (Cons k ks)
  note s = sweep_step_facts [OF Cons.prems, where c = c and k = k]
  from Cons.IH [OF s(1)] s Cons.prems show ?case
    by (auto intro: le_trans)
qed simp

lemma sweep_facts:
  assumes "buckets_ok w"
  shows "buckets_ok (sweep_expired w c)"
    and "length (events (sweep_expired w c)) \<le> length (events w)"
    and "hist (sweep_expired w c) x = filter (\<lambda>e. c \<le> e) (hist w x)"
    and "events_upto w ts \<Longrightarrow> events_upto (sweep_expired w c) ts"
    and "max_events (sweep_expired w c) = max_events w"
    and "window_s (sweep_expired w c) = window_s w"
    and "max_sources (sweep_expired w c) = max_sources w"
proof -
  have eq: "sweep_expired w c = fold (sweep_step c) (dkeys (events w)) w"
    unfolding sweep_expired_def by (rule arg_cong2 [of _ _ _ _ "\<lambda>f. fold f (dkeys (events w))"])
      (auto simp: sweep_step_def fun_eq_iff)
  note f = sweep_fold_facts [OF assms, of c "dkeys (events w)" ts]
  from f show "buckets_ok (sweep_expired w c)"
    and "length (events (sweep_expired w c)) \<le> length (events w)"
    and "events_upto w ts \<Longrightarrow> events_upto (sweep_expired w c) ts"
    and "max_events (sweep_expired w c) = max_events w"
    and "window_s (sweep_expired w c) = window_s w"
    and "max_sources (sweep_expired w c) = max_sources w"
    by (simp_all add: eq)
  have "x \<notin> set (dkeys (events w)) \<Longrightarrow> hist w x = []"
    by (simp add: dkeys_iff hist_def)
  with f show "hist (sweep_expired w c) x = filter (\<lambda>e. c \<le> e) (hist w x)"
    by (auto simp: eq)
qed

lemma evict_facts:
  assumes "buckets_ok w" "events w \<noteq> []"
  shows "buckets_ok (evict_oldest w ts)"
    and "length (events (evict_oldest w ts)) < length (events w)"
    and "events_upto w t \<Longrightarrow> events_upto (evict_oldest w ts) t"
    and "max_events (evict_oldest w ts) = max_events w"
    and "window_s (evict_oldest w ts) = window_s w"
    and "max_sources (evict_oldest w ts) = max_sources w"
    and "hist (evict_oldest w ts) x = [] \<or> hist (evict_oldest w ts) x = hist w x"
proof -
  let ?f = "\<lambda>item. if snd item \<noteq> [] then hd (snd item) else ts"
  have "arg_min_list ?f (events w) \<in> set (events w)"
    using assms(2) by (rule arg_min_list_in)
  then have "map_of (events w) (fst (arg_min_list ?f (events w))) \<noteq> None"
    by (auto simp: map_of_eq_None_iff)
  then show "length (events (evict_oldest w ts)) < length (events w)"
    using assms by (simp add: evict_oldest_def Let_def length_ddel buckets_ok_def)
  show "buckets_ok (evict_oldest w ts)"
    using assms by (auto simp: evict_oldest_def Let_def buckets_ok_def set_ddel dict_simps)
  show "events_upto w t \<Longrightarrow> events_upto (evict_oldest w ts) t"
    by (auto simp: evict_oldest_def Let_def events_upto_def set_ddel)
  show "hist (evict_oldest w ts) x = [] \<or> hist (evict_oldest w ts) x = hist w x"
    by (simp add: hist_def evict_oldest_def Let_def dict_simps)
qed (simp_all add: evict_oldest_def Let_def)

text \<open>
  After the sweep the key's own bucket is already pruned, so the second pruning of
  \<^verbatim>\<open>record\<close> changes nothing.
\<close>

lemma dset_same: "map_of d k = Some v \<Longrightarrow> dset k v d = d"
  by (rule update_triv)

lemma second_prune:
  assumes "buckets_ok w" "map_of (events (sweep_expired w c)) k = Some b"
  shows "prune_bucket (sweep_expired w c) k b c = sweep_expired w c"
proof -
  have "b = filter (\<lambda>e. c \<le> e) (hist w k)"
    using sweep_facts(3) [OF assms(1), of c k] assms(2) by (simp add: hist_def)
  moreover have "b \<noteq> []" and "sorted b"
    using buckets_okD [OF sweep_facts(1) [OF assms(1)] assms(2)] by auto
  ultimately have "dropWhile (\<lambda>e. e < c) b = b"
    by (auto simp: sorted_dropWhile_less)
  with \<open>b \<noteq> []\<close> assms(2) show ?thesis
    by (simp add: prune_bucket_def dset_same)
qed

lemma record_event_eq:
  assumes "buckets_ok w"
  shows "record_event w k ts =
    (let w1 = sweep_expired w (ts - window_s w)
     in case map_of (events w1) k of
          Some b \<Rightarrow> w1\<lparr>events := dset k (b @ [ts]) (events w1)\<rparr>
        | None \<Rightarrow>
            (let w3 = (if length (events w1) \<ge> max_sources w1 then evict_oldest w1 ts else w1)
             in w3\<lparr>events := dset k [ts] (events w3)\<rparr>))"
  using second_prune [OF assms]
  by (simp add: record_event_def Let_def split: option.splits)

lemma record_params [simp]:
  assumes "buckets_ok w"
  shows "max_events (record_event w k ts) = max_events w"
    and "window_s (record_event w k ts) = window_s w"
    and "max_sources (record_event w k ts) = max_sources w"
  using sweep_facts(5-7) [OF assms]
  by (simp_all add: record_event_eq [OF assms] Let_def evict_oldest_def split: option.splits)

lemma record_hist_same:
  assumes "buckets_ok w"
  shows "hist (record_event w k ts) k = filter (\<lambda>e. ts - window_s w \<le> e) (hist w k) @ [ts]"
proof -
  have "hist (sweep_expired w (ts - window_s w)) k = filter (\<lambda>e. ts - window_s w \<le> e) (hist w k)"
    by (rule sweep_facts(3) [OF assms])
  then show ?thesis
    by (auto simp: record_event_eq [OF assms] Let_def hist_def dict_simps split: option.splits)
qed

lemma record_hist_other:
  assumes "buckets_ok w" "x \<noteq> k" "0 < max_sources w"
  shows "hist (record_event w k ts) x = [] \<or>
    hist (record_event w k ts) x = filter (\<lambda>e. ts - window_s w \<le> e) (hist w x)"
proof -
  let ?w1 = "sweep_expired w (ts - window_s w)"
  have h: "hist ?w1 x = filter (\<lambda>e. ts - window_s w \<le> e) (hist w x)"
    by (rule sweep_facts(3) [OF assms(1)])
  have "hist (record_event w k ts) x = hist ?w1 x \<or>
      events ?w1 \<noteq> [] \<and> hist (record_event w k ts) x = hist (evict_oldest ?w1 ts) x"
    using assms(2,3) sweep_facts(7) [OF assms(1), of "ts - window_s w"]
    by (auto simp: record_event_eq [OF assms(1)] Let_def hist_def dict_simps split: option.splits)
  then show ?thesis
    using evict_facts(7) [OF sweep_facts(1) [OF assms(1)]] h by metis
qed

lemma record_hist_no_evict:
  assumes "buckets_ok w" "x \<noteq> k"
    and "length (events (sweep_expired w (ts - window_s w))) < max_sources w \<or>
      map_of (events (sweep_expired w (ts - window_s w))) k \<noteq> None"
  shows "hist (record_event w k ts) x = filter (\<lambda>e. ts - window_s w \<le> e) (hist w x)"
proof -
  let ?w1 = "sweep_expired w (ts - window_s w)"
  have "hist (record_event w k ts) x = hist ?w1 x"
    using assms(2,3) sweep_facts(7) [OF assms(1), of "ts - window_s w"]
    by (auto simp: record_event_eq [OF assms(1)] Let_def hist_def dict_simps split: option.splits)
  then show ?thesis using sweep_facts(3) [OF assms(1)] by simp
qed

text \<open>Any recorded bucket keeps the order when the clock has not run backwards.\<close>

lemma record_buckets:
  assumes "buckets_ok w" "events_upto w ts" "0 < max_sources w"
  shows "buckets_ok (record_event w k ts) \<and> events_upto (record_event w k ts) ts"
proof -
  let ?w1 = "sweep_expired w (ts - window_s w)"
  define w3 where "w3 = (if map_of (events ?w1) k = None \<and> length (events ?w1) \<ge> max_sources ?w1
    then evict_oldest ?w1 ts else ?w1)"
  have ok1: "buckets_ok ?w1" and up1: "events_upto ?w1 ts"
    using sweep_facts(1,4) [OF assms(1)] assms(2) by auto
  have ne: "length (events ?w1) \<ge> max_sources ?w1 \<Longrightarrow> events ?w1 \<noteq> []"
    using assms(3) sweep_facts(7) [OF assms(1), of "ts - window_s w"] by auto
  have ok3: "buckets_ok w3" and up3: "events_upto w3 ts"
    using ok1 up1 evict_facts(1,3) [OF ok1 ne] by (auto simp: w3_def)
  define b where "b = hist (record_event w k ts) k"
  have rec: "events (record_event w k ts) = dset k b (events w3)"
    by (auto simp: b_def w3_def record_event_eq [OF assms(1)] Let_def hist_def dict_simps
        split: option.splits)
  have b: "b = filter (\<lambda>e. ts - window_s w \<le> e) (hist w k) @ [ts]"
    unfolding b_def by (rule record_hist_same [OF assms(1)])
  have "b \<noteq> []" "sorted b" "\<forall>e \<in> set b. e \<le> ts"
    using hist_sorted [OF assms(1), of k] hist_upto [OF assms(2), of _ k]
    by (auto simp: b sorted_append sorted_wrt_filter)
  with ok3 up3 show ?thesis
    by (auto simp: buckets_ok_def events_upto_def rec set_dset dict_simps)
qed

lemma record_length:
  assumes "window_ok w"
  shows "length (events (record_event w k ts)) \<le> max_sources w"
proof -
  let ?w1 = "sweep_expired w (ts - window_s w)"
  note ok = window_ok_buckets [OF assms]
  have l1: "length (events ?w1) \<le> max_sources w" "max_sources ?w1 = max_sources w"
    using sweep_facts(2,7) [OF ok, of "ts - window_s w"] assms by (auto simp: window_ok_def)
  have "length (events ?w1) \<ge> max_sources w \<Longrightarrow>
      length (events (evict_oldest ?w1 ts)) < max_sources w"
    using evict_facts(2) [OF sweep_facts(1) [OF ok], of "ts - window_s w" ts] l1 assms
    by (fastforce simp: window_ok_def)
  with l1 show ?thesis
    by (auto simp: record_event_eq [OF ok] Let_def length_dset split: option.splits)
qed

lemma record_ok:
  assumes "window_ok w" "events_upto w ts"
  shows "window_ok (record_event w k ts)" "events_upto (record_event w k ts) ts"
  using record_buckets [of w ts k] record_length [OF assms(1), of k ts] assms
  by (simp_all add: window_ok_def)

lemma allow_facts:
  assumes "window_ok w" "events_upto w ts"
  shows "window_ok (snd (allow_event w k ts))"
    and "events_upto (snd (allow_event w k ts)) ts"
    and "fst (allow_event w k ts) \<longleftrightarrow> hits w k ts < max_events w"
    and "hist (snd (allow_event w k ts)) x =
      (if x = k then filter (\<lambda>e. ts - window_s w \<le> e) (hist w x) else hist w x)"
    and "max_events (snd (allow_event w k ts)) = max_events w"
    and "window_s (snd (allow_event w k ts)) = window_s w"
    and "max_sources (snd (allow_event w k ts)) = max_sources w"
proof -
  note ok = window_ok_buckets [OF assms(1)]
  have "window_ok (snd (allow_event w k ts)) \<and> events_upto (snd (allow_event w k ts)) ts \<and>
    (fst (allow_event w k ts) \<longleftrightarrow> hits w k ts < max_events w) \<and>
    hist (snd (allow_event w k ts)) x =
      (if x = k then filter (\<lambda>e. ts - window_s w \<le> e) (hist w x) else hist w x) \<and>
    max_events (snd (allow_event w k ts)) = max_events w \<and>
    window_s (snd (allow_event w k ts)) = window_s w \<and>
    max_sources (snd (allow_event w k ts)) = max_sources w"
  proof (cases "map_of (events w) k")
    case None
    then show ?thesis
      using assms by (auto simp: allow_event_def hits_def hist_def window_ok_def)
  next
    case (Some b)
    let ?w' = "prune_bucket w k b (ts - window_s w)"
    have "hist ?w' k = filter (\<lambda>e. ts - window_s w \<le> e) (hist w k)"
      using prune_hist [OF ok Some] by simp
    then have "(case map_of (events ?w') k of None \<Rightarrow> True | Some b' \<Rightarrow> length b' < max_events w)
        = (hits w k ts < max_events w)"
      using assms(1)
      by (auto simp: hits_def hist_def [of ?w'] window_ok_def simp flip: length_0_conv
          split: option.splits)
    then show ?thesis
      using Some assms prune_ok [OF ok Some] prune_length [OF ok Some, of "ts - window_s w"]
        prune_upto [OF ok Some assms(2)] prune_hist [OF ok Some]
      by (auto simp: allow_event_def Let_def window_ok_def split: option.splits)
  qed
  then show "window_ok (snd (allow_event w k ts))"
    and "events_upto (snd (allow_event w k ts)) ts"
    and "fst (allow_event w k ts) \<longleftrightarrow> hits w k ts < max_events w"
    and "hist (snd (allow_event w k ts)) x =
      (if x = k then filter (\<lambda>e. ts - window_s w \<le> e) (hist w x) else hist w x)"
    and "max_events (snd (allow_event w k ts)) = max_events w"
    and "window_s (snd (allow_event w k ts)) = window_s w"
    and "max_sources (snd (allow_event w k ts)) = max_sources w"
    by auto
qed

section \<open>The interface the authorization service relies on\<close>

text \<open>
  \<open>inv w t\<close>: the window is well formed and holds nothing recorded after \<open>t\<close>. \<open>recent w k t\<close>: how
  many hits of \<open>k\<close> still count at time \<open>t\<close>.
\<close>

locale rate_limiter =
  fixes inv :: "'w \<Rightarrow> time \<Rightarrow> bool"
    and allow :: "'w \<Rightarrow> string \<Rightarrow> time \<Rightarrow> bool \<times> 'w"
    and hit :: "'w \<Rightarrow> string \<Rightarrow> time \<Rightarrow> 'w"
    and recent :: "'w \<Rightarrow> string \<Rightarrow> time \<Rightarrow> nat"
    and limit :: "'w \<Rightarrow> nat"
  assumes inv_mono: "inv w s \<Longrightarrow> s \<le> t \<Longrightarrow> inv w t"
    and inv_allow: "inv w t \<Longrightarrow> inv (snd (allow w k t)) t"
    and inv_hit: "inv w t \<Longrightarrow> inv (hit w k t) t"
    and allow_iff: "inv w t \<Longrightarrow> fst (allow w k t) \<longleftrightarrow> recent w k t < limit w"
    and limit_allow: "inv w t \<Longrightarrow> limit (snd (allow w k t)) = limit w"
    and limit_hit: "inv w t \<Longrightarrow> limit (hit w k t) = limit w"
    and recent_allow: "inv w t \<Longrightarrow> t \<le> t' \<Longrightarrow> recent (snd (allow w k t)) k' t' = recent w k' t'"
    and recent_hit: "inv w t \<Longrightarrow> recent (hit w k t) k t = Suc (recent w k t)"
    and recent_hit_other: "inv w t \<Longrightarrow> k' \<noteq> k \<Longrightarrow> recent (hit w k t) k' t \<le> recent w k' t"
    and recent_antimono: "t \<le> t' \<Longrightarrow> recent w k t' \<le> recent w k t"
begin

text \<open>A client that records a hit only when the preceding check allowed it never exceeds the limit.\<close>

lemma guarded_hit_bounded:
  assumes "inv w s" "\<And>k. recent w k s \<le> limit w" "s \<le> t" "t \<le> t'"
    and "fst (allow w k t)"
  shows "recent (hit (snd (allow w k t)) k t') k' t' \<le> limit w"
proof -
  let ?w1 = "snd (allow w k t)"
  have i: "inv w t" "inv ?w1 t'"
    using inv_mono [OF assms(1,3)] inv_mono [OF inv_allow assms(4)] by blast+
  have r: "recent ?w1 x t' \<le> recent w x t" for x
    using recent_allow [OF i(1) assms(4)] recent_antimono [OF assms(4), of w x] by simp
  show ?thesis
  proof (cases "k' = k")
    case True
    have "recent w k t < limit w" using allow_iff [OF i(1)] assms(5) by simp
    then show ?thesis using True recent_hit [OF i(2), of k] r [of k] by simp
  next
    case False
    have "recent w k' t \<le> limit w"
      using recent_antimono [OF assms(3), of w k'] assms(2) [of k'] by simp
    then show ?thesis using recent_hit_other [OF i(2) False] r [of k'] by (meson le_trans)
  qed
qed

text \<open>Once the limit is reached, the source is refused for as long as its hits still count.\<close>

lemma full_denies:
  assumes "inv w s" "s \<le> t" "limit w \<le> recent w k t"
  shows "\<not> fst (allow w k t)"
  using allow_iff [OF inv_mono [OF assms(1,2)], of k] assms(3) by simp

lemma check_keeps_bound:
  assumes "inv w s" "\<And>k. recent w k s \<le> limit w" "s \<le> t"
  shows "inv (snd (allow w k t)) t" "recent (snd (allow w k t)) k' t \<le> limit (snd (allow w k t))"
proof -
  have i: "inv w t" using inv_mono [OF assms(1,3)] .
  then show "inv (snd (allow w k t)) t" by (rule inv_allow)
  show "recent (snd (allow w k t)) k' t \<le> limit (snd (allow w k t))"
    using recent_allow [OF i order_refl, of k k'] limit_allow [OF i, of k]
      recent_antimono [OF assms(3), of w k'] assms(2) [of k'] by simp
qed

end

lemma hits_filter:
  "s = window_s w \<Longrightarrow> hits w k t = length (filter (\<lambda>e. t - s \<le> e) (hist w k))"
  by (simp add: hits_def)

lemma hits_allow:
  assumes "window_ok w" "events_upto w t" "t \<le> t'"
  shows "hits (snd (allow_event w k t)) x t' = hits w x t'"
proof -
  note a = allow_facts [OF assms(1,2), where k = k]
  show ?thesis using a(4) [of x] a(6) assms(3) by (simp add: hits_def filter_ge_conj)
qed

lemma hits_record:
  assumes "window_ok w"
  shows "hits (record_event w k t) k t = Suc (hits w k t)"
  using record_hist_same [OF window_ok_buckets [OF assms], of k t]
    record_params(2) [OF window_ok_buckets [OF assms], of k t] assms
  by (simp add: hits_def window_ok_def)

lemma hits_record_other:
  assumes "window_ok w" "x \<noteq> k"
  shows "hits (record_event w k t) x t \<le> hits w x t"
proof -
  note b = window_ok_buckets [OF assms(1)]
  from record_hist_other [OF b assms(2), of t] assms(1) show ?thesis
    using record_params(2) [OF b, of k t] by (auto simp: hits_def window_ok_def)
qed

lemma hits_antimono: "t \<le> t' \<Longrightarrow> hits w k t' \<le> hits w k t"
proof -
  assume "t \<le> t'"
  then have "filter (\<lambda>e. t' - window_s w \<le> e) (hist w k) =
      filter (\<lambda>e. t' - window_s w \<le> e) (filter (\<lambda>e. t - window_s w \<le> e) (hist w k))"
    by (auto intro: filter_cong)
  then show ?thesis by (simp add: hits_def) (metis length_filter_le filter_filter)
qed

abbreviation window_at :: "window \<Rightarrow> time \<Rightarrow> bool" where
  "window_at w t \<equiv> window_ok w \<and> events_upto w t"

interpretation sw: rate_limiter window_at allow_event record_event hits max_events
  by unfold_locales
    (auto simp: allow_facts record_ok hits_allow hits_record hits_record_other hits_antimono
      window_ok_buckets intro: events_upto_mono)

section \<open>Runs of a source of events\<close>

text \<open>
  \<open>run_attempts w as\<close>: each attempt \<open>(key, t)\<close> is checked and, when allowed, recorded; the result is
  the last window and the attempts that were let through.
\<close>

fun run_attempts :: "window \<Rightarrow> (string \<times> time) list \<Rightarrow> window \<times> (string \<times> time) list" where
  "run_attempts w [] = (w, [])"
| "run_attempts w ((k, t) # as) =
     (let (ok, w1) = allow_event w k t
      in if ok then (let (w2, adm) = run_attempts (record_event w1 k t) as in (w2, (k, t) # adm))
         else run_attempts w1 as)"

definition times_of :: "string \<Rightarrow> (string \<times> time) list \<Rightarrow> time list" where
  "times_of k L = map snd (filter (\<lambda>p. fst p = k) L)"

definition in_window :: "time \<Rightarrow> time \<Rightarrow> time list \<Rightarrow> nat" where
  "in_window lo hi ts = length (filter (\<lambda>t. lo \<le> t \<and> t \<le> hi) ts)"

text \<open>
  The sources in a log within one window's length up to \<open>t\<close>. More of them than the window tracks is the
  condition under which it evicts a source whose hits still count.
\<close>

definition sources_in :: "time \<Rightarrow> time \<Rightarrow> (string \<times> time) list \<Rightarrow> string set" where
  "sources_in s t L = {x. \<exists>u. (x, u) \<in> set L \<and> t - s \<le> u \<and> u \<le> t}"

definition log_inv ::
    "nat \<Rightarrow> time \<Rightarrow> nat \<Rightarrow> time \<Rightarrow> (string \<times> time) list \<Rightarrow> time \<Rightarrow> window \<Rightarrow> bool" where
  "log_inv n s m T L t w \<longleftrightarrow>
     window_at w t \<and> max_events w = n \<and> window_s w = s \<and> max_sources w = m \<and>
     (\<forall>k. set (hist w k) \<subseteq> set (times_of k L)) \<and>
     (t \<le> T \<longrightarrow> (\<forall>k. filter (\<lambda>e. T - s \<le> e) (hist w k) = filter (\<lambda>e. T - s \<le> e) (times_of k L))) \<and>
     (\<forall>p \<in> set L. snd p \<le> t) \<and>
     (\<forall>k. in_window (T - s) T (times_of k L) \<le> n)"

lemma times_of_append [simp]: "times_of k (L @ M) = times_of k L @ times_of k M"
  by (simp add: times_of_def)

lemma times_of_single [simp]: "times_of k [(k', t)] = (if k' = k then [t] else [])"
  by (simp add: times_of_def)

lemma times_of_le: "\<forall>p \<in> set L. snd p \<le> t \<Longrightarrow> e \<in> set (times_of k L) \<Longrightarrow> e \<le> t"
  by (auto simp: times_of_def)

lemma set_times_of: "e \<in> set (times_of k L) \<longleftrightarrow> (k, e) \<in> set L"
  by (force simp: times_of_def)

lemma sources_in_mono: "set L \<subseteq> set M \<Longrightarrow> sources_in s t L \<subseteq> sources_in s t M"
  by (auto simp: sources_in_def)

lemma finite_sources_in: "finite (sources_in s t L)"
  by (rule finite_subset [of _ "fst ` set L"]) (force simp: sources_in_def)+

lemma log_inv_allow:
  assumes "log_inv n s m T L t0 w" "t0 \<le> t"
  shows "log_inv n s m T L t (snd (allow_event w k t))"
proof -
  note i = assms(1) [unfolded log_inv_def]
  have at: "window_ok w" "events_upto w t"
    using i assms(2) by (auto intro: events_upto_mono)
  note a = allow_facts [OF at, where k = k]
  have "filter (\<lambda>e. T - s \<le> e) (hist (snd (allow_event w k t)) x) = filter (\<lambda>e. T - s \<le> e) (times_of x L)" if "t \<le> T" for x
    using that a(4) [of x] i assms(2) by (auto simp: filter_ge_conj)
  moreover have "set (hist (snd (allow_event w k t)) x) \<subseteq> set (times_of x L)" for x
    using a(4) [of x] i by auto
  ultimately show ?thesis
    unfolding log_inv_def using i a assms(2) by (auto intro: order_trans)
qed

text \<open>A source that is new while no more than \<open>m\<close> sources count does not push another one out.\<close>

lemma no_eviction:
  assumes inv: "log_inv n s m T L t w" and few: "card (sources_in s t (L @ [(k, t)])) \<le> m"
  shows "length (events (sweep_expired w (t - window_s w))) < max_sources w \<or>
    map_of (events (sweep_expired w (t - window_s w))) k \<noteq> None"
proof (cases "k \<in> set (dkeys (events (sweep_expired w (t - window_s w))))")
  case False
  let ?w1 = "sweep_expired w (t - window_s w)" and ?S = "sources_in s t (L @ [(k, t)])"
  note i = inv [unfolded log_inv_def]
  have ok: "buckets_ok w" using i window_ok_buckets by auto
  note sw = sweep_facts [OF ok, where c = "t - window_s w"]
  have "0 \<le> s" using i by (auto simp: window_ok_def)
  then have "k \<in> ?S" by (auto simp: sources_in_def)
  moreover have "set (dkeys (events ?w1)) \<subseteq> ?S"
  proof
    fix x assume "x \<in> set (dkeys (events ?w1))"
    then have "hist ?w1 x \<noteq> []" by (simp add: dkeys_iff hist_Nil_iff [OF sw(1)])
    then obtain e where "e \<in> set (hist ?w1 x)" by (cases "hist ?w1 x") auto
    then have "e \<in> set (hist w x)" "t - s \<le> e" using sw(3) [of x] i by auto
    moreover have "set (hist w x) \<subseteq> set (times_of x L)" using i by blast
    ultimately have "(x, e) \<in> set L" "t - s \<le> e" by (auto simp: set_times_of)
    then show "x \<in> ?S" using i unfolding sources_in_def by fastforce
  qed
  ultimately have "set (dkeys (events ?w1)) \<subset> ?S" using False by blast
  then have "card (set (dkeys (events ?w1))) < m" using psubset_card_mono [OF finite_sources_in] few by (meson less_le_trans)
  moreover have "length (events ?w1) = card (set (dkeys (events ?w1)))"
    using sw(1) distinct_card [of "map fst (events ?w1)"] by (simp add: buckets_ok_def dkeys_def)
  ultimately show ?thesis using i by simp
qed (simp add: dkeys_iff)

lemma log_inv_record:
  assumes inv: "log_inv n s m T L t w" and room: "T - s \<le> t \<Longrightarrow> t \<le> T \<Longrightarrow> in_window (T - s) T (times_of k L) < n"
    and few: "T - s \<le> t \<Longrightarrow> t \<le> T \<Longrightarrow> card (sources_in s t (L @ [(k, t)])) \<le> m"
  shows "log_inv n s m T (L @ [(k, t)]) t (record_event w k t)"
proof -
  note i = inv [unfolded log_inv_def]
  have at: "window_ok w" "events_upto w t" and ok: "buckets_ok w"
    using i window_ok_buckets by auto
  let ?w2 = "record_event w k t"
  have same: "hist ?w2 k = filter (\<lambda>e. t - s \<le> e) (hist w k) @ [t]"
    using record_hist_same [OF ok, of k t] i by simp
  have sub: "set (hist ?w2 x) \<subseteq> set (times_of x (L @ [(k, t)]))" for x
  proof -
    have "set (hist w x) \<subseteq> set (times_of x L)" "0 < max_sources w" using i by (blast, simp add: window_ok_def)
    then show ?thesis using same record_hist_other [OF ok, of x k t] by (cases "x = k") auto
  qed
  have upto: "e \<le> t" if "e \<in> set (times_of x (L @ [(k, t)]))" for e x
    using that i by (auto simp: set_times_of)
  have exact: "filter (\<lambda>e. T - s \<le> e) (hist ?w2 x) = filter (\<lambda>e. T - s \<le> e) (times_of x (L @ [(k, t)]))" if "t \<le> T" for x
  proof (cases "T - s \<le> t")
    case True
    have "hist ?w2 x = filter (\<lambda>e. t - s \<le> e) (hist w x) @ (if x = k then [t] else [])"
      using same record_hist_no_evict [OF ok _ no_eviction [OF inv few [OF True that]], of x] i by auto
    then show ?thesis using that i by (simp add: filter_ge_conj)
  next
    case False
    then have "\<not> T - s \<le> e" if "e \<in> set (times_of x (L @ [(k, t)]))" for e using upto that by fastforce
    then show ?thesis using sub by (metis (no_types, lifting) filter_False subset_iff)
  qed
  have "in_window (T - s) T (times_of x (L @ [(k, t)])) \<le> n" for x
    using i room by (cases "x = k \<and> T - s \<le> t \<and> t \<le> T") (auto simp: in_window_def Suc_le_eq)
  then show ?thesis
    unfolding log_inv_def using record_ok [OF at] record_params [OF ok] i sub exact by auto
qed

lemma run_attempts_bounded:
  assumes "log_inv n s m T L t0 w" "sorted (map snd as)" "\<forall>p \<in> set as. t0 \<le> snd p"
    and "\<forall>t. T - s \<le> t \<and> t \<le> T \<longrightarrow> card (sources_in s t (L @ snd (run_attempts w as))) \<le> m"
  shows "in_window (T - s) T (times_of k (L @ snd (run_attempts w as))) \<le> n"
  using assms
proof (induction as arbitrary: L t0 w)
  case Nil
  then show ?case by (simp add: log_inv_def)
next
  case (Cons a as)
  obtain x t where a: "a = (x, t)" by (cases a)
  let ?w1 = "snd (allow_event w x t)" and ?w2 = "record_event (snd (allow_event w x t)) x t"
  have t0: "t0 \<le> t" and later: "\<forall>p \<in> set as. t \<le> snd p" and srt: "sorted (map snd as)"
    using Cons.prems by (auto simp: a)
  note i1 = log_inv_allow [OF Cons.prems(1) t0, of x]
  have w: "window_ok w" "events_upto w t" and par: "max_events w = n" "window_s w = s"
    and exact: "t \<le> T \<Longrightarrow> filter (\<lambda>e. T - s \<le> e) (hist w x) = filter (\<lambda>e. T - s \<le> e) (times_of x L)"
    and Lle: "\<forall>p \<in> set L. snd p \<le> t"
    using Cons.prems(1) t0 by (fastforce simp: log_inv_def intro: events_upto_mono)+
  show ?case
  proof (cases "fst (allow_event w x t)")
    case False
    then show ?thesis
      using Cons.IH [OF i1 srt later] Cons.prems(4) by (simp add: a split_def Let_def)
  next
    case True
    then have run: "snd (run_attempts w (a # as)) = (x, t) # snd (run_attempts ?w2 as)"
      by (simp add: a split_def Let_def)
    have room: "in_window (T - s) T (times_of x L) < n" if "T - s \<le> t" "t \<le> T"
    proof -
      have "in_window (T - s) T (times_of x L) = length (filter (\<lambda>e. T - s \<le> e) (hist w x))"
        using exact that times_of_le [OF Lle, of _ x]
        by (auto simp: in_window_def intro!: arg_cong [where f = length] filter_cong intro: order_trans)
      also have "\<dots> \<le> hits w x t"
        using that par unfolding hits_def length_filter_conv_card by (intro card_mono) auto
      also have "\<dots> < n" using True allow_facts(3) [OF w] par by simp
      finally show ?thesis .
    qed
    have few: "card (sources_in s t (L @ [(x, t)])) \<le> m" if "T - s \<le> t" "t \<le> T"
    proof -
      have "sources_in s t (L @ [(x, t)]) \<subseteq> sources_in s t (L @ snd (run_attempts w (a # as)))"
        unfolding run by (rule sources_in_mono) auto
      then show ?thesis using Cons.prems(4) that card_mono [OF finite_sources_in] by (meson order_trans)
    qed
    show ?thesis
      using Cons.IH [OF log_inv_record [OF i1 room few] srt later] Cons.prems(4) unfolding run by simp
  qed
qed



end
