(* ===== verification/PyJson.thy ===== *)
theory PyJson
  imports PyText
begin

text \<open>
  JSON values as Python holds them after \<^verbatim>\<open>json.loads\<close>: an object is an association list in
  insertion order with distinct keys, an integer is unbounded, a float is an exact rational
  (infinities and NaN are outside the model). \<open>jget\<close> is \<^verbatim>\<open>d.get(k)\<close>, which cannot tell a missing
  key from \<^verbatim>\<open>null\<close>; \<open>jhas\<close> is \<^verbatim>\<open>k in d\<close>. \<open>truthy\<close> is Python's truth value.
\<close>

datatype json =
    JNull
  | JBool bool
  | JInt int
  | JFloat rat
  | JStr string
  | JList "json list"
  | JObj "(string \<times> json) list"

type_synonym jobj = "(string \<times> json) list"

definition jget :: "jobj \<Rightarrow> string \<Rightarrow> json" where
  "jget d k = (case map_of d k of None \<Rightarrow> JNull | Some v \<Rightarrow> v)"

definition jget_or :: "jobj \<Rightarrow> string \<Rightarrow> json \<Rightarrow> json" where
  "jget_or d k v0 = (case map_of d k of None \<Rightarrow> v0 | Some v \<Rightarrow> v)"

definition jhas :: "jobj \<Rightarrow> string \<Rightarrow> bool" where
  "jhas d k = (map_of d k \<noteq> None)"

fun truthy :: "json \<Rightarrow> bool" where
  "truthy JNull = False"
| "truthy (JBool b) = b"
| "truthy (JInt i) = (i \<noteq> 0)"
| "truthy (JFloat r) = (r \<noteq> 0)"
| "truthy (JStr s) = (s \<noteq> [])"
| "truthy (JList xs) = (xs \<noteq> [])"
| "truthy (JObj d) = (d \<noteq> [])"

text \<open>\<^verbatim>\<open>v == n\<close> for an integer literal: booleans and floats compare as numbers.\<close>

fun eq_int :: "json \<Rightarrow> int \<Rightarrow> bool" where
  "eq_int (JBool b) n = ((if b then 1 else 0) = n)"
| "eq_int (JInt i) n = (i = n)"
| "eq_int (JFloat r) n = (r = of_int n)"
| "eq_int _ n = False"

text \<open>\<^verbatim>\<open>a or b\<close>.\<close>

definition json_or :: "json \<Rightarrow> json \<Rightarrow> json" where
  "json_or a b = (if truthy a then a else b)"

text \<open>
  \<^verbatim>\<open>str(v)\<close>, with the shortest decimal text of a float (\<^verbatim>\<open>repr\<close> of a float) as the parameter \<open>fl\<close>.
\<close>

fun json_repr :: "(rat \<Rightarrow> string) \<Rightarrow> json \<Rightarrow> string" where
  "json_repr fl JNull = ''None''"
| "json_repr fl (JBool b) = (if b then ''True'' else ''False'')"
| "json_repr fl (JInt i) = int_text i"
| "json_repr fl (JFloat r) = fl r"
| "json_repr fl (JStr s) = py_repr s"
| "json_repr fl (JList xs) = ''['' @ join_with '', '' (map (json_repr fl) xs) @ '']''"
| "json_repr fl (JObj d) = CHR 0x7B #
     join_with '', '' (map (\<lambda>p. py_repr (fst p) @ '': '' @ json_repr fl (snd p)) d) @ [CHR 0x7D]"

definition json_str :: "(rat \<Rightarrow> string) \<Rightarrow> json \<Rightarrow> string" where
  "json_str fl v = (case v of JStr s \<Rightarrow> s | _ \<Rightarrow> json_repr fl v)"

section \<open>Serialisation: \<open>json.dumps(v, separators=(",", ":"), sort_keys=True)\<close>\<close>

definition json_esc_char :: "char \<Rightarrow> string" where
  "json_esc_char c =
     (let n = code_of c
      in if c = DQUOTE then [BACKSLASH, DQUOTE]
         else if c = BACKSLASH then [BACKSLASH, BACKSLASH]
         else if n = 8 then [BACKSLASH, CHR ''b'']
         else if n = 9 then [BACKSLASH, CHR ''t'']
         else if n = 10 then [BACKSLASH, CHR ''n'']
         else if n = 12 then [BACKSLASH, CHR ''f'']
         else if n = 13 then [BACKSLASH, CHR ''r'']
         else if n < 32 \<or> 126 < n then [BACKSLASH, CHR ''u'', CHR ''0'', CHR ''0''] @ hex2 c
         else [c])"

definition json_quote :: "string \<Rightarrow> string" where
  "json_quote s = [DQUOTE] @ concat (map json_esc_char s) @ [DQUOTE]"

fun json_dumps :: "(rat \<Rightarrow> string) \<Rightarrow> json \<Rightarrow> string" where
  "json_dumps fl JNull = ''null''"
| "json_dumps fl (JBool b) = (if b then ''true'' else ''false'')"
| "json_dumps fl (JInt i) = int_text i"
| "json_dumps fl (JFloat r) = fl r"
| "json_dumps fl (JStr s) = json_quote s"
| "json_dumps fl (JList xs) = ''['' @ join_with '','' (map (json_dumps fl) xs) @ '']''"
| "json_dumps fl (JObj d) = CHR 0x7B #
     join_with '','' (map snd (sort_key fst
       (map (\<lambda>p. (fst p, json_quote (fst p) @ '':'' @ json_dumps fl (snd p))) d))) @ [CHR 0x7D]"

section \<open>Facts\<close>

lemma jget_Some [simp]: "map_of d k = Some v \<Longrightarrow> jget d k = v"
  by (simp add: jget_def)

lemma jget_None [simp]: "map_of d k = None \<Longrightarrow> jget d k = JNull"
  by (simp add: jget_def)

lemma jget_not_null: "jget d k \<noteq> JNull \<Longrightarrow> jhas d k"
  by (auto simp: jget_def jhas_def split: option.splits)

lemma jget_or_has: "jhas d k \<Longrightarrow> jget_or d k v0 = jget d k"
  by (auto simp: jget_def jget_or_def jhas_def)

lemma jget_or_missing: "\<not> jhas d k \<Longrightarrow> jget_or d k v0 = v0"
  by (auto simp: jget_or_def jhas_def)

lemma truthy_not_null: "truthy v \<Longrightarrow> v \<noteq> JNull"
  by auto

end
