(* ===== verification/DurableStore.thy ===== *)
theory DurableStore
  imports PyJson "HOL-Library.Word"
begin

unbundle bit_operations_syntax

text \<open>
  \<^verbatim>\<open>relay/oauth_state.py\<close>: the versioned JSON state file with atomic replace. \<open>fs\<close> holds what the store
  touches: the parent directory, the state file and the temporary file of a save. Every system call
  may fail; \<open>io\<close> says which ones succeed, and \<open>written\<close> is how many bytes the one \<^verbatim>\<open>os.write\<close> call
  accepts (POSIX allows fewer than asked). \<open>dec\<close> is \<^verbatim>\<open>json.loads\<close> (\<open>None\<close> for an unreadable document)
  and \<open>fl\<close> the text of a float; \<open>enc = json_dumps fl\<close>. A save is the list \<open>save_steps\<close> of its system
  calls; \<open>run_steps\<close> stops at the first failing one and runs the \<^verbatim>\<open>finally\<close> block, and \<open>crash_states\<close>
  are the states a crash between two calls can leave behind.
\<close>

datatype state_error = OAuthStateError string | RawOSError

datatype node = FileNode string "16 word" | DirNode "16 word"

record fs =
  fs_path :: string
  fs_parent :: string
  parent_node :: "node option"
  target_node :: "node option"
  tmp_file :: "(string \<times> 16 word) option"

datatype sys = Mkdir | StatFile | ReadFile | Mkstemp | WriteTmp | FsyncTmp | CloseTmp | ChmodTmp
  | ReplaceTmp | OpenDir | FsyncDir | CloseDir | ChmodTarget | StatTarget | UnlinkTmp

definition STATE_VERSION :: int where "STATE_VERSION = 1"

definition forbidden_top_level :: "string set" where
  "forbidden_top_level = {''owner_approval_secret'', ''upstream_token'', ''mock_plugin_token''}"

definition mode_of :: "node \<Rightarrow> 16 word" where
  "mode_of n = (case n of FileNode _ m \<Rightarrow> m | DirNode m \<Rightarrow> m)"

definition is_dir :: "node \<Rightarrow> bool" where
  "is_dir n = (case n of DirNode _ \<Rightarrow> True | FileNode _ _ \<Rightarrow> False)"

definition assert_safe_dir :: "(sys \<Rightarrow> bool) \<Rightarrow> fs \<Rightarrow> (state_error + unit) \<times> fs" where
  "assert_safe_dir io s =
     (let missing = (parent_node s = None);
          s1 = (if missing then s\<lparr>parent_node := Some (DirNode 0x1C0)\<rparr> else s)
      in if missing \<and> \<not> io Mkdir then (Inl RawOSError, s)
         else (case parent_node s1 of
                 None \<Rightarrow> (Inl RawOSError, s1)
               | Some n \<Rightarrow>
                   if \<not> is_dir n
                   then (Inl (OAuthStateError (''oauth state parent is not a directory: '' @ fs_parent s)), s1)
                   else if mode_of n AND 0x12 \<noteq> 0
                   then (Inl (OAuthStateError (''oauth state directory is group/world-writable: '' @ fs_parent s)), s1)
                   else (Inr (), s1)))"

definition mode_too_open :: "16 word \<Rightarrow> bool" where
  "mode_too_open m = (m AND 0x3F \<noteq> 0)"

definition open_store :: "(sys \<Rightarrow> bool) \<Rightarrow> fs \<Rightarrow> (state_error + unit) \<times> fs" where
  "open_store io s =
     (case target_node s of
        Some (DirNode _) \<Rightarrow>
          (Inl (OAuthStateError (''oauth state path must be a file, not a directory: '' @ fs_path s)), s)
      | _ \<Rightarrow> assert_safe_dir io s)"

definition check_payload :: "(rat \<Rightarrow> string) \<Rightarrow> json \<Rightarrow> state_error + jobj" where
  "check_payload fl doc =
     (case doc of
        JObj payload \<Rightarrow>
          if \<not> eq_int (jget payload ''version'') STATE_VERSION
          then Inl (OAuthStateError (''unsupported oauth state schema version: ''
                 @ json_repr fl (jget payload ''version'') @ '' (expected '' @ int_text STATE_VERSION @ '')''))
          else if forbidden_top_level \<inter> set (map fst payload) \<noteq> {}
          then Inl (OAuthStateError ''oauth state contains forbidden credential fields'')
          else (case (jget payload ''clients'', jget payload ''refresh_tokens'') of
                  (JObj _, JObj _) \<Rightarrow> Inr payload
                | _ \<Rightarrow> Inl (OAuthStateError ''oauth state missing clients/refresh_tokens maps''))
      | _ \<Rightarrow> Inl (OAuthStateError ''oauth state root must be an object''))"

definition load_state ::
    "(rat \<Rightarrow> string) \<Rightarrow> (string \<Rightarrow> json option) \<Rightarrow> (sys \<Rightarrow> bool) \<Rightarrow> fs \<Rightarrow> state_error + jobj" where
  "load_state fl dec io s =
     (case target_node s of
        None \<Rightarrow> Inr [(''version'', JInt STATE_VERSION), (''clients'', JObj []), (''refresh_tokens'', JObj [])]
      | Some n \<Rightarrow>
          if \<not> io StatFile then Inl RawOSError
          else if mode_too_open (mode_of n)
          then Inl (OAuthStateError (''oauth state file permissions too open (expected 0600): '' @ fs_path s))
          else (case n of
                  DirNode _ \<Rightarrow> Inl (OAuthStateError (''corrupt oauth state file: '' @ fs_path s))
                | FileNode text _ \<Rightarrow>
                    if \<not> io ReadFile then Inl (OAuthStateError (''corrupt oauth state file: '' @ fs_path s))
                    else (case dec text of
                            None \<Rightarrow> Inl (OAuthStateError (''corrupt oauth state file: '' @ fs_path s))
                          | Some doc \<Rightarrow> check_payload fl doc)))"

section \<open>Saving\<close>

definition save_steps :: "sys list" where
  "save_steps = [Mkstemp, WriteTmp, FsyncTmp, CloseTmp, ChmodTmp, ReplaceTmp, OpenDir, FsyncDir,
     CloseDir, ChmodTarget, StatTarget]"

definition step_effect :: "string \<Rightarrow> nat \<Rightarrow> sys \<Rightarrow> fs \<Rightarrow> fs" where
  "step_effect encoded written st s =
     (case st of
        Mkstemp \<Rightarrow> s\<lparr>tmp_file := Some ([], 0x180)\<rparr>
      | WriteTmp \<Rightarrow> s\<lparr>tmp_file := map_option (\<lambda>(c, m). (c @ take written encoded, m)) (tmp_file s)\<rparr>
      | ChmodTmp \<Rightarrow> s\<lparr>tmp_file := map_option (\<lambda>(c, m). (c, 0x180)) (tmp_file s)\<rparr>
      | ReplaceTmp \<Rightarrow> s\<lparr>target_node := map_option (\<lambda>(c, m). FileNode c m) (tmp_file s), tmp_file := None\<rparr>
      | ChmodTarget \<Rightarrow> s\<lparr>target_node := map_option (\<lambda>n. case n of
            FileNode c _ \<Rightarrow> FileNode c 0x180 | DirNode _ \<Rightarrow> DirNode 0x180) (target_node s)\<rparr>
      | _ \<Rightarrow> s)"

text \<open>\<^verbatim>\<open>os.replace\<close> onto a directory fails whatever the system says.\<close>

definition step_ok :: "(sys \<Rightarrow> bool) \<Rightarrow> sys \<Rightarrow> fs \<Rightarrow> bool" where
  "step_ok io st s = (io st \<and> (st = ReplaceTmp \<longrightarrow>
     (case target_node s of Some n \<Rightarrow> \<not> is_dir n | None \<Rightarrow> True)))"

text \<open>The \<^verbatim>\<open>finally\<close> block: a temporary file still there is unlinked, a failure to do so is ignored.\<close>

definition cleanup :: "(sys \<Rightarrow> bool) \<Rightarrow> fs \<Rightarrow> fs" where
  "cleanup io s = (if tmp_file s \<noteq> None \<and> io UnlinkTmp then s\<lparr>tmp_file := None\<rparr> else s)"

fun run_steps :: "(sys \<Rightarrow> bool) \<Rightarrow> string \<Rightarrow> nat \<Rightarrow> sys list \<Rightarrow> fs \<Rightarrow> (state_error + unit) \<times> fs" where
  "run_steps io encoded written [] s = (Inr (), s)"
| "run_steps io encoded written (st # sts) s =
     (if step_ok io st s then run_steps io encoded written sts (step_effect encoded written st s)
      else (Inl (OAuthStateError (''failed to persist oauth state: '' @ fs_path s)), cleanup io s))"

definition final_mode_check :: "(state_error + unit) \<times> fs \<Rightarrow> (state_error + unit) \<times> fs" where
  "final_mode_check r =
     (case r of
        (Inr _, s) \<Rightarrow>
          (case target_node s of
             Some n \<Rightarrow> if mode_too_open (mode_of n)
               then (Inl (OAuthStateError (''oauth state file permissions too open (expected 0600): '' @ fs_path s)), s)
               else r
           | None \<Rightarrow> r)
      | _ \<Rightarrow> r)"

definition save_state ::
    "(rat \<Rightarrow> string) \<Rightarrow> (sys \<Rightarrow> bool) \<Rightarrow> nat \<Rightarrow> jobj \<Rightarrow> fs \<Rightarrow> (state_error + unit) \<times> fs" where
  "save_state fl io written payload s =
     (case assert_safe_dir io s of
        (Inl e, s1) \<Rightarrow> (Inl e, s1)
      | (Inr _, s1) \<Rightarrow>
          if \<not> eq_int (jget payload ''version'') STATE_VERSION
          then (Inl (OAuthStateError ''refusing to persist unsupported oauth state version''), s1)
          else if forbidden_top_level \<inter> set (map fst payload) \<noteq> {}
          then (Inl (OAuthStateError ''refusing to persist forbidden credential fields''), s1)
          else final_mode_check (run_steps io (json_dumps fl (JObj payload)) written save_steps s1))"

text \<open>Every state a process crash during the save can leave on disk.\<close>

fun crash_states :: "string \<Rightarrow> nat \<Rightarrow> sys list \<Rightarrow> fs \<Rightarrow> fs list" where
  "crash_states encoded written [] s = [s]"
| "crash_states encoded written (st # sts) s =
     s # crash_states encoded written sts (step_effect encoded written st s)"

section \<open>Facts\<close>

lemma assert_safe_dir_frame:
  "assert_safe_dir io s = (r, s1) \<Longrightarrow>
    target_node s1 = target_node s \<and> tmp_file s1 = tmp_file s \<and> fs_path s1 = fs_path s"
  by (auto simp: assert_safe_dir_def Let_def split: option.splits if_splits)

lemmas step_simps = step_effect_def step_ok_def save_steps_def

lemma run_save_steps_ok:
  assumes "\<And>st. io st" "\<And>n. target_node s = Some n \<Longrightarrow> \<not> is_dir n"
  shows "run_steps io encoded written save_steps s =
    (Inr (), s\<lparr>target_node := Some (FileNode (take written encoded) 0x180), tmp_file := None\<rparr>)"
  using assms by (auto simp: step_simps split: option.splits)

text \<open>
  Whatever fails, the target is the old one or the (possibly short) new content, and only a save
  that got as far as the replace changes it.
\<close>

lemma run_save_steps_target:
  "target_node (snd (run_steps io encoded written save_steps s)) = target_node s \<or>
    target_node (snd (run_steps io encoded written save_steps s)) =
      Some (FileNode (take written encoded) 0x180)"
  by (simp add: step_simps cleanup_def)

lemma run_save_steps_success:
  "fst (run_steps io encoded written save_steps s) = Inr () \<Longrightarrow>
    target_node (snd (run_steps io encoded written save_steps s)) =
      Some (FileNode (take written encoded) 0x180) \<and>
    tmp_file (snd (run_steps io encoded written save_steps s)) = None"
  by (simp add: step_simps cleanup_def split: if_splits)

lemma crash_states_target:
  "c \<in> set (crash_states encoded written save_steps s) \<Longrightarrow>
    target_node c = target_node s \<or> target_node c = Some (FileNode (take written encoded) 0x180)"
  by (auto simp: step_simps)

lemma mode_0600_ok [simp]: "\<not> mode_too_open 0x180"
  by (simp add: mode_too_open_def)

end
