(* ===== verification/OAuth.thy ===== *)
theory OAuth
  imports Codec Config RateLimit DurableStore
begin

text \<open>
  The data of \<^verbatim>\<open>relay/oauth.py\<close> and the housekeeping of its service object: durable load and persist,
  eviction of inactive clients, sweeping of pending requests. The operations a client of the service
  calls are in the theory \<open>OAuthOps\<close>.

  \<open>oauth\<close> is the service object: its five dicts, its three sliding windows, whether a store is
  attached, and the files of that store. \<open>world\<close> is what one call meets outside the process: the
  successive readings of the clock, the random bytes of its tokens, which system calls of a save
  succeed and how many bytes the write accepts. Fields that durable data can fill with any JSON
  value are kept as JSON values.
\<close>

section \<open>Constants and errors\<close>

definition DEFAULT_SCOPE :: string where "DEFAULT_SCOPE = ''mcp:proxy''"
definition CODE_TTL_S :: time where "CODE_TTL_S = 60"
definition ACCESS_TTL_S :: time where "ACCESS_TTL_S = 3600"
definition REFRESH_TTL_S :: time where "REFRESH_TTL_S = 2592000"
definition MAX_DCR_CLIENTS :: nat where "MAX_DCR_CLIENTS = 64"
definition MAX_INACTIVE_DCR_CLIENTS :: nat where "MAX_INACTIVE_DCR_CLIENTS = 16"
definition INACTIVE_CLIENT_TTL_S :: time where "INACTIVE_CLIENT_TTL_S = 3600"
definition MAX_PENDING_AUTHORIZATIONS :: nat where "MAX_PENDING_AUTHORIZATIONS = 32"
definition MAX_PENDING_PER_CLIENT :: nat where "MAX_PENDING_PER_CLIENT = 4"
definition AUTHZ_RATE_LIMIT :: nat where "AUTHZ_RATE_LIMIT = 16"
definition AUTHZ_RATE_WINDOW_S :: time where "AUTHZ_RATE_WINDOW_S = 60"
definition DCR_RATE_LIMIT :: nat where "DCR_RATE_LIMIT = 8"
definition DCR_RATE_WINDOW_S :: time where "DCR_RATE_WINDOW_S = 900"
definition OWNER_FAIL_LIMIT :: nat where "OWNER_FAIL_LIMIT = 5"
definition OWNER_FAIL_WINDOW_S :: time where "OWNER_FAIL_WINDOW_S = 900"
definition MAX_RATE_LIMIT_SOURCES :: nat where "MAX_RATE_LIMIT_SOURCES = 256"

text \<open>
  \<open>OAuthError error description status\<close> is the module's exception; the others are the Python
  exceptions its code lets through, \<open>StoreError\<close> being \<^verbatim>\<open>OAuthStateError\<close>.
\<close>

datatype oauth_error =
    OAuthError string string int
  | StoreError string
  | PyValueError
  | PyTypeError
  | PyAssertionError
  | PyAttributeError
  | PyOSError

section \<open>Records\<close>

record registered_client =
  rc_client_id :: string
  rc_redirect_uris :: "json list"
  rc_client_name :: json
  rc_auth_method :: string
  rc_grant_types :: "json list"
  rc_response_types :: "json list"
  rc_issued_at :: int
  rc_last_used_at :: time

record auth_code =
  ac_code :: string
  ac_client_id :: string
  ac_redirect_uri :: string
  ac_code_challenge :: string
  ac_code_challenge_method :: string
  ac_resource :: string
  ac_scopes :: "string set"
  ac_expires_at :: time
  ac_used :: bool

record access_token =
  at_token :: string
  at_client_id :: string
  at_resource :: string
  at_scopes :: "string set"
  at_expires_at :: time
  at_revoked :: bool
  at_subject :: string

record refresh_token =
  rt_token :: string
  rt_client_id :: string
  rt_resource :: string
  rt_scopes :: "string set"
  rt_expires_at :: time
  rt_revoked :: bool
  rt_subject :: string

record pending_authorization =
  pa_request_id :: string
  pa_client_id :: string
  pa_redirect_uri :: string
  pa_state :: "string option"
  pa_code_challenge :: string
  pa_code_challenge_method :: string
  pa_resource :: string
  pa_scopes :: "string set"
  pa_expires_at :: time

record oauth =
  cfg :: relay_config
  clients :: "registered_client dict"
  codes :: "auth_code dict"
  access_tokens :: "access_token dict"
  refresh_tokens :: "refresh_token dict"
  pending :: "pending_authorization dict"
  dcr_limiter :: window
  authz_limiter :: window
  owner_fail_limiter :: window
  has_store :: bool
  disk :: fs

record world =
  clock :: "nat \<Rightarrow> time"
  rnd :: "nat \<Rightarrow> byte list"
  io :: "sys \<Rightarrow> bool"
  written :: nat
  float_text :: "rat \<Rightarrow> string"

type_synonym 'a outcome = "(oauth_error + 'a) \<times> oauth"

definition redirect_uri_safe :: "string \<Rightarrow> oauth_error + bool" where
  "redirect_uri_safe uri =
     (case urlparse uri of
        None \<Rightarrow> Inl PyValueError
      | Some parsed \<Rightarrow>
          Inr (if fragment parsed \<noteq> [] then False
               else if scheme parsed = ''https'' then netloc parsed \<noteq> []
               else if scheme parsed = ''http''
               then py_lower (case hostname parsed of None \<Rightarrow> [] | Some h \<Rightarrow> h)
                      \<in> {''localhost'', ''127.0.0.1'', ''::1''}
               else False))"

definition exact_redirect_allowed :: "json list \<Rightarrow> string \<Rightarrow> bool" where
  "exact_redirect_allowed registered redirect_uri = (JStr redirect_uri \<in> set registered)"

section \<open>Liveness of clients\<close>

definition live_refresh :: "string \<Rightarrow> time \<Rightarrow> refresh_token \<Rightarrow> bool" where
  "live_refresh client_id now t =
     (rt_client_id t = client_id \<and> \<not> rt_revoked t \<and> now \<le> rt_expires_at t)"

definition client_has_live_refresh :: "oauth \<Rightarrow> string \<Rightarrow> time \<Rightarrow> bool" where
  "client_has_live_refresh s client_id now =
     list_ex (live_refresh client_id now) (dvals (refresh_tokens s))"

definition client_has_live_pending :: "oauth \<Rightarrow> string \<Rightarrow> time \<Rightarrow> bool" where
  "client_has_live_pending s client_id now =
     list_ex (\<lambda>p. pa_client_id p = client_id \<and> now \<le> pa_expires_at p) (dvals (pending s))"

definition remove_client :: "string \<Rightarrow> oauth \<Rightarrow> oauth" where
  "remove_client client_id s =
     (let stale = dkeys (filter (\<lambda>(tid, tok). rt_client_id tok = client_id) (refresh_tokens s))
      in s\<lparr>refresh_tokens := ddel_all stale (refresh_tokens s), clients := ddel client_id (clients s)\<rparr>)"

definition inactive_occupancy :: "oauth \<Rightarrow> time \<Rightarrow> nat" where
  "inactive_occupancy s now =
     length (filter (\<lambda>cid. \<not> client_has_live_refresh s cid now) (dkeys (clients s)))"

definition evictable :: "oauth \<Rightarrow> time \<Rightarrow> registered_client \<Rightarrow> bool" where
  "evictable s now c =
     (\<not> client_has_live_refresh s (rc_client_id c) now \<and> \<not> client_has_live_pending s (rc_client_id c) now)"

definition inactive_clients :: "oauth \<Rightarrow> time \<Rightarrow> registered_client list" where
  "inactive_clients s now =
     sort_key (\<lambda>c. (rc_issued_at c, rc_last_used_at c, rc_client_id c))
       (filter (evictable s now) (dvals (clients s)))"

section \<open>Cleanup\<close>

text \<open>The first loop: a snapshot of the clients, the liveness tests on the state as it shrinks.\<close>

fun ttl_sweep :: "time \<Rightarrow> registered_client list \<Rightarrow> oauth \<Rightarrow> oauth \<times> string list" where
  "ttl_sweep now [] s = (s, [])"
| "ttl_sweep now (c # cs) s =
     (if client_has_live_refresh s (rc_client_id c) now then ttl_sweep now cs s
      else if client_has_live_pending s (rc_client_id c) now then ttl_sweep now cs s
      else if now - rc_last_used_at c < INACTIVE_CLIENT_TTL_S then ttl_sweep now cs s
      else (let (s', evicted) = ttl_sweep now cs (remove_client (rc_client_id c) s)
            in (s', rc_client_id c # evicted)))"

text \<open>
  The \<^verbatim>\<open>while True\<close> loop, with fuel. Each round removes a client, so as much fuel as there are
  clients is enough (lemma \<open>evict_loop_exit\<close> below).
\<close>

definition over_budget :: "oauth \<Rightarrow> time \<Rightarrow> nat \<Rightarrow> bool" where
  "over_budget s now reserve_slots =
     (inactive_occupancy s now > MAX_INACTIVE_DCR_CLIENTS - reserve_slots \<or>
      length (clients s) > MAX_DCR_CLIENTS - reserve_slots)"

fun evict_loop :: "nat \<Rightarrow> time \<Rightarrow> nat \<Rightarrow> oauth \<Rightarrow> oauth \<times> string list" where
  "evict_loop fuel now reserve_slots s =
     (if \<not> over_budget s now reserve_slots then (s, [])
      else (case inactive_clients s now of
              [] \<Rightarrow> (s, [])
            | victim # _ \<Rightarrow>
                (case fuel of
                   0 \<Rightarrow> (s, [])
                 | Suc fuel' \<Rightarrow>
                     (let (s', evicted) = evict_loop fuel' now reserve_slots (remove_client (rc_client_id victim) s)
                      in (s', rc_client_id victim # evicted)))))"

declare evict_loop.simps [simp del]

text \<open>\<open>reserve_slots\<close> is a natural number: the code's callers pass 0 and 1.\<close>

definition cleanup_inactive_clients :: "time \<Rightarrow> nat \<Rightarrow> oauth \<Rightarrow> oauth \<times> string list" where
  "cleanup_inactive_clients now reserve_slots s =
     (let (s1, ev1) = ttl_sweep now (dvals (clients s)) s;
          (s2, ev2) = evict_loop (length (clients s1)) now reserve_slots s1
      in (s2, ev1 @ ev2))"

definition pending_count_for_client :: "oauth \<Rightarrow> string \<Rightarrow> nat" where
  "pending_count_for_client s client_id = dcount (\<lambda>p. pa_client_id p = client_id) (pending s)"

definition cleanup_pending :: "time \<Rightarrow> oauth \<Rightarrow> oauth \<times> string list" where
  "cleanup_pending now s =
     (let removed = dkeys (filter (\<lambda>(rid, p). pa_expires_at p < now) (pending s))
      in (s\<lparr>pending := ddel_all removed (pending s)\<rparr>, removed))"

section \<open>Durable state\<close>

definition client_json :: "registered_client \<Rightarrow> json" where
  "client_json c = JObj [
     (''client_id'', JStr (rc_client_id c)),
     (''redirect_uris'', JList (rc_redirect_uris c)),
     (''client_name'', rc_client_name c),
     (''token_endpoint_auth_method'', JStr (rc_auth_method c)),
     (''grant_types'', JList (rc_grant_types c)),
     (''response_types'', JList (rc_response_types c)),
     (''issued_at'', JInt (rc_issued_at c)),
     (''last_used_at'', JFloat (rc_last_used_at c))]"

definition refresh_json :: "refresh_token \<Rightarrow> json" where
  "refresh_json t = JObj [
     (''token'', JStr (rt_token t)),
     (''client_id'', JStr (rt_client_id t)),
     (''resource'', JStr (rt_resource t)),
     (''scopes'', JList (map JStr (sorted_list_of_set (rt_scopes t)))),
     (''expires_at'', JFloat (rt_expires_at t)),
     (''revoked'', JBool (rt_revoked t)),
     (''subject'', JStr (rt_subject t))]"

definition payload_of :: "oauth \<Rightarrow> jobj" where
  "payload_of s = [
     (''version'', JInt STATE_VERSION),
     (''clients'', JObj (map (\<lambda>(cid, c). (cid, client_json c)) (clients s))),
     (''refresh_tokens'', JObj (map (\<lambda>(tid, t). (tid, refresh_json t)) (refresh_tokens s)))]"

definition drop_dead_refresh :: "time \<Rightarrow> oauth \<Rightarrow> oauth" where
  "drop_dead_refresh now s =
     (let expired = dkeys (filter (\<lambda>(tid, tok). rt_expires_at tok < now \<and> rt_revoked tok) (refresh_tokens s))
      in s\<lparr>refresh_tokens := ddel_all expired (refresh_tokens s)\<rparr>)"

definition persist :: "world \<Rightarrow> time \<Rightarrow> oauth \<Rightarrow> unit outcome" where
  "persist w now s =
     (if \<not> has_store s then (Inr (), s)
      else (let s1 = drop_dead_refresh now s
            in case save_state (float_text w) (io w) (written w) (payload_of s1) (disk s1) of
                 (Inr _, d) \<Rightarrow> (Inr (), s1\<lparr>disk := d\<rparr>)
               | (Inl (OAuthStateError m), d) \<Rightarrow> (Inl (OAuthError ''server_error'' m 500), s1\<lparr>disk := d\<rparr>)
               | (Inl RawOSError, d) \<Rightarrow> (Inl PyOSError, s1\<lparr>disk := d\<rparr>)))"

text \<open>
  Conversions of a loaded record: \<^verbatim>\<open>list(v)\<close>, \<^verbatim>\<open>int(v)\<close>, \<^verbatim>\<open>float(v)\<close>; \<open>None\<close> is the \<^verbatim>\<open>TypeError\<close> or
  \<^verbatim>\<open>ValueError\<close> that the caller converts. Non-finite floats are outside the model.
\<close>

definition as_list :: "json \<Rightarrow> json list option" where
  "as_list v =
     (case v of
        JList xs \<Rightarrow> Some xs
      | JStr s \<Rightarrow> Some (map (\<lambda>c. JStr [c]) s)
      | JObj d \<Rightarrow> Some (map (\<lambda>p. JStr (fst p)) d)
      | _ \<Rightarrow> None)"

definition py_trunc :: "rat \<Rightarrow> int" where
  "py_trunc r = (if 0 \<le> r then \<lfloor>r\<rfloor> else \<lceil>r\<rceil>)"

definition as_int :: "json \<Rightarrow> int option" where
  "as_int v =
     (case v of
        JInt i \<Rightarrow> Some i
      | JBool b \<Rightarrow> Some (if b then 1 else 0)
      | JFloat r \<Rightarrow> Some (py_trunc r)
      | JStr s \<Rightarrow> py_int s
      | _ \<Rightarrow> None)"

definition as_float :: "json \<Rightarrow> rat option" where
  "as_float v =
     (case v of
        JInt i \<Rightarrow> Some (of_int i)
      | JBool b \<Rightarrow> Some (if b then 1 else 0)
      | JFloat r \<Rightarrow> Some r
      | JStr s \<Rightarrow> (case py_float s of Some (Finite r) \<Rightarrow> Some r | _ \<Rightarrow> None)
      | _ \<Rightarrow> None)"

definition load_client :: "(rat \<Rightarrow> string) \<Rightarrow> jobj \<Rightarrow> registered_client option" where
  "load_client fl v =
     (if \<not> (jhas v ''client_id'' \<and> jhas v ''redirect_uris'' \<and> jhas v ''issued_at'') then None
      else (case (as_list (jget v ''redirect_uris''),
                  as_list (json_or (jget v ''grant_types'') (JList [JStr ''authorization_code'', JStr ''refresh_token''])),
                  as_list (json_or (jget v ''response_types'') (JList [JStr ''code''])),
                  as_int (jget v ''issued_at''),
                  as_float (json_or (jget v ''last_used_at'') (jget v ''issued_at''))) of
              (Some uris, Some grants, Some responses, Some issued, Some used) \<Rightarrow>
                Some \<lparr>rc_client_id = json_str fl (jget v ''client_id''), rc_redirect_uris = uris,
                      rc_client_name = jget v ''client_name'',
                      rc_auth_method = json_str fl (jget_or v ''token_endpoint_auth_method'' (JStr ''none'')),
                      rc_grant_types = grants, rc_response_types = responses,
                      rc_issued_at = issued, rc_last_used_at = used\<rparr>
            | _ \<Rightarrow> None))"

definition load_refresh :: "(rat \<Rightarrow> string) \<Rightarrow> jobj \<Rightarrow> refresh_token option" where
  "load_refresh fl v =
     (if \<not> (jhas v ''token'' \<and> jhas v ''client_id'' \<and> jhas v ''resource'' \<and> jhas v ''expires_at'') then None
      else (case (as_list (json_or (jget v ''scopes'') (JList [])), as_float (jget v ''expires_at'')) of
              (Some scs, Some expires) \<Rightarrow>
                Some \<lparr>rt_token = json_str fl (jget v ''token''), rt_client_id = json_str fl (jget v ''client_id''),
                      rt_resource = json_str fl (jget v ''resource''),
                      rt_scopes = set (map (json_str fl) scs), rt_expires_at = expires,
                      rt_revoked = truthy (jget v ''revoked''),
                      rt_subject = json_str fl (json_or (jget v ''subject'') (JStr ''relay-owner''))\<rparr>
            | _ \<Rightarrow> None))"

fun load_clients :: "(rat \<Rightarrow> string) \<Rightarrow> jobj \<Rightarrow> registered_client dict \<Rightarrow> oauth_error + registered_client dict" where
  "load_clients fl [] acc = Inr acc"
| "load_clients fl ((key, v) # rest) acc =
     (case v of
        JObj d \<Rightarrow>
          (case load_client fl d of
             None \<Rightarrow> Inl (StoreError ''invalid durable client record'')
           | Some client \<Rightarrow>
               if rc_client_id client \<noteq> key then Inl (StoreError ''durable client_id mismatch'')
               else load_clients fl rest (dset key client acc))
      | _ \<Rightarrow> Inl (StoreError ''invalid durable client record''))"

fun load_refreshes :: "(rat \<Rightarrow> string) \<Rightarrow> jobj \<Rightarrow> refresh_token dict \<Rightarrow> oauth_error + refresh_token dict" where
  "load_refreshes fl [] acc = Inr acc"
| "load_refreshes fl ((key, v) # rest) acc =
     (case v of
        JObj d \<Rightarrow>
          (case load_refresh fl d of
             None \<Rightarrow> Inl (StoreError ''invalid durable refresh token record'')
           | Some token \<Rightarrow>
               if rt_token token \<noteq> key then Inl (StoreError ''durable refresh token key mismatch'')
               else load_refreshes fl rest (dset key token acc))
      | _ \<Rightarrow> Inl (StoreError ''invalid durable refresh token record''))"

definition items_of :: "json \<Rightarrow> oauth_error + jobj" where
  "items_of v = (case v of JObj d \<Rightarrow> Inr d | _ \<Rightarrow> Inl PyAttributeError)"

definition load_payload :: "(rat \<Rightarrow> string) \<Rightarrow> jobj \<Rightarrow> oauth \<Rightarrow> oauth_error + oauth" where
  "load_payload fl payload s =
     bindE (items_of (json_or (jget payload ''clients'') (JObj []))) (\<lambda>clients_raw.
     bindE (items_of (json_or (jget payload ''refresh_tokens'') (JObj []))) (\<lambda>refresh_raw.
     bindE (load_clients fl clients_raw (clients s)) (\<lambda>cs.
     bindE (load_refreshes fl refresh_raw (refresh_tokens s)) (\<lambda>rts.
       Inr (s\<lparr>clients := cs, refresh_tokens := rts\<rparr>)))))"

section \<open>The constructor\<close>

definition empty_service :: "relay_config \<Rightarrow> fs \<Rightarrow> oauth" where
  "empty_service c d = \<lparr>cfg = c, clients = [], codes = [], access_tokens = [], refresh_tokens = [],
     pending = [],
     dcr_limiter = new_window DCR_RATE_LIMIT DCR_RATE_WINDOW_S MAX_RATE_LIMIT_SOURCES,
     authz_limiter = new_window AUTHZ_RATE_LIMIT AUTHZ_RATE_WINDOW_S MAX_RATE_LIMIT_SOURCES,
     owner_fail_limiter = new_window OWNER_FAIL_LIMIT OWNER_FAIL_WINDOW_S MAX_RATE_LIMIT_SOURCES,
     has_store = False, disk = d\<rparr>"

definition of_state_error :: "state_error \<Rightarrow> oauth_error" where
  "of_state_error e = (case e of OAuthStateError m \<Rightarrow> StoreError m | RawOSError \<Rightarrow> PyOSError)"

definition load_on_start ::
    "(string \<Rightarrow> json option) \<Rightarrow> world \<Rightarrow> oauth \<Rightarrow> oauth_error + oauth" where
  "load_on_start dec w s =
     bindE (map_err of_state_error (load_state (float_text w) dec (io w) (disk s))) (\<lambda>payload.
       load_payload (float_text w) payload s)"

definition new_service ::
    "(string \<Rightarrow> json option) \<Rightarrow> world \<Rightarrow> relay_config \<Rightarrow> fs \<Rightarrow> unit outcome" where
  "new_service dec w c d =
     (let s0 = empty_service c d
      in if \<not> opt_truthy (oauth_state_path c) then (Inr (), s0)
         else (case open_store (io w) d of
                 (Inl e, d') \<Rightarrow> (Inl (of_state_error e), s0\<lparr>disk := d'\<rparr>)
               | (Inr _, d') \<Rightarrow>
                   (let s1 = s0\<lparr>has_store := True, disk := d'\<rparr>
                    in withE (load_on_start dec w s1) s1 (\<lambda>s2.
                       (let (s3, evicted) = cleanup_inactive_clients (clock w 0) 0 s2
                        in if evicted = [] then (Inr (), s3) else persist w (clock w 1) s3)))))"

section \<open>Configured values\<close>

definition issuer :: "oauth \<Rightarrow> oauth_error + string" where
  "issuer s = (case public_base_url (cfg s) of None \<Rightarrow> Inl PyAssertionError | Some b \<Rightarrow> Inr b)"

definition resource :: "oauth \<Rightarrow> oauth_error + string" where
  "resource s = (case resource_url (cfg s) of None \<Rightarrow> Inl PyAssertionError | Some r \<Rightarrow> Inr r)"

definition scopes_supported :: "string list" where
  "scopes_supported = [DEFAULT_SCOPE]"

end
