(* ===== verification/OAuthOps.thy ===== *)
theory OAuthOps
  imports OAuth
begin

text \<open>
  The operations of \<^verbatim>\<open>OAuthService\<close> (\<^verbatim>\<open>relay/oauth.py\<close>) that its HTTP front end calls: metadata, dynamic
  client registration, the authorization request, the owner's decision, the token endpoint,
  revocation, bearer validation and the challenge header. Each takes the \<open>world\<close> of its call and
  returns its result and the state it leaves, also when it raises. \<open>clock w n\<close> is the reading of
  the \<open>n\<close>-th \<^verbatim>\<open>time.time()\<close> on the longest path, \<open>rnd w n\<close> the bytes of the \<open>n\<close>-th token.
\<close>

section \<open>Metadata\<close>

definition protected_resource_metadata :: "oauth \<Rightarrow> oauth_error + jobj" where
  "protected_resource_metadata s =
     bindE (resource s) (\<lambda>res.
     bindE (issuer s) (\<lambda>iss.
       Inr [(''resource'', JStr res),
            (''authorization_servers'', JList [JStr iss]),
            (''scopes_supported'', JList (map JStr scopes_supported)),
            (''bearer_methods_supported'', JList [JStr ''header'']),
            (''resource_documentation'', JStr (iss @ ''/health''))]))"

definition authorization_server_metadata :: "oauth \<Rightarrow> oauth_error + jobj" where
  "authorization_server_metadata s =
     bindE (issuer s) (\<lambda>base.
       Inr [(''issuer'', JStr base),
            (''authorization_endpoint'', JStr (base @ ''/oauth/authorize'')),
            (''token_endpoint'', JStr (base @ ''/oauth/token'')),
            (''registration_endpoint'', JStr (base @ ''/oauth/register'')),
            (''revocation_endpoint'', JStr (base @ ''/oauth/revoke'')),
            (''response_types_supported'', JList [JStr ''code'']),
            (''grant_types_supported'', JList [JStr ''authorization_code'', JStr ''refresh_token'']),
            (''code_challenge_methods_supported'', JList [JStr ''S256'']),
            (''token_endpoint_auth_methods_supported'', JList [JStr ''none'']),
            (''scopes_supported'', JList (map JStr scopes_supported)),
            (''authorization_response_iss_parameter_supported'', JBool True),
            (''revocation_endpoint_auth_methods_supported'', JList [JStr ''none'']),
            (''client_id_metadata_document_supported'', JBool False)])"

section \<open>Dynamic client registration\<close>

definition bad_redirect :: oauth_error where
  "bad_redirect = OAuthError ''invalid_redirect_uri'' ''redirect_uri must be https or loopback http'' 400"

fun cleaned_uris :: "json list \<Rightarrow> oauth_error + json list" where
  "cleaned_uris [] = Inr []"
| "cleaned_uris (JStr uri # rest) =
     bindE (redirect_uri_safe uri) (\<lambda>ok.
       if \<not> ok then Inl bad_redirect
       else bindE (cleaned_uris rest) (\<lambda>cs. Inr (JStr uri # cs)))"
| "cleaned_uris (_ # rest) = Inl bad_redirect"

definition hashable :: "json \<Rightarrow> bool" where
  "hashable v = (case v of JList _ \<Rightarrow> False | JObj _ \<Rightarrow> False | _ \<Rightarrow> True)"

fun check_grants :: "json list \<Rightarrow> oauth_error + unit" where
  "check_grants [] = Inr ()"
| "check_grants (g # gs) =
     (if \<not> hashable g then Inl PyTypeError
      else if g \<in> {JStr ''authorization_code'', JStr ''refresh_token''} then check_grants gs
      else Inl (OAuthError ''invalid_client_metadata'' ''unsupported grant_type'' 400))"

definition check_response_types :: "json \<Rightarrow> oauth_error + unit" where
  "check_response_types v =
     (if v = JList [JStr ''code''] then Inr ()
      else (case as_list v of
              None \<Rightarrow> Inl PyTypeError
            | Some xs \<Rightarrow>
                if \<not> list_all hashable xs then Inl PyTypeError
                else if set xs \<noteq> {JStr ''code''}
                then Inl (OAuthError ''invalid_client_metadata'' ''only response_type=code'' 400)
                else Inr ()))"

definition registration_full :: oauth_error where
  "registration_full = OAuthError ''invalid_client_metadata'' ''client registration limit reached'' 400"

text \<open>What the request body must satisfy (the checks after the capacity checks).\<close>

definition validate_registration :: "jobj \<Rightarrow> oauth_error + json list \<times> json list" where
  "validate_registration body =
     bindE (case jget body ''redirect_uris'' of
              JList (u # us) \<Rightarrow> cleaned_uris (u # us)
            | _ \<Rightarrow> Inl (OAuthError ''invalid_redirect_uri'' ''redirect_uris required'' 400)) (\<lambda>cleaned.
     if jget_or body ''token_endpoint_auth_method'' (JStr ''none'') \<noteq> JStr ''none''
     then Inl (OAuthError ''invalid_client_metadata''
            ''only public clients (token_endpoint_auth_method=none) are supported'' 400)
     else (case json_or (jget body ''grant_types'') (JList [JStr ''authorization_code'', JStr ''refresh_token'']) of
             JList grant_types \<Rightarrow>
               bindE (check_grants grant_types) (\<lambda>_.
               bindE (check_response_types (json_or (jget body ''response_types'') (JList [JStr ''code'']))) (\<lambda>_.
                 Inr (cleaned, grant_types)))
           | _ \<Rightarrow> Inl (OAuthError ''invalid_client_metadata'' ''grant_types invalid'' 400)))"

definition make_client :: "world \<Rightarrow> time \<Rightarrow> jobj \<Rightarrow> json list \<Rightarrow> json list \<Rightarrow> registered_client" where
  "make_client w now body cleaned grant_types =
     \<lparr>rc_client_id = new_token ''client'' (rnd w 0), rc_redirect_uris = cleaned,
      rc_client_name = (case jget body ''client_name'' of JStr n \<Rightarrow> JStr n | _ \<Rightarrow> JNull),
      rc_auth_method = ''none'', rc_grant_types = grant_types,
      rc_response_types = [JStr ''code''], rc_issued_at = py_trunc now, rc_last_used_at = now\<rparr>"

definition register_client :: "world \<Rightarrow> string \<Rightarrow> jobj \<Rightarrow> oauth \<Rightarrow> jobj outcome" where
  "register_client w source body s0 =
     (let (ok, lim) = allow_event (dcr_limiter s0) source (clock w 0);
          s1 = s0\<lparr>dcr_limiter := lim\<rparr>;
          now = clock w 1
      in if \<not> ok then (Inl (OAuthError ''temporarily_unavailable'' ''client registration rate limit exceeded'' 429), s1)
         else (let s2 = fst (cleanup_inactive_clients now 1 s1)
               in if inactive_occupancy s2 now \<ge> MAX_INACTIVE_DCR_CLIENTS then (Inl registration_full, s2)
                  else if length (clients s2) \<ge> MAX_DCR_CLIENTS then (Inl registration_full, s2)
                  else withE (validate_registration body) s2 (\<lambda>(cleaned, grant_types).
                    let client = make_client w now body cleaned grant_types;
                        client_id = rc_client_id client;
                        s3 = s2\<lparr>clients := dset client_id client (clients s2),
                                dcr_limiter := record_event (dcr_limiter s2) source now\<rparr>
                    in bindS (persist w (clock w 2) s3) (\<lambda>_ s4.
                         (Inr [(''client_id'', JStr client_id),
                               (''client_id_issued_at'', JInt (rc_issued_at client)),
                               (''redirect_uris'', JList cleaned),
                               (''token_endpoint_auth_method'', JStr ''none''),
                               (''grant_types'', JList grant_types),
                               (''response_types'', JList [JStr ''code'']),
                               (''client_name'', rc_client_name client)], s4)))))"

section \<open>Authorization request\<close>

type_synonym form = "string dict"

definition form_get :: "form \<Rightarrow> string \<Rightarrow> string" where
  "form_get f k = (case map_of f k of None \<Rightarrow> [] | Some v \<Rightarrow> v)"

definition parse_scopes :: "string option \<Rightarrow> oauth_error + string set" where
  "parse_scopes scope =
     (case scope of
        None \<Rightarrow> Inr (set scopes_supported)
      | Some txt \<Rightarrow>
          if txt = [] \<or> py_strip txt = [] then Inr (set scopes_supported)
          else if \<not> set (split_ws txt) \<subseteq> set scopes_supported
          then Inl (OAuthError ''invalid_scope'' ''unsupported scope requested'' 400)
          else Inr (set (split_ws txt)))"

datatype authz_result = Prompt pending_authorization | ErrorRedirect form

definition error_redirect :: "form \<Rightarrow> string \<Rightarrow> string \<Rightarrow> oauth \<Rightarrow> oauth_error + authz_result" where
  "error_redirect params err description s =
     (let redirect_uri = form_get params ''redirect_uri'';
          client_id = form_get params ''client_id'';
          refuse = Inl (OAuthError err description 400)
      in if redirect_uri = [] \<or> client_id = [] then refuse
         else (case map_of (clients s) client_id of
                 None \<Rightarrow> refuse
               | Some client \<Rightarrow>
                   if \<not> exact_redirect_allowed (rc_redirect_uris client) redirect_uri then refuse
                   else bindE (issuer s) (\<lambda>iss.
                     Inr (ErrorRedirect
                       ([(''error'', err), (''error_description'', description), (''iss'', iss)] @
                        (case map_of params ''state'' of None \<Rightarrow> [] | Some st \<Rightarrow> [(''state'', st)]))))))"

text \<open>The checks before the request is admitted: an error redirect, or the scopes to ask for.\<close>

definition check_authorization :: "form \<Rightarrow> oauth \<Rightarrow> oauth_error + authz_result + string set" where
  "check_authorization params s =
     (let redirect_uri = form_get params ''redirect_uri'';
          er = (\<lambda>err description. bindE (error_redirect params err description s) (\<lambda>r. Inr (Inl r)))
      in case map_of (clients s) (form_get params ''client_id'') of
           None \<Rightarrow> Inl (OAuthError ''unauthorized_client'' ''unknown client_id'' 400)
         | Some client \<Rightarrow>
             if \<not> exact_redirect_allowed (rc_redirect_uris client) redirect_uri
             then Inl (OAuthError ''invalid_request'' ''redirect_uri mismatch'' 400)
             else if form_get params ''response_type'' \<noteq> ''code''
             then er ''unsupported_response_type'' ''only code is supported''
             else if form_get params ''code_challenge_method'' \<noteq> ''S256''
             then er ''invalid_request'' ''code_challenge_method must be S256''
             else if form_get params ''code_challenge'' = []
             then er ''invalid_request'' ''code_challenge required''
             else bindE (resource s) (\<lambda>res.
               if form_get params ''resource'' \<noteq> res
               then er ''invalid_target'' ''resource does not match MCP resource''
               else (case parse_scopes (map_of params ''scope'') of
                       Inl (OAuthError err description _) \<Rightarrow> er err description
                     | Inl e \<Rightarrow> Inl e
                     | Inr scopes \<Rightarrow> Inr (Inr scopes))))"

definition make_pending :: "world \<Rightarrow> form \<Rightarrow> string set \<Rightarrow> pending_authorization" where
  "make_pending w params scopes =
     \<lparr>pa_request_id = new_token ''authreq'' (rnd w 0),
      pa_client_id = form_get params ''client_id'',
      pa_redirect_uri = form_get params ''redirect_uri'',
      pa_state = map_of params ''state'',
      pa_code_challenge = form_get params ''code_challenge'',
      pa_code_challenge_method = form_get params ''code_challenge_method'',
      pa_resource = form_get params ''resource'',
      pa_scopes = scopes,
      pa_expires_at = clock w 0 + CODE_TTL_S\<rparr>"

definition throttled :: "string \<Rightarrow> oauth_error" where
  "throttled m = OAuthError ''temporarily_unavailable'' m 429"

text \<open>The part under the lock.\<close>

definition admit_pending :: "world \<Rightarrow> string \<Rightarrow> pending_authorization \<Rightarrow> oauth \<Rightarrow> authz_result outcome" where
  "admit_pending w source p s0 =
     (let (ok, lim) = allow_event (authz_limiter s0) source (clock w 1);
          s1 = s0\<lparr>authz_limiter := lim\<rparr>
      in if \<not> ok then (Inl (throttled ''authorization request rate limit exceeded''), s1)
         else (let s2 = fst (cleanup_pending (clock w 2) s1)
               in if pending_count_for_client s2 (pa_client_id p) \<ge> MAX_PENDING_PER_CLIENT
                  then (Inl (throttled ''authorization request limit for client exceeded''), s2)
                  else if length (pending s2) \<ge> MAX_PENDING_AUTHORIZATIONS
                  then (Inl (throttled ''authorization request capacity exceeded''), s2)
                  else (Inr (Prompt p),
                        s2\<lparr>pending := dset (pa_request_id p) p (pending s2),
                           authz_limiter := record_event (authz_limiter s2) source (clock w 3)\<rparr>)))"

definition begin_authorization :: "world \<Rightarrow> string \<Rightarrow> form \<Rightarrow> oauth \<Rightarrow> authz_result outcome" where
  "begin_authorization w source params s =
     withE (check_authorization params s) s (\<lambda>r.
       case r of
         Inl redirect \<Rightarrow> (Inr redirect, s)
       | Inr scopes \<Rightarrow> admit_pending w source (make_pending w params scopes) s)"

text \<open>
  The consent page. \<open>dash\<close> is the text of U+2014 in the page title, which lies outside the 8-bit
  range of the model's strings. A line of the page ends with \<open>NL\<close>.
\<close>

definition page_lines :: "string list \<Rightarrow> string" where
  "page_lines ls = join_with [NL] ls"

definition quoted :: "string \<Rightarrow> string" where
  "quoted v = [DQUOTE] @ v @ [DQUOTE]"

definition consent_html ::
    "(rat \<Rightarrow> string) \<Rightarrow> string \<Rightarrow> pending_authorization \<Rightarrow> string option \<Rightarrow> oauth \<Rightarrow> string" where
  "consent_html fl dash p err s =
     (let name = (case map_of (clients s) (pa_client_id p) of
                    Some c \<Rightarrow> if truthy (rc_client_name c) then json_str fl (rc_client_name c) else pa_client_id p
                  | None \<Rightarrow> pa_client_id p);
          errp = (case err of
                    Some e \<Rightarrow> if e = [] then []
                      else ''<p class='' @ [QUOTE] @ ''err'' @ [QUOTE] @ ''>'' @ html_escape e @ ''</p>''
                  | None \<Rightarrow> [])
      in page_lines [
        ''<!DOCTYPE html>'',
        ''<html lang='' @ quoted ''en'' @ ''><head><meta charset='' @ quoted ''utf-8''
          @ ''/><title>DataRelay Link Plugin '' @ dash @ '' Authorize</title>'',
        ''<style>'',
        ''body{font-family:system-ui,sans-serif;max-width:32rem;margin:2rem auto;padding:0 1rem}'',
        ''.err{color:#b00020} label{display:block;margin:.75rem 0 .25rem}'',
        ''input[type=password]{width:100%;padding:.5rem} button{margin-top:1rem;padding:.5rem 1rem}'',
        ''</style></head><body>'',
        ''<h1>Authorize DataRelay Link Plugin</h1>'',
        ''<p>Client <strong>'' @ html_escape name @ ''</strong> requests scope'',
        ''<code>'' @ html_escape (join_with '' '' (sorted_list_of_set (pa_scopes p))) @ ''</code> for resource'',
        ''<code>'' @ html_escape (pa_resource p) @ ''</code>.</p>'',
        ''<p>Approve only if you are the configured relay owner. Upstream DRLink credentials are never shared with ChatGPT.</p>'',
        errp,
        ''<form method='' @ quoted ''post'' @ '' action='' @ quoted ''/oauth/authorize'' @ ''>'',
        ''<input type='' @ quoted ''hidden'' @ '' name='' @ quoted ''request_id'' @ '' value=''
          @ quoted (html_escape (pa_request_id p)) @ ''/>'',
        ''<label for='' @ quoted ''owner_secret'' @ ''>Owner approval secret</label>'',
        ''<input id='' @ quoted ''owner_secret'' @ '' name='' @ quoted ''owner_secret'' @ '' type=''
          @ quoted ''password'' @ '' autocomplete='' @ quoted ''current-password'' @ '' required/>'',
        ''<button type='' @ quoted ''submit'' @ '' name='' @ quoted ''decision'' @ '' value='' @ quoted ''approve'' @ ''>Approve</button>'',
        ''<button type='' @ quoted ''submit'' @ '' name='' @ quoted ''decision'' @ '' value='' @ quoted ''deny'' @ ''>Deny</button>'',
        ''</form>'',
        ''</body></html>''])"

section \<open>The owner's decision\<close>

definition redirect_with :: "pending_authorization \<Rightarrow> form \<Rightarrow> oauth \<Rightarrow> oauth_error + string" where
  "redirect_with p params s =
     (case urlparse (pa_redirect_uri p) of
        None \<Rightarrow> Inl PyValueError
      | Some parsed \<Rightarrow>
          bindE (issuer s) (\<lambda>iss.
            let q1 = (case pa_state p of
                        None \<Rightarrow> params
                      | Some st \<Rightarrow> if map_of params ''state'' = None then params @ [(''state'', st)] else params);
                extra = urlencode (dset ''iss'' iss q1);
                existing = uquery parsed
            in Inr (urlunparse (parsed\<lparr>uquery := if existing \<noteq> [] then existing @ ''&'' @ extra else extra\<rparr>))))"

text \<open>\<^verbatim>\<open>secrets.compare_digest\<close> of two strings raises \<^verbatim>\<open>TypeError\<close> unless both are ASCII.\<close>

definition compare_digest :: "string \<Rightarrow> string \<Rightarrow> oauth_error + bool" where
  "compare_digest a b = (if is_ascii a \<and> is_ascii b then Inr (a = b) else Inl PyTypeError)"

definition expected_secret :: "oauth \<Rightarrow> string" where
  "expected_secret s = (case owner_approval_secret (cfg s) of None \<Rightarrow> [] | Some x \<Rightarrow> x)"

definition denied :: oauth_error where
  "denied = OAuthError ''access_denied'' ''authorization denied'' 401"

definition set_last_used :: "string \<Rightarrow> time \<Rightarrow> oauth \<Rightarrow> oauth" where
  "set_last_used client_id t s =
     (case map_of (clients s) client_id of
        None \<Rightarrow> s
      | Some c \<Rightarrow> s\<lparr>clients := dset client_id (c\<lparr>rc_last_used_at := t\<rparr>) (clients s)\<rparr>)"

definition make_code :: "world \<Rightarrow> pending_authorization \<Rightarrow> auth_code" where
  "make_code w p =
     \<lparr>ac_code = new_token ''code'' (rnd w 0), ac_client_id = pa_client_id p,
      ac_redirect_uri = pa_redirect_uri p, ac_code_challenge = pa_code_challenge p,
      ac_code_challenge_method = pa_code_challenge_method p, ac_resource = pa_resource p,
      ac_scopes = pa_scopes p, ac_expires_at = clock w 3 + CODE_TTL_S, ac_used = False\<rparr>"

text \<open>The three critical sections: take the request, check the secret, issue the code.\<close>

definition take_pending :: "string \<Rightarrow> oauth \<Rightarrow> pending_authorization option \<times> oauth" where
  "take_pending request_id s = (map_of (pending s) request_id, s\<lparr>pending := ddel request_id (pending s)\<rparr>)"

definition check_owner :: "world \<Rightarrow> string \<Rightarrow> string \<Rightarrow> string \<Rightarrow> pending_authorization \<Rightarrow> oauth \<Rightarrow> unit outcome" where
  "check_owner w source request_id owner_secret p s0 =
     (let (ok, lim) = allow_event (owner_fail_limiter s0) source (clock w 1);
          s1 = s0\<lparr>owner_fail_limiter := lim\<rparr>;
          put_back = pending_update (dset request_id p);
          expected = expected_secret s1
      in if \<not> ok then (Inl denied, put_back s1)
         else withE (if expected = [] then Inr False else compare_digest owner_secret expected) s1 (\<lambda>same.
           if \<not> same
           then (Inl denied, put_back (s1\<lparr>owner_fail_limiter := record_event (owner_fail_limiter s1) source (clock w 2)\<rparr>))
           else (Inr (), set_last_used (pa_client_id p) (clock w 2) s1)))"

definition issue_code :: "world \<Rightarrow> pending_authorization \<Rightarrow> oauth \<Rightarrow> string outcome" where
  "issue_code w p s =
     (let code = make_code w p
      in bindS (persist w (clock w 4) (s\<lparr>codes := dset (ac_code code) code (codes s)\<rparr>)) (\<lambda>_ s1.
           (Inr (ac_code code), s1)))"

definition complete_authorization ::
    "world \<Rightarrow> string \<Rightarrow> string \<Rightarrow> string \<Rightarrow> string \<Rightarrow> oauth \<Rightarrow> string outcome" where
  "complete_authorization w source request_id owner_secret decision s0 =
     (case take_pending request_id s0 of
        (None, s1) \<Rightarrow> (Inl (OAuthError ''invalid_request'' ''authorization request expired or unknown'' 400), s1)
      | (Some p, s1) \<Rightarrow>
          if clock w 0 > pa_expires_at p
          then (Inl (OAuthError ''invalid_request'' ''authorization request expired or unknown'' 400), s1)
          else if decision \<noteq> ''approve''
          then (redirect_with p [(''error'', ''access_denied''),
                   (''error_description'', ''owner denied authorization'')] s1, s1)
          else bindS (check_owner w source request_id owner_secret p s1) (\<lambda>_ s2.
               bindS (issue_code w p s2) (\<lambda>code s3.
                 (redirect_with p [(''code'', code)] s3, s3))))"

section \<open>The token endpoint\<close>

definition grant_error :: "string \<Rightarrow> oauth_error" where
  "grant_error m = OAuthError ''invalid_grant'' m 400"

definition target_error :: oauth_error where
  "target_error = OAuthError ''invalid_target'' ''resource mismatch'' 400"

definition issue_tokens :: "world \<Rightarrow> string \<Rightarrow> string \<Rightarrow> string set \<Rightarrow> oauth \<Rightarrow> jobj outcome" where
  "issue_tokens w client_id res scopes s =
     (let now = clock w 2;
          access = \<lparr>at_token = new_token ''atk'' (rnd w 0), at_client_id = client_id, at_resource = res,
                    at_scopes = scopes, at_expires_at = now + ACCESS_TTL_S, at_revoked = False,
                    at_subject = ''relay-owner''\<rparr>;
          refresh = \<lparr>rt_token = new_token ''rtk'' (rnd w 1), rt_client_id = client_id, rt_resource = res,
                    rt_scopes = scopes, rt_expires_at = now + REFRESH_TTL_S, rt_revoked = False,
                    rt_subject = ''relay-owner''\<rparr>;
          s1 = s\<lparr>access_tokens := dset (at_token access) access (access_tokens s),
                 refresh_tokens := dset (rt_token refresh) refresh (refresh_tokens s)\<rparr>
      in bindS (persist w (clock w 3) s1) (\<lambda>_ s2.
           (Inr [(''access_token'', JStr (at_token access)),
                 (''token_type'', JStr ''Bearer''),
                 (''expires_in'', JInt 3600),
                 (''refresh_token'', JStr (rt_token refresh)),
                 (''scope'', JStr (join_with '' '' (sorted_list_of_set scopes))),
                 (''resource'', JStr res)], s2)))"

text \<open>The checks on a code that has already been taken out of the table.\<close>

definition check_code :: "auth_code \<Rightarrow> form \<Rightarrow> time \<Rightarrow> oauth \<Rightarrow> oauth_error + unit" where
  "check_code record form now s =
     (let client_id = form_get form ''client_id'';
          verifier = form_get form ''code_verifier'';
          res = form_get form ''resource''
      in if ac_used record \<or> now > ac_expires_at record then Inl (grant_error ''authorization code expired or used'')
         else if ac_client_id record \<noteq> client_id then Inl (grant_error ''client_id mismatch'')
         else if map_of (clients s) client_id = None
         then Inl (OAuthError ''unauthorized_client'' ''unknown client'' 400)
         else if ac_redirect_uri record \<noteq> form_get form ''redirect_uri'' then Inl (grant_error ''redirect_uri mismatch'')
         else if res \<noteq> ac_resource record then Inl target_error
         else bindE (resource s) (\<lambda>configured.
           if res \<noteq> configured then Inl target_error
           else if ac_code_challenge_method record \<noteq> ''S256'' then Inl (grant_error ''PKCE method not S256'')
           else if verifier = [] then Inl (grant_error ''PKCE verification failed'')
           else if \<not> is_ascii verifier then Inl PyValueError
           else if pkce_s256 verifier \<noteq> ac_code_challenge record then Inl (grant_error ''PKCE verification failed'')
           else Inr ()))"

definition exchange_authorization_code :: "world \<Rightarrow> form \<Rightarrow> oauth \<Rightarrow> jobj outcome" where
  "exchange_authorization_code w form s =
     (let code = form_get form ''code''; client_id = form_get form ''client_id''
      in case map_of (codes s) code of
           None \<Rightarrow> (Inl (grant_error ''unknown authorization code''), s)
         | Some record \<Rightarrow>
             (let s1 = s\<lparr>codes := ddel code (codes s)\<rparr>
              in withE (check_code record form (clock w 0) s1) s1 (\<lambda>_.
                   issue_tokens w client_id (ac_resource record) (ac_scopes record)
                     (set_last_used client_id (clock w 1) s1))))"

definition set_refresh_revoked :: "string \<Rightarrow> oauth \<Rightarrow> oauth" where
  "set_refresh_revoked token s =
     (case map_of (refresh_tokens s) token of
        None \<Rightarrow> s
      | Some t \<Rightarrow> s\<lparr>refresh_tokens := dset token (t\<lparr>rt_revoked := True\<rparr>) (refresh_tokens s)\<rparr>)"

definition set_access_revoked :: "string \<Rightarrow> oauth \<Rightarrow> oauth" where
  "set_access_revoked token s =
     (case map_of (access_tokens s) token of
        None \<Rightarrow> s
      | Some t \<Rightarrow> s\<lparr>access_tokens := dset token (t\<lparr>at_revoked := True\<rparr>) (access_tokens s)\<rparr>)"

definition check_refresh :: "form \<Rightarrow> time \<Rightarrow> oauth \<Rightarrow> oauth_error + refresh_token" where
  "check_refresh form now s =
     (let res = form_get form ''resource''
      in case map_of (refresh_tokens s) (form_get form ''refresh_token'') of
           None \<Rightarrow> Inl (grant_error ''invalid refresh token'')
         | Some record \<Rightarrow>
             if rt_revoked record \<or> now > rt_expires_at record then Inl (grant_error ''invalid refresh token'')
             else if rt_client_id record \<noteq> form_get form ''client_id'' then Inl (grant_error ''client_id mismatch'')
             else if res = [] then Inr record
             else if res \<noteq> rt_resource record then Inl target_error
             else bindE (resource s) (\<lambda>configured.
                    if res \<noteq> configured then Inl target_error else Inr record))"

definition refresh_scopes :: "form \<Rightarrow> refresh_token \<Rightarrow> oauth_error + string set" where
  "refresh_scopes form record =
     (case map_of form ''scope'' of
        None \<Rightarrow> Inr (rt_scopes record)
      | Some scope \<Rightarrow>
          if scope = [] then Inr (rt_scopes record)
          else bindE (parse_scopes (Some scope)) (\<lambda>requested.
            if \<not> requested \<subseteq> rt_scopes record
            then Inl (OAuthError ''invalid_scope'' ''cannot expand scopes on refresh'' 400)
            else Inr requested))"

definition exchange_refresh_token :: "world \<Rightarrow> form \<Rightarrow> oauth \<Rightarrow> jobj outcome" where
  "exchange_refresh_token w form s =
     withE (check_refresh form (clock w 0) s) s (\<lambda>record.
       let s1 = set_refresh_revoked (form_get form ''refresh_token'') s;
           client_id = form_get form ''client_id''
       in withE (refresh_scopes form record) s1 (\<lambda>scopes.
            issue_tokens w client_id (rt_resource record) scopes
              (set_last_used client_id (clock w 1) s1)))"

definition exchange_token :: "world \<Rightarrow> form \<Rightarrow> oauth \<Rightarrow> jobj outcome" where
  "exchange_token w form s =
     (let grant_type = form_get form ''grant_type''
      in if grant_type = ''authorization_code'' then exchange_authorization_code w form s
         else if grant_type = ''refresh_token'' then exchange_refresh_token w form s
         else (Inl (OAuthError ''unsupported_grant_type'' ''unsupported grant_type'' 400), s))"

section \<open>Revocation and validation\<close>

definition revoke :: "world \<Rightarrow> form \<Rightarrow> oauth \<Rightarrow> unit outcome" where
  "revoke w form s =
     (let token = form_get form ''token'';
          hint = form_get form ''token_type_hint'';
          in_access = (map_of (access_tokens s) token \<noteq> None);
          in_refresh = (map_of (refresh_tokens s) token \<noteq> None)
      in if hint \<in> {[], ''access_token''} \<and> in_access
         then persist w (clock w 0) (set_access_revoked token s)
         else if hint \<in> {[], ''refresh_token''} \<and> in_refresh
         then persist w (clock w 0) (set_refresh_revoked token s)
         else persist w (clock w 0) (set_refresh_revoked token (set_access_revoked token s)))"

definition missing_bearer :: oauth_error where
  "missing_bearer = OAuthError ''invalid_token'' ''missing bearer token'' 401"

definition validate_bearer ::
    "time \<Rightarrow> string option \<Rightarrow> string set option \<Rightarrow> oauth \<Rightarrow> oauth_error + access_token" where
  "validate_bearer now header required_scopes s =
     (case header of
        None \<Rightarrow> Inl missing_bearer
      | Some h \<Rightarrow>
          if \<not> starts_with h ''Bearer '' then Inl missing_bearer
          else (let token_value = py_strip (drop 7 h);
                    required = (case required_scopes of
                                  Some r \<Rightarrow> if r = {} then set scopes_supported else r
                                | None \<Rightarrow> set scopes_supported)
                in if token_value = [] then Inl missing_bearer
                   else (case map_of (access_tokens s) token_value of
                           None \<Rightarrow> Inl (OAuthError ''invalid_token'' ''token revoked or unknown'' 401)
                         | Some record \<Rightarrow>
                             if at_revoked record then Inl (OAuthError ''invalid_token'' ''token revoked or unknown'' 401)
                             else if now > at_expires_at record
                             then Inl (OAuthError ''invalid_token'' ''token expired'' 401)
                             else bindE (resource s) (\<lambda>res.
                               if at_resource record \<noteq> res
                               then Inl (OAuthError ''invalid_token'' ''wrong resource audience'' 401)
                               else if \<not> required \<subseteq> at_scopes record
                               then Inl (OAuthError ''insufficient_scope'' ''missing required scope'' 403)
                               else Inr record))))"

definition default_error_description :: "string \<Rightarrow> string" where
  "default_error_description err =
     (if err = ''insufficient_scope'' then ''missing required scope''
      else if err = ''invalid_token'' then ''authentication required''
      else ''authentication required'')"

definition truthy_text :: "string option \<Rightarrow> string \<Rightarrow> string" where
  "truthy_text v d = (case v of Some x \<Rightarrow> if x = [] then d else x | None \<Rightarrow> d)"

definition safe_description :: "string \<Rightarrow> string \<Rightarrow> string" where
  "safe_description err desc =
     (let cleaned = py_strip (filter (\<lambda>ch. is_printable ch \<and> ch \<noteq> DQUOTE \<and> ch \<noteq> BACKSLASH) desc)
      in if cleaned = [] then default_error_description err else cleaned)"

definition www_authenticate ::
    "string option \<Rightarrow> string option \<Rightarrow> string option \<Rightarrow> oauth \<Rightarrow> oauth_error + string" where
  "www_authenticate err error_description scope s =
     bindE (issuer s) (\<lambda>iss.
       let metadata = iss @ ''/.well-known/oauth-protected-resource'';
           base = [''Bearer resource_metadata='' @ quoted metadata,
                   ''scope='' @ quoted (truthy_text scope DEFAULT_SCOPE)];
           more = (case err of
                     None \<Rightarrow> []
                   | Some e \<Rightarrow>
                       if e = [] then []
                       else [''error='' @ quoted (filter (\<lambda>ch. ch \<noteq> BACKSLASH \<and> ch \<noteq> DQUOTE) e),
                             ''error_description='' @ quoted (safe_description e
                                (truthy_text error_description (default_error_description e)))])
       in Inr (join_with '', '' (base @ more)))"

end
