(* ===== verification/OAuthFacts.thy ===== *)
theory OAuthFacts
  imports OAuthOps
begin

text \<open>
  Facts about the housekeeping of the authorization service: what a persist may change, what an
  eviction may remove (\<open>keeps\<close>), that the eviction loop ends with its budgets met or nothing left to
  evict, and the well-formedness invariant \<open>oauth_ok\<close> (every table is keyed by its rows' own ids)
  with its preservation by every operation. \<open>frame_simps\<close> collects which tables an operation leaves
  alone.
\<close>

named_theorems frame_simps "tables an operation does not touch"

definition oauth_ok :: "oauth \<Rightarrow> bool" where
  "oauth_ok s \<longleftrightarrow>
     keyed rc_client_id (clients s) \<and> keyed ac_code (codes s) \<and> keyed at_token (access_tokens s) \<and>
     keyed rt_token (refresh_tokens s) \<and> keyed pa_request_id (pending s)"

section \<open>Persist\<close>

lemma drop_dead_shape:
  "drop_dead_refresh now s = s\<lparr>refresh_tokens := refresh_tokens (drop_dead_refresh now s)\<rparr>"
  by (simp add: drop_dead_refresh_def Let_def)

lemma drop_dead_lookup:
  "wf_dict (refresh_tokens s) \<Longrightarrow>
    map_of (refresh_tokens (drop_dead_refresh now s)) k =
      (case map_of (refresh_tokens s) k of None \<Rightarrow> None
       | Some t \<Rightarrow> if rt_expires_at t < now \<and> rt_revoked t then None else Some t)"
  by (simp add: drop_dead_refresh_def Let_def map_of_sweep split: option.splits)

lemma persist_shape:
  obtains rts d where "snd (persist w now s) = s\<lparr>refresh_tokens := rts, disk := d\<rparr>"
    "rts = refresh_tokens s \<or> rts = refresh_tokens (drop_dead_refresh now s)"
proof (cases "has_store s")
  case False
  then have "snd (persist w now s) = s\<lparr>refresh_tokens := refresh_tokens s, disk := disk s\<rparr>"
    by (simp add: persist_def)
  then show ?thesis using that by blast
next
  case True
  have "\<exists>d. snd (persist w now s) = drop_dead_refresh now s\<lparr>disk := d\<rparr>"
    using True by (auto simp: persist_def Let_def split: prod.splits sum.splits state_error.splits)
  then show ?thesis using that drop_dead_shape [of now s] by (metis oauth.update_convs(5))
qed

lemma persist_frame [frame_simps]:
  "cfg (snd (persist w now s)) = cfg s"
  "clients (snd (persist w now s)) = clients s"
  "codes (snd (persist w now s)) = codes s"
  "access_tokens (snd (persist w now s)) = access_tokens s"
  "pending (snd (persist w now s)) = pending s"
  "dcr_limiter (snd (persist w now s)) = dcr_limiter s"
  "authz_limiter (snd (persist w now s)) = authz_limiter s"
  "owner_fail_limiter (snd (persist w now s)) = owner_fail_limiter s"
  "has_store (snd (persist w now s)) = has_store s"
  by (rule persist_shape [of w now s]; simp)+

lemma persist_refresh_le:
  assumes "wf_dict (refresh_tokens s)"
    and "map_of (refresh_tokens (snd (persist w now s))) k = Some t"
  shows "map_of (refresh_tokens s) k = Some t"
  by (rule persist_shape [of w now s])
    (use assms in \<open>auto simp: drop_dead_lookup split: option.splits if_splits\<close>)

lemma persist_refresh_keeps:
  assumes "wf_dict (refresh_tokens s)" "map_of (refresh_tokens s) k = Some t" "\<not> rt_revoked t"
  shows "map_of (refresh_tokens (snd (persist w now s))) k = Some t"
  by (rule persist_shape [of w now s]) (use assms in \<open>auto simp: drop_dead_lookup\<close>)

lemma persist_refresh_keyed:
  assumes "keyed rt_token (refresh_tokens s)"
  shows "keyed rt_token (refresh_tokens (snd (persist w now s)))"
  by (rule persist_shape [of w now s])
    (use assms in \<open>auto simp: drop_dead_refresh_def Let_def\<close>)

lemma persist_ok: "oauth_ok s \<Longrightarrow> oauth_ok (snd (persist w now s))"
  by (simp add: oauth_ok_def frame_simps persist_refresh_keyed)

section \<open>Removing clients\<close>

definition protected_client :: "oauth \<Rightarrow> time \<Rightarrow> string \<Rightarrow> bool" where
  "protected_client s now cid \<longleftrightarrow> client_has_live_refresh s cid now \<or> client_has_live_pending s cid now"

text \<open>\<open>keeps now s s'\<close>: what is protected in \<open>s\<close> is still there, unchanged, in \<open>s'\<close>.\<close>

definition keeps :: "time \<Rightarrow> oauth \<Rightarrow> oauth \<Rightarrow> bool" where
  "keeps now s s' \<longleftrightarrow>
     (\<exists>cs rts. s' = s\<lparr>clients := cs, refresh_tokens := rts\<rparr> \<and>
        keyed rc_client_id cs \<and> keyed rt_token rts \<and>
        map_of cs \<subseteq>\<^sub>m map_of (clients s) \<and> map_of rts \<subseteq>\<^sub>m map_of (refresh_tokens s) \<and>
        (\<forall>cid. protected_client s now cid \<longrightarrow>
           map_of cs cid = map_of (clients s) cid \<and>
           (\<forall>tid t. map_of (refresh_tokens s) tid = Some t \<longrightarrow> rt_client_id t = cid \<longrightarrow>
              map_of rts tid = Some t)))"

lemma live_refresh_iff:
  assumes "keyed rt_token (refresh_tokens s)"
  shows "client_has_live_refresh s cid now \<longleftrightarrow>
    (\<exists>tid t. map_of (refresh_tokens s) tid = Some t \<and> live_refresh cid now t)"
proof -
  have "v \<in> set (dvals (refresh_tokens s)) \<longleftrightarrow> (\<exists>tid. map_of (refresh_tokens s) tid = Some v)" for v
    by (rule dvals_iff [OF keyed_wf [OF assms]])
  then show ?thesis by (simp only: client_has_live_refresh_def list_ex_iff Bex_def) blast
qed

lemma keeps_refl:
  "keyed rc_client_id (clients s) \<Longrightarrow> keyed rt_token (refresh_tokens s) \<Longrightarrow> keeps now s s"
  unfolding keeps_def
  by (rule exI [of _ "clients s"], rule exI [of _ "refresh_tokens s"]) simp

lemma keeps_protected:
  assumes "keeps now s s'" "keyed rt_token (refresh_tokens s)" "protected_client s now cid"
  shows "protected_client s' now cid"
proof -
  obtain cs rts where s': "s' = s\<lparr>clients := cs, refresh_tokens := rts\<rparr>" and k: "keyed rt_token rts"
    and keep: "\<And>tid t. map_of (refresh_tokens s) tid = Some t \<Longrightarrow> rt_client_id t = cid \<Longrightarrow>
      map_of rts tid = Some t"
    using assms(1,3) unfolding keeps_def by blast
  have "client_has_live_refresh s' cid now" if "client_has_live_refresh s cid now"
  proof -
    from that assms(2) obtain tid t where t: "map_of (refresh_tokens s) tid = Some t" "live_refresh cid now t"
      by (auto simp: live_refresh_iff)
    then have "map_of rts tid = Some t" by (intro keep) (auto simp: live_refresh_def)
    then show ?thesis using t k by (auto simp: s' live_refresh_iff)
  qed
  moreover have "client_has_live_pending s' = client_has_live_pending s"
    by (simp add: fun_eq_iff client_has_live_pending_def s')
  ultimately show ?thesis using assms(3) by (auto simp: protected_client_def)
qed

lemma keeps_trans:
  assumes "keeps now s s1" "keeps now s1 s2" "keyed rt_token (refresh_tokens s)"
  shows "keeps now s s2"
proof -
  obtain cs rts where 1: "s1 = s\<lparr>clients := cs, refresh_tokens := rts\<rparr>"
    "map_of cs \<subseteq>\<^sub>m map_of (clients s)" "map_of rts \<subseteq>\<^sub>m map_of (refresh_tokens s)"
    "\<And>cid. protected_client s now cid \<Longrightarrow> map_of cs cid = map_of (clients s) cid \<and>
       (\<forall>tid t. map_of (refresh_tokens s) tid = Some t \<longrightarrow> rt_client_id t = cid \<longrightarrow> map_of rts tid = Some t)"
    using assms(1) unfolding keeps_def by blast
  obtain cs' rts' where 2: "s2 = s1\<lparr>clients := cs', refresh_tokens := rts'\<rparr>"
    "keyed rc_client_id cs'" "keyed rt_token rts'"
    "map_of cs' \<subseteq>\<^sub>m map_of (clients s1)" "map_of rts' \<subseteq>\<^sub>m map_of (refresh_tokens s1)"
    "\<And>cid. protected_client s1 now cid \<Longrightarrow> map_of cs' cid = map_of (clients s1) cid \<and>
       (\<forall>tid t. map_of (refresh_tokens s1) tid = Some t \<longrightarrow> rt_client_id t = cid \<longrightarrow> map_of rts' tid = Some t)"
    using assms(2) unfolding keeps_def by blast
  have "map_of cs' cid = map_of (clients s) cid \<and>
       (\<forall>tid t. map_of (refresh_tokens s) tid = Some t \<longrightarrow> rt_client_id t = cid \<longrightarrow> map_of rts' tid = Some t)"
    if "protected_client s now cid" for cid
    using 1(4) [OF that] 2(6) [OF keeps_protected [OF assms(1,3) that]] by (simp add: 1(1))
  then show ?thesis
    unfolding keeps_def using 1 2 by (auto intro: map_le_trans)
qed

lemma remove_client_keeps:
  assumes "keyed rc_client_id (clients s)" "keyed rt_token (refresh_tokens s)" "\<not> protected_client s now c"
  shows "keeps now s (remove_client c s)"
proof -
  let ?rts = "ddel_all (dkeys (filter (\<lambda>(tid, tok). rt_client_id tok = c) (refresh_tokens s))) (refresh_tokens s)"
  have look: "map_of ?rts tid = (case map_of (refresh_tokens s) tid of None \<Rightarrow> None
      | Some t \<Rightarrow> if rt_client_id t = c then None else Some t)" for tid
    using map_of_sweep [OF keyed_wf [OF assms(2)]] by (simp split: option.splits)
  have "remove_client c s = s\<lparr>clients := ddel c (clients s), refresh_tokens := ?rts\<rparr>"
    by (simp add: remove_client_def Let_def)
  then show ?thesis
    unfolding keeps_def using assms look
    by (intro exI [of _ "ddel c (clients s)"] exI [of _ ?rts] conjI)
      (auto simp: map_of_ddel map_le_def dom_def split: option.splits if_splits)
qed

lemma remove_client_ok: "oauth_ok s \<Longrightarrow> oauth_ok (remove_client c s)"
  by (auto simp: remove_client_def Let_def oauth_ok_def)

lemma keeps_keyed:
  "keeps now s s' \<Longrightarrow> keyed rc_client_id (clients s') \<and> keyed rt_token (refresh_tokens s')"
  by (auto simp: keeps_def)

lemma ttl_sweep_keeps:
  assumes "keyed rc_client_id (clients s)" "keyed rt_token (refresh_tokens s)"
  shows "keeps now s (fst (ttl_sweep now cs s))"
  using assms
proof (induction cs arbitrary: s)
  case Nil
  then show ?case by (simp add: keeps_refl)
next
  case (Cons c cs)
  let ?r = "remove_client (rc_client_id c) s"
  have "keeps now s (fst (ttl_sweep now cs ?r))" if "\<not> protected_client s now (rc_client_id c)"
  proof -
    have k: "keeps now s ?r" using remove_client_keeps [OF Cons.prems that] .
    then have "keeps now ?r (fst (ttl_sweep now cs ?r))" using keeps_keyed by (intro Cons.IH) auto
    with k show ?thesis using Cons.prems by (blast intro: keeps_trans)
  qed
  then show ?case
    using Cons by (auto simp: protected_client_def split_def Let_def)
qed

lemma inactive_clients_set:
  "c \<in> set (inactive_clients s now) \<longleftrightarrow> c \<in> set (dvals (clients s)) \<and> \<not> protected_client s now (rc_client_id c)"
  by (auto simp: inactive_clients_def evictable_def protected_client_def)

lemma evict_loop_keeps:
  assumes "keyed rc_client_id (clients s)" "keyed rt_token (refresh_tokens s)"
  shows "keeps now s (fst (evict_loop fuel now n s))"
  using assms
proof (induction fuel arbitrary: s)
  case 0
  then show ?case by (subst evict_loop.simps) (auto simp: keeps_refl split: list.splits)
next
  case (Suc fuel)
  show ?case
  proof (cases "\<not> over_budget s now n \<or> inactive_clients s now = []")
    case True
    then show ?thesis using Suc.prems by (subst evict_loop.simps) (auto simp: keeps_refl split: list.splits)
  next
    case False
    then obtain v vs where v: "inactive_clients s now = v # vs" by (auto simp: neq_Nil_conv)
    let ?r = "remove_client (rc_client_id v) s"
    have "\<not> protected_client s now (rc_client_id v)"
      using inactive_clients_set [of v s now] v by simp
    then have k: "keeps now s ?r" by (rule remove_client_keeps [OF Suc.prems])
    then have "keeps now ?r (fst (evict_loop fuel now n ?r))" using keeps_keyed by (intro Suc.IH) auto
    then have "keeps now s (fst (evict_loop fuel now n ?r))" using k Suc.prems by (blast intro: keeps_trans)
    then show ?thesis using False v by (subst evict_loop.simps) (simp add: split_def Let_def)
  qed
qed

lemma cleanup_keeps:
  assumes "keyed rc_client_id (clients s)" "keyed rt_token (refresh_tokens s)"
  shows "keeps now s (fst (cleanup_inactive_clients now n s))"
proof -
  let ?t = "fst (ttl_sweep now (dvals (clients s)) s)"
  have k: "keeps now s ?t" using ttl_sweep_keeps [OF assms] .
  then have "keeps now ?t (fst (evict_loop (length (clients ?t)) now n ?t))"
    using keeps_keyed by (intro evict_loop_keeps) auto
  with k show ?thesis
    using assms(2) by (simp add: cleanup_inactive_clients_def split_def Let_def keeps_trans)
qed

text \<open>The loop ends: with fuel for every client it reaches its exit test, and more fuel changes nothing.\<close>

lemma remove_client_shrinks:
  assumes "keyed rc_client_id (clients s)" "c \<in> set (dvals (clients s))"
  shows "length (clients s) = Suc (length (clients (remove_client (rc_client_id c) s)))"
proof -
  have "map_of (clients s) (rc_client_id c) = Some c" using assms by (simp add: keyed_vals)
  moreover from this have "0 < length (clients s)" by (cases "clients s") auto
  ultimately show ?thesis
    using assms(1) by (simp add: remove_client_def Let_def length_ddel keyed_wf)
qed

lemma evict_loop_exit:
  fixes now :: time and n :: nat
  assumes "keyed rc_client_id (clients s)" "keyed rt_token (refresh_tokens s)" "length (clients s) \<le> fuel"
  defines "s' \<equiv> fst (evict_loop fuel now n s)"
  shows "(\<not> over_budget s' now n \<or> inactive_clients s' now = []) \<and>
    evict_loop (fuel + k) now n s = evict_loop fuel now n s"
  unfolding s'_def using assms(1-3)
proof (induction fuel arbitrary: s)
  case 0
  then have e: "inactive_clients s now = []" by (simp add: inactive_clients_def dvals_def)
  then have "evict_loop m now n s = (s, [])" for m by (subst evict_loop.simps) simp
  with e show ?case by simp
next
  case (Suc fuel)
  show ?case
  proof (cases "\<not> over_budget s now n \<or> inactive_clients s now = []")
    case True
    then have "evict_loop m now n s = (s, [])" for m
      by (subst evict_loop.simps) (auto split: list.splits)
    with True show ?thesis by simp
  next
    case False
    then obtain v vs where v: "inactive_clients s now = v # vs" by (auto simp: neq_Nil_conv)
    let ?r = "remove_client (rc_client_id v) s"
    have vin: "v \<in> set (dvals (clients s))" and np: "\<not> protected_client s now (rc_client_id v)"
      using inactive_clients_set [of v s now] v by simp_all
    have k: "keyed rc_client_id (clients ?r)" "keyed rt_token (refresh_tokens ?r)"
      using keeps_keyed [OF remove_client_keeps [OF Suc.prems(1,2) np]] by simp_all
    have "length (clients ?r) \<le> fuel"
      using remove_client_shrinks [OF Suc.prems(1) vin] Suc.prems(3) by simp
    note ih = Suc.IH [OF k this]
    have step: "evict_loop (Suc m) now n s =
        (fst (evict_loop m now n ?r), rc_client_id v # snd (evict_loop m now n ?r))" for m
      using False v by (subst evict_loop.simps) (simp add: split_def Let_def)
    show ?thesis using ih step [of fuel] step [of "fuel + k"] by simp
  qed
qed

lemma cleanup_exit:
  fixes now :: time and n :: nat
  assumes "keyed rc_client_id (clients s)" "keyed rt_token (refresh_tokens s)"
  defines "s' \<equiv> fst (cleanup_inactive_clients now n s)"
  shows "\<not> over_budget s' now n \<or> (\<forall>c \<in> set (dvals (clients s')). protected_client s' now (rc_client_id c))"
proof -
  let ?t = "fst (ttl_sweep now (dvals (clients s)) s)"
  have k: "keyed rc_client_id (clients ?t)" "keyed rt_token (refresh_tokens ?t)"
    using keeps_keyed [OF ttl_sweep_keeps [OF assms(1,2)]] by simp_all
  have s': "s' = fst (evict_loop (length (clients ?t)) now n ?t)"
    by (simp add: s'_def cleanup_inactive_clients_def split_def Let_def)
  have "inactive_clients s' now = [] \<Longrightarrow> \<forall>c \<in> set (dvals (clients s')). protected_client s' now (rc_client_id c)"
    using inactive_clients_set [of _ s' now] by (metis list.set(1) empty_iff)
  then show ?thesis
    using evict_loop_exit [OF k order_refl, of now n 0] unfolding s' [symmetric] by auto
qed

lemma keeps_frame:
  assumes "keeps now s s'"
  shows "cfg s' = cfg s" "codes s' = codes s" "access_tokens s' = access_tokens s" "pending s' = pending s"
    "dcr_limiter s' = dcr_limiter s" "authz_limiter s' = authz_limiter s"
    "owner_fail_limiter s' = owner_fail_limiter s" "has_store s' = has_store s" "disk s' = disk s"
  using assms by (auto simp: keeps_def)

lemma keeps_ok: "keeps now s s' \<Longrightarrow> oauth_ok s \<Longrightarrow> oauth_ok s'"
  by (auto simp: keeps_def oauth_ok_def)

lemma keeps_refresh_le: "keeps now s s' \<Longrightarrow> map_of (refresh_tokens s') k = Some t \<Longrightarrow> map_of (refresh_tokens s) k = Some t"
  by (auto simp: keeps_def map_le_def dom_def)

lemma keeps_clients_le: "keeps now s s' \<Longrightarrow> map_of (clients s') k = Some t \<Longrightarrow> map_of (clients s) k = Some t"
  by (auto simp: keeps_def map_le_def dom_def)

end
