(* ===== verification/OAuthTrace.thy ===== *)
theory OAuthTrace
  imports OAuthFacts
begin

text \<open>
  What each operation of the authorization service does to each table, and the service as a machine
  on requests: \<open>serve (w, r)\<close> is the state after the request \<open>r\<close> was handled in the world \<open>w\<close>,
  whatever it answered. The locale \<open>machine\<close> of the prelude is interpreted on it (\<open>svc\<close>), so that
  a property of one request extends to every list of requests.
\<close>

section \<open>Frames\<close>

lemma set_last_used_frame [frame_simps]:
  "cfg (set_last_used c t s) = cfg s"
  "codes (set_last_used c t s) = codes s"
  "access_tokens (set_last_used c t s) = access_tokens s"
  "refresh_tokens (set_last_used c t s) = refresh_tokens s"
  "pending (set_last_used c t s) = pending s"
  "authz_limiter (set_last_used c t s) = authz_limiter s"
  "owner_fail_limiter (set_last_used c t s) = owner_fail_limiter s"
  "dcr_limiter (set_last_used c t s) = dcr_limiter s"
  "has_store (set_last_used c t s) = has_store s"
  by (auto simp: set_last_used_def split: option.splits)

lemma set_refresh_revoked_frame [frame_simps]:
  "cfg (set_refresh_revoked k s) = cfg s"
  "clients (set_refresh_revoked k s) = clients s"
  "codes (set_refresh_revoked k s) = codes s"
  "access_tokens (set_refresh_revoked k s) = access_tokens s"
  "pending (set_refresh_revoked k s) = pending s"
  by (auto simp: set_refresh_revoked_def split: option.splits)

lemma set_access_revoked_frame [frame_simps]:
  "cfg (set_access_revoked k s) = cfg s"
  "clients (set_access_revoked k s) = clients s"
  "codes (set_access_revoked k s) = codes s"
  "refresh_tokens (set_access_revoked k s) = refresh_tokens s"
  "pending (set_access_revoked k s) = pending s"
  by (auto simp: set_access_revoked_def split: option.splits)

lemma set_refresh_revoked_lookup:
  "map_of (refresh_tokens (set_refresh_revoked k s)) x =
    (if x = k then map_option (rt_revoked_update (\<lambda>_. True)) (map_of (refresh_tokens s) k)
     else map_of (refresh_tokens s) x)"
  by (auto simp: set_refresh_revoked_def map_of_dset split: option.splits)

lemma set_access_revoked_lookup:
  "map_of (access_tokens (set_access_revoked k s)) x =
    (if x = k then map_option (at_revoked_update (\<lambda>_. True)) (map_of (access_tokens s) k)
     else map_of (access_tokens s) x)"
  by (auto simp: set_access_revoked_def map_of_dset split: option.splits)

lemma oauth_ok_updates:
  assumes "oauth_ok s"
  shows "oauth_ok (set_last_used c t s)" "oauth_ok (set_refresh_revoked k s)"
    "oauth_ok (set_access_revoked k s)" "oauth_ok (s\<lparr>dcr_limiter := l\<rparr>)"
    "oauth_ok (s\<lparr>authz_limiter := l\<rparr>)" "oauth_ok (s\<lparr>owner_fail_limiter := l\<rparr>)"
    "oauth_ok (s\<lparr>codes := ddel x (codes s)\<rparr>)" "oauth_ok (s\<lparr>pending := ddel x (pending s)\<rparr>)"
  using assms
  by (auto simp: oauth_ok_def set_last_used_def set_refresh_revoked_def set_access_revoked_def keyedD
      split: option.splits)

section \<open>Registration\<close>

definition registration_reply :: "registered_client \<Rightarrow> jobj" where
  "registration_reply cl =
     [(''client_id'', JStr (rc_client_id cl)), (''client_id_issued_at'', JInt (rc_issued_at cl)),
      (''redirect_uris'', JList (rc_redirect_uris cl)), (''token_endpoint_auth_method'', JStr ''none''),
      (''grant_types'', JList (rc_grant_types cl)), (''response_types'', JList [JStr ''code'']),
      (''client_name'', rc_client_name cl)]"

lemma register_client_cases:
  obtains
    (refused) e where "fst (register_client w src body s) = Inl e"
      "snd (register_client w src body s) = s\<lparr>dcr_limiter := snd (allow_event (dcr_limiter s) src (clock w 0))\<rparr> \<or>
       snd (register_client w src body s) =
         fst (cleanup_inactive_clients (clock w 1) 1 (s\<lparr>dcr_limiter := snd (allow_event (dcr_limiter s) src (clock w 0))\<rparr>))"
  | (admitted) s2 cl where
      "s2 = fst (cleanup_inactive_clients (clock w 1) 1 (s\<lparr>dcr_limiter := snd (allow_event (dcr_limiter s) src (clock w 0))\<rparr>))"
      "fst (allow_event (dcr_limiter s) src (clock w 0))"
      "inactive_occupancy s2 (clock w 1) < MAX_INACTIVE_DCR_CLIENTS" "length (clients s2) < MAX_DCR_CLIENTS"
      "\<exists>cleaned grants. validate_registration body = Inr (cleaned, grants) \<and> cl = make_client w (clock w 1) body cleaned grants"
      "snd (register_client w src body s) = snd (persist w (clock w 2)
         (s2\<lparr>clients := dset (rc_client_id cl) cl (clients s2),
             dcr_limiter := record_event (dcr_limiter s2) src (clock w 1)\<rparr>))"
      "\<And>reply. fst (register_client w src body s) = Inr reply \<Longrightarrow> reply = registration_reply cl"
proof -
  let ?s1 = "s\<lparr>dcr_limiter := snd (allow_event (dcr_limiter s) src (clock w 0))\<rparr>"
  let ?s2 = "fst (cleanup_inactive_clients (clock w 1) 1 ?s1)"
  note d = register_client_def [of w src body s, unfolded split_def Let_def]
  consider "\<not> fst (allow_event (dcr_limiter s) src (clock w 0))"
    | "fst (allow_event (dcr_limiter s) src (clock w 0))"
      "\<not> (inactive_occupancy ?s2 (clock w 1) < MAX_INACTIVE_DCR_CLIENTS \<and> length (clients ?s2) < MAX_DCR_CLIENTS)"
    | e where "fst (allow_event (dcr_limiter s) src (clock w 0))"
      "inactive_occupancy ?s2 (clock w 1) < MAX_INACTIVE_DCR_CLIENTS" "length (clients ?s2) < MAX_DCR_CLIENTS"
      "validate_registration body = Inl e"
    | cleaned grants where "fst (allow_event (dcr_limiter s) src (clock w 0))"
      "inactive_occupancy ?s2 (clock w 1) < MAX_INACTIVE_DCR_CLIENTS" "length (clients ?s2) < MAX_DCR_CLIENTS"
      "validate_registration body = Inr (cleaned, grants)"
    by (cases "validate_registration body") auto
  then show ?thesis
  proof cases
    case 1
    then show ?thesis using refused by (simp add: d)
  next
    case 2
    show ?thesis by (rule refused [of registration_full]) (use 2 in \<open>auto simp: d\<close>)
  next
    case 3
    then show ?thesis using refused by (simp add: d)
  next
    case 4
    let ?cl = "make_client w (clock w 1) body cleaned grants"
    have r: "snd (bindS m (\<lambda>_ t. (Inr x, t))) = snd m" "fst (bindS m (\<lambda>_ t. (Inr x, t))) = Inr y \<Longrightarrow> y = x"
      for m :: "unit outcome" and x y :: jobj
      by (cases m; cases "fst m"; simp)+
    have e: "register_client w src body s = bindS (persist w (clock w 2)
         (?s2\<lparr>clients := dset (rc_client_id ?cl) ?cl (clients ?s2),
             dcr_limiter := record_event (dcr_limiter ?s2) src (clock w 1)\<rparr>))
         (\<lambda>_ t. (Inr (registration_reply ?cl), t))"
      using 4 by (simp add: d registration_reply_def make_client_def)
    show ?thesis
      by (rule admitted [of ?s2 ?cl]) (use 4 r in \<open>simp_all add: e\<close>)
  qed
qed

lemma register_ok:
  assumes "oauth_ok s"
  shows "oauth_ok (snd (register_client w src body s))"
proof -
  let ?s1 = "s\<lparr>dcr_limiter := snd (allow_event (dcr_limiter s) src (clock w 0))\<rparr>"
  have 1: "oauth_ok ?s1" using assms by (rule oauth_ok_updates)
  then have "keeps now ?s1 (fst (cleanup_inactive_clients now 1 ?s1))" for now
    by (intro cleanup_keeps) (auto simp: oauth_ok_def)
  then have 2: "oauth_ok (fst (cleanup_inactive_clients now 1 ?s1))" for now
    using 1 keeps_ok by blast
  show ?thesis
  proof (cases rule: register_client_cases [of w src body s])
    case (refused e)
    then show ?thesis using 1 2 by auto
  next
    case (admitted s2 cl)
    have "oauth_ok s2" using 2 admitted(1) by simp
    then have "oauth_ok (s2\<lparr>clients := dset (rc_client_id cl) cl (clients s2),
             dcr_limiter := record_event (dcr_limiter s2) src (clock w 1)\<rparr>)"
      by (auto simp: oauth_ok_def)
    then show ?thesis by (simp add: admitted(6) persist_ok)
  qed
qed

lemma register_frame_all:
  fixes w :: world and src :: string and body :: jobj
  assumes "oauth_ok s"
  defines "t \<equiv> snd (register_client w src body s)"
  shows "cfg t = cfg s \<and> codes t = codes s \<and> access_tokens t = access_tokens s \<and> pending t = pending s \<and>
    owner_fail_limiter t = owner_fail_limiter s \<and> authz_limiter t = authz_limiter s \<and> has_store t = has_store s"
proof -
  let ?s1 = "s\<lparr>dcr_limiter := snd (allow_event (dcr_limiter s) src (clock w 0))\<rparr>"
  let ?s2 = "fst (cleanup_inactive_clients (clock w 1) 1 ?s1)"
  have "keeps (clock w 1) ?s1 ?s2"
    using assms(1) by (intro cleanup_keeps) (simp_all add: oauth_ok_def)
  note k = keeps_frame [OF this]
  show ?thesis
  proof (cases rule: register_client_cases [of w src body s])
    case (refused e)
    from refused(2) show ?thesis unfolding t_def [symmetric] by (elim disjE; simp only: k; simp)
  next
    case (admitted s2 cl)
    have t: "t = snd (persist w (clock w 2) (s2\<lparr>clients := dset (rc_client_id cl) cl (clients s2),
             dcr_limiter := record_event (dcr_limiter s2) src (clock w 1)\<rparr>))"
      unfolding t_def by (rule admitted(6))
    note k' = k [folded admitted(1)]
    show ?thesis unfolding t by (simp add: persist_frame k')
  qed
qed

lemmas register_frame [frame_simps] = register_frame_all [THEN conjunct1]
  register_frame_all [THEN conjunct2, THEN conjunct1]
  register_frame_all [THEN conjunct2, THEN conjunct2, THEN conjunct1]
  register_frame_all [THEN conjunct2, THEN conjunct2, THEN conjunct2, THEN conjunct1]

lemma register_refresh_le:
  assumes "oauth_ok s" "map_of (refresh_tokens (snd (register_client w src body s))) k = Some t"
  shows "map_of (refresh_tokens s) k = Some t"
proof -
  let ?s1 = "s\<lparr>dcr_limiter := snd (allow_event (dcr_limiter s) src (clock w 0))\<rparr>"
  have k: "keeps now ?s1 (fst (cleanup_inactive_clients now 1 ?s1))" for now
    using assms by (intro cleanup_keeps) (auto simp: oauth_ok_def)
  show ?thesis
  proof (cases rule: register_client_cases [of w src body s])
    case (refused e)
    then show ?thesis using assms(2) keeps_refresh_le [OF k, where k = k and t = t] by auto
  next
    case (admitted s2 cl)
    have wf: "wf_dict (refresh_tokens s2)"
      unfolding admitted(1) using keeps_keyed [OF k] by (blast dest: keyed_wf)
    have "map_of (refresh_tokens s2) k = Some t"
      using persist_refresh_le [of "s2\<lparr>clients := dset (rc_client_id cl) cl (clients s2),
             dcr_limiter := record_event (dcr_limiter s2) src (clock w 1)\<rparr>"] wf assms(2)
      unfolding admitted(6) by simp
    then show ?thesis using keeps_refresh_le [OF k] unfolding admitted(1) by simp
  qed
qed

section \<open>Authorization requests\<close>

lemmas begin_defs = begin_authorization_def admit_pending_def cleanup_pending_def
  pending_count_for_client_def

text \<open>Only the limiter and the pending table change.\<close>

lemma begin_only:
  defines "t \<equiv> \<lambda>w src params s. snd (begin_authorization w src params s)"
  shows "t w src params s = s\<lparr>authz_limiter := authz_limiter (t w src params s), pending := pending (t w src params s)\<rparr>"
  by (cases "check_authorization params s"; cases "projr (check_authorization params s)")
    (simp_all add: t_def begin_defs split_def Let_def)

text \<open>
  The pending table afterwards: as before, or swept of expired requests, or swept and with the one
  new request, which then fits both caps.
\<close>

definition swept :: "time \<Rightarrow> pending_authorization dict \<Rightarrow> pending_authorization dict" where
  "swept now pd = filter (\<lambda>(rid, p). now \<le> pa_expires_at p) pd"

lemma cleanup_pending_swept:
  assumes "wf_dict (pending s)"
  shows "pending (fst (cleanup_pending now s)) = swept now (pending s)"
proof -
  have "fst p \<notin> set (dkeys (filter (\<lambda>(rid, p). pa_expires_at p < now) (pending s)))
      \<longleftrightarrow> now \<le> pa_expires_at (snd p)" if "p \<in> set (pending s)" for p
    using that keys_of_filter [OF assms, of "fst p" "snd p"] assms by (auto simp: not_less split_def)
  then show ?thesis
    by (simp add: cleanup_pending_def swept_def Let_def ddel_all_filter split_def cong: filter_cong)
qed

lemma swept_lookup:
  "wf_dict pd \<Longrightarrow> map_of (swept now pd) rid =
    (case map_of pd rid of None \<Rightarrow> None | Some p \<Rightarrow> if now \<le> pa_expires_at p then Some p else None)"
  unfolding swept_def split_def using map_of_filter_dict [of pd "\<lambda>p. now \<le> pa_expires_at p"] by simp

lemma begin_pending:
  fixes w :: world and src :: string and params :: form
  assumes "wf_dict (pending s)"
  defines "t \<equiv> snd (begin_authorization w src params s)"
    and "pd \<equiv> swept (clock w 2) (pending s)"
    and "rid \<equiv> new_token ''authreq'' (rnd w 0)"
  shows "pending t = pending s \<or> pending t = pd \<or>
      (\<exists>scopes. check_authorization params s = Inr (Inr scopes) \<and>
        fst (begin_authorization w src params s) = Inr (Prompt (make_pending w params scopes)) \<and>
        pending t = dset rid (make_pending w params scopes) pd \<and>
        dcount (\<lambda>p. pa_client_id p = form_get params ''client_id'') pd < MAX_PENDING_PER_CLIENT \<and>
        length pd < MAX_PENDING_AUTHORIZATIONS)"
proof -
  have pd: "pending (fst (cleanup_pending (clock w 2) (s\<lparr>authz_limiter := lim\<rparr>))) = pd" for lim
    using cleanup_pending_swept [of "s\<lparr>authz_limiter := lim\<rparr>"] assms(1) by (simp add: pd_def)
  show ?thesis
    by (cases "check_authorization params s"; cases "projr (check_authorization params s)")
      (simp_all add: t_def begin_authorization_def admit_pending_def pending_count_for_client_def
        split_def Let_def pd rid_def make_pending_def not_le)
qed

section \<open>The owner's decision\<close>

text \<open>
  \<open>approves w src rid secret decision s p\<close>: the request \<open>rid\<close> is pending as \<open>p\<close> and unexpired, the
  decision is to approve, the source is not locked out and the secret is the configured one.
\<close>

definition approves :: "world \<Rightarrow> string \<Rightarrow> string \<Rightarrow> string \<Rightarrow> string \<Rightarrow> oauth \<Rightarrow> pending_authorization \<Rightarrow> bool" where
  "approves w src rid secret decision s p \<longleftrightarrow>
     map_of (pending s) rid = Some p \<and> clock w 0 \<le> pa_expires_at p \<and> decision = ''approve'' \<and>
     fst (allow_event (owner_fail_limiter s) src (clock w 1)) \<and>
     expected_secret s \<noteq> [] \<and> secret = expected_secret s \<and> is_ascii secret"

definition approved_state :: "world \<Rightarrow> string \<Rightarrow> string \<Rightarrow> oauth \<Rightarrow> pending_authorization \<Rightarrow> oauth" where
  "approved_state w src rid s p =
     (let s2 = set_last_used (pa_client_id p) (clock w 2)
           (s\<lparr>pending := ddel rid (pending s), owner_fail_limiter := snd (allow_event (owner_fail_limiter s) src (clock w 1))\<rparr>)
      in s2\<lparr>codes := dset (ac_code (make_code w p)) (make_code w p) (codes s2)\<rparr>)"

lemma snd_bind_const: "snd (bindS m (\<lambda>x t. (f x t, t))) = snd m"
  by (cases m; cases "fst m") auto

lemma complete_approved:
  assumes "approves w src rid secret decision s p"
  shows "snd (complete_authorization w src rid secret decision s) =
      snd (persist w (clock w 4) (approved_state w src rid s p))"
    and "fst (complete_authorization w src rid secret decision s) = Inr url \<Longrightarrow>
      redirect_with p [(''code'', ac_code (make_code w p))]
        (snd (complete_authorization w src rid secret decision s)) = Inr url"
proof -
  let ?m = "persist w (clock w 4) (approved_state w src rid s p)"
  have e: "expected_secret (s\<lparr>pending := a, owner_fail_limiter := b\<rparr>) = expected_secret s" for a b
    by (simp add: expected_secret_def)
  have c: "complete_authorization w src rid secret decision s =
      bindS (bindS ?m (\<lambda>_ t. (Inr (ac_code (make_code w p)), t)))
        (\<lambda>code t. (redirect_with p [(''code'', code)] t, t))"
    using assms by (auto simp: approves_def complete_authorization_def take_pending_def check_owner_def
        issue_code_def approved_state_def compare_digest_def Let_def split_def e)
  show "snd (complete_authorization w src rid secret decision s) = snd ?m"
    by (simp add: c snd_bind_const)
  show "fst (complete_authorization w src rid secret decision s) = Inr url \<Longrightarrow>
      redirect_with p [(''code'', ac_code (make_code w p))]
        (snd (complete_authorization w src rid secret decision s)) = Inr url"
    unfolding c by (cases ?m; cases "fst ?m") auto
qed

text \<open>Without an approval only the pending request and the failure window change.\<close>

lemma complete_rejected:
  fixes w :: world and src rid secret decision :: string
  assumes "\<not> approves w src rid secret decision s p" "map_of (pending s) rid = Some p"
  defines "t \<equiv> snd (complete_authorization w src rid secret decision s)"
  shows "t = s\<lparr>pending := pending t, owner_fail_limiter := owner_fail_limiter t\<rparr> \<and>
    (pending t = ddel rid (pending s) \<or> pending t = dset rid p (ddel rid (pending s)))"
proof -
  have e: "expected_secret (s\<lparr>pending := a, owner_fail_limiter := b\<rparr>) = expected_secret s" for a b
    by (simp add: expected_secret_def)
  show ?thesis
    using assms(1,2)
    by (auto simp: t_def approves_def complete_authorization_def take_pending_def check_owner_def
        compare_digest_def Let_def split_def e split: if_splits)
qed

lemma complete_unknown:
  assumes "map_of (pending s) rid = None"
  shows "snd (complete_authorization w src rid secret decision s) = s\<lparr>pending := ddel rid (pending s)\<rparr>"
  using assms by (simp add: complete_authorization_def take_pending_def)

lemma approved_frame:
  "cfg (approved_state w src rid s p) = cfg s"
  "access_tokens (approved_state w src rid s p) = access_tokens s"
  "refresh_tokens (approved_state w src rid s p) = refresh_tokens s"
  "codes (approved_state w src rid s p) = dset (ac_code (make_code w p)) (make_code w p) (codes s)"
  "pending (approved_state w src rid s p) = ddel rid (pending s)"
  "has_store (approved_state w src rid s p) = has_store s"
  by (simp_all add: approved_state_def Let_def frame_simps)

lemma approved_ok: "oauth_ok s \<Longrightarrow> oauth_ok (approved_state w src rid s p)"
  unfolding approved_state_def Let_def
  by (auto simp: oauth_ok_def set_last_used_def keyedD split: option.splits)

lemma complete_ok:
  assumes "oauth_ok s"
  shows "oauth_ok (snd (complete_authorization w src rid secret decision s))"
proof (cases "map_of (pending s) rid")
  case None
  then show ?thesis using assms by (simp add: complete_unknown oauth_ok_updates)
next
  case (Some p)
  show ?thesis
  proof (cases "approves w src rid secret decision s p")
    case True
    then show ?thesis using assms by (simp add: complete_approved persist_ok approved_ok)
  next
    case False
    let ?t = "snd (complete_authorization w src rid secret decision s)"
    have k: "keyed pa_request_id (pending s)" using assms by (simp add: oauth_ok_def)
    then have "keyed pa_request_id (ddel rid (pending s))" "keyed pa_request_id (dset rid p (ddel rid (pending s)))"
      using keyedD [OF k Some] by auto
    then have "keyed pa_request_id (pending ?t)"
      using complete_rejected [OF False Some, THEN conjunct2] by metis
    then have "oauth_ok (s\<lparr>pending := pending ?t, owner_fail_limiter := owner_fail_limiter ?t\<rparr>)"
      using assms by (simp add: oauth_ok_def)
    then show ?thesis using complete_rejected [OF False Some] by simp
  qed
qed

section \<open>The token endpoint\<close>

definition issued_access :: "world \<Rightarrow> string \<Rightarrow> string \<Rightarrow> string set \<Rightarrow> access_token" where
  "issued_access w client_id res scopes =
     \<lparr>at_token = new_token ''atk'' (rnd w 0), at_client_id = client_id, at_resource = res,
      at_scopes = scopes, at_expires_at = clock w 2 + ACCESS_TTL_S, at_revoked = False,
      at_subject = ''relay-owner''\<rparr>"

definition issued_refresh :: "world \<Rightarrow> string \<Rightarrow> string \<Rightarrow> string set \<Rightarrow> refresh_token" where
  "issued_refresh w client_id res scopes =
     \<lparr>rt_token = new_token ''rtk'' (rnd w 1), rt_client_id = client_id, rt_resource = res,
      rt_scopes = scopes, rt_expires_at = clock w 2 + REFRESH_TTL_S, rt_revoked = False,
      rt_subject = ''relay-owner''\<rparr>"

definition token_reply :: "world \<Rightarrow> string \<Rightarrow> string set \<Rightarrow> jobj" where
  "token_reply w res scopes =
     [(''access_token'', JStr (new_token ''atk'' (rnd w 0))), (''token_type'', JStr ''Bearer''),
      (''expires_in'', JInt 3600), (''refresh_token'', JStr (new_token ''rtk'' (rnd w 1))),
      (''scope'', JStr (join_with '' '' (sorted_list_of_set scopes))), (''resource'', JStr res)]"

lemma issue_tokens_eq:
  "issue_tokens w c res scopes s =
    bindS (persist w (clock w 3)
      (s\<lparr>access_tokens := dset (new_token ''atk'' (rnd w 0)) (issued_access w c res scopes) (access_tokens s),
         refresh_tokens := dset (new_token ''rtk'' (rnd w 1)) (issued_refresh w c res scopes) (refresh_tokens s)\<rparr>))
      (\<lambda>_ t. (Inr (token_reply w res scopes), t))"
  by (simp add: issue_tokens_def issued_access_def issued_refresh_def token_reply_def Let_def)

lemma issue_tokens_reply: "fst (issue_tokens w c res scopes s) = Inr r \<Longrightarrow> r = token_reply w res scopes"
  by (simp add: issue_tokens_eq bindS_def split: prod.splits sum.splits)

lemma issue_tokens_frame [frame_simps]:
  "cfg (snd (issue_tokens w c res scopes s)) = cfg s"
  "clients (snd (issue_tokens w c res scopes s)) = clients s"
  "codes (snd (issue_tokens w c res scopes s)) = codes s"
  "pending (snd (issue_tokens w c res scopes s)) = pending s"
  "access_tokens (snd (issue_tokens w c res scopes s)) =
     dset (new_token ''atk'' (rnd w 0)) (issued_access w c res scopes) (access_tokens s)"
  by (simp_all add: issue_tokens_eq snd_bind_const frame_simps)

lemma issue_tokens_refresh_le:
  assumes "wf_dict (refresh_tokens s)"
    and "map_of (refresh_tokens (snd (issue_tokens w c res scopes s))) k = Some t"
  shows "k = new_token ''rtk'' (rnd w 1) \<and> t = issued_refresh w c res scopes \<or>
    map_of (refresh_tokens s) k = Some t"
  using persist_refresh_le [OF _ assms(2) [unfolded issue_tokens_eq snd_bind_const]] assms(1)
  by (auto simp: map_of_dset wf_dict_dset split: if_splits)

lemma issue_tokens_refresh:
  assumes "wf_dict (refresh_tokens s)"
  shows "map_of (refresh_tokens (snd (issue_tokens w c res scopes s))) (new_token ''rtk'' (rnd w 1)) = Some (issued_refresh w c res scopes)"
  unfolding issue_tokens_eq snd_bind_const
  by (rule persist_refresh_keeps) (use assms in \<open>simp_all add: wf_dict_dset map_of_dset issued_refresh_def\<close>)

lemma issue_tokens_ok: "oauth_ok s \<Longrightarrow> oauth_ok (snd (issue_tokens w c res scopes s))"
  unfolding issue_tokens_eq snd_bind_const
  by (rule persist_ok) (auto simp: oauth_ok_def issued_access_def issued_refresh_def)

lemma exchange_code_cases:
  obtains
    (unknown) "map_of (codes s) (form_get form ''code'') = None"
      "exchange_authorization_code w form s = (Inl (grant_error ''unknown authorization code''), s)"
  | (rejected) rcd e where "map_of (codes s) (form_get form ''code'') = Some rcd"
      "check_code rcd form (clock w 0) (s\<lparr>codes := ddel (form_get form ''code'') (codes s)\<rparr>) = Inl e"
      "exchange_authorization_code w form s = (Inl e, s\<lparr>codes := ddel (form_get form ''code'') (codes s)\<rparr>)"
  | (issued) rcd where "map_of (codes s) (form_get form ''code'') = Some rcd"
      "check_code rcd form (clock w 0) (s\<lparr>codes := ddel (form_get form ''code'') (codes s)\<rparr>) = Inr ()"
      "exchange_authorization_code w form s =
        issue_tokens w (form_get form ''client_id'') (ac_resource rcd) (ac_scopes rcd)
          (set_last_used (form_get form ''client_id'') (clock w 1)
             (s\<lparr>codes := ddel (form_get form ''code'') (codes s)\<rparr>))"
proof (cases "map_of (codes s) (form_get form ''code'')")
  case None
  then show ?thesis using unknown by (simp add: exchange_authorization_code_def)
next
  case (Some rcd)
  then show ?thesis
    using rejected issued
    by (cases "check_code rcd form (clock w 0) (s\<lparr>codes := ddel (form_get form ''code'') (codes s)\<rparr>)")
      (auto simp: exchange_authorization_code_def Let_def)
qed

lemma exchange_refresh_cases:
  obtains
    (refused) e where "check_refresh form (clock w 0) s = Inl e"
      "exchange_refresh_token w form s = (Inl e, s)"
  | (bad_scope) rcd e where "check_refresh form (clock w 0) s = Inr rcd"
      "refresh_scopes form rcd = Inl e"
      "exchange_refresh_token w form s = (Inl e, set_refresh_revoked (form_get form ''refresh_token'') s)"
  | (rotated) rcd scopes where "check_refresh form (clock w 0) s = Inr rcd"
      "refresh_scopes form rcd = Inr scopes"
      "exchange_refresh_token w form s =
        issue_tokens w (form_get form ''client_id'') (rt_resource rcd) scopes
          (set_last_used (form_get form ''client_id'') (clock w 1)
             (set_refresh_revoked (form_get form ''refresh_token'') s))"
proof (cases "check_refresh form (clock w 0) s")
  case (Inl e)
  then show ?thesis using refused by (simp add: exchange_refresh_token_def)
next
  case (Inr rcd)
  then show ?thesis
    using bad_scope rotated
    by (cases "refresh_scopes form rcd") (auto simp: exchange_refresh_token_def Let_def)
qed

lemma check_refresh_Inr:
  assumes "check_refresh form now s = Inr rcd"
  shows "map_of (refresh_tokens s) (form_get form ''refresh_token'') = Some rcd" "\<not> rt_revoked rcd"
    "now \<le> rt_expires_at rcd" "rt_client_id rcd = form_get form ''client_id''"
    "form_get form ''resource'' = [] \<or> form_get form ''resource'' = rt_resource rcd"
  using assms by (auto simp: check_refresh_def Let_def err_simps split: option.splits if_splits)

lemma parse_scopes_supported: "parse_scopes sc = Inr R \<Longrightarrow> R \<subseteq> set scopes_supported"
  by (auto simp: parse_scopes_def split: option.splits if_splits)

lemma refresh_scopes_subset: "refresh_scopes form rcd = Inr R \<Longrightarrow> R \<subseteq> rt_scopes rcd"
  by (auto simp: refresh_scopes_def err_simps split: option.splits if_splits)

lemma exchange_ok:
  assumes "oauth_ok s"
  shows "oauth_ok (snd (exchange_token w form s))"
proof -
  have "oauth_ok (snd (exchange_authorization_code w form s))"
    by (cases rule: exchange_code_cases [of s form w])
      (simp_all add: assms oauth_ok_updates issue_tokens_ok)
  moreover have "oauth_ok (snd (exchange_refresh_token w form s))"
    by (cases rule: exchange_refresh_cases [of form w s])
      (simp_all add: assms oauth_ok_updates issue_tokens_ok)
  ultimately show ?thesis using assms by (simp add: exchange_token_def Let_def)
qed

lemma revoke_ok: "oauth_ok s \<Longrightarrow> oauth_ok (snd (revoke w form s))"
  by (simp add: revoke_def Let_def oauth_ok_updates persist_ok)

lemma begin_ok:
  assumes "oauth_ok s"
  shows "oauth_ok (snd (begin_authorization w src params s))"
proof -
  let ?t = "snd (begin_authorization w src params s)"
  have p: "keyed pa_request_id (pending s)" using assms by (simp add: oauth_ok_def)
  have "keyed pa_request_id (pending ?t)"
    using begin_pending [OF keyed_wf [OF p], of w src params]
  proof (elim disjE exE conjE)
    fix scopes
    assume e: "pending ?t = dset (new_token ''authreq'' (rnd w 0)) (make_pending w params scopes)
      (swept (clock w 2) (pending s))"
    show ?thesis unfolding e swept_def
      by (intro keyed_dset keyed_filter p) (simp add: make_pending_def)
  qed (simp_all add: p swept_def keyed_filter)
  then have "oauth_ok (s\<lparr>authz_limiter := authz_limiter ?t, pending := pending ?t\<rparr>)"
    using assms by (simp add: oauth_ok_def)
  then show ?thesis using begin_only [of w src params s] by simp
qed

section \<open>Where tokens come from\<close>

definition source :: "oauth \<Rightarrow> string \<Rightarrow> string \<Rightarrow> string set \<Rightarrow> bool" where
  "source s c res scopes \<longleftrightarrow>
     (\<exists>k rcd. map_of (codes s) k = Some rcd \<and> ac_client_id rcd = c \<and> ac_resource rcd = res \<and> ac_scopes rcd = scopes) \<or>
     (\<exists>k rcd. map_of (refresh_tokens s) k = Some rcd \<and> rt_client_id rcd = c \<and> rt_resource rcd = res \<and> scopes \<subseteq> rt_scopes rcd)"

lemma check_code_Inr:
  assumes "check_code rcd form now s = Inr ()"
  shows "ac_client_id rcd = form_get form ''client_id''" "\<not> ac_used rcd" "now \<le> ac_expires_at rcd"
    "map_of (clients s) (form_get form ''client_id'') \<noteq> None"
    "ac_redirect_uri rcd = form_get form ''redirect_uri''"
    "ac_resource rcd = form_get form ''resource''" "resource s = Inr (ac_resource rcd)"
    "ac_code_challenge_method rcd = ''S256''" "form_get form ''code_verifier'' \<noteq> []"
    "pkce_s256 (form_get form ''code_verifier'') = ac_code_challenge rcd"
  using assms by (auto simp: check_code_def Let_def err_simps split: if_splits)

lemma exchange_access:
  assumes "map_of (access_tokens (snd (exchange_token w form s))) k = Some t"
  shows "map_of (access_tokens s) k = Some t \<or>
    k = new_token ''atk'' (rnd w 0) \<and> (\<exists>c res scopes. t = issued_access w c res scopes \<and> source s c res scopes)"
proof -
  have code: ?thesis if "map_of (access_tokens (snd (exchange_authorization_code w form s))) k = Some t"
  proof (cases rule: exchange_code_cases [of s form w])
    case (issued rcd)
    then have "source s (form_get form ''client_id'') (ac_resource rcd) (ac_scopes rcd)"
      unfolding source_def using check_code_Inr(1) by blast
    then show ?thesis using that by (auto simp: issued(3) frame_simps map_of_dset split: if_splits)
  qed (use that in auto)
  have refresh: ?thesis if "map_of (access_tokens (snd (exchange_refresh_token w form s))) k = Some t"
  proof (cases rule: exchange_refresh_cases [of form w s])
    case (rotated rcd scopes)
    then have "source s (form_get form ''client_id'') (rt_resource rcd) scopes"
      unfolding source_def using check_refresh_Inr(1,4) refresh_scopes_subset by blast
    then show ?thesis using that by (auto simp: rotated(3) frame_simps map_of_dset split: if_splits)
  qed (use that in \<open>auto simp: frame_simps\<close>)
  show ?thesis using assms code refresh by (auto simp: exchange_token_def Let_def split: if_splits)
qed

lemma exchange_refresh:
  assumes "oauth_ok s" "map_of (refresh_tokens (snd (exchange_token w form s))) k = Some t"
  shows "(\<exists>t0. map_of (refresh_tokens s) k = Some t0 \<and> (t = t0 \<or> t = t0\<lparr>rt_revoked := True\<rparr>)) \<or>
    k = new_token ''rtk'' (rnd w 1) \<and> (\<exists>c res scopes. t = issued_refresh w c res scopes \<and> source s c res scopes)"
proof -
  have ok: "oauth_ok s' \<Longrightarrow> wf_dict (refresh_tokens s')" for s'
    unfolding oauth_ok_def by (blast dest: keyed_wf)
  have code: ?thesis if "map_of (refresh_tokens (snd (exchange_authorization_code w form s))) k = Some t"
  proof (cases rule: exchange_code_cases [of s form w])
    case (issued rcd)
    then have "source s (form_get form ''client_id'') (ac_resource rcd) (ac_scopes rcd)"
      unfolding source_def using check_code_Inr(1) by blast
    then show ?thesis
      using that issue_tokens_refresh_le [OF ok, where s = "set_last_used (form_get form ''client_id'') (clock w 1)
             (s\<lparr>codes := ddel (form_get form ''code'') (codes s)\<rparr>)"] assms(1)
      by (fastforce simp: issued(3) oauth_ok_updates frame_simps)
  qed (use that in auto)
  have refresh: ?thesis if "map_of (refresh_tokens (snd (exchange_refresh_token w form s))) k = Some t"
  proof (cases rule: exchange_refresh_cases [of form w s])
    case (rotated rcd scopes)
    then have src: "source s (form_get form ''client_id'') (rt_resource rcd) scopes"
      unfolding source_def using check_refresh_Inr(1,4) refresh_scopes_subset by blast
    let ?s1 = "set_last_used (form_get form ''client_id'') (clock w 1)
             (set_refresh_revoked (form_get form ''refresh_token'') s)"
    have "wf_dict (refresh_tokens ?s1)" using assms(1) by (intro ok oauth_ok_updates)
    from issue_tokens_refresh_le [OF this that [unfolded rotated(3)]] src show ?thesis
      by (auto simp: frame_simps set_refresh_revoked_lookup split: if_splits)
  qed (use that in \<open>auto simp: set_refresh_revoked_lookup split: if_splits\<close>)
  show ?thesis using assms(2) code refresh by (auto simp: exchange_token_def Let_def split: if_splits)
qed

section \<open>The service as a machine\<close>

datatype request =
    Register string jobj
  | Begin string form
  | Complete string string string string
  | Exchange form
  | Revoke form

fun serve :: "world \<times> request \<Rightarrow> oauth \<Rightarrow> oauth" where
  "serve (w, Register src body) s = snd (register_client w src body s)"
| "serve (w, Begin src params) s = snd (begin_authorization w src params s)"
| "serve (w, Complete src rid secret decision) s = snd (complete_authorization w src rid secret decision s)"
| "serve (w, Exchange form) s = snd (exchange_token w form s)"
| "serve (w, Revoke form) s = snd (revoke w form s)"

lemma serve_ok: "oauth_ok s \<Longrightarrow> oauth_ok (serve i s)"
  by (cases "(i, s)" rule: serve.cases)
    (auto simp: register_ok begin_ok complete_ok exchange_ok revoke_ok)

interpretation svc: machine oauth_ok "\<lambda>_. True" serve
  by unfold_locales (rule serve_ok)

text \<open>What one request may do to each table.\<close>

lemma revoke_lookup:
  assumes "oauth_ok s"
  shows "codes (snd (revoke w form s)) = codes s"
    and "cfg (snd (revoke w form s)) = cfg s"
    and "map_of (access_tokens (snd (revoke w form s))) k = Some t \<Longrightarrow>
      \<exists>t0. map_of (access_tokens s) k = Some t0 \<and> (t = t0 \<or> t = t0\<lparr>at_revoked := True\<rparr>)"
    and "map_of (refresh_tokens (snd (revoke w form s))) k = Some u \<Longrightarrow>
      \<exists>u0. map_of (refresh_tokens s) k = Some u0 \<and> (u = u0 \<or> u = u0\<lparr>rt_revoked := True\<rparr>)"
proof -
  let ?k = "form_get form ''token''"
  show "codes (snd (revoke w form s)) = codes s" "cfg (snd (revoke w form s)) = cfg s"
    by (simp_all add: revoke_def Let_def frame_simps)
  show "map_of (access_tokens (snd (revoke w form s))) k = Some t \<Longrightarrow>
      \<exists>t0. map_of (access_tokens s) k = Some t0 \<and> (t = t0 \<or> t = t0\<lparr>at_revoked := True\<rparr>)"
    by (auto simp: revoke_def Let_def frame_simps set_access_revoked_lookup split: if_splits)
  assume a: "map_of (refresh_tokens (snd (revoke w form s))) k = Some u"
  have le: "map_of (refresh_tokens (snd (persist w (clock w 0) s'))) k = Some u \<Longrightarrow>
      map_of (refresh_tokens s') k = Some u" if "oauth_ok s'" for s'
    using that persist_refresh_le [OF keyed_wf] unfolding oauth_ok_def by blast
  from a have "map_of (refresh_tokens s) k = Some u \<or> map_of (refresh_tokens (set_refresh_revoked ?k s)) k = Some u"
    using le [of "set_access_revoked ?k s"] le [of "set_refresh_revoked ?k s"]
      le [of "set_refresh_revoked ?k (set_access_revoked ?k s)"] assms
    by (auto simp: revoke_def Let_def oauth_ok_updates frame_simps set_refresh_revoked_lookup split: if_splits)
  then show "\<exists>u0. map_of (refresh_tokens s) k = Some u0 \<and> (u = u0 \<or> u = u0\<lparr>rt_revoked := True\<rparr>)"
    by (auto simp: set_refresh_revoked_lookup split: if_splits)
qed

text \<open>\<open>approved_by i s\<close>: the request that \<open>i\<close> approves in \<open>s\<close>, if it does.\<close>

fun approved_by :: "world \<times> request \<Rightarrow> oauth \<Rightarrow> pending_authorization list" where
  "approved_by (w, Complete src rid secret decision) s =
     (case map_of (pending s) rid of
        Some p \<Rightarrow> if approves w src rid secret decision s p then [p] else []
      | None \<Rightarrow> [])"
| "approved_by _ s = []"

lemma begin_frame [frame_simps]:
  "cfg (snd (begin_authorization w src params s)) = cfg s"
  "clients (snd (begin_authorization w src params s)) = clients s"
  "codes (snd (begin_authorization w src params s)) = codes s"
  "access_tokens (snd (begin_authorization w src params s)) = access_tokens s"
  "refresh_tokens (snd (begin_authorization w src params s)) = refresh_tokens s"
  "owner_fail_limiter (snd (begin_authorization w src params s)) = owner_fail_limiter s"
  by (subst begin_only, simp)+

lemma complete_codes:
  "codes (snd (complete_authorization w src rid secret decision s)) =
    (case approved_by (w, Complete src rid secret decision) s of
       [] \<Rightarrow> codes s
     | p # _ \<Rightarrow> dset (new_token ''code'' (rnd w 0)) (make_code w p) (codes s))"
proof (cases "map_of (pending s) rid")
  case None
  then show ?thesis by (simp add: complete_unknown)
next
  case (Some p)
  show ?thesis
  proof (cases "approves w src rid secret decision s p")
    case True
    then show ?thesis
      using Some by (simp add: complete_approved frame_simps approved_frame make_code_def)
  next
    case False
    then have "codes (snd (complete_authorization w src rid secret decision s)) = codes s"
      using arg_cong [OF complete_rejected [OF False Some, THEN conjunct1], of codes] by simp
    then show ?thesis using False Some by simp
  qed
qed

lemma complete_frame [frame_simps]:
  "cfg (snd (complete_authorization w src rid secret decision s)) = cfg s"
  "access_tokens (snd (complete_authorization w src rid secret decision s)) = access_tokens s"
proof (atomize (full), cases "map_of (pending s) rid")
  case None
  then show "cfg (snd (complete_authorization w src rid secret decision s)) = cfg s \<and>
    access_tokens (snd (complete_authorization w src rid secret decision s)) = access_tokens s"
    by (simp add: complete_unknown)
next
  case (Some p)
  show "cfg (snd (complete_authorization w src rid secret decision s)) = cfg s \<and>
    access_tokens (snd (complete_authorization w src rid secret decision s)) = access_tokens s"
  proof (cases "approves w src rid secret decision s p")
    case True
    then show ?thesis by (simp add: complete_approved frame_simps approved_frame)
  next
    case False
    note r = complete_rejected [OF False Some, THEN conjunct1]
    show ?thesis using arg_cong [OF r, of cfg] arg_cong [OF r, of access_tokens] by simp
  qed
qed

lemma complete_refresh_le:
  assumes "oauth_ok s" "map_of (refresh_tokens (snd (complete_authorization w src rid secret decision s))) k = Some t"
  shows "map_of (refresh_tokens s) k = Some t"
proof (cases "map_of (pending s) rid")
  case None
  then show ?thesis using assms(2) by (simp add: complete_unknown)
next
  case (Some p)
  show ?thesis
  proof (cases "approves w src rid secret decision s p")
    case True
    have "wf_dict (refresh_tokens (approved_state w src rid s p))"
      using approved_ok [OF assms(1)] unfolding oauth_ok_def by (blast dest: keyed_wf)
    from persist_refresh_le [OF this, of w "clock w 4"] show ?thesis
      using True assms(2) by (simp add: complete_approved approved_frame)
  next
    case False
    note r = complete_rejected [OF False Some, THEN conjunct1]
    show ?thesis using arg_cong [OF r, of refresh_tokens] assms(2) by simp
  qed
qed

lemma exchange_codes:
  "codes (snd (exchange_token w form s)) = codes s \<or>
    codes (snd (exchange_token w form s)) = ddel (form_get form ''code'') (codes s)"
proof -
  have "codes (snd (exchange_refresh_token w form s)) = codes s"
    by (cases rule: exchange_refresh_cases [of form w s]) (simp_all add: frame_simps)
  moreover have "codes (snd (exchange_authorization_code w form s)) = codes s \<or>
    codes (snd (exchange_authorization_code w form s)) = ddel (form_get form ''code'') (codes s)"
    by (cases rule: exchange_code_cases [of s form w]) (simp_all add: frame_simps)
  ultimately show ?thesis by (simp add: exchange_token_def Let_def)
qed

lemma exchange_cfg [frame_simps]: "cfg (snd (exchange_token w form s)) = cfg s"
proof -
  have "cfg (snd (exchange_refresh_token w form s)) = cfg s"
    by (cases rule: exchange_refresh_cases [of form w s]) (simp_all add: frame_simps)
  moreover have "cfg (snd (exchange_authorization_code w form s)) = cfg s"
    by (cases rule: exchange_code_cases [of s form w]) (simp_all add: frame_simps)
  ultimately show ?thesis by (simp add: exchange_token_def Let_def)
qed

lemma serve_cfg: "oauth_ok s \<Longrightarrow> cfg (serve i s) = cfg s"
  by (cases "(i, s)" rule: serve.cases) (auto simp: frame_simps revoke_lookup(2))

lemma serve_codes:
  assumes "oauth_ok s" "map_of (codes (serve (w, r) s)) k = Some c"
  shows "map_of (codes s) k = Some c \<or>
    k = new_token ''code'' (rnd w 0) \<and> (\<exists>p \<in> set (approved_by (w, r) s). c = make_code w p)"
proof (cases r)
  case (Complete src rid secret decision)
  then show ?thesis
    using assms(2) by (auto simp: complete_codes map_of_dset split: if_splits option.splits)
next
  case (Exchange form)
  then show ?thesis
    using assms(2) exchange_codes [of w form s] by (auto simp: map_of_ddel split: if_splits)
qed (use assms in \<open>auto simp: frame_simps revoke_lookup(1)\<close>)

lemma serve_access:
  assumes "oauth_ok s" "map_of (access_tokens (serve (w, r) s)) k = Some t"
  shows "(\<exists>t0. map_of (access_tokens s) k = Some t0 \<and> (t = t0 \<or> t = t0\<lparr>at_revoked := True\<rparr>)) \<or>
    k = new_token ''atk'' (rnd w 0) \<and> (\<exists>c res scopes. t = issued_access w c res scopes \<and> source s c res scopes)"
proof (cases r)
  case (Exchange form)
  then have "map_of (access_tokens (snd (exchange_token w form s))) k = Some t" using assms(2) by simp
  from exchange_access [OF this] show ?thesis by blast
next
  case (Revoke form)
  then show ?thesis using assms revoke_lookup(3) by simp
qed (use assms in \<open>auto simp: frame_simps\<close>)

lemma serve_refresh:
  assumes "oauth_ok s" "map_of (refresh_tokens (serve (w, r) s)) k = Some t"
  shows "(\<exists>t0. map_of (refresh_tokens s) k = Some t0 \<and> (t = t0 \<or> t = t0\<lparr>rt_revoked := True\<rparr>)) \<or>
    k = new_token ''rtk'' (rnd w 1) \<and> (\<exists>c res scopes. t = issued_refresh w c res scopes \<and> source s c res scopes)"
proof (cases r)
  case (Exchange form)
  then show ?thesis using assms exchange_refresh [of s w form] by simp
next
  case (Revoke form)
  then show ?thesis using assms revoke_lookup(4) by simp
next
  case (Register src body)
  then show ?thesis using assms register_refresh_le by simp
next
  case (Complete src rid secret decision)
  then show ?thesis using assms complete_refresh_le by simp
qed (use assms in \<open>auto simp: frame_simps\<close>)

text \<open>Every approval of a list of requests, in order.\<close>

fun approvals :: "(world \<times> request) list \<Rightarrow> oauth \<Rightarrow> pending_authorization list" where
  "approvals [] s = []"
| "approvals (i # is) s = approved_by i s @ approvals is (serve i s)"

definition covers :: "pending_authorization \<Rightarrow> string \<Rightarrow> string \<Rightarrow> string set \<Rightarrow> bool" where
  "covers p c res scopes \<longleftrightarrow> pa_client_id p = c \<and> pa_resource p = res \<and> scopes \<subseteq> pa_scopes p"

definition backed :: "pending_authorization set \<Rightarrow> oauth \<Rightarrow> bool" where
  "backed A s \<longleftrightarrow>
     (\<forall>k c. map_of (codes s) k = Some c \<longrightarrow>
        (\<exists>p \<in> A. covers p (ac_client_id c) (ac_resource c) (ac_scopes c) \<and> ac_redirect_uri c = pa_redirect_uri p)) \<and>
     (\<forall>k t. map_of (access_tokens s) k = Some t \<longrightarrow> (\<exists>p \<in> A. covers p (at_client_id t) (at_resource t) (at_scopes t))) \<and>
     (\<forall>k t. map_of (refresh_tokens s) k = Some t \<longrightarrow> (\<exists>p \<in> A. covers p (rt_client_id t) (rt_resource t) (rt_scopes t)))"

lemma source_covered:
  "backed A s \<Longrightarrow> source s c res scopes \<Longrightarrow> \<exists>p \<in> A. covers p c res scopes"
  unfolding source_def
proof (elim disjE exE conjE)
  fix k rcd
  assume b: "backed A s" and k: "map_of (codes s) k = Some rcd"
    "ac_client_id rcd = c" "ac_resource rcd = res" "ac_scopes rcd = scopes"
  from b k(1) have "\<exists>p \<in> A. covers p (ac_client_id rcd) (ac_resource rcd) (ac_scopes rcd)"
    unfolding backed_def by blast
  then show ?thesis by (simp add: k)
next
  fix k rcd
  assume b: "backed A s" and k: "map_of (refresh_tokens s) k = Some rcd"
    "rt_client_id rcd = c" "rt_resource rcd = res" "scopes \<subseteq> rt_scopes rcd"
  from b k(1) have "\<exists>p \<in> A. covers p (rt_client_id rcd) (rt_resource rcd) (rt_scopes rcd)"
    unfolding backed_def by blast
  then show ?thesis using k(4) by (auto simp: k(2,3) covers_def)
qed

lemma serve_backed:
  assumes "oauth_ok s" "backed A s"
  shows "backed (A \<union> set (approved_by i s)) (serve i s)"
proof -
  obtain w r where i: "i = (w, r)" by (cases i)
  let ?B = "A \<union> set (approved_by i s)"
  have "\<exists>p \<in> ?B. covers p (ac_client_id c) (ac_resource c) (ac_scopes c) \<and> ac_redirect_uri c = pa_redirect_uri p"
    if "map_of (codes (serve i s)) k = Some c" for k c
    using serve_codes [OF assms(1) that [unfolded i]] assms(2) i
    unfolding backed_def by (fastforce simp: make_code_def covers_def)
  moreover have "\<exists>p \<in> ?B. covers p (at_client_id t) (at_resource t) (at_scopes t)"
    if "map_of (access_tokens (serve i s)) k = Some t" for k t
    using serve_access [OF assms(1) that [unfolded i]] source_covered [OF assms(2)] assms(2)
    unfolding backed_def by (fastforce simp: issued_access_def)
  moreover have "\<exists>p \<in> ?B. covers p (rt_client_id t) (rt_resource t) (rt_scopes t)"
    if "map_of (refresh_tokens (serve i s)) k = Some t" for k t
    using serve_refresh [OF assms(1) that [unfolded i]] source_covered [OF assms(2)] assms(2)
    unfolding backed_def by (fastforce simp: issued_refresh_def)
  ultimately show ?thesis unfolding backed_def by blast
qed

lemma run_backed:
  "oauth_ok s \<Longrightarrow> backed A s \<Longrightarrow> backed (A \<union> set (approvals is s)) (fold serve is s)"
proof (induction "is" arbitrary: A s)
  case (Cons i "is")
  show ?case
    using Cons.IH [OF serve_ok [OF Cons.prems(1)] serve_backed [OF Cons.prems], of i]
    by (simp add: Un_assoc)
qed simp

end
