(* ===== verification/OAuthProps.thy ===== *)
theory OAuthProps
  imports OAuthTrace
begin

text \<open>
  The properties of the authorization service: who can obtain a token, what ends its life, what a
  flood of unauthenticated requests cannot do, and what the durable state keeps. The first section
  is a small concrete service that the witnesses run.
\<close>

section \<open>A concrete service for the witnesses\<close>

definition demo_cfg :: relay_config where
  "demo_cfg = \<lparr>bind_host = ''127.0.0.1'', bind_port = 8741, upstream_url = ''https://up.example/mcp'',
     upstream_connect_ips = [''93.184.216.34''], upstream_token = Some ''upstream'',
     allow_loopback_upstream = False, mock_plugin_token = ''mock'', request_timeout_s = Finite 30,
     auth_mode = ''oauth'', public_base_url = Some ''https://r.example'',
     resource_url = Some ''https://r.example/mcp'', owner_approval_secret = Some ''0123456789abcdef'',
     allow_non_loopback_bind = False, oauth_state_path = None, oauth_allow_ephemeral = True\<rparr>"

definition demo_disk :: fs where
  "demo_disk = \<lparr>fs_path = ''/s/x'', fs_parent = ''/s'', parent_node = Some (DirNode 0x1C0),
     target_node = None, tmp_file = None\<rparr>"

definition demo_world :: "time \<Rightarrow> byte \<Rightarrow> world" where
  "demo_world t b = \<lparr>clock = (\<lambda>_. t), rnd = (\<lambda>n. [b, word_of_nat n]), io = (\<lambda>_. True),
     written = 0, float_text = (\<lambda>_. ''0.0'')\<rparr>"

definition demo_client :: registered_client where
  "demo_client = \<lparr>rc_client_id = ''c1'', rc_redirect_uris = [JStr ''https://c.example/cb''],
     rc_client_name = JNull, rc_auth_method = ''none'',
     rc_grant_types = [JStr ''authorization_code'', JStr ''refresh_token''],
     rc_response_types = [JStr ''code''], rc_issued_at = 100, rc_last_used_at = 100\<rparr>"

definition demo_pending :: pending_authorization where
  "demo_pending = \<lparr>pa_request_id = ''r1'', pa_client_id = ''c1'', pa_redirect_uri = ''https://c.example/cb'',
     pa_state = Some ''st'', pa_code_challenge = ''x'', pa_code_challenge_method = ''S256'',
     pa_resource = ''https://r.example/mcp'', pa_scopes = {''mcp:proxy''}, pa_expires_at = 160\<rparr>"

definition demo_refresh :: refresh_token where
  "demo_refresh = \<lparr>rt_token = ''t1'', rt_client_id = ''c1'', rt_resource = ''https://r.example/mcp'',
     rt_scopes = {''mcp:proxy''}, rt_expires_at = 10000, rt_revoked = False, rt_subject = ''relay-owner''\<rparr>"

definition demo_access :: access_token where
  "demo_access = \<lparr>at_token = ''a1'', at_client_id = ''c1'', at_resource = ''https://r.example/mcp'',
     at_scopes = {''mcp:proxy''}, at_expires_at = 3700, at_revoked = False, at_subject = ''relay-owner''\<rparr>"

definition demo_code :: "string \<Rightarrow> auth_code" where
  "demo_code challenge = \<lparr>ac_code = ''k1'', ac_client_id = ''c1'', ac_redirect_uri = ''https://c.example/cb'',
     ac_code_challenge = challenge, ac_code_challenge_method = ''S256'',
     ac_resource = ''https://r.example/mcp'', ac_scopes = {''mcp:proxy''}, ac_expires_at = 160, ac_used = False\<rparr>"

text \<open>One client with a pending request, a code, an access token and a refresh token.\<close>

definition demo :: oauth where
  "demo = (empty_service demo_cfg demo_disk)
     \<lparr>clients := [(''c1'', demo_client)], pending := [(''r1'', demo_pending)],
      access_tokens := [(''a1'', demo_access)], refresh_tokens := [(''t1'', demo_refresh)]\<rparr>"

definition demo_refresh_form :: form where
  "demo_refresh_form = [(''grant_type'', ''refresh_token''), (''refresh_token'', ''t1''), (''client_id'', ''c1'')]"

definition demo_code_form :: form where
  "demo_code_form = [(''grant_type'', ''authorization_code''), (''code'', ''k1''), (''client_id'', ''c1''),
     (''redirect_uri'', ''https://c.example/cb''), (''code_verifier'', ''v''),
     (''resource'', ''https://r.example/mcp'')]"

lemmas demo_defs = demo_def demo_cfg_def demo_disk_def demo_world_def demo_client_def demo_pending_def
  demo_refresh_def demo_access_def demo_code_def demo_refresh_form_def demo_code_form_def empty_service_def

lemma demo_ok: "oauth_ok demo"
  by (simp add: demo_defs oauth_ok_def keyed_def)

section \<open>Who can use a token\<close>

text \<open>A bearer token is accepted exactly when the header has the form \<open>Bearer t\<close>, the table has \<open>t\<close>, and that
  record is not revoked, not expired, for this resource, and carries the required scope.\<close>

theorem validate_bearer_accepts_iff:
  "validate_bearer now header None s = Inr tok \<longleftrightarrow>
     (\<exists>h. header = Some h \<and> starts_with h ''Bearer '' \<and> py_strip (drop 7 h) \<noteq> [] \<and>
        map_of (access_tokens s) (py_strip (drop 7 h)) = Some tok \<and> \<not> at_revoked tok \<and>
        now \<le> at_expires_at tok \<and> resource_url (cfg s) = Some (at_resource tok) \<and>
        DEFAULT_SCOPE \<in> at_scopes tok)"
proof (cases header)
  case (Some h)
  show ?thesis
    by (cases "map_of (access_tokens s) (py_strip (drop 7 h))"; cases "resource_url (cfg s)")
      (simp_all add: Some validate_bearer_def resource_def scopes_supported_def Let_def not_less
        missing_bearer_def, auto)
qed (simp add: validate_bearer_def)

text \<open>C1: Whatever requests the service has handled, a token it accepts goes back to an approval by the owner (the
  right secret, on an unexpired pending request) for the same client and resource, and its scopes
  were in that request. \<open>A\<close> holds the approvals behind the tables at the start.\<close>

theorem bearer_backed_by_owner_approval:
  assumes "oauth_ok s" "backed A s"
    and "validate_bearer now header None (fold serve reqs s) = Inr tok"
  shows "\<exists>p \<in> A \<union> set (approvals reqs s). covers p (at_client_id tok) (at_resource tok) (at_scopes tok)"
proof -
  obtain k where "map_of (access_tokens (fold serve reqs s)) k = Some tok"
    using assms(3) by (auto simp: validate_bearer_def Let_def err_simps split: option.splits if_splits)
  then show ?thesis using run_backed [OF assms(1,2), of reqs] unfolding backed_def by blast
qed

lemma bearer_backed_witness:
  "\<exists>p \<in> {demo_pending} \<union> set (approvals [(demo_world 120 7, Exchange demo_refresh_form)] demo).
     covers p ''c1'' ''https://r.example/mcp'' {''mcp:proxy''}"
proof -
  have b: "backed {demo_pending} demo"
    by (simp add: demo_defs backed_def covers_def)
  have v: "validate_bearer 121 (Some ''Bearer atk_BwA'') None
      (fold serve [(demo_world 120 7, Exchange demo_refresh_form)] demo) =
      Inr \<lparr>at_token = ''atk_BwA'', at_client_id = ''c1'', at_resource = ''https://r.example/mcp'',
           at_scopes = {''mcp:proxy''}, at_expires_at = 3720, at_revoked = False, at_subject = ''relay-owner''\<rparr>"
    by code_simp
  show ?thesis using bearer_backed_by_owner_approval [OF demo_ok b v] by simp
qed

section \<open>Authorization codes\<close>

text \<open>C2: A code is exchanged only by the client it was issued to, before it expires, with the registered redirect
  URI, for the configured resource, and with a verifier whose S256 digest is the stored challenge;
  the reply and the new access token carry exactly the resource and scopes of the code.\<close>

theorem code_exchange_sound:
  assumes "fst (exchange_authorization_code w form s) = Inr reply"
  shows "\<exists>rcd. map_of (codes s) (form_get form ''code'') = Some rcd \<and> \<not> ac_used rcd \<and>
    clock w 0 \<le> ac_expires_at rcd \<and> ac_client_id rcd = form_get form ''client_id'' \<and>
    map_of (clients s) (ac_client_id rcd) \<noteq> None \<and>
    ac_redirect_uri rcd = form_get form ''redirect_uri'' \<and>
    resource_url (cfg s) = Some (ac_resource rcd) \<and> form_get form ''resource'' = ac_resource rcd \<and>
    ac_code_challenge_method rcd = ''S256'' \<and> form_get form ''code_verifier'' \<noteq> [] \<and>
    pkce_s256 (form_get form ''code_verifier'') = ac_code_challenge rcd \<and>
    reply = token_reply w (ac_resource rcd) (ac_scopes rcd) \<and>
    map_of (access_tokens (snd (exchange_authorization_code w form s))) (new_token ''atk'' (rnd w 0)) =
      Some (issued_access w (ac_client_id rcd) (ac_resource rcd) (ac_scopes rcd))"
proof (cases rule: exchange_code_cases [of s form w])
  case (issued rcd)
  note c = check_code_Inr [OF issued(2)]
  have "resource_url (cfg s) = Some (ac_resource rcd)"
    using c(7) by (simp add: resource_def split: option.splits)
  moreover have "reply = token_reply w (ac_resource rcd) (ac_scopes rcd)"
    using assms issue_tokens_reply unfolding issued(3) by blast
  ultimately show ?thesis
    using issued c(1-6,8-10)
    by (intro exI [of _ rcd]) (simp add: frame_simps map_of_dset)
qed (use assms in simp_all)

definition demo_with_code :: oauth where
  "demo_with_code = demo\<lparr>codes := [(''k1'', demo_code (pkce_s256 ''v''))]\<rparr>"

lemma demo_exchange_ok:
  "fst (exchange_authorization_code (demo_world 120 7) demo_code_form demo_with_code) =
    Inr (token_reply (demo_world 120 7) ''https://r.example/mcp'' {''mcp:proxy''})"
  by (simp add: demo_with_code_def demo_defs exchange_authorization_code_def check_code_def form_get_def
      resource_def is_ascii_def issue_tokens_eq set_last_used_def persist_def Let_def)

lemma code_exchange_sound_witness:
  "\<exists>rcd. map_of (codes demo_with_code) ''k1'' = Some rcd \<and> ac_client_id rcd = ''c1''"
  using code_exchange_sound [OF demo_exchange_ok] by (simp add: demo_code_form_def form_get_def) blast

text \<open>C3: A code can be presented once. After any attempt to exchange it, successful or not, and after whatever
  further requests (none of which issues the same random value again), every attempt to exchange it
  is refused as unknown and changes nothing.\<close>

theorem authorization_code_single_use:
  fixes w :: world
  assumes "oauth_ok s" "form_get form' ''code'' = form_get form ''code''"
    and "list_all (\<lambda>(w, r). new_token ''code'' (rnd w 0) \<noteq> form_get form ''code'') reqs"
  defines "t \<equiv> fold serve reqs (snd (exchange_token w (dset ''grant_type'' ''authorization_code'' form) s))"
  shows "exchange_authorization_code w' form' t = (Inl (grant_error ''unknown authorization code''), t)"
proof -
  let ?k = "form_get form ''code''" and ?f = "dset ''grant_type'' ''authorization_code'' form"
  have k: "form_get ?f ''code'' = ?k" "form_get ?f ''grant_type'' = ''authorization_code''"
    by (simp_all add: form_get_def map_of_dset)
  have "map_of (codes (snd (exchange_authorization_code w ?f s))) ?k = None"
    by (cases rule: exchange_code_cases [of s ?f w]) (simp_all add: k frame_simps map_of_ddel)
  then have 0: "map_of (codes (snd (exchange_token w ?f s))) ?k = None"
    by (simp add: exchange_token_def k)
  have "map_of (codes t) ?k = None"
    unfolding t_def
  proof (rule svc.run_stable [where P = "\<lambda>s. map_of (codes s) ?k = None"
        and Q = "\<lambda>(w, r). new_token ''code'' (rnd w 0) \<noteq> ?k"])
    fix i :: "world \<times> request" and u
    assume Q: "case i of (w, r) \<Rightarrow> new_token ''code'' (rnd w 0) \<noteq> ?k" and u: "oauth_ok u" "map_of (codes u) ?k = None"
    obtain w r where i: "i = (w, r)" by (cases i)
    show "map_of (codes (serve i u)) ?k = None"
    proof (rule ccontr)
      assume "map_of (codes (serve i u)) ?k \<noteq> None"
      then obtain c where "map_of (codes (serve (w, r) u)) ?k = Some c" using i by auto
      from serve_codes [OF u(1) this] show False using u(2) Q i by auto
    qed
  qed (use assms(1,3) 0 exchange_ok in \<open>auto simp: list_all_iff\<close>)
  then show ?thesis by (simp add: exchange_authorization_code_def assms(2))
qed

lemma authorization_code_single_use_witness:
  "exchange_authorization_code (demo_world 121 9) demo_code_form
      (fold serve [] (snd (exchange_token (demo_world 120 7)
         (dset ''grant_type'' ''authorization_code'' demo_code_form) demo_with_code))) =
    (Inl (grant_error ''unknown authorization code''),
     fold serve [] (snd (exchange_token (demo_world 120 7)
         (dset ''grant_type'' ''authorization_code'' demo_code_form) demo_with_code)))"
  by (rule authorization_code_single_use)
    (simp_all add: demo_with_code_def demo_defs oauth_ok_def keyed_def form_get_def)

text \<open>A code comes into existence only by the owner's approval: completing a request changes the table of codes
  exactly when the request is pending and unexpired, the decision is to approve, the source is not
  locked out and the secret is the configured one; the code then belongs to that request.\<close>

theorem code_only_by_owner_approval:
  "codes (snd (complete_authorization w src rid secret decision s)) =
     (case map_of (pending s) rid of
        None \<Rightarrow> codes s
      | Some p \<Rightarrow>
          if clock w 0 \<le> pa_expires_at p \<and> decision = ''approve'' \<and>
             fst (allow_event (owner_fail_limiter s) src (clock w 1)) \<and>
             expected_secret s \<noteq> [] \<and> secret = expected_secret s \<and> is_ascii secret
          then dset (new_token ''code'' (rnd w 0)) (make_code w p) (codes s)
          else codes s)"
  by (cases "map_of (pending s) rid") (auto simp: complete_codes approves_def)

text \<open>A source that has used up its failures is locked out: for as long as they count, an approval is refused
  whatever secret it gives, no code is issued, the limiter records nothing, and the request stays
  pending for the owner.\<close>

theorem owner_lockout:
  fixes secret :: string
  assumes "window_at (owner_fail_limiter s) t0" "t0 \<le> clock w 1"
    and "max_events (owner_fail_limiter s) \<le> hits (owner_fail_limiter s) src (clock w 1)"
    and "map_of (pending s) rid = Some p" "clock w 0 \<le> pa_expires_at p"
  defines "r \<equiv> complete_authorization w src rid secret ''approve'' s"
  shows "fst r = Inl denied \<and> codes (snd r) = codes s \<and> map_of (pending (snd r)) rid = Some p \<and>
    (\<forall>k. hits (owner_fail_limiter (snd r)) k (clock w 1) = hits (owner_fail_limiter s) k (clock w 1))"
proof -
  have no: "\<not> fst (allow_event (owner_fail_limiter s) src (clock w 1))"
    by (rule sw.full_denies [OF assms(1,2,3)])
  have "window_at (owner_fail_limiter s) (clock w 1)"
    by (rule sw.inv_mono [OF assms(1,2)])
  from sw.recent_allow [OF this order_refl] no assms(4,5) show ?thesis
    by (simp add: r_def complete_authorization_def take_pending_def check_owner_def split_def Let_def
        map_of_dset)
qed

definition demo_locked :: oauth where
  "demo_locked = demo\<lparr>owner_fail_limiter :=
     (owner_fail_limiter demo)\<lparr>events := [(''1.2.3.4'', [101, 102, 103, 104, 105])]\<rparr>\<rparr>"

lemma owner_lockout_witness:
  "fst (complete_authorization (demo_world 120 7) ''1.2.3.4'' ''r1'' ''0123456789abcdef'' ''approve'' demo_locked) = Inl denied"
proof -
  have "window_at (owner_fail_limiter demo_locked) 110"
    by (simp add: demo_locked_def demo_defs new_window_def window_ok_def buckets_ok_def events_upto_def
        OWNER_FAIL_LIMIT_def OWNER_FAIL_WINDOW_S_def MAX_RATE_LIMIT_SOURCES_def)
  moreover have "max_events (owner_fail_limiter demo_locked)
      \<le> hits (owner_fail_limiter demo_locked) ''1.2.3.4'' (clock (demo_world 120 7) 1)"
    by (simp add: demo_locked_def demo_defs new_window_def hits_def hist_def OWNER_FAIL_LIMIT_def
        OWNER_FAIL_WINDOW_S_def)
  ultimately show ?thesis
    using owner_lockout [of demo_locked 110 "demo_world 120 7" "''1.2.3.4''" "''r1''" demo_pending "''0123456789abcdef''"]
    by (simp add: demo_locked_def demo_defs)
qed

section \<open>Refresh tokens and revocation\<close>

definition refresh_dead :: "string \<Rightarrow> oauth \<Rightarrow> bool" where
  "refresh_dead k s \<longleftrightarrow> (\<forall>t. map_of (refresh_tokens s) k = Some t \<longrightarrow> rt_revoked t)"

definition access_dead :: "string \<Rightarrow> oauth \<Rightarrow> bool" where
  "access_dead k s \<longleftrightarrow> (\<forall>t. map_of (access_tokens s) k = Some t \<longrightarrow> at_revoked t)"

lemma refresh_dead_run:
  assumes "oauth_ok s" "refresh_dead k s" "list_all (\<lambda>(w, r). new_token ''rtk'' (rnd w 1) \<noteq> k) reqs"
  shows "refresh_dead k (fold serve reqs s)"
proof (rule svc.run_stable [where P = "refresh_dead k" and Q = "\<lambda>(w, r). new_token ''rtk'' (rnd w 1) \<noteq> k"])
  fix i :: "world \<times> request" and u
  assume Q: "case i of (w, r) \<Rightarrow> new_token ''rtk'' (rnd w 1) \<noteq> k" and u: "oauth_ok u" "refresh_dead k u"
  obtain w r where i: "i = (w, r)" by (cases i)
  show "refresh_dead k (serve i u)"
    using serve_refresh [OF u(1), of w r k] u(2) Q unfolding refresh_dead_def i by fastforce
qed (use assms in \<open>auto simp: list_all_iff\<close>)

lemma access_dead_run:
  assumes "oauth_ok s" "access_dead k s" "list_all (\<lambda>(w, r). new_token ''atk'' (rnd w 0) \<noteq> k) reqs"
  shows "access_dead k (fold serve reqs s)"
proof (rule svc.run_stable [where P = "access_dead k" and Q = "\<lambda>(w, r). new_token ''atk'' (rnd w 0) \<noteq> k"])
  fix i :: "world \<times> request" and u
  assume Q: "case i of (w, r) \<Rightarrow> new_token ''atk'' (rnd w 0) \<noteq> k" and u: "oauth_ok u" "access_dead k u"
  obtain w r where i: "i = (w, r)" by (cases i)
  show "access_dead k (serve i u)"
    using serve_access [OF u(1), of w r k] u(2) Q unfolding access_dead_def i by fastforce
qed (use assms in \<open>auto simp: list_all_iff\<close>)

lemma check_refresh_dead:
  "refresh_dead (form_get form ''refresh_token'') s \<Longrightarrow>
    check_refresh form now s = Inl (grant_error ''invalid refresh token'')"
  by (auto simp: refresh_dead_def check_refresh_def Let_def split: option.splits)

text \<open>C4: A refresh succeeds only with a live refresh token of the same client, and a request that names a
  resource only when it is the one of the token. The new access token and the new refresh token stored by
  it both belong to that client and resource and carry the same scopes, none of which the old one did not
  have; a request without a resource gets the resource of the token. (A table of tokens has each token
  once: \<open>wf_dict\<close>, which every run keeps.)\<close>

theorem refresh_keeps_authority:
  assumes "fst (exchange_refresh_token w form s) = Inr reply"
  shows "\<exists>rcd scopes. map_of (refresh_tokens s) (form_get form ''refresh_token'') = Some rcd \<and>
    \<not> rt_revoked rcd \<and> clock w 0 \<le> rt_expires_at rcd \<and> rt_client_id rcd = form_get form ''client_id'' \<and>
    (form_get form ''resource'' = [] \<or> form_get form ''resource'' = rt_resource rcd) \<and>
    scopes \<subseteq> rt_scopes rcd \<and> reply = token_reply w (rt_resource rcd) scopes \<and>
    map_of (access_tokens (snd (exchange_refresh_token w form s))) (new_token ''atk'' (rnd w 0)) =
      Some (issued_access w (rt_client_id rcd) (rt_resource rcd) scopes) \<and>
    (wf_dict (refresh_tokens s) \<longrightarrow>
      map_of (refresh_tokens (snd (exchange_refresh_token w form s))) (new_token ''rtk'' (rnd w 1)) =
        Some (issued_refresh w (rt_client_id rcd) (rt_resource rcd) scopes))"
proof (cases rule: exchange_refresh_cases [of form w s])
  case (rotated rcd scopes)
  note c = check_refresh_Inr [OF rotated(1)]
  have "reply = token_reply w (rt_resource rcd) scopes"
    using assms issue_tokens_reply unfolding rotated(3) by blast
  moreover have "map_of (refresh_tokens (snd (exchange_refresh_token w form s))) (new_token ''rtk'' (rnd w 1)) =
      Some (issued_refresh w (rt_client_id rcd) (rt_resource rcd) scopes)" if wf: "wf_dict (refresh_tokens s)"
    unfolding rotated(3) c(4) by (rule issue_tokens_refresh) (simp add: frame_simps set_refresh_revoked_def wf_dict_dset wf split: option.split)
  ultimately show ?thesis
    using rotated c refresh_scopes_subset [OF rotated(2)]
    by (intro exI [of _ rcd] exI [of _ scopes]) (simp add: frame_simps map_of_dset)
qed (use assms in simp_all)

lemma demo_refresh_ok:
  "fst (exchange_refresh_token (demo_world 120 7) demo_refresh_form demo) =
    Inr (token_reply (demo_world 120 7) ''https://r.example/mcp'' {''mcp:proxy''})"
  by code_simp

lemma refresh_keeps_authority_witness:
  "\<exists>rcd. map_of (refresh_tokens demo) ''t1'' = Some rcd \<and> rt_client_id rcd = ''c1'' \<and>
     (\<exists>r2. map_of (refresh_tokens (snd (exchange_refresh_token (demo_world 120 7) demo_refresh_form demo)))
        (new_token ''rtk'' (rnd (demo_world 120 7) 1)) = Some r2 \<and> rt_scopes r2 \<subseteq> rt_scopes rcd \<and> rt_client_id r2 = ''c1'')"
proof -
  have "wf_dict (refresh_tokens demo)" by code_simp
  then show ?thesis
    using refresh_keeps_authority [OF demo_refresh_ok] by (auto simp: demo_refresh_form_def form_get_def issued_refresh_def)
qed

text \<open>C5: Refresh tokens rotate: once a refresh token has been used for a refresh that passed its checks, it is
  never accepted again, whatever is requested in between (as long as the same random value is not
  issued again).\<close>

theorem refresh_replay_rejected:
  assumes "oauth_ok s" "check_refresh form (clock w 0) s = Inr rcd"
    and "new_token ''rtk'' (rnd w 1) \<noteq> form_get form ''refresh_token''"
    and "list_all (\<lambda>(w, r). new_token ''rtk'' (rnd w 1) \<noteq> form_get form ''refresh_token'') reqs"
    and "form_get form' ''refresh_token'' = form_get form ''refresh_token''"
  defines "t \<equiv> fold serve reqs (snd (exchange_refresh_token w form s))"
  shows "exchange_refresh_token w' form' t = (Inl (grant_error ''invalid refresh token''), t)"
proof -
  let ?k = "form_get form ''refresh_token''"
  let ?f = "dset ''grant_type'' ''refresh_token'' form"
  have 1: "refresh_dead ?k (set_refresh_revoked ?k s)"
    by (auto simp: refresh_dead_def set_refresh_revoked_lookup)
  have 2: "oauth_ok (set_last_used c tm (set_refresh_revoked ?k s))" for c tm
    using assms(1) by (intro oauth_ok_updates)
  then have wf: "wf_dict (refresh_tokens (set_last_used c tm (set_refresh_revoked ?k s)))" for c tm
    unfolding oauth_ok_def by (blast dest: keyed_wf)
  have "refresh_dead ?k (snd (exchange_refresh_token w form s)) \<and> oauth_ok (snd (exchange_refresh_token w form s))"
  proof (cases rule: exchange_refresh_cases [of form w s])
    case (bad_scope rcd' e)
    then show ?thesis using 1 assms(1) by (simp add: oauth_ok_updates)
  next
    case (rotated rcd' scopes)
    have "oauth_ok (snd (exchange_refresh_token w form s))"
      unfolding rotated(3) by (intro issue_tokens_ok 2)
    moreover have "refresh_dead ?k (snd (exchange_refresh_token w form s))"
      unfolding rotated(3) refresh_dead_def
      using issue_tokens_refresh_le [OF wf, where k = ?k] assms(3) 1
      by (fastforce simp: refresh_dead_def frame_simps)
    ultimately show ?thesis by simp
  qed (use assms(2) in simp)
  then have "refresh_dead ?k t" unfolding t_def using refresh_dead_run assms(4) by blast
  then have "check_refresh form' (clock w' 0) t = Inl (grant_error ''invalid refresh token'')"
    using check_refresh_dead assms(5) by simp
  then show ?thesis by (simp add: exchange_refresh_token_def)
qed

lemma refresh_replay_rejected_witness:
  "exchange_refresh_token (demo_world 130 9) demo_refresh_form
      (fold serve [(demo_world 125 8, Revoke [(''token'', ''nope'')])]
        (snd (exchange_refresh_token (demo_world 120 7) demo_refresh_form demo))) =
    (Inl (grant_error ''invalid refresh token''),
     fold serve [(demo_world 125 8, Revoke [(''token'', ''nope'')])]
        (snd (exchange_refresh_token (demo_world 120 7) demo_refresh_form demo)))"
  by (rule refresh_replay_rejected [where rcd = demo_refresh])
    (simp_all add: oauth_ok_def keyed_def demo_defs check_refresh_def form_get_def new_token_def)

text \<open>A refresh request that asks for scopes it may not have still spends the token: it answers an error, issues
  nothing, and leaves the refresh token revoked in memory, without writing that to the store.\<close>

theorem refresh_scope_error_spends_token:
  assumes "check_refresh form (clock w 0) s = Inr rcd" "refresh_scopes form rcd = Inl e"
  shows "exchange_refresh_token w form s = (Inl e, set_refresh_revoked (form_get form ''refresh_token'') s) \<and>
    disk (set_refresh_revoked (form_get form ''refresh_token'') s) = disk s \<and>
    exchange_refresh_token w' form (set_refresh_revoked (form_get form ''refresh_token'') s) =
      (Inl (grant_error ''invalid refresh token''), set_refresh_revoked (form_get form ''refresh_token'') s)"
proof -
  let ?k = "form_get form ''refresh_token''"
  have "refresh_dead ?k (set_refresh_revoked ?k s)"
    by (auto simp: refresh_dead_def set_refresh_revoked_lookup)
  then have "check_refresh form (clock w' 0) (set_refresh_revoked ?k s) = Inl (grant_error ''invalid refresh token'')"
    by (rule check_refresh_dead)
  moreover have "disk (set_refresh_revoked ?k s) = disk s"
    by (simp add: set_refresh_revoked_def split: option.split)
  ultimately show ?thesis using assms by (simp add: exchange_refresh_token_def)
qed

lemma refresh_scope_error_spends_token_witness:
  "fst (exchange_refresh_token (demo_world 120 7) (demo_refresh_form @ [(''scope'', ''admin'')]) demo) =
     Inl (OAuthError ''invalid_scope'' ''unsupported scope requested'' 400) \<and>
   fst (exchange_refresh_token (demo_world 121 8) (demo_refresh_form @ [(''scope'', ''admin'')])
      (set_refresh_revoked ''t1'' demo)) = Inl (grant_error ''invalid refresh token'')"
proof -
  let ?f = "demo_refresh_form @ [(''scope'', ''admin'')]"
  have "check_refresh ?f (clock (demo_world 120 7) 0) demo = Inr demo_refresh"
    by (simp add: demo_defs check_refresh_def form_get_def)
  moreover have "refresh_scopes ?f demo_refresh = Inl (OAuthError ''invalid_scope'' ''unsupported scope requested'' 400)"
    by code_simp
  moreover have "form_get ?f ''refresh_token'' = ''t1''" by (simp add: demo_refresh_form_def form_get_def)
  ultimately show ?thesis
    using refresh_scope_error_spends_token [of ?f "demo_world 120 7" demo demo_refresh _ "demo_world 121 8"] by simp
qed

text \<open>A revoked access token is never accepted again: after a revocation request that names it (with no hint, or
  the access hint, or when it is no refresh token), and after whatever further requests, every
  bearer header with that token is refused.\<close>

theorem revoked_access_never_validates:
  assumes "oauth_ok s"
    and "form_get form ''token_type_hint'' \<in> {[], ''access_token''} \<or>
      map_of (refresh_tokens s) (form_get form ''token'') = None"
    and "list_all (\<lambda>(w, r). new_token ''atk'' (rnd w 0) \<noteq> form_get form ''token'') reqs"
    and "py_strip (drop 7 h) = form_get form ''token''"
  shows "\<exists>m. validate_bearer now (Some h) None (fold serve reqs (snd (revoke w form s))) =
    Inl (OAuthError ''invalid_token'' m 401)"
proof -
  let ?k = "form_get form ''token''"
  have "access_dead ?k (snd (revoke w form s))"
    using assms(2)
    by (auto simp: access_dead_def revoke_def Let_def frame_simps set_access_revoked_lookup split: if_splits)
  then have "access_dead ?k (fold serve reqs (snd (revoke w form s)))"
    using access_dead_run [OF revoke_ok [OF assms(1)]] assms(3) by blast
  then show ?thesis
    by (auto simp: validate_bearer_def access_dead_def assms(4) missing_bearer_def Let_def split: option.splits)
qed

lemma revoked_access_never_validates_witness:
  "\<exists>m. validate_bearer 130 (Some ''Bearer a1'') None
      (fold serve [(demo_world 125 8, Exchange demo_refresh_form)]
        (snd (revoke (demo_world 120 7) [(''token'', ''a1'')] demo))) = Inl (OAuthError ''invalid_token'' m 401)"
  by (rule revoked_access_never_validates)
    (simp_all add: demo_ok form_get_def demo_world_def new_token_def py_strip_def py_lstrip_def py_rstrip_def is_space_def)

section \<open>Authorization requests under load\<close>

text \<open>An authorization request never displaces another: every request that is pending and unexpired at the sweep
  is still pending, unchanged, after any call of the authorization endpoint (unless the new request
  drew the same random id).\<close>

theorem begin_never_displaces_pending:
  assumes "oauth_ok s" "map_of (pending s) rid = Some p" "clock w 2 \<le> pa_expires_at p"
    and "new_token ''authreq'' (rnd w 0) \<noteq> rid"
  shows "map_of (pending (snd (begin_authorization w src params s))) rid = Some p"
proof -
  have wf: "wf_dict (pending s)" using assms(1) unfolding oauth_ok_def by (blast dest: keyed_wf)
  have "map_of (swept (clock w 2) (pending s)) rid = Some p"
    unfolding swept_lookup [OF wf] assms(2) using assms(3) by simp
  then show ?thesis
    using begin_pending [OF wf, of w src params] assms(2,4) by (auto simp: map_of_dset)
qed

lemma begin_never_displaces_pending_witness:
  "map_of (pending (snd (begin_authorization (demo_world 120 7) ''9.9.9.9''
      [(''client_id'', ''c1''), (''redirect_uri'', ''https://c.example/cb''), (''response_type'', ''code''),
       (''code_challenge'', ''y''), (''code_challenge_method'', ''S256''), (''resource'', ''https://r.example/mcp'')]
      demo))) ''r1'' = Some demo_pending"
  by (rule begin_never_displaces_pending)
    (simp_all add: demo_ok, simp_all add: demo_defs new_token_def)

definition pending_caps :: "oauth \<Rightarrow> bool" where
  "pending_caps s \<longleftrightarrow> length (pending s) \<le> MAX_PENDING_AUTHORIZATIONS \<and>
     (\<forall>c. dcount (\<lambda>p. pa_client_id p = c) (pending s) \<le> MAX_PENDING_PER_CLIENT)"

lemma swept_caps:
  "length (swept now pd) \<le> length pd" "dcount P (swept now pd) \<le> dcount P pd"
  by (simp_all add: swept_def dcount_sublist)

lemma complete_caps:
  assumes "oauth_ok s" "pending_caps s"
  shows "pending_caps (snd (complete_authorization w src rid secret decision s))"
proof -
  let ?t = "snd (complete_authorization w src rid secret decision s)"
  have wf: "wf_dict (pending s)" using assms(1) unfolding oauth_ok_def by (blast dest: keyed_wf)
  have "pending ?t = ddel rid (pending s) \<or> (\<exists>p. map_of (pending s) rid = Some p \<and> pending ?t = dset rid p (ddel rid (pending s)))"
  proof (cases "map_of (pending s) rid")
    case (Some p)
    then show ?thesis
      using complete_rejected [of w src rid secret decision s p, THEN conjunct2]
      by (cases "approves w src rid secret decision s p") (auto simp: complete_approved frame_simps approved_frame)
  qed (simp add: complete_unknown)
  then show ?thesis
  proof (elim disjE exE conjE)
    assume "pending ?t = ddel rid (pending s)"
    then show ?thesis
      using assms(2) length_ddel_le [of rid "pending s"] dcount_ddel [of _ rid "pending s"]
      unfolding pending_caps_def by (metis order_trans)
  next
    fix p assume p: "map_of (pending s) rid = Some p" "pending ?t = dset rid p (ddel rid (pending s))"
    show ?thesis
      using assms(2) unfolding pending_caps_def p(2) dcount_ddel_dset [OF wf p(1)] length_ddel_dset [OF wf p(1)] .
  qed
qed

lemma begin_caps:
  assumes "oauth_ok s" "pending_caps s"
  shows "pending_caps (snd (begin_authorization w src params s))"
proof -
  have wf: "wf_dict (pending s)" using assms(1) unfolding oauth_ok_def by (blast dest: keyed_wf)
  let ?t = "snd (begin_authorization w src params s)" and ?pd = "swept (clock w 2) (pending s)"
  have sw: "length ?pd \<le> MAX_PENDING_AUTHORIZATIONS" "dcount (\<lambda>p. pa_client_id p = c) ?pd \<le> MAX_PENDING_PER_CLIENT" for c
    using assms(2) swept_caps(1) [of "clock w 2" "pending s"] swept_caps(2) [of _ "clock w 2" "pending s"]
    unfolding pending_caps_def by (meson order_trans)+
  from begin_pending [OF wf, of w src params] show ?thesis
  proof (elim disjE exE conjE)
    fix scopes
    let ?p = "make_pending w params scopes" and ?k = "new_token ''authreq'' (rnd w 0)"
    assume e: "pending ?t = dset ?k ?p ?pd"
      and room: "dcount (\<lambda>p. pa_client_id p = form_get params ''client_id'') ?pd < MAX_PENDING_PER_CLIENT"
        "length ?pd < MAX_PENDING_AUTHORIZATIONS"
    have "dcount (\<lambda>p. pa_client_id p = c) (dset ?k ?p ?pd) \<le> MAX_PENDING_PER_CLIENT" for c
      using dcount_dset_le [of "\<lambda>p. pa_client_id p = c" ?k ?p ?pd] sw(2) [of c] room(1)
      by (auto simp: make_pending_def split: if_splits)
    then show ?thesis unfolding pending_caps_def e
      using length_dset_le [of ?k ?p ?pd] room(2) by simp
  qed (use assms(2) sw in \<open>auto simp: pending_caps_def\<close>)
qed



lemma bind_Inl_neq [simp]: "bindE m (\<lambda>r. Inr (Inl r)) \<noteq> Inr (Inr x)"
  by (cases m) simp_all

lemma bind_Inl_eq [simp]: "bindE m (\<lambda>r. Inr (Inl r)) = Inr (Inl x) \<longleftrightarrow> m = Inr x"
  by (cases m) simp_all

lemma error_redirect_Inr:
  assumes "error_redirect params e d s = Inr x"
  shows "\<exists>client iss. map_of (clients s) (form_get params ''client_id'') = Some client \<and>
    JStr (form_get params ''redirect_uri'') \<in> set (rc_redirect_uris client) \<and>
    form_get params ''redirect_uri'' \<noteq> [] \<and> public_base_url (cfg s) = Some iss \<and>
    x = ErrorRedirect ([(''error'', e), (''error_description'', d), (''iss'', iss)] @
      (case map_of params ''state'' of None \<Rightarrow> [] | Some st \<Rightarrow> [(''state'', st)]))"
  using assms unfolding error_redirect_def
  by (cases "map_of (clients s) (form_get params ''client_id'')"; cases "public_base_url (cfg s)")
    (simp_all add: Let_def issuer_def exact_redirect_allowed_def split: if_splits)

lemma check_authorization_redirect:
  assumes "check_authorization params s = Inr (Inl x)"
  shows "\<exists>e d. error_redirect params e d s = Inr x"
proof (cases "map_of (clients s) (form_get params ''client_id'')")
  case (Some client)
  show ?thesis
  proof (cases "parse_scopes (map_of params ''scope'')")
    case (Inl e)
    then show ?thesis
      using assms Some
      by (cases e; cases "resource s") (auto simp: check_authorization_def Let_def split: if_splits)
  next
    case (Inr scopes)
    then show ?thesis
      using assms Some by (cases "resource s") (auto simp: check_authorization_def Let_def split: if_splits)
  qed
qed (use assms in \<open>simp add: check_authorization_def\<close>)

lemma check_authorization_scopes:
  assumes "check_authorization params s = Inr (Inr scopes)"
  shows "(\<exists>client. map_of (clients s) (form_get params ''client_id'') = Some client \<and>
      JStr (form_get params ''redirect_uri'') \<in> set (rc_redirect_uris client)) \<and>
    form_get params ''response_type'' = ''code'' \<and> form_get params ''code_challenge_method'' = ''S256'' \<and>
    form_get params ''code_challenge'' \<noteq> [] \<and> resource s = Inr (form_get params ''resource'') \<and>
    parse_scopes (map_of params ''scope'') = Inr scopes"
proof (cases "map_of (clients s) (form_get params ''client_id'')")
  case (Some client)
  obtain res where res: "resource s = Inr res"
    using assms Some by (cases "resource s") (simp_all add: check_authorization_def Let_def split: if_splits)
  show ?thesis
  proof (cases "parse_scopes (map_of params ''scope'')")
    case (Inl e)
    then show ?thesis
      using assms Some res by (cases e) (simp_all add: check_authorization_def Let_def split: if_splits)
  next
    case (Inr scopes')
    then show ?thesis
      using assms Some res
      by (simp add: check_authorization_def Let_def exact_redirect_allowed_def split: if_splits)
  qed
qed (use assms in \<open>simp add: check_authorization_def\<close>)

text \<open>The consent prompt is shown only for a well-formed request: a registered client, one of its own redirect
  URIs, the code flow with an S256 challenge, the configured resource, supported scopes only, and
  one minute to live; the request is then pending under a fresh id.\<close>

theorem prompt_only_for_valid_request:
  assumes "fst (begin_authorization w src params s) = Inr (Prompt p)"
  shows "(\<exists>client. map_of (clients s) (pa_client_id p) = Some client \<and>
      JStr (pa_redirect_uri p) \<in> set (rc_redirect_uris client)) \<and>
    pa_client_id p = form_get params ''client_id'' \<and> pa_redirect_uri p = form_get params ''redirect_uri'' \<and>
    form_get params ''response_type'' = ''code'' \<and> pa_code_challenge_method p = ''S256'' \<and>
    pa_code_challenge p \<noteq> [] \<and> resource_url (cfg s) = Some (pa_resource p) \<and>
    pa_scopes p \<subseteq> {DEFAULT_SCOPE} \<and> pa_expires_at p = clock w 0 + 60 \<and>
    map_of (pending (snd (begin_authorization w src params s))) (pa_request_id p) = Some p"
proof -
  obtain r where r: "check_authorization params s = Inr r"
    using assms by (cases "check_authorization params s") (simp_all add: begin_authorization_def)
  obtain scopes where sc: "r = Inr scopes"
  proof (cases r)
    case (Inl redirect)
    then obtain q where "redirect = ErrorRedirect q"
      using check_authorization_redirect r error_redirect_Inr by metis
    then show ?thesis using Inl r assms by (simp add: begin_authorization_def)
  qed (use that in simp)
  note c = check_authorization_scopes [OF r [unfolded sc]]
  have p: "p = make_pending w params scopes"
    and pend: "map_of (pending (snd (begin_authorization w src params s))) (pa_request_id p) = Some p"
    using assms r sc
    by (simp_all add: begin_authorization_def admit_pending_def Let_def split_def map_of_dset split: if_splits)
  have f: "pa_client_id p = form_get params ''client_id''" "pa_redirect_uri p = form_get params ''redirect_uri''"
    "pa_code_challenge_method p = form_get params ''code_challenge_method''"
    "pa_code_challenge p = form_get params ''code_challenge''" "pa_resource p = form_get params ''resource''"
    "pa_scopes p = scopes" "pa_expires_at p = clock w 0 + 60"
    by (simp_all add: p make_pending_def CODE_TTL_S_def)
  have "scopes \<subseteq> {DEFAULT_SCOPE}"
    using parse_scopes_supported c by (fastforce simp: scopes_supported_def)
  moreover have "resource_url (cfg s) = Some (form_get params ''resource'')"
    using c by (simp add: resource_def split: option.splits)
  ultimately show ?thesis using c pend by (simp add: f)
qed

definition demo_params :: form where
  "demo_params = [(''client_id'', ''c1''), (''redirect_uri'', ''https://c.example/cb''), (''response_type'', ''code''),
     (''state'', ''s t''), (''code_challenge'', ''y''), (''code_challenge_method'', ''S256''),
     (''resource'', ''https://r.example/mcp'')]"

lemma prompt_only_for_valid_request_witness:
  "\<exists>p. fst (begin_authorization (demo_world 120 7) ''9.9.9.9'' demo_params demo) = Inr (Prompt p) \<and>
     pa_code_challenge_method p = ''S256'' \<and> pa_scopes p \<subseteq> {DEFAULT_SCOPE}"
proof -
  obtain p where p: "fst (begin_authorization (demo_world 120 7) ''9.9.9.9'' demo_params demo) = Inr (Prompt p)"
    by (simp add: begin_authorization_def check_authorization_def demo_params_def demo_defs form_get_def
        exact_redirect_allowed_def resource_def parse_scopes_def admit_pending_def allow_event_def new_window_def
        cleanup_pending_def pending_count_for_client_def dcount_def dvals_def dkeys_def ddel_all_filter
        MAX_PENDING_PER_CLIENT_def MAX_PENDING_AUTHORIZATIONS_def Let_def)
  from prompt_only_for_valid_request [OF p] p show ?thesis by blast
qed

text \<open>The authorization endpoint redirects an error to a client only at a redirect URI that this client has
  registered, with the issuer and the client's own state echoed; any other failure is answered
  directly, and no redirect changes the service.\<close>

theorem error_redirect_only_to_registered_uri:
  assumes "fst (begin_authorization w src params s) = Inr (ErrorRedirect q)"
  shows "snd (begin_authorization w src params s) = s \<and>
    (\<exists>client. map_of (clients s) (form_get params ''client_id'') = Some client \<and>
      JStr (form_get params ''redirect_uri'') \<in> set (rc_redirect_uris client)) \<and>
    map_of q ''iss'' = public_base_url (cfg s) \<and> map_of q ''state'' = map_of params ''state'' \<and>
    map_of q ''code'' = None"
proof -
  obtain r where r: "check_authorization params s = Inr r"
    using assms by (cases "check_authorization params s") (simp_all add: begin_authorization_def)
  obtain x where x: "r = Inl x"
  proof (cases r)
    case (Inr scopes)
    then have "fst (begin_authorization w src params s) \<noteq> Inr (ErrorRedirect q)"
      using r by (simp add: begin_authorization_def admit_pending_def Let_def split_def)
    then show ?thesis using assms by simp
  qed (use that in simp)
  then have "x = ErrorRedirect q" and snd: "snd (begin_authorization w src params s) = s"
    using r assms by (simp_all add: begin_authorization_def)
  moreover obtain e d where "error_redirect params e d s = Inr x"
    using check_authorization_redirect r x by blast
  ultimately obtain client iss where "map_of (clients s) (form_get params ''client_id'') = Some client"
    "JStr (form_get params ''redirect_uri'') \<in> set (rc_redirect_uris client)"
    "public_base_url (cfg s) = Some iss"
    "q = [(''error'', e), (''error_description'', d), (''iss'', iss)] @
      (case map_of params ''state'' of None \<Rightarrow> [] | Some st \<Rightarrow> [(''state'', st)])"
    using error_redirect_Inr by blast
  with snd show ?thesis by (cases "map_of params ''state''") simp_all
qed

lemma error_redirect_only_to_registered_uri_witness:
  "\<exists>q. fst (begin_authorization (demo_world 120 7) ''9.9.9.9'' (dset ''resource'' ''https://evil'' demo_params) demo) =
      Inr (ErrorRedirect q) \<and> map_of q ''state'' = Some ''s t'' \<and> map_of q ''iss'' = Some ''https://r.example''"
proof -
  let ?f = "dset ''resource'' ''https://evil'' demo_params"
  obtain q where q: "fst (begin_authorization (demo_world 120 7) ''9.9.9.9'' ?f demo) = Inr (ErrorRedirect q)"
    by (simp add: begin_authorization_def check_authorization_def demo_params_def demo_defs form_get_def
        exact_redirect_allowed_def resource_def error_redirect_def issuer_def Let_def)
  from error_redirect_only_to_registered_uri [OF q] q show ?thesis
    by (intro exI [of _ q]) (simp add: demo_params_def demo_defs)
qed

section \<open>Registration and eviction\<close>

text \<open>C7: Cleaning up inactive clients always ends, and ends well: afterwards the budgets hold, or only clients
  protected by a live refresh token or an open consent page are left; no protected client, nor any
  of its refresh tokens, is touched; nothing is added; and the loop's fuel makes no difference.\<close>

theorem cleanup_ends_and_protects:
  fixes now :: time and n :: nat
  assumes "oauth_ok s"
  defines "s' \<equiv> fst (cleanup_inactive_clients now n s)"
  shows "(inactive_occupancy s' now \<le> MAX_INACTIVE_DCR_CLIENTS - n \<and> length (clients s') \<le> MAX_DCR_CLIENTS - n \<or>
      (\<forall>c \<in> set (dvals (clients s')). protected_client s' now (rc_client_id c))) \<and>
    (\<forall>cid. protected_client s now cid \<longrightarrow>
      map_of (clients s') cid = map_of (clients s) cid \<and>
      (\<forall>tid t. map_of (refresh_tokens s) tid = Some t \<longrightarrow> rt_client_id t = cid \<longrightarrow>
        map_of (refresh_tokens s') tid = Some t)) \<and>
    map_of (clients s') \<subseteq>\<^sub>m map_of (clients s) \<and> map_of (refresh_tokens s') \<subseteq>\<^sub>m map_of (refresh_tokens s) \<and>
    (\<forall>k u. keyed rc_client_id (clients u) \<longrightarrow> keyed rt_token (refresh_tokens u) \<longrightarrow>
      evict_loop (length (clients u) + k) now n u = evict_loop (length (clients u)) now n u)"
proof -
  have k: "keyed rc_client_id (clients s)" "keyed rt_token (refresh_tokens s)"
    using assms(1) by (simp_all add: oauth_ok_def)
  have "keeps now s s'" unfolding s'_def by (rule cleanup_keeps [OF k])
  moreover have "\<not> over_budget s' now n \<or> (\<forall>c \<in> set (dvals (clients s')). protected_client s' now (rc_client_id c))"
    unfolding s'_def by (rule cleanup_exit [OF k])
  moreover have "evict_loop (length (clients u) + k) now n u = evict_loop (length (clients u)) now n u"
    if "keyed rc_client_id (clients u)" "keyed rt_token (refresh_tokens u)" for u k
    using evict_loop_exit [OF that order_refl] by blast
  ultimately show ?thesis by (auto simp: keeps_def over_budget_def not_less)
qed

lemma cleanup_ends_and_protects_witness:
  "map_of (clients (fst (cleanup_inactive_clients 9000 1 demo))) ''c1'' = Some demo_client"
proof -
  have "protected_client demo 9000 ''c1''" by code_simp
  then show ?thesis
    using cleanup_ends_and_protects [OF demo_ok, of 9000 1] by (simp add: demo_def)
qed

lemma cleaned_uris_safe:
  "cleaned_uris us = Inr cs \<Longrightarrow> cs = us \<and> (\<forall>u \<in> set cs. \<exists>t. u = JStr t \<and> redirect_uri_safe t = Inr True)"
  by (induction us arbitrary: cs rule: cleaned_uris.induct) (auto simp: err_simps split: if_splits)

lemma validate_registration_uris:
  assumes "validate_registration body = Inr (cleaned, grants)"
  shows "cleaned \<noteq> [] \<and> (\<forall>u \<in> set cleaned. \<exists>t. u = JStr t \<and> redirect_uri_safe t = Inr True)"
proof -
  obtain u us where "cleaned_uris (u # us) = Inr cleaned"
  proof (cases "jget body ''redirect_uris''")
    case (JList l)
    then show ?thesis
      using assms that by (cases l) (auto simp: validate_registration_def err_simps split: if_splits json.splits)
  qed (use assms in \<open>simp_all add: validate_registration_def\<close>)
  then show ?thesis using cleaned_uris_safe by blast
qed

lemma redirect_uri_safe_iff:
  "redirect_uri_safe x = Inr True \<longleftrightarrow> (\<exists>parsed. urlparse x = Some parsed \<and> fragment parsed = [] \<and>
     (scheme parsed = ''https'' \<and> netloc parsed \<noteq> [] \<or>
      scheme parsed = ''http'' \<and> map_option py_lower (hostname parsed)
         \<in> {Some ''localhost'', Some ''127.0.0.1'', Some ''::1''}))"
proof (cases "urlparse x")
  case (Some parsed)
  then show ?thesis
    by (cases "hostname parsed") (auto simp: redirect_uri_safe_def py_lower_def)
qed (simp add: redirect_uri_safe_def)

text \<open>C8: A successful registration keeps the cap of 64 clients, leaves every protected client as it is, and its
  reply describes the stored client: it is public, uses only the code flow and has only safe redirect URIs: HTTPS with a
  host, or plain HTTP to a loopback name.\<close>

theorem registration_keeps_caps_and_safe_uris:
  assumes "oauth_ok s" "fst (register_client w src body s) = Inr reply"
  defines "t \<equiv> snd (register_client w src body s)"
  shows "length (clients t) \<le> 64 \<and>
    (\<exists>client. map_of (clients t) (rc_client_id client) = Some client \<and>
       reply = [(''client_id'', JStr (rc_client_id client)),
                (''client_id_issued_at'', JInt (rc_issued_at client)),
                (''redirect_uris'', JList (rc_redirect_uris client)),
                (''token_endpoint_auth_method'', JStr ''none''),
                (''grant_types'', JList (rc_grant_types client)),
                (''response_types'', JList [JStr ''code'']),
                (''client_name'', rc_client_name client)] \<and>
       rc_redirect_uris client \<noteq> [] \<and> rc_auth_method client = ''none'' \<and>
       (\<forall>u \<in> set (rc_redirect_uris client). \<exists>txt parsed. u = JStr txt \<and> urlparse txt = Some parsed \<and>
          fragment parsed = [] \<and>
          (scheme parsed = ''https'' \<and> netloc parsed \<noteq> [] \<or>
           scheme parsed = ''http'' \<and> map_option py_lower (hostname parsed)
              \<in> {Some ''localhost'', Some ''127.0.0.1'', Some ''::1''}))) \<and>
    (\<forall>cid. protected_client s (clock w 1) cid \<longrightarrow> cid \<noteq> new_token ''client'' (rnd w 0) \<longrightarrow>
       map_of (clients t) cid = map_of (clients s) cid)"
proof -
  let ?s1 = "s\<lparr>dcr_limiter := snd (allow_event (dcr_limiter s) src (clock w 0))\<rparr>"
  have "keeps (clock w 1) ?s1 (fst (cleanup_inactive_clients (clock w 1) 1 ?s1))"
    using assms(1) by (intro cleanup_keeps) (simp_all add: oauth_ok_def)
  note k = this
  show ?thesis
  proof (cases rule: register_client_cases [of w src body s])
    case (refused e)
    then show ?thesis using assms(2) by simp
  next
    case (admitted s2 cl)
    obtain cleaned grants where v: "validate_registration body = Inr (cleaned, grants)"
      "cl = make_client w (clock w 1) body cleaned grants" using admitted(5) by blast
    note uris = validate_registration_uris [OF v(1)]
    have t: "clients t = dset (rc_client_id cl) cl (clients s2)"
      unfolding t_def admitted(6) by (simp add: persist_frame)
    have reply: "reply = registration_reply cl" by (rule admitted(7) [OF assms(2)])
    have len: "length (clients t) \<le> 64"
      using length_dset_le [of "rc_client_id cl" cl "clients s2"] admitted(4)
      by (simp add: t MAX_DCR_CLIENTS_def)
    have keep: "map_of (clients t) cid = map_of (clients s) cid"
      if "protected_client s (clock w 1) cid" "cid \<noteq> new_token ''client'' (rnd w 0)" for cid
    proof -
      have "protected_client ?s1 (clock w 1) cid"
        using that(1) by (simp add: protected_client_def client_has_live_refresh_def client_has_live_pending_def)
      then have "map_of (clients s2) cid = map_of (clients s) cid"
        using k unfolding admitted(1) [symmetric] by (auto simp: keeps_def)
      then show ?thesis using that(2) v(2) by (simp add: t map_of_dset make_client_def)
    qed
    have "map_of (clients t) (rc_client_id cl) = Some cl" by (simp add: t map_of_dset)
    then show ?thesis
      using len uris keep unfolding reply registration_reply_def
      by (intro conjI exI [of _ cl]) (simp_all add: v(2) make_client_def redirect_uri_safe_iff Bex_def, blast?)
  qed
qed

definition demo_registration :: jobj where
  "demo_registration = [(''redirect_uris'', JList [JStr ''https://c.example/cb''])]"

theorem registration_keeps_caps_and_safe_uris_witness:
  "length (clients (snd (register_client (demo_world 120 7) ''s'' demo_registration demo))) \<le> 64"
proof -
  have "case fst (register_client (demo_world 120 7) ''s'' demo_registration demo) of Inr r \<Rightarrow> True | Inl e \<Rightarrow> False"
    by code_simp
  then obtain r where "fst (register_client (demo_world 120 7) ''s'' demo_registration demo) = Inr r"
    by (cases "fst (register_client (demo_world 120 7) ''s'' demo_registration demo)") auto
  from registration_keeps_caps_and_safe_uris [OF demo_ok this] show ?thesis by blast
qed

end
