(* ===== verification/OAuthDurable.thy ===== *)
theory OAuthDurable
  imports OAuthProps "HOL-Library.Multiset"
begin

text \<open>
  What the durable document keeps and what a restart finds: \<open>json_sorted v\<close> is what
  \<^verbatim>\<open>json.loads(json.dumps(v, sort_keys=True))\<close> returns, the same value with the keys of every object in
  order. A service whose records have the JSON types that registration gives them (\<open>plain_client\<close>,
  \<open>plain_refresh\<close>) is read back to the same tables.
\<close>

fun json_sorted :: "json \<Rightarrow> json" where
  "json_sorted (JList xs) = JList (map json_sorted xs)"
| "json_sorted (JObj d) = JObj (sort_key fst (map (\<lambda>p. (fst p, json_sorted (snd p))) d))"
| "json_sorted v = v"

definition is_str :: "json \<Rightarrow> bool" where
  "is_str v = (case v of JStr _ \<Rightarrow> True | _ \<Rightarrow> False)"

definition plain_client :: "registered_client \<Rightarrow> bool" where
  "plain_client c \<longleftrightarrow> list_all is_str (rc_redirect_uris c) \<and>
     (rc_client_name c = JNull \<or> is_str (rc_client_name c)) \<and>
     rc_grant_types c \<noteq> [] \<and> list_all is_str (rc_grant_types c) \<and>
     rc_response_types c \<noteq> [] \<and> list_all is_str (rc_response_types c) \<and> rc_last_used_at c \<noteq> 0"

definition plain_refresh :: "refresh_token \<Rightarrow> bool" where
  "plain_refresh t \<longleftrightarrow> finite (rt_scopes t) \<and> rt_subject t \<noteq> []"

section \<open>Sorted objects\<close>

lemma distinct_sort_key: "distinct (map fst (sort_key fst d)) = distinct (map fst d)"
proof -
  have "mset (map fst (sort_key fst d)) = mset (map fst d)" by simp
  then show ?thesis by (metis mset_eq_imp_distinct_iff)
qed

lemma map_of_sort_key: "distinct (map fst d) \<Longrightarrow> map_of (sort_key fst d) = map_of (d :: (string \<times> 'v) list)"
proof -
  assume d: "distinct (map fst d)"
  then show ?thesis by (simp add: map_of_inject_set distinct_sort_key)
qed

lemma sort_key_map_val:
  "sort_key fst (map (\<lambda>p. (fst p, f p)) d) = map (\<lambda>p. (fst p, f p)) (sort_key fst (d :: (string \<times> 'v) list))"
proof -
  have ins: "insort_key fst (fst x, f x) (map (\<lambda>p. (fst p, f p)) ys) = map (\<lambda>p. (fst p, f p)) (insort_key fst x ys)" for x ys
    by (induction ys) auto
  show ?thesis by (induction d) (auto simp: ins)
qed

lemma sorted_str: "is_str v \<Longrightarrow> json_sorted v = v"
  by (cases v) (simp_all add: is_str_def)

lemma sorted_strs: "list_all is_str xs \<Longrightarrow> map json_sorted xs = xs"
  by (induction xs) (auto simp: sorted_str)

lemma sorted_name: "v = JNull \<or> is_str v \<Longrightarrow> json_sorted v = v"
  by (auto simp: sorted_str)

lemma sorted_obj:
  assumes "distinct (map fst d)"
  shows "\<exists>e. json_sorted (JObj d) = JObj e \<and> distinct (map fst e) \<and>
    (\<forall>k. map_of e k = map_option json_sorted (map_of d k))"
proof -
  let ?m = "map (\<lambda>p. (fst p, json_sorted (snd p))) d"
  have d: "distinct (map fst ?m)" using assms by (simp add: o_def)
  then have e: "distinct (map fst (sort_key fst ?m))" by (simp only: distinct_sort_key)
  have "map_of ?m k = map_option json_sorted (map_of d k)" for k
    by (induction d) auto
  then show ?thesis
    using e map_of_sort_key [OF d] by (intro exI [of _ "sort_key fst ?m"]) simp
qed

section \<open>Reading one record back\<close>

lemma load_sorted_client:
  assumes "plain_client c"
  shows "\<exists>e. json_sorted (client_json c) = JObj e \<and> load_client fl e = Some c"
proof -
  obtain d where d: "client_json c = JObj d" "distinct (map fst d)"
    and look: "\<And>k. map_of d k = map_of [
     (''client_id'', JStr (rc_client_id c)), (''redirect_uris'', JList (rc_redirect_uris c)),
     (''client_name'', rc_client_name c), (''token_endpoint_auth_method'', JStr (rc_auth_method c)),
     (''grant_types'', JList (rc_grant_types c)), (''response_types'', JList (rc_response_types c)),
     (''issued_at'', JInt (rc_issued_at c)), (''last_used_at'', JFloat (rc_last_used_at c))] k"
    by (simp add: client_json_def)
  obtain e where e: "json_sorted (JObj d) = JObj e" "\<And>k. map_of e k = map_option json_sorted (map_of d k)"
    using sorted_obj [OF d(2)] by blast
  note p = assms [unfolded plain_client_def]
  have s: "map json_sorted (rc_redirect_uris c) = rc_redirect_uris c"
    "map json_sorted (rc_grant_types c) = rc_grant_types c"
    "map json_sorted (rc_response_types c) = rc_response_types c"
    "json_sorted (rc_client_name c) = rc_client_name c"
    using p by (auto simp: sorted_strs sorted_name)
  have "load_client fl e = Some c"
    using p by (simp add: load_client_def jhas_def jget_def jget_or_def e(2) look s json_or_def as_list_def
        as_int_def as_float_def json_str_def)
  then show ?thesis using e(1) d(1) by simp
qed

lemma load_sorted_refresh:
  assumes "plain_refresh t"
  shows "\<exists>e. json_sorted (refresh_json t) = JObj e \<and> load_refresh fl e = Some t"
proof -
  obtain d where d: "refresh_json t = JObj d" "distinct (map fst d)"
    and look: "\<And>k. map_of d k = map_of [
     (''token'', JStr (rt_token t)), (''client_id'', JStr (rt_client_id t)), (''resource'', JStr (rt_resource t)),
     (''scopes'', JList (map JStr (sorted_list_of_set (rt_scopes t)))),
     (''expires_at'', JFloat (rt_expires_at t)), (''revoked'', JBool (rt_revoked t)),
     (''subject'', JStr (rt_subject t))] k"
    by (simp add: refresh_json_def)
  obtain e where e: "json_sorted (JObj d) = JObj e" "\<And>k. map_of e k = map_option json_sorted (map_of d k)"
    using sorted_obj [OF d(2)] by blast
  note p = assms [unfolded plain_refresh_def]
  have "set (sorted_list_of_set (rt_scopes t)) = rt_scopes t" using p by simp
  moreover have "json_str fl \<circ> (json_sorted \<circ> JStr) = (\<lambda>x. x)" by (simp add: fun_eq_iff json_str_def)
  moreover have "sorted_list_of_set (rt_scopes t) = [] \<Longrightarrow> rt_scopes t = {}" using p by simp
  ultimately have "load_refresh fl e = Some t"
    using p by (cases "sorted_list_of_set (rt_scopes t) = []")
      (simp_all add: load_refresh_def jhas_def jget_def e(2) look json_or_def as_list_def as_float_def json_str_def
        image_image o_def)
  then show ?thesis using e(1) d(1) by simp
qed

section \<open>Reading the tables back\<close>

lemma map_of_fold_dset:
  "distinct (map fst ys) \<Longrightarrow> map_of (fold (\<lambda>(k, v). dset k v) ys acc) x =
     (case map_of ys x of None \<Rightarrow> map_of acc x | Some v \<Rightarrow> Some v)"
proof (induction ys arbitrary: acc)
  case (Cons y ys)
  then have "map_of ys (fst y) = None" by (simp add: map_of_eq_None_iff)
  with Cons show ?case by (cases y) (auto simp: map_of_dset split: option.splits)
qed simp

lemma load_clients_back:
  assumes "\<forall>(k, c) \<in> set ys. rc_client_id c = k \<and> plain_client c"
  shows "load_clients fl (map (\<lambda>p. (fst p, json_sorted (client_json (snd p)))) ys) acc =
    Inr (fold (\<lambda>(k, v). dset k v) ys acc)"
  using assms
proof (induction ys arbitrary: acc)
  case (Cons y ys)
  obtain e where "json_sorted (client_json (snd y)) = JObj e" "load_client fl e = Some (snd y)"
    using load_sorted_client [of "snd y" fl] Cons.prems by (auto simp: split_def)
  then show ?case using Cons by (simp add: split_def)
qed simp

lemma load_refreshes_back:
  assumes "\<forall>(k, t) \<in> set ys. rt_token t = k \<and> plain_refresh t"
  shows "load_refreshes fl (map (\<lambda>p. (fst p, json_sorted (refresh_json (snd p)))) ys) acc =
    Inr (fold (\<lambda>(k, v). dset k v) ys acc)"
  using assms
proof (induction ys arbitrary: acc)
  case (Cons y ys)
  obtain e where "json_sorted (refresh_json (snd y)) = JObj e" "load_refresh fl e = Some (snd y)"
    using load_sorted_refresh [of "snd y" fl] Cons.prems by (auto simp: split_def)
  then show ?case using Cons by (simp add: split_def)
qed simp

definition plain_tables :: "oauth \<Rightarrow> bool" where
  "plain_tables s \<longleftrightarrow> (\<forall>(k, c) \<in> set (clients s). plain_client c) \<and> (\<forall>(k, t) \<in> set (refresh_tokens s). plain_refresh t)"

lemma keyed_fold_dset:
  "keyed key acc \<Longrightarrow> \<forall>(k, v) \<in> set ys. key v = k \<Longrightarrow> keyed key (fold (\<lambda>(k, v). dset k v) ys acc)"
  by (induction ys arbitrary: acc) (auto intro!: keyed_dset)

lemma map_of_sorted_fold:
  "distinct (map fst d) \<Longrightarrow> map_of (fold (\<lambda>(k, v). dset k v) (sort_key fst d) []) = map_of (d :: (string \<times> 'v) list)"
proof -
  assume d: "distinct (map fst d)"
  then have "distinct (map fst (sort_key fst d))" by (simp only: distinct_sort_key)
  from map_of_fold_dset [OF this] show ?thesis
    by (simp add: fun_eq_iff map_of_sort_key [OF d] split: option.split)
qed

lemma load_payload_back:
  assumes "oauth_ok s" "plain_tables s" "json_sorted (JObj (payload_of s)) = JObj payload"
    and "clients u = []" "refresh_tokens u = []"
  shows "\<exists>cs rts. load_payload fl payload u = Inr (u\<lparr>clients := cs, refresh_tokens := rts\<rparr>) \<and>
    map_of cs = map_of (clients s) \<and> map_of rts = map_of (refresh_tokens s) \<and>
    keyed rc_client_id cs \<and> keyed rt_token rts"
proof -
  let ?cs = "sort_key fst (clients s)" and ?rts = "sort_key fst (refresh_tokens s)"
  have dist: "distinct (map fst (payload_of s))" by (simp add: payload_of_def)
  have look: "map_of payload k = map_option json_sorted (map_of (payload_of s) k)" for k
    using sorted_obj [OF dist] assms(3) by auto
  have keyed: "\<forall>(k, c) \<in> set ?cs. rc_client_id c = k \<and> plain_client c"
    "\<forall>(k, t) \<in> set ?rts. rt_token t = k \<and> plain_refresh t"
    "distinct (map fst (clients s))" "distinct (map fst (refresh_tokens s))"
    using assms(1,2) by (auto simp: oauth_ok_def plain_tables_def keyed_def)
  have c: "jget payload ''clients'' = JObj (map (\<lambda>p. (fst p, json_sorted (client_json (snd p)))) ?cs)"
    unfolding jget_def look payload_of_def
    by (simp add: split_def o_def sort_key_map_val [of "\<lambda>p. json_sorted (client_json (snd p))"])
  have r: "jget payload ''refresh_tokens'' = JObj (map (\<lambda>p. (fst p, json_sorted (refresh_json (snd p)))) ?rts)"
    unfolding jget_def look payload_of_def
    by (simp add: split_def o_def sort_key_map_val [of "\<lambda>p. json_sorted (refresh_json (snd p))"])
  have items: "items_of (json_or (JObj d) (JObj [])) = Inr d" for d
    by (simp add: items_of_def json_or_def)
  have "load_payload fl payload u = Inr (u\<lparr>clients := fold (\<lambda>(k, v). dset k v) ?cs [],
      refresh_tokens := fold (\<lambda>(k, v). dset k v) ?rts []\<rparr>)"
    using load_clients_back [OF keyed(1), of fl "[]"] load_refreshes_back [OF keyed(2), of fl "[]"]
    by (simp add: load_payload_def c r items assms(4,5))
  moreover have "keyed rc_client_id (fold (\<lambda>(k, v). dset k v) ?cs [])" "keyed rt_token (fold (\<lambda>(k, v). dset k v) ?rts [])"
    using keyed(1,2) by (auto intro!: keyed_fold_dset)
  ultimately show ?thesis
    using map_of_sorted_fold [OF keyed(3)] map_of_sorted_fold [OF keyed(4)] by blast
qed

section \<open>Restart\<close>

lemma final_mode_check_Inr:
  "fst (final_mode_check r) = Inr () \<Longrightarrow> fst r = Inr () \<and> snd (final_mode_check r) = snd r"
  by (cases r; cases "fst r") (auto simp: final_mode_check_def split: option.splits if_splits)

lemma save_state_success:
  assumes "fst (save_state fl sys_ok n payload d) = Inr ()"
  shows "target_node (snd (save_state fl sys_ok n payload d)) =
    Some (FileNode (take n (json_dumps fl (JObj payload))) 0x180)"
proof -
  obtain r d1 where r: "assert_safe_dir sys_ok d = (r, d1)" by (cases "assert_safe_dir sys_ok d")
  obtain x where x: "r = Inr x"
    using assms r by (cases r) (auto simp: save_state_def)
  let ?r = "run_steps sys_ok (json_dumps fl (JObj payload)) n save_steps d1"
  have e: "save_state fl sys_ok n payload d = final_mode_check ?r"
    using assms r x by (auto simp: save_state_def split: if_splits)
  then have "fst ?r = Inr ()" "snd (save_state fl sys_ok n payload d) = snd ?r"
    using final_mode_check_Inr [of ?r] assms by simp_all
  then show ?thesis using run_save_steps_success by metis
qed

lemma persist_success:
  assumes "has_store s" "fst (persist w now s) = Inr ()"
  shows "\<exists>d. snd (persist w now s) = drop_dead_refresh now s\<lparr>disk := d\<rparr> \<and>
    target_node d = Some (FileNode
      (take (written w) (json_dumps (float_text w) (JObj (payload_of (drop_dead_refresh now s))))) 0x180)"
proof -
  let ?s1 = "drop_dead_refresh now s"
  let ?r = "save_state (float_text w) (io w) (written w) (payload_of ?s1) (disk ?s1)"
  have "fst ?r = Inr ()" and "snd (persist w now s) = ?s1\<lparr>disk := snd ?r\<rparr>"
    using assms by (auto simp: persist_def Let_def split: prod.splits sum.splits state_error.splits)
  then show ?thesis using save_state_success by blast
qed

lemma check_payload_sorted:
  assumes "json_sorted (JObj (payload_of s)) = JObj payload"
  shows "check_payload fl (JObj payload) = Inr payload"
proof -
  have dist: "distinct (map fst (payload_of s))" by (simp add: payload_of_def)
  have look: "map_of payload k = map_option json_sorted (map_of (payload_of s) k)"
    and keys: "distinct (map fst payload)" for k
    using sorted_obj [OF dist] assms by auto
  have "k \<notin> set (map fst payload)" if "k \<in> forbidden_top_level" for k
    using that look [of k] by (auto simp: forbidden_top_level_def payload_of_def map_of_eq_None_iff [symmetric])
  then have f: "forbidden_top_level \<inter> set (map fst payload) = {}" by blast
  have "jget payload ''version'' = JInt STATE_VERSION" "\<exists>a. jget payload ''clients'' = JObj a"
    "\<exists>b. jget payload ''refresh_tokens'' = JObj b"
    unfolding jget_def look by (simp_all add: payload_of_def)
  then show ?thesis using f by (auto simp: check_payload_def)
qed

lemma drop_dead_facts:
  "oauth_ok s \<Longrightarrow> oauth_ok (drop_dead_refresh now s)"
  "plain_tables s \<Longrightarrow> plain_tables (drop_dead_refresh now s)"
  by (auto simp: drop_dead_refresh_def oauth_ok_def plain_tables_def ddel_all_filter Let_def)

text \<open>The clean-up of a start evicts nobody when every client is live or recent and they are few.\<close>

lemma ttl_sweep_nothing:
  "\<forall>c \<in> set cs. client_has_live_refresh s (rc_client_id c) now \<or> now - rc_last_used_at c < INACTIVE_CLIENT_TTL_S \<Longrightarrow>
   ttl_sweep now cs s = (s, [])"
  by (induction cs) auto

lemma cleanup_nothing:
  assumes "\<forall>c \<in> set (dvals (clients s)).
      client_has_live_refresh s (rc_client_id c) now \<or> now - rc_last_used_at c < INACTIVE_CLIENT_TTL_S"
    and "length (clients s) \<le> MAX_INACTIVE_DCR_CLIENTS"
  shows "cleanup_inactive_clients now 0 s = (s, [])"
proof -
  have "inactive_occupancy s now \<le> length (clients s)"
    unfolding inactive_occupancy_def dkeys_def by (rule order_trans [OF length_filter_le]) simp
  then have "\<not> over_budget s now 0"
    using assms(2) by (simp add: over_budget_def MAX_INACTIVE_DCR_CLIENTS_def MAX_DCR_CLIENTS_def)
  then have "evict_loop n now 0 s = (s, [])" for n by (subst evict_loop.simps) simp
  then show ?thesis by (simp add: cleanup_inactive_clients_def ttl_sweep_nothing [OF assms(1)])
qed

text \<open>A start on the file that a successful persist left: what the constructor has loaded when it cleans up.\<close>

lemma start_loads:
  fixes c :: relay_config
  assumes "oauth_ok s" "plain_tables s" "has_store s" "fst (persist w now s) = Inr ()"
    and "length (json_dumps (float_text w) (JObj (payload_of (drop_dead_refresh now s)))) \<le> written w"
    and "dec (json_dumps (float_text w) (JObj (payload_of (drop_dead_refresh now s)))) =
      Some (json_sorted (JObj (payload_of (drop_dead_refresh now s))))"
    and "io w' StatFile" "io w' ReadFile" "opt_truthy (oauth_state_path c)"
    and "fst (open_store (io w') (disk (snd (persist w now s)))) = Inr ()"
  obtains d cs rts where
    "map_of cs = map_of (clients (snd (persist w now s)))" "map_of rts = map_of (refresh_tokens (snd (persist w now s)))"
    "keyed rc_client_id cs" "keyed rt_token rts"
    "new_service dec w' c (disk (snd (persist w now s))) =
       (let (s3, evicted) = cleanup_inactive_clients (clock w' 0) 0
                (empty_service c d\<lparr>has_store := True, clients := cs, refresh_tokens := rts\<rparr>)
        in if evicted = [] then (Inr (), s3) else persist w' (clock w' 1) s3)"
proof -
  let ?s1 = "drop_dead_refresh now s"
  obtain d where d: "snd (persist w now s) = ?s1\<lparr>disk := d\<rparr>" and node: "target_node d = Some (FileNode
      (json_dumps (float_text w) (JObj (payload_of ?s1))) 0x180)"
    using persist_success [OF assms(3,4)] assms(5) by auto
  obtain d' where d': "open_store (io w') d = (Inr (), d')" using assms(10) d by (cases "open_store (io w') d") simp
  have node': "target_node d' = Some (FileNode (json_dumps (float_text w) (JObj (payload_of ?s1))) 0x180)"
    using d' node by (auto simp: open_store_def dest: assert_safe_dir_frame)
  let ?u = "empty_service c d'\<lparr>has_store := True\<rparr>"
  have empty_tables: "clients ?u = []" "refresh_tokens ?u = []" "disk ?u = d'"
    by (simp_all add: empty_service_def)
  obtain payload where p: "json_sorted (JObj (payload_of ?s1)) = JObj payload" by simp
  have "load_state (float_text w') dec (io w') d' = Inr payload"
    using assms(6) [unfolded p] assms(7,8) check_payload_sorted [OF p]
    by (simp add: load_state_def node' mode_of_def del: json_dumps.simps)
  moreover obtain cs rts where l: "load_payload (float_text w') payload ?u = Inr (?u\<lparr>clients := cs, refresh_tokens := rts\<rparr>)"
    "map_of cs = map_of (clients ?s1)" "map_of rts = map_of (refresh_tokens ?s1)" "keyed rc_client_id cs" "keyed rt_token rts"
    using load_payload_back [OF drop_dead_facts(1) [OF assms(1)] drop_dead_facts(2) [OF assms(2)] p,
        where u = ?u and fl = "float_text w'"] empty_tables by blast
  ultimately have "load_on_start dec w' ?u = Inr (?u\<lparr>clients := cs, refresh_tokens := rts\<rparr>)"
    by (simp add: load_on_start_def empty_tables(3))
  moreover have "empty_service c d\<lparr>has_store := True, disk := d'\<rparr> = ?u" by (simp add: empty_service_def)
  ultimately have "new_service dec w' c (disk (snd (persist w now s))) =
       (let (s3, evicted) = cleanup_inactive_clients (clock w' 0) 0
                (empty_service c d'\<lparr>has_store := True, clients := cs, refresh_tokens := rts\<rparr>)
        in if evicted = [] then (Inr (), s3) else persist w' (clock w' 1) s3)"
    using d' assms(9) by (simp add: new_service_def d Let_def)
  then show thesis using l that d by simp
qed

lemma same_length:
  assumes "wf_dict d" "wf_dict e" "map_of d = map_of e" shows "length d = length e"
proof -
  have "length x = card (dom (map_of x))" if "wf_dict x" for x :: "'v dict"
    using that distinct_card [of "map fst x"] by (simp add: dom_map_of_conv_image_fst)
  then show ?thesis using assms by metis
qed

lemma live_refresh_same:
  assumes "map_of (refresh_tokens s) = map_of (refresh_tokens s')" "keyed rt_token (refresh_tokens s)" "keyed rt_token (refresh_tokens s')"
  shows "client_has_live_refresh s cid now = client_has_live_refresh s' cid now"
  using assms by (simp add: live_refresh_iff)


lemma save_state_ok:
  assumes "\<And>st. sys_ok st" "eq_int (jget payload ''version'') STATE_VERSION" "forbidden_top_level \<inter> set (map fst payload) = {}"
    and "parent_node d = Some (DirNode 0x1C0)" "\<And>m. target_node d \<noteq> Some (DirNode m)"
  shows "save_state fl sys_ok n payload d =
    (Inr (), d\<lparr>target_node := Some (FileNode (take n (json_dumps fl (JObj payload))) 0x180), tmp_file := None\<rparr>)"
proof -
  have dir: "assert_safe_dir sys_ok d = (Inr (), d)"
    using assms(4) by (simp add: assert_safe_dir_def is_dir_def mode_of_def)
  have reg: "\<not> is_dir m" if "target_node d = Some m" for m
    using assms(5) that by (auto simp: is_dir_def split: node.splits)
  have "run_steps sys_ok (json_dumps fl (JObj payload)) n save_steps d =
      (Inr (), d\<lparr>target_node := Some (FileNode (take n (json_dumps fl (JObj payload))) 0x180), tmp_file := None\<rparr>)"
    using assms(1) reg by (rule run_save_steps_ok)
  then show ?thesis
    using assms(2,3) by (simp add: save_state_def dir final_mode_check_def mode_of_def del: json_dumps.simps)
qed

text \<open>The demo service with a store: its client and its refresh token are written and read back.\<close>

definition demo_stored :: oauth where
  "demo_stored = demo\<lparr>has_store := True\<rparr>"

definition demo_text :: string where
  "demo_text = json_dumps (\<lambda>_. ''0.0'') (JObj (payload_of demo_stored))"

definition demo_store_world :: world where
  "demo_store_world = (demo_world 120 7)\<lparr>written := length demo_text\<rparr>"

definition demo_store_cfg :: relay_config where
  "demo_store_cfg = demo_cfg\<lparr>oauth_state_path := Some ''/s/x''\<rparr>"

lemma demo_persists:
  "drop_dead_refresh 120 demo_stored = demo_stored"
  "persist demo_store_world 120 demo_stored =
     (Inr (), demo_stored\<lparr>disk := demo_disk\<lparr>target_node := Some (FileNode demo_text 0x180)\<rparr>\<rparr>)"
proof -
  show d: "drop_dead_refresh 120 demo_stored = demo_stored"
    by (simp add: drop_dead_refresh_def demo_stored_def demo_defs ddel_all_filter dkeys_def Let_def)
  have "save_state (float_text demo_store_world) (io demo_store_world) (written demo_store_world) (payload_of demo_stored)
      (disk demo_stored) = (Inr (), demo_disk\<lparr>target_node := Some (FileNode demo_text 0x180), tmp_file := None\<rparr>)"
    by (subst save_state_ok)
      (simp_all add: demo_store_world_def demo_world_def demo_text_def demo_stored_def demo_def empty_service_def demo_disk_def
        payload_of_def jget_def STATE_VERSION_def forbidden_top_level_def del: json_dumps.simps)
  then show "persist demo_store_world 120 demo_stored =
     (Inr (), demo_stored\<lparr>disk := demo_disk\<lparr>target_node := Some (FileNode demo_text 0x180)\<rparr>\<rparr>)"
    by (simp add: persist_def d Let_def) (simp add: demo_stored_def demo_disk_def)
qed


text \<open>The durable document depends only on the clients and the refresh tokens: two services that agree on those
  leave the same file behind, whatever their owner secret, upstream token, authorization codes,
  access tokens or pending requests; and it never has a credential field at its top level.\<close>

theorem durable_document_has_no_secrets:
  assumes "clients s = clients s'" "refresh_tokens s = refresh_tokens s'" "has_store s = has_store s'"
    "disk s = disk s'"
  shows "disk (snd (persist w now s)) = disk (snd (persist w now s')) \<and>
    set (map fst (payload_of s)) \<inter> forbidden_top_level = {}"
proof -
  have "payload_of (drop_dead_refresh now s) = payload_of (drop_dead_refresh now s')"
    using assms(1,2) by (simp add: payload_of_def drop_dead_refresh_def Let_def)
  moreover have "disk (drop_dead_refresh now s) = disk (drop_dead_refresh now s')"
    using assms(4) by (simp add: drop_dead_refresh_def Let_def)
  ultimately have "disk (snd (persist w now s)) = disk (snd (persist w now s'))"
    using assms(3,4) by (simp add: persist_def Let_def split: prod.split sum.split state_error.split)
  then show ?thesis by (simp add: payload_of_def forbidden_top_level_def)
qed

lemma durable_document_has_no_secrets_witness:
  "disk (snd (persist demo_store_world 120 demo_stored)) =
   disk (snd (persist demo_store_world 120 (demo_stored\<lparr>cfg := demo_cfg\<lparr>owner_approval_secret := Some ''other-secret''\<rparr>\<rparr>)))"
  by (rule durable_document_has_no_secrets [THEN conjunct1]) simp_all



text \<open>The save does not check how many bytes the write took: when the system accepts fewer than asked, a save with
  every call succeeding reports success and has replaced the state file by a truncated document.\<close>

theorem short_write_replaces_state_file:
  assumes "\<And>st. sys_ok st" "n < length (json_dumps fl (JObj payload))" "tmp_file d = None"
    and "eq_int (jget payload ''version'') STATE_VERSION" "forbidden_top_level \<inter> set (map fst payload) = {}"
    and "parent_node d = Some (DirNode 0x1C0)" "\<And>m. target_node d \<noteq> Some (DirNode m)"
  shows "fst (save_state fl sys_ok n payload d) = Inr () \<and>
    target_node (snd (save_state fl sys_ok n payload d)) =
      Some (FileNode (take n (json_dumps fl (JObj payload))) 0x180)"
  using save_state_ok [OF assms(1,4,5,6,7)] by simp

lemma short_write_replaces_state_file_witness:
  "target_node (snd (save_state (\<lambda>_. []) (\<lambda>_. True) 5 [(''version'', JInt 1)] demo_disk)) \<noteq> None"
proof -
  have l: "5 < length (json_dumps (\<lambda>_. []) (JObj [(''version'', JInt 1)]))" by code_simp
  show ?thesis
    using short_write_replaces_state_file [of "\<lambda>_. True" 5 "\<lambda>_. []" "[(''version'', JInt 1)]" demo_disk] l
    by (simp add: demo_disk_def jget_def STATE_VERSION_def forbidden_top_level_def)
qed

end
