(* ===== verification/Relay.thy ===== *)
theory Relay
  imports OAuthOps
begin

text \<open>
  The HTTP side of the relay: \<^verbatim>\<open>relay/binding.py\<close> (who is bound to the upstream), \<^verbatim>\<open>relay/proxy.py\<close> (one
  request forwarded to the pinned address) and the handlers of \<^verbatim>\<open>relay/server.py\<close>.

  \<open>relay\<close> is the server object: its configuration, the authorization service when there is one, the
  revoked mock bindings. \<open>outbound\<close> is the request the proxy puts on the wire, so what leaves the
  process is a value; the upstream's answer is the argument \<open>upstream\<close>. \<open>lib\<close> holds what the
  handlers get from the standard library's text codecs: \<^verbatim>\<open>json.loads\<close>, strict UTF-8 decoding and the
  replacing UTF-8 decoding of \<^verbatim>\<open>unquote\<close>. A reply has a status, its headers (without Content-Length,
  which the code computes from the body) and a body; \<open>None\<close> instead of a reply is an exception that
  no handler catches, after which the connection is dropped.
\<close>

section \<open>Bindings\<close>

record upstream_binding =
  binding_id :: string
  ub_url :: string
  ub_connect_ips :: "string list"
  ub_allow_loopback :: bool
  ub_authorization :: "string option"
  ub_subject :: string

text \<open>\<open>BindingError message status oauth_error oauth_description\<close>.\<close>

datatype binding_error =
    BindingError string int "string option" "string option"
  | BindingRaised oauth_error

record relay =
  rl_config :: relay_config
  rl_oauth :: "oauth option"
  rl_revoked :: "string set"

definition make_binding :: "relay_config \<Rightarrow> string \<Rightarrow> string \<Rightarrow> upstream_binding" where
  "make_binding c bid subject =
     \<lparr>binding_id = bid, ub_url = upstream_url c, ub_connect_ips = upstream_connect_ips c,
      ub_allow_loopback = allow_loopback_upstream c,
      ub_authorization = (case upstream_token c of
         Some t \<Rightarrow> if t = [] then None else Some (''Bearer '' @ t)
       | None \<Rightarrow> None),
      ub_subject = subject\<rparr>"

definition mock_binding_id :: string where "mock_binding_id = ''mock-binding-1''"

definition plain_binding_error :: "string \<Rightarrow> binding_error" where
  "plain_binding_error m = BindingError m 401 None None"

definition mock_resolve :: "relay \<Rightarrow> string option \<Rightarrow> binding_error + upstream_binding" where
  "mock_resolve r header =
     (if mock_binding_id \<in> rl_revoked r then Inl (plain_binding_error ''binding revoked'')
      else if header \<noteq> Some (''Bearer '' @ mock_plugin_token (rl_config r))
      then Inl (plain_binding_error ''unbound or invalid plugin identity'')
      else Inr (make_binding (rl_config r) mock_binding_id ''mock-plugin-user''))"

definition mock_revoke :: "string \<Rightarrow> relay \<Rightarrow> relay" where
  "mock_revoke bid r = r\<lparr>rl_revoked := insert bid (rl_revoked r)\<rparr>"

definition mock_reconnect :: "string \<Rightarrow> relay \<Rightarrow> relay" where
  "mock_reconnect bid r = r\<lparr>rl_revoked := rl_revoked r - {bid}\<rparr>"

definition error_text :: "string \<Rightarrow> string \<Rightarrow> string" where
  "error_text err description = (if description = [] then err else description)"

definition resolve_binding :: "time \<Rightarrow> relay \<Rightarrow> string option \<Rightarrow> binding_error + upstream_binding" where
  "resolve_binding now r header =
     (if auth_mode (rl_config r) = AUTH_MODE_OAUTH then
        (case rl_oauth r of
           None \<Rightarrow> Inl (plain_binding_error ''oauth not configured'')
         | Some s \<Rightarrow>
             (case validate_bearer now header None s of
                Inl (OAuthError err description status) \<Rightarrow>
                  Inl (BindingError (error_text err description) status (Some err) (Some description))
              | Inl e \<Rightarrow> Inl (BindingRaised e)
              | Inr token \<Rightarrow> Inr (make_binding (rl_config r) ''oauth-binding-1'' (at_subject token))))
      else if auth_mode (rl_config r) = AUTH_MODE_MOCK then mock_resolve r header
      else Inl (plain_binding_error ''unsupported auth mode''))"

section \<open>Proxy\<close>

definition forward_request_headers :: "string set" where
  "forward_request_headers = {''accept'', ''accept-encoding'', ''content-type'', ''mcp-session-id'',
     ''last-event-id'', ''mcp-protocol-version'', ''mcp-method'', ''mcp-name''}"

definition forward_response_headers :: "string set" where
  "forward_response_headers = {''content-type'', ''mcp-session-id'', ''mcp-protocol-version'', ''cache-control''}"

type_synonym header_list = "(string \<times> string) list"

definition select_headers :: "header_list \<Rightarrow> string set \<Rightarrow> header_list" where
  "select_headers items allowed = filter (\<lambda>(name, value). py_lower name \<in> allowed) items"

text \<open>\<open>Inl ()\<close> is \<^verbatim>\<open>UpstreamUnavailable\<close>.\<close>

definition pinned_connect_ip :: "upstream_binding \<Rightarrow> unit + string" where
  "pinned_connect_ip b =
     (case ub_connect_ips b of
        [] \<Rightarrow> Inl ()
      | ip # _ \<Rightarrow> map_err (\<lambda>_. ()) (assert_connect_ip_allowed ip (ub_allow_loopback b)))"

record outbound =
  ob_tls :: bool
  ob_host :: string
  ob_ip :: string
  ob_port :: int
  ob_timeout :: pyfloat
  ob_method :: string
  ob_path :: string
  ob_headers :: header_list
  ob_body :: string

record upstream_reply =
  up_status :: int
  up_reason :: string
  up_headers :: header_list
  up_body :: string

text \<open>\<^verbatim>\<open>str.title()\<close> of a header name: a cased character starts a word after an uncased one.\<close>

definition is_cased :: "char \<Rightarrow> bool" where
  "is_cased c = (lower_char c \<noteq> c \<or> upper_char c \<noteq> [c] \<or> code_of c \<in> {170, 181, 186, 255})"

fun title_from :: "bool \<Rightarrow> string \<Rightarrow> string" where
  "title_from prev [] = []"
| "title_from prev (c # cs) =
     (if is_cased c then (if prev then [lower_char c] else if code_of c = 223 then ''Ss'' else upper_char c)
      else [c]) @ title_from (is_cased c) cs"

definition py_title :: "string \<Rightarrow> string" where
  "py_title s = title_from False s"

definition outbound_headers :: "upstream_binding \<Rightarrow> string \<Rightarrow> header_list \<Rightarrow> string dict" where
  "outbound_headers b body request_headers =
     (let h0 = fold (\<lambda>(n, v). dset n v) (select_headers request_headers forward_request_headers) [];
          h1 = (case ub_authorization b of
                  Some a \<Rightarrow> if a = [] then h0 else dset ''Authorization'' a h0
                | None \<Rightarrow> h0)
      in if body \<noteq> [] \<and> ''Content-Type'' \<notin> set (map py_title (dkeys h1))
            \<and> ''content-type'' \<notin> set (map py_lower (dkeys h1))
         then dset ''Content-Type'' ''application/json'' h1 else h1)"

text \<open>
  The request the proxy sends. \<open>Inl None\<close> is \<^verbatim>\<open>UpstreamUnavailable\<close>, \<open>Inl (Some e)\<close> another exception.
\<close>

definition prepare_request ::
    "string \<Rightarrow> upstream_binding \<Rightarrow> string \<Rightarrow> header_list \<Rightarrow> pyfloat \<Rightarrow> oauth_error option + outbound" where
  "prepare_request meth b body request_headers timeout =
     (case urlparse (ub_url b) of
        None \<Rightarrow> Inl (Some PyValueError)
      | Some parsed \<Rightarrow>
          (case hostname parsed of
             None \<Rightarrow> Inl (Some PyAssertionError)
           | Some host \<Rightarrow>
               (let path0 = (if upath parsed = [] then ''/'' else upath parsed);
                    path = (if uquery parsed = [] then path0 else path0 @ ''?'' @ uquery parsed);
                    headers = outbound_headers b body request_headers
                in case pinned_connect_ip b of
                     Inl _ \<Rightarrow> Inl None
                   | Inr ip \<Rightarrow>
                       (case port parsed of
                          Inl _ \<Rightarrow> Inl (Some PyValueError)
                        | Inr p \<Rightarrow>
                            (let tls = (scheme parsed = ''https'');
                                 dflt = (if tls then 443 else 80);
                                 prt = (case p of None \<Rightarrow> dflt | Some n \<Rightarrow> if n = 0 then dflt else n)
                             in Inr \<lparr>ob_tls = tls, ob_host = host, ob_ip = ip, ob_port = prt,
                                  ob_timeout = timeout, ob_method = py_upper meth, ob_path = path,
                                  ob_headers = headers, ob_body = body\<rparr>)))))"

text \<open>\<open>upstream\<close> answers a request on the wire, \<open>None\<close> for a timeout or any transport failure.\<close>

definition proxy_mcp_request ::
    "(outbound \<Rightarrow> upstream_reply option) \<Rightarrow> string \<Rightarrow> upstream_binding \<Rightarrow> string \<Rightarrow> header_list \<Rightarrow> pyfloat
      \<Rightarrow> oauth_error option + upstream_reply" where
  "proxy_mcp_request upstream meth b body request_headers timeout =
     bindE (prepare_request meth b body request_headers timeout) (\<lambda>ob.
       case upstream ob of
         None \<Rightarrow> Inl None
       | Some resp \<Rightarrow>
           Inr (resp\<lparr>up_headers := select_headers (up_headers resp) forward_response_headers\<rparr>))"

section \<open>Requests and replies\<close>

record http_request =
  rq_method :: string
  rq_target :: string
  rq_headers :: header_list
  rq_body :: string
  rq_client :: string

datatype reply_body = JsonBody jobj | HtmlBody string | BytesBody string | NoBody

record reply =
  rp_status :: int
  rp_headers :: header_list
  rp_body :: reply_body

record lib =
  loads :: "string \<Rightarrow> json option"
  decode_strict :: "string \<Rightarrow> string option"
  decode_replace :: "string \<Rightarrow> string"
  em_dash :: string
  version :: string

definition header_get :: "http_request \<Rightarrow> string \<Rightarrow> string option" where
  "header_get q name = map_of (map (\<lambda>(n, v). (py_lower n, v)) (rq_headers q)) (py_lower name)"

definition send_json :: "int \<Rightarrow> jobj \<Rightarrow> header_list \<Rightarrow> reply option" where
  "send_json status payload extra =
     Some \<lparr>rp_status = status, rp_headers = (''Content-Type'', ''application/json'') # extra,
           rp_body = JsonBody payload\<rparr>"

definition send_html :: "int \<Rightarrow> string \<Rightarrow> reply option" where
  "send_html status body =
     Some \<lparr>rp_status = status, rp_headers = [(''Content-Type'', ''text/html; charset=utf-8'')],
           rp_body = HtmlBody body\<rparr>"

definition send_redirect :: "string \<Rightarrow> reply option" where
  "send_redirect location =
     Some \<lparr>rp_status = 302, rp_headers = [(''Location'', location)], rp_body = NoBody\<rparr>"

definition error_json :: "string \<Rightarrow> string \<Rightarrow> jobj" where
  "error_json err description = [(''error'', JStr err), (''error_description'', JStr description)]"

definition read_body :: "http_request \<Rightarrow> oauth_error + string" where
  "read_body q =
     (case py_int (case header_get q ''Content-Length'' of
                     Some v \<Rightarrow> if v = [] then ''0'' else v | None \<Rightarrow> ''0'') of
        None \<Rightarrow> Inl PyValueError
      | Some n \<Rightarrow>
          if n < 0 \<or> n > 16777216 then Inl PyValueError
          else Inr (take (nat n) (rq_body q)))"

section \<open>Form parsing\<close>

fun unquote_run :: "string \<Rightarrow> string" where
  "unquote_run (c # x # y # cs) =
     (if c = CHR 0x25 \<and> is_hex x \<and> is_hex y
      then char_of (nat (hex_value x) * 16 + nat (hex_value y)) # unquote_run cs
      else c # unquote_run (x # y # cs))"
| "unquote_run cs = cs"

text \<open>\<^verbatim>\<open>unquote\<close>: runs of ASCII characters are percent-decoded to bytes and decoded, others stay.\<close>

function unquote_runs :: "(string \<Rightarrow> string) \<Rightarrow> string \<Rightarrow> string" where
  "unquote_runs decode s =
     (if s = [] then []
      else if code_of (hd s) \<ge> 128 then hd s # unquote_runs decode (tl s)
      else decode (unquote_run (takeWhile (\<lambda>c. code_of c < 128) s))
             @ unquote_runs decode (dropWhile (\<lambda>c. code_of c < 128) s))"
  by pat_completeness auto
termination
proof (relation "measure (\<lambda>(_, s). length s)")
  fix decode :: "string \<Rightarrow> string" and s :: string
  assume a: "s \<noteq> []" "\<not> 128 \<le> code_of (hd s)"
  then obtain c cs where "s = c # cs" by (cases s) auto
  with a show "((decode, dropWhile (\<lambda>c. code_of c < 128) s), (decode, s)) \<in> measure (\<lambda>(_, s). length s)"
    using length_dropWhile_le [of "\<lambda>c. code_of c < 128" cs] by simp
qed auto

declare unquote_runs.simps [simp del]

definition py_unquote :: "(string \<Rightarrow> string) \<Rightarrow> string \<Rightarrow> string" where
  "py_unquote decode s = (if CHR 0x25 \<in> set s then unquote_runs decode s else s)"

definition plus_to_space :: "string \<Rightarrow> string" where
  "plus_to_space s = map (\<lambda>c. if c = CHR ''+'' then CHR '' '' else c) s"

definition parse_qs_pairs :: "(string \<Rightarrow> string) \<Rightarrow> bool \<Rightarrow> string \<Rightarrow> (string \<times> string) list" where
  "parse_qs_pairs decode keep_blank qs =
     (if qs = [] then []
      else concat (map (\<lambda>nv. case partition_at CHR ''='' nv of
        (name, has_eq, value) \<Rightarrow>
          if nv = [] \<or> (\<not> has_eq \<and> \<not> keep_blank) then []
          else if value \<noteq> [] \<or> keep_blank
          then [(py_unquote decode (plus_to_space name), py_unquote decode (plus_to_space value))]
          else []) (split_on CHR ''&'' qs)))"

text \<open>\<^verbatim>\<open>{k: v[-1] ...}\<close>: the last value of each name.\<close>

definition last_values :: "(string \<times> string) list \<Rightarrow> form" where
  "last_values ps = fold (\<lambda>(k, v). dset k v) ps []"

definition media_type :: "http_request \<Rightarrow> string" where
  "media_type q =
     py_lower (py_strip (fst (partition_at CHR '';''
       (case header_get q ''Content-Type'' of Some v \<Rightarrow> v | None \<Rightarrow> []))))"

definition json_body :: "lib \<Rightarrow> string \<Rightarrow> oauth_error + json" where
  "json_body l raw =
     (case decode_strict l raw of
        None \<Rightarrow> Inl PyValueError
      | Some txt \<Rightarrow>
          (case loads l (if txt = [] then [CHR 0x7B, CHR 0x7D] else txt) of
             None \<Rightarrow> Inl (OAuthError ''invalid_request'' ''malformed JSON body'' 400)
           | Some v \<Rightarrow> Inr v))"

definition parse_form :: "(rat \<Rightarrow> string) \<Rightarrow> lib \<Rightarrow> http_request \<Rightarrow> string \<Rightarrow> oauth_error + form" where
  "parse_form fl l q raw =
     (if media_type q = ''application/json'' then
        bindE (json_body l raw) (\<lambda>v.
          case v of
            JObj d \<Rightarrow> Inr (fold (\<lambda>(k, v). dset k (if v = JNull then [] else json_str fl v)) d [])
          | _ \<Rightarrow> Inl (OAuthError ''invalid_request'' ''JSON body must be an object'' 400))
      else (case decode_strict l raw of
              None \<Rightarrow> Inl PyValueError
            | Some txt \<Rightarrow> Inr (last_values (parse_qs_pairs (decode_replace l) True txt))))"

section \<open>Handlers\<close>

definition client_source :: "http_request \<Rightarrow> string" where
  "client_source q = (if rq_client q = [] then ''unknown'' else rq_client q)"

definition require_oauth :: "relay \<Rightarrow> oauth_error + oauth" where
  "require_oauth r = (case rl_oauth r of
     None \<Rightarrow> Inl (OAuthError ''invalid_request'' ''oauth not enabled'' 404) | Some s \<Rightarrow> Inr s)"

definition with_oauth :: "relay \<Rightarrow> oauth \<Rightarrow> relay" where
  "with_oauth r s = r\<lparr>rl_oauth := Some s\<rparr>"

text \<open>
  The \<^verbatim>\<open>except\<close> clauses most handlers share: an OAuth error becomes its JSON, a \<^verbatim>\<open>ValueError\<close> a 400;
  anything else is not caught.
\<close>

definition oauth_failure :: "oauth_error \<Rightarrow> reply option" where
  "oauth_failure e =
     (case e of
        OAuthError err description status \<Rightarrow> send_json status (error_json err description) []
      | PyValueError \<Rightarrow> send_json 400 [(''error'', JStr ''invalid_request'')] []
      | _ \<Rightarrow> None)"

definition handle_health :: "lib \<Rightarrow> relay \<Rightarrow> reply option" where
  "handle_health l r =
     send_json 200 [(''status'', JStr ''ok''), (''service'', JStr ''datarelay-link-relay''),
       (''version'', JStr (version l)), (''mcp_path'', JStr ''/mcp''),
       (''auth_mode'', JStr (auth_mode (rl_config r)))] []"

definition not_found :: "reply option" where
  "not_found = send_json 404 [(''error'', JStr ''not_found'')] []"

definition handle_metadata :: "(oauth \<Rightarrow> oauth_error + jobj) \<Rightarrow> relay \<Rightarrow> reply option" where
  "handle_metadata f r =
     (case rl_oauth r of
        None \<Rightarrow> not_found
      | Some s \<Rightarrow> (case f s of Inr doc \<Rightarrow> send_json 200 doc [] | Inl _ \<Rightarrow> None))"

definition register_body :: "(rat \<Rightarrow> string) \<Rightarrow> lib \<Rightarrow> http_request \<Rightarrow> string \<Rightarrow> oauth_error + json" where
  "register_body fl l q raw =
     bindE (parse_form fl l q raw) (\<lambda>form.
       if media_type q = ''application/json'' then json_body l raw
       else Inr (JObj [
         (''redirect_uris'', JList (map JStr (split_ws (form_get form ''redirect_uris'')))),
         (''client_name'', if form_get form ''client_name'' = [] then JNull else JStr (form_get form ''client_name'')),
         (''token_endpoint_auth_method'',
            JStr (case map_of form ''token_endpoint_auth_method'' of None \<Rightarrow> ''none'' | Some v \<Rightarrow> v))]))"

definition handle_register :: "lib \<Rightarrow> world \<Rightarrow> http_request \<Rightarrow> relay \<Rightarrow> reply option \<times> relay" where
  "handle_register l w q r =
     (case require_oauth r of
        Inl e \<Rightarrow> (oauth_failure e, r)
      | Inr s \<Rightarrow>
          (case bindE (read_body q) (\<lambda>raw. register_body (float_text w) l q raw) of
             Inl e \<Rightarrow> (oauth_failure e, r)
           | Inr body \<Rightarrow>
               (case register_client w (client_source q) (case body of JObj d \<Rightarrow> d | _ \<Rightarrow> []) s of
                  (Inl e, s') \<Rightarrow> (oauth_failure e, with_oauth r s')
                | (Inr result, s') \<Rightarrow> (send_json 201 result [], with_oauth r s'))))"

text \<open>Only \<^verbatim>\<open>OAuthError\<close> is caught in the GET handler.\<close>

definition oauth_failure_only :: "oauth_error \<Rightarrow> reply option" where
  "oauth_failure_only e =
     (case e of
        OAuthError err description status \<Rightarrow> send_json status (error_json err description) []
      | _ \<Rightarrow> None)"

definition redirect_error :: "form \<Rightarrow> form \<Rightarrow> reply option" where
  "redirect_error params result =
     (case urlparse (form_get params ''redirect_uri'') of
        None \<Rightarrow> None
      | Some parsed \<Rightarrow>
          (let extra = urlencode result
           in send_redirect (urlunparse (parsed\<lparr>uquery :=
                if uquery parsed \<noteq> [] then uquery parsed @ ''&'' @ extra else extra\<rparr>))))"

definition handle_authorize_get ::
    "lib \<Rightarrow> world \<Rightarrow> http_request \<Rightarrow> string \<Rightarrow> relay \<Rightarrow> reply option \<times> relay" where
  "handle_authorize_get l w q query r =
     (case require_oauth r of
        Inl e \<Rightarrow> (oauth_failure_only e, r)
      | Inr s \<Rightarrow>
          (let params = last_values (parse_qs_pairs (decode_replace l) False query)
           in case begin_authorization w (client_source q) params s of
                (Inl e, s') \<Rightarrow> (oauth_failure_only e, with_oauth r s')
              | (Inr (ErrorRedirect result), s') \<Rightarrow> (redirect_error params result, with_oauth r s')
              | (Inr (Prompt p), s') \<Rightarrow>
                  (send_html 200 (consent_html (float_text w) (em_dash l) p None s'), with_oauth r s')))"

definition authorize_post_failure ::
    "lib \<Rightarrow> world \<Rightarrow> form \<Rightarrow> oauth_error \<Rightarrow> relay \<Rightarrow> reply option" where
  "authorize_post_failure l w form e r =
     (let request_id = form_get form ''request_id'';
          p = (case rl_oauth r of
                 Some s \<Rightarrow> if request_id = [] then None else map_of (pending s) request_id
               | None \<Rightarrow> None)
      in case e of
           OAuthError err description status \<Rightarrow>
             (case (p, rl_oauth r) of
                (Some pa, Some s) \<Rightarrow>
                  if err = ''access_denied''
                  then send_html 401 (consent_html (float_text w) (em_dash l) pa (Some description) s)
                  else send_json status (error_json err description) []
              | _ \<Rightarrow> send_json status (error_json err description) [])
         | PyValueError \<Rightarrow> send_json 400 [(''error'', JStr ''invalid_request'')] []
         | _ \<Rightarrow> None)"

definition handle_authorize_post :: "lib \<Rightarrow> world \<Rightarrow> http_request \<Rightarrow> relay \<Rightarrow> reply option \<times> relay" where
  "handle_authorize_post l w q r =
     (case require_oauth r of
        Inl e \<Rightarrow> (authorize_post_failure l w [] e r, r)
      | Inr s \<Rightarrow>
          (case bindE (read_body q) (\<lambda>raw. parse_form (float_text w) l q raw) of
             Inl e \<Rightarrow> (authorize_post_failure l w [] e r, r)
           | Inr form \<Rightarrow>
               (let decision = (case map_of form ''decision'' of None \<Rightarrow> ''deny'' | Some v \<Rightarrow> v)
                in case complete_authorization w (client_source q) (form_get form ''request_id'')
                          (form_get form ''owner_secret'') decision s of
                     (Inl e, s') \<Rightarrow> (authorize_post_failure l w form e (with_oauth r s'), with_oauth r s')
                   | (Inr location, s') \<Rightarrow> (send_redirect location, with_oauth r s'))))"

definition handle_token :: "lib \<Rightarrow> world \<Rightarrow> http_request \<Rightarrow> relay \<Rightarrow> reply option \<times> relay" where
  "handle_token l w q r =
     (case require_oauth r of
        Inl e \<Rightarrow> (oauth_failure e, r)
      | Inr s \<Rightarrow>
          (case bindE (read_body q) (\<lambda>raw. parse_form (float_text w) l q raw) of
             Inl e \<Rightarrow> (oauth_failure e, r)
           | Inr form \<Rightarrow>
               (case exchange_token w form s of
                  (Inl e, s') \<Rightarrow> (oauth_failure e, with_oauth r s')
                | (Inr result, s') \<Rightarrow> (send_json 200 result [], with_oauth r s'))))"

definition handle_revoke :: "lib \<Rightarrow> world \<Rightarrow> http_request \<Rightarrow> relay \<Rightarrow> reply option \<times> relay" where
  "handle_revoke l w q r =
     (case require_oauth r of
        Inl e \<Rightarrow> (oauth_failure e, r)
      | Inr s \<Rightarrow>
          (case bindE (read_body q) (\<lambda>raw. parse_form (float_text w) l q raw) of
             Inl e \<Rightarrow> (oauth_failure e, r)
           | Inr form \<Rightarrow>
               (case revoke w form s of
                  (Inl e, s') \<Rightarrow> (oauth_failure e, with_oauth r s')
                | (Inr _, s') \<Rightarrow>
                    (Some \<lparr>rp_status = 200, rp_headers = [], rp_body = NoBody\<rparr>, with_oauth r s'))))"

section \<open>The MCP endpoint\<close>

definition auth_challenge_payload :: "lib \<Rightarrow> string \<Rightarrow> string \<Rightarrow> string \<Rightarrow> jobj option" where
  "auth_challenge_payload l body challenge description =
     (case decode_strict l body of
        None \<Rightarrow> None
      | Some txt \<Rightarrow>
          (case loads l (if txt = [] then ''null'' else txt) of
             Some (JObj parsed) \<Rightarrow>
               if jget parsed ''jsonrpc'' \<noteq> JStr ''2.0'' then None
               else (let t = py_strip description;
                         txt' = (if t = [] then ''authentication required'' else t)
                     in Some [(''jsonrpc'', JStr ''2.0''), (''id'', jget parsed ''id''),
                          (''result'', JObj [
                             (''content'', JList [JObj [(''type'', JStr ''text''), (''text'', JStr txt')]]),
                             (''isError'', JBool True),
                             (''_meta'', JObj [(''mcp/www_authenticate'', JList [JStr challenge])])])])
           | _ \<Rightarrow> None))"

definition binding_denied :: "lib \<Rightarrow> relay \<Rightarrow> string \<Rightarrow> binding_error \<Rightarrow> reply option" where
  "binding_denied l r body e =
     (case e of
        BindingRaised _ \<Rightarrow> None
      | BindingError message status oauth_err oauth_desc \<Rightarrow>
          (let plain = (\<lambda>extra. send_json status
                 [(''error'', JStr ''unauthorized''), (''message'', JStr message)] extra)
           in case rl_oauth r of
                None \<Rightarrow> plain []
              | Some s \<Rightarrow>
                  if auth_mode (rl_config r) \<noteq> AUTH_MODE_OAUTH then plain []
                  else (let err = truthy_text oauth_err
                              (if status = 403 then ''insufficient_scope'' else ''invalid_token'');
                            description = truthy_text oauth_desc message
                        in case www_authenticate (Some err) (Some description) None s of
                             Inl _ \<Rightarrow> None
                           | Inr challenge \<Rightarrow>
                               (let extra = [(''WWW-Authenticate'', challenge)]
                                in case auth_challenge_payload l body challenge description of
                                     Some payload \<Rightarrow> send_json status payload extra
                                   | None \<Rightarrow> plain extra))))"

definition upstream_unavailable :: "reply option" where
  "upstream_unavailable =
     send_json 502 [(''jsonrpc'', JStr ''2.0''), (''id'', JNull),
       (''error'', JObj [(''code'', JInt (- 32000)), (''message'', JStr ''upstream MCP endpoint unavailable'')])] []"

definition handle_mcp ::
    "lib \<Rightarrow> (outbound \<Rightarrow> upstream_reply option) \<Rightarrow> time \<Rightarrow> string \<Rightarrow> http_request \<Rightarrow> relay \<Rightarrow> reply option" where
  "handle_mcp l upstream now meth q r =
     (case read_body q of
        Inl _ \<Rightarrow> send_json 400 [(''error'', JStr ''invalid_body'')] []
      | Inr body \<Rightarrow>
          (case resolve_binding now r (header_get q ''Authorization'') of
             Inl e \<Rightarrow> binding_denied l r body e
           | Inr b \<Rightarrow>
               (let request_headers = fold (\<lambda>(k, v). dset k v) (rq_headers q) []
                in case proxy_mcp_request upstream meth b body request_headers (request_timeout_s (rl_config r)) of
                     Inl None \<Rightarrow> upstream_unavailable
                   | Inl (Some _) \<Rightarrow> None
                   | Inr resp \<Rightarrow> Some \<lparr>rp_status = up_status resp, rp_headers = up_headers resp,
                        rp_body = BytesBody (up_body resp)\<rparr>)))"

section \<open>Routing\<close>

definition do_get ::
    "lib \<Rightarrow> (outbound \<Rightarrow> upstream_reply option) \<Rightarrow> world \<Rightarrow> http_request \<Rightarrow> relay \<Rightarrow> reply option \<times> relay" where
  "do_get l upstream w q r =
     (case urlparse (rq_target q) of
        None \<Rightarrow> (None, r)
      | Some parsed \<Rightarrow>
          if upath parsed = ''/health'' then (handle_health l r, r)
          else if upath parsed = ''/.well-known/oauth-protected-resource''
          then (handle_metadata protected_resource_metadata r, r)
          else if upath parsed = ''/.well-known/oauth-authorization-server''
          then (handle_metadata authorization_server_metadata r, r)
          else if upath parsed = ''/oauth/authorize'' then handle_authorize_get l w q (uquery parsed) r
          else if upath parsed = ''/mcp'' then (handle_mcp l upstream (clock w 0) ''GET'' q r, r)
          else (not_found, r))"

definition do_post ::
    "lib \<Rightarrow> (outbound \<Rightarrow> upstream_reply option) \<Rightarrow> world \<Rightarrow> http_request \<Rightarrow> relay \<Rightarrow> reply option \<times> relay" where
  "do_post l upstream w q r =
     (case urlparse (rq_target q) of
        None \<Rightarrow> (None, r)
      | Some parsed \<Rightarrow>
          if upath parsed = ''/oauth/register'' then handle_register l w q r
          else if upath parsed = ''/oauth/authorize'' then handle_authorize_post l w q r
          else if upath parsed = ''/oauth/token'' then handle_token l w q r
          else if upath parsed = ''/oauth/revoke'' then handle_revoke l w q r
          else if upath parsed = ''/mcp'' then (handle_mcp l upstream (clock w 0) ''POST'' q r, r)
          else (not_found, r))"

definition do_delete ::
    "lib \<Rightarrow> (outbound \<Rightarrow> upstream_reply option) \<Rightarrow> world \<Rightarrow> http_request \<Rightarrow> relay \<Rightarrow> reply option \<times> relay" where
  "do_delete l upstream w q r =
     (case urlparse (rq_target q) of
        None \<Rightarrow> (None, r)
      | Some parsed \<Rightarrow>
          if upath parsed = ''/mcp'' then (handle_mcp l upstream (clock w 0) ''DELETE'' q r, r)
          else (not_found, r))"

end
