(* ===== verification/RelayProps.thy ===== *)
theory RelayProps
  imports Relay OAuthOutput
begin

text \<open>
  What the relay guarantees to its owner: which configurations start at all, which addresses the
  proxy dials, which headers it sends, and that an MCP request reaches the upstream only with a
  valid identity.
\<close>

section \<open>Addresses\<close>

text \<open>
  The blocked IPv4 ranges, spelled out on the 32-bit value of an address: 0/8, 10/8 and 127/8; then
  169.254/16 and 192.168/16; 172.16/12; multicast and reserved.
\<close>

definition public_ipv4 :: "int \<Rightarrow> bool" where
  "public_ipv4 v \<longleftrightarrow>
     v div 2 ^ 24 \<notin> {0, 10, 127} \<and>
     v div 2 ^ 16 \<notin> {43518, 49320} \<and>
     v div 2 ^ 20 \<noteq> 2753 \<and>
     v div 2 ^ 28 \<notin> {14, 15}"

lemma allowed_ipv4_public:
  assumes "assert_connect_ip_allowed addr False = Inr t" "ip_address addr = Some (IPv4 v)"
  shows "public_ipv4 v"
proof -
  have "\<not> is_private (IPv4 v)" "\<not> is_loopback (IPv4 v)" "\<not> is_multicast (IPv4 v)" "\<not> is_reserved (IPv4 v)"
    using assms by (auto simp: assert_connect_ip_allowed_def split: if_splits)
  moreover have "is_private4 v" if "v div 2 ^ 24 \<in> {0, 10} \<or> v div 2 ^ 16 \<in> {43518, 49320} \<or> v div 2 ^ 20 = 2753"
    using that by (auto simp: is_private4_def private_nets4_def private_except4_def in_net_def net4_def Let_def)
  ultimately show ?thesis by (auto simp: public_ipv4_def in_net_def net4_def Let_def)
qed

text \<open>The text of an accepted address is what it was resolved to, in normal form.\<close>

lemma allowed_text:
  "assert_connect_ip_allowed addr lb = Inr t \<Longrightarrow> \<exists>ip. ip_address addr = Some ip \<and> t = ip_text ip"
  by (auto simp: assert_connect_ip_allowed_def split: option.splits if_splits)

lemma collect_allowed_set:
  "collect_allowed lb acc as = Inr ips \<Longrightarrow>
    set ips = set acc \<union> {t. \<exists>a \<in> set as. assert_connect_ip_allowed a lb = Inr t}"
  by (induction as arbitrary: acc) (force simp: err_simps split: if_splits)+

lemma resolve_allowed_ips_facts:
  assumes "resolve_allowed_ips resolve hn lb = Inr ips"
  shows "ips \<noteq> [] \<and> (\<exists>infos. resolve (py_lower (strip_brackets hn)) = Some infos \<and>
    (\<forall>t \<in> set ips. \<exists>a \<in> set infos. assert_connect_ip_allowed a lb = Inr t)) \<and>
    py_lower (strip_brackets hn) \<notin> blocked_hostnames"
  using assms collect_allowed_set
  by (auto simp: resolve_allowed_ips_def Let_def err_simps split: if_splits option.splits)

section \<open>Configuration\<close>

lemma rstrip_strip: "py_rstrip (py_strip s) = py_strip s"
  by (simp add: py_strip_def py_rstrip_def)

lemma validate_upstream_binding_facts:
  assumes "validate_upstream_binding resolve txt lb = Inr v"
  shows "vu_url v = py_strip txt \<and> vu_connect_ips v \<noteq> [] \<and>
    (\<forall>t \<in> set (vu_connect_ips v). \<exists>a. assert_connect_ip_allowed a lb = Inr t) \<and>
    (\<exists>parsed hn. urlparse (py_strip txt) = Some parsed \<and> hostname parsed = Some hn \<and>
       (scheme parsed = ''https'' \<or> scheme parsed = ''http'' \<and> is_loopback_host hn) \<and>
       (is_loopback_host hn \<longrightarrow> lb) \<and> fragment parsed = [] \<and>
       \<not> opt_truthy (username parsed) \<and> \<not> opt_truthy (password parsed) \<and>
       resolve_allowed_ips resolve hn lb = Inr (vu_connect_ips v))"
proof -
  obtain parsed where p: "urlparse (py_strip txt) = Some parsed"
    using assms by (auto simp: validate_upstream_binding_def Let_def split: if_splits option.splits)
  obtain hn where h: "hostname parsed = Some hn"
    using assms p by (auto simp: validate_upstream_binding_def Let_def split: if_splits option.splits)
  obtain ips where r: "resolve_allowed_ips resolve hn lb = Inr ips" and v: "vu_connect_ips v = ips" "vu_url v = py_strip txt"
    using assms p h by (auto simp: validate_upstream_binding_def Let_def err_simps rstrip_strip split: if_splits)
  have "scheme parsed \<in> {''http'', ''https''}" "\<not> opt_truthy (username parsed)" "\<not> opt_truthy (password parsed)"
    "fragment parsed = []" "scheme parsed = ''http'' \<longrightarrow> is_loopback_host hn" "is_loopback_host hn \<longrightarrow> lb"
    using assms p h by (simp_all add: validate_upstream_binding_def Let_def split: if_splits)
  then show ?thesis using resolve_allowed_ips_facts [OF r] r p h v by auto
qed

lemma public_origin_facts:
  assumes "public_origin env = Inr (base, host)"
  shows "base \<noteq> [] \<and> (\<exists>p. urlparse base = Some p \<and> netloc p \<noteq> [] \<and> upath p \<in> {[], ''/''} \<and>
    (scheme p = ''https'' \<or> scheme p = ''http'' \<and> is_loopback_host (case hostname p of None \<Rightarrow> [] | Some h \<Rightarrow> h)))"
proof -
  let ?raw = "rstrip_char CHR ''/'' (py_strip (env_or env ''DRLINK_RELAY_PUBLIC_BASE_URL'' []))"
  have ne: "?raw \<noteq> []" using assms by (auto simp: public_origin_def Let_def split: if_splits)
  then obtain p where p: "urlparse ?raw = Some p"
    using assms by (cases "urlparse ?raw") (auto simp: public_origin_def Let_def)
  then have "base = ?raw \<and> scheme p \<in> {''http'', ''https''} \<and> netloc p \<noteq> [] \<and> upath p \<in> {[], ''/''} \<and>
      (scheme p = ''http'' \<longrightarrow> is_loopback_host (case hostname p of None \<Rightarrow> [] | Some h \<Rightarrow> h))"
    using assms ne by (simp add: public_origin_def Let_def split: if_splits)
  then show ?thesis using ne p by auto
qed

lemma owner_secret_facts: "owner_secret_setting env = Inr x \<Longrightarrow> 16 \<le> length x"
  by (auto simp: owner_secret_setting_def split: option.splits if_splits)

text \<open>C12: A configuration that loads is safe to start. The port is in range; the upstream URL is HTTPS, or plain HTTP
  to a loopback host, which the configuration allows, and has no credentials and no fragment; the addresses to
  connect to are the resolved ones of its host, and each passed the SSRF check; a bind address other than
  loopback needs OAuth mode or the explicit legacy flag with a mock token that is not the default;
  in OAuth mode the public origin is HTTPS or loopback, and the owner secret has at least 16
  characters.\<close>

theorem load_config_safe:
  assumes "load_config resolve env = Inr c"
  shows "1 \<le> bind_port c \<and> bind_port c \<le> 65535 \<and> auth_mode c \<in> {''mock'', ''oauth''} \<and>
    mock_plugin_token c \<noteq> [] \<and> \<not> float_nonpos (request_timeout_s c) \<and>
    upstream_connect_ips c \<noteq> [] \<and>
    (\<forall>t \<in> set (upstream_connect_ips c). \<exists>a. assert_connect_ip_allowed a (allow_loopback_upstream c) = Inr t) \<and>
    (\<exists>up hn. urlparse (upstream_url c) = Some up \<and> hostname up = Some hn \<and>
       (scheme up = ''https'' \<or> scheme up = ''http'' \<and> is_loopback_host hn) \<and>
       (is_loopback_host hn \<longrightarrow> allow_loopback_upstream c) \<and> fragment up = [] \<and>
       \<not> opt_truthy (username up) \<and> \<not> opt_truthy (password up) \<and>
       resolve_allowed_ips resolve hn (allow_loopback_upstream c) = Inr (upstream_connect_ips c)) \<and>
    (\<not> is_loopback_host (bind_host c) \<longrightarrow> auth_mode c = ''oauth'' \<or>
       allow_non_loopback_bind c \<and> mock_plugin_token c \<noteq> ''dev-plugin-token'') \<and>
    (auth_mode c = ''oauth'' \<longrightarrow>
       (\<exists>base p secret. public_base_url c = Some base \<and> urlparse base = Some p \<and> netloc p \<noteq> [] \<and>
          (scheme p = ''https'' \<or> scheme p = ''http'' \<and> is_loopback_host (case hostname p of None \<Rightarrow> [] | Some h \<Rightarrow> h)) \<and>
          resource_url c \<noteq> None \<and> owner_approval_secret c = Some secret \<and> 16 \<le> length secret))"
proof -
  let ?lb = "env_flag env ''DRLINK_RELAY_ALLOW_LOOPBACK_UPSTREAM''"
  obtain up where up: "validate_upstream_binding resolve (env_get env ''DRLINK_RELAY_UPSTREAM_URL'' []) ?lb = Inr up"
    using assms by (auto simp: load_config_def Let_def err_simps)
  obtain prt where prt: "py_int (py_strip (env_or env ''DRLINK_RELAY_PORT'' ''8741'')) = Some prt" "1 \<le> prt" "prt \<le> 65535"
    using assms up by (auto simp: load_config_def Let_def split: option.splits if_splits)
  obtain tmo where tmo: "py_float (py_strip (env_or env ''DRLINK_RELAY_TIMEOUT_S'' ''30'')) = Some tmo" "\<not> float_nonpos tmo"
    using assms up prt by (auto simp: load_config_def Let_def split: option.splits if_splits)
  let ?bind = "py_strip (env_or env ''DRLINK_RELAY_BIND'' ''127.0.0.1'')"
  let ?mode = "py_lower (py_strip (env_or env ''DRLINK_RELAY_AUTH_MODE'' AUTH_MODE_MOCK))"
  let ?mock = "case map_of env ''DRLINK_RELAY_MOCK_PLUGIN_TOKEN'' of None \<Rightarrow> DEFAULT_MOCK_PLUGIN_TOKEN | Some t \<Rightarrow> py_strip t"
  let ?nl = "env_flag env ''DRLINK_RELAY_ALLOW_NON_LOOPBACK_BIND''"
  obtain oas where oas: "(if ?mode = AUTH_MODE_OAUTH then load_oauth_settings env ?bind else Inr no_oauth) = Inr oas"
    and chk: "bind_check ?bind ?mode ?nl ?mock = Inr ()"
    and c: "bind_host c = ?bind" "bind_port c = prt" "upstream_connect_ips c = vu_connect_ips up" "upstream_url c = vu_url up"
      "allow_loopback_upstream c = ?lb" "mock_plugin_token c = ?mock" "request_timeout_s c = tmo"
      "auth_mode c = ?mode" "public_base_url c = os_public_base_url oas" "resource_url c = os_resource_url oas"
      "owner_approval_secret c = os_owner_secret oas" "allow_non_loopback_bind c = ?nl"
    and mode: "?mode \<in> {AUTH_MODE_MOCK, AUTH_MODE_OAUTH}" "?mock \<noteq> []"
    using assms up prt tmo by (auto simp: load_config_def Let_def err_simps split: if_splits)
  have bind: "\<not> is_loopback_host ?bind \<Longrightarrow> ?mode = ''oauth'' \<or> ?nl \<and> ?mock \<noteq> ''dev-plugin-token''"
    using chk by (simp add: bind_check_def AUTH_MODE_OAUTH_def DEFAULT_MOCK_PLUGIN_TOKEN_def split: if_splits)
  have oauth: "\<exists>base p secret. os_public_base_url oas = Some base \<and> urlparse base = Some p \<and> netloc p \<noteq> [] \<and>
          (scheme p = ''https'' \<or> scheme p = ''http'' \<and> is_loopback_host (case hostname p of None \<Rightarrow> [] | Some h \<Rightarrow> h)) \<and>
          os_resource_url oas \<noteq> None \<and> os_owner_secret oas = Some secret \<and> 16 \<le> length secret"
    if m: "?mode = ''oauth''"
  proof -
    have "load_oauth_settings env ?bind = Inr oas" using oas m by (simp add: AUTH_MODE_OAUTH_def)
    then obtain base host res secret path where "public_origin env = Inr (base, host)"
      "owner_secret_setting env = Inr secret" "os_public_base_url oas = Some base"
      "os_resource_url oas = Some res" "os_owner_secret oas = Some secret"
      by (auto simp: load_oauth_settings_def err_simps)
    then show ?thesis using public_origin_facts owner_secret_facts by blast
  qed
  show ?thesis
  proof -
    have upstream: "vu_connect_ips up \<noteq> []" "\<forall>t \<in> set (vu_connect_ips up). \<exists>a. assert_connect_ip_allowed a ?lb = Inr t"
      "\<exists>u hn. urlparse (vu_url up) = Some u \<and> hostname u = Some hn \<and>
         (scheme u = ''https'' \<or> scheme u = ''http'' \<and> is_loopback_host hn) \<and> (is_loopback_host hn \<longrightarrow> ?lb) \<and>
         fragment u = [] \<and> \<not> opt_truthy (username u) \<and> \<not> opt_truthy (password u) \<and>
         resolve_allowed_ips resolve hn ?lb = Inr (vu_connect_ips up)"
      using validate_upstream_binding_facts [OF up] by auto
    show ?thesis
      unfolding c by (intro conjI upstream impI prt tmo bind oauth) (use mode in \<open>auto simp: AUTH_MODE_MOCK_def AUTH_MODE_OAUTH_def\<close>)
  qed
qed

definition demo_env :: environ where
  "demo_env = [(''DRLINK_RELAY_UPSTREAM_URL'', ''https://up.example/mcp''), (''DRLINK_RELAY_BIND'', ''0.0.0.0''),
     (''DRLINK_RELAY_AUTH_MODE'', ''oauth''), (''DRLINK_RELAY_PUBLIC_BASE_URL'', ''https://r.example''),
     (''DRLINK_RELAY_OWNER_APPROVAL_SECRET'', ''0123456789abcdef''),
     (''DRLINK_RELAY_OAUTH_STATE_PATH'', ''/s/x'')]"

lemma load_config_safe_witness:
  "\<exists>c. load_config (\<lambda>_. Some [''93.184.216.34'']) demo_env = Inr c \<and> bind_host c = ''0.0.0.0'' \<and> auth_mode c = ''oauth''"
proof -
  have ok: "(case load_config (\<lambda>_. Some [''93.184.216.34'']) demo_env of
      Inr c \<Rightarrow> bind_host c = ''0.0.0.0'' \<and> \<not> allow_non_loopback_bind c | Inl _ \<Rightarrow> False)"
    by code_simp
  then obtain c where c: "load_config (\<lambda>_. Some [''93.184.216.34'']) demo_env = Inr c" "bind_host c = ''0.0.0.0''"
    "\<not> allow_non_loopback_bind c"
    by (auto split: sum.splits)
  have b: "\<not> is_loopback_host ''0.0.0.0''" by code_simp
  with load_config_safe [OF c(1)] c show ?thesis by auto
qed

section \<open>The proxied request\<close>

definition only_own_headers :: "upstream_binding \<Rightarrow> header_list \<Rightarrow> header_list \<Rightarrow> bool" where
  "only_own_headers b client sent \<longleftrightarrow> (\<forall>(n, v) \<in> set sent.
     (n, v) \<in> set client \<and> py_lower n \<in> forward_request_headers \<or>
     n = ''Authorization'' \<and> ub_authorization b = Some v \<or>
     n = ''Content-Type'' \<and> v = ''application/json'')"

lemma fold_dset_mem:
  "(n, v) \<in> set (fold (\<lambda>(k, v). dset k v) xs acc) \<Longrightarrow> wf_dict acc \<Longrightarrow> (n, v) \<in> set xs \<union> set acc"
proof (induction xs arbitrary: acc)
  case (Cons x xs)
  obtain k u where x: "x = (k, u)" by (cases x)
  have "(n, v) \<in> set xs \<union> set (dset k u acc)"
    using Cons.IH [of "dset k u acc"] Cons.prems by (auto simp: x)
  then show ?case using Cons.prems(2) by (auto simp: x set_dset)
qed simp

lemma wf_fold_dset: "wf_dict acc \<Longrightarrow> wf_dict (fold (\<lambda>(k, v). dset k v) xs acc)"
  by (induction xs arbitrary: acc) auto

lemma outbound_headers_own: "only_own_headers b client (outbound_headers b body client)"
proof -
  let ?h0 = "fold (\<lambda>(n, v). dset n v) (select_headers client forward_request_headers) []"
  have h0: "(n, v) \<in> set ?h0 \<Longrightarrow> (n, v) \<in> set client \<and> py_lower n \<in> forward_request_headers" for n v
    using fold_dset_mem [of n v "select_headers client forward_request_headers" "[]"]
    by (auto simp: select_headers_def)
  have wf: "wf_dict ?h0" by (rule wf_fold_dset) simp
  define h1 where "h1 = (case ub_authorization b of Some a \<Rightarrow> if a = [] then ?h0 else dset ''Authorization'' a ?h0 | None \<Rightarrow> ?h0)"
  have wf1: "wf_dict h1" using wf by (auto simp: h1_def split: option.split)
  have h1: "(n, v) \<in> set h1 \<Longrightarrow> (n, v) \<in> set client \<and> py_lower n \<in> forward_request_headers \<or>
      n = ''Authorization'' \<and> ub_authorization b = Some v" for n v
    using h0 [of n v] set_dset [OF wf] by (auto simp: h1_def split: option.splits if_splits)
  have or: "outbound_headers b body client = h1 \<or>
      outbound_headers b body client = dset ''Content-Type'' ''application/json'' h1"
    by (simp add: outbound_headers_def h1_def Let_def)
  have "(n, v) \<in> set h1 \<or> n = ''Content-Type'' \<and> v = ''application/json''"
    if "(n, v) \<in> set (outbound_headers b body client)" for n v
    using or that set_dset [OF wf1, of "''Content-Type''" "''application/json''"] by auto
  then show ?thesis
    unfolding only_own_headers_def using h1 by blast
qed

lemma prepare_request_facts:
  assumes "prepare_request meth b body hs timeout = Inr ob"
  shows "ob_headers ob = outbound_headers b body hs \<and>
    (\<exists>addr rest. ub_connect_ips b = addr # rest \<and>
      assert_connect_ip_allowed addr (ub_allow_loopback b) = Inr (ob_ip ob)) \<and>
    (\<exists>parsed. urlparse (ub_url b) = Some parsed \<and> hostname parsed = Some (ob_host ob) \<and>
      (ob_tls ob \<longleftrightarrow> scheme parsed = ''https''))"
proof -
  obtain parsed where p: "urlparse (ub_url b) = Some parsed"
    using assms by (cases "urlparse (ub_url b)") (simp_all add: prepare_request_def)
  obtain h where h: "hostname parsed = Some h"
    using assms p by (cases "hostname parsed") (simp_all add: prepare_request_def)
  obtain ip where ip: "pinned_connect_ip b = Inr ip"
    using assms p h by (cases "pinned_connect_ip b") (simp_all add: prepare_request_def Let_def)
  obtain prt where "port parsed = Inr prt"
    using assms p h ip by (cases "port parsed") (simp_all add: prepare_request_def Let_def)
  then have "ob_headers ob = outbound_headers b body hs \<and> ob_ip ob = ip \<and> ob_host ob = h \<and>
      (ob_tls ob \<longleftrightarrow> scheme parsed = ''https'')"
    using assms p h ip by (auto simp: prepare_request_def Let_def)
  moreover have "\<exists>addr rest. ub_connect_ips b = addr # rest \<and>
      assert_connect_ip_allowed addr (ub_allow_loopback b) = Inr ip"
    using ip by (auto simp: pinned_connect_ip_def err_simps split: list.splits)
  ultimately show ?thesis using p h by auto
qed

text \<open>C13: The proxied request takes nothing from the client but the listed headers: whatever the client sends, every
  header on the wire is one of its forwarded ones, the binding's own Authorization or the default
  content type; a client's Authorization header never leaves the relay.\<close>

theorem client_credentials_never_forwarded:
  assumes "prepare_request meth b body hs timeout = Inr ob"
  shows "only_own_headers b hs (ob_headers ob) \<and>
    (\<forall>(n, v) \<in> set (ob_headers ob). py_lower n = ''authorization'' \<longrightarrow> ub_authorization b = Some v) \<and>
    (\<forall>(n, v) \<in> set (ob_headers ob). py_lower n \<notin> {''cookie'', ''proxy-authorization'', ''x-api-key''})"
proof -
  have own: "only_own_headers b hs (ob_headers ob)"
    using prepare_request_facts [OF assms] outbound_headers_own by simp
  have low: "py_lower ''Content-Type'' = ''content-type''" "py_lower ''Authorization'' = ''authorization''"
    by code_simp+
  show ?thesis
    using own by (fastforce simp: only_own_headers_def forward_request_headers_def low)
qed

definition demo_binding :: upstream_binding where
  "demo_binding = make_binding demo_cfg ''oauth-binding-1'' ''relay-owner''"

lemma client_credentials_never_forwarded_witness:
  "\<exists>ob. prepare_request ''POST'' demo_binding ''x'' [(''Authorization'', ''Bearer a1''), (''Accept'', ''*/*'')] (Finite 30) = Inr ob \<and>
     (\<forall>(n, v) \<in> set (ob_headers ob). py_lower n = ''authorization'' \<longrightarrow> v = ''Bearer upstream'')"
proof -
  have "(case prepare_request ''POST'' demo_binding ''x'' [(''Authorization'', ''Bearer a1''), (''Accept'', ''*/*'')] (Finite 30) of
      Inr ob \<Rightarrow> True | Inl _ \<Rightarrow> False)" by code_simp
  then obtain ob where ob: "prepare_request ''POST'' demo_binding ''x'' [(''Authorization'', ''Bearer a1''), (''Accept'', ''*/*'')] (Finite 30) = Inr ob"
    by (auto split: sum.splits)
  have "ub_authorization demo_binding = Some ''Bearer upstream''" by code_simp
  with client_credentials_never_forwarded [OF ob] ob show ?thesis by auto
qed

text \<open>C14: The proxy dials the pinned address only, and checks it again: it is the normal form of the binding's first
  address, which passes the SSRF check; unless loopback upstreams are allowed, an IPv4 address outside
  every blocked range. Name resolution has no say.\<close>

theorem proxy_dials_pinned_public_address:
  assumes "prepare_request meth b body hs timeout = Inr ob"
  shows "\<exists>addr rest ip. ub_connect_ips b = addr # rest \<and> ip_address addr = Some ip \<and> ob_ip ob = ip_text ip \<and>
    (\<not> ub_allow_loopback b \<longrightarrow> \<not> is_loopback ip \<and> (\<forall>v. ip = IPv4 v \<longrightarrow> public_ipv4 v)) \<and>
    (is_loopback ip \<or> \<not> is_private ip \<and> \<not> is_link_local ip \<and> \<not> is_multicast ip \<and> \<not> is_reserved ip \<and> \<not> is_unspecified ip)"
proof -
  obtain addr rest where a: "ub_connect_ips b = addr # rest"
    "assert_connect_ip_allowed addr (ub_allow_loopback b) = Inr (ob_ip ob)"
    using prepare_request_facts [OF assms] by blast
  obtain ip where ip: "ip_address addr = Some ip" "ob_ip ob = ip_text ip"
    using allowed_text [OF a(2)] by blast
  have cls: "(\<not> ub_allow_loopback b \<longrightarrow> \<not> is_loopback ip) \<and>
    (is_loopback ip \<or> \<not> is_private ip \<and> \<not> is_link_local ip \<and> \<not> is_multicast ip \<and> \<not> is_reserved ip \<and> \<not> is_unspecified ip)"
    using a(2) ip(1) by (simp add: assert_connect_ip_allowed_def split: if_splits)
  have "public_ipv4 v" if "\<not> ub_allow_loopback b" "ip = IPv4 v" for v
    using allowed_ipv4_public [of addr "ob_ip ob" v] a(2) ip(1) that by simp
  with a(1) ip cls show ?thesis by blast
qed

lemma proxy_dials_pinned_public_address_witness:
  "\<exists>ob addr ip. prepare_request ''GET'' demo_binding [] [] (Finite 30) = Inr ob \<and>
     ip_address addr = Some ip \<and> ob_ip ob = ip_text ip \<and> \<not> is_loopback ip"
proof -
  have "(case prepare_request ''GET'' demo_binding [] [] (Finite 30) of Inr ob \<Rightarrow> True | Inl _ \<Rightarrow> False)" by code_simp
  then obtain ob where ob: "prepare_request ''GET'' demo_binding [] [] (Finite 30) = Inr ob"
    by (auto split: sum.splits)
  have "\<not> ub_allow_loopback demo_binding" by code_simp
  with proxy_dials_pinned_public_address [OF ob] ob show ?thesis by blast
qed

section \<open>The MCP endpoint\<close>

text \<open>In OAuth mode an MCP request reaches the upstream only with a valid access token: if the header does not
  validate, the reply does not depend on the upstream at all, carries the error's status (401 or 403)
  and the challenge header; the mock token is never accepted.\<close>

theorem mcp_requires_valid_token:
  assumes "auth_mode (rl_config r) = ''oauth''" "rl_oauth r = Some s" "public_base_url (cfg s) \<noteq> None"
    and "read_body q = Inr body"
    and "validate_bearer now (header_get q ''Authorization'') None s = Inl (OAuthError err desc status)" "err \<noteq> []"
  shows "\<exists>payload challenge. handle_mcp l upstream now meth q r =
      Some \<lparr>rp_status = status, rp_headers = [(''Content-Type'', ''application/json''), (''WWW-Authenticate'', challenge)],
            rp_body = JsonBody payload\<rparr> \<and>
    handle_mcp l upstream now meth q r = handle_mcp l upstream' now meth q r \<and> status \<in> {401, 403}"
proof -
  obtain base where base: "public_base_url (cfg s) = Some base" using assms(3) by auto
  have st: "status \<in> {401, 403}"
    using assms(5)
    by (cases "header_get q ''Authorization''")
      (auto simp: validate_bearer_def missing_bearer_def resource_def Let_def err_simps bindE_Inl_iff
        split: option.splits if_splits)
  have res: "resolve_binding now r (header_get q ''Authorization'') =
      Inl (BindingError (error_text err desc) status (Some err) (Some desc))"
    using assms(1,2,5) by (simp add: resolve_binding_def AUTH_MODE_OAUTH_def)
  obtain challenge where ch: "www_authenticate (Some err) (Some (truthy_text (Some desc) (error_text err desc))) None s = Inr challenge"
    using base by (simp add: www_authenticate_def issuer_def Let_def)
  have "handle_mcp l up now meth q r = binding_denied l r body
      (BindingError (error_text err desc) status (Some err) (Some desc))" for up
    using assms(4) res by (simp add: handle_mcp_def)
  moreover have "truthy_text (Some err) d = err" for d using assms(6) by (simp add: truthy_text_def)
  ultimately show ?thesis
    using assms(1,2) ch st
    by (cases "auth_challenge_payload l body challenge (truthy_text (Some desc) (error_text err desc))")
      (simp_all add: binding_denied_def send_json_def AUTH_MODE_OAUTH_def Let_def)
qed

definition demo_relay :: relay where
  "demo_relay = \<lparr>rl_config = demo_cfg, rl_oauth = Some demo, rl_revoked = {}\<rparr>"

definition demo_request :: http_request where
  "demo_request = \<lparr>rq_method = ''POST'', rq_target = ''/mcp'', rq_headers = [(''Authorization'', ''Bearer mock'')],
     rq_body = [], rq_client = ''1.2.3.4''\<rparr>"

definition demo_lib :: lib where
  "demo_lib = \<lparr>loads = (\<lambda>_. None), decode_strict = Some, decode_replace = (\<lambda>s. s), em_dash = ''-'', version = ''0''\<rparr>"

lemma mcp_requires_valid_token_witness:
  "handle_mcp demo_lib (\<lambda>_. None) 120 ''POST'' demo_request demo_relay =
   handle_mcp demo_lib (\<lambda>_. Some \<lparr>up_status = 200, up_reason = [], up_headers = [], up_body = []\<rparr>) 120 ''POST'' demo_request demo_relay"
proof -
  have v: "validate_bearer 120 (header_get demo_request ''Authorization'') None demo =
      Inl (OAuthError ''invalid_token'' ''token revoked or unknown'' 401)" by code_simp
  have b: "read_body demo_request = Inr []" by code_simp
  have o: "auth_mode (rl_config demo_relay) = ''oauth''" "rl_oauth demo_relay = Some demo" "public_base_url (cfg demo) \<noteq> None"
    by (simp_all add: demo_relay_def demo_defs)
  show ?thesis using mcp_requires_valid_token [OF o b v] by blast
qed

end
