(* ===== verification/Facts.thy ===== *)
theory Facts
  imports PyJson
begin

text \<open>
  Checking of JSON facts, as \<^verbatim>\<open>tools/coordinator.py\<close> does it: the \<^verbatim>\<open>_require_*\<close> readers, enumerations,
  unknown keys, forbidden execution keys, Git object names. \<open>FactsError reason deny_class\<close> is
  \<^verbatim>\<open>PlannerFactsError\<close>. A reader of an absent key gets \<open>JNull\<close>, as \<^verbatim>\<open>d.get(k)\<close> does.
\<close>

datatype facts_error = FactsError string string

definition facts_error :: "string \<Rightarrow> facts_error" where
  "facts_error reason = FactsError reason ''AMBIGUOUS_FACTS''"

definition require_mapping :: "json \<Rightarrow> string \<Rightarrow> facts_error + jobj" where
  "require_mapping v label =
     (case v of JObj d \<Rightarrow> Inr d | _ \<Rightarrow> Inl (facts_error (label @ '' must be a JSON object'')))"

definition require_str :: "json \<Rightarrow> string \<Rightarrow> facts_error + string" where
  "require_str v label =
     (let bad = Inl (facts_error (label @ '' must be a non-empty string''))
      in case v of
           JStr s \<Rightarrow> if py_strip s = [] then bad else Inr (py_strip s)
         | _ \<Rightarrow> bad)"

definition require_int :: "json \<Rightarrow> string \<Rightarrow> int option \<Rightarrow> facts_error + int" where
  "require_int v label minimum =
     (case v of
        JInt n \<Rightarrow>
          (case minimum of
             Some m \<Rightarrow> if n < m then Inl (facts_error (label @ '' must be >= '' @ int_text m)) else Inr n
           | None \<Rightarrow> Inr n)
      | _ \<Rightarrow> Inl (facts_error (label @ '' must be an integer'')))"

definition require_bool :: "json \<Rightarrow> string \<Rightarrow> facts_error + bool" where
  "require_bool v label =
     (case v of JBool b \<Rightarrow> Inr b | _ \<Rightarrow> Inl (facts_error (label @ '' must be a boolean'')))"

definition require_list :: "json \<Rightarrow> string \<Rightarrow> facts_error + json list" where
  "require_list v label =
     (case v of JList xs \<Rightarrow> Inr xs | _ \<Rightarrow> Inl (facts_error (label @ '' must be a JSON array'')))"

definition optional_mapping :: "jobj \<Rightarrow> string \<Rightarrow> facts_error + jobj option" where
  "optional_mapping payload key =
     (case map_of payload key of
        None \<Rightarrow> Inr None
      | Some v \<Rightarrow> bindE (require_mapping v key) (\<lambda>d. Inr (Some d)))"

definition reject_unknown :: "jobj \<Rightarrow> string list \<Rightarrow> string \<Rightarrow> facts_error + unit" where
  "reject_unknown payload allowed label =
     (case sort (filter (\<lambda>k. k \<notin> set allowed) (map fst payload)) of
        [] \<Rightarrow> Inr ()
      | k # _ \<Rightarrow> Inl (facts_error (label @ '' contains unknown key '' @ py_repr k)))"

definition enum :: "json \<Rightarrow> string \<Rightarrow> string list \<Rightarrow> facts_error + string" where
  "enum v label allowed =
     bindE (require_str v label) (\<lambda>s.
       if py_upper s \<notin> set allowed then Inl (facts_error (label @ '' is unknown: '' @ py_upper s))
       else Inr (py_upper s))"

definition full_sha :: "string \<Rightarrow> bool" where
  "full_sha s = (length s = 40 \<and> list_all is_hex_lower s)"

definition UNKNOWN :: string where "UNKNOWN = ''UNKNOWN''"

definition sha_or_unknown :: "json \<Rightarrow> string \<Rightarrow> facts_error + string" where
  "sha_or_unknown v label =
     bindE (require_str v label) (\<lambda>s.
       if s = UNKNOWN then Inr UNKNOWN
       else if \<not> full_sha (py_lower s)
       then Inl (facts_error (label @ '' must be UNKNOWN or a 40-char lowercase hex Git SHA''))
       else Inr (py_lower s))"

section \<open>Optional fields\<close>

text \<open>\<^verbatim>\<open>f(raw.get(k)) if k in raw else d\<close>.\<close>

definition if_present :: "jobj \<Rightarrow> string \<Rightarrow> (json \<Rightarrow> facts_error + 'a) \<Rightarrow> 'a \<Rightarrow> facts_error + 'a" where
  "if_present raw k f d = (case map_of raw k of None \<Rightarrow> Inr d | Some v \<Rightarrow> f v)"

text \<open>\<^verbatim>\<open>if k in raw and raw.get(k) is not None: x = f(raw.get(k))\<close>, with \<^verbatim>\<open>None\<close> before.\<close>

definition if_not_null :: "jobj \<Rightarrow> string \<Rightarrow> (json \<Rightarrow> facts_error + 'a) \<Rightarrow> facts_error + 'a option" where
  "if_not_null raw k f =
     (if jget raw k = JNull then Inr None else bindE (f (jget raw k)) (\<lambda>x. Inr (Some x)))"

section \<open>Execution keys\<close>

definition forbidden_request_keys :: "string list" where
  "forbidden_request_keys = [''command'', ''commands'', ''shell'', ''argv'', ''execute'', ''exec'',
     ''script'', ''run'', ''subprocess'', ''bash'', ''powershell'']"

definition is_execution_key :: "string \<Rightarrow> bool" where
  "is_execution_key k = (py_lower (py_strip k) \<in> set forbidden_request_keys)"

function (sequential)
  reject_execution_keys :: "string \<Rightarrow> jobj \<Rightarrow> facts_error + unit" and
  reject_in_items :: "string \<Rightarrow> nat \<Rightarrow> json list \<Rightarrow> facts_error + unit"
where
  "reject_execution_keys path [] = Inr ()"
| "reject_execution_keys path ((key, child) # rest) =
     (if is_execution_key key
      then Inl (FactsError (path @ '' contains forbidden execution key '' @ py_repr key) ''EXECUTION_FORBIDDEN'')
      else bindE (case child of
                    JObj d \<Rightarrow> reject_execution_keys (path @ ''.'' @ key) d
                  | JList xs \<Rightarrow> reject_in_items (path @ ''.'' @ key) 0 xs
                  | _ \<Rightarrow> Inr ())
             (\<lambda>_. reject_execution_keys path rest))"
| "reject_in_items path i [] = Inr ()"
| "reject_in_items path i (JObj d # xs) =
     bindE (reject_execution_keys (path @ ''['' @ nat_text i @ '']'') d) (\<lambda>_. reject_in_items path (Suc i) xs)"
| "reject_in_items path i (x # xs) = reject_in_items path (Suc i) xs"
  by pat_completeness auto
termination
  by (relation "measure (\<lambda>p. case p of
       Inl (path, d) \<Rightarrow> size_list (size_prod (\<lambda>_. 0) size) d
     | Inr (path, i, xs) \<Rightarrow> size_list size xs)") auto

text \<open>The keys at the places the check visits: nested objects, and objects directly in a list.\<close>

function (sequential) visited_keys :: "jobj \<Rightarrow> string list" and visited_in_items :: "json list \<Rightarrow> string list" where
  "visited_keys [] = []"
| "visited_keys ((key, child) # rest) =
     key # (case child of JObj d \<Rightarrow> visited_keys d | JList xs \<Rightarrow> visited_in_items xs | _ \<Rightarrow> []) @ visited_keys rest"
| "visited_in_items [] = []"
| "visited_in_items (JObj d # xs) = visited_keys d @ visited_in_items xs"
| "visited_in_items (x # xs) = visited_in_items xs"
  by pat_completeness auto
termination
  by (relation "measure (\<lambda>p. case p of
       Inl d \<Rightarrow> size_list (size_prod (\<lambda>_. 0) size) d
     | Inr xs \<Rightarrow> size_list size xs)") auto

lemma reject_execution_keys_iff:
  "reject_execution_keys path d = Inr () \<longleftrightarrow> (\<forall>k \<in> set (visited_keys d). \<not> is_execution_key k)"
  "reject_in_items path i xs = Inr () \<longleftrightarrow> (\<forall>k \<in> set (visited_in_items xs). \<not> is_execution_key k)"
proof (induction path d and path i xs rule: reject_execution_keys_reject_in_items.induct)
  case (2 path key child rest)
  show ?case
  proof (cases "is_execution_key key")
    case False
    then show ?thesis using 2 by (cases child) (simp_all add: bindE_Inr_iff ball_Un cong: conj_cong)
  qed simp
next
  case (4 path i d xs)
  then show ?case by (simp add: bindE_Inr_iff ball_Un cong: conj_cong)
qed simp_all

lemma enum_Inr: "enum v label allowed = Inr s \<Longrightarrow> s \<in> set allowed"
  by (auto simp: enum_def err_simps split: if_splits)

lemma reject_unknown_Inr: "reject_unknown payload allowed label = Inr () \<longleftrightarrow> set (map fst payload) \<subseteq> set allowed"
proof -
  have "sort ys = [] \<longleftrightarrow> ys = []" for ys :: "string list"
    by (simp flip: length_0_conv)
  note empty = this
  let ?bad = "filter (\<lambda>k. k \<notin> set allowed) (map fst payload)"
  have "reject_unknown payload allowed label = Inr () \<longleftrightarrow> sort ?bad = []"
    by (simp add: reject_unknown_def split: list.split)
  also have "\<dots> \<longleftrightarrow> ?bad = []" by (rule empty)
  also have "\<dots> \<longleftrightarrow> set (map fst payload) \<subseteq> set allowed" by (auto simp: filter_empty_conv)
  finally show ?thesis .
qed

lemma sha_or_unknown_Inr: "sha_or_unknown v label = Inr s \<Longrightarrow> s = UNKNOWN \<or> full_sha s"
  by (auto simp: sha_or_unknown_def err_simps split: if_splits)

end
