(* ===== verification/Coordinator.thy ===== *)
theory Coordinator
  imports Facts
begin

text \<open>
  \<^verbatim>\<open>tools/coordinator.py\<close>: the planner that turns the facts about one work packet into one next action.
  \<open>normalize_facts\<close> is the parser, one definition per section of the facts; the records hold what the
  code's dicts hold afterwards, with \<open>None\<close> for an unknown boolean or an absent value. \<open>plan\<close> is the
  decision procedure with its three sub-procedures \<open>audit_or_authorize\<close>, \<open>pr_pipeline\<close> and
  \<open>implementation_path\<close>; \<open>emit\<close> builds the decision object. A \<^verbatim>\<open>FactsError\<close> is the raised
  \<^verbatim>\<open>PlannerFactsError\<close>.
\<close>

section \<open>Vocabulary\<close>

definition PACKET_STATUSES :: "string list" where
  "PACKET_STATUSES = [''ACTIVE'', ''PAUSED'', ''BLOCKED'', ''COMPLETE'']"

definition PRIORITIES :: "string list" where
  "PRIORITIES = [''URGENT'', ''HIGH'', ''NORMAL'', ''LOW'']"

definition CHANGE_RISKS :: "string list" where
  "CHANGE_RISKS = [''LOW'', ''MEDIUM'', ''HIGH'', ''CRITICAL'']"

definition HIGH_RISKS :: "string list" where
  "HIGH_RISKS = [''HIGH'', ''CRITICAL'']"

definition FAILURE_CLASSES :: "string list" where
  "FAILURE_CLASSES = [''NONE'', ''TRANSIENT'', ''SEMANTIC'', ''RESOURCE'', ''AUTHORITY'',
     ''AMBIGUOUS_MUTATION'', ''HUMAN_REQUIRED'']"

definition WORKER_STATUSES :: "string list" where
  "WORKER_STATUSES = [''CLAIMED'', ''ACTIVE'', ''WAIT'', ''YIELD'', ''RETRY'', ''COMPLETE'', ''ABANDON'',
     ''SUPERSEDED'', ''RELEASED'']"

definition ACTIVE_WORKER_STATUSES :: "string list" where
  "ACTIVE_WORKER_STATUSES = [''CLAIMED'', ''ACTIVE'', ''WAIT'', ''YIELD'', ''RETRY'']"

definition RESOURCE_RESULTS :: "string list" where
  "RESOURCE_RESULTS = [''PASS'', ''WARN'', ''BLOCK'', ''UNKNOWN'']"

definition ADMISSION_DECISIONS :: "string list" where
  "ADMISSION_DECISIONS = [''ALLOW'', ''DENY'', ''UNKNOWN'']"

definition AUDIT_RESULTS :: "string list" where
  "AUDIT_RESULTS = [''UNKNOWN'', ''PASS'', ''FAIL'']"

definition PR_STATES :: "string list" where
  "PR_STATES = [''OPEN'', ''MERGED'', ''CLOSED'']"

definition CI_STATES :: "string list" where
  "CI_STATES = [''UNKNOWN'', ''PENDING'', ''PASS'', ''FAIL'']"

definition REVIEW_STATES :: "string list" where
  "REVIEW_STATES = [''UNKNOWN'', ''OPEN'', ''CLEAR'']"

definition ROLLOUT_GATES :: "string list" where
  "ROLLOUT_GATES = [''NOT_REQUIRED'', ''PENDING'', ''AUTHORIZED'']"

definition DECISIONS :: "string list" where
  "DECISIONS = [''NOOP_COMPLETE'', ''NOOP_PAUSED'', ''BLOCK_HUMAN'', ''WAIT_EXTERNAL'',
     ''RECONCILE_AMBIGUOUS'', ''ADMIT_IMPLEMENTATION'', ''RESUME_WORKER'', ''AUDIT_DIRTY_TREE'',
     ''AUTHORIZE_PUBLICATION'', ''WAIT_EXACT_HEAD_CI'', ''AUDIT_REVIEW'', ''MERGE_READY'',
     ''REPLAN_SEMANTIC_FAILURE'', ''YIELD_RESOURCE'', ''STALE_WORKER'']"

definition WAIT_DECISIONS :: "string list" where
  "WAIT_DECISIONS = [''WAIT_EXTERNAL'', ''WAIT_EXACT_HEAD_CI'']"

definition QUIET_MICROSTEPS :: "string list" where
  "QUIET_MICROSTEPS = [''RESUME_WORKER'']"

definition TOP_LEVEL_KEYS :: "string list" where
  "TOP_LEVEL_KEYS = [''packet'', ''worker'', ''git'', ''resource'', ''admission'', ''mutation'', ''failure'',
     ''publication'', ''pr'', ''ci'', ''review'', ''wait'', ''gates'', ''previous_decision'']"

section \<open>Normalised facts\<close>

record packet_facts =
  pk_repository :: string
  pk_workstream :: string
  pk_status :: string
  pk_priority :: string
  pk_intent_revision :: int
  pk_change_risk :: string
  pk_task_kind :: "string option"
  pk_dependencies :: "(string \<times> string) list option"

record worker_facts =
  wk_present :: bool
  wk_status :: "string option"
  wk_starting_intent_revision :: "int option"
  wk_progress_evidence :: bool

record git_facts =
  gt_head :: string
  gt_dirty :: "bool option"
  gt_unpushed :: "bool option"
  gt_yielded_for_audit :: bool

record pr_facts =
  pr_exists :: bool
  pr_state :: "string option"
  pr_head :: string
  pr_mergeable :: string

record review_facts =
  rv_actionable_open :: "bool option"
  rv_state :: string
  rv_subject_head :: string

record wait_facts =
  wt_external :: bool
  wt_condition :: "string option"
  wt_retry_count :: int
  wt_retry_budget :: int

record facts =
  packet :: packet_facts
  worker :: worker_facts
  git :: git_facts
  resource_result :: string
  admission_decision :: string
  admission_deny_class :: "string option"
  mutation_ambiguous :: bool
  mutation_kind :: "string option"
  failure_class :: string
  identical_semantic_count :: int
  coordinator_audit :: string
  authorized_intent_revision :: "int option"
  pr :: pr_facts
  ci_state :: string
  ci_subject_head :: string
  review :: review_facts
  wait :: wait_facts
  org_rollout :: string
  previous_decision :: "(string \<times> string) option"

section \<open>Parsing\<close>

definition slug_char :: "char \<Rightarrow> bool" where
  "slug_char c = (is_alnum_ascii c \<or> c \<in> set ''_.-'')"

definition repository_ok :: "string \<Rightarrow> bool" where
  "repository_ok s =
     (case partition_at CHR ''/'' s of
        (owner, slash, name) \<Rightarrow> slash \<and> owner \<noteq> [] \<and> name \<noteq> [] \<and> list_all slug_char owner \<and> list_all slug_char name)"

definition workstream_ok :: "string \<Rightarrow> bool" where
  "workstream_ok s = (s \<noteq> [] \<and> is_alnum_ascii (hd s) \<and> list_all slug_char (tl s))"

fun parse_dependencies :: "nat \<Rightarrow> json list \<Rightarrow> facts_error + (string \<times> string) list" where
  "parse_dependencies i [] = Inr []"
| "parse_dependencies i (item # rest) =
     (let label = ''packet.dependencies['' @ nat_text i @ '']''
      in bindE (require_mapping item label) (\<lambda>dep.
         bindE (reject_unknown dep [''workstream'', ''status''] label) (\<lambda>_.
         bindE (enum (jget dep ''status'') (label @ ''.status'') PACKET_STATUSES) (\<lambda>st.
         bindE (require_str (jget dep ''workstream'') (label @ ''.workstream'')) (\<lambda>ws.
         bindE (parse_dependencies (Suc i) rest) (\<lambda>ds.
           Inr ((ws, st) # ds)))))))"

definition parse_packet :: "json \<Rightarrow> facts_error + packet_facts" where
  "parse_packet raw =
     bindE (require_mapping raw ''packet'') (\<lambda>data.
     bindE (reject_unknown data [''repository'', ''workstream'', ''status'', ''priority'', ''intent_revision'',
        ''change_risk'', ''task_kind'', ''dependencies''] ''packet'') (\<lambda>_.
     bindE (require_str (jget data ''repository'') ''packet.repository'') (\<lambda>repository.
     if \<not> repository_ok repository then Inl (facts_error ''packet.repository must be owner/name'')
     else bindE (require_str (jget data ''workstream'') ''packet.workstream'') (\<lambda>workstream.
     if \<not> workstream_ok workstream
     then Inl (facts_error ''packet.workstream must be a stable slug without separators'')
     else bindE (enum (jget data ''status'') ''packet.status'' PACKET_STATUSES) (\<lambda>status.
     bindE (enum (jget_or data ''priority'' (JStr ''NORMAL'')) ''packet.priority'' PRIORITIES) (\<lambda>priority.
     bindE (enum (jget_or data ''change_risk'' (JStr ''MEDIUM'')) ''packet.change_risk'' CHANGE_RISKS) (\<lambda>change_risk.
     bindE (require_int (jget data ''intent_revision'') ''packet.intent_revision'' (Some 1)) (\<lambda>intent_revision.
     bindE (if_present data ''task_kind'' (\<lambda>v. bindE (require_str v ''packet.task_kind'') (\<lambda>x. Inr (Some x))) None) (\<lambda>task_kind.
     bindE (if_present data ''dependencies'' (\<lambda>v. bindE (require_list v ''packet.dependencies'') (\<lambda>items.
              bindE (parse_dependencies 0 items) (\<lambda>ds. Inr (Some ds)))) None) (\<lambda>dependencies.
       Inr \<lparr>pk_repository = repository, pk_workstream = workstream, pk_status = status,
            pk_priority = priority, pk_intent_revision = intent_revision, pk_change_risk = change_risk,
            pk_task_kind = task_kind, pk_dependencies = dependencies\<rparr>))))))))))"

definition no_worker :: worker_facts where
  "no_worker = \<lparr>wk_present = False, wk_status = None, wk_starting_intent_revision = None,
     wk_progress_evidence = False\<rparr>"

definition parse_worker :: "jobj option \<Rightarrow> facts_error + worker_facts" where
  "parse_worker raw_opt =
     (case raw_opt of
        None \<Rightarrow> Inr no_worker
      | Some raw \<Rightarrow>
          bindE (reject_unknown raw [''present'', ''status'', ''starting_intent_revision'', ''progress_evidence''] ''worker'') (\<lambda>_.
          bindE (require_bool (jget raw ''present'') ''worker.present'') (\<lambda>present.
          if \<not> present then
            (if set (map fst raw) - {''present''} \<noteq> {}
             then Inl (facts_error ''worker fields other than present require worker.present true'')
             else Inr no_worker)
          else bindE (enum (jget raw ''status'') ''worker.status'' WORKER_STATUSES) (\<lambda>status.
          bindE (require_int (jget raw ''starting_intent_revision'') ''worker.starting_intent_revision'' (Some 1)) (\<lambda>starting.
          bindE (if_present raw ''progress_evidence'' (\<lambda>v. require_bool v ''worker.progress_evidence'') False) (\<lambda>progress.
            Inr \<lparr>wk_present = True, wk_status = Some status, wk_starting_intent_revision = Some starting,
                 wk_progress_evidence = progress\<rparr>))))))"

definition some_bool :: "string \<Rightarrow> json \<Rightarrow> facts_error + bool option" where
  "some_bool label v = bindE (require_bool v label) (\<lambda>b. Inr (Some b))"

definition parse_git :: "jobj option \<Rightarrow> facts_error + git_facts" where
  "parse_git raw_opt =
     (case raw_opt of
        None \<Rightarrow> Inr \<lparr>gt_head = UNKNOWN, gt_dirty = None, gt_unpushed = None, gt_yielded_for_audit = False\<rparr>
      | Some raw \<Rightarrow>
          bindE (reject_unknown raw [''head'', ''dirty'', ''unpushed'', ''yielded_for_audit''] ''git'') (\<lambda>_.
          bindE (if_present raw ''head'' (\<lambda>v. sha_or_unknown v ''git.head'') UNKNOWN) (\<lambda>head.
          bindE (if_present raw ''dirty'' (some_bool ''git.dirty'') None) (\<lambda>dirty.
          bindE (if_present raw ''unpushed'' (some_bool ''git.unpushed'') None) (\<lambda>unpushed.
          bindE (if_present raw ''yielded_for_audit'' (\<lambda>v. require_bool v ''git.yielded_for_audit'') False) (\<lambda>yielded.
            Inr \<lparr>gt_head = head, gt_dirty = dirty, gt_unpushed = unpushed, gt_yielded_for_audit = yielded\<rparr>))))))"

definition parse_resource :: "jobj option \<Rightarrow> facts_error + string" where
  "parse_resource raw_opt =
     (case raw_opt of
        None \<Rightarrow> Inr UNKNOWN
      | Some raw \<Rightarrow>
          bindE (reject_unknown raw [''result''] ''resource'') (\<lambda>_.
            enum (jget_or raw ''result'' (JStr UNKNOWN)) ''resource.result'' RESOURCE_RESULTS))"

definition parse_admission :: "jobj option \<Rightarrow> facts_error + string \<times> string option" where
  "parse_admission raw_opt =
     (case raw_opt of
        None \<Rightarrow> Inr (UNKNOWN, None)
      | Some raw \<Rightarrow>
          bindE (reject_unknown raw [''decision'', ''deny_class''] ''admission'') (\<lambda>_.
          bindE (enum (jget_or raw ''decision'' (JStr UNKNOWN)) ''admission.decision'' ADMISSION_DECISIONS) (\<lambda>decision.
          bindE (if_not_null raw ''deny_class'' (\<lambda>v. require_str v ''admission.deny_class'')) (\<lambda>deny_class.
            Inr (decision, deny_class)))))"

definition parse_mutation :: "jobj option \<Rightarrow> facts_error + bool \<times> string option" where
  "parse_mutation raw_opt =
     (case raw_opt of
        None \<Rightarrow> Inr (False, None)
      | Some raw \<Rightarrow>
          bindE (reject_unknown raw [''ambiguous'', ''kind''] ''mutation'') (\<lambda>_.
          bindE (require_bool (jget_or raw ''ambiguous'' (JBool False)) ''mutation.ambiguous'') (\<lambda>ambiguous.
          bindE (if_not_null raw ''kind'' (\<lambda>v. require_str v ''mutation.kind'')) (\<lambda>kind.
            Inr (ambiguous, kind)))))"

definition parse_failure :: "jobj option \<Rightarrow> facts_error + string \<times> int" where
  "parse_failure raw_opt =
     (case raw_opt of
        None \<Rightarrow> Inr (''NONE'', 0)
      | Some raw \<Rightarrow>
          bindE (reject_unknown raw [''class'', ''identical_semantic_count''] ''failure'') (\<lambda>_.
          bindE (enum (jget_or raw ''class'' (JStr ''NONE'')) ''failure.class'' FAILURE_CLASSES) (\<lambda>cls.
          bindE (if_present raw ''identical_semantic_count''
                   (\<lambda>v. require_int v ''failure.identical_semantic_count'' (Some 0)) 0) (\<lambda>count.
            Inr (cls, count)))))"

definition parse_publication :: "jobj option \<Rightarrow> facts_error + string \<times> int option" where
  "parse_publication raw_opt =
     (case raw_opt of
        None \<Rightarrow> Inr (UNKNOWN, None)
      | Some raw \<Rightarrow>
          bindE (reject_unknown raw [''coordinator_audit'', ''authorized_intent_revision''] ''publication'') (\<lambda>_.
          bindE (enum (jget_or raw ''coordinator_audit'' (JStr UNKNOWN)) ''publication.coordinator_audit'' AUDIT_RESULTS) (\<lambda>audit.
          bindE (if_not_null raw ''authorized_intent_revision''
                   (\<lambda>v. require_int v ''publication.authorized_intent_revision'' (Some 1))) (\<lambda>authorized.
            Inr (audit, authorized)))))"

definition no_pr :: pr_facts where
  "no_pr = \<lparr>pr_exists = False, pr_state = None, pr_head = UNKNOWN, pr_mergeable = UNKNOWN\<rparr>"

definition parse_pr :: "jobj option \<Rightarrow> facts_error + pr_facts" where
  "parse_pr raw_opt =
     (case raw_opt of
        None \<Rightarrow> Inr no_pr
      | Some raw \<Rightarrow>
          bindE (reject_unknown raw [''exists'', ''state'', ''head'', ''mergeable''] ''pr'') (\<lambda>_.
          bindE (require_bool (jget raw ''exists'') ''pr.exists'') (\<lambda>ex.
          if \<not> ex then
            (if set (map fst raw) - {''exists''} \<noteq> {}
             then Inl (facts_error ''pr fields other than exists require pr.exists true'')
             else Inr no_pr)
          else bindE (enum (jget raw ''state'') ''pr.state'' PR_STATES) (\<lambda>state.
          bindE (if_present raw ''head'' (\<lambda>v. sha_or_unknown v ''pr.head'') UNKNOWN) (\<lambda>head.
          bindE (enum (jget_or raw ''mergeable'' (JStr UNKNOWN)) ''pr.mergeable'' [''YES'', ''NO'', ''UNKNOWN'']) (\<lambda>mergeable.
            Inr \<lparr>pr_exists = True, pr_state = Some state, pr_head = head, pr_mergeable = mergeable\<rparr>))))))"

definition parse_ci :: "jobj option \<Rightarrow> facts_error + string \<times> string" where
  "parse_ci raw_opt =
     (case raw_opt of
        None \<Rightarrow> Inr (UNKNOWN, UNKNOWN)
      | Some raw \<Rightarrow>
          bindE (reject_unknown raw [''state'', ''subject_head''] ''ci'') (\<lambda>_.
          bindE (enum (jget_or raw ''state'' (JStr UNKNOWN)) ''ci.state'' CI_STATES) (\<lambda>state.
          bindE (if_present raw ''subject_head'' (\<lambda>v. sha_or_unknown v ''ci.subject_head'') UNKNOWN) (\<lambda>subject.
            Inr (state, subject)))))"

definition parse_review :: "jobj option \<Rightarrow> facts_error + review_facts" where
  "parse_review raw_opt =
     (case raw_opt of
        None \<Rightarrow> Inr \<lparr>rv_actionable_open = None, rv_state = UNKNOWN, rv_subject_head = UNKNOWN\<rparr>
      | Some raw \<Rightarrow>
          bindE (reject_unknown raw [''actionable_open'', ''state'', ''subject_head''] ''review'') (\<lambda>_.
          bindE (if_present raw ''actionable_open'' (some_bool ''review.actionable_open'') None) (\<lambda>actionable.
          bindE (enum (jget_or raw ''state'' (JStr UNKNOWN)) ''review.state'' REVIEW_STATES) (\<lambda>state.
          bindE (if_present raw ''subject_head'' (\<lambda>v. sha_or_unknown v ''review.subject_head'') UNKNOWN) (\<lambda>subject.
            Inr \<lparr>rv_actionable_open = actionable, rv_state = state, rv_subject_head = subject\<rparr>)))))"

definition parse_wait :: "jobj option \<Rightarrow> facts_error + wait_facts" where
  "parse_wait raw_opt =
     (case raw_opt of
        None \<Rightarrow> Inr \<lparr>wt_external = False, wt_condition = None, wt_retry_count = 0, wt_retry_budget = 3\<rparr>
      | Some raw \<Rightarrow>
          bindE (reject_unknown raw [''external'', ''condition'', ''retry_count'', ''retry_budget''] ''wait'') (\<lambda>_.
          bindE (require_bool (jget_or raw ''external'' (JBool False)) ''wait.external'') (\<lambda>external.
          bindE (if_not_null raw ''condition'' (\<lambda>v. require_str v ''wait.condition'')) (\<lambda>condition.
          bindE (require_int (jget_or raw ''retry_count'' (JInt 0)) ''wait.retry_count'' (Some 0)) (\<lambda>retry_count.
          bindE (require_int (jget_or raw ''retry_budget'' (JInt 3)) ''wait.retry_budget'' (Some 0)) (\<lambda>retry_budget.
            Inr \<lparr>wt_external = external, wt_condition = condition, wt_retry_count = retry_count,
                 wt_retry_budget = retry_budget\<rparr>))))))"

definition parse_gates :: "jobj option \<Rightarrow> facts_error + string" where
  "parse_gates raw_opt =
     (case raw_opt of
        None \<Rightarrow> Inr ''NOT_REQUIRED''
      | Some raw \<Rightarrow>
          bindE (reject_unknown raw [''org_rollout''] ''gates'') (\<lambda>_.
            enum (jget_or raw ''org_rollout'' (JStr ''NOT_REQUIRED'')) ''gates.org_rollout'' ROLLOUT_GATES))"

definition parse_previous :: "jobj option \<Rightarrow> facts_error + (string \<times> string) option" where
  "parse_previous raw_opt =
     (case raw_opt of
        None \<Rightarrow> Inr None
      | Some raw \<Rightarrow>
          bindE (reject_unknown raw [''key'', ''decision''] ''previous_decision'') (\<lambda>_.
          bindE (if_present raw ''key'' (\<lambda>v. require_str v ''previous_decision.key'') []) (\<lambda>key.
          bindE (if_present raw ''decision'' (\<lambda>v. require_str v ''previous_decision.decision'') []) (\<lambda>decision.
            Inr (if key = [] then None else Some (key, decision))))))"

definition section_facts ::
    "jobj \<Rightarrow> string \<Rightarrow> (jobj option \<Rightarrow> facts_error + 'a) \<Rightarrow> facts_error + 'a" where
  "section_facts data key parse = bindE (optional_mapping data key) parse"

definition normalize_facts :: "json \<Rightarrow> facts_error + facts" where
  "normalize_facts payload =
     bindE (require_mapping payload ''facts'') (\<lambda>data.
     bindE (reject_execution_keys ''facts'' data) (\<lambda>_.
     bindE (reject_unknown data TOP_LEVEL_KEYS ''facts'') (\<lambda>_.
     case map_of data ''packet'' of
       None \<Rightarrow> Inl (facts_error ''facts.packet is required'')
     | Some p \<Rightarrow>
     bindE (parse_packet p) (\<lambda>pk.
     bindE (section_facts data ''worker'' parse_worker) (\<lambda>wk.
     bindE (section_facts data ''git'' parse_git) (\<lambda>gt.
     bindE (section_facts data ''resource'' parse_resource) (\<lambda>res.
     bindE (section_facts data ''admission'' parse_admission) (\<lambda>(adm, deny).
     bindE (section_facts data ''mutation'' parse_mutation) (\<lambda>(amb, kind).
     bindE (section_facts data ''failure'' parse_failure) (\<lambda>(cls, count).
     bindE (section_facts data ''publication'' parse_publication) (\<lambda>(audit, authorized).
     bindE (section_facts data ''pr'' parse_pr) (\<lambda>prf.
     bindE (section_facts data ''ci'' parse_ci) (\<lambda>(cst, csub).
     bindE (section_facts data ''review'' parse_review) (\<lambda>rv.
     bindE (section_facts data ''wait'' parse_wait) (\<lambda>wt.
     bindE (section_facts data ''gates'' parse_gates) (\<lambda>gates.
     bindE (section_facts data ''previous_decision'' parse_previous) (\<lambda>prev.
       Inr \<lparr>packet = pk, worker = wk, git = gt, resource_result = res, admission_decision = adm,
            admission_deny_class = deny, mutation_ambiguous = amb, mutation_kind = kind,
            failure_class = cls, identical_semantic_count = count, coordinator_audit = audit,
            authorized_intent_revision = authorized, pr = prf, ci_state = cst, ci_subject_head = csub,
            review = rv, wait = wt, org_rollout = gates, previous_decision = prev\<rparr>)))))))))))))))))"

section \<open>Decisions\<close>

record decision =
  dc_decision :: string
  dc_reason :: string
  dc_class :: string
  dc_disposition :: string
  dc_key :: string
  dc_suppress :: string
  dc_subject_version :: string
  dc_launches_worker :: bool
  dc_mutates_existing_sessions :: bool
  dc_stops_unrelated_sessions :: bool
  dc_spawns_process :: bool
  dc_mutates_github :: bool
  dc_sends_notification :: bool
  dc_priority :: string
  dc_change_risk :: string
  dc_intent_revision :: int
  dc_repository :: string
  dc_workstream :: string

definition decision_class :: "string \<Rightarrow> string" where
  "decision_class d = (if d \<in> set WAIT_DECISIONS then ''WAIT'' else d)"

definition subject_version :: "facts \<Rightarrow> string" where
  "subject_version f =
     (case filter (\<lambda>v. v \<noteq> UNKNOWN \<and> full_sha v) [pr_head (pr f), ci_subject_head f, gt_head (git f)] of
        [] \<Rightarrow> ''NONE''
      | v # _ \<Rightarrow> v)"

definition key_with :: "facts \<Rightarrow> string \<Rightarrow> string \<Rightarrow> string" where
  "key_with f d version =
     join_with ''|'' [pk_repository (packet f), pk_workstream (packet f),
       int_text (pk_intent_revision (packet f)), decision_class d, version]"

definition notification_key :: "facts \<Rightarrow> string \<Rightarrow> string" where
  "notification_key f d = key_with f d (subject_version f)"

definition dependencies_eligible :: "packet_facts \<Rightarrow> string" where
  "dependencies_eligible p =
     (case pk_dependencies p of
        None \<Rightarrow> UNKNOWN
      | Some ds \<Rightarrow>
          if ds = [] then ''YES''
          else if list_all (\<lambda>(ws, st). st = ''COMPLETE'') ds then ''YES'' else ''NO'')"

definition live_status :: "worker_facts \<Rightarrow> bool" where
  "live_status w = (wk_present w \<and> (case wk_status w of None \<Rightarrow> False | Some st \<Rightarrow> st \<in> set ACTIVE_WORKER_STATUSES))"

definition active_worker :: "facts \<Rightarrow> bool" where
  "active_worker f =
     (live_status (worker f) \<and> wk_starting_intent_revision (worker f) = Some (pk_intent_revision (packet f)))"

definition emit :: "facts \<Rightarrow> string \<Rightarrow> string \<Rightarrow> string option \<Rightarrow> facts_error + decision" where
  "emit f d reason subject =
     (if d \<notin> set DECISIONS then Inl (facts_error (''internal decision is unknown: '' @ d))
      else (let version = (case subject of Some v \<Rightarrow> v | None \<Rightarrow> subject_version f);
                key = key_with f d version;
                same = (case previous_decision f of Some (k, _) \<Rightarrow> k = key | None \<Rightarrow> False);
                (disposition, suppress) =
                  (if d \<in> set QUIET_MICROSTEPS then (''SUPPRESS'', ''WORKER_MICROSTEP'')
                   else if d \<in> set WAIT_DECISIONS \<and> same then (''SUPPRESS'', ''IDENTICAL_WAIT'')
                   else if same then (''SUPPRESS'', ''DEDUP'')
                   else (''SEND'', ''NONE''))
            in Inr \<lparr>dc_decision = d, dc_reason = reason, dc_class = decision_class d,
                 dc_disposition = disposition, dc_key = key, dc_suppress = suppress,
                 dc_subject_version = version, dc_launches_worker = (d = ''ADMIT_IMPLEMENTATION''),
                 dc_mutates_existing_sessions = False, dc_stops_unrelated_sessions = False,
                 dc_spawns_process = False, dc_mutates_github = False, dc_sends_notification = False,
                 dc_priority = pk_priority (packet f), dc_change_risk = pk_change_risk (packet f),
                 dc_intent_revision = pk_intent_revision (packet f),
                 dc_repository = pk_repository (packet f), dc_workstream = pk_workstream (packet f)\<rparr>))"

definition audit_or_authorize :: "facts \<Rightarrow> facts_error + decision" where
  "audit_or_authorize f =
     (let authorized = (authorized_intent_revision f = Some (pk_intent_revision (packet f)))
      in if coordinator_audit f = ''FAIL''
         then emit f ''REPLAN_SEMANTIC_FAILURE''
                ''coordinator audit failed; re-plan instead of publishing the same result'' None
         else if coordinator_audit f = ''PASS'' \<and> authorized
         then emit f ''AUTHORIZE_PUBLICATION'' ''coordinator audit PASS matches the current intent revision'' None
         else if coordinator_audit f = ''PASS'' \<and> \<not> authorized
         then emit f ''AUDIT_DIRTY_TREE''
                ''publication authorization does not match the current intent revision'' None
         else emit f ''AUDIT_DIRTY_TREE''
                ''yielded or dirty implementation requires coordinator audit before publication'' None)"

definition opt_text :: "string option \<Rightarrow> string" where
  "opt_text x = (case x of Some s \<Rightarrow> s | None \<Rightarrow> ''None'')"

definition pr_pipeline :: "facts \<Rightarrow> facts_error + decision" where
  "pr_pipeline f =
     (let head = pr_head (pr f); git_head = gt_head (git f);
          exact_tree = (git_head \<noteq> UNKNOWN \<and> head \<noteq> UNKNOWN \<and> git_head = head \<and> full_sha head);
          ci_exact = (ci_subject_head f = head);
          rv = review f;
          review_bound = (rv_subject_head rv = head);
          actionable = (rv_actionable_open rv = Some True \<or> rv_state rv = ''OPEN'');
          review_clear = (rv_actionable_open rv = Some False \<and> rv_state rv = ''CLEAR'' \<and> review_bound);
          audit_ok = (coordinator_audit f = ''PASS'' \<and>
                      authorized_intent_revision f = Some (pk_intent_revision (packet f)))
      in if pr_state (pr f) \<noteq> Some ''OPEN''
         then emit f ''WAIT_EXTERNAL''
                (''pull request state '' @ opt_text (pr_state (pr f)) @ '' is not an open merge candidate'') None
         else if \<not> exact_tree
         then emit f ''WAIT_EXACT_HEAD_CI'' ''pull request head is not bound to the observed Git HEAD''
                (Some (if head \<noteq> UNKNOWN then head else ''NONE''))
         else if ci_state f = ''FAIL'' \<and> ci_exact
         then emit f ''REPLAN_SEMANTIC_FAILURE''
                ''exact-head CI failed; re-plan instead of retrying publication'' (Some head)
         else if ci_state f \<noteq> ''PASS'' \<or> \<not> ci_exact
         then emit f ''WAIT_EXACT_HEAD_CI''
                ''exact-head CI is pending or not bound to the pull request head'' (Some head)
         else if \<not> review_clear \<or> actionable
         then emit f ''AUDIT_REVIEW'' ''exact-head CI passed with actionable or unbound review state'' (Some head)
         else if gt_dirty (git f) \<noteq> Some False
         then emit f ''AUDIT_DIRTY_TREE'' ''open pull request worktree is dirty or unverified'' (Some head)
         else if gt_unpushed (git f) \<noteq> Some False
         then emit f ''WAIT_EXTERNAL''
                ''unpushed commits are not proven present on the pull request head'' (Some head)
         else if org_rollout f = ''PENDING''
         then emit f ''WAIT_EXTERNAL''
                ''org rollout authorization is a separate gate and is still pending'' (Some head)
         else if pk_change_risk (packet f) \<in> set HIGH_RISKS \<and> \<not> audit_ok
         then emit f ''WAIT_EXTERNAL''
                ''HIGH or CRITICAL merge requires coordinator audit PASS for the current intent revision'' (Some head)
         else if pr_mergeable (pr f) \<noteq> ''YES''
         then emit f ''WAIT_EXTERNAL'' ''pull request mergeability is not YES'' (Some head)
         else emit f ''MERGE_READY''
                ''exact-head CI, review, audit, and mergeability gates are green'' (Some head))"

definition implementation_path :: "facts \<Rightarrow> facts_error + decision" where
  "implementation_path f =
     (let g = git f; implementing = (active_worker f \<and> \<not> gt_yielded_for_audit g)
      in if gt_dirty g = Some True \<and> \<not> implementing then audit_or_authorize f
         else if gt_yielded_for_audit g then audit_or_authorize f
         else if implementing then
           (if wk_progress_evidence (worker f)
            then emit f ''RESUME_WORKER''
              ''active worker matches the packet intent revision and has machine-observable progress evidence'' None
            else emit f ''WAIT_EXTERNAL''
              ''matching active worker has no machine-observable progress evidence; reconcile before resume'' None)
         else if gt_dirty g = None \<or> gt_unpushed g = None
         then emit f ''WAIT_EXTERNAL'' ''Git dirty or unpushed state is UNKNOWN'' None
         else if gt_dirty g = Some False \<and> resource_result f \<in> {''PASS'', ''WARN''} \<and> admission_decision f = ''ALLOW''
         then emit f ''ADMIT_IMPLEMENTATION''
                ''ACTIVE packet is dependency-eligible and resource/admission facts allow one worker'' None
         else if admission_decision f = ''DENY''
         then emit f ''WAIT_EXTERNAL'' ''admission DENY blocks worker launch until facts change'' None
         else emit f ''WAIT_EXTERNAL'' ''resource or admission facts do not allow worker launch'' None)"

text \<open>\<^verbatim>\<open>x or "default"\<close> on an optional text.\<close>

definition text_or :: "string option \<Rightarrow> string \<Rightarrow> string" where
  "text_or x d = (case x of None \<Rightarrow> d | Some s \<Rightarrow> if s = [] then d else s)"

definition decide :: "facts \<Rightarrow> facts_error + decision" where
  "decide f =
     (let status = pk_status (packet f); cls = failure_class f; elig = dependencies_eligible (packet f)
      in if status = ''COMPLETE'' then emit f ''NOOP_COMPLETE'' ''COMPLETE packets do not launch workers'' None
         else if status = ''PAUSED'' then emit f ''NOOP_PAUSED'' ''PAUSED packets do not launch workers'' None
         else if status = ''BLOCKED''
         then emit f ''BLOCK_HUMAN'' ''BLOCKED packets stay with the owner and do not launch workers'' None
         else if mutation_ambiguous f \<or> cls = ''AMBIGUOUS_MUTATION''
         then emit f ''RECONCILE_AMBIGUOUS''
                (''ambiguous '' @ text_or (mutation_kind f) ''mutation'' @ '' outcome must be reconciled before retry'') None
         else if live_status (worker f) \<and>
                 wk_starting_intent_revision (worker f) \<noteq> Some (pk_intent_revision (packet f))
         then emit f ''STALE_WORKER''
                ''worker intent revision does not match the packet; do not finalize or publish'' None
         else if cls = ''SEMANTIC'' \<or> identical_semantic_count f \<ge> 2
         then emit f ''REPLAN_SEMANTIC_FAILURE''
                ''semantic failure requires a new plan rather than another identical attempt'' None
         else if cls \<in> {''HUMAN_REQUIRED'', ''AUTHORITY''}
         then emit f ''BLOCK_HUMAN'' (''failure class '' @ cls @ '' requires the owner'') None
         else if resource_result f = ''BLOCK'' \<or> cls = ''RESOURCE'' \<or>
                 (admission_decision f = ''DENY'' \<and> admission_deny_class f = Some ''HOST_BUDGET'')
         then emit f ''YIELD_RESOURCE''
                ''resource preflight BLOCK yields until capacity facts change and does not stop unrelated sessions'' None
         else if cls = ''TRANSIENT'' then
           (if wt_retry_count (wait f) < wt_retry_budget (wait f)
            then emit f ''WAIT_EXTERNAL'' ''transient failure stays inside the bounded retry budget'' None
            else emit f ''BLOCK_HUMAN'' ''transient retry budget is exhausted'' None)
         else if elig \<noteq> ''YES''
         then emit f ''WAIT_EXTERNAL'' (''dependencies are '' @ elig @ '' and cannot start work'') None
         else if pr_exists (pr f) then pr_pipeline f
         else if wt_external (wait f)
         then emit f ''WAIT_EXTERNAL'' (''waiting for '' @ text_or (wt_condition (wait f)) ''external condition'') None
         else implementation_path f)"

definition plan :: "json \<Rightarrow> facts_error + decision" where
  "plan payload = bindE (normalize_facts payload) decide"

section \<open>Reports\<close>

definition yes_no :: "bool \<Rightarrow> string" where
  "yes_no b = (if b then ''YES'' else ''NO'')"

definition report_fields :: "decision \<Rightarrow> int \<Rightarrow> (string \<times> string) list" where
  "report_fields d exit_code =
     [(''DECISION'', dc_decision d), (''EXIT_CODE'', int_text exit_code), (''REASON'', dc_reason d),
      (''DECISION_CLASS'', dc_class d), (''NOTIFICATION'', dc_disposition d),
      (''NOTIFICATION_KEY'', dc_key d), (''NOTIFICATION_SUPPRESS_REASON'', dc_suppress d),
      (''SUBJECT_VERSION'', dc_subject_version d), (''LAUNCHES_WORKER'', yes_no (dc_launches_worker d)),
      (''MUTATES_EXISTING_SESSIONS'', ''NO''), (''STOPS_UNRELATED_SESSIONS'', ''NO''),
      (''SPAWNS_PROCESS'', ''NO''), (''MUTATES_GITHUB'', ''NO''), (''SENDS_NOTIFICATION'', ''NO''),
      (''PRIORITY'', dc_priority d), (''CHANGE_RISK'', dc_change_risk d),
      (''INTENT_REVISION'', int_text (dc_intent_revision d))]"

definition report_text :: "(string \<times> string) list \<Rightarrow> string" where
  "report_text kvs = join_with [NL] (map (\<lambda>(k, v). k @ ''='' @ v) kvs) @ [NL]"

definition format_report :: "decision \<Rightarrow> int \<Rightarrow> string option \<Rightarrow> string" where
  "format_report d exit_code deny_class =
     report_text (report_fields d exit_code @
       (case deny_class of None \<Rightarrow> [] | Some c \<Rightarrow> if c = [] then [] else [(''DENY_CLASS'', c)]))"

definition failure_report :: "string \<Rightarrow> string \<Rightarrow> string \<times> int" where
  "failure_report reason deny_class =
     (report_text
       [(''DECISION'', ''REJECT_FACTS''), (''EXIT_CODE'', ''3''),
        (''REASON'', py_strip (replace_char NL '' '' reason)), (''DENY_CLASS'', deny_class),
        (''LAUNCHES_WORKER'', ''NO''), (''MUTATES_EXISTING_SESSIONS'', ''NO''),
        (''STOPS_UNRELATED_SESSIONS'', ''NO''), (''SPAWNS_PROCESS'', ''NO''), (''MUTATES_GITHUB'', ''NO''),
        (''SENDS_NOTIFICATION'', ''NO'')], 3)"

text \<open>\<^verbatim>\<open>main\<close> after the facts file was read, or failed to be: the text printed and the exit status.\<close>

definition coordinator_main :: "facts_error + json \<Rightarrow> string \<times> int" where
  "coordinator_main loaded =
     (case bindE loaded plan of
        Inr d \<Rightarrow> (format_report d 0 None, 0)
      | Inl (FactsError reason deny_class) \<Rightarrow> failure_report reason deny_class)"

end
