(* ===== verification/CoordinatorFacts.thy ===== *)
theory CoordinatorFacts
  imports Coordinator
begin

text \<open>
  Lemmas on the planner: the decision each branch of \<open>decide\<close> gives (\<open>decide_admits\<close>,
  \<open>decide_merges\<close>, \<open>decide_decides\<close>), what every emitted decision carries (\<open>well_emitted\<close>), what the
  parsers of the facts guarantee (\<open>normalize_Inr_iff\<close>, \<open>normalized\<close>), the parts of a notification key,
  replanning with the last decision in the facts, and the class of every rejection.
\<close>

section \<open>The decision of each branch\<close>

definition out :: "facts_error + decision \<Rightarrow> string option" where
  "out r = (case r of Inr d \<Rightarrow> Some (dc_decision d) | Inl e \<Rightarrow> None)"

lemma out_if: "out (if b then x else y) = (if b then out x else out y)"
  by simp

lemma emit_out: "out (emit f d r s) = (if d \<in> set DECISIONS then Some d else None)"
  by (simp add: out_def emit_def Let_def split: prod.splits)

lemma known:
  "''NOOP_COMPLETE'' \<in> set DECISIONS" "''NOOP_PAUSED'' \<in> set DECISIONS" "''BLOCK_HUMAN'' \<in> set DECISIONS"
  "''WAIT_EXTERNAL'' \<in> set DECISIONS" "''RECONCILE_AMBIGUOUS'' \<in> set DECISIONS"
  "''ADMIT_IMPLEMENTATION'' \<in> set DECISIONS" "''RESUME_WORKER'' \<in> set DECISIONS"
  "''AUDIT_DIRTY_TREE'' \<in> set DECISIONS" "''AUTHORIZE_PUBLICATION'' \<in> set DECISIONS"
  "''WAIT_EXACT_HEAD_CI'' \<in> set DECISIONS" "''AUDIT_REVIEW'' \<in> set DECISIONS" "''MERGE_READY'' \<in> set DECISIONS"
  "''REPLAN_SEMANTIC_FAILURE'' \<in> set DECISIONS" "''YIELD_RESOURCE'' \<in> set DECISIONS"
  "''STALE_WORKER'' \<in> set DECISIONS"
  by (simp_all add: DECISIONS_def)

lemmas branch_outcomes = out_if emit_out known

lemma audit_out:
  "out (audit_or_authorize f) =
     Some (if coordinator_audit f = ''FAIL'' then ''REPLAN_SEMANTIC_FAILURE''
           else if coordinator_audit f = ''PASS'' \<and>
                   authorized_intent_revision f = Some (pk_intent_revision (packet f))
           then ''AUTHORIZE_PUBLICATION'' else ''AUDIT_DIRTY_TREE'')"
  by (simp add: audit_or_authorize_def Let_def branch_outcomes)

lemma implementation_out:
  "out (implementation_path f) = Some ''ADMIT_IMPLEMENTATION'' \<longleftrightarrow>
     \<not> active_worker f \<and> \<not> gt_yielded_for_audit (git f) \<and> gt_dirty (git f) = Some False \<and>
     gt_unpushed (git f) \<noteq> None \<and> resource_result f \<in> {''PASS'', ''WARN''} \<and> admission_decision f = ''ALLOW''"
  "out (implementation_path f) \<noteq> Some ''MERGE_READY''"
  "out (implementation_path f) \<noteq> None"
  by (auto simp: implementation_path_def Let_def branch_outcomes audit_out)

lemma pipeline_out:
  "out (pr_pipeline f) = Some ''MERGE_READY'' \<longleftrightarrow>
     pr_state (pr f) = Some ''OPEN'' \<and> pr_mergeable (pr f) = ''YES'' \<and>
     full_sha (pr_head (pr f)) \<and> gt_head (git f) = pr_head (pr f) \<and> pr_head (pr f) \<noteq> UNKNOWN \<and>
     ci_state f = ''PASS'' \<and> ci_subject_head f = pr_head (pr f) \<and>
     rv_actionable_open (review f) = Some False \<and> rv_state (review f) = ''CLEAR'' \<and>
     rv_subject_head (review f) = pr_head (pr f) \<and>
     gt_dirty (git f) = Some False \<and> gt_unpushed (git f) = Some False \<and> org_rollout f \<noteq> ''PENDING'' \<and>
     (pk_change_risk (packet f) \<in> set HIGH_RISKS \<longrightarrow>
        coordinator_audit f = ''PASS'' \<and>
        authorized_intent_revision f = Some (pk_intent_revision (packet f)))"
  "out (pr_pipeline f) \<noteq> Some ''ADMIT_IMPLEMENTATION''"
  "out (pr_pipeline f) \<noteq> None"
  by (auto simp: pr_pipeline_def Let_def branch_outcomes)

lemma decide_admits:
  "out (decide f) = Some ''ADMIT_IMPLEMENTATION'' \<longleftrightarrow>
     pk_status (packet f) \<notin> {''COMPLETE'', ''PAUSED'', ''BLOCKED''} \<and> \<not> mutation_ambiguous f \<and>
     failure_class f \<notin> {''AMBIGUOUS_MUTATION'', ''SEMANTIC'', ''HUMAN_REQUIRED'', ''AUTHORITY'', ''RESOURCE'', ''TRANSIENT''} \<and>
     identical_semantic_count f < 2 \<and> \<not> live_status (worker f) \<and>
     dependencies_eligible (packet f) = ''YES'' \<and> \<not> pr_exists (pr f) \<and> \<not> wt_external (wait f) \<and>
     \<not> gt_yielded_for_audit (git f) \<and> gt_dirty (git f) = Some False \<and> gt_unpushed (git f) \<noteq> None \<and>
     resource_result f \<in> {''PASS'', ''WARN''} \<and> admission_decision f = ''ALLOW''"
  by (simp add: decide_def Let_def branch_outcomes pipeline_out implementation_out active_worker_def)

lemma decide_merges:
  "out (decide f) = Some ''MERGE_READY'' \<longleftrightarrow>
     pk_status (packet f) \<notin> {''COMPLETE'', ''PAUSED'', ''BLOCKED''} \<and> \<not> mutation_ambiguous f \<and>
     failure_class f \<notin> {''AMBIGUOUS_MUTATION'', ''SEMANTIC'', ''HUMAN_REQUIRED'', ''AUTHORITY'', ''RESOURCE'', ''TRANSIENT''} \<and>
     identical_semantic_count f < 2 \<and>
     (live_status (worker f) \<longrightarrow> wk_starting_intent_revision (worker f) = Some (pk_intent_revision (packet f))) \<and>
     resource_result f \<noteq> ''BLOCK'' \<and>
     \<not> (admission_decision f = ''DENY'' \<and> admission_deny_class f = Some ''HOST_BUDGET'') \<and>
     dependencies_eligible (packet f) = ''YES'' \<and> pr_exists (pr f) \<and>
     out (pr_pipeline f) = Some ''MERGE_READY''"
  by (simp add: decide_def Let_def branch_outcomes implementation_out)

lemma decide_decides: "out (decide f) \<noteq> None"
  by (simp add: decide_def Let_def branch_outcomes pipeline_out implementation_out del: not_None_eq)

text \<open>What every emitted decision carries.\<close>

definition well_emitted :: "facts \<Rightarrow> decision \<Rightarrow> bool" where
  "well_emitted f d =
     (dc_decision d \<in> set DECISIONS \<and> dc_class d = decision_class (dc_decision d) \<and>
      dc_key d = key_with f (dc_decision d) (dc_subject_version d) \<and>
      (dc_disposition d = ''SEND'' \<longleftrightarrow>
         dc_decision d \<notin> set QUIET_MICROSTEPS \<and> map_option fst (previous_decision f) \<noteq> Some (dc_key d)) \<and>
      dc_disposition d \<in> {''SEND'', ''SUPPRESS''} \<and>
      dc_launches_worker d = (dc_decision d = ''ADMIT_IMPLEMENTATION'') \<and>
      \<not> dc_mutates_existing_sessions d \<and> \<not> dc_stops_unrelated_sessions d \<and> \<not> dc_spawns_process d \<and>
      \<not> dc_mutates_github d \<and> \<not> dc_sends_notification d \<and>
      (dc_subject_version d = ''NONE'' \<or> full_sha (dc_subject_version d)) \<and>
      dc_suppress d \<in> {''NONE'', ''DEDUP'', ''IDENTICAL_WAIT'', ''WORKER_MICROSTEP''} \<and>
      dc_priority d = pk_priority (packet f) \<and> dc_change_risk d = pk_change_risk (packet f) \<and>
      dc_intent_revision d = pk_intent_revision (packet f) \<and>
      dc_repository d = pk_repository (packet f) \<and> dc_workstream d = pk_workstream (packet f))"

definition emits_well :: "facts \<Rightarrow> facts_error + decision \<Rightarrow> bool" where
  "emits_well f r = (\<forall>d. r = Inr d \<longrightarrow> well_emitted f d)"

lemma emits_well_if: "emits_well f (if b then x else y) = (if b then emits_well f x else emits_well f y)"
  by simp

lemma subject_version_shape: "subject_version f = ''NONE'' \<or> full_sha (subject_version f)"
  by (auto simp: subject_version_def split: list.split if_splits dest!: filter_eq_ConsD)

lemma emit_well:
  assumes "s = None \<or> s = Some ''NONE'' \<or> (\<exists>v. s = Some v \<and> full_sha v)"
  shows "emits_well f (emit f d r s)"
  using assms subject_version_shape [of f]
  by (auto simp: emits_well_def well_emitted_def emit_def Let_def split: if_splits prod.splits option.splits)

lemma emit_well_None: "emits_well f (emit f d r None)"
  by (rule emit_well) simp

lemma emit_well_Some: "v = ''NONE'' \<or> full_sha v \<Longrightarrow> emits_well f (emit f d r (Some v))"
  by (rule emit_well) auto

lemma pipeline_well:
  assumes "full_sha (pr_head (pr f)) \<or> pr_head (pr f) = UNKNOWN"
  shows "emits_well f (pr_pipeline f)"
proof (cases "pr_head (pr f) = UNKNOWN")
  case True
  then show ?thesis by (simp add: pr_pipeline_def Let_def emits_well_if emit_well_Some emit_well_None)
next
  case False
  with assms have "full_sha (pr_head (pr f))" by simp
  then show ?thesis by (simp add: pr_pipeline_def Let_def emits_well_if emit_well_Some emit_well_None)
qed

lemma decide_well:
  assumes "full_sha (pr_head (pr f)) \<or> pr_head (pr f) = UNKNOWN" shows "emits_well f (decide f)"
  using pipeline_well [OF assms]
  by (simp add: decide_def implementation_path_def audit_or_authorize_def Let_def emits_well_if emit_well_None)

section \<open>What parsing guarantees\<close>

lemma normalize_Inr_iff:
  "normalize_facts payload = Inr f \<longleftrightarrow>
     (\<exists>data p. payload = JObj data \<and> reject_execution_keys ''facts'' data = Inr () \<and>
        set (map fst data) \<subseteq> set TOP_LEVEL_KEYS \<and> map_of data ''packet'' = Some p \<and>
        parse_packet p = Inr (packet f) \<and> section_facts data ''worker'' parse_worker = Inr (worker f) \<and>
        section_facts data ''git'' parse_git = Inr (git f) \<and>
        section_facts data ''resource'' parse_resource = Inr (resource_result f) \<and>
        section_facts data ''admission'' parse_admission = Inr (admission_decision f, admission_deny_class f) \<and>
        section_facts data ''mutation'' parse_mutation = Inr (mutation_ambiguous f, mutation_kind f) \<and>
        section_facts data ''failure'' parse_failure = Inr (failure_class f, identical_semantic_count f) \<and>
        section_facts data ''publication'' parse_publication = Inr (coordinator_audit f, authorized_intent_revision f) \<and>
        section_facts data ''pr'' parse_pr = Inr (pr f) \<and>
        section_facts data ''ci'' parse_ci = Inr (ci_state f, ci_subject_head f) \<and>
        section_facts data ''review'' parse_review = Inr (review f) \<and>
        section_facts data ''wait'' parse_wait = Inr (wait f) \<and>
        section_facts data ''gates'' parse_gates = Inr (org_rollout f) \<and>
        section_facts data ''previous_decision'' parse_previous = Inr (previous_decision f))"
proof (cases payload)
  case (JObj data)
  have u: "reject_unknown d allowed l = Inr x \<longleftrightarrow> set (map fst d) \<subseteq> set allowed" for d allowed l x
    using reject_unknown_Inr [of d allowed l] by simp
  show ?thesis
    unfolding JObj normalize_facts_def
    by (cases f, cases "map_of data ''packet''")
      (auto simp: require_mapping_def bindE_Inr_iff u split: prod.splits)
qed (auto simp: normalize_facts_def require_mapping_def)

lemma some_bool_Inr: "some_bool l v = Inr x \<Longrightarrow> x \<noteq> None"
  by (auto simp: some_bool_def err_simps)

lemma parse_packet_shape:
  assumes "parse_packet raw = Inr p"
  shows "repository_ok (pk_repository p)" "workstream_ok (pk_workstream p)"
    "pk_status p \<in> set PACKET_STATUSES" "pk_priority p \<in> set PRIORITIES" "pk_change_risk p \<in> set CHANGE_RISKS"
    "pk_intent_revision p \<ge> 1"
  using assms
  by (auto simp: parse_packet_def require_int_def bindE_Inr_iff dest!: enum_Inr
        split: if_splits option.splits json.splits)

lemma parse_pr_head: "parse_pr raw = Inr p \<Longrightarrow> pr_head p = UNKNOWN \<or> full_sha (pr_head p)"
  by (auto simp: parse_pr_def no_pr_def if_present_def bindE_Inr_iff dest: sha_or_unknown_Inr
        split: option.splits if_splits)

lemma parse_failure_class: "parse_failure raw = Inr (cls, n) \<Longrightarrow> cls \<in> set FAILURE_CLASSES"
  by (cases raw) (auto simp: parse_failure_def bindE_Inr_iff dest: enum_Inr, simp add: FAILURE_CLASSES_def)

lemma section_Inr: "section_facts data k parse = Inr x \<Longrightarrow> \<exists>raw. parse raw = Inr x"
  by (auto simp: section_facts_def bindE_Inr_iff)

lemma normalized:
  assumes "normalize_facts payload = Inr f"
  shows "repository_ok (pk_repository (packet f))" "workstream_ok (pk_workstream (packet f))"
    "pk_status (packet f) \<in> set PACKET_STATUSES" "failure_class f \<in> set FAILURE_CLASSES"
    "full_sha (pr_head (pr f)) \<or> pr_head (pr f) = UNKNOWN"
    "pk_intent_revision (packet f) \<ge> 1"
    "pk_priority (packet f) \<in> set PRIORITIES" "pk_change_risk (packet f) \<in> set CHANGE_RISKS"
proof -
  obtain data p where "parse_packet p = Inr (packet f)"
    "section_facts data ''failure'' parse_failure = Inr (failure_class f, identical_semantic_count f)"
    "section_facts data ''pr'' parse_pr = Inr (pr f)"
    using assms unfolding normalize_Inr_iff by blast
  then show "repository_ok (pk_repository (packet f))" "workstream_ok (pk_workstream (packet f))"
    "pk_status (packet f) \<in> set PACKET_STATUSES" "failure_class f \<in> set FAILURE_CLASSES"
    "full_sha (pr_head (pr f)) \<or> pr_head (pr f) = UNKNOWN" "pk_intent_revision (packet f) \<ge> 1"
    "pk_priority (packet f) \<in> set PRIORITIES" "pk_change_risk (packet f) \<in> set CHANGE_RISKS"
    by (auto dest: parse_packet_shape dest!: section_Inr parse_pr_head parse_failure_class)
qed

lemma plan_Inr: "plan payload = Inr d \<longleftrightarrow> (\<exists>f. normalize_facts payload = Inr f \<and> decide f = Inr d)"
  by (auto simp: plan_def bindE_Inr_iff)

lemma plan_well:
  assumes "plan payload = Inr d" "normalize_facts payload = Inr f" shows "well_emitted f d" "decide f = Inr d"
  using assms decide_well [OF normalized(5) [OF assms(2)]] by (auto simp: plan_Inr emits_well_def)

lemma active_status:
  assumes "normalize_facts payload = Inr f"
  shows "pk_status (packet f) \<notin> {''COMPLETE'', ''PAUSED'', ''BLOCKED''} \<longleftrightarrow> pk_status (packet f) = ''ACTIVE''"
    "failure_class f \<notin> {''AMBIGUOUS_MUTATION'', ''SEMANTIC'', ''HUMAN_REQUIRED'', ''AUTHORITY'', ''RESOURCE'', ''TRANSIENT''}
     \<longleftrightarrow> failure_class f = ''NONE''"
  using normalized(3,4) [OF assms] by (auto simp: PACKET_STATUSES_def FAILURE_CLASSES_def)

section \<open>The notification key\<close>

definition key_char :: "char \<Rightarrow> bool" where
  "key_char c = (slug_char c \<or> c = CHR ''/'')"

lemma key_char_plain: "key_char c \<Longrightarrow> \<not> is_space c \<and> c \<noteq> CHR ''|'' \<and> c \<noteq> NL"
  by (auto simp: key_char_def slug_char_def is_alnum_ascii_def is_digit_def is_lower_ascii_def
       is_upper_ascii_def is_space_def Let_def)

lemma digits_key_char: "n < 10 \<Longrightarrow> key_char (digit_char n)"
  by (simp add: digit_char_def key_char_def slug_char_def is_alnum_ascii_def is_digit_def)

lemma nat_text_chars: "list_all key_char (nat_text n)"
proof (induction n rule: nat_text.induct)
  case (1 n) then show ?case using digits_key_char [of "n mod 10"] digits_key_char [of n]
    by (subst nat_text.simps) auto
qed

lemma int_text_chars: "list_all key_char (int_text i)"
  by (simp add: int_text_def nat_text_chars) (simp add: key_char_def slug_char_def)

lemma nat_text_value: "foldl (\<lambda>a c. 10 * a + (of_char c - 48)) 0 (nat_text n) = n"
proof (induction n rule: nat_text.induct)
  case (1 n)
  have d: "k < 10 \<Longrightarrow> of_char (digit_char k) - 48 = k" for k
    by (simp add: digit_char_def)
  show ?case using 1 d [of n] d [of "n mod 10"] by (subst nat_text.simps) simp
qed

lemma nat_text_inj: "nat_text m = nat_text n \<Longrightarrow> m = n"
  by (metis nat_text_value)

lemma full_sha_chars: "full_sha v \<Longrightarrow> list_all key_char v"
  by (auto simp: full_sha_def list_all_iff is_hex_lower_def key_char_def slug_char_def is_alnum_ascii_def
       is_lower_ascii_def is_digit_def)

lemma repository_chars: "repository_ok r \<Longrightarrow> list_all key_char r"
proof -
  assume ok: "repository_ok r"
  then have m: "CHR ''/'' \<in> set r" by (simp add: repository_ok_def partition_at_def split: if_splits)
  have "list_all key_char (takeWhile (\<lambda>x. x \<noteq> CHR ''/'') r)"
    "list_all key_char (drop 1 (dropWhile (\<lambda>x. x \<noteq> CHR ''/'') r))"
    using ok m by (auto simp: repository_ok_def partition_at_def list_all_iff key_char_def)
  moreover have "dropWhile (\<lambda>x. x \<noteq> CHR ''/'') r = CHR ''/'' # drop 1 (dropWhile (\<lambda>x. x \<noteq> CHR ''/'') r)"
    using m by (induction r) auto
  moreover have "key_char CHR ''/''" by (simp add: key_char_def)
  ultimately have "list_all key_char (takeWhile (\<lambda>x. x \<noteq> CHR ''/'') r @ dropWhile (\<lambda>x. x \<noteq> CHR ''/'') r)"
    by (metis list_all_append list.pred_inject(2))
  then show "list_all key_char r" by simp
qed

lemma workstream_chars: "workstream_ok w \<Longrightarrow> list_all key_char w"
  by (cases w) (auto simp: workstream_ok_def key_char_def slug_char_def list_all_iff)

lemma decision_chars: "d \<in> set DECISIONS \<Longrightarrow> list_all key_char d \<and> list_all key_char (decision_class d) \<and> d \<noteq> []"
proof -
  have "list_all (\<lambda>d. list_all key_char d \<and> list_all key_char (decision_class d) \<and> d \<noteq> []) DECISIONS" by code_simp
  then show "d \<in> set DECISIONS \<Longrightarrow> list_all key_char d \<and> list_all key_char (decision_class d) \<and> d \<noteq> []"
    by (simp add: list_all_iff)
qed

text \<open>The five parts of a key, none of which holds the separator.\<close>

definition key_parts :: "decision \<Rightarrow> string list" where
  "key_parts d = [dc_repository d, dc_workstream d, int_text (dc_intent_revision d), dc_class d, dc_subject_version d]"

lemma planned_key:
  assumes "plan payload = Inr d"
  shows "dc_key d = join_with ''|'' (key_parts d)" "p \<in> set (key_parts d) \<Longrightarrow> list_all key_char p"
    "dc_intent_revision d \<ge> 1" "dc_decision d \<in> set DECISIONS"
proof -
  obtain f where f: "normalize_facts payload = Inr f" using assms by (auto simp: plan_Inr)
  have w: "well_emitted f d" using plan_well [OF assms f] by simp
  show "dc_intent_revision d \<ge> 1" using w normalized(6) [OF f] by (simp add: well_emitted_def)
  show "dc_key d = join_with ''|'' (key_parts d)" "dc_decision d \<in> set DECISIONS"
    using w by (auto simp: well_emitted_def key_with_def key_parts_def)
  have none: "list_all key_char ''NONE''" by code_simp
  have "list_all key_char (dc_repository d)" "list_all key_char (dc_workstream d)"
    using w repository_chars [OF normalized(1) [OF f]] workstream_chars [OF normalized(2) [OF f]]
    by (simp_all add: well_emitted_def)
  moreover have "list_all key_char (dc_class d)"
    using w decision_chars [of "dc_decision d"] by (simp add: well_emitted_def)
  moreover have "list_all key_char (dc_subject_version d)"
  proof (cases "full_sha (dc_subject_version d)")
    case False
    then have "dc_subject_version d = ''NONE''" using w by (simp add: well_emitted_def)
    then show ?thesis using none by simp
  qed (rule full_sha_chars)
  ultimately have "\<forall>p \<in> set (key_parts d). list_all key_char p"
    by (simp add: key_parts_def int_text_chars)
  then show "list_all key_char p" if "p \<in> set (key_parts d)" using that by blast
qed

lemma planned_key_strip:
  assumes "plan payload = Inr d"
  shows "py_strip (dc_key d) = dc_key d" "dc_key d \<noteq> []" "NL \<notin> set (dc_key d)"
proof -
  have in_key: "c = CHR ''|'' \<or> key_char c" if "c \<in> set (dc_key d)" for c
    using set_join [of "''|''" "key_parts d"] that planned_key(1,2) [OF assms] by (auto simp: list_all_iff)
  have plain: "\<not> is_space c \<and> c \<noteq> NL" if "c \<in> set (dc_key d)" for c
    using in_key [OF that]
  proof
    assume "c = CHR ''|''" then show ?thesis by (simp add: is_space_def)
  next
    assume "key_char c" then show ?thesis using key_char_plain by blast
  qed
  show "py_strip (dc_key d) = dc_key d" by (rule strip_plain) (use plain in blast)
  show "NL \<notin> set (dc_key d)" using plain by blast
  show "dc_key d \<noteq> []" using planned_key(1) [OF assms] by (simp add: key_parts_def)
qed

section \<open>Replanning with the last decision in the facts\<close>

definition unnotified :: "facts_error + decision \<Rightarrow> facts_error + decision" where
  "unnotified r = (case r of Inl e \<Rightarrow> Inl e | Inr d \<Rightarrow> Inr (d\<lparr>dc_disposition := [], dc_suppress := []\<rparr>))"

lemma unnotified_if: "unnotified (if b then x else y) = (if b then unnotified x else unnotified y)"
  by simp

lemma unnotified_emit: "unnotified (emit (f\<lparr>previous_decision := p\<rparr>) d r s) = unnotified (emit f d r s)"
  by (simp add: unnotified_def emit_def Let_def key_with_def subject_version_def split: prod.splits option.split)

lemma active_worker_previous: "active_worker (f\<lparr>previous_decision := p\<rparr>) = active_worker f"
  by (simp add: active_worker_def)

lemma unnotified_decide: "unnotified (decide (f\<lparr>previous_decision := p\<rparr>)) = unnotified (decide f)"
  by (simp add: decide_def pr_pipeline_def implementation_path_def audit_or_authorize_def Let_def
      unnotified_if unnotified_emit active_worker_previous cong: if_cong)

definition last_decision :: "decision \<Rightarrow> json" where
  "last_decision d = JObj [(''key'', JStr (dc_key d)), (''decision'', JStr (dc_decision d))]"

lemma visited_dset:
  "set (visited_keys (dset k v d)) \<subseteq> set (visited_keys d) \<union> set (visited_keys [(k, v)])"
  by (induction d) auto

lemma section_dset: "k \<noteq> k' \<Longrightarrow> section_facts (dset k' v data) k parse = section_facts data k parse"
  by (simp add: section_facts_def optional_mapping_def dict_simps)

lemma parse_last_decision:
  assumes "plan payload = Inr d"
  shows "section_facts (dset ''previous_decision'' (last_decision d) data) ''previous_decision'' parse_previous
         = Inr (Some (dc_key d, dc_decision d))"
proof -
  have "dc_decision d \<noteq> []" "py_strip (dc_decision d) = dc_decision d"
    using decision_chars [OF planned_key(4) [OF assms]] key_char_plain strip_plain [of "dc_decision d"]
    by (auto simp: list_all_iff)
  moreover note planned_key_strip [OF assms]
  ultimately show ?thesis
    by (simp add: section_facts_def optional_mapping_def dict_simps last_decision_def require_mapping_def
        parse_previous_def reject_unknown_def if_present_def require_str_def)
qed

lemma normalize_last_decision:
  assumes "plan payload = Inr d" "normalize_facts (JObj data) = Inr f"
  shows "normalize_facts (JObj (dset ''previous_decision'' (last_decision d) data)) =
     Inr (f\<lparr>previous_decision := Some (dc_key d, dc_decision d)\<rparr>)"
proof -
  have "\<not> is_execution_key ''previous_decision''" "\<not> is_execution_key ''key''" "\<not> is_execution_key ''decision''"
    by code_simp+
  then have "reject_execution_keys ''facts'' (dset ''previous_decision'' (last_decision d) data) = Inr ()"
    using assms(2) visited_dset [of "''previous_decision''" "last_decision d" data]
    by (auto simp: normalize_Inr_iff reject_execution_keys_iff last_decision_def)
  moreover have "set (map fst (dset ''previous_decision'' (last_decision d) data)) \<subseteq> set TOP_LEVEL_KEYS"
    using assms(2) by (auto simp: normalize_Inr_iff TOP_LEVEL_KEYS_def dom_update)
  ultimately show ?thesis
    using assms(2) parse_last_decision [OF assms(1)]
    by (simp add: normalize_Inr_iff section_dset dict_simps) blast
qed

section \<open>Rejected facts\<close>

text \<open>Every other rejection is of the default class.\<close>

definition plain_error :: "facts_error + 'a \<Rightarrow> bool" where
  "plain_error m = (\<forall>e. m = Inl e \<longrightarrow> (\<exists>r. e = facts_error r))"

named_theorems plain_intros

lemma plain_Inr [plain_intros]: "plain_error (Inr x)"
  by (simp add: plain_error_def)

lemma plain_facts_error [plain_intros]: "plain_error (Inl (facts_error r))"
  by (auto simp: plain_error_def)

lemma plain_bind [plain_intros]: "plain_error m \<Longrightarrow> (\<And>x. plain_error (f x)) \<Longrightarrow> plain_error (bindE m f)"
  by (cases m) (auto simp: plain_error_def)

lemma plain_if [plain_intros]: "plain_error x \<Longrightarrow> plain_error y \<Longrightarrow> plain_error (if b then x else y)"
  by simp

lemma plain_prod [plain_intros]: "(\<And>a b. plain_error (f a b)) \<Longrightarrow> plain_error (case p of (a, b) \<Rightarrow> f a b)"
  by (cases p) simp

lemma plain_option [plain_intros]:
  "plain_error x \<Longrightarrow> (\<And>v. plain_error (f v)) \<Longrightarrow> plain_error (case p of None \<Rightarrow> x | Some v \<Rightarrow> f v)"
  by (cases p) simp_all

lemma plain_readers [plain_intros]:
  "plain_error (require_mapping v l)" "plain_error (require_str v l)" "plain_error (require_int v l m)"
  "plain_error (require_bool v l)" "plain_error (require_list v l)" "plain_error (reject_unknown d allowed l)"
  by (auto simp: require_mapping_def require_str_def require_int_def require_bool_def require_list_def
      reject_unknown_def Let_def plain_error_def split: json.splits option.splits list.splits if_splits)

lemma plain_enum [plain_intros]: "plain_error (enum v l allowed)"
  unfolding enum_def by (intro plain_intros)

lemma plain_sha [plain_intros]: "plain_error (sha_or_unknown v l)"
  unfolding sha_or_unknown_def by (intro plain_intros)

lemma plain_optional [plain_intros]:
  "(\<And>v. plain_error (g v)) \<Longrightarrow> plain_error (if_present d k g x)"
  "(\<And>v. plain_error (h v)) \<Longrightarrow> plain_error (if_not_null d k h)"
  unfolding if_present_def if_not_null_def by (intro plain_intros; simp)+

lemma plain_some_bool [plain_intros]: "plain_error (some_bool l v)"
  unfolding some_bool_def by (intro plain_intros)

lemma plain_dependencies [plain_intros]: "plain_error (parse_dependencies i items)"
proof (induction items arbitrary: i)
  case (Cons item rest)
  show ?case unfolding parse_dependencies.simps Let_def by (intro plain_intros Cons.IH)
qed (simp add: plain_Inr)

lemma plain_packet [plain_intros]: "plain_error (parse_packet raw)"
  unfolding parse_packet_def by (intro plain_intros)

lemma plain_sections [plain_intros]:
  "plain_error (parse_worker raw)" "plain_error (parse_git raw)" "plain_error (parse_resource raw)"
  "plain_error (parse_admission raw)" "plain_error (parse_mutation raw)" "plain_error (parse_failure raw)"
  "plain_error (parse_publication raw)" "plain_error (parse_pr raw)" "plain_error (parse_ci raw)"
  "plain_error (parse_review raw)" "plain_error (parse_wait raw)" "plain_error (parse_gates raw)"
  "plain_error (parse_previous raw)"
  unfolding parse_worker_def parse_git_def parse_resource_def parse_admission_def parse_mutation_def
    parse_failure_def parse_publication_def parse_pr_def parse_ci_def parse_review_def parse_wait_def
    parse_gates_def parse_previous_def
  by (intro plain_intros)+

lemma plain_section [plain_intros]: "(\<And>raw. plain_error (parse raw)) \<Longrightarrow> plain_error (section_facts data k parse)"
  unfolding section_facts_def optional_mapping_def by (intro plain_intros; simp)

lemma reject_keys_class:
  "reject_execution_keys path d = Inl e \<Longrightarrow> \<exists>r. e = FactsError r ''EXECUTION_FORBIDDEN''"
  "reject_in_items path i xs = Inl e \<Longrightarrow> \<exists>r. e = FactsError r ''EXECUTION_FORBIDDEN''"
proof (induction path d and path i xs arbitrary: e and e rule: reject_execution_keys_reject_in_items.induct)
  case (2 path key child rest)
  then show ?case by (cases child) (auto simp: bindE_Inl_iff split: if_splits)
qed (auto simp: bindE_Inl_iff)

lemma plan_class:
  "plan (JObj data) = Inl e \<Longrightarrow>
     if reject_execution_keys ''facts'' data = Inr () then \<exists>r. e = facts_error r
     else \<exists>r. e = FactsError r ''EXECUTION_FORBIDDEN''"
proof (cases "reject_execution_keys ''facts'' data")
  case (Inl e')
  moreover assume "plan (JObj data) = Inl e"
  ultimately show ?thesis using reject_keys_class(1) [OF Inl]
    by (simp add: plan_def normalize_facts_def require_mapping_def)
next
  case (Inr u)
  assume e: "plan (JObj data) = Inl e"
  have "plain_error (normalize_facts (JObj data))"
    unfolding normalize_facts_def Inr require_mapping_def json.case bindE_simps by (intro plain_intros)
  moreover have "decide f \<noteq> Inl e" for f
    using decide_decides [of f] by (auto simp: out_def split: sum.splits)
  ultimately show ?thesis using e Inr by (auto simp: plan_def bindE_Inl_iff plain_error_def)
qed

end
