(* ===== verification/CoordinatorProps.thy ===== *)
theory CoordinatorProps
  imports CoordinatorFacts
begin

text \<open>
  What the planner promises: it decides whenever the facts parse, a worker is launched and a merge is
  declared ready exactly behind their gates, no fact may carry an execution key, a notification key
  names what it is about and is sent once, and what the printed report says. The sample facts at the
  start are an active packet without and with an open pull request.
\<close>

section \<open>Sample facts\<close>

definition demo_sha :: string where
  "demo_sha = replicate 40 CHR ''a''"

definition demo_packet :: json where
  "demo_packet = JObj [(''repository'', JStr ''o/r''), (''workstream'', JStr ''w''), (''status'', JStr ''ACTIVE''),
     (''intent_revision'', JInt 1), (''dependencies'', JList [])]"

definition demo_start :: jobj where
  "demo_start =
     [(''packet'', demo_packet),
      (''git'', JObj [(''head'', JStr demo_sha), (''dirty'', JBool False), (''unpushed'', JBool False)]),
      (''resource'', JObj [(''result'', JStr ''PASS'')]), (''admission'', JObj [(''decision'', JStr ''ALLOW'')])]"

definition demo_merge :: jobj where
  "demo_merge =
     [(''packet'', demo_packet),
      (''git'', JObj [(''head'', JStr demo_sha), (''dirty'', JBool False), (''unpushed'', JBool False)]),
      (''pr'', JObj [(''exists'', JBool True), (''state'', JStr ''OPEN''), (''head'', JStr demo_sha), (''mergeable'', JStr ''YES'')]),
      (''ci'', JObj [(''state'', JStr ''PASS''), (''subject_head'', JStr demo_sha)]),
      (''review'', JObj [(''state'', JStr ''CLEAR''), (''actionable_open'', JBool False), (''subject_head'', JStr demo_sha)])]"

definition demo_start_facts :: facts where
  "demo_start_facts =
     \<lparr>packet = \<lparr>pk_repository = ''o/r'', pk_workstream = ''w'', pk_status = ''ACTIVE'', pk_priority = ''NORMAL'',
        pk_intent_revision = 1, pk_change_risk = ''MEDIUM'', pk_task_kind = None, pk_dependencies = Some []\<rparr>,
      worker = no_worker,
      git = \<lparr>gt_head = demo_sha, gt_dirty = Some False, gt_unpushed = Some False, gt_yielded_for_audit = False\<rparr>,
      resource_result = ''PASS'', admission_decision = ''ALLOW'', admission_deny_class = None,
      mutation_ambiguous = False, mutation_kind = None, failure_class = ''NONE'', identical_semantic_count = 0,
      coordinator_audit = UNKNOWN, authorized_intent_revision = None, pr = no_pr,
      ci_state = UNKNOWN, ci_subject_head = UNKNOWN,
      review = \<lparr>rv_actionable_open = None, rv_state = UNKNOWN, rv_subject_head = UNKNOWN\<rparr>,
      wait = \<lparr>wt_external = False, wt_condition = None, wt_retry_count = 0, wt_retry_budget = 3\<rparr>,
      org_rollout = ''NOT_REQUIRED'', previous_decision = None\<rparr>"

definition demo_merge_facts :: facts where
  "demo_merge_facts = demo_start_facts
     \<lparr>resource_result := UNKNOWN, admission_decision := UNKNOWN,
      pr := \<lparr>pr_exists = True, pr_state = Some ''OPEN'', pr_head = demo_sha, pr_mergeable = ''YES''\<rparr>,
      ci_state := ''PASS'', ci_subject_head := demo_sha,
      review := \<lparr>rv_actionable_open = Some False, rv_state = ''CLEAR'', rv_subject_head = demo_sha\<rparr>\<rparr>"

definition planned :: "facts \<Rightarrow> decision" where
  "planned f = (case decide f of Inr d \<Rightarrow> d | Inl e \<Rightarrow> undefined)"

lemma planned_eq: "normalize_facts p = Inr f \<Longrightarrow> plan p = Inr (planned f)"
  using decide_decides [of f] by (auto simp: planned_def plan_Inr out_def split: sum.splits)

lemma demo_start_facts: "normalize_facts (JObj demo_start) = Inr demo_start_facts"
  by code_simp

lemma demo_merge_facts: "normalize_facts (JObj demo_merge) = Inr demo_merge_facts"
  by code_simp

lemmas demo_start_plan = planned_eq [OF demo_start_facts]

lemmas demo_merge_plan = planned_eq [OF demo_merge_facts]

section \<open>Claims\<close>

text \<open>
  C17: the planner launches a worker exactly when the packet is ACTIVE, no mutation is ambiguous, no
  failure is recorded, fewer than two identical semantic failures were seen, no worker is live, every
  dependency is COMPLETE, there is no pull request and no external wait, the tree is clean and not
  yielded, and resource and admission both allow it.
\<close>

theorem worker_launch_gates:
  assumes "plan payload = Inr d" "normalize_facts payload = Inr f"
  shows "dc_launches_worker d \<longleftrightarrow>
     pk_status (packet f) = ''ACTIVE'' \<and> \<not> mutation_ambiguous f \<and> failure_class f = ''NONE'' \<and>
     identical_semantic_count f < 2 \<and> \<not> live_status (worker f) \<and>
     dependencies_eligible (packet f) = ''YES'' \<and> \<not> pr_exists (pr f) \<and> \<not> wt_external (wait f) \<and>
     \<not> gt_yielded_for_audit (git f) \<and> gt_dirty (git f) = Some False \<and> gt_unpushed (git f) \<noteq> None \<and>
     resource_result f \<in> {''PASS'', ''WARN''} \<and> admission_decision f = ''ALLOW''"
proof -
  have "dc_launches_worker d \<longleftrightarrow> out (decide f) = Some ''ADMIT_IMPLEMENTATION''"
    using plan_well [OF assms] by (simp add: well_emitted_def out_def)
  then show ?thesis unfolding decide_admits active_status [OF assms(2)] .
qed

theorem worker_launch_gates_witness: "dc_launches_worker (planned demo_start_facts)"
  unfolding worker_launch_gates [OF demo_start_plan demo_start_facts] by code_simp

text \<open>
  C16: the planner declares a merge ready exactly when, on an ACTIVE packet with complete
  dependencies, the open and mergeable pull request, the observed Git head, the passing CI and the
  clear review all name the same full commit, the tree is clean and pushed, no rollout gate is
  pending, nothing blocks the packet, and a HIGH or CRITICAL change has the coordinator's audit for
  the current intent revision.
\<close>

theorem merge_ready_gates:
  assumes "plan payload = Inr d" "normalize_facts payload = Inr f"
  shows "dc_decision d = ''MERGE_READY'' \<longleftrightarrow>
     pk_status (packet f) = ''ACTIVE'' \<and> \<not> mutation_ambiguous f \<and> failure_class f = ''NONE'' \<and>
     identical_semantic_count f < 2 \<and>
     (live_status (worker f) \<longrightarrow> wk_starting_intent_revision (worker f) = Some (pk_intent_revision (packet f))) \<and>
     resource_result f \<noteq> ''BLOCK'' \<and>
     \<not> (admission_decision f = ''DENY'' \<and> admission_deny_class f = Some ''HOST_BUDGET'') \<and>
     dependencies_eligible (packet f) = ''YES'' \<and> pr_exists (pr f) \<and>
     pr_state (pr f) = Some ''OPEN'' \<and> pr_mergeable (pr f) = ''YES'' \<and>
     full_sha (pr_head (pr f)) \<and> gt_head (git f) = pr_head (pr f) \<and>
     ci_state f = ''PASS'' \<and> ci_subject_head f = pr_head (pr f) \<and>
     rv_actionable_open (review f) = Some False \<and> rv_state (review f) = ''CLEAR'' \<and>
     rv_subject_head (review f) = pr_head (pr f) \<and>
     gt_dirty (git f) = Some False \<and> gt_unpushed (git f) = Some False \<and> org_rollout f \<noteq> ''PENDING'' \<and>
     (pk_change_risk (packet f) \<in> {''HIGH'', ''CRITICAL''} \<longrightarrow>
        coordinator_audit f = ''PASS'' \<and>
        authorized_intent_revision f = Some (pk_intent_revision (packet f)))"
proof -
  have known: "full_sha v \<Longrightarrow> v \<noteq> UNKNOWN" for v
    by (auto simp: full_sha_def UNKNOWN_def)
  have "dc_decision d = ''MERGE_READY'' \<longleftrightarrow> out (decide f) = Some ''MERGE_READY''"
    using plan_well [OF assms] by (simp add: out_def)
  then show ?thesis
    unfolding decide_merges active_status [OF assms(2)] pipeline_out HIGH_RISKS_def
    using known [of "pr_head (pr f)"] by (simp only: list.set) blast
qed

theorem merge_ready_gates_witness: "dc_decision (planned demo_merge_facts) = ''MERGE_READY''"
  unfolding merge_ready_gates [OF demo_merge_plan demo_merge_facts] by code_simp

text \<open>
  The planner is total on facts that parse: it then gives one of its fifteen decisions, and no
  decision mutates or stops a session, spawns a process, touches GitHub or sends a notification.
\<close>

theorem plan_decides_without_effects:
  "(\<exists>f. normalize_facts payload = Inr f) \<longleftrightarrow>
   (\<exists>d. plan payload = Inr d \<and> dc_decision d \<in> set DECISIONS \<and>
        \<not> dc_mutates_existing_sessions d \<and> \<not> dc_stops_unrelated_sessions d \<and>
        \<not> dc_spawns_process d \<and> \<not> dc_mutates_github d \<and> \<not> dc_sends_notification d \<and>
        (dc_launches_worker d \<longleftrightarrow> dc_decision d = ''ADMIT_IMPLEMENTATION''))"
proof
  assume "\<exists>f. normalize_facts payload = Inr f"
  then obtain f where f: "normalize_facts payload = Inr f" by blast
  obtain d where "decide f = Inr d" using decide_decides [of f] by (auto simp: out_def split: sum.splits)
  then have d: "plan payload = Inr d" using f by (auto simp: plan_Inr)
  then show "\<exists>d. plan payload = Inr d \<and> dc_decision d \<in> set DECISIONS \<and>
        \<not> dc_mutates_existing_sessions d \<and> \<not> dc_stops_unrelated_sessions d \<and>
        \<not> dc_spawns_process d \<and> \<not> dc_mutates_github d \<and> \<not> dc_sends_notification d \<and>
        (dc_launches_worker d \<longleftrightarrow> dc_decision d = ''ADMIT_IMPLEMENTATION'')"
    using plan_well(1) [OF d f] by (auto simp: well_emitted_def)
next
  assume "\<exists>d. plan payload = Inr d \<and> dc_decision d \<in> set DECISIONS \<and>
        \<not> dc_mutates_existing_sessions d \<and> \<not> dc_stops_unrelated_sessions d \<and>
        \<not> dc_spawns_process d \<and> \<not> dc_mutates_github d \<and> \<not> dc_sends_notification d \<and>
        (dc_launches_worker d \<longleftrightarrow> dc_decision d = ''ADMIT_IMPLEMENTATION'')"
  then show "\<exists>f. normalize_facts payload = Inr f" by (auto simp: plan_Inr)
qed

text \<open>
  Facts are rejected with class EXECUTION_FORBIDDEN exactly when an execution key (up to case
  and surrounding blanks) occurs at a place the check visits: in the facts object, in an object
  nested in it at any depth, or in an object that is an element of a list.
\<close>

theorem execution_keys_rejected:
  "(\<exists>r. plan (JObj data) = Inl (FactsError r ''EXECUTION_FORBIDDEN'')) \<longleftrightarrow>
   (\<exists>k \<in> set (visited_keys data). is_execution_key k)"
proof (cases "reject_execution_keys ''facts'' data")
  case (Inl e)
  then obtain r where "plan (JObj data) = Inl (FactsError r ''EXECUTION_FORBIDDEN'')"
    using reject_keys_class(1) [OF Inl] by (auto simp: plan_def normalize_facts_def require_mapping_def)
  moreover have "\<exists>k \<in> set (visited_keys data). is_execution_key k"
    using Inl reject_execution_keys_iff(1) [of "''facts''" data] by auto
  ultimately show ?thesis by blast
next
  case (Inr u)
  then have "\<not> (\<exists>k \<in> set (visited_keys data). is_execution_key k)"
    using reject_execution_keys_iff(1) [of "''facts''" data] by simp
  moreover have "plan (JObj data) \<noteq> Inl (FactsError r ''EXECUTION_FORBIDDEN'')" for r
    using plan_class [of data "FactsError r ''EXECUTION_FORBIDDEN''"] Inr by (auto simp: facts_error_def)
  ultimately show ?thesis by blast
qed

text \<open>
  Two planned decisions with the same notification key are about the same repository,
  workstream and intent revision, of the same class, and about the same commit.
\<close>

theorem notification_key_identifies:
  assumes "plan p = Inr d" "plan q = Inr e" "dc_key d = dc_key e"
  shows "dc_repository d = dc_repository e \<and> dc_workstream d = dc_workstream e \<and>
    dc_intent_revision d = dc_intent_revision e \<and> dc_class d = dc_class e \<and>
    dc_subject_version d = dc_subject_version e"
proof -
  have "\<forall>x \<in> set (key_parts c). CHR ''|'' \<notin> set x" if "plan r = Inr c" for r c
    using planned_key(2) [OF that] key_char_plain by (auto simp: list_all_iff)
  then have "key_parts d = key_parts e"
    using assms planned_key(1) [OF assms(1)] planned_key(1) [OF assms(2)]
    by (intro join_inj [where c = "CHR ''|''"]) (auto simp: key_parts_def)
  moreover have "m = n" if "int_text m = int_text n" "m \<ge> 1" "n \<ge> 1" for m n
    using that nat_text_inj [of "nat m" "nat n"] by (simp add: int_text_def)
  ultimately show ?thesis
    using planned_key(3) [OF assms(1)] planned_key(3) [OF assms(2)] by (simp add: key_parts_def)
qed

theorem notification_key_identifies_witness:
  "dc_repository (planned demo_start_facts) = dc_repository (planned demo_start_facts)"
  using notification_key_identifies [OF demo_start_plan demo_start_plan refl] by blast

text \<open>
  A decision is announced once. Planning the same facts again with the decision just taken as
  the previous decision gives the same decision under the same key, and its notification is
  suppressed.
\<close>

theorem notification_sent_once:
  assumes "plan (JObj data) = Inr d"
  shows "\<exists>e. plan (JObj (dset ''previous_decision'' (last_decision d) data)) = Inr e \<and>
    dc_decision e = dc_decision d \<and> dc_reason e = dc_reason d \<and> dc_key e = dc_key d \<and>
    dc_disposition e = ''SUPPRESS''"
proof -
  obtain f where f: "normalize_facts (JObj data) = Inr f" "decide f = Inr d" using assms by (auto simp: plan_Inr)
  let ?f = "f\<lparr>previous_decision := Some (dc_key d, dc_decision d)\<rparr>"
  have n: "normalize_facts (JObj (dset ''previous_decision'' (last_decision d) data)) = Inr ?f"
    by (rule normalize_last_decision [OF assms f(1)])
  have "unnotified (decide ?f) = unnotified (Inr d)" using unnotified_decide f(2) by simp
  then obtain e where e: "decide ?f = Inr e" and
      same: "e\<lparr>dc_disposition := [], dc_suppress := []\<rparr> = d\<lparr>dc_disposition := [], dc_suppress := []\<rparr>"
    by (cases "decide ?f") (auto simp: unnotified_def)
  have "dc_decision e = dc_decision d" "dc_reason e = dc_reason d" "dc_key e = dc_key d"
    using arg_cong [OF same, of dc_decision] arg_cong [OF same, of dc_reason] arg_cong [OF same, of dc_key]
    by simp_all
  moreover have "dc_disposition e = ''SUPPRESS''"
  proof -
    have "well_emitted ?f e" by (rule plan_well(1) [OF _ n]) (use n e in \<open>auto simp: plan_Inr\<close>)
    then show ?thesis using \<open>dc_key e = dc_key d\<close> by (auto simp: well_emitted_def)
  qed
  ultimately show ?thesis using n e by (auto simp: plan_Inr)
qed

theorem notification_sent_once_witness:
  "dc_disposition (planned demo_start_facts) = ''SEND'' \<and>
   (\<exists>e. plan (JObj (dset ''previous_decision'' (last_decision (planned demo_start_facts)) demo_start)) = Inr e \<and>
        dc_disposition e = ''SUPPRESS'')"
proof
  show "dc_disposition (planned demo_start_facts) = ''SEND''" by code_simp
  show "\<exists>e. plan (JObj (dset ''previous_decision'' (last_decision (planned demo_start_facts)) demo_start)) = Inr e \<and>
        dc_disposition e = ''SUPPRESS''"
    using notification_sent_once [OF demo_start_plan] by blast
qed

section \<open>The printed report\<close>

definition report_lines :: "decision \<Rightarrow> string list" where
  "report_lines d = map (\<lambda>(k, v). k @ ''='' @ v) (report_fields d 0)"

lemma report_split:
  assumes "\<forall>(k, v) \<in> set kvs. NL \<notin> set k \<and> NL \<notin> set v" "kvs \<noteq> []"
  shows "split_on NL (report_text kvs) = map (\<lambda>(k, v). k @ ''='' @ v) kvs @ [[]]"
proof -
  let ?ls = "map (\<lambda>(k, v). k @ ''='' @ v) kvs"
  have "report_text kvs = join_with [NL] (?ls @ [[]])"
    using assms(2) by (simp add: report_text_def join_append)
  moreover have "split_on NL (join_with [NL] (?ls @ [[]])) = ?ls @ [[]]"
    by (rule split_join) (use assms(1) in auto)
  ultimately show ?thesis by simp
qed

lemma chars_no_NL: "list_all key_char s \<Longrightarrow> NL \<notin> set s"
  using key_char_plain by (auto simp: list_all_iff)

lemma plan_fields_no_NL:
  assumes "plan payload = Inr d"
  shows "NL \<notin> set (dc_decision d)" "NL \<notin> set (dc_class d)" "NL \<notin> set (dc_disposition d)"
    "NL \<notin> set (dc_suppress d)" "NL \<notin> set (dc_priority d)" "NL \<notin> set (dc_change_risk d)"
    "NL \<notin> set (dc_subject_version d)"
proof -
  obtain f where f: "normalize_facts payload = Inr f" using assms by (auto simp: plan_Inr)
  have w: "well_emitted f d" using plan_well [OF assms f] by simp
  show "NL \<notin> set (dc_decision d)" using decision_chars [OF planned_key(4) [OF assms]] chars_no_NL by blast
  show "NL \<notin> set (dc_class d)" "NL \<notin> set (dc_subject_version d)"
    using planned_key(2) [OF assms] chars_no_NL by (simp_all add: key_parts_def)
  show "NL \<notin> set (dc_disposition d)" "NL \<notin> set (dc_suppress d)"
    using w by (auto simp: well_emitted_def)
  have "list_all (\<lambda>s. NL \<notin> set s) (PRIORITIES @ CHANGE_RISKS)" by code_simp
  then have "NL \<notin> set s" if "s \<in> set PRIORITIES \<union> set CHANGE_RISKS" for s
    using that by (auto simp: list_all_iff)
  moreover have "dc_priority d = pk_priority (packet f)" "dc_change_risk d = pk_change_risk (packet f)"
    using w by (simp_all add: well_emitted_def)
  ultimately show "NL \<notin> set (dc_priority d)" "NL \<notin> set (dc_change_risk d)"
    using normalized(7,8) [OF f] by simp_all
qed

text \<open>
  When the reason is one line, the printed report is its seventeen \<^verbatim>\<open>KEY=value\<close> lines and the
  exit status is 0; so the line \<^verbatim>\<open>LAUNCHES_WORKER=YES\<close> is printed exactly for a launch.
\<close>

theorem report_says_what_was_planned:
  assumes "plan payload = Inr d" "NL \<notin> set (dc_reason d)"
  shows "split_on NL (fst (coordinator_main (Inr payload))) = report_lines d @ [[]] \<and>
    length (report_lines d) = 17 \<and> snd (coordinator_main (Inr payload)) = 0 \<and>
    (''LAUNCHES_WORKER=YES'' \<in> set (split_on NL (fst (coordinator_main (Inr payload)))) \<longleftrightarrow> dc_launches_worker d)"
proof -
  note fields = report_fields_def
  have ints: "NL \<notin> set (int_text i)" for i by (rule chars_no_NL [OF int_text_chars])
  have "\<forall>(k, v) \<in> set (report_fields d 0). NL \<notin> set k \<and> NL \<notin> set v"
    using assms(2) plan_fields_no_NL [OF assms(1)] planned_key_strip(3) [OF assms(1)]
    unfolding fields list.set by (simp add: yes_no_def ints)
  then have lines: "split_on NL (report_text (report_fields d 0)) = report_lines d @ [[]]"
    unfolding report_lines_def by (rule report_split) (simp add: fields)
  have main: "coordinator_main (Inr payload) = (report_text (report_fields d 0), 0)"
    using assms(1) by (simp add: coordinator_main_def format_report_def)
  have len: "length (report_lines d) = 17"
    by (simp add: report_lines_def fields)
  have launch: "''LAUNCHES_WORKER=YES'' \<in> set (report_lines d @ [[]]) \<longleftrightarrow> dc_launches_worker d"
    by (simp add: report_lines_def fields yes_no_def)
  show ?thesis unfolding main fst_conv snd_conv lines len using launch by blast
qed

theorem report_says_what_was_planned_witness:
  "''LAUNCHES_WORKER=YES'' \<in> set (split_on NL (fst (coordinator_main (Inr (JObj demo_start)))))"
proof -
  have "NL \<notin> set (dc_reason (planned demo_start_facts))" by code_simp
  moreover have "dc_launches_worker (planned demo_start_facts)" by code_simp
  ultimately show ?thesis using report_says_what_was_planned [OF demo_start_plan] by blast
qed

definition forged_facts :: json where
  "forged_facts = JObj [(''packet'', demo_packet),
     (''mutation'', JObj [(''ambiguous'', JBool True), (''kind'', JStr (''x'' @ [NL] @ ''LAUNCHES_WORKER=YES'' @ [NL] @ ''y''))])]"

text \<open>
  A reason of several lines forges report lines. The reason quotes the free text
  \<^verbatim>\<open>mutation.kind\<close>, and the report of a decision, unlike the failure report, does not replace line
  breaks: these facts print \<^verbatim>\<open>LAUNCHES_WORKER=YES\<close> although no worker is launched.
\<close>

theorem reason_forges_report_line:
  "(case plan forged_facts of Inr d \<Rightarrow> dc_decision d = ''RECONCILE_AMBIGUOUS'' \<and> \<not> dc_launches_worker d | Inl e \<Rightarrow> False) \<and>
   ''LAUNCHES_WORKER=YES'' \<in> set (split_on NL (fst (coordinator_main (Inr forged_facts))))"
  by code_simp

end
