(* ===== verification/Admission.thy ===== *)
theory Admission
  imports Facts Config
begin

text \<open>
  \<^verbatim>\<open>tools/work_admission.py\<close>: whether a second worker may start (\<open>evaluate_admit\<close>), how to size a handoff
  (\<open>evaluate_size\<close>) and whether a claim may be released or its worktree cleaned up
  (\<open>evaluate_release\<close>). A report is the dict of texts the code prints, as an association list. The
  readers are those of \<^verbatim>\<open>Facts\<close>: the module has its own copies, and \<^verbatim>\<open>AdmissionFactsError\<close> has the shape
  of \<^verbatim>\<open>PlannerFactsError\<close>. \<open>admit_decision\<close> is \<^verbatim>\<open>evaluate_admit\<close> after the request was parsed.
\<close>

definition ACTIVE_CLAIM_STATUSES :: "string list" where
  "ACTIVE_CLAIM_STATUSES = [''CLAIMED'', ''ACTIVE'', ''WAIT'', ''YIELD'', ''RETRY'']"

definition RELEASEABLE_CLAIM_STATUSES :: "string list" where
  "RELEASEABLE_CLAIM_STATUSES = [''COMPLETE'', ''ABANDON'', ''SUPERSEDED'', ''RELEASED'']"

definition KNOWN_CLAIM_STATUSES :: "string list" where
  "KNOWN_CLAIM_STATUSES = ACTIVE_CLAIM_STATUSES @ RELEASEABLE_CLAIM_STATUSES"

definition HOST_OK :: "string list" where
  "HOST_OK = [''PASS'', ''WARN'']"

definition EFFORT_BANDS :: "string list" where
  "EFFORT_BANDS = [''micro'', ''keep'', ''oversize'']"

definition REPORT_KEYS_ADMIT :: "string list" where
  "REPORT_KEYS_ADMIT = [''DECISION'', ''EXIT_CODE'', ''REASON'', ''DENY_CLASS'', ''PROPOSED_CLAIM_ID'',
     ''ACTIVE_CLAIM_COUNT'', ''WIP_LIMIT'', ''HOST_RESOURCE_RESULT'', ''MUTATES_EXISTING_SESSIONS'']"

definition REPORT_KEYS_SIZE :: "string list" where
  "REPORT_KEYS_SIZE = [''DECISION'', ''EXIT_CODE'', ''REASON'', ''WORK_PACKET_SIZING'',
     ''PRIMARY_OUTCOME_COUNT'', ''EFFORT_BAND'', ''CONTEXT_BUDGET_OK'']"

definition REPORT_KEYS_RELEASE :: "string list" where
  "REPORT_KEYS_RELEASE = [''DECISION'', ''EXIT_CODE'', ''REASON'', ''DENY_CLASS'', ''ACTION'', ''CLAIM_ID'',
     ''MUTATES_EXISTING_SESSIONS'']"

section \<open>Paths\<close>

definition forward_slashes :: "string \<Rightarrow> string" where
  "forward_slashes value = replace_char BACKSLASH ''/'' (py_strip value)"

text \<open>The loop over the parts; \<open>acc\<close> is the list built so far.\<close>

fun collapse_parts :: "string list \<Rightarrow> string list \<Rightarrow> facts_error + string list" where
  "collapse_parts acc [] = Inr acc"
| "collapse_parts acc (part # rest) =
     (if part = [] \<or> part = ''.'' then collapse_parts acc rest
      else if part = ''..'' then
        (if acc = [] then Inl (facts_error (''owned path escapes repository root via '' @ [QUOTE] @ ''..'' @ [QUOTE]))
         else collapse_parts (butlast acc) rest)
      else collapse_parts (acc @ [part]) rest)"

definition normalize_path :: "string \<Rightarrow> facts_error + string" where
  "normalize_path value =
     (let text = forward_slashes value
      in if text = [] \<or> text = ''.'' \<or> text = ''/''
         then Inl (facts_error ''owned path must be a non-empty repository-relative path'')
         else if starts_with text ''/'' \<or> (length text \<ge> 2 \<and> text ! 1 = CHR '':'')
         then Inl (facts_error ''owned path must be repository-relative, not absolute'')
         else bindE (collapse_parts [] (split_on CHR ''/'' text)) (\<lambda>parts.
           if parts = [] then Inl (facts_error ''owned path resolves to an empty path'')
           else Inr (join_with ''/'' parts)))"

text \<open>\<^verbatim>\<open>posixpath.normpath\<close>: two leading slashes stay, one or more than two become one.\<close>

definition leading_slashes :: "string \<Rightarrow> nat" where
  "leading_slashes s =
     (if \<not> starts_with s ''/'' then 0
      else if starts_with s ''//'' \<and> \<not> starts_with s ''///'' then 2 else 1)"

definition norm_step :: "nat \<Rightarrow> string \<Rightarrow> string list \<Rightarrow> string list" where
  "norm_step slashes part comps =
     (if part = [] \<or> part = ''.'' then comps
      else if part \<noteq> ''..'' \<or> (slashes = 0 \<and> comps = []) \<or> (comps \<noteq> [] \<and> last comps = ''..'')
      then comps @ [part]
      else if comps \<noteq> [] then butlast comps else comps)"

definition posix_normpath :: "string \<Rightarrow> string" where
  "posix_normpath s =
     (if s = [] then ''.''
      else (let n = leading_slashes s;
                path = replicate n CHR ''/'' @ join_with ''/'' (fold (norm_step n) (split_on CHR ''/'' s) [])
            in if path = [] then ''.'' else path))"

definition canonicalize_worktree :: "string \<Rightarrow> facts_error + string" where
  "canonicalize_worktree value =
     (let text = forward_slashes value
      in if \<not> starts_with text ''/'' then Inl (facts_error ''worktree must be an absolute path'')
         else (let n0 = posix_normpath text;
                   n1 = (if n0 \<noteq> ''/'' \<and> ends_with n0 ''/'' then rstrip_char CHR ''/'' n0 else n0)
               in if n1 = [] \<or> n1 = ''.'' \<or> n1 = ''/''
                  then Inl (facts_error ''worktree canonicalization produced an invalid path'')
                  else Inr n1))"

definition with_slash :: "string \<Rightarrow> string" where
  "with_slash a = (if ends_with a ''/'' then a else a @ ''/'')"

definition paths_overlap :: "string \<Rightarrow> string \<Rightarrow> facts_error + bool" where
  "paths_overlap left right =
     bindE (normalize_path left) (\<lambda>a.
     bindE (normalize_path right) (\<lambda>b.
       Inr (a = b \<or> starts_with a (with_slash b) \<or> starts_with b (with_slash a))))"

section \<open>Claims\<close>

record claim =
  cl_claim_id :: string
  cl_repository :: string
  cl_workstream :: string
  cl_intent_revision :: int
  cl_worktree :: string
  cl_owned_paths :: "string list"
  cl_status :: string
  cl_shared_runtime :: "(string \<times> bool) option"
  cl_dirty :: bool
  cl_unpushed :: bool
  cl_ambiguous :: bool

definition item_label :: "string \<Rightarrow> nat \<Rightarrow> string" where
  "item_label label i = label @ ''['' @ nat_text i @ '']''"

fun parse_owned_paths :: "string \<Rightarrow> nat \<Rightarrow> json list \<Rightarrow> facts_error + string list" where
  "parse_owned_paths label i [] = Inr []"
| "parse_owned_paths label i (item # rest) =
     bindE (require_str item (item_label label i)) (\<lambda>s.
     bindE (normalize_path s) (\<lambda>p.
     bindE (parse_owned_paths label (Suc i) rest) (\<lambda>ps. Inr (p # ps))))"

definition parse_runtime :: "string \<Rightarrow> json \<Rightarrow> facts_error + (string \<times> bool) option" where
  "parse_runtime label v =
     (if v = JNull then Inr None
      else bindE (require_mapping v label) (\<lambda>m.
           bindE (require_str (jget m ''id'') (label @ ''.id'')) (\<lambda>i.
           bindE (require_bool (jget m ''isolated'') (label @ ''.isolated'')) (\<lambda>isolated.
             Inr (Some (i, isolated))))))"

definition parse_claim :: "string \<Rightarrow> json \<Rightarrow> facts_error + claim" where
  "parse_claim label raw =
     bindE (require_mapping raw label) (\<lambda>data.
     bindE (require_str (jget data ''claim_id'') (label @ ''.claim_id'')) (\<lambda>cid.
     bindE (require_str (jget data ''repository'') (label @ ''.repository'')) (\<lambda>repository.
     bindE (require_str (jget data ''workstream'') (label @ ''.workstream'')) (\<lambda>workstream.
     bindE (require_int (jget data ''intent_revision'') (label @ ''.intent_revision'') (Some 1)) (\<lambda>intent.
     bindE (require_str (jget data ''worktree'') (label @ ''.worktree'')) (\<lambda>worktree0.
     bindE (canonicalize_worktree worktree0) (\<lambda>worktree.
     bindE (require_list (jget_or data ''owned_paths'' (JList [])) (label @ ''.owned_paths'')) (\<lambda>owned_raw.
     bindE (parse_owned_paths (label @ ''.owned_paths'') 0 owned_raw) (\<lambda>owned.
     bindE (require_str (jget_or data ''status'' (JStr ''CLAIMED'')) (label @ ''.status'')) (\<lambda>status0.
     if py_upper status0 \<notin> set KNOWN_CLAIM_STATUSES
     then Inl (facts_error (label @ ''.status is unknown: '' @ py_upper status0))
     else bindE (parse_runtime (label @ ''.shared_runtime'') (jget data ''shared_runtime'')) (\<lambda>runtime.
     bindE (require_bool (jget_or data ''dirty'' (JBool False)) (label @ ''.dirty'')) (\<lambda>dirty.
     bindE (require_bool (jget_or data ''unpushed'' (JBool False)) (label @ ''.unpushed'')) (\<lambda>unpushed.
     bindE (require_bool (jget_or data ''ambiguous'' (JBool False)) (label @ ''.ambiguous'')) (\<lambda>ambiguous.
       Inr \<lparr>cl_claim_id = cid, cl_repository = repository, cl_workstream = workstream,
            cl_intent_revision = intent, cl_worktree = worktree, cl_owned_paths = owned,
            cl_status = py_upper status0, cl_shared_runtime = runtime, cl_dirty = dirty,
            cl_unpushed = unpushed, cl_ambiguous = ambiguous\<rparr>))))))))))))))"

fun parse_claims :: "string \<Rightarrow> nat \<Rightarrow> json list \<Rightarrow> facts_error + claim list" where
  "parse_claims label i [] = Inr []"
| "parse_claims label i (item # rest) =
     bindE (parse_claim (item_label label i) item) (\<lambda>c.
     bindE (parse_claims label (Suc i) rest) (\<lambda>cs. Inr (c # cs)))"

definition parse_host_resource :: "json \<Rightarrow> facts_error + string \<times> int" where
  "parse_host_resource raw =
     bindE (require_mapping raw ''host_resource'') (\<lambda>data.
     bindE (require_str (jget data ''result'') ''host_resource.result'') (\<lambda>result0.
     let result = py_upper result0 in
     if result \<notin> {''PASS'', ''WARN'', ''BLOCK''}
     then Inl (facts_error ''host_resource.result must be PASS, WARN, or BLOCK'')
     else bindE (require_int (jget data ''exit_code'') ''host_resource.exit_code'' (Some 0)) (\<lambda>code.
       if result \<in> set HOST_OK \<and> code \<noteq> 0
       then Inl (facts_error ''host_resource PASS/WARN requires exit_code 0'')
       else if result = ''BLOCK'' \<and> code \<notin> {2, 3}
       then Inl (facts_error ''host_resource BLOCK requires exit_code 2 or 3'')
       else Inr (result, code))))"

definition active :: "claim \<Rightarrow> bool" where
  "active c = (cl_status c \<in> set ACTIVE_CLAIM_STATUSES)"

definition active_claims :: "claim list \<Rightarrow> claim list" where
  "active_claims cs = filter active cs"

definition claim_identity_key :: "claim \<Rightarrow> string \<times> string \<times> int" where
  "claim_identity_key c = (cl_repository c, cl_workstream c, cl_intent_revision c)"

section \<open>Reports\<close>

type_synonym report = "(string \<times> string) list"

definition deny :: "string \<Rightarrow> string \<Rightarrow> report \<Rightarrow> report" where
  "deny reason deny_class extra =
     [(''DECISION'', ''DENY''), (''EXIT_CODE'', ''2''), (''REASON'', reason), (''DENY_CLASS'', deny_class),
      (''MUTATES_EXISTING_SESSIONS'', ''NO'')] @ extra"

definition allow :: "string \<Rightarrow> report \<Rightarrow> report" where
  "allow reason extra =
     [(''DECISION'', ''ALLOW''), (''EXIT_CODE'', ''0''), (''REASON'', reason), (''DENY_CLASS'', ''NONE''),
      (''MUTATES_EXISTING_SESSIONS'', ''NO'')] @ extra"

definition admit_fields :: "claim \<Rightarrow> claim list \<Rightarrow> int \<Rightarrow> string \<Rightarrow> report" where
  "admit_fields proposed existing wip_limit host =
     [(''PROPOSED_CLAIM_ID'', cl_claim_id proposed),
      (''ACTIVE_CLAIM_COUNT'', nat_text (length (active_claims existing))),
      (''WIP_LIMIT'', int_text wip_limit), (''HOST_RESOURCE_RESULT'', host)]"

section \<open>Admission\<close>

text \<open>The loop over the existing claims: \<open>Some (reason, class)\<close> is a denial.\<close>

fun check_existing :: "string list \<Rightarrow> claim list \<Rightarrow> (string \<times> string) option" where
  "check_existing seen [] = None"
| "check_existing seen (c # cs) =
     (if cl_claim_id c \<in> set seen
      then Some (''duplicate claim_id '' @ cl_claim_id c @ '' in existing claims'', ''AMBIGUOUS_CLAIM'')
      else if cl_ambiguous c \<and> active c
      then Some (''existing claim '' @ cl_claim_id c @ '' is ambiguous'', ''AMBIGUOUS_CLAIM'')
      else check_existing (cl_claim_id c # seen) cs)"

definition runtime_conflict :: "claim \<Rightarrow> claim \<Rightarrow> bool" where
  "runtime_conflict proposed c =
     (case (cl_shared_runtime proposed, cl_shared_runtime c) of
        (Some (i, isolated), Some (j, isolated2)) \<Rightarrow> i = j \<and> (\<not> isolated \<or> \<not> isolated2)
      | _ \<Rightarrow> False)"

definition runtime_id :: "claim \<Rightarrow> string" where
  "runtime_id c = (case cl_shared_runtime c of Some (i, _) \<Rightarrow> i | None \<Rightarrow> [])"

text \<open>The two nested loops over the owned paths: the first overlapping pair.\<close>

fun first_overlap_right :: "string \<Rightarrow> string list \<Rightarrow> facts_error + (string \<times> string) option" where
  "first_overlap_right left [] = Inr None"
| "first_overlap_right left (right # rs) =
     bindE (paths_overlap left right) (\<lambda>overlap.
       if overlap then Inr (Some (left, right)) else first_overlap_right left rs)"

fun first_overlap :: "string list \<Rightarrow> string list \<Rightarrow> facts_error + (string \<times> string) option" where
  "first_overlap [] rights = Inr None"
| "first_overlap (left # ls) rights =
     bindE (first_overlap_right left rights) (\<lambda>found.
       case found of Some p \<Rightarrow> Inr (Some p) | None \<Rightarrow> first_overlap ls rights)"

definition claim_conflict :: "claim \<Rightarrow> claim \<Rightarrow> facts_error + (string \<times> string) option" where
  "claim_conflict proposed c =
     (if runtime_conflict proposed c
      then Inr (Some (''shared runtime '' @ runtime_id proposed @ '' is not isolated for both claims'', ''SHARED_RUNTIME''))
      else if cl_repository c \<noteq> cl_repository proposed then Inr None
      else if cl_worktree c = cl_worktree proposed
      then Inr (Some (''proposed worktree overlaps active claim '' @ cl_claim_id c, ''SHARED_WORKTREE''))
      else if claim_identity_key c = claim_identity_key proposed
      then Inr (Some (''repository/workstream/intent_revision claim identity already held'', ''OVERLAPPING_CLAIM''))
      else if cl_workstream c = cl_workstream proposed \<and> cl_intent_revision c \<noteq> cl_intent_revision proposed
      then Inr (Some (''stale or conflicting intent_revision against claim '' @ cl_claim_id c, ''STALE_INTENT_REVISION''))
      else if cl_owned_paths proposed = [] \<or> cl_owned_paths c = []
      then Inr (Some (''insufficient ownership facts to prove same-repository independence'', ''INSUFFICIENT_OWNERSHIP''))
      else bindE (first_overlap (cl_owned_paths proposed) (cl_owned_paths c)) (\<lambda>found.
        case found of
          None \<Rightarrow> Inr None
        | Some (left, right) \<Rightarrow>
            Inr (Some (''owned path '' @ py_repr left @ '' overlaps claim '' @ cl_claim_id c @ '' path '' @ py_repr right,
                       ''OVERLAPPING_PATHS''))))"

fun check_live :: "claim \<Rightarrow> claim list \<Rightarrow> facts_error + (string \<times> string) option" where
  "check_live proposed [] = Inr None"
| "check_live proposed (c # cs) =
     bindE (claim_conflict proposed c) (\<lambda>found.
       case found of Some d \<Rightarrow> Inr (Some d) | None \<Rightarrow> check_live proposed cs)"

definition admit_decision :: "claim \<Rightarrow> claim list \<Rightarrow> string \<times> int \<Rightarrow> int \<Rightarrow> facts_error + report" where
  "admit_decision proposed existing host wip_limit =
     (let extra = admit_fields proposed existing wip_limit (fst host); live = active_claims existing
      in if cl_ambiguous proposed
         then Inr (deny ''proposed claim is marked ambiguous'' ''AMBIGUOUS_CLAIM'' extra)
         else if \<not> active proposed
         then Inr (deny (''proposed claim status '' @ cl_status proposed @ '' is not an active worker status'')
                ''AMBIGUOUS_CLAIM'' extra)
         else if fst host \<notin> set HOST_OK
         then Inr (deny (''host resource admission blocked with result '' @ fst host @ '' exit '' @ int_text (snd host))
                ''HOST_BUDGET'' extra)
         else (case check_existing [] existing of
                 Some (reason, cls) \<Rightarrow> Inr (deny reason cls extra)
               | None \<Rightarrow>
         if cl_claim_id proposed \<in> set (map cl_claim_id existing)
         then Inr (deny (''proposed claim_id '' @ cl_claim_id proposed @ '' already exists'') ''AMBIGUOUS_CLAIM'' extra)
         else if live \<noteq> [] \<and> int (length live) \<ge> wip_limit
         then Inr (deny (''active claims '' @ nat_text (length live) @ '' already meet wip_limit '' @ int_text wip_limit)
                ''WIP_LIMIT'' extra)
         else bindE (check_live proposed live) (\<lambda>found.
           case found of
             Some (reason, cls) \<Rightarrow> Inr (deny reason cls extra)
           | None \<Rightarrow> Inr (allow ''proposed worker is independent under claim/worktree/resource facts'' extra))))"

definition evaluate_admit :: "jobj \<Rightarrow> facts_error + report" where
  "evaluate_admit request =
     bindE (parse_claim ''proposed'' (jget request ''proposed'')) (\<lambda>proposed.
     bindE (require_list (jget_or request ''existing_claims'' (JList [])) ''existing_claims'') (\<lambda>existing_raw.
     bindE (parse_claims ''existing_claims'' 0 existing_raw) (\<lambda>existing.
     bindE (parse_host_resource (jget request ''host_resource'')) (\<lambda>host.
     bindE (require_int (jget_or request ''wip_limit'' (JInt 1)) ''wip_limit'' (Some 1)) (\<lambda>wip_limit.
       admit_decision proposed existing host wip_limit)))))"

section \<open>Handoff sizing\<close>

definition split_reasons :: "int \<Rightarrow> bool \<Rightarrow> bool \<Rightarrow> bool \<Rightarrow> string \<Rightarrow> bool \<Rightarrow> string list" where
  "split_reasons outcomes unrelated gates unclear band budget_ok =
     (if outcomes > 1 then [''multiple primary outcomes''] else []) @
     (if unrelated then [''unrelated domains''] else []) @
     (if gates then [''distinct approval gates''] else []) @
     (if unclear then [''unclear rollback boundaries''] else []) @
     (if band = ''oversize'' then [''effort_band oversize''] else []) @
     (if \<not> budget_ok then [''insufficient context budget for implementation plus validation''] else [])"

definition size_decision :: "string list \<Rightarrow> string \<Rightarrow> bool \<Rightarrow> string \<times> string" where
  "size_decision reasons band adjacent =
     (if reasons \<noteq> [] then (''SPLIT'', join_with ''; '' reasons)
      else if band = ''micro'' \<and> adjacent
      then (''BATCH'', ''micro findings share subsystem/context/validation oracle'')
      else (''KEEP'',
        if band = ''micro'' \<and> \<not> adjacent
        then ''lone micro finding has no adjacent batch partner; keep as one handoff''
        else ''one coherent independently verifiable outcome''))"

definition evaluate_size :: "jobj \<Rightarrow> facts_error + report" where
  "evaluate_size request =
     bindE (require_int (jget request ''primary_outcome_count'') ''primary_outcome_count'' (Some 1)) (\<lambda>outcomes.
     bindE (require_bool (jget request ''adjacent_share_oracle'') ''adjacent_share_oracle'') (\<lambda>adjacent.
     bindE (require_bool (jget request ''unrelated_domains'') ''unrelated_domains'') (\<lambda>unrelated.
     bindE (require_bool (jget request ''distinct_approval_gates'') ''distinct_approval_gates'') (\<lambda>gates.
     bindE (require_bool (jget request ''unclear_rollback'') ''unclear_rollback'') (\<lambda>unclear.
     bindE (require_str (jget request ''effort_band'') ''effort_band'') (\<lambda>band0.
     let band = py_lower band0 in
     if band \<notin> set EFFORT_BANDS then Inl (facts_error ''effort_band must be micro, keep, or oversize'')
     else bindE (require_bool (jget request ''context_budget_ok'') ''context_budget_ok'') (\<lambda>budget_ok.
     bindE (require_int (jget_or request ''included_issue_count'' (JInt 1)) ''included_issue_count'' (Some 1)) (\<lambda>issues.
     let (decision, reason) =
       size_decision (split_reasons outcomes unrelated gates unclear band budget_ok) band adjacent in
     Inr [(''DECISION'', decision), (''EXIT_CODE'', ''0''), (''REASON'', reason),
          (''WORK_PACKET_SIZING'', decision), (''PRIMARY_OUTCOME_COUNT'', int_text outcomes),
          (''EFFORT_BAND'', band), (''CONTEXT_BUDGET_OK'', if budget_ok then ''YES'' else ''NO''),
          (''INCLUDED_ISSUE_COUNT'', int_text issues), (''MUTATES_EXISTING_SESSIONS'', ''NO'')]))))))))"

section \<open>Release\<close>

definition release_decision :: "string \<Rightarrow> string \<Rightarrow> claim list \<Rightarrow> report" where
  "release_decision action cid existing =
     (let extra = [(''ACTION'', action), (''CLAIM_ID'', cid)]
      in case filter (\<lambda>c. cl_claim_id c = cid) existing of
           [] \<Rightarrow> deny (''claim_id '' @ cid @ '' not found'') ''AMBIGUOUS_CLAIM'' extra
         | [c] \<Rightarrow>
             if cl_ambiguous c
             then deny (''claim '' @ cid @ '' is ambiguous; reconcile before release'') ''AMBIGUOUS_CLAIM'' extra
             else if action = ''release-claim'' then
               (if cl_status c \<notin> set RELEASEABLE_CLAIM_STATUSES
                then deny (''claim '' @ cid @ '' status '' @ cl_status c @ '' is not releasable'') ''ACTIVE_CLAIM'' extra
                else allow (''claim '' @ cid @ '' may release ownership without mutating unrelated sessions'') extra)
             else if cl_dirty c \<or> cl_unpushed c \<or> cl_ambiguous c
             then deny (''refusing worktree cleanup for claim '' @ cid @ '' with dirty/unpushed/ambiguous state'')
                    ''UNSAFE_CLEANUP'' extra
             else if cl_status c \<notin> set RELEASEABLE_CLAIM_STATUSES
             then deny (''claim '' @ cid @ '' status '' @ cl_status c @ '' is not cleanup-eligible'') ''ACTIVE_CLAIM'' extra
             else allow (''claim '' @ cid @ '' worktree cleanup is safe under reconciled facts'') extra
         | _ \<Rightarrow> deny (''claim_id '' @ cid @ '' matches multiple records'') ''AMBIGUOUS_CLAIM'' extra)"

definition evaluate_release :: "jobj \<Rightarrow> facts_error + report" where
  "evaluate_release request =
     bindE (require_str (jget request ''action'') ''action'') (\<lambda>action0.
     let action = py_lower action0 in
     if action \<notin> {''release-claim'', ''cleanup-worktree''}
     then Inl (facts_error ''action must be release-claim or cleanup-worktree'')
     else bindE (require_str (jget request ''claim_id'') ''claim_id'') (\<lambda>cid.
     bindE (require_list (jget_or request ''existing_claims'' (JList [])) ''existing_claims'') (\<lambda>existing_raw.
     bindE (parse_claims ''existing_claims'' 0 existing_raw) (\<lambda>existing.
       Inr (release_decision action cid existing)))))"

section \<open>Printed reports\<close>

definition report_line :: "string \<Rightarrow> string \<Rightarrow> string" where
  "report_line k v = k @ ''='' @ py_strip (replace_char NL '' '' v)"

definition admission_report :: "report \<Rightarrow> string list \<Rightarrow> string" where
  "admission_report rep keys =
     (let first = concat (map (\<lambda>k. case map_of rep k of None \<Rightarrow> [] | Some v \<Rightarrow> [report_line k v]) keys);
          rest = concat (map (\<lambda>(k, v). if k \<in> set keys then [] else [report_line k v]) rep)
      in join_with [NL] (first @ rest) @ [NL])"

definition admission_failure :: "string \<Rightarrow> string \<Rightarrow> string \<times> int" where
  "admission_failure reason deny_class =
     (admission_report
        [(''DECISION'', ''DENY''), (''EXIT_CODE'', ''3''), (''REASON'', reason), (''DENY_CLASS'', deny_class),
         (''MUTATES_EXISTING_SESSIONS'', ''NO'')] REPORT_KEYS_ADMIT, 3)"

definition report_exit_code :: "report \<Rightarrow> int" where
  "report_exit_code rep =
     (case map_of rep ''EXIT_CODE'' of
        Some v \<Rightarrow> (case py_int v of Some n \<Rightarrow> n | None \<Rightarrow> 0)
      | None \<Rightarrow> 0)"

definition run_command :: "string \<Rightarrow> jobj \<Rightarrow> facts_error + string \<times> int" where
  "run_command command payload =
     (if command = ''admit''
      then bindE (evaluate_admit payload) (\<lambda>r. Inr (admission_report r REPORT_KEYS_ADMIT, report_exit_code r))
      else if command = ''size''
      then bindE (evaluate_size payload) (\<lambda>r. Inr (admission_report r REPORT_KEYS_SIZE, report_exit_code r))
      else if command = ''release''
      then bindE (evaluate_release payload) (\<lambda>r. Inr (admission_report r REPORT_KEYS_RELEASE, report_exit_code r))
      else Inl (facts_error (''unknown command '' @ command)))"

definition admission_main :: "string \<Rightarrow> facts_error + json \<Rightarrow> string \<times> int" where
  "admission_main command loaded =
     (case bindE loaded (\<lambda>v. case v of
             JObj payload \<Rightarrow> run_command command payload
           | _ \<Rightarrow> Inl (facts_error ''request JSON must be an object'')) of
        Inr out \<Rightarrow> out
      | Inl (FactsError reason deny_class) \<Rightarrow> admission_failure reason deny_class)"

end
