(* ===== verification/AdmissionProps.thy ===== *)
theory AdmissionProps
  imports Admission "HOL-Library.Sublist"
begin

text \<open>
  What admission promises. Normalised owned paths are proper lists of names, and the overlap test on
  texts is containment of directories; a claim is admitted exactly when it is independent of every
  live claim and there is room; so a board of claims that only admission adds to keeps its limit and
  its claims stay independent; nothing unsafe is released or cleaned up.
\<close>

section \<open>Paths\<close>

definition comps_ok :: "string list \<Rightarrow> bool" where
  "comps_ok ps = (\<forall>p \<in> set ps. p \<noteq> [] \<and> p \<noteq> ''.'' \<and> p \<noteq> ''..'' \<and> CHR ''/'' \<notin> set p)"

lemma collapse_ok:
  "collapse_parts acc xs = Inr ys \<Longrightarrow> comps_ok acc \<Longrightarrow> \<forall>x \<in> set xs. CHR ''/'' \<notin> set x \<Longrightarrow> comps_ok ys"
proof (induction acc xs rule: collapse_parts.induct)
  case (2 acc part rest)
  have "comps_ok (butlast acc)" using 2(5) by (auto simp: comps_ok_def dest: in_set_butlastD)
  moreover have "comps_ok (acc @ [part])" if "part \<noteq> []" "part \<noteq> ''.''" "part \<noteq> ''..''"
    using that 2(5,6) by (auto simp: comps_ok_def)
  ultimately show ?case using 2 by (simp split: if_splits)
qed simp

text \<open>The components of a normalised path.\<close>

definition path_parts :: "string \<Rightarrow> string list" where
  "path_parts a = split_on CHR ''/'' a"

lemma normalize_path_parts:
  assumes "normalize_path v = Inr a"
  shows "comps_ok (path_parts a)" "path_parts a \<noteq> []" "a = join_with ''/'' (path_parts a)"
proof -
  obtain ps where ps: "collapse_parts [] (split_on CHR ''/'' (forward_slashes v)) = Inr ps" "ps \<noteq> []"
      "a = join_with ''/'' ps"
    using assms by (auto simp: normalize_path_def Let_def bindE_Inr_iff split: if_splits)
  have ok: "comps_ok ps"
    by (rule collapse_ok [OF ps(1)]) (auto simp: comps_ok_def dest: split_on_no_sep)
  have "path_parts a = ps"
    unfolding path_parts_def ps(3) by (rule split_join) (use ps(2) ok in \<open>auto simp: comps_ok_def\<close>)
  then show "comps_ok (path_parts a)" "path_parts a \<noteq> []" "a = join_with ''/'' (path_parts a)"
    using ok ps by simp_all
qed

lemma join_ends:
  assumes "ps \<noteq> []" "comps_ok ps"
  shows "\<not> ends_with (join_with ''/'' ps) ''/''" "join_with ''/'' ps \<noteq> []"
proof -
  obtain qs p where ps: "ps = qs @ [p]" using assms(1) by (metis append_butlast_last_id)
  have p: "p \<noteq> []" "CHR ''/'' \<notin> set p" using assms(2) by (auto simp: ps comps_ok_def)
  have "\<exists>pre. join_with ''/'' ps = pre @ p"
  proof (cases "qs = []")
    case False
    then have "join_with ''/'' ps = (join_with ''/'' qs @ ''/'') @ p" unfolding ps by (simp add: join_append)
    then show ?thesis by blast
  qed (simp add: ps)
  then obtain pre where "join_with ''/'' ps = pre @ p" by blast
  moreover have "last p \<noteq> CHR ''/''" using p last_in_set by metis
  ultimately show "\<not> ends_with (join_with ''/'' ps) ''/''" "join_with ''/'' ps \<noteq> []"
    using p(1) by (auto simp: ends_with_iff) (metis last_appendR last_snoc)
qed

text \<open>A text prefix that ends at a slash is a prefix of the component list.\<close>

lemma slash_prefix:
  assumes "ps \<noteq> []" "comps_ok ps" "qs \<noteq> []" "comps_ok qs"
  shows "starts_with (join_with ''/'' ps) (join_with ''/'' qs @ ''/'') \<longleftrightarrow> strict_prefix qs ps"
proof
  assume "starts_with (join_with ''/'' ps) (join_with ''/'' qs @ ''/'')"
  then obtain r where r: "join_with ''/'' ps = join_with ''/'' qs @ CHR ''/'' # r"
    by (auto simp: starts_with_iff)
  have nosep: "\<forall>p \<in> set xs. CHR ''/'' \<notin> set p" if "comps_ok xs" for xs using that by (simp add: comps_ok_def)
  have "join_with ''/'' ps = join_with ''/'' (qs @ split_on CHR ''/'' r)"
    using r assms(3) by (simp add: join_append join_split_on)
  then have "ps = qs @ split_on CHR ''/'' r"
    using assms nosep split_on_no_sep by (intro join_inj [where c = "CHR ''/''"]) auto
  then show "strict_prefix qs ps" by (auto simp: strict_prefix_def prefix_def)
next
  assume "strict_prefix qs ps"
  then obtain z zs where "ps = qs @ z # zs" by (rule strict_prefixE')
  then have "join_with ''/'' ps = (join_with ''/'' qs @ ''/'') @ join_with ''/'' (z # zs)"
    using assms(3) by (simp add: join_append)
  then show "starts_with (join_with ''/'' ps) (join_with ''/'' qs @ ''/'')"
    unfolding starts_with_iff by blast
qed

lemma paths_overlap_parts:
  assumes "normalize_path left = Inr a" "normalize_path right = Inr b"
  shows "paths_overlap left right =
    Inr (prefix (path_parts a) (path_parts b) \<or> prefix (path_parts b) (path_parts a))"
proof -
  note A = normalize_path_parts [OF assms(1)] and B = normalize_path_parts [OF assms(2)]
  have slash: "with_slash x = x @ ''/''" if "normalize_path v = Inr x" for v x
    using normalize_path_parts [OF that] join_ends(1) unfolding with_slash_def by metis
  have "starts_with a (with_slash b) \<longleftrightarrow> strict_prefix (path_parts b) (path_parts a)"
    using slash_prefix [OF A(2,1) B(2,1)] A(3) B(3) slash [OF assms(2)] by simp
  moreover have "starts_with b (with_slash a) \<longleftrightarrow> strict_prefix (path_parts a) (path_parts b)"
    using slash_prefix [OF B(2,1) A(2,1)] A(3) B(3) slash [OF assms(1)] by simp
  moreover have "a = b \<longleftrightarrow> path_parts a = path_parts b" using A(3) B(3) by metis
  ultimately show ?thesis
    by (auto simp: paths_overlap_def assms strict_prefix_def)
qed

section \<open>Independence\<close>

definition owned_disjoint :: "claim \<Rightarrow> claim \<Rightarrow> bool" where
  "owned_disjoint p c =
     (\<forall>l \<in> set (cl_owned_paths p). \<forall>r \<in> set (cl_owned_paths c). paths_overlap l r = Inr False)"

definition independent :: "claim \<Rightarrow> claim \<Rightarrow> bool" where
  "independent p c =
     (\<not> runtime_conflict p c \<and>
      (cl_repository c = cl_repository p \<longrightarrow>
         cl_worktree c \<noteq> cl_worktree p \<and> cl_workstream c \<noteq> cl_workstream p \<and>
         cl_owned_paths p \<noteq> [] \<and> cl_owned_paths c \<noteq> [] \<and> owned_disjoint p c))"

lemma first_overlap_right_None:
  "first_overlap_right l rs = Inr None \<longleftrightarrow> (\<forall>r \<in> set rs. paths_overlap l r = Inr False)"
  by (induction rs) (auto simp: bindE_Inr_iff)

lemma first_overlap_None:
  "first_overlap ls rs = Inr None \<longleftrightarrow> (\<forall>l \<in> set ls. \<forall>r \<in> set rs. paths_overlap l r = Inr False)"
  by (induction ls) (auto simp: bindE_Inr_iff first_overlap_right_None split: option.splits)

lemma claim_conflict_None: "claim_conflict p c = Inr None \<longleftrightarrow> independent p c"
  by (auto simp: claim_conflict_def independent_def owned_disjoint_def claim_identity_key_def bindE_Inr_iff
      first_overlap_None split: option.splits)

lemma check_live_None: "check_live p cs = Inr None \<longleftrightarrow> (\<forall>c \<in> set cs. independent p c)"
proof (induction cs)
  case (Cons c cs)
  have "check_live p (c # cs) = Inr None \<longleftrightarrow> claim_conflict p c = Inr None \<and> check_live p cs = Inr None"
    by (auto simp: bindE_Inr_iff split: option.splits)
  then show ?case by (simp add: Cons.IH claim_conflict_None)
qed simp

lemma check_existing_None:
  "check_existing seen cs = None \<longleftrightarrow>
     distinct (map cl_claim_id cs) \<and> set (map cl_claim_id cs) \<inter> set seen = {} \<and>
     (\<forall>c \<in> set cs. active c \<longrightarrow> \<not> cl_ambiguous c)"
  by (induction seen cs rule: check_existing.induct) auto

definition decided :: "string \<Rightarrow> facts_error + report \<Rightarrow> bool" where
  "decided d r = (case r of Inl e \<Rightarrow> False | Inr rep \<Rightarrow> map_of rep ''DECISION'' = Some d)"

lemma decided_simps:
  "decided ''ALLOW'' (Inr (deny a b x)) = False" "decided ''ALLOW'' (Inr (allow a x)) = True"
  by (simp_all add: decided_def deny_def allow_def)

lemma admit_decision_allow:
  "decided ''ALLOW'' (admit_decision p existing host wip_limit) \<longleftrightarrow>
     \<not> cl_ambiguous p \<and> active p \<and> fst host \<in> set HOST_OK \<and>
     distinct (map cl_claim_id existing) \<and> cl_claim_id p \<notin> set (map cl_claim_id existing) \<and>
     (\<forall>c \<in> set existing. active c \<longrightarrow> \<not> cl_ambiguous c) \<and>
     (active_claims existing = [] \<or> int (length (active_claims existing)) < wip_limit) \<and>
     (\<forall>c \<in> set (active_claims existing). independent p c)"
proof -
  let ?live = "active_claims existing"
  have bind: "decided ''ALLOW'' (bindE (check_live p ?live) (\<lambda>found. case found of
        Some (reason, cls) \<Rightarrow> Inr (deny reason cls x) | None \<Rightarrow> Inr (allow t x)))
      \<longleftrightarrow> (\<forall>c \<in> set ?live. independent p c)" for t x
    unfolding check_live_None [symmetric]
    by (cases "check_live p ?live") (auto simp: decided_simps decided_def deny_def allow_def split: option.splits)
  have none: "check_existing [] existing = None \<longleftrightarrow>
      distinct (map cl_claim_id existing) \<and> (\<forall>c \<in> set existing. active c \<longrightarrow> \<not> cl_ambiguous c)"
    by (simp add: check_existing_None)
  show ?thesis
  proof (cases "check_existing [] existing")
    case None
    then show ?thesis using none
      by (simp add: admit_decision_def Let_def decided_simps bind not_le)
  next
    case (Some d)
    then have "\<not> (distinct (map cl_claim_id existing) \<and> (\<forall>c \<in> set existing. active c \<longrightarrow> \<not> cl_ambiguous c))"
      using none by simp
    then show ?thesis using Some
      unfolding admit_decision_def Let_def by (cases d) (simp add: decided_simps)
  qed
qed

section \<open>Sample claims\<close>

definition demo_claim :: "string \<Rightarrow> string \<Rightarrow> string \<Rightarrow> claim" where
  "demo_claim cid tree owned = \<lparr>cl_claim_id = cid, cl_repository = ''o/r'', cl_workstream = cid,
     cl_intent_revision = 1, cl_worktree = tree, cl_owned_paths = [owned], cl_status = ''ACTIVE'',
     cl_shared_runtime = None, cl_dirty = False, cl_unpushed = False, cl_ambiguous = False\<rparr>"

definition demo_claim_json :: "string \<Rightarrow> string \<Rightarrow> string \<Rightarrow> json" where
  "demo_claim_json cid tree owned = JObj [(''claim_id'', JStr cid), (''repository'', JStr ''o/r''),
     (''workstream'', JStr cid), (''intent_revision'', JInt 1), (''worktree'', JStr tree),
     (''owned_paths'', JList [JStr owned]), (''status'', JStr ''active'')]"

definition demo_admit :: jobj where
  "demo_admit = [(''proposed'', demo_claim_json ''b'' ''/t/x/../b'' ''tools/./b''),
     (''existing_claims'', JList [demo_claim_json ''a'' ''/t/a'' ''tools/a'']),
     (''host_resource'', JObj [(''result'', JStr ''PASS''), (''exit_code'', JInt 0)]), (''wip_limit'', JInt 2)]"

section \<open>Claims\<close>

text \<open>
  C38: the overlap test on texts is containment of directories: for two owned paths that normalise,
  it holds exactly when the components of one are a prefix of the components of the other, and the
  components of a normalised path are non-empty names without a slash, none of them a dot or two dots.
\<close>

theorem paths_overlap_is_containment:
  assumes "normalize_path left = Inr a" "normalize_path right = Inr b"
  shows "paths_overlap left right =
      Inr (prefix (path_parts a) (path_parts b) \<or> prefix (path_parts b) (path_parts a)) \<and>
    comps_ok (path_parts a) \<and> path_parts a \<noteq> [] \<and> a = join_with ''/'' (path_parts a)"
  using paths_overlap_parts [OF assms] normalize_path_parts [OF assms(1)] by simp

theorem paths_overlap_is_containment_witness:
  "paths_overlap ''a/../b'' ''b/c'' = Inr True \<and> paths_overlap ''a/b'' ''a/bc'' = Inr False"
proof -
  have n: "normalize_path ''a/../b'' = Inr ''b''" "normalize_path ''b/c'' = Inr ''b/c''"
    "normalize_path ''a/b'' = Inr ''a/b''" "normalize_path ''a/bc'' = Inr ''a/bc''" by code_simp+
  show ?thesis
    using paths_overlap_is_containment [OF n(1,2)] paths_overlap_is_containment [OF n(3,4)]
    by (simp add: path_parts_def)
qed

text \<open>
  C39: a proposed claim is admitted exactly when it is unambiguous and active, the host has room, the
  existing claims have distinct ids, none of them the proposed one, no live claim is ambiguous, the
  live claims leave room under the limit, and the proposal is independent of every live claim: no
  runtime shared without isolation, and in the same repository another worktree, another workstream
  and disjoint owned paths, known on both sides.
\<close>

theorem admitted_iff_independent:
  assumes "parse_claim ''proposed'' (jget request ''proposed'') = Inr p"
    and "jget_or request ''existing_claims'' (JList []) = JList raw"
    and "parse_claims ''existing_claims'' 0 raw = Inr existing"
    and "parse_host_resource (jget request ''host_resource'') = Inr host"
    and "jget_or request ''wip_limit'' (JInt 1) = JInt wip_limit" "1 \<le> wip_limit"
  shows "decided ''ALLOW'' (evaluate_admit request) \<longleftrightarrow>
     \<not> cl_ambiguous p \<and> cl_status p \<in> set ACTIVE_CLAIM_STATUSES \<and> fst host \<in> {''PASS'', ''WARN''} \<and>
     distinct (map cl_claim_id existing) \<and> cl_claim_id p \<notin> set (map cl_claim_id existing) \<and>
     (\<forall>c \<in> set existing. active c \<longrightarrow> \<not> cl_ambiguous c) \<and>
     (active_claims existing = [] \<or> int (length (active_claims existing)) < wip_limit) \<and>
     (\<forall>c \<in> set (active_claims existing). independent p c)"
  using assms admit_decision_allow [of p existing host wip_limit]
  by (simp add: evaluate_admit_def require_list_def require_int_def active_def HOST_OK_def)

theorem admitted_iff_independent_witness: "decided ''ALLOW'' (evaluate_admit demo_admit)"
proof -
  have p: "parse_claim ''proposed'' (jget demo_admit ''proposed'') = Inr (demo_claim ''b'' ''/t/b'' ''tools/b'')"
    by code_simp
  have raw: "jget_or demo_admit ''existing_claims'' (JList []) = JList [demo_claim_json ''a'' ''/t/a'' ''tools/a'']"
    by code_simp
  have ex: "parse_claims ''existing_claims'' 0 [demo_claim_json ''a'' ''/t/a'' ''tools/a''] =
      Inr [demo_claim ''a'' ''/t/a'' ''tools/a'']" by code_simp
  have host: "parse_host_resource (jget demo_admit ''host_resource'') = Inr (''PASS'', 0)" by code_simp
  have lim: "jget_or demo_admit ''wip_limit'' (JInt 1) = JInt 2" by code_simp
  show ?thesis unfolding admitted_iff_independent [OF p raw ex host lim, simplified] by code_simp
qed

section \<open>A board of claims\<close>

text \<open>
  A list of claims kept by the tool's answers: a proposal is appended when it is admitted, a claim is
  removed when its release is allowed, and a live claim may finish.
\<close>

datatype board_event = Propose claim "string \<times> int" | Release string | Finish string string

fun board_step :: "int \<Rightarrow> board_event \<Rightarrow> claim list \<Rightarrow> claim list" where
  "board_step n (Propose p host) cs = (if decided ''ALLOW'' (admit_decision p cs host n) then cs @ [p] else cs)"
| "board_step n (Release cid) cs =
     (if decided ''ALLOW'' (Inr (release_decision ''release-claim'' cid cs))
      then filter (\<lambda>c. cl_claim_id c \<noteq> cid) cs else cs)"
| "board_step n (Finish cid st) cs = map (\<lambda>c. if cl_claim_id c = cid then c\<lparr>cl_status := st\<rparr> else c) cs"

fun event_ok :: "board_event \<Rightarrow> bool" where
  "event_ok (Finish cid st) = (st \<in> set RELEASEABLE_CLAIM_STATUSES)"
| "event_ok _ = True"

definition board_ok :: "int \<Rightarrow> claim list \<Rightarrow> bool" where
  "board_ok n cs =
     (1 \<le> n \<and> distinct (map cl_claim_id cs) \<and> int (length (active_claims cs)) \<le> n \<and>
      (\<forall>c \<in> set (active_claims cs). \<not> cl_ambiguous c) \<and>
      (\<forall>c \<in> set (active_claims cs). \<forall>d \<in> set (active_claims cs). cl_claim_id c \<noteq> cl_claim_id d \<longrightarrow> independent c d))"

lemma overlap_sym: "paths_overlap l r = Inr b \<Longrightarrow> paths_overlap r l = Inr b"
  by (auto simp: paths_overlap_def bindE_Inr_iff)

lemma owned_disjoint_sym: "owned_disjoint c d \<Longrightarrow> owned_disjoint d c"
  unfolding owned_disjoint_def using overlap_sym by blast

lemma runtime_conflict_sym: "runtime_conflict c d = runtime_conflict d c"
  by (auto simp: runtime_conflict_def split: option.splits)

lemma independent_sym: "independent c d \<Longrightarrow> independent d c"
  unfolding independent_def runtime_conflict_sym [of d c] using owned_disjoint_sym [of c d] by metis

lemma releaseable_inactive: "st \<in> set RELEASEABLE_CLAIM_STATUSES \<Longrightarrow> st \<notin> set ACTIVE_CLAIM_STATUSES"
  by (auto simp: RELEASEABLE_CLAIM_STATUSES_def ACTIVE_CLAIM_STATUSES_def)

lemma board_ok_sub:
  assumes "board_ok n cs" "distinct (map cl_claim_id ds)" "set (active_claims ds) \<subseteq> set (active_claims cs)"
    "length (active_claims ds) \<le> length (active_claims cs)"
  shows "board_ok n ds"
  using assms unfolding board_ok_def by auto

lemma board_propose:
  assumes "board_ok n cs" shows "board_ok n (board_step n (Propose p host) cs)"
proof (cases "decided ''ALLOW'' (admit_decision p cs host n)")
  case True
  then have a: "\<not> cl_ambiguous p" "active p" "cl_claim_id p \<notin> set (map cl_claim_id cs)"
      "active_claims cs = [] \<or> int (length (active_claims cs)) < n" "\<forall>c \<in> set (active_claims cs). independent p c"
    unfolding admit_decision_allow by simp_all
  have "active_claims (cs @ [p]) = active_claims cs @ [p]" using a(2) by (simp add: active_claims_def)
  then show ?thesis using assms a True independent_sym unfolding board_ok_def by auto
qed (simp add: assms)

lemma board_finish:
  assumes "board_ok n cs" "st \<in> set RELEASEABLE_CLAIM_STATUSES"
  shows "board_ok n (board_step n (Finish cid st) cs)"
proof (rule board_ok_sub [OF assms(1)])
  let ?f = "\<lambda>c. if cl_claim_id c = cid then c\<lparr>cl_status := st\<rparr> else c"
  have act: "active_claims (map ?f cs) = filter (\<lambda>c. cl_claim_id c \<noteq> cid) (active_claims cs)" for cs
    using releaseable_inactive [OF assms(2)] by (induction cs) (auto simp: active_claims_def active_def)
  have "map cl_claim_id (map ?f cs) = map cl_claim_id cs" by simp
  then show "distinct (map cl_claim_id (board_step n (Finish cid st) cs))"
    using assms(1) unfolding board_step.simps board_ok_def by metis
  show "set (active_claims (board_step n (Finish cid st) cs)) \<subseteq> set (active_claims cs)"
    "length (active_claims (board_step n (Finish cid st) cs)) \<le> length (active_claims cs)"
    by (auto simp: act)
qed

lemma board_release:
  assumes "board_ok n cs" shows "board_ok n (board_step n (Release cid) cs)"
proof (cases "decided ''ALLOW'' (Inr (release_decision ''release-claim'' cid cs))")
  case True
  have "board_ok n (filter (\<lambda>c. cl_claim_id c \<noteq> cid) cs)"
  proof (rule board_ok_sub [OF assms])
    show "distinct (map cl_claim_id (filter (\<lambda>c. cl_claim_id c \<noteq> cid) cs))"
      using assms by (auto simp: board_ok_def distinct_map intro: inj_on_subset)
    have "active_claims (filter (\<lambda>c. cl_claim_id c \<noteq> cid) cs) = filter (\<lambda>c. cl_claim_id c \<noteq> cid) (active_claims cs)"
      by (simp add: active_claims_def filter_filter conj_commute)
    then show "set (active_claims (filter (\<lambda>c. cl_claim_id c \<noteq> cid) cs)) \<subseteq> set (active_claims cs)"
      "length (active_claims (filter (\<lambda>c. cl_claim_id c \<noteq> cid) cs)) \<le> length (active_claims cs)" by auto
  qed
  then show ?thesis using True by simp
qed (simp add: assms)

interpretation board: machine "board_ok n" event_ok "board_step n" for n
proof
  fix i cs assume "event_ok i" "board_ok n cs"
  then show "board_ok n (board_step n i cs)"
    by (cases i) (use board_propose board_release board_finish in auto)
qed

text \<open>
  C40: however proposals, releases and endings follow each other, a list of claims kept by the tool's
  answers never has more live claims than the limit, and its live claims are pairwise independent and
  unambiguous under distinct ids.
\<close>

theorem admission_keeps_claims_independent:
  assumes "1 \<le> n" "list_all event_ok es"
  shows "int (length (active_claims (fold (board_step n) es []))) \<le> n \<and>
    distinct (map cl_claim_id (fold (board_step n) es [])) \<and>
    (\<forall>c \<in> set (active_claims (fold (board_step n) es [])). \<not> cl_ambiguous c \<and>
       (\<forall>d \<in> set (active_claims (fold (board_step n) es [])). cl_claim_id c \<noteq> cl_claim_id d \<longrightarrow> independent c d))"
proof -
  have "board_ok n []" using assms(1) by (simp add: board_ok_def active_claims_def)
  from board.run_inv [OF assms(2) this] show ?thesis unfolding board_ok_def by blast
qed

definition demo_events :: "board_event list" where
  "demo_events = [Propose (demo_claim ''a'' ''/t/a'' ''tools/a'') (''PASS'', 0),
     Propose (demo_claim ''b'' ''/t/b'' ''tools/b'') (''WARN'', 0),
     Propose (demo_claim ''c'' ''/t/c'' ''tools/c'') (''PASS'', 0)]"

theorem admission_keeps_claims_independent_witness:
  "map cl_claim_id (fold (board_step 2) demo_events []) = [''a'', ''b''] \<and>
   int (length (active_claims (fold (board_step 2) demo_events []))) \<le> 2"
proof
  show "map cl_claim_id (fold (board_step 2) demo_events []) = [''a'', ''b'']" by code_simp
  have "list_all event_ok demo_events" by code_simp
  then show "int (length (active_claims (fold (board_step 2) demo_events []))) \<le> 2"
    using admission_keeps_claims_independent [of 2 demo_events] by simp
qed

section \<open>Release\<close>

text \<open>
  A release or a clean-up is allowed exactly when one claim alone has the id, it is unambiguous
  and finished, and, for a clean-up, its worktree is neither dirty nor has unpushed commits.
\<close>

theorem release_allowed_iff_safe:
  assumes "require_str (jget request ''action'') ''action'' = Inr action0"
    "py_lower action0 \<in> {''release-claim'', ''cleanup-worktree''}"
    and "require_str (jget request ''claim_id'') ''claim_id'' = Inr cid"
    and "jget_or request ''existing_claims'' (JList []) = JList raw"
    and "parse_claims ''existing_claims'' 0 raw = Inr existing"
  shows "decided ''ALLOW'' (evaluate_release request) \<longleftrightarrow>
    (\<exists>c. filter (\<lambda>c. cl_claim_id c = cid) existing = [c] \<and> \<not> cl_ambiguous c \<and>
       cl_status c \<in> set RELEASEABLE_CLAIM_STATUSES \<and>
       (py_lower action0 = ''cleanup-worktree'' \<longrightarrow> \<not> cl_dirty c \<and> \<not> cl_unpushed c))"
proof -
  have "decided ''ALLOW'' (evaluate_release request) \<longleftrightarrow>
      decided ''ALLOW'' (Inr (release_decision (py_lower action0) cid existing))"
    using assms by (auto simp: evaluate_release_def require_list_def Let_def)
  also have "\<dots> \<longleftrightarrow> (\<exists>c. filter (\<lambda>c. cl_claim_id c = cid) existing = [c] \<and> \<not> cl_ambiguous c \<and>
       cl_status c \<in> set RELEASEABLE_CLAIM_STATUSES \<and>
       (py_lower action0 = ''cleanup-worktree'' \<longrightarrow> \<not> cl_dirty c \<and> \<not> cl_unpushed c))"
    using assms(2) by (auto simp: release_decision_def Let_def decided_simps split: list.splits)
  finally show ?thesis .
qed

theorem release_allowed_iff_safe_witness:
  "decided ''ALLOW'' (evaluate_release [(''action'', JStr ''cleanup-worktree''), (''claim_id'', JStr ''a''),
      (''existing_claims'', JList [JObj [(''claim_id'', JStr ''a''), (''repository'', JStr ''o/r''),
         (''workstream'', JStr ''w''), (''intent_revision'', JInt 1), (''worktree'', JStr ''/t/a''),
         (''status'', JStr ''COMPLETE'')]])])" (is "decided _ (evaluate_release ?q)")
proof -
  let ?raw = "[JObj [(''claim_id'', JStr ''a''), (''repository'', JStr ''o/r''),
         (''workstream'', JStr ''w''), (''intent_revision'', JInt 1), (''worktree'', JStr ''/t/a''),
         (''status'', JStr ''COMPLETE'')]]"
  let ?c = "(demo_claim ''a'' ''/t/a'' [])\<lparr>cl_workstream := ''w'', cl_owned_paths := [], cl_status := ''COMPLETE''\<rparr>"
  have a: "require_str (jget ?q ''action'') ''action'' = Inr ''cleanup-worktree''" by code_simp
  have l: "py_lower ''cleanup-worktree'' \<in> {''release-claim'', ''cleanup-worktree''}" by code_simp
  have i: "require_str (jget ?q ''claim_id'') ''claim_id'' = Inr ''a''" by code_simp
  have r: "jget_or ?q ''existing_claims'' (JList []) = JList ?raw" by code_simp
  have e: "parse_claims ''existing_claims'' 0 ?raw = Inr [?c]" by code_simp
  show ?thesis unfolding release_allowed_iff_safe [OF a l i r e]
    by (intro exI [of _ ?c]) (simp add: demo_claim_def RELEASEABLE_CLAIM_STATUSES_def)
qed

text \<open>
  A worktree written with two leading slashes keeps them, so it is not recognised as the
  worktree of a live claim: the proposal in \<^verbatim>\<open>//t/a\<close> is admitted beside the live claim in \<^verbatim>\<open>/t/a\<close>,
  which on Linux is the same directory; written with one slash or three it is denied.
\<close>

theorem double_slash_escapes_worktree_check:
  "canonicalize_worktree ''//t/a'' = Inr ''//t/a'' \<and> canonicalize_worktree ''///t/./a/'' = Inr ''/t/a'' \<and>
   decided ''ALLOW'' (evaluate_admit (dset ''proposed'' (demo_claim_json ''b'' ''//t/a'' ''tools/b'') demo_admit)) \<and>
   decided ''DENY'' (evaluate_admit (dset ''proposed'' (demo_claim_json ''b'' ''/t/a'' ''tools/b'') demo_admit)) \<and>
   decided ''DENY'' (evaluate_admit (dset ''proposed'' (demo_claim_json ''b'' ''///t/a'' ''tools/b'') demo_admit))"
  by code_simp

end
