(* ===== verification/Watch.thy ===== *)
theory Watch
  imports Coordinator Codec
begin

text \<open>
  \<^verbatim>\<open>tools/coordinator_watch.py\<close>: one re-entry result from the facts of a packet, the watch that observed
  them, and the durable state of that watch; the next durable state is part of the result. The
  planner it calls is \<open>plan\<close>. \<open>watch_state\<close> is the parsed state, \<open>persisted\<close> the state a result
  carries, \<open>persisted_json\<close> what is written of it. \<^verbatim>\<open>WatchFactsError\<close> has the shape of the planner's
  error and is a \<open>facts_error\<close>.

  Times are microseconds since the epoch. \<open>iso\<close> holds \<^verbatim>\<open>datetime.fromisoformat\<close> and \<^verbatim>\<open>strftime\<close>: \<open>iso_parse\<close>
  gives \<open>None\<close> for a text that is no timestamp, and tells a timestamp without a time zone; dates
  outside the years of \<^verbatim>\<open>datetime\<close> are outside the model. \<open>fl\<close> is the text of a float.
\<close>

datatype iso_time = Naive | Aware int

record iso =
  iso_parse :: "string \<Rightarrow> iso_time option"
  iso_format :: "int \<Rightarrow> string"

definition WATCH_CLASSES :: "string list" where
  "WATCH_CLASSES = [''work_packet_state'', ''exact_head_ci'', ''review_state'', ''worker_progress_or_yield'',
     ''resource_admission'']"

definition RESULTS :: "string list" where
  "RESULTS = [''NO_CHANGE'', ''RECHECK_LATER'', ''WAKE_COORDINATOR'', ''RESUME_ADMITTED_WORKER'',
     ''NOTIFY_OWNER'', ''CLOSE_WATCH'', ''BLOCK_RECONCILIATION'']"

definition WAKE_DECISIONS :: "string list" where
  "WAKE_DECISIONS = [''ADMIT_IMPLEMENTATION'', ''AUDIT_DIRTY_TREE'', ''AUTHORIZE_PUBLICATION'',
     ''AUDIT_REVIEW'', ''MERGE_READY'', ''REPLAN_SEMANTIC_FAILURE'', ''STALE_WORKER'']"

definition TERMINAL_STATES :: "string list" where
  "TERMINAL_STATES = [''OPEN'', ''CLOSED'']"

definition IDENTITY_KEYS :: "string list" where
  "IDENTITY_KEYS = [''target_repo'', ''workstream'', ''intent_revision'', ''watch_class'', ''subject_version'']"

definition STATE_KEYS :: "string list" where
  "STATE_KEYS = [''schema_version'', ''target_repo'', ''workstream'', ''intent_revision'', ''watch_class'',
     ''subject_version'', ''last_observation_digest'', ''last_decision'', ''last_decision_key'',
     ''last_transition_at'', ''last_observation_at'', ''consecutive_transient_failures'',
     ''next_eligible_check_at'', ''terminal_state'']"

definition WATCH_KEYS :: "string list" where
  "WATCH_KEYS = [''watch_class'', ''subject_version'', ''observed_at'', ''intent_revision'']"

definition BASE_RECHECK_SECONDS :: int where "BASE_RECHECK_SECONDS = 300"
definition MAX_RECHECK_SECONDS :: int where "MAX_RECHECK_SECONDS = 3600"

record watch_facts =
  wf_class :: string
  wf_observed_at :: string
  wf_subject :: "string option"
  wf_revision :: "int option"

record identity =
  id_repo :: string
  id_workstream :: string
  id_revision :: int
  id_class :: string
  id_subject :: string

record watch_state =
  ws_identity :: "identity option"
  ws_digest :: string
  ws_decision :: string
  ws_key :: string
  ws_transition_at :: string
  ws_observation_at :: string
  ws_failures :: int
  ws_next :: "string option"
  ws_terminal :: string

section \<open>Parsing\<close>

definition parse_time :: "iso \<Rightarrow> string \<Rightarrow> string \<Rightarrow> facts_error + int" where
  "parse_time t value label =
     (let text0 = py_strip value;
          text = (if ends_with text0 ''Z'' then butlast text0 @ ''+00:00'' else text0)
      in case iso_parse t text of
           None \<Rightarrow> Inl (facts_error (label @ '' must be an ISO-8601 timestamp''))
         | Some Naive \<Rightarrow> Inl (facts_error (label @ '' must include a timezone''))
         | Some (Aware u) \<Rightarrow> Inr u)"

definition parse_revision :: "json \<Rightarrow> string \<Rightarrow> facts_error + int" where
  "parse_revision v label =
     (case v of
        JInt n \<Rightarrow> if n < 1 then Inl (facts_error (label @ '' must be an integer >= 1'')) else Inr n
      | _ \<Rightarrow> Inl (facts_error (label @ '' must be an integer >= 1'')))"

definition parse_watch :: "iso \<Rightarrow> json \<Rightarrow> facts_error + watch_facts" where
  "parse_watch t raw =
     bindE (require_mapping raw ''watch'') (\<lambda>data.
     bindE (reject_unknown data WATCH_KEYS ''watch'') (\<lambda>_.
     bindE (require_str (jget data ''watch_class'') ''watch.watch_class'') (\<lambda>cls.
     if cls \<notin> set WATCH_CLASSES then Inl (facts_error (''watch.watch_class is unknown: '' @ cls))
     else bindE (require_str (jget data ''observed_at'') ''watch.observed_at'') (\<lambda>observed.
     bindE (parse_time t observed ''watch.observed_at'') (\<lambda>u.
     bindE (if_present data ''subject_version''
              (\<lambda>v. bindE (require_str v ''watch.subject_version'') (\<lambda>s. Inr (Some s))) None) (\<lambda>subject.
     bindE (if_present data ''intent_revision''
              (\<lambda>v. bindE (parse_revision v ''watch.intent_revision'') (\<lambda>n. Inr (Some n))) None) (\<lambda>revision.
       Inr \<lparr>wf_class = cls, wf_observed_at = iso_format t u, wf_subject = subject, wf_revision = revision\<rparr>)))))))"

definition parse_identity :: "jobj \<Rightarrow> facts_error + identity option" where
  "parse_identity data =
     (let present = filter (jhas data) IDENTITY_KEYS
      in if present \<noteq> [] \<and> length present \<noteq> length IDENTITY_KEYS
         then Inl (facts_error ''watch_state identity must include every identity field'')
         else if present = [] then Inr None
         else bindE (require_str (jget data ''watch_class'') ''watch_state.watch_class'') (\<lambda>cls.
              if cls \<notin> set WATCH_CLASSES then Inl (facts_error (''watch_state.watch_class is unknown: '' @ cls))
              else bindE (parse_revision (jget data ''intent_revision'') ''watch_state.intent_revision'') (\<lambda>revision.
              bindE (require_str (jget data ''target_repo'') ''watch_state.target_repo'') (\<lambda>repo.
              bindE (require_str (jget data ''workstream'') ''watch_state.workstream'') (\<lambda>ws.
              bindE (require_str (jget data ''subject_version'') ''watch_state.subject_version'') (\<lambda>subject.
                Inr (Some \<lparr>id_repo = repo, id_workstream = ws, id_revision = revision, id_class = cls,
                           id_subject = subject\<rparr>)))))))"

definition check_stamp :: "iso \<Rightarrow> jobj \<Rightarrow> string \<Rightarrow> facts_error + unit" where
  "check_stamp t data label =
     (let v = jget data label
      in if v = JNull \<or> v = JStr [] then Inr ()
         else bindE (require_str v (''watch_state.'' @ label)) (\<lambda>s.
              bindE (parse_time t s (''watch_state.'' @ label)) (\<lambda>_. Inr ())))"

text \<open>\<^verbatim>\<open>d.get(k) or ""\<close> for a time field that was checked, and \<^verbatim>\<open>d.get(k)\<close>.\<close>

definition stamp_text :: "json \<Rightarrow> string" where
  "stamp_text v = (case v of JStr s \<Rightarrow> s | _ \<Rightarrow> [])"

definition stamp_opt :: "json \<Rightarrow> string option" where
  "stamp_opt v = (case v of JStr s \<Rightarrow> Some s | _ \<Rightarrow> None)"

text \<open>\<^verbatim>\<open>str(d.get(k) or "")\<close>.\<close>

definition free_text :: "(rat \<Rightarrow> string) \<Rightarrow> json \<Rightarrow> string" where
  "free_text fl v = json_str fl (json_or v (JStr []))"

definition parse_failures :: "json \<Rightarrow> facts_error + int" where
  "parse_failures v =
     (let bad = Inl (facts_error ''watch_state.consecutive_transient_failures must be an integer >= 0'')
      in case v of JInt n \<Rightarrow> if n < 0 then bad else Inr n | _ \<Rightarrow> bad)"

definition parse_terminal :: "json \<Rightarrow> facts_error + string" where
  "parse_terminal v =
     bindE (require_str v ''watch_state.terminal_state'') (\<lambda>s.
       if s \<notin> set TERMINAL_STATES then Inl (facts_error (''watch_state.terminal_state is unknown: '' @ s))
       else Inr s)"

definition parse_state :: "(rat \<Rightarrow> string) \<Rightarrow> iso \<Rightarrow> json \<Rightarrow> facts_error + watch_state" where
  "parse_state fl t raw =
     bindE (require_mapping raw ''watch_state'') (\<lambda>data.
     bindE (reject_execution_keys ''watch_state'' data) (\<lambda>_.
     bindE (reject_unknown data STATE_KEYS ''watch_state'') (\<lambda>_.
     if jhas data ''schema_version'' \<and> \<not> eq_int (jget data ''schema_version'') 1
     then Inl (facts_error ''watch_state.schema_version must be 1'')
     else bindE (parse_identity data) (\<lambda>ident.
     bindE (if_present data ''terminal_state'' parse_terminal ''OPEN'') (\<lambda>terminal.
     bindE (if_present data ''consecutive_transient_failures'' parse_failures 0) (\<lambda>failures.
     bindE (check_stamp t data ''last_transition_at'') (\<lambda>_.
     bindE (check_stamp t data ''last_observation_at'') (\<lambda>_.
     bindE (check_stamp t data ''next_eligible_check_at'') (\<lambda>_.
       Inr \<lparr>ws_identity = ident,
            ws_digest = free_text fl (jget data ''last_observation_digest''),
            ws_decision = free_text fl (jget data ''last_decision''),
            ws_key = free_text fl (jget data ''last_decision_key''),
            ws_transition_at = stamp_text (jget data ''last_transition_at''),
            ws_observation_at = stamp_text (jget data ''last_observation_at''),
            ws_failures = failures, ws_next = stamp_opt (jget data ''next_eligible_check_at''),
            ws_terminal = terminal\<rparr>)))))))))"

section \<open>Helpers of the evaluation\<close>

definition opt_json :: "string option \<Rightarrow> json" where
  "opt_json x = (case x of None \<Rightarrow> JNull | Some s \<Rightarrow> JStr s)"

definition observation_material :: "facts \<Rightarrow> string \<Rightarrow> jobj" where
  "observation_material f name =
     [(''admission'', JObj [(''decision'', JStr (admission_decision f)), (''deny_class'', opt_json (admission_deny_class f))]),
      (''ci'', JObj [(''state'', JStr (ci_state f)), (''subject_head'', JStr (ci_subject_head f))]),
      (''decision'', JStr name),
      (''intent_revision'', JInt (pk_intent_revision (packet f))),
      (''mutation_ambiguous'', JBool (mutation_ambiguous f)),
      (''packet_status'', JStr (pk_status (packet f))),
      (''pr_head'', JStr (pr_head (pr f))),
      (''resource'', JObj [(''result'', JStr (resource_result f))]),
      (''review_actionable_open'', case rv_actionable_open (review f) of None \<Rightarrow> JNull | Some b \<Rightarrow> JBool b),
      (''review_state'', JStr (rv_state (review f))),
      (''review_subject_head'', JStr (rv_subject_head (review f))),
      (''worker'', JObj [(''present'', JBool (wk_present (worker f))), (''status'', opt_json (wk_status (worker f))),
         (''starting_intent_revision'',
            case wk_starting_intent_revision (worker f) of None \<Rightarrow> JNull | Some n \<Rightarrow> JInt n),
         (''progress_evidence'', JBool (wk_progress_evidence (worker f)))])]"

definition observation_digest :: "(rat \<Rightarrow> string) \<Rightarrow> facts \<Rightarrow> string \<Rightarrow> string" where
  "observation_digest fl f name =
     hex_text (sha256 (bytes_of (json_dumps fl (JObj (observation_material f name)))))"

definition watch_key :: "facts \<Rightarrow> string \<Rightarrow> string \<Rightarrow> string \<Rightarrow> string" where
  "watch_key f result subject name =
     join_with ''|'' [pk_repository (packet f), pk_workstream (packet f),
       int_text (pk_intent_revision (packet f)), result, name, subject]"

definition resume_allowed :: "facts \<Rightarrow> bool" where
  "resume_allowed f =
     (wk_present (worker f) \<and> wk_progress_evidence (worker f) \<and>
      wk_starting_intent_revision (worker f) = Some (pk_intent_revision (packet f)) \<and>
      resource_result f \<in> {''PASS'', ''WARN''} \<and> admission_decision f = ''ALLOW'')"

definition resume_in_scope :: "watch_facts \<Rightarrow> bool" where
  "resume_in_scope w = (wf_class w = ''worker_progress_or_yield'')"

definition text_else :: "string \<Rightarrow> string \<Rightarrow> string" where
  "text_else x y = (if x = [] then y else x)"

definition observation_boundary :: "watch_state \<Rightarrow> string" where
  "observation_boundary s = text_else (ws_observation_at s) (ws_transition_at s)"

definition observation_is_older :: "iso \<Rightarrow> watch_facts \<Rightarrow> watch_state \<Rightarrow> facts_error + bool" where
  "observation_is_older t w s =
     (let boundary = observation_boundary s
      in if boundary = [] then Inr False
         else bindE (parse_time t (wf_observed_at w) ''watch.observed_at'') (\<lambda>observed.
              bindE (parse_time t boundary ''watch_state.observation_boundary'') (\<lambda>prior.
                Inr (observed < prior))))"

definition bind_transient_retry :: "jobj \<Rightarrow> facts \<Rightarrow> watch_state \<Rightarrow> jobj" where
  "bind_transient_retry payload f s =
     (if failure_class f \<noteq> ''TRANSIENT'' then payload
      else (let w = (case json_or (jget payload ''wait'') (JObj []) of JObj d \<Rightarrow> d | _ \<Rightarrow> [])
            in dset ''wait'' (JObj (dset ''retry_count'' (JInt (max (ws_failures s) (wt_retry_count (wait f)))) w)) payload))"

text \<open>\<^verbatim>\<open>int(delta.total_seconds())\<close>: whole seconds, towards zero.\<close>

definition whole_seconds :: "int \<Rightarrow> int" where
  "whole_seconds d = (if 0 \<le> d then d div 1000000 else - ((- d) div 1000000))"

definition backoff_seconds :: "iso \<Rightarrow> watch_state \<Rightarrow> bool \<Rightarrow> facts_error + int" where
  "backoff_seconds t s unchanged =
     (if \<not> unchanged then Inr BASE_RECHECK_SECONDS
      else (case ws_next s of
              None \<Rightarrow> Inr BASE_RECHECK_SECONDS
            | Some nxt \<Rightarrow>
                if nxt = [] \<or> ws_transition_at s = [] then Inr BASE_RECHECK_SECONDS
                else bindE (parse_time t nxt ''watch_state.next_eligible_check_at'') (\<lambda>a.
                     bindE (parse_time t (ws_transition_at s) ''watch_state.last_transition_at'') (\<lambda>b.
                       let previous = whole_seconds (a - b)
                       in Inr (if previous \<le> 0 then BASE_RECHECK_SECONDS
                               else min (previous * 2) MAX_RECHECK_SECONDS)))))"

definition next_check :: "iso \<Rightarrow> string \<Rightarrow> watch_state \<Rightarrow> bool \<Rightarrow> facts_error + string" where
  "next_check t observed_at s unchanged =
     bindE (parse_time t observed_at ''watch.observed_at'') (\<lambda>observed.
     bindE (backoff_seconds t s unchanged) (\<lambda>n.
       Inr (iso_format t (observed + n * 1000000))))"

definition transient_count :: "facts \<Rightarrow> watch_state \<Rightarrow> int" where
  "transient_count f s = (if failure_class f = ''TRANSIENT'' then ws_failures s + 1 else 0)"

section \<open>The next durable state\<close>

record persisted =
  ps_repo :: string
  ps_workstream :: string
  ps_revision :: int
  ps_class :: string
  ps_subject :: string
  ps_digest :: string
  ps_decision :: string
  ps_key :: string
  ps_transition_at :: string
  ps_observation_at :: string
  ps_failures :: int
  ps_next :: "string option"
  ps_terminal :: string

text \<open>What is written: \<^verbatim>\<open>last_observation_at\<close> only when there is one.\<close>

definition persisted_json :: "persisted \<Rightarrow> json" where
  "persisted_json p = JObj
     ([(''schema_version'', JInt 1), (''target_repo'', JStr (ps_repo p)), (''workstream'', JStr (ps_workstream p)),
       (''intent_revision'', JInt (ps_revision p)), (''watch_class'', JStr (ps_class p)),
       (''subject_version'', JStr (ps_subject p)), (''last_observation_digest'', JStr (ps_digest p)),
       (''last_decision'', JStr (ps_decision p)), (''last_decision_key'', JStr (ps_key p)),
       (''last_transition_at'', JStr (ps_transition_at p)),
       (''consecutive_transient_failures'', JInt (ps_failures p)),
       (''next_eligible_check_at'', opt_json (ps_next p)), (''terminal_state'', JStr (ps_terminal p))] @
      (if ps_observation_at p = [] then [] else [(''last_observation_at'', JStr (ps_observation_at p))]))"

text \<open>\<^verbatim>\<open>identity.get(k) or x\<close>.\<close>

definition identity_or :: "(identity \<Rightarrow> string) \<Rightarrow> watch_state \<Rightarrow> string \<Rightarrow> string" where
  "identity_or field s x = (case ws_identity s of None \<Rightarrow> x | Some i \<Rightarrow> text_else (field i) x)"

definition identity_revision :: "watch_state \<Rightarrow> int \<Rightarrow> int" where
  "identity_revision s x = (case ws_identity s of None \<Rightarrow> x | Some i \<Rightarrow> if id_revision i = 0 then x else id_revision i)"

text \<open>What a handler asks of \<^verbatim>\<open>_emit\<close>: its keyword arguments.\<close>

record emission =
  rq_result :: string
  rq_reason :: string
  rq_decision :: string
  rq_subject :: string
  rq_digest :: string
  rq_suppress :: string
  rq_notification :: string
  rq_terminal :: string
  rq_next :: "string option"
  rq_unchanged :: bool
  rq_override :: "identity option"
  rq_preserve :: bool

definition watch_persist :: "facts \<Rightarrow> watch_facts \<Rightarrow> watch_state \<Rightarrow> emission \<Rightarrow> string \<Rightarrow> string \<Rightarrow> persisted" where
  "watch_persist f w s q decision key =
     (let repo = identity_or id_repo s (pk_repository (packet f));
          ws = identity_or id_workstream s (pk_workstream (packet f));
          revision = pk_intent_revision (packet f)
      in if rq_preserve q then
           \<lparr>ps_repo = repo, ps_workstream = ws, ps_revision = identity_revision s revision,
            ps_class = identity_or id_class s (wf_class w), ps_subject = identity_or id_subject s (rq_subject q),
            ps_digest = text_else (ws_digest s) (rq_digest q), ps_decision = text_else (ws_decision s) decision,
            ps_key = text_else (ws_key s) key,
            ps_transition_at = text_else (ws_transition_at s) (wf_observed_at w),
            ps_observation_at = ws_observation_at s, ps_failures = ws_failures s, ps_next = ws_next s,
            ps_terminal = text_else (ws_terminal s) (rq_terminal q)\<rparr>
         else
           \<lparr>ps_repo = repo, ps_workstream = ws, ps_revision = revision, ps_class = wf_class w,
            ps_subject = rq_subject q, ps_digest = rq_digest q, ps_decision = decision, ps_key = key,
            ps_transition_at =
              (if rq_result q \<noteq> ''NO_CHANGE'' then wf_observed_at w
               else if rq_unchanged q \<and> ws_transition_at s \<noteq> [] then ws_transition_at s else wf_observed_at w),
            ps_observation_at = wf_observed_at w, ps_failures = transient_count f s, ps_next = rq_next q,
            ps_terminal = rq_terminal q\<rparr>)"

section \<open>Results\<close>

record reentry =
  re_result :: string
  re_reason :: string
  re_decision :: string
  re_class :: string
  re_disposition :: string
  re_key :: string
  re_suppress :: string
  re_resumes_worker :: bool
  re_wakes_coordinator :: bool
  re_closes_watch :: bool
  re_retries_action :: bool
  re_stops_unrelated_sessions :: bool
  re_mutates_existing_sessions :: bool
  re_spawns_process :: bool
  re_mutates_github :: bool
  re_sends_notification :: bool
  re_next :: "string option"
  re_state :: persisted
  re_repository :: string
  re_workstream :: string
  re_revision :: int

definition override_identity :: "identity option \<Rightarrow> persisted \<Rightarrow> persisted" where
  "override_identity over p =
     (case over of
        None \<Rightarrow> p
      | Some i \<Rightarrow> p\<lparr>ps_repo := id_repo i, ps_workstream := id_workstream i, ps_revision := id_revision i,
                    ps_class := id_class i, ps_subject := id_subject i, ps_terminal := ''CLOSED'', ps_next := None\<rparr>)"

definition reported_decision :: "watch_state \<Rightarrow> emission \<Rightarrow> string" where
  "reported_decision s q =
     (if rq_preserve q \<and> ws_decision s \<noteq> [] then ws_decision s else rq_decision q)"

definition emitted_key :: "facts \<Rightarrow> watch_state \<Rightarrow> emission \<Rightarrow> string" where
  "emitted_key f s q =
     (if (rq_result q = ''NO_CHANGE'' \<or> rq_preserve q) \<and> ws_key s \<noteq> [] then ws_key s
      else watch_key f (rq_result q) (rq_subject q) (reported_decision s q))"

definition watch_emit :: "facts \<Rightarrow> watch_facts \<Rightarrow> watch_state \<Rightarrow> emission \<Rightarrow> facts_error + reentry" where
  "watch_emit f w s q =
     (if rq_result q \<notin> set RESULTS
      then Inl (facts_error (''internal re-entry result is unknown: '' @ rq_result q))
      else (let decision = reported_decision s q; key = emitted_key f s q
            in Inr \<lparr>re_result = rq_result q, re_reason = rq_reason q, re_decision = decision,
                 re_class = wf_class w, re_disposition = rq_notification q, re_key = key,
                 re_suppress = rq_suppress q,
                 re_resumes_worker = (rq_result q = ''RESUME_ADMITTED_WORKER''),
                 re_wakes_coordinator = (rq_result q = ''WAKE_COORDINATOR''),
                 re_closes_watch = (rq_result q = ''CLOSE_WATCH''),
                 re_retries_action = False, re_stops_unrelated_sessions = False,
                 re_mutates_existing_sessions = False, re_spawns_process = False, re_mutates_github = False,
                 re_sends_notification = False, re_next = rq_next q,
                 re_state = override_identity (rq_override q) (watch_persist f w s q decision key),
                 re_repository = pk_repository (packet f), re_workstream = pk_workstream (packet f),
                 re_revision = pk_intent_revision (packet f)\<rparr>))"

text \<open>The defaults of \<^verbatim>\<open>_emit\<close>'s keyword arguments.\<close>

definition asking :: "string \<Rightarrow> string \<Rightarrow> string \<Rightarrow> string \<Rightarrow> string \<Rightarrow> string \<Rightarrow> string \<Rightarrow> emission" where
  "asking result reason decision subject digest suppress notification =
     \<lparr>rq_result = result, rq_reason = reason, rq_decision = decision, rq_subject = subject, rq_digest = digest,
      rq_suppress = suppress, rq_notification = notification, rq_terminal = ''OPEN'', rq_next = None,
      rq_unchanged = False, rq_override = None, rq_preserve = False\<rparr>"

definition close_stale :: "facts \<Rightarrow> watch_facts \<Rightarrow> watch_state \<Rightarrow> string \<Rightarrow> string \<Rightarrow> facts_error + reentry" where
  "close_stale f w s subject reason =
     (let i = (case ws_identity s of
                 Some i \<Rightarrow> i
               | None \<Rightarrow> \<lparr>id_repo = pk_repository (packet f), id_workstream = pk_workstream (packet f),
                   id_revision = (case wf_revision w of
                      Some n \<Rightarrow> if n = 0 then pk_intent_revision (packet f) else n
                    | None \<Rightarrow> pk_intent_revision (packet f)),
                   id_class = wf_class w, id_subject = subject\<rparr>)
      in bindE (watch_emit f w s
           (asking ''CLOSE_WATCH'' reason ''STALE_WATCH'' (id_subject i) ''STALE'' ''NONE'' ''SEND''
              \<lparr>rq_terminal := ''CLOSED'', rq_override := Some i\<rparr>))
         (\<lambda>r. Inr (r\<lparr>re_resumes_worker := False, re_wakes_coordinator := False\<rparr>)))"

text \<open>The branches of \<^verbatim>\<open>_map_decision\<close> that reschedule: the request is made after \<^verbatim>\<open>_next_check\<close> gave the time.\<close>

definition rescheduled ::
    "iso \<Rightarrow> facts \<Rightarrow> watch_facts \<Rightarrow> watch_state \<Rightarrow> bool \<Rightarrow> bool \<Rightarrow> emission \<Rightarrow> facts_error + reentry" where
  "rescheduled t f w s backoff unchanged q =
     bindE (next_check t (wf_observed_at w) s backoff) (\<lambda>nxt.
       watch_emit f w s (q\<lparr>rq_next := Some nxt, rq_unchanged := unchanged\<rparr>))"

definition map_block_human ::
    "iso \<Rightarrow> facts \<Rightarrow> watch_facts \<Rightarrow> watch_state \<Rightarrow> string \<Rightarrow> string \<Rightarrow> string \<Rightarrow> facts_error + reentry" where
  "map_block_human t f w s name digest subject =
     (if ws_key s = watch_key f ''NOTIFY_OWNER'' subject name
      then rescheduled t f w s True True
             (asking ''NO_CHANGE'' ''identical owner notification is deduplicated'' name subject digest ''DEDUP'' ''SUPPRESS'')
      else watch_emit f w s
             (asking ''NOTIFY_OWNER'' ''human action is required and is not auto-authorized'' name subject digest
                ''NONE'' ''SEND''))"

definition map_resume ::
    "iso \<Rightarrow> facts \<Rightarrow> watch_facts \<Rightarrow> watch_state \<Rightarrow> string \<Rightarrow> string \<Rightarrow> string \<Rightarrow> facts_error + reentry" where
  "map_resume t f w s name digest subject =
     (let unchanged = (ws_digest s \<noteq> [] \<and> ws_digest s = digest);
          same_decision = (ws_decision s \<noteq> [] \<and> ws_decision s = name)
      in if \<not> resume_in_scope w
         then watch_emit f w s
                (asking ''BLOCK_RECONCILIATION'' (''watch class '' @ wf_class w @ '' cannot authorize worker resume'')
                   ''OUT_OF_SCOPE'' subject digest ''NONE'' ''SUPPRESS'')
         else if \<not> resume_allowed f
         then rescheduled t f w s unchanged unchanged
                (asking ''RECHECK_LATER''
                   ''resource or admission facts block worker resume and do not mutate unrelated sessions''
                   name subject digest (if unchanged then ''IDENTICAL_WAIT'' else ''QUIET_WAIT'') ''SUPPRESS'')
         else if same_decision \<and> unchanged
         then rescheduled t f w s True True
                (asking ''NO_CHANGE'' ''admitted worker resume was already emitted for this observation''
                   name subject digest ''DEDUP'' ''SUPPRESS'')
         else rescheduled t f w s False False
                (asking ''RESUME_ADMITTED_WORKER''
                   ''admitted same-revision worker has positive progress and resource admission still allows resume''
                   name subject digest ''NONE'' ''SUPPRESS''))"

definition wait_reason :: "string \<Rightarrow> string \<Rightarrow> string" where
  "wait_reason name reason =
     (if name = ''YIELD_RESOURCE''
      then ''resource block does not resume a worker and does not mutate unrelated sessions''
      else if name = ''NOOP_PAUSED'' then ''PAUSED packet does not launch or resume a worker''
      else if contains_sub ''progress evidence'' reason
      then ''worker liveness without positive progress does not resume''
      else ''identical observation schedules a bounded recheck without notification'')"

definition map_wake ::
    "iso \<Rightarrow> facts \<Rightarrow> watch_facts \<Rightarrow> watch_state \<Rightarrow> string \<Rightarrow> string \<Rightarrow> string \<Rightarrow> facts_error + reentry" where
  "map_wake t f w s name digest subject =
     (if ws_decision s \<noteq> [] \<and> ws_decision s = name
      then rescheduled t f w s True True
             (asking ''NO_CHANGE'' ''coordinator decision is unchanged, so the watch does not wake again''
                name subject digest ''DEDUP'' ''SUPPRESS'')
      else rescheduled t f w s False False
             (asking ''WAKE_COORDINATOR'' (''coordinator decision changed to '' @ name) name subject digest
                ''NONE'' ''SEND''))"

definition map_decision ::
    "(rat \<Rightarrow> string) \<Rightarrow> iso \<Rightarrow> facts \<Rightarrow> watch_facts \<Rightarrow> watch_state \<Rightarrow> string \<Rightarrow> string \<Rightarrow> string \<Rightarrow> facts_error + reentry" where
  "map_decision fl t f w s name reason subject =
     (let digest = observation_digest fl f name;
          unchanged = (ws_digest s \<noteq> [] \<and> ws_digest s = digest)
      in if name = ''NOOP_COMPLETE'' \<or> pk_status (packet f) = ''COMPLETE''
         then watch_emit f w s
                (asking ''CLOSE_WATCH'' ''COMPLETE packet closes the watch'' name subject digest ''NONE'' ''SEND''
                   \<lparr>rq_terminal := ''CLOSED''\<rparr>)
         else if name = ''RECONCILE_AMBIGUOUS''
         then (let duplicate = (ws_key s = watch_key f ''BLOCK_RECONCILIATION'' subject name)
               in watch_emit f w s
                    (asking ''BLOCK_RECONCILIATION''
                       ''ambiguous external mutation must be reconciled before any retry'' name subject digest
                       (if duplicate then ''DEDUP'' else ''NONE'') (if duplicate then ''SUPPRESS'' else ''SEND'')))
         else if name = ''BLOCK_HUMAN'' then map_block_human t f w s name digest subject
         else if name = ''RESUME_WORKER'' then map_resume t f w s name digest subject
         else if name = ''YIELD_RESOURCE'' \<or> name \<in> set WAIT_DECISIONS \<or> name = ''NOOP_PAUSED''
         then rescheduled t f w s unchanged unchanged
                (asking ''RECHECK_LATER'' (wait_reason name reason) name subject digest
                   (if unchanged then ''IDENTICAL_WAIT'' else ''QUIET_WAIT'') ''SUPPRESS'')
         else if name \<in> set WAKE_DECISIONS then map_wake t f w s name digest subject
         else Inl (facts_error (''coordinator decision is not mapped: '' @ name)))"

section \<open>Evaluation\<close>

definition planner_payload :: "jobj \<Rightarrow> jobj" where
  "planner_payload raw = filter (\<lambda>p. fst p \<noteq> ''watch'') raw"

definition check_binding :: "facts \<Rightarrow> watch_facts \<Rightarrow> watch_state \<Rightarrow> facts_error + unit" where
  "check_binding f w s =
     (if wf_subject w \<noteq> None \<and> wf_subject w \<noteq> Some (subject_version f)
      then Inl (FactsError ''watch.subject_version does not match the coordinator-derived subject'' ''SUBJECT_OVERRIDE'')
      else (case ws_identity s of
              None \<Rightarrow> Inr ()
            | Some i \<Rightarrow>
                if id_repo i \<noteq> pk_repository (packet f) \<or> id_workstream i \<noteq> pk_workstream (packet f)
                then Inl (facts_error ''watch_state identity does not match the packet repository or workstream'')
                else if id_class i \<noteq> wf_class w
                then Inl (facts_error ''watch_state.watch_class does not match facts.watch.watch_class'')
                else Inr ()))"

definition already_closed :: "facts \<Rightarrow> watch_facts \<Rightarrow> watch_state \<Rightarrow> facts_error + reentry" where
  "already_closed f w s =
     watch_emit f w s
       (asking ''CLOSE_WATCH'' ''watch is already closed'' (text_else (ws_decision s) ''CLOSED'')
          (case ws_identity s of Some i \<Rightarrow> id_subject i | None \<Rightarrow> subject_version f)
          (text_else (ws_digest s) ''CLOSED'') ''DEDUP'' ''SUPPRESS''
          \<lparr>rq_terminal := ''CLOSED'', rq_next := ws_next s, rq_unchanged := True, rq_preserve := True\<rparr>)"

definition is_stale :: "facts \<Rightarrow> watch_facts \<Rightarrow> watch_state \<Rightarrow> bool" where
  "is_stale f w s =
     (let revision = pk_intent_revision (packet f)
      in (case ws_identity s of None \<Rightarrow> False | Some i \<Rightarrow> id_revision i \<noteq> revision) \<or>
         (case wf_revision w of None \<Rightarrow> False | Some n \<Rightarrow> n \<noteq> revision) \<or>
         (case ws_identity s of None \<Rightarrow> False | Some i \<Rightarrow> id_subject i \<noteq> subject_version f))"

definition rejected_older :: "facts \<Rightarrow> watch_facts \<Rightarrow> watch_state \<Rightarrow> facts_error + reentry" where
  "rejected_older f w s =
     (if ws_decision s = [] \<or> ws_digest s = [] \<or> ws_key s = []
      then Inl (facts_error ''older observation cannot roll back an incomplete watch state'')
      else watch_emit f w s
             (asking ''NO_CHANGE''
                ''observation is older than the latest accepted observation and does not change durable watch state''
                (ws_decision s) (subject_version f) (ws_digest s) ''DEDUP'' ''SUPPRESS''
                \<lparr>rq_next := ws_next s, rq_unchanged := True, rq_preserve := True\<rparr>))"

definition evaluate_open ::
    "(rat \<Rightarrow> string) \<Rightarrow> iso \<Rightarrow> jobj \<Rightarrow> facts \<Rightarrow> watch_facts \<Rightarrow> watch_state \<Rightarrow> facts_error + reentry" where
  "evaluate_open fl t payload f w s =
     (if is_stale f w s
      then close_stale f w s (subject_version f)
             ''stale watch identity cannot act and must be reconciled against the current packet''
      else bindE (observation_is_older t w s) (\<lambda>older.
           if older then rejected_older f w s
           else if mutation_ambiguous f \<or> failure_class f = ''AMBIGUOUS_MUTATION''
           then map_decision fl t f w s ''RECONCILE_AMBIGUOUS'' ''ambiguous mutation'' (subject_version f)
           else bindE (plan (JObj (bind_transient_retry payload f s))) (\<lambda>d.
                map_decision fl t f w s (dc_decision d) (dc_reason d) (subject_version f))))"

definition watch_evaluate :: "(rat \<Rightarrow> string) \<Rightarrow> iso \<Rightarrow> json \<Rightarrow> json \<Rightarrow> facts_error + reentry" where
  "watch_evaluate fl t facts_payload state_payload =
     bindE (require_mapping facts_payload ''facts'') (\<lambda>raw.
     bindE (reject_execution_keys ''facts'' raw) (\<lambda>_.
     bindE (reject_unknown raw (TOP_LEVEL_KEYS @ [''watch'']) ''facts'') (\<lambda>_.
     case map_of raw ''watch'' of
       None \<Rightarrow> Inl (facts_error ''facts.watch is required'')
     | Some wraw \<Rightarrow>
     bindE (parse_watch t wraw) (\<lambda>w.
     bindE (parse_state fl t state_payload) (\<lambda>s.
     bindE (normalize_facts (JObj (planner_payload raw))) (\<lambda>f.
     bindE (check_binding f w s) (\<lambda>_.
       if ws_terminal s = ''CLOSED'' then already_closed f w s
       else evaluate_open fl t (planner_payload raw) f w s)))))))"

section \<open>Reports\<close>

definition watch_report_fields :: "(rat \<Rightarrow> string) \<Rightarrow> reentry \<Rightarrow> int \<Rightarrow> (string \<times> string) list" where
  "watch_report_fields fl r exit_code =
     [(''RESULT'', re_result r), (''EXIT_CODE'', int_text exit_code), (''REASON'', re_reason r),
      (''COORDINATOR_DECISION'', re_decision r), (''WATCH_CLASS'', re_class r),
      (''NOTIFICATION'', re_disposition r), (''NOTIFICATION_KEY'', re_key r),
      (''NOTIFICATION_SUPPRESS_REASON'', re_suppress r),
      (''RESUMES_WORKER'', yes_no (re_resumes_worker r)), (''WAKES_COORDINATOR'', yes_no (re_wakes_coordinator r)),
      (''CLOSES_WATCH'', yes_no (re_closes_watch r)), (''RETRIES_ACTION'', ''NO''),
      (''STOPS_UNRELATED_SESSIONS'', ''NO''), (''MUTATES_EXISTING_SESSIONS'', ''NO''), (''SPAWNS_PROCESS'', ''NO''),
      (''MUTATES_GITHUB'', ''NO''), (''SENDS_NOTIFICATION'', ''NO''),
      (''NEXT_ELIGIBLE_CHECK_AT'', text_or (re_next r) ''NONE''),
      (''NEXT_WATCH_STATE'', json_dumps fl (persisted_json (re_state r)))]"

definition watch_format_report :: "(rat \<Rightarrow> string) \<Rightarrow> reentry \<Rightarrow> int \<Rightarrow> string option \<Rightarrow> string" where
  "watch_format_report fl r exit_code deny_class =
     report_text (watch_report_fields fl r exit_code @
       (case deny_class of None \<Rightarrow> [] | Some c \<Rightarrow> if c = [] then [] else [(''DENY_CLASS'', c)]))"

definition watch_failure_report :: "string \<Rightarrow> string \<Rightarrow> string \<times> int" where
  "watch_failure_report reason deny_class =
     (report_text
       [(''RESULT'', ''REJECT_FACTS''), (''EXIT_CODE'', ''3''),
        (''REASON'', py_strip (replace_char NL '' '' reason)), (''DENY_CLASS'', deny_class),
        (''RESUMES_WORKER'', ''NO''), (''WAKES_COORDINATOR'', ''NO''), (''CLOSES_WATCH'', ''NO''),
        (''RETRIES_ACTION'', ''NO''), (''STOPS_UNRELATED_SESSIONS'', ''NO''), (''MUTATES_EXISTING_SESSIONS'', ''NO''),
        (''SPAWNS_PROCESS'', ''NO''), (''MUTATES_GITHUB'', ''NO''), (''SENDS_NOTIFICATION'', ''NO'')], 3)"

text \<open>\<^verbatim>\<open>main\<close> after the two files were read, or failed to be.\<close>

definition watch_main :: "(rat \<Rightarrow> string) \<Rightarrow> iso \<Rightarrow> facts_error + json \<Rightarrow> facts_error + json \<Rightarrow> string \<times> int" where
  "watch_main fl t facts_file state_file =
     (case bindE facts_file (\<lambda>p. bindE state_file (\<lambda>s. watch_evaluate fl t p s)) of
        Inr r \<Rightarrow> (watch_format_report fl r 0 None, 0)
      | Inl (FactsError reason deny_class) \<Rightarrow> watch_failure_report reason deny_class)"

end
