(* ===== verification/WatchFacts.thy ===== *)
theory WatchFacts
  imports Watch CoordinatorFacts
begin

text \<open>
  Lemmas on the watch evaluator: what an emitted result carries (\<open>emit_fields\<close>), what a state file
  written from a result holds when it is read back (\<open>read_back\<close>), the conditions of each branch of
  \<open>map_decision\<close>, and how the plan depends on the retry count the watch binds into it.
\<close>

section \<open>Emitted results\<close>

lemma emit_fields:
  assumes "watch_emit f w s q = Inr r"
  shows "re_result r = rq_result q" "re_disposition r = rq_notification q" "re_next r = rq_next q"
    "re_decision r = reported_decision s q" "re_key r = emitted_key f s q"
    "re_resumes_worker r \<longleftrightarrow> rq_result q = ''RESUME_ADMITTED_WORKER''"
    "re_wakes_coordinator r \<longleftrightarrow> rq_result q = ''WAKE_COORDINATOR''"
    "re_closes_watch r \<longleftrightarrow> rq_result q = ''CLOSE_WATCH''"
    "re_state r = override_identity (rq_override q) (watch_persist f w s q (reported_decision s q) (emitted_key f s q))"
  using assms by (auto simp: watch_emit_def Let_def split: if_splits)

lemma emit_known: "rq_result q \<in> set RESULTS \<Longrightarrow> \<exists>r. watch_emit f w s q = Inr r"
  by (simp add: watch_emit_def Let_def)

lemma asking_fields [simp]:
  "rq_result (asking x reason d sub dig spr n) = x" "rq_reason (asking x reason d sub dig spr n) = reason"
  "rq_decision (asking x reason d sub dig spr n) = d"
  "rq_subject (asking x reason d sub dig spr n) = sub" "rq_digest (asking x reason d sub dig spr n) = dig"
  "rq_suppress (asking x reason d sub dig spr n) = spr"
  "rq_notification (asking x reason d sub dig spr n) = n" "rq_terminal (asking x reason d sub dig spr n) = ''OPEN''"
  "rq_next (asking x reason d sub dig spr n) = None" "rq_unchanged (asking x reason d sub dig spr n) = False"
  "rq_override (asking x reason d sub dig spr n) = None" "\<not> rq_preserve (asking x reason d sub dig spr n)"
  by (simp_all add: asking_def)

lemma rescheduled_Inr:
  "rescheduled t f w s b u q = Inr r \<longleftrightarrow>
     (\<exists>nxt. next_check t (wf_observed_at w) s b = Inr nxt \<and> watch_emit f w s (q\<lparr>rq_next := Some nxt, rq_unchanged := u\<rparr>) = Inr r)"
  by (auto simp: rescheduled_def bindE_Inr_iff)

section \<open>Reading a written state back\<close>

lemma free_text_str [simp]: "free_text fl (JStr s) = s"
  by (simp add: free_text_def json_or_def json_str_def)

lemma stamp_text_str [simp]: "stamp_text (JStr s) = s"
  by (simp add: stamp_text_def)

lemma require_str_JStr: "require_str (JStr x) l = Inr y \<Longrightarrow> y = py_strip x"
  by (auto simp: require_str_def Let_def split: if_splits)

lemma parse_revision_JInt: "parse_revision (JInt n) l = Inr m \<longleftrightarrow> m = n \<and> 1 \<le> n"
  by (auto simp: parse_revision_def)

definition stripped_identity :: "persisted \<Rightarrow> identity" where
  "stripped_identity p = \<lparr>id_repo = py_strip (ps_repo p), id_workstream = py_strip (ps_workstream p),
     id_revision = ps_revision p, id_class = py_strip (ps_class p), id_subject = py_strip (ps_subject p)\<rparr>"

definition persisted_obj :: "persisted \<Rightarrow> jobj" where
  "persisted_obj p = (case persisted_json p of JObj d \<Rightarrow> d | _ \<Rightarrow> [])"

lemma persisted_obj: "persisted_json p = JObj (persisted_obj p)"
  by (simp add: persisted_obj_def persisted_json_def)

lemma persisted_gets:
  "jget (persisted_obj p) ''schema_version'' = JInt 1"
  "jget (persisted_obj p) ''target_repo'' = JStr (ps_repo p)"
  "jget (persisted_obj p) ''workstream'' = JStr (ps_workstream p)"
  "jget (persisted_obj p) ''intent_revision'' = JInt (ps_revision p)"
  "jget (persisted_obj p) ''watch_class'' = JStr (ps_class p)"
  "jget (persisted_obj p) ''subject_version'' = JStr (ps_subject p)"
  "jget (persisted_obj p) ''last_observation_digest'' = JStr (ps_digest p)"
  "jget (persisted_obj p) ''last_decision'' = JStr (ps_decision p)"
  "jget (persisted_obj p) ''last_decision_key'' = JStr (ps_key p)"
  "jget (persisted_obj p) ''last_transition_at'' = JStr (ps_transition_at p)"
  "jget (persisted_obj p) ''next_eligible_check_at'' = opt_json (ps_next p)"
  "stamp_text (jget (persisted_obj p) ''last_observation_at'') = ps_observation_at p"
  "map_of (persisted_obj p) ''consecutive_transient_failures'' = Some (JInt (ps_failures p))"
  "map_of (persisted_obj p) ''terminal_state'' = Some (JStr (ps_terminal p))"
  "filter (jhas (persisted_obj p)) IDENTITY_KEYS = IDENTITY_KEYS"
  by (simp_all add: persisted_obj_def persisted_json_def jget_def stamp_text_def jhas_def IDENTITY_KEYS_def)

lemma parse_identity_Inr:
  assumes "parse_identity (persisted_obj p) = Inr i" shows "i = Some (stripped_identity p)"
proof -
  have "IDENTITY_KEYS \<noteq> []" by (simp add: IDENTITY_KEYS_def)
  then show ?thesis
    using assms
    by (auto simp: parse_identity_def persisted_gets Let_def bindE_Inr_iff parse_revision_JInt stripped_identity_def
        dest!: require_str_JStr split: if_splits)
qed

lemma read_back:
  assumes "parse_state fl t (persisted_json p) = Inr s"
  shows "ws_identity s = Some (stripped_identity p)" "ws_digest s = ps_digest p" "ws_decision s = ps_decision p"
    "ws_key s = ps_key p" "ws_transition_at s = ps_transition_at p" "ws_observation_at s = ps_observation_at p"
    "ws_failures s = ps_failures p" "ws_next s = ps_next p" "ws_terminal s = py_strip (ps_terminal p)"
proof -
  let ?d = "persisted_obj p"
  have a: "parse_state fl t (JObj ?d) = Inr s" using assms by (simp add: persisted_obj)
  have "stamp_opt (opt_json x) = x" for x by (simp add: opt_json_def stamp_opt_def split: option.split)
  then show "ws_next s = ps_next p" "ws_digest s = ps_digest p" "ws_decision s = ps_decision p" "ws_key s = ps_key p"
    "ws_transition_at s = ps_transition_at p" "ws_observation_at s = ps_observation_at p"
    using a by (auto simp: parse_state_def require_mapping_def bindE_Inr_iff persisted_gets split: if_splits)
  show "ws_identity s = Some (stripped_identity p)"
    using a by (auto simp: parse_state_def require_mapping_def bindE_Inr_iff dest!: parse_identity_Inr split: if_splits)
  show "ws_failures s = ps_failures p" "ws_terminal s = py_strip (ps_terminal p)"
    using a by (auto simp: parse_state_def require_mapping_def bindE_Inr_iff if_present_def persisted_gets
        parse_failures_def parse_terminal_def dest!: require_str_JStr split: if_splits)
qed

section \<open>Branches of the evaluation\<close>

text \<open>What a run of the evaluator has read before it decides.\<close>

definition watch_inputs ::
    "(rat \<Rightarrow> string) \<Rightarrow> iso \<Rightarrow> jobj \<Rightarrow> json \<Rightarrow> watch_facts \<Rightarrow> watch_state \<Rightarrow> facts \<Rightarrow> bool" where
  "watch_inputs fl t raw st w s f =
     (map_option (parse_watch t) (map_of raw ''watch'') = Some (Inr w) \<and> parse_state fl t st = Inr s \<and>
      normalize_facts (JObj (planner_payload raw)) = Inr f \<and> check_binding f w s = Inr ())"

lemma evaluate_Inr:
  assumes "watch_evaluate fl t p st = Inr r"
  obtains raw w s f where "p = JObj raw" "watch_inputs fl t raw st w s f"
    "(if ws_terminal s = ''CLOSED'' then already_closed f w s
      else evaluate_open fl t (planner_payload raw) f w s) = Inr r"
proof -
  obtain raw where p: "p = JObj raw"
    using assms by (cases p) (auto simp: watch_evaluate_def require_mapping_def)
  obtain wraw where wraw: "map_of raw ''watch'' = Some wraw"
    using assms p by (auto simp: watch_evaluate_def require_mapping_def bindE_Inr_iff split: option.splits)
  show thesis
    using assms p wraw that [of raw]
    by (auto simp: watch_evaluate_def require_mapping_def bindE_Inr_iff watch_inputs_def simp del: option.map_comp)
qed

lemma inputs_unique:
  assumes "watch_inputs fl t raw st w s f" "watch_inputs fl t raw st' w' s' f'"
  shows "w' = w" "f' = f" "st' = st \<Longrightarrow> s' = s"
  using assms by (auto simp: watch_inputs_def)

lemma already_closed_fields:
  assumes "already_closed f w s = Inr r" "ws_terminal s = ''CLOSED''"
  shows "re_result r = ''CLOSE_WATCH''" "re_disposition r = ''SUPPRESS''" "re_suppress r = ''DEDUP''"
    "\<not> re_resumes_worker r" "\<not> re_wakes_coordinator r" "ps_terminal (re_state r) = ''CLOSED''" "re_next r = ws_next s"
proof -
  note e = assms(1) [unfolded already_closed_def]
  show "re_result r = ''CLOSE_WATCH''" "re_disposition r = ''SUPPRESS''"
    "\<not> re_resumes_worker r" "\<not> re_wakes_coordinator r" "ps_terminal (re_state r) = ''CLOSED''" "re_next r = ws_next s"
    using emit_fields [OF e] assms(2)
    by (simp_all add: override_identity_def watch_persist_def Let_def text_else_def)
  show "re_suppress r = ''DEDUP''" using e by (auto simp: watch_emit_def Let_def split: if_splits)
qed

lemma close_stale_fields:
  assumes "close_stale f w s subject reason = Inr r"
  shows "re_result r = ''CLOSE_WATCH''" "ps_terminal (re_state r) = ''CLOSED''" "\<not> re_resumes_worker r" "re_next r = None"
  using assms
  by (auto simp: close_stale_def Let_def bindE_Inr_iff override_identity_def watch_persist_def dest: emit_fields(1,3,9)
      split: option.splits)

lemma rejected_older_fields:
  assumes "rejected_older f w s = Inr r"
  shows "re_result r = ''NO_CHANGE''" "re_disposition r = ''SUPPRESS''" "re_next r = ws_next s" "\<not> re_resumes_worker r"
    "\<not> re_closes_watch r"
  using assms by (auto simp: rejected_older_def dest: emit_fields(1-3,6,8) split: if_splits)

section \<open>The mapping of a decision\<close>

lemmas map_branches = map_decision_def map_block_human_def map_resume_def map_wake_def Let_def

text \<open>Every mapped decision is one emission, made at once or after the next time was computed.\<close>

definition mapped_by ::
    "iso \<Rightarrow> facts \<Rightarrow> watch_facts \<Rightarrow> watch_state \<Rightarrow> emission \<Rightarrow> facts_error + reentry \<Rightarrow> bool" where
  "mapped_by t f w s q m =
     (m = watch_emit f w s q \<or> (\<exists>b u. m = rescheduled t f w s b u q))"

lemma mapped_by_fields:
  assumes "mapped_by t f w s q (Inr r)" "\<not> rq_preserve q" "rq_override q = None"
  shows "re_result r = rq_result q" "re_disposition r = rq_notification q"
    "re_resumes_worker r \<longleftrightarrow> rq_result q = ''RESUME_ADMITTED_WORKER''" "re_closes_watch r \<longleftrightarrow> rq_result q = ''CLOSE_WATCH''"
    "ps_terminal (re_state r) = rq_terminal q" "ps_decision (re_state r) = rq_decision q"
    "rq_result q \<noteq> ''NO_CHANGE'' \<Longrightarrow> ps_key (re_state r) = watch_key f (rq_result q) (rq_subject q) (rq_decision q)"
    "ps_failures (re_state r) = transient_count f s" "ps_revision (re_state r) = pk_intent_revision (packet f)"
    "ps_subject (re_state r) = rq_subject q" "ps_class (re_state r) = wf_class w"
    "rq_next q = None \<Longrightarrow> re_next r = None \<or> (\<exists>b nxt. next_check t (wf_observed_at w) s b = Inr nxt \<and> re_next r = Some nxt)"
proof -
  have "\<exists>q'. watch_emit f w s q' = Inr r \<and> rq_result q' = rq_result q \<and> rq_notification q' = rq_notification q \<and>
    rq_terminal q' = rq_terminal q \<and> rq_decision q' = rq_decision q \<and> rq_subject q' = rq_subject q \<and>
    \<not> rq_preserve q' \<and> rq_override q' = None \<and>
    (rq_next q' = rq_next q \<or> (\<exists>b nxt. next_check t (wf_observed_at w) s b = Inr nxt \<and> rq_next q' = Some nxt))"
    using assms(1)
  proof (unfold mapped_by_def, elim disjE exE)
    assume "Inr r = watch_emit f w s q"
    then show ?thesis using assms(2,3) by (intro exI [of _ q]) simp
  next
    fix b u assume "Inr r = rescheduled t f w s b u q"
    then obtain nxt where "next_check t (wf_observed_at w) s b = Inr nxt"
      "watch_emit f w s (q\<lparr>rq_next := Some nxt, rq_unchanged := u\<rparr>) = Inr r"
      by (auto simp: rescheduled_Inr eq_commute [of "Inr r"])
    then show ?thesis using assms(2,3)
      by (intro exI [of _ "q\<lparr>rq_next := Some nxt, rq_unchanged := u\<rparr>"]) auto
  qed
  then obtain q' where q': "watch_emit f w s q' = Inr r" "rq_result q' = rq_result q" "rq_notification q' = rq_notification q"
    "rq_terminal q' = rq_terminal q" "rq_decision q' = rq_decision q" "rq_subject q' = rq_subject q"
    "\<not> rq_preserve q'" "rq_override q' = None"
    "rq_next q' = rq_next q \<or> (\<exists>b nxt. next_check t (wf_observed_at w) s b = Inr nxt \<and> rq_next q' = Some nxt)"
    by blast
  note fields = emit_fields [OF q'(1)]
  show "re_result r = rq_result q" "re_disposition r = rq_notification q"
    "re_resumes_worker r \<longleftrightarrow> rq_result q = ''RESUME_ADMITTED_WORKER''" "re_closes_watch r \<longleftrightarrow> rq_result q = ''CLOSE_WATCH''"
    using fields q' by simp_all
  show "ps_terminal (re_state r) = rq_terminal q" "ps_decision (re_state r) = rq_decision q"
    "ps_failures (re_state r) = transient_count f s" "ps_revision (re_state r) = pk_intent_revision (packet f)"
    "ps_subject (re_state r) = rq_subject q" "ps_class (re_state r) = wf_class w"
    using fields(9) q' by (simp_all add: override_identity_def watch_persist_def Let_def reported_decision_def)
  show "ps_key (re_state r) = watch_key f (rq_result q) (rq_subject q) (rq_decision q)" if "rq_result q \<noteq> ''NO_CHANGE''"
    using fields(9) q' that
    by (simp add: override_identity_def watch_persist_def Let_def reported_decision_def emitted_key_def)
  show "re_next r = None \<or> (\<exists>b nxt. next_check t (wf_observed_at w) s b = Inr nxt \<and> re_next r = Some nxt)"
    if "rq_next q = None"
    using fields(3) q'(9) that by auto
qed

definition plain_request :: "emission \<Rightarrow> string \<Rightarrow> bool" where
  "plain_request q subject = (\<not> rq_preserve q \<and> rq_override q = None \<and> rq_next q = None \<and> rq_subject q = subject)"

definition maps_to ::
    "(emission \<Rightarrow> bool) \<Rightarrow> iso \<Rightarrow> facts \<Rightarrow> watch_facts \<Rightarrow> watch_state \<Rightarrow> facts_error + reentry \<Rightarrow> bool" where
  "maps_to P t f w s m = ((\<exists>e. m = Inl e) \<or> (\<exists>q. P q \<and> mapped_by t f w s q m))"

lemma maps_to_if: "maps_to P t f w s (if b then x else y) = (if b then maps_to P t f w s x else maps_to P t f w s y)"
  by simp

lemma maps_to_branch:
  "(b \<Longrightarrow> maps_to P t f w s x) \<Longrightarrow> (\<not> b \<Longrightarrow> maps_to P t f w s y) \<Longrightarrow> maps_to P t f w s (if b then x else y)"
  by simp

lemma maps_to_intros:
  "maps_to P t f w s (Inl e)" "P q \<Longrightarrow> maps_to P t f w s (watch_emit f w s q)"
  "P q \<Longrightarrow> maps_to P t f w s (rescheduled t f w s b u q)"
  by (auto simp: maps_to_def mapped_by_def)

text \<open>Which emission each branch makes.\<close>

definition decided_request :: "facts \<Rightarrow> watch_facts \<Rightarrow> watch_state \<Rightarrow> string \<Rightarrow> string \<Rightarrow> string \<Rightarrow> emission \<Rightarrow> bool" where
  "decided_request f w s name digest subject q =
     (plain_request q subject \<and>
      (rq_result q = ''CLOSE_WATCH'' \<longrightarrow> rq_terminal q = ''CLOSED'') \<and>
      (rq_result q = ''RESUME_ADMITTED_WORKER'' \<longleftrightarrow>
         name = ''RESUME_WORKER'' \<and> pk_status (packet f) \<noteq> ''COMPLETE'' \<and> resume_in_scope w \<and> resume_allowed f \<and>
         \<not> (ws_decision s = name \<and> ws_digest s = digest \<and> ws_digest s \<noteq> [])) \<and>
      (rq_notification q = ''SEND'' \<longrightarrow>
         rq_terminal q = ''CLOSED'' \<or>
         rq_decision q = name \<and> pk_status (packet f) \<noteq> ''COMPLETE'' \<and>
         (rq_result q = ''BLOCK_RECONCILIATION'' \<and> name = ''RECONCILE_AMBIGUOUS'' \<or>
          rq_result q = ''NOTIFY_OWNER'' \<and> name = ''BLOCK_HUMAN'' \<or>
          rq_result q = ''WAKE_COORDINATOR'' \<and> name \<in> set WAKE_DECISIONS)) \<and>
      (pk_status (packet f) \<noteq> ''COMPLETE'' \<and>
       (name = ''RECONCILE_AMBIGUOUS'' \<and> ws_key s = watch_key f ''BLOCK_RECONCILIATION'' subject name \<or>
        name = ''BLOCK_HUMAN'' \<and> ws_key s = watch_key f ''NOTIFY_OWNER'' subject name \<or>
        name \<in> set WAKE_DECISIONS \<and> ws_decision s = name) \<longrightarrow> rq_notification q = ''SUPPRESS''))"

lemma wake_names: "name \<in> set WAKE_DECISIONS \<Longrightarrow> name \<noteq> [] \<and> name \<noteq> ''NOOP_COMPLETE'' \<and> name \<noteq> ''RECONCILE_AMBIGUOUS'' \<and>
    name \<noteq> ''BLOCK_HUMAN'' \<and> name \<noteq> ''RESUME_WORKER'' \<and> name \<noteq> ''YIELD_RESOURCE'' \<and> name \<notin> set WAIT_DECISIONS \<and>
    name \<noteq> ''NOOP_PAUSED''"
  by (auto simp: WAKE_DECISIONS_def WAIT_DECISIONS_def)

lemma not_wake [simp]:
  "''BLOCK_HUMAN'' \<notin> set WAKE_DECISIONS" "''RESUME_WORKER'' \<notin> set WAKE_DECISIONS"
  "''RECONCILE_AMBIGUOUS'' \<notin> set WAKE_DECISIONS"
  by (simp_all add: WAKE_DECISIONS_def)

lemma map_block_human_request:
  assumes "pk_status (packet f) \<noteq> ''COMPLETE''"
  shows "maps_to (decided_request f w s ''BLOCK_HUMAN'' digest subject) t f w s
     (map_block_human t f w s ''BLOCK_HUMAN'' digest subject)"
  unfolding map_block_human_def
  by (intro maps_to_branch maps_to_intros)
    (simp_all add: decided_request_def plain_request_def assms)

lemma map_resume_request:
  assumes "pk_status (packet f) \<noteq> ''COMPLETE''"
  shows "maps_to (decided_request f w s ''RESUME_WORKER'' digest subject) t f w s
     (map_resume t f w s ''RESUME_WORKER'' digest subject)"
  unfolding map_resume_def Let_def
  by (intro maps_to_branch maps_to_intros)
    (auto simp: decided_request_def plain_request_def assms)

lemma map_wake_request:
  assumes "pk_status (packet f) \<noteq> ''COMPLETE''" "name \<in> set WAKE_DECISIONS"
  shows "maps_to (decided_request f w s name digest subject) t f w s (map_wake t f w s name digest subject)"
  unfolding map_wake_def
  using wake_names [OF assms(2)] assms
  by (intro maps_to_branch maps_to_intros)
    (auto simp: decided_request_def plain_request_def)

lemma map_wait_request:
  assumes "name = ''YIELD_RESOURCE'' \<or> name \<in> set WAIT_DECISIONS \<or> name = ''NOOP_PAUSED''"
  shows "decided_request f w s name digest subject (asking ''RECHECK_LATER'' reason name subject digest spr ''SUPPRESS'')"
proof -
  have "name \<noteq> ''RESUME_WORKER''" using assms by (auto simp: WAIT_DECISIONS_def)
  then show ?thesis by (simp add: decided_request_def plain_request_def)
qed

lemma map_decision_request:
  "maps_to (decided_request f w s name (observation_digest fl f name) subject) t f w s
     (map_decision fl t f w s name reason subject)"
proof (cases "name = ''NOOP_COMPLETE'' \<or> pk_status (packet f) = ''COMPLETE''")
  case True
  then have "decided_request f w s name d subject
      (asking ''CLOSE_WATCH'' rs name subject d ''NONE'' ''SEND''\<lparr>rq_terminal := ''CLOSED''\<rparr>)" for d rs
    using wake_names [of name] by (auto simp: decided_request_def plain_request_def)
  with True show ?thesis by (simp add: map_decision_def Let_def maps_to_intros)
next
  case False
  then have status: "pk_status (packet f) \<noteq> ''COMPLETE''" by simp
  have "decided_request f w s ''RECONCILE_AMBIGUOUS'' d subject
      (asking ''BLOCK_RECONCILIATION'' rs ''RECONCILE_AMBIGUOUS'' subject d
         (if ws_key s = watch_key f ''BLOCK_RECONCILIATION'' subject ''RECONCILE_AMBIGUOUS'' then ''DEDUP'' else ''NONE'')
         (if ws_key s = watch_key f ''BLOCK_RECONCILIATION'' subject ''RECONCILE_AMBIGUOUS'' then ''SUPPRESS'' else ''SEND''))"
    for d rs
    using status by (simp add: decided_request_def plain_request_def)
  then show ?thesis
    using False map_block_human_request [OF status] map_resume_request [OF status] map_wake_request [OF status]
      map_wait_request [of name]
    by (simp add: map_decision_def Let_def maps_to_if maps_to_intros)
qed

lemma map_decision_fields:
  assumes "map_decision fl t f w s name reason subject = Inr r"
  obtains q where "decided_request f w s name (observation_digest fl f name) subject q" "mapped_by t f w s q (Inr r)"
  using map_decision_request [of f w s name fl subject t reason] assms by (auto simp: maps_to_def)

section \<open>The plan under a bound retry count\<close>

lemma implementation_resumes:
  "out (implementation_path f) = Some ''RESUME_WORKER'' \<longleftrightarrow>
     active_worker f \<and> \<not> gt_yielded_for_audit (git f) \<and> wk_progress_evidence (worker f)"
  by (auto simp: implementation_path_def Let_def branch_outcomes audit_out)

lemma pipeline_resumes: "out (pr_pipeline f) \<noteq> Some ''RESUME_WORKER''"
  by (auto simp: pr_pipeline_def Let_def branch_outcomes)

lemma decide_resumes:
  "out (decide f) = Some ''RESUME_WORKER'' \<longleftrightarrow>
     pk_status (packet f) \<notin> {''COMPLETE'', ''PAUSED'', ''BLOCKED''} \<and> \<not> mutation_ambiguous f \<and>
     failure_class f \<notin> {''AMBIGUOUS_MUTATION'', ''SEMANTIC'', ''HUMAN_REQUIRED'', ''AUTHORITY'', ''RESOURCE'', ''TRANSIENT''} \<and>
     identical_semantic_count f < 2 \<and> active_worker f \<and> resource_result f \<noteq> ''BLOCK'' \<and>
     \<not> (admission_decision f = ''DENY'' \<and> admission_deny_class f = Some ''HOST_BUDGET'') \<and>
     dependencies_eligible (packet f) = ''YES'' \<and> \<not> pr_exists (pr f) \<and> \<not> wt_external (wait f) \<and>
     \<not> gt_yielded_for_audit (git f) \<and> wk_progress_evidence (worker f)"
  by (simp add: decide_def Let_def branch_outcomes pipeline_resumes implementation_resumes active_worker_def)

text \<open>In the transient case the plan is \<^verbatim>\<open>WAIT_EXTERNAL\<close> or, once the budget is used up, another decision that stays.\<close>

lemma decide_retry:
  assumes "failure_class f = ''TRANSIENT''" "wt_retry_budget x = wt_retry_budget y" "wt_retry_count x \<le> wt_retry_count y"
  shows "out (decide (f\<lparr>wait := x\<rparr>)) = Some ''WAIT_EXTERNAL'' \<or> out (decide (f\<lparr>wait := y\<rparr>)) = out (decide (f\<lparr>wait := x\<rparr>))"
  using assms(2,3) by (simp add: decide_def Let_def branch_outcomes assms(1))

lemma parse_wait_retry:
  assumes "parse_wait (Some d) = Inr x" "parse_wait (Some (dset ''retry_count'' (JInt n) d)) = Inr y"
  shows "wt_retry_budget y = wt_retry_budget x \<and> wt_retry_count y = n"
proof -
  have g: "jget_or (dset ''retry_count'' v d) k v0 = (if k = ''retry_count'' then v else jget_or d k v0)" for v k v0
    by (simp add: jget_or_def dict_simps)
  show ?thesis
    using assms by (auto simp: parse_wait_def bindE_Inr_iff g require_int_def split: if_splits)
qed

lemma parse_wait_none:
  "parse_wait (Some (dset ''retry_count'' (JInt n) [])) = Inr y \<Longrightarrow> wt_retry_budget y = 3 \<and> wt_retry_count y = n"
  by (auto simp: parse_wait_def bindE_Inr_iff jget_or_def require_int_def split: if_splits)

lemma normalize_wait: "normalize_facts (JObj d) = Inr f \<Longrightarrow> section_facts d ''wait'' parse_wait = Inr (wait f)"
  unfolding normalize_Inr_iff by blast

lemma normalize_dset_wait:
  assumes "normalize_facts (JObj d) = Inr f" "normalize_facts (JObj (dset ''wait'' v d)) = Inr g"
  shows "g = f\<lparr>wait := wait g\<rparr>"
proof -
  have keys: "''worker'' \<noteq> ''wait''" "''git'' \<noteq> ''wait''" "''resource'' \<noteq> ''wait''" "''admission'' \<noteq> ''wait''"
    "''mutation'' \<noteq> ''wait''" "''failure'' \<noteq> ''wait''" "''publication'' \<noteq> ''wait''" "''pr'' \<noteq> ''wait''"
    "''ci'' \<noteq> ''wait''" "''review'' \<noteq> ''wait''" "''gates'' \<noteq> ''wait''" "''previous_decision'' \<noteq> ''wait''"
    "''packet'' \<noteq> ''wait''"
    by simp_all
  have "map_of (dset ''wait'' v d) ''packet'' = map_of d ''packet''" by (simp add: dict_simps)
  with assms keys show ?thesis
    by (cases f, cases g) (simp add: normalize_Inr_iff section_dset, elim conjE exE, simp)
qed

lemma bind_transient:
  assumes f: "normalize_facts (JObj payload) = Inr f"
    and g: "normalize_facts (JObj (bind_transient_retry payload f s)) = Inr g"
  shows "g = f\<lparr>wait := wait g\<rparr>" "wt_retry_budget (wait g) = wt_retry_budget (wait f)"
    "failure_class f \<noteq> ''TRANSIENT'' \<Longrightarrow> g = f"
    "failure_class f = ''TRANSIENT'' \<Longrightarrow> wt_retry_count (wait g) = max (ws_failures s) (wt_retry_count (wait f))"
proof -
  show same: "failure_class f \<noteq> ''TRANSIENT'' \<Longrightarrow> g = f"
    using f g by (simp add: bind_transient_retry_def)
  let ?w = "case json_or (jget payload ''wait'') (JObj []) of JObj d \<Rightarrow> d | _ \<Rightarrow> []"
  let ?n = "max (ws_failures s) (wt_retry_count (wait f))"
  show "g = f\<lparr>wait := wait g\<rparr>"
  proof (cases "failure_class f = ''TRANSIENT''")
    case True
    then show ?thesis
      by (intro normalize_dset_wait [OF f]) (use g in \<open>simp add: bind_transient_retry_def\<close>)
  qed (use same in simp)
  have wait_g: "parse_wait (Some (dset ''retry_count'' (JInt ?n) ?w)) = Inr (wait g)" if "failure_class f = ''TRANSIENT''"
    using normalize_wait [OF g] that
    by (simp add: bind_transient_retry_def section_facts_def optional_mapping_def dict_simps require_mapping_def)
  have wait_f: "section_facts payload ''wait'' parse_wait = Inr (wait f)"
    by (rule normalize_wait [OF f])
  have "wt_retry_budget (wait g) = wt_retry_budget (wait f) \<and> wt_retry_count (wait g) = ?n" if tr: "failure_class f = ''TRANSIENT''"
  proof (cases "map_of payload ''wait''")
    case None
    then have "wt_retry_budget (wait f) = 3" using wait_f by (auto simp: section_facts_def optional_mapping_def parse_wait_def dest: sym)
    moreover have "?w = []" using None by (simp add: jget_def json_or_def)
    ultimately show ?thesis using wait_g [OF tr] parse_wait_none [of ?n "wait g"] by simp
  next
    case (Some v)
    then obtain d where d: "v = JObj d" "parse_wait (Some d) = Inr (wait f)"
      using wait_f by (cases v) (auto simp: section_facts_def optional_mapping_def require_mapping_def)
    then have "?w = d" using Some by (cases d) (simp_all add: jget_def json_or_def)
    then show ?thesis using parse_wait_retry [OF d(2)] wait_g [OF tr] by simp
  qed
  then show "wt_retry_budget (wait g) = wt_retry_budget (wait f)"
    "failure_class f = ''TRANSIENT'' \<Longrightarrow> wt_retry_count (wait g) = ?n"
    using same by (cases "failure_class f = ''TRANSIENT''"; simp)+
qed

lemma bound_plans:
  assumes f: "normalize_facts (JObj payload) = Inr f"
    and d: "plan (JObj (bind_transient_retry payload f s1)) = Inr d"
    and e: "plan (JObj (bind_transient_retry payload f s2)) = Inr e"
    and le: "failure_class f = ''TRANSIENT'' \<Longrightarrow> ws_failures s1 \<le> ws_failures s2"
  shows "dc_decision d = ''WAIT_EXTERNAL'' \<or> dc_decision e = dc_decision d"
proof -
  obtain g h where g: "normalize_facts (JObj (bind_transient_retry payload f s1)) = Inr g" "decide g = Inr d"
    and h: "normalize_facts (JObj (bind_transient_retry payload f s2)) = Inr h" "decide h = Inr e"
    using d e by (auto simp: plan_Inr)
  note bg = bind_transient [OF f g(1)] and bh = bind_transient [OF f h(1)]
  show ?thesis
  proof (cases "failure_class f = ''TRANSIENT''")
    case True
    have "out (decide (f\<lparr>wait := wait g\<rparr>)) = Some ''WAIT_EXTERNAL'' \<or>
        out (decide (f\<lparr>wait := wait h\<rparr>)) = out (decide (f\<lparr>wait := wait g\<rparr>))"
      by (rule decide_retry) (use True bg(2,4) bh(2,4) le in auto)
    then show ?thesis
      using g(2) h(2) by (simp add: out_def bg(1) [symmetric] bh(1) [symmetric])
  next
    case False
    then show ?thesis using bg(3) bh(3) g(2) h(2) by simp
  qed
qed

end
