(* ===== verification/WatchProps.thy ===== *)
theory WatchProps
  imports WatchFacts CoordinatorProps
begin

text \<open>
  What the watch evaluator promises: a worker is resumed exactly behind its gates, a closed watch
  stays closed whatever is evaluated later, no notification is repeated for the same facts, and the
  next check lies within the backoff bounds. The sample inputs at the start use decimal seconds as
  timestamps.
\<close>

section \<open>Sample inputs\<close>

text \<open>Timestamps of the samples: the seconds since the epoch, in decimal, in UTC.\<close>

definition demo_iso :: iso where
  "demo_iso = \<lparr>
     iso_parse = (\<lambda>x. if ends_with x ''+00:00''
        then Some (Aware (1000000 * foldl (\<lambda>a c. 10 * a + (of_char c - 48)) 0 (take (length x - 6) x))) else Some Naive),
     iso_format = (\<lambda>u. int_text (u div 1000000) @ ''Z'')\<rparr>"

definition no_float :: "rat \<Rightarrow> string" where "no_float r = []"

definition demo_live :: jobj where
  "demo_live =
     [(''packet'', demo_packet),
      (''worker'', JObj [(''present'', JBool True), (''status'', JStr ''ACTIVE''), (''starting_intent_revision'', JInt 1),
         (''progress_evidence'', JBool True)]),
      (''resource'', JObj [(''result'', JStr ''PASS'')]), (''admission'', JObj [(''decision'', JStr ''ALLOW'')])]"

definition demo_watch :: jobj where
  "demo_watch = demo_live @ [(''watch'', JObj [(''watch_class'', JStr ''worker_progress_or_yield''),
     (''observed_at'', JStr ''1000Z'')])]"

definition demo_stale :: jobj where
  "demo_stale = demo_live @ [(''watch'', JObj [(''watch_class'', JStr ''worker_progress_or_yield''),
     (''observed_at'', JStr ''1000Z''), (''intent_revision'', JInt 2)])]"

definition demo_live_facts :: facts where
  "demo_live_facts = demo_start_facts
     \<lparr>worker := \<lparr>wk_present = True, wk_status = Some ''ACTIVE'', wk_starting_intent_revision = Some 1,
        wk_progress_evidence = True\<rparr>,
      git := \<lparr>gt_head = UNKNOWN, gt_dirty = None, gt_unpushed = None, gt_yielded_for_audit = False\<rparr>\<rparr>"

definition demo_watch_facts :: watch_facts where
  "demo_watch_facts = \<lparr>wf_class = ''worker_progress_or_yield'', wf_observed_at = ''1000Z'', wf_subject = None, wf_revision = None\<rparr>"

definition new_state :: watch_state where
  "new_state = \<lparr>ws_identity = None, ws_digest = [], ws_decision = [], ws_key = [], ws_transition_at = [],
     ws_observation_at = [], ws_failures = 0, ws_next = None, ws_terminal = ''OPEN''\<rparr>"

lemma demo_live_facts: "normalize_facts (JObj demo_live) = Inr demo_live_facts"
  by code_simp

lemma demo_payload: "planner_payload demo_watch = demo_live" "planner_payload demo_stale = demo_live"
  by (simp_all add: planner_payload_def demo_watch_def demo_stale_def demo_live_def)

lemma demo_inputs: "watch_inputs no_float demo_iso demo_watch (JObj []) demo_watch_facts new_state demo_live_facts"
proof -
  have "map_option (parse_watch demo_iso) (map_of demo_watch ''watch'') = Some (Inr demo_watch_facts)"
    "parse_state no_float demo_iso (JObj []) = Inr new_state"
    "check_binding demo_live_facts demo_watch_facts new_state = Inr ()" by code_simp+
  then show ?thesis by (simp add: watch_inputs_def demo_payload demo_live_facts)
qed

lemma demo_planned:
  "plan (JObj (bind_transient_retry (planner_payload demo_watch) demo_live_facts new_state)) = Inr (planned demo_live_facts)"
  "dc_decision (planned demo_live_facts) = ''RESUME_WORKER''"
proof -
  have "failure_class demo_live_facts \<noteq> ''TRANSIENT''" by code_simp
  then show "plan (JObj (bind_transient_retry (planner_payload demo_watch) demo_live_facts new_state)) =
      Inr (planned demo_live_facts)"
    using planned_eq [OF demo_live_facts] by (simp add: bind_transient_retry_def demo_payload)
  show "dc_decision (planned demo_live_facts) = ''RESUME_WORKER''" by code_simp
qed

lemma evaluates_to:
  assumes "reject_execution_keys ''facts'' raw = Inr ()"
    "reject_unknown raw (TOP_LEVEL_KEYS @ [''watch'']) ''facts'' = Inr ()" "watch_inputs fl t raw st w s f"
  shows "watch_evaluate fl t (JObj raw) st =
    (if ws_terminal s = ''CLOSED'' then already_closed f w s else evaluate_open fl t (planner_payload raw) f w s)"
  using assms by (auto simp: watch_evaluate_def require_mapping_def watch_inputs_def split: option.split)

lemma demo_evaluates:
  "\<exists>r. watch_evaluate no_float demo_iso (JObj demo_watch) (JObj []) = Inr r \<and> re_next r = Some ''1300Z''"
proof -
  let ?f = demo_live_facts and ?w = demo_watch_facts and ?s = new_state
  have step: "watch_evaluate no_float demo_iso (JObj demo_watch) (JObj []) =
      evaluate_open no_float demo_iso (planner_payload demo_watch) ?f ?w ?s"
  proof -
    have "reject_execution_keys ''facts'' demo_watch = Inr ()"
      "reject_unknown demo_watch (TOP_LEVEL_KEYS @ [''watch'']) ''facts'' = Inr ()" by code_simp+
    moreover have "ws_terminal ?s \<noteq> ''CLOSED''" by code_simp
    ultimately show ?thesis using evaluates_to [OF _ _ demo_inputs] by simp
  qed
  have plain: "\<not> is_stale ?f ?w ?s" "observation_is_older demo_iso ?w ?s = Inr False" "\<not> mutation_ambiguous ?f"
    "failure_class ?f \<noteq> ''AMBIGUOUS_MUTATION''" "pk_status (packet ?f) \<noteq> ''COMPLETE''" "resume_in_scope ?w" "resume_allowed ?f"
    by code_simp+
  have "next_check demo_iso (wf_observed_at ?w) ?s False = Inr ''1300Z''" "ws_decision ?s = []" by code_simp+
  then have "\<exists>r. map_resume demo_iso ?f ?w ?s ''RESUME_WORKER'' dig sub = Inr r \<and> re_next r = Some ''1300Z''" for dig sub
    unfolding map_resume_def
    by (simp add: plain rescheduled_def watch_emit_def Let_def RESULTS_def)
  then have "\<exists>r. evaluate_open no_float demo_iso (planner_payload demo_watch) ?f ?w ?s = Inr r \<and> re_next r = Some ''1300Z''"
    using demo_planned plain by (simp add: evaluate_open_def map_decision_def Let_def)
  then show ?thesis using step by simp
qed

definition stale_state :: persisted where
  "stale_state = \<lparr>ps_repo = ''o/r'', ps_workstream = ''w'', ps_revision = 2, ps_class = ''worker_progress_or_yield'',
     ps_subject = ''NONE'', ps_digest = ''STALE'', ps_decision = ''STALE_WATCH'',
     ps_key = ''o/r|w|1|CLOSE_WATCH|STALE_WATCH|NONE'', ps_transition_at = ''1000Z'', ps_observation_at = ''1000Z'',
     ps_failures = 0, ps_next = None, ps_terminal = ''CLOSED''\<rparr>"

definition stale_result :: reentry where
  "stale_result = \<lparr>re_result = ''CLOSE_WATCH'',
     re_reason = ''stale watch identity cannot act and must be reconciled against the current packet'',
     re_decision = ''STALE_WATCH'', re_class = ''worker_progress_or_yield'', re_disposition = ''SEND'',
     re_key = ''o/r|w|1|CLOSE_WATCH|STALE_WATCH|NONE'', re_suppress = ''NONE'', re_resumes_worker = False,
     re_wakes_coordinator = False, re_closes_watch = True, re_retries_action = False,
     re_stops_unrelated_sessions = False, re_mutates_existing_sessions = False, re_spawns_process = False,
     re_mutates_github = False, re_sends_notification = False, re_next = None, re_state = stale_state,
     re_repository = ''o/r'', re_workstream = ''w'', re_revision = 1\<rparr>"

definition stale_again :: reentry where
  "stale_again = stale_result\<lparr>re_reason := ''watch is already closed'', re_disposition := ''SUPPRESS'', re_suppress := ''DEDUP''\<rparr>"

definition stale_watch_facts :: watch_facts where
  "stale_watch_facts = demo_watch_facts\<lparr>wf_revision := Some 2\<rparr>"

definition stale_read :: watch_state where
  "stale_read = \<lparr>ws_identity = Some (stripped_identity stale_state), ws_digest = ''STALE'', ws_decision = ''STALE_WATCH'',
     ws_key = ''o/r|w|1|CLOSE_WATCH|STALE_WATCH|NONE'', ws_transition_at = ''1000Z'', ws_observation_at = ''1000Z'',
     ws_failures = 0, ws_next = None, ws_terminal = ''CLOSED''\<rparr>"

lemma stale_keys:
  "reject_execution_keys ''facts'' demo_stale = Inr ()"
  "reject_unknown demo_stale (TOP_LEVEL_KEYS @ [''watch'']) ''facts'' = Inr ()"
  by code_simp+

lemma stale_inputs:
  "watch_inputs no_float demo_iso demo_stale (JObj []) stale_watch_facts new_state demo_live_facts"
  "watch_inputs no_float demo_iso demo_stale (persisted_json stale_state) stale_watch_facts stale_read demo_live_facts"
proof -
  have w: "map_option (parse_watch demo_iso) (map_of demo_stale ''watch'') = Some (Inr stale_watch_facts)"
    and s: "parse_state no_float demo_iso (JObj []) = Inr new_state"
      "parse_state no_float demo_iso (persisted_json stale_state) = Inr stale_read"
    and c: "check_binding demo_live_facts stale_watch_facts new_state = Inr ()"
      "check_binding demo_live_facts stale_watch_facts stale_read = Inr ()"
    by code_simp+
  show "watch_inputs no_float demo_iso demo_stale (JObj []) stale_watch_facts new_state demo_live_facts"
    "watch_inputs no_float demo_iso demo_stale (persisted_json stale_state) stale_watch_facts stale_read demo_live_facts"
    using w s c by (simp_all add: watch_inputs_def demo_payload demo_live_facts)
qed

lemma stale_evaluates: "watch_evaluate no_float demo_iso (JObj demo_stale) (JObj []) = Inr stale_result"
  unfolding evaluates_to [OF stale_keys stale_inputs(1)] by code_simp

lemma stale_again: "watch_evaluate no_float demo_iso (JObj demo_stale) (persisted_json (re_state stale_result)) = Inr stale_again"
proof -
  have left: "re_state stale_result = stale_state" by (simp add: stale_result_def)
  show ?thesis unfolding left evaluates_to [OF stale_keys stale_inputs(2)] by code_simp
qed

section \<open>Helpers\<close>

lemma evaluate_with:
  assumes "watch_evaluate fl t (JObj raw) st = Inr r" "watch_inputs fl t raw st w s f"
  shows "(if ws_terminal s = ''CLOSED'' then already_closed f w s
      else evaluate_open fl t (planner_payload raw) f w s) = Inr r"
proof -
  obtain raw' w' s' f' where i: "JObj raw = JObj raw'" "watch_inputs fl t raw' st w' s' f'"
    "(if ws_terminal s' = ''CLOSED'' then already_closed f' w' s'
      else evaluate_open fl t (planner_payload raw') f' w' s') = Inr r"
    by (rule evaluate_Inr [OF assms(1)])
  then have "watch_inputs fl t raw st w' s' f'" by simp
  then have "w' = w" "f' = f" "s' = s" using inputs_unique [OF assms(2)] by blast+
  then show ?thesis using i by auto
qed

text \<open>The four ways an open watch is evaluated.\<close>

lemma evaluate_open_cases:
  assumes "evaluate_open fl t payload f w s = Inr r"
  obtains (stale) reason where "is_stale f w s" "close_stale f w s (subject_version f) reason = Inr r"
  | (older) "\<not> is_stale f w s" "observation_is_older t w s = Inr True" "rejected_older f w s = Inr r"
  | (mapped) name reason where "\<not> is_stale f w s" "observation_is_older t w s = Inr False"
      "map_decision fl t f w s name reason (subject_version f) = Inr r"
      "if mutation_ambiguous f \<or> failure_class f = ''AMBIGUOUS_MUTATION'' then name = ''RECONCILE_AMBIGUOUS''
       else \<exists>d. plan (JObj (bind_transient_retry payload f s)) = Inr d \<and> dc_decision d = name"
  using assms that
  by (auto simp: evaluate_open_def bindE_Inr_iff split: if_splits)

lemma mapped_resumes:
  assumes "map_decision fl t f w s name reason subject = Inr r"
  shows "re_resumes_worker r \<longleftrightarrow> name = ''RESUME_WORKER'' \<and> pk_status (packet f) \<noteq> ''COMPLETE'' \<and>
    resume_in_scope w \<and> resume_allowed f \<and>
    \<not> (ws_decision s = name \<and> ws_digest s = observation_digest fl f name \<and> ws_digest s \<noteq> [])"
proof -
  obtain q where q: "decided_request f w s name (observation_digest fl f name) subject q" "mapped_by t f w s q (Inr r)"
    by (rule map_decision_fields [OF assms])
  then have "re_resumes_worker r \<longleftrightarrow> rq_result q = ''RESUME_ADMITTED_WORKER''"
    using mapped_by_fields(3) by (auto simp: decided_request_def plain_request_def)
  then show ?thesis using q(1) by (simp add: decided_request_def)
qed

lemma bound_plan_resumes:
  assumes f: "normalize_facts (JObj payload) = Inr f"
    and d: "plan (JObj (bind_transient_retry payload f s)) = Inr d"
  shows "dc_decision d = ''RESUME_WORKER'' \<longleftrightarrow> out (decide f) = Some ''RESUME_WORKER''"
proof -
  obtain g where g: "normalize_facts (JObj (bind_transient_retry payload f s)) = Inr g" "decide g = Inr d"
    using d by (auto simp: plan_Inr)
  note b = bind_transient [OF f g(1)]
  show ?thesis
  proof (cases "failure_class f = ''TRANSIENT''")
    case True
    then have "failure_class g = ''TRANSIENT''" by (subst b(1)) simp
    then have "out (decide g) \<noteq> Some ''RESUME_WORKER''" "out (decide f) \<noteq> Some ''RESUME_WORKER''"
      using True by (simp_all add: decide_resumes)
    then show ?thesis using g(2) by (simp add: out_def)
  next
    case False
    then show ?thesis using b(3) g(2) by (simp add: out_def)
  qed
qed

section \<open>Claims\<close>

text \<open>
  C18: a watch resumes a worker exactly when it is an open \<^verbatim>\<open>worker_progress_or_yield\<close> watch whose
  identity and revision match the packet, the observation is not older than the last accepted one,
  the packet is ACTIVE with complete dependencies and nothing ambiguous, failed, external or already
  in a pull request, the worker is live, of the packet's revision and with evidence of progress,
  resource and admission both allow it, and the same resume was not emitted for these facts before.
\<close>

theorem resume_gates:
  assumes "watch_evaluate fl t (JObj raw) st = Inr r" "watch_inputs fl t raw st w s f"
  shows "re_resumes_worker r \<longleftrightarrow>
     wf_class w = ''worker_progress_or_yield'' \<and> ws_terminal s \<noteq> ''CLOSED'' \<and> \<not> is_stale f w s \<and>
     observation_is_older t w s = Inr False \<and>
     pk_status (packet f) = ''ACTIVE'' \<and> \<not> mutation_ambiguous f \<and> failure_class f = ''NONE'' \<and>
     identical_semantic_count f < 2 \<and> live_status (worker f) \<and>
     wk_starting_intent_revision (worker f) = Some (pk_intent_revision (packet f)) \<and>
     wk_progress_evidence (worker f) \<and> resource_result f \<in> {''PASS'', ''WARN''} \<and> admission_decision f = ''ALLOW'' \<and>
     dependencies_eligible (packet f) = ''YES'' \<and> \<not> pr_exists (pr f) \<and> \<not> wt_external (wait f) \<and>
     \<not> gt_yielded_for_audit (git f) \<and>
     \<not> (ws_decision s = ''RESUME_WORKER'' \<and> ws_digest s = observation_digest fl f ''RESUME_WORKER'' \<and> ws_digest s \<noteq> [])"
    (is "_ \<longleftrightarrow> ?gates")
proof (cases "ws_terminal s = ''CLOSED''")
  case True
  then show ?thesis using evaluate_with [OF assms] already_closed_fields(4) by auto
next
  case False
  have f: "normalize_facts (JObj (planner_payload raw)) = Inr f" using assms(2) by (simp add: watch_inputs_def)
  have "evaluate_open fl t (planner_payload raw) f w s = Inr r" using evaluate_with [OF assms] False by simp
  then show ?thesis
  proof (cases rule: evaluate_open_cases)
    case (stale reason)
    then show ?thesis using close_stale_fields(3) by auto
  next
    case older
    then show ?thesis using rejected_older_fields(4) by auto
  next
    case (mapped name reason)
    let ?decided = "out (decide f) = Some ''RESUME_WORKER'' \<and> resume_in_scope w \<and> resume_allowed f \<and>
      \<not> (ws_decision s = ''RESUME_WORKER'' \<and> ws_digest s = observation_digest fl f ''RESUME_WORKER'' \<and> ws_digest s \<noteq> [])"
    have gates: "?gates \<longleftrightarrow> ?decided"
      unfolding decide_resumes active_status [OF f] resume_in_scope_def resume_allowed_def active_worker_def
      using mapped(1,2) False by (auto simp: live_status_def)
    have "name = ''RESUME_WORKER'' \<longleftrightarrow> out (decide f) = Some ''RESUME_WORKER''"
      using mapped(4) bound_plan_resumes [OF f] by (auto simp: decide_resumes split: if_splits)
    moreover have "out (decide f) = Some ''RESUME_WORKER'' \<Longrightarrow> pk_status (packet f) \<noteq> ''COMPLETE''"
      by (simp add: decide_resumes)
    ultimately have "re_resumes_worker r \<longleftrightarrow> ?decided" using mapped_resumes [OF mapped(3)] by blast
    then show ?thesis by (rule trans [OF _ gates [symmetric]])
  qed
qed

theorem resume_gates_witness:
  "\<exists>r. watch_evaluate no_float demo_iso (JObj demo_watch) (JObj []) = Inr r \<and> re_resumes_worker r"
proof -
  obtain r where r: "watch_evaluate no_float demo_iso (JObj demo_watch) (JObj []) = Inr r" using demo_evaluates by blast
  moreover have "re_resumes_worker r"
    unfolding resume_gates [OF r demo_inputs] by (simp add: new_state_def) code_simp
  ultimately show ?thesis by blast
qed

section \<open>Closed watches\<close>

text \<open>The state file after one more evaluation: it is replaced only by a result.\<close>

definition watch_step :: "(rat \<Rightarrow> string) \<Rightarrow> iso \<Rightarrow> json \<Rightarrow> json \<Rightarrow> json" where
  "watch_step fl t p st = (case watch_evaluate fl t p st of Inr r \<Rightarrow> persisted_json (re_state r) | Inl _ \<Rightarrow> st)"

definition closed_file :: "(rat \<Rightarrow> string) \<Rightarrow> iso \<Rightarrow> json \<Rightarrow> bool" where
  "closed_file fl t st = (\<forall>s. parse_state fl t st = Inr s \<longrightarrow> ws_terminal s = ''CLOSED'')"

lemma closed_persisted: "ps_terminal p = ''CLOSED'' \<Longrightarrow> closed_file fl t (persisted_json p)"
proof -
  have "py_strip ''CLOSED'' = ''CLOSED''" by code_simp
  then show "ps_terminal p = ''CLOSED'' \<Longrightarrow> closed_file fl t (persisted_json p)"
    by (simp add: closed_file_def read_back(9))
qed

lemma evaluate_closed:
  assumes "closed_file fl t st" "watch_evaluate fl t p st = Inr r"
  obtains f w s where "ws_terminal s = ''CLOSED''" "already_closed f w s = Inr r"
  using assms by (auto elim!: evaluate_Inr simp: closed_file_def watch_inputs_def split: if_splits)

lemma closed_step: "closed_file fl t st \<Longrightarrow> closed_file fl t (watch_step fl t p st)"
  by (auto simp: watch_step_def intro!: closed_persisted already_closed_fields(6) elim!: evaluate_closed split: sum.split)

interpretation closing: machine "closed_file fl t" "\<lambda>_. True" "watch_step fl t" for fl t
  by unfold_locales (rule closed_step)

lemma closing_persists:
  assumes "watch_evaluate fl t p st = Inr r" "re_closes_watch r" shows "ps_terminal (re_state r) = ''CLOSED''"
proof -
  obtain raw w s f where e: "(if ws_terminal s = ''CLOSED'' then already_closed f w s
      else evaluate_open fl t (planner_payload raw) f w s) = Inr r"
    by (rule evaluate_Inr [OF assms(1)])
  show ?thesis
  proof (cases "ws_terminal s = ''CLOSED''")
    case True
    then show ?thesis using e already_closed_fields(6) by simp
  next
    case False
    then have "evaluate_open fl t (planner_payload raw) f w s = Inr r" using e by simp
    then show ?thesis
    proof (cases rule: evaluate_open_cases)
      case (stale reason)
      then show ?thesis using close_stale_fields(2) by blast
    next
      case older
      then show ?thesis using rejected_older_fields(5) assms(2) by blast
    next
      case (mapped name reason)
      obtain q where q: "decided_request f w s name (observation_digest fl f name) (subject_version f) q"
          "mapped_by t f w s q (Inr r)"
        by (rule map_decision_fields [OF mapped(3)])
      then show ?thesis using mapped_by_fields(4,5) [OF q(2)] assms(2)
        by (simp add: decided_request_def plain_request_def)
    qed
  qed
qed

text \<open>
  C19: a watch closes for good. Once a result closes it, every later result, after any further
  evaluations with whatever facts, is the suppressed answer that the watch is closed; no worker is
  resumed and the coordinator is not woken.
\<close>

theorem closed_watch_stays_closed:
  assumes "watch_evaluate fl t p st = Inr r" "re_closes_watch r"
    and "watch_evaluate fl t q (fold (watch_step fl t) ps (persisted_json (re_state r))) = Inr e"
  shows "re_result e = ''CLOSE_WATCH'' \<and> re_disposition e = ''SUPPRESS'' \<and> re_suppress e = ''DEDUP'' \<and>
    \<not> re_resumes_worker e \<and> \<not> re_wakes_coordinator e \<and> ps_terminal (re_state e) = ''CLOSED''"
proof -
  have "closed_file fl t (persisted_json (re_state r))" by (rule closed_persisted [OF closing_persists [OF assms(1,2)]])
  then have "closed_file fl t (fold (watch_step fl t) ps (persisted_json (re_state r)))"
    by (rule closing.run_inv [rotated]) (simp add: list_all_iff)
  then obtain f w s where "ws_terminal s = ''CLOSED''" "already_closed f w s = Inr e"
    using assms(3) by (rule evaluate_closed)
  then show ?thesis using already_closed_fields [of f w s e] by simp
qed

theorem closed_watch_stays_closed_witness:
  "re_closes_watch stale_result \<and> re_disposition stale_again = ''SUPPRESS''"
proof -
  have "re_closes_watch stale_result" by code_simp
  then show ?thesis
    using closed_watch_stays_closed [OF stale_evaluates, of "JObj demo_stale" "[]" stale_again] stale_again by simp
qed

section \<open>Repeated evaluations\<close>

text \<open>What an open result that is sent leaves for the next evaluation.\<close>

definition announced :: "facts \<Rightarrow> string \<Rightarrow> watch_state \<Rightarrow> bool" where
  "announced f name s =
     (name = ''RECONCILE_AMBIGUOUS'' \<and> ws_key s = watch_key f ''BLOCK_RECONCILIATION'' (subject_version f) name \<or>
      name = ''BLOCK_HUMAN'' \<and> ws_key s = watch_key f ''NOTIFY_OWNER'' (subject_version f) name \<or>
      name \<in> set WAKE_DECISIONS \<and> ws_decision s = name)"

lemma decided_sends:
  assumes "decided_request f w s name digest subject q" "rq_notification q = ''SEND''" "rq_terminal q \<noteq> ''CLOSED''"
  shows "rq_decision q = name \<and> pk_status (packet f) \<noteq> ''COMPLETE'' \<and>
         (rq_result q = ''BLOCK_RECONCILIATION'' \<and> name = ''RECONCILE_AMBIGUOUS'' \<or>
          rq_result q = ''NOTIFY_OWNER'' \<and> name = ''BLOCK_HUMAN'' \<or>
          rq_result q = ''WAKE_COORDINATOR'' \<and> name \<in> set WAKE_DECISIONS)"
proof -
  have "rq_notification q = ''SEND'' \<longrightarrow> rq_terminal q = ''CLOSED'' \<or>
         rq_decision q = name \<and> pk_status (packet f) \<noteq> ''COMPLETE'' \<and>
         (rq_result q = ''BLOCK_RECONCILIATION'' \<and> name = ''RECONCILE_AMBIGUOUS'' \<or>
          rq_result q = ''NOTIFY_OWNER'' \<and> name = ''BLOCK_HUMAN'' \<or>
          rq_result q = ''WAKE_COORDINATOR'' \<and> name \<in> set WAKE_DECISIONS)"
    using assms(1) unfolding decided_request_def by (elim conjE)
  then show ?thesis using assms(2,3) by blast
qed

lemma mapped_sends:
  assumes "map_decision fl t f w s name reason (subject_version f) = Inr r" "re_disposition r = ''SEND''"
    and "parse_state fl t (persisted_json (re_state r)) = Inr s'"
  shows "ws_terminal s' = ''CLOSED'' \<or>
    pk_status (packet f) \<noteq> ''COMPLETE'' \<and> announced f name s' \<and> ws_failures s' = transient_count f s \<and>
    (\<exists>i. ws_identity s' = Some i \<and> id_revision i = pk_intent_revision (packet f) \<and>
         id_subject i = py_strip (subject_version f))"
proof -
  obtain q where q: "decided_request f w s name (observation_digest fl f name) (subject_version f) q"
      "mapped_by t f w s q (Inr r)"
    by (rule map_decision_fields [OF assms(1)])
  then have plain: "\<not> rq_preserve q" "rq_override q = None" "rq_subject q = subject_version f"
    by (simp_all add: decided_request_def plain_request_def)
  note fields = mapped_by_fields [OF q(2) plain(1,2)]
  note reread = read_back [OF assms(3)]
  show ?thesis
  proof (cases "rq_terminal q = ''CLOSED''")
    case True
    then have "ps_terminal (re_state r) = ''CLOSED''" using fields(5) by simp
    then show ?thesis using closed_persisted [of "re_state r" fl t] assms(3) by (auto simp: closed_file_def)
  next
    case False
    then have d: "rq_decision q = name" "pk_status (packet f) \<noteq> ''COMPLETE''"
      and how: "rq_result q = ''BLOCK_RECONCILIATION'' \<and> name = ''RECONCILE_AMBIGUOUS'' \<or>
          rq_result q = ''NOTIFY_OWNER'' \<and> name = ''BLOCK_HUMAN'' \<or>
          rq_result q = ''WAKE_COORDINATOR'' \<and> name \<in> set WAKE_DECISIONS"
      using decided_sends [OF q(1) _ False] fields(2) assms(2) by auto
    have "rq_result q \<noteq> ''NO_CHANGE''" using how by (elim disjE conjE) simp_all
    then have "ws_key s' = watch_key f (rq_result q) (subject_version f) name" "ws_decision s' = name"
      using fields(6,7) reread(3,4) d(1) plain(3) by simp_all
    then have "announced f name s'" using how by (elim disjE conjE) (simp_all add: announced_def)
    moreover have "ws_failures s' = transient_count f s" using fields(8) reread(7) by simp
    moreover have "id_revision (stripped_identity (re_state r)) = pk_intent_revision (packet f)"
      "id_subject (stripped_identity (re_state r)) = py_strip (subject_version f)"
      using fields(9,10) plain(3) by (simp_all add: stripped_identity_def)
    ultimately show ?thesis using d(2) reread(1) by blast
  qed
qed

lemma mapped_quiet:
  assumes "map_decision fl t f w s name reason (subject_version f) = Inr r" "announced f name s"
    and "pk_status (packet f) \<noteq> ''COMPLETE''"
  shows "re_disposition r = ''SUPPRESS''"
proof -
  obtain q where q: "decided_request f w s name (observation_digest fl f name) (subject_version f) q"
      "mapped_by t f w s q (Inr r)"
    by (rule map_decision_fields [OF assms(1)])
  then show ?thesis
    using assms(2,3) mapped_by_fields(2) [OF q(2)]
    by (auto simp: decided_request_def plain_request_def announced_def)
qed

lemma not_announced: "\<not> announced f ''WAIT_EXTERNAL'' s"
proof -
  have "''WAIT_EXTERNAL'' \<notin> set WAKE_DECISIONS" by code_simp
  then show ?thesis by (simp add: announced_def)
qed

lemma subject_strip: "py_strip (subject_version f) = subject_version f"
proof (cases "subject_version f = ''NONE''")
  case True
  have "py_strip ''NONE'' = ''NONE''" by code_simp
  then show ?thesis using True by simp
next
  case False
  then show ?thesis
    using subject_version_shape [of f] full_sha_chars [of "subject_version f"] key_char_plain
    by (intro strip_plain) (auto simp: list_all_iff)
qed

text \<open>
  C20: no notification is sent twice for the same facts. When a result is sent and the same facts are
  evaluated again on the state it left, the answer is suppressed, also when transient failures are
  counted up in between.
\<close>

theorem watch_notifies_once:
  assumes "watch_evaluate fl t p st = Inr r" "re_disposition r = ''SEND''"
    and "watch_evaluate fl t p (persisted_json (re_state r)) = Inr e"
  shows "re_disposition e = ''SUPPRESS''"
proof -
  obtain raw w s f where p: "p = JObj raw" and i: "watch_inputs fl t raw st w s f"
    and r: "(if ws_terminal s = ''CLOSED'' then already_closed f w s
      else evaluate_open fl t (planner_payload raw) f w s) = Inr r"
    by (rule evaluate_Inr [OF assms(1)])
  obtain raw' w' s' f' where i': "p = JObj raw'" "watch_inputs fl t raw' (persisted_json (re_state r)) w' s' f'"
    "(if ws_terminal s' = ''CLOSED'' then already_closed f' w' s'
      else evaluate_open fl t (planner_payload raw') f' w' s') = Inr e"
    by (rule evaluate_Inr [OF assms(3)])
  have same: "raw' = raw" "w' = w" "f' = f" using i' p inputs_unique [OF i] by auto
  have f: "normalize_facts (JObj (planner_payload raw)) = Inr f" using i by (simp add: watch_inputs_def)
  have s': "parse_state fl t (persisted_json (re_state r)) = Inr s'" using i' by (simp add: watch_inputs_def)
  show ?thesis
  proof (cases "ws_terminal s' = ''CLOSED''")
    case True
    then show ?thesis using i'(3) already_closed_fields(2) by auto
  next
    case opened: False
    have not_closed: "ps_terminal (re_state r) \<noteq> ''CLOSED''"
      using closed_persisted [of "re_state r" fl t] s' opened by (auto simp: closed_file_def)
    have "ws_terminal s \<noteq> ''CLOSED''" using r already_closed_fields(6) not_closed by auto
    then have "evaluate_open fl t (planner_payload raw) f w s = Inr r" using r by simp
    then show ?thesis
    proof (cases rule: evaluate_open_cases)
      case (stale reason)
      then show ?thesis using close_stale_fields(2) not_closed by blast
    next
      case older
      then show ?thesis using rejected_older_fields(2) assms(2) by simp
    next
      case (mapped name reason)
      note first = mapped(4)
      have left: "pk_status (packet f) \<noteq> ''COMPLETE''" "announced f name s'" "ws_failures s' = transient_count f s"
        "\<exists>i. ws_identity s' = Some i \<and> id_revision i = pk_intent_revision (packet f) \<and> id_subject i = subject_version f"
        using mapped_sends [OF mapped(3) assms(2) s'] opened by (auto simp: subject_strip)
      have fresh: "\<not> is_stale f w s'" using left(4) mapped(1) by (auto simp: is_stale_def Let_def split: option.splits)
      have "evaluate_open fl t (planner_payload raw) f w s' = Inr e" using i'(3) same opened by simp
      then show ?thesis
      proof (cases rule: evaluate_open_cases)
        case (stale reason2)
        then show ?thesis using fresh by blast
      next
        case older
        then show ?thesis using rejected_older_fields(2) by blast
      next
        case (mapped name2 reason2)
        have "name2 = name"
        proof (cases "mutation_ambiguous f \<or> failure_class f = ''AMBIGUOUS_MUTATION''")
          case True
          then show ?thesis using mapped(4) first by simp
        next
          case False
          obtain d where d: "plan (JObj (bind_transient_retry (planner_payload raw) f s)) = Inr d" "dc_decision d = name"
            using first False by auto
          obtain d2 where d2: "plan (JObj (bind_transient_retry (planner_payload raw) f s')) = Inr d2" "dc_decision d2 = name2"
            using mapped(4) False by auto
          have "name \<noteq> ''WAIT_EXTERNAL''" using left(2) not_announced by blast
          then show ?thesis using bound_plans [OF f d(1) d2(1)] d(2) d2(2) left(3) by (simp add: transient_count_def)
        qed
        then show ?thesis using mapped_quiet mapped(3) left(1,2) by simp
      qed
    qed
  qed
qed

theorem watch_notifies_once_witness:
  "re_disposition stale_result = ''SEND'' \<and> re_disposition stale_again = ''SUPPRESS''"
proof -
  have "re_disposition stale_result = ''SEND''" by code_simp
  then show ?thesis using watch_notifies_once [OF stale_evaluates _ stale_again] by blast
qed

section \<open>The next check\<close>

lemma backoff_bounds:
  assumes "backoff_seconds t s b = Inr n" shows "0 < n" "n \<le> 3600" "\<not> b \<Longrightarrow> n = 300"
  using assms
  by (auto simp: backoff_seconds_def bindE_Inr_iff Let_def BASE_RECHECK_SECONDS_def MAX_RECHECK_SECONDS_def
      split: if_splits option.splits)

lemma next_check_Inr:
  assumes "next_check t x s b = Inr nxt"
  shows "\<exists>u n. parse_time t x ''watch.observed_at'' = Inr u \<and> 0 < n \<and> n \<le> 3600 \<and> nxt = iso_format t (u + n * 1000000)"
  using assms backoff_bounds by (fastforce simp: next_check_def bindE_Inr_iff)

text \<open>
  A check is never put off by more than an hour, and never to the time of the observation or
  before: the next check of a result is the one the state already held, or lies between one second and
  3600 seconds after the observation.
\<close>

theorem next_check_bounded:
  assumes "watch_evaluate fl t (JObj raw) st = Inr r" "watch_inputs fl t raw st w s f" "re_next r = Some x"
  shows "ws_next s = Some x \<or>
    (\<exists>u n. parse_time t (wf_observed_at w) ''watch.observed_at'' = Inr u \<and> 0 < n \<and> n \<le> 3600 \<and>
       x = iso_format t (u + n * 1000000))"
proof (cases "ws_terminal s = ''CLOSED''")
  case True
  then show ?thesis using evaluate_with [OF assms(1,2)] already_closed_fields(7) assms(3) by auto
next
  case False
  then have "evaluate_open fl t (planner_payload raw) f w s = Inr r" using evaluate_with [OF assms(1,2)] by simp
  then show ?thesis
  proof (cases rule: evaluate_open_cases)
    case (stale reason)
    then show ?thesis using close_stale_fields(4) assms(3) by auto
  next
    case older
    then show ?thesis using rejected_older_fields(3) assms(3) by auto
  next
    case (mapped name reason)
    obtain q where q: "decided_request f w s name (observation_digest fl f name) (subject_version f) q"
        "mapped_by t f w s q (Inr r)"
      by (rule map_decision_fields [OF mapped(3)])
    then have "plain_request q (subject_version f)" by (simp add: decided_request_def)
    then have "\<exists>b. next_check t (wf_observed_at w) s b = Inr x"
      using mapped_by_fields(12) [OF q(2)] assms(3) by (auto simp: plain_request_def)
    then show ?thesis using next_check_Inr by blast
  qed
qed

theorem next_check_bounded_witness:
  "\<exists>r n. watch_evaluate no_float demo_iso (JObj demo_watch) (JObj []) = Inr r \<and> re_next r = Some ''1300Z'' \<and>
     0 < n \<and> n \<le> 3600 \<and> ''1300Z'' = iso_format demo_iso (1000000000 + n * 1000000)"
proof -
  obtain r where r: "watch_evaluate no_float demo_iso (JObj demo_watch) (JObj []) = Inr r" "re_next r = Some ''1300Z''"
    using demo_evaluates by blast
  have "ws_next new_state = None" "parse_time demo_iso (wf_observed_at demo_watch_facts) ''watch.observed_at'' = Inr 1000000000"
    by code_simp+
  then show ?thesis using next_check_bounded [OF r(1) demo_inputs r(2)] r by auto
qed

end
