(* ===== verification/Dispatch.thy ===== *)
theory Dispatch
  imports PyJson
begin

text \<open>
  The replay boundary of \<^verbatim>\<open>tools/skills-contract.py\<close>: one marker file per dispatch id under the host's
  replay directory. \<open>consume_dispatch_once\<close>, \<open>reserve_dispatch\<close> and \<open>finalize_dispatch\<close> are the
  production paths (the in-memory stores are test seams). The directory is a dict from file names
  to contents; \<open>syscalls\<close> says which system calls of one run fail. A run first looks at
  the directory and then creates its file; both may see different directories, so the first two
  operations take the directory that was looked at (\<open>seen\<close>) beside the one that is changed.

  \<open>text_io\<close> holds \<^verbatim>\<open>json.loads\<close> and the two ways of decoding UTF-8.
\<close>

record text_io =
  io_loads :: "string \<Rightarrow> json option"
  io_strict :: "string \<Rightarrow> string option"
  io_replace :: "string \<Rightarrow> string"

text \<open>\<^verbatim>\<open>os.stat\<close> of a path and of its parent; \<open>None\<close> for an \<^verbatim>\<open>OSError\<close> or a missing path.\<close>

record path_stat =
  st_is_file :: bool
  st_uid :: nat
  st_mode :: nat
  st_parent_uid :: nat
  st_parent_mode :: nat

text \<open>\<^verbatim>\<open>mode & 0o022\<close>: writable by group or others.\<close>

definition shared_write :: "nat \<Rightarrow> bool" where
  "shared_write mode = (mode div 2 mod 2 = 1 \<or> mode div 16 mod 2 = 1)"

definition host_path_provenance_ok :: "path_stat option \<Rightarrow> bool \<Rightarrow> bool" where
  "host_path_provenance_ok st expect_file =
     (case st of
        None \<Rightarrow> False
      | Some p \<Rightarrow> (expect_file \<longrightarrow> st_is_file p) \<and> st_uid p = 0 \<and> \<not> shared_write (st_mode p) \<and>
          st_parent_uid p = 0 \<and> \<not> shared_write (st_parent_mode p))"

section \<open>Identifiers\<close>

definition token_char :: "char \<Rightarrow> bool" where
  "token_char c = (is_alnum_ascii c \<or> c \<in> set ''._-'')"

definition safe_dispatch_token :: "string \<Rightarrow> string option" where
  "safe_dispatch_token dispatch_id =
     (let token = py_strip dispatch_id
      in if token = [] \<or> 128 < length token then None
         else if \<not> list_all token_char token then None else Some token)"

definition effect_binding :: "string \<Rightarrow> string \<Rightarrow> (string \<times> string) option" where
  "effect_binding effect_sha256 attempt_id =
     (let effect = py_lower (py_strip effect_sha256)
      in case safe_dispatch_token attempt_id of
           None \<Rightarrow> None
         | Some attempt \<Rightarrow>
             if length effect \<noteq> 64 \<or> \<not> list_all is_hex_lower effect then None else Some (effect, attempt))"

definition dispatch_marker :: "string \<Rightarrow> string" where
  "dispatch_marker token = ''dispatch-'' @ token"

definition legacy_consumed_marker :: "string \<Rightarrow> string" where
  "legacy_consumed_marker token = ''consumed-'' @ token"

section \<open>Records\<close>

type_synonym replay_dir = "(string \<times> string) list"

record dispatch_record =
  dr_state :: string
  dr_effect :: "string option"
  dr_attempt :: "string option"

definition consumed_record :: dispatch_record where
  "consumed_record = \<lparr>dr_state = ''consumed'', dr_effect = Some [], dr_attempt = Some []\<rparr>"

definition or_empty :: "(rat \<Rightarrow> string) \<Rightarrow> jobj \<Rightarrow> string \<Rightarrow> string" where
  "or_empty fl d k = json_str fl (json_or (jget d k) (JStr []))"

text \<open>The record in the text of a marker: anything unreadable counts as consumed, by nobody.\<close>

definition record_of_text :: "(rat \<Rightarrow> string) \<Rightarrow> text_io \<Rightarrow> string \<Rightarrow> dispatch_record" where
  "record_of_text fl io raw =
     (let txt = io_replace io (take 4096 raw)
      in if txt = ''consumed'' @ [NL] then consumed_record
         else (case io_loads io txt of
                 Some (JObj d) \<Rightarrow>
                   if or_empty fl d ''state'' \<notin> {''reserved'', ''consumed''} then consumed_record
                   else \<lparr>dr_state = or_empty fl d ''state'', dr_effect = Some (or_empty fl d ''effect_sha256''),
                         dr_attempt = Some (or_empty fl d ''attempt_id'')\<rparr>
               | _ \<Rightarrow> consumed_record))"

definition binding_matches :: "dispatch_record \<Rightarrow> string \<Rightarrow> string \<Rightarrow> bool" where
  "binding_matches r effect attempt = (dr_effect r = Some effect \<and> dr_attempt r = Some attempt)"

text \<open>\<^verbatim>\<open>json.dumps(..., separators=(",", ":"))\<close> of a record, in the order of the code.\<close>

definition record_text :: "string \<Rightarrow> string \<Rightarrow> string \<Rightarrow> string" where
  "record_text state effect attempt =
     [CHR 0x7B] @ json_quote ''state'' @ '':'' @ json_quote state @ '','' @
     json_quote ''effect_sha256'' @ '':'' @ json_quote effect @ '','' @
     json_quote ''attempt_id'' @ '':'' @ json_quote attempt @ [CHR 0x7D]"

definition consumed_text :: string where
  "consumed_text = [CHR 0x7B] @ json_quote ''state'' @ '':'' @ json_quote ''consumed'' @ [CHR 0x7D, NL]"

text \<open>\<^verbatim>\<open>json.loads(raw.decode("utf-8"))\<close>.\<close>

definition loads_strict :: "text_io \<Rightarrow> string \<Rightarrow> json option" where
  "loads_strict io raw = (case io_strict io raw of None \<Rightarrow> None | Some txt \<Rightarrow> io_loads io txt)"

section \<open>System calls\<close>

datatype os_error = ELOOP | OtherError

text \<open>
  What one run meets: whether the replay directory passes its checks, an error of \<^verbatim>\<open>os.open\<close> other
  than an existing or a missing file, whether reading and locking work, how many bytes a write takes
  (\<open>None\<close> for an error), whether truncation and \<^verbatim>\<open>fsync\<close> work.
\<close>

record syscalls =
  sc_ready :: bool
  sc_open_error :: "os_error option"
  sc_read_ok :: bool
  sc_truncate_ok :: bool
  sc_write :: "nat option"
  sc_sync_ok :: bool

datatype answer = Answer string | Raised

text \<open>\<^verbatim>\<open>os.open\<close> with \<^verbatim>\<open>O_CREAT | O_EXCL\<close>, then \<^verbatim>\<open>os.write\<close>, then \<^verbatim>\<open>os.close\<close>.\<close>

datatype created = Created | Exists | Failed os_error

definition create_marker :: "syscalls \<Rightarrow> string \<Rightarrow> string \<Rightarrow> replay_dir \<Rightarrow> created \<times> replay_dir" where
  "create_marker sc name content dir =
     (case sc_open_error sc of
        Some e \<Rightarrow> (Failed e, dir)
      | None \<Rightarrow>
          if map_of dir name \<noteq> None then (Exists, dir)
          else (case sc_write sc of
                  None \<Rightarrow> (Failed OtherError, dir @ [(name, [])])
                | Some n \<Rightarrow> (Created, dir @ [(name, take n content)])))"

section \<open>Operations\<close>

definition consume_dispatch_once ::
    "syscalls \<Rightarrow> string \<Rightarrow> replay_dir \<Rightarrow> replay_dir \<Rightarrow> string \<times> replay_dir" where
  "consume_dispatch_once sc dispatch_id seen dir =
     (case safe_dispatch_token dispatch_id of
        None \<Rightarrow> (''unavailable'', dir)
      | Some token \<Rightarrow>
          if \<not> sc_ready sc then (''unavailable'', dir)
          else if map_of seen (legacy_consumed_marker token) \<noteq> None \<or> map_of seen (dispatch_marker token) \<noteq> None
          then (''replay'', dir)
          else (case create_marker sc (dispatch_marker token) consumed_text dir of
                  (Created, dir') \<Rightarrow> (''ok'', dir')
                | (Exists, dir') \<Rightarrow> (''replay'', dir')
                | (Failed ELOOP, dir') \<Rightarrow> (''replay'', dir')
                | (Failed OtherError, dir') \<Rightarrow> (''unavailable'', dir')))"

text \<open>\<^verbatim>\<open>_read_dispatch_record\<close> of a marker that exists. An error of \<^verbatim>\<open>os.read\<close> is not caught.\<close>

definition read_dispatch_record :: "(rat \<Rightarrow> string) \<Rightarrow> text_io \<Rightarrow> syscalls \<Rightarrow> string \<Rightarrow> replay_dir \<Rightarrow> dispatch_record option option" where
  "read_dispatch_record fl io sc name dir =
     (case map_of dir name of
        None \<Rightarrow> Some None
      | Some raw \<Rightarrow>
          if sc_open_error sc \<noteq> None then Some (Some \<lparr>dr_state = ''consumed'', dr_effect = None, dr_attempt = None\<rparr>)
          else if \<not> sc_read_ok sc then None else Some (Some (record_of_text fl io raw)))"

definition owned :: "dispatch_record \<Rightarrow> string \<Rightarrow> string \<Rightarrow> string" where
  "owned r effect attempt =
     (if \<not> binding_matches r effect attempt then ''conflict''
      else if dr_state r = ''consumed'' then ''owned_consumed'' else ''owned_reserved'')"

definition reserve_dispatch ::
    "(rat \<Rightarrow> string) \<Rightarrow> text_io \<Rightarrow> syscalls \<Rightarrow> syscalls \<Rightarrow> string \<Rightarrow> string \<Rightarrow> string \<Rightarrow> replay_dir \<Rightarrow> replay_dir \<Rightarrow>
     answer \<times> replay_dir" where
  "reserve_dispatch fl io sc sc2 dispatch_id effect_sha256 attempt_id seen dir =
     (case (safe_dispatch_token dispatch_id, effect_binding effect_sha256 attempt_id) of
        (Some token, Some (effect, attempt)) \<Rightarrow>
          if \<not> sc_ready sc then (Answer ''unavailable'', dir)
          else if map_of seen (legacy_consumed_marker token) \<noteq> None then (Answer ''conflict'', dir)
          else (case create_marker sc (dispatch_marker token) (record_text ''reserved'' effect attempt) dir of
                  (Created, dir') \<Rightarrow> (Answer ''reserved'', dir')
                | (Exists, dir') \<Rightarrow>
                    (case read_dispatch_record fl io sc2 (dispatch_marker token) dir' of
                       None \<Rightarrow> (Raised, dir')
                     | Some None \<Rightarrow> (Answer ''unavailable'', dir')
                     | Some (Some r) \<Rightarrow> (Answer (owned r effect attempt), dir'))
                | (Failed ELOOP, dir') \<Rightarrow> (Answer ''conflict'', dir')
                | (Failed OtherError, dir') \<Rightarrow> (Answer ''unavailable'', dir'))
      | _ \<Rightarrow> (Answer ''unavailable'', dir))"

text \<open>
  The rewrite of \<^verbatim>\<open>finalize_dispatch\<close>: truncate, write, \<^verbatim>\<open>fsync\<close>; each failure leaves what was done
  before it.
\<close>

definition rewrite_marker :: "syscalls \<Rightarrow> string \<Rightarrow> string \<Rightarrow> replay_dir \<Rightarrow> string \<times> replay_dir" where
  "rewrite_marker sc name content dir =
     (if \<not> sc_truncate_ok sc then (''unavailable'', dir)
      else (case sc_write sc of
              None \<Rightarrow> (''unavailable'', dset name [] dir)
            | Some n \<Rightarrow> (if sc_sync_ok sc then ''ok'' else ''unavailable'', dset name (take n content) dir)))"

definition finalize_dispatch ::
    "(rat \<Rightarrow> string) \<Rightarrow> text_io \<Rightarrow> syscalls \<Rightarrow> string \<Rightarrow> string \<Rightarrow> string \<Rightarrow> replay_dir \<Rightarrow> string \<times> replay_dir" where
  "finalize_dispatch fl io sc dispatch_id effect_sha256 attempt_id dir =
     (case (safe_dispatch_token dispatch_id, effect_binding effect_sha256 attempt_id) of
        (Some token, Some (effect, attempt)) \<Rightarrow>
          if \<not> sc_ready sc then (''unavailable'', dir)
          else (case map_of dir (dispatch_marker token) of
                  None \<Rightarrow> (''conflict'', dir)
                | Some raw \<Rightarrow>
                    if sc_open_error sc \<noteq> None \<or> \<not> sc_read_ok sc then (''unavailable'', dir)
                    else (case loads_strict io (take 4096 raw) of
                            Some (JObj d) \<Rightarrow>
                              (let state = or_empty fl d ''state''
                               in if or_empty fl d ''effect_sha256'' \<noteq> effect \<or> or_empty fl d ''attempt_id'' \<noteq> attempt
                                  then (''conflict'', dir)
                                  else if state = ''consumed'' then (''ok'', dir)
                                  else if state \<noteq> ''reserved'' then (''conflict'', dir)
                                  else rewrite_marker sc (dispatch_marker token)
                                         (record_text ''consumed'' effect attempt) dir)
                          | _ \<Rightarrow> (''conflict'', dir)))
      | _ \<Rightarrow> (''unavailable'', dir))"

end
