(* ===== verification/Skills.thy ===== *)
theory Skills
  imports Dispatch Codec Coordinator
begin

text \<open>
  \<^verbatim>\<open>tools/skills-contract.py\<close> and \<^verbatim>\<open>tools/work_packet_authority.py\<close>: permission profiles that a repository
  may narrow, the contract check, and \<open>authorize\<close>, which verifies the signed binding and dispatch of
  one action. \<^verbatim>\<open>SystemExit\<close> is \<open>Exit\<close>, any other exception that leaves \<^verbatim>\<open>authorize\<close> is \<open>Crash\<close>.

  \<open>repo\<close> is what the code reads from a repository: the contract as the YAML parser gives it, the
  messages of the JSON schema validator, and which relative paths stay inside and are files. \<open>host\<close> is
  the host: the fixed OpenSSL, the trust anchor, the signed files, the clock. \<open>ho_verify key message
  signature\<close> is the run of \<^verbatim>\<open>openssl pkeyutl -verify\<close> on the decoded signature. The contract's lists
  are lists when the schema accepts it; other types there are outside the model.
\<close>

section \<open>Work packet authority\<close>

datatype auth_error = Exit string | Crash

definition AUTHORIZED_PERMISSIONS :: "string list" where
  "AUTHORIZED_PERMISSIONS = [''admin'', ''maintain'', ''write'']"

definition normalize_permission :: "(rat \<Rightarrow> string) \<Rightarrow> json \<Rightarrow> string" where
  "normalize_permission fl v = py_lower (py_strip (json_str fl (json_or v (JStr []))))"

definition authorize_permission :: "(rat \<Rightarrow> string) \<Rightarrow> json \<Rightarrow> auth_error + string" where
  "authorize_permission fl v =
     (if normalize_permission fl v \<in> set AUTHORIZED_PERMISSIONS then Inr (normalize_permission fl v)
      else Inl (Exit ''WORK_PACKET_AUTHOR_UNTRUSTED''))"

definition permission_from_payload :: "(rat \<Rightarrow> string) \<Rightarrow> json \<Rightarrow> auth_error + string" where
  "permission_from_payload fl v =
     (case v of
        JObj d \<Rightarrow> if \<not> jhas d ''permission'' then Inl (Exit ''WORK_PACKET_AUTHOR_UNTRUSTED'')
                  else authorize_permission fl (jget d ''permission'')
      | _ \<Rightarrow> Inl (Exit ''WORK_PACKET_AUTHOR_UNTRUSTED''))"

section \<open>Profiles\<close>

definition ACTION_CLASSES :: "string list" where
  "ACTION_CLASSES = [''read'', ''repo_write'', ''shell'', ''network'', ''external_read'', ''external_write'',
     ''production_read'', ''production_write'', ''destructive'']"

definition HIGH_RISK_CLASSES :: "string list" where
  "HIGH_RISK_CLASSES = [''external_write'', ''production_write'', ''destructive'']"

definition HOOK_NAMES :: "string list" where
  "HOOK_NAMES = [''session_start'', ''pre_tool'', ''post_tool'', ''session_end'']"

definition SCOPE_KEYS :: "string list" where
  "SCOPE_KEYS = [''target_repo'', ''worktree'', ''workstream'', ''branch'', ''subject_head'', ''intent_revision'', ''session_id'']"

definition TOOL_REGISTRY :: "(string \<times> string list) list" where
  "TOOL_REGISTRY =
     [(''repo.read'', [''read'']), (''repo.write'', [''read'', ''repo_write'']), (''shell.local'', [''shell'']),
      (''shell.network'', [''shell'', ''network'', ''external_read'']),
      (''shell.external_write'', [''shell'', ''network'', ''external_read'', ''external_write'']),
      (''shell.production_write'', [''shell'', ''network'', ''external_read'', ''production_write'', ''destructive'']),
      (''network.fetch'', [''network'', ''external_read'']), (''network.post'', [''network'', ''external_write'']),
      (''production.read'', [''production_read'', ''network'', ''external_read'']),
      (''production.write'', [''production_write'', ''network'', ''external_write'', ''destructive''])]"

record profile =
  pf_allowed :: "string set"
  pf_denied :: "string set"
  pf_approval :: "string set"

definition profile_of :: "string list \<Rightarrow> string list \<Rightarrow> profile" where
  "profile_of allowed approval =
     \<lparr>pf_allowed = set allowed, pf_denied = set ACTION_CLASSES - set allowed, pf_approval = set approval\<rparr>"

definition DEFAULT_PROFILES :: "(string \<times> profile) list" where
  "DEFAULT_PROFILES =
     [(''repo_read'', profile_of [''read''] []),
      (''repo_write'', profile_of [''read'', ''repo_write'', ''shell''] []),
      (''external_read'', profile_of [''read'', ''repo_write'', ''shell'', ''network'', ''external_read''] []),
      (''external_write'', profile_of [''read'', ''repo_write'', ''shell'', ''network'', ''external_read'', ''external_write'']
         [''external_write'']),
      (''production_read'', profile_of [''read'', ''repo_write'', ''shell'', ''network'', ''external_read'', ''production_read''] []),
      (''production_write'', profile_of ACTION_CLASSES [''external_write'', ''production_write'', ''destructive''])]"

definition normalize_classes :: "(rat \<Rightarrow> string) \<Rightarrow> json \<Rightarrow> string set option" where
  "normalize_classes fl raw =
     (case raw of
        JNull \<Rightarrow> Some {}
      | JStr s \<Rightarrow> Some (set (filter (\<lambda>x. x \<noteq> []) (map py_strip (split_on CHR '','' s))))
      | JList xs \<Rightarrow>
          (let items = map (\<lambda>x. py_strip (json_str fl x)) xs in if [] \<in> set items then None else Some (set items))
      | _ \<Rightarrow> None)"

definition parse_profile_mapping :: "(rat \<Rightarrow> string) \<Rightarrow> json \<Rightarrow> profile option" where
  "parse_profile_mapping fl raw =
     (case raw of
        JObj d \<Rightarrow>
          if set (map fst d) \<noteq> {''allowed'', ''denied'', ''require_approval''} then None
          else (case (normalize_classes fl (jget d ''allowed''), normalize_classes fl (jget d ''denied''),
                      normalize_classes fl (jget d ''require_approval'')) of
                  (Some allowed, Some denied, Some approval) \<Rightarrow>
                    if \<not> allowed \<subseteq> set ACTION_CLASSES \<or> \<not> denied \<subseteq> set ACTION_CLASSES \<or>
                       \<not> approval \<subseteq> set ACTION_CLASSES
                    then None
                    else if allowed \<inter> denied \<noteq> {} \<or> allowed \<union> denied \<noteq> set ACTION_CLASSES \<or> \<not> approval \<subseteq> allowed
                    then None
                    else Some \<lparr>pf_allowed = allowed, pf_denied = denied, pf_approval = approval\<rparr>
                | _ \<Rightarrow> None)
      | _ \<Rightarrow> None)"

definition is_narrowing :: "profile \<Rightarrow> profile \<Rightarrow> bool" where
  "is_narrowing custom canonical =
     (pf_allowed custom \<subseteq> pf_allowed canonical \<and> pf_denied canonical \<subseteq> pf_denied custom \<and>
      pf_approval canonical \<subseteq> pf_approval custom)"

type_synonym finding = "string \<times> string"

definition finding :: "string \<Rightarrow> string \<Rightarrow> finding" where
  "finding code detail = (code, take 180 detail)"

definition merge_step ::
    "(rat \<Rightarrow> string) \<Rightarrow> string \<times> json \<Rightarrow> (string \<times> profile) list \<times> finding list \<Rightarrow> (string \<times> profile) list \<times> finding list" where
  "merge_step fl item acc =
     (case (item, acc) of ((name, raw), (profiles, findings)) \<Rightarrow>
        (case map_of DEFAULT_PROFILES name of
           None \<Rightarrow> (profiles, findings @ [finding ''PROFILE'' (''unknown profile '' @ name)])
         | Some canonical \<Rightarrow>
             (case parse_profile_mapping fl raw of
                None \<Rightarrow> (profiles, findings @ [finding ''PROFILE'' (''invalid profile '' @ name)])
              | Some parsed \<Rightarrow>
                  if \<not> is_narrowing parsed canonical then (profiles, findings @ [finding ''PROFILE_BROADEN'' name])
                  else (dset name parsed profiles, findings))))"

definition merge_profiles :: "(rat \<Rightarrow> string) \<Rightarrow> json \<Rightarrow> (string \<times> profile) list \<times> finding list" where
  "merge_profiles fl custom =
     (if \<not> truthy custom then (DEFAULT_PROFILES, [])
      else (case custom of
              JObj d \<Rightarrow> fold (merge_step fl) d (DEFAULT_PROFILES, [])
            | _ \<Rightarrow> (DEFAULT_PROFILES, [finding ''PROFILE'' ''profiles mapping required''])))"

section \<open>The policy digest\<close>

definition json_items :: "json \<Rightarrow> json list" where
  "json_items v = (case v of JList xs \<Rightarrow> xs | _ \<Rightarrow> [])"

definition class_list :: "string set \<Rightarrow> json" where
  "class_list s = JList (map JStr (sorted_list_of_set s))"

definition profile_to_public :: "profile \<Rightarrow> json" where
  "profile_to_public p = JObj [(''allowed'', class_list (pf_allowed p)), (''denied'', class_list (pf_denied p)),
     (''require_approval'', class_list (pf_approval p))]"

definition hook_entry :: "(rat \<Rightarrow> string) \<Rightarrow> json \<Rightarrow> json" where
  "hook_entry fl item =
     (case item of
        JObj d \<Rightarrow> JObj [(''id'', JStr (or_empty fl d ''id'')), (''kind'', JStr (or_empty fl d ''kind''))]
      | _ \<Rightarrow> JObj [(''id'', JStr (json_str fl item)), (''kind'', JStr ''invalid'')])"

definition hook_payload :: "(rat \<Rightarrow> string) \<Rightarrow> json \<Rightarrow> json" where
  "hook_payload fl hooks =
     (case hooks of
        JObj d \<Rightarrow> JObj (map (\<lambda>name. (name, JList (map (hook_entry fl) (json_items (jget d name))))) HOOK_NAMES)
      | _ \<Rightarrow> JObj (map (\<lambda>name. (name, JList [])) HOOK_NAMES))"

definition skill_payload :: "jobj \<Rightarrow> json" where
  "skill_payload d = JObj [(''id'', jget d ''id''), (''trigger'', jget d ''trigger''), (''body'', jget d ''body''),
     (''resources'', JList (json_items (jget d ''resources''))), (''scripts'', JList (json_items (jget d ''scripts'')))]"

definition skills_payload :: "(rat \<Rightarrow> string) \<Rightarrow> jobj \<Rightarrow> json" where
  "skills_payload fl inst =
     (let skills = concat (map (\<lambda>s. case s of JObj d \<Rightarrow> [d] | _ \<Rightarrow> []) (json_items (jget inst ''skills'')))
      in JList (map skill_payload (sort_key (\<lambda>d. or_empty fl d ''id'') skills)))"

definition authority_payload :: "(rat \<Rightarrow> string) \<Rightarrow> (string \<times> profile) list \<Rightarrow> jobj option \<Rightarrow> json" where
  "authority_payload fl profiles inst =
     JObj [(''hooks_executable'', JBool False), (''resources_executable'', JBool False),
       (''scripts_grant_execution'', JBool False),
       (''hooks'', hook_payload fl (case inst of None \<Rightarrow> JNull | Some d \<Rightarrow> jget d ''hooks'')),
       (''profiles'', JObj (map (\<lambda>(n, p). (n, profile_to_public p)) (sort_key fst profiles))),
       (''skills'', case inst of None \<Rightarrow> JList [] | Some d \<Rightarrow> skills_payload fl d),
       (''tools'', JObj (map (\<lambda>(n, cs). (n, JList (map JStr (sort cs)))) (sort_key fst TOOL_REGISTRY)))]"

definition hex_sha256 :: "string \<Rightarrow> string" where
  "hex_sha256 txt = hex_text (sha256 (bytes_of txt))"

definition policy_digest :: "(rat \<Rightarrow> string) \<Rightarrow> (string \<times> profile) list \<Rightarrow> jobj option \<Rightarrow> string" where
  "policy_digest fl profiles inst = hex_sha256 (json_dumps fl (authority_payload fl profiles inst))"

section \<open>The contract\<close>

datatype contract_file = Absent | Malformed string | Contract json

record repo =
  rp_contract :: contract_file
  rp_schema :: "json \<Rightarrow> string list"
  rp_inside :: "string \<Rightarrow> bool"
  rp_is_file :: "string \<Rightarrow> bool"
  rp_is_worktree :: "string \<Rightarrow> bool"

text \<open>
  \<open>rp_inside raw\<close>: the resolved \<^verbatim>\<open>root / raw\<close> lies in the resolved root. \<^verbatim>\<open>Path(raw).parts\<close> has no empty and no
  \<^verbatim>\<open>.\<close> component, so only \<^verbatim>\<open>..\<close> is left to refuse.
\<close>

definition safe_repo_path :: "repo \<Rightarrow> json \<Rightarrow> bool" where
  "safe_repo_path rp raw =
     (case raw of
        JStr s \<Rightarrow> s \<noteq> [] \<and> hd s \<noteq> CHR ''/'' \<and> BACKSLASH \<notin> set s \<and> ''..'' \<notin> set (split_on CHR ''/'' s) \<and> rp_inside rp s
      | _ \<Rightarrow> False)"

definition path_findings :: "repo \<Rightarrow> string \<Rightarrow> string \<Rightarrow> json \<Rightarrow> finding list" where
  "path_findings rp skill_id label rel =
     (if \<not> safe_repo_path rp rel then [finding ''PATH'' (skill_id @ '':'' @ label)]
      else if \<not> (case rel of JStr s \<Rightarrow> rp_is_file rp s | _ \<Rightarrow> False)
      then [finding ''PATH_MISSING'' (skill_id @ '':'' @ label)] else [])"

fun skill_findings :: "(rat \<Rightarrow> string) \<Rightarrow> repo \<Rightarrow> string list \<Rightarrow> json list \<Rightarrow> finding list" where
  "skill_findings fl rp seen [] = []"
| "skill_findings fl rp seen (JObj skill # rest) =
     (let skill_id = or_empty fl skill ''id''
      in (if skill_id \<in> set seen then [finding ''SKILL'' (''duplicate id '' @ skill_id)] else []) @
         path_findings rp skill_id ''body'' (jget skill ''body'') @
         concat (map (path_findings rp skill_id ''resource'') (json_items (jget skill ''resources''))) @
         concat (map (path_findings rp skill_id ''script'') (json_items (jget skill ''scripts''))) @
         skill_findings fl rp (skill_id # seen) rest)"
| "skill_findings fl rp seen (other # rest) =
     finding ''SKILL'' ''skill mapping required'' # skill_findings fl rp seen rest"

definition skill_path_findings :: "(rat \<Rightarrow> string) \<Rightarrow> repo \<Rightarrow> jobj \<Rightarrow> finding list" where
  "skill_path_findings fl rp inst =
     (case json_or (jget inst ''skills'') (JList []) of
        JList skills \<Rightarrow> skill_findings fl rp [] skills
      | _ \<Rightarrow> [finding ''SKILL'' ''skills must be a list''])"

definition hook_item_findings :: "(rat \<Rightarrow> string) \<Rightarrow> string \<Rightarrow> json \<Rightarrow> finding list" where
  "hook_item_findings fl name item =
     (case item of
        JObj d \<Rightarrow>
          if set (map fst d) \<noteq> {''id'', ''kind''} then [finding ''HOOK'' (name @ '' fields'')]
          else if jget d ''kind'' \<noteq> JStr ''metadata''
          then [finding ''HOOK_EXECUTABLE'' (name @ '':'' @ json_str fl (jget d ''id''))] else []
      | _ \<Rightarrow> [finding ''HOOK'' (name @ '' fields'')])"

definition hook_findings :: "(rat \<Rightarrow> string) \<Rightarrow> jobj \<Rightarrow> finding list" where
  "hook_findings fl inst =
     (let hooks = jget inst ''hooks''
      in if \<not> truthy hooks then []
         else (case hooks of
                 JObj d \<Rightarrow>
                   if \<not> set (map fst d) \<subseteq> set HOOK_NAMES then [finding ''HOOK'' ''unknown hook name'']
                   else concat (map (\<lambda>(name, entries).
                          case entries of
                            JList items \<Rightarrow> concat (map (hook_item_findings fl name) items)
                          | _ \<Rightarrow> [finding ''HOOK'' (name @ '' list required'')]) d)
               | _ \<Rightarrow> [finding ''HOOK'' ''unknown hook name'']))"

record check_report =
  ck_present :: bool
  ck_pass :: bool
  ck_digest :: string
  ck_profiles :: "(string \<times> profile) list"
  ck_findings :: "finding list"

definition check_contract :: "(rat \<Rightarrow> string) \<Rightarrow> repo \<Rightarrow> check_report" where
  "check_contract fl rp =
     (case rp_contract rp of
        Absent \<Rightarrow> \<lparr>ck_present = False, ck_pass = True, ck_digest = policy_digest fl DEFAULT_PROFILES None,
                   ck_profiles = DEFAULT_PROFILES, ck_findings = []\<rparr>
      | Malformed message \<Rightarrow> \<lparr>ck_present = True, ck_pass = False, ck_digest = [], ck_profiles = [],
                   ck_findings = [finding ''SCHEMA'' message]\<rparr>
      | Contract v \<Rightarrow>
          (let schema = map (finding ''SCHEMA'') (rp_schema rp v);
               inst = (case v of JObj d \<Rightarrow> Some d | _ \<Rightarrow> None);
               (profiles, findings) =
                 (case inst of
                    Some d \<Rightarrow>
                      if schema = [] then
                        (let (merged, bad) = merge_profiles fl (jget d ''profiles'')
                         in (merged, skill_path_findings fl rp d @ hook_findings fl d @ bad))
                      else (DEFAULT_PROFILES, schema)
                  | None \<Rightarrow> (DEFAULT_PROFILES, schema));
               ordered = sort_key (\<lambda>(code, detail). [code, detail]) findings
           in \<lparr>ck_present = True, ck_pass = (ordered = []),
               ck_digest = (if ordered = [] then policy_digest fl profiles inst else []),
               ck_profiles = profiles, ck_findings = ordered\<rparr>))"

definition load_contract_instance :: "repo \<Rightarrow> jobj option" where
  "load_contract_instance rp = (case rp_contract rp of Contract (JObj d) \<Rightarrow> Some d | _ \<Rightarrow> None)"

definition load_effective_state :: "(rat \<Rightarrow> string) \<Rightarrow> repo \<Rightarrow> auth_error + (string \<times> profile) list \<times> string" where
  "load_effective_state fl rp =
     (let report = check_contract fl rp
      in if \<not> ck_pass report then Inl (Exit ''SKILLS_CONTRACT=FAIL contract invalid'')
         else (let custom = (case load_contract_instance rp of Some d \<Rightarrow> jget d ''profiles'' | None \<Rightarrow> JNull);
                   (profiles, findings) = merge_profiles fl custom
               in if findings \<noteq> [] then Inl (Exit ''SKILLS_CONTRACT=FAIL profile merge failed'')
                  else Inr (profiles, ck_digest report)))"

section \<open>Sessions and actions\<close>

record session_binding =
  sb_profile :: string
  sb_digest :: string
  sb_permission :: string
  sb_basis :: string
  sb_approved :: "string set"
  sb_key_hash :: string

record verdict =
  vd_allowed :: bool
  vd_reason :: string

definition deny :: "string \<Rightarrow> verdict" where
  "deny reason = \<lparr>vd_allowed = False, vd_reason = reason\<rparr>"

definition allow :: verdict where
  "allow = \<lparr>vd_allowed = True, vd_reason = ''ALLOW''\<rparr>"

definition session_permission :: "(rat \<Rightarrow> string) \<Rightarrow> string \<Rightarrow> json \<Rightarrow> string \<Rightarrow> auth_error + string" where
  "session_permission fl prof permission basis =
     (if basis = ''collaborator_permission'' then authorize_permission fl permission
      else if basis = ''production_approver_policy'' \<and> normalize_permission fl permission = ''production_approver'' \<and>
              prof = ''production_write''
      then Inr ''production_approver''
      else Inl (Exit ''SKILLS_CONTRACT=FAIL trusted authority basis invalid''))"

definition bind_session ::
    "(rat \<Rightarrow> string) \<Rightarrow> (string \<times> profile) list \<Rightarrow> string \<Rightarrow> string \<Rightarrow> json \<Rightarrow> string \<Rightarrow> string \<Rightarrow> json \<Rightarrow> string \<Rightarrow>
     auth_error + session_binding" where
  "bind_session fl profiles expected prof permission basis0 digest approved key_hash =
     (let basis = py_lower (py_strip basis0)
      in bindE (session_permission fl prof permission basis) (\<lambda>perm.
         if map_of profiles prof = None then Inl (Exit ''SKILLS_CONTRACT=FAIL unknown profile'')
         else if digest \<noteq> expected then Inl (Exit ''SKILLS_CONTRACT=FAIL policy digest mismatch'')
         else (case normalize_classes fl approved of
                 None \<Rightarrow> Inl (Exit ''SKILLS_CONTRACT=FAIL invalid approved classes'')
               | Some cs \<Rightarrow>
                   if \<not> cs \<subseteq> set ACTION_CLASSES then Inl (Exit ''SKILLS_CONTRACT=FAIL invalid approved classes'')
                   else if length key_hash \<noteq> 64 then Inl (Exit ''SKILLS_CONTRACT=FAIL invalid public key hash'')
                   else Inr \<lparr>sb_profile = prof, sb_digest = digest, sb_permission = perm, sb_basis = basis,
                             sb_approved = cs, sb_key_hash = key_hash\<rparr>)))"

definition action_request_for_tool :: "string \<Rightarrow> auth_error + string list" where
  "action_request_for_tool tool_id =
     (case map_of TOOL_REGISTRY tool_id of
        None \<Rightarrow> Inl (Exit ''SKILLS_CONTRACT=FAIL unknown tool'')
      | Some classes \<Rightarrow> Inr classes)"

fun check_classes :: "profile \<Rightarrow> string set \<Rightarrow> string list \<Rightarrow> verdict" where
  "check_classes p approved [] = allow"
| "check_classes p approved (c # cs) =
     (if c \<in> pf_denied p \<or> c \<notin> pf_allowed p then deny ''CLASS_DENIED''
      else if c \<in> pf_approval p \<and> c \<notin> approved then deny ''APPROVAL_REQUIRED''
      else check_classes p approved cs)"

definition evaluate_action ::
    "(string \<times> profile) list \<Rightarrow> string \<Rightarrow> session_binding \<Rightarrow> string \<Rightarrow> string list \<Rightarrow> verdict" where
  "evaluate_action profiles expected b tool_id classes =
     (let collaborator = (sb_basis b = ''collaborator_permission'' \<and> sb_permission b \<in> set AUTHORIZED_PERMISSIONS);
          approver = (sb_basis b = ''production_approver_policy'' \<and> sb_permission b = ''production_approver'')
      in if sb_digest b \<noteq> expected then deny ''POLICY_DIGEST_MISMATCH''
         else if \<not> (collaborator \<or> approver) then deny ''AUTHORITY_UNTRUSTED''
         else if approver \<and> tool_id \<noteq> ''shell.production_write'' then deny ''AUTHORITY_UNTRUSTED''
         else (case map_of profiles (sb_profile b) of
                 None \<Rightarrow> deny ''UNKNOWN_PROFILE''
               | Some p \<Rightarrow>
                   (case map_of TOOL_REGISTRY tool_id of
                      None \<Rightarrow> deny ''UNKNOWN_TOOL''
                    | Some registered \<Rightarrow>
                        if set classes \<noteq> set registered then deny ''CLASSIFICATION_TAMPER''
                        else if classes = [] then deny ''EMPTY_CLASSIFICATION''
                        else check_classes p (sb_approved b) (sort classes))))"

definition OVERRIDE_KEYS :: "string list" where
  "OVERRIDE_KEYS = [''profile'', ''approval'', ''approved'', ''approved_classes'', ''policy_digest'',
     ''authority_permission'', ''authority_basis'', ''binding'', ''classes'', ''signature'', ''tool'', ''tool_id'',
     ''tool_classes'', ''private_key'', ''public_key'', ''trust_anchor'']"

definition untrusted_override :: "jobj \<Rightarrow> bool" where
  "untrusted_override d = (\<exists>k \<in> set (map fst d). k \<in> set OVERRIDE_KEYS)"

section \<open>Authorization\<close>

text \<open>A missing file, one that cannot be read or is not JSON, or its value; files are UTF-8.\<close>

datatype signed_file = NoFile | BadFile | Signed json

record host =
  ho_linux :: bool
  ho_openssl :: "path_stat option"
  ho_openssl_runs :: bool
  ho_anchor :: "path_stat option"
  ho_anchor_text :: string
  ho_verify :: "string \<Rightarrow> string \<Rightarrow> string \<Rightarrow> bool"
  ho_file :: "string \<Rightarrow> signed_file"
  ho_now :: int
  ho_repo :: "string \<Rightarrow> repo"

definition openssl_ready :: "host \<Rightarrow> bool" where
  "openssl_ready h = (host_path_provenance_ok (ho_openssl h) True \<and> ho_openssl_runs h)"

definition trust_anchor :: "host \<Rightarrow> string option" where
  "trust_anchor h = (if host_path_provenance_ok (ho_anchor h) True then Some (ho_anchor_text h) else None)"

definition canonical_payload :: "(rat \<Rightarrow> string) \<Rightarrow> jobj \<Rightarrow> string" where
  "canonical_payload fl d = json_dumps fl (JObj (filter (\<lambda>p. fst p \<noteq> ''signature'') d))"

definition verify_signed_json :: "(rat \<Rightarrow> string) \<Rightarrow> host \<Rightarrow> string \<Rightarrow> string \<Rightarrow> auth_error + jobj" where
  "verify_signed_json fl h path anchor =
     (case ho_file h path of
        Signed (JObj d) \<Rightarrow>
          if \<not> jhas d ''signature'' then Inl (Exit ''SKILLS_CONTRACT=FAIL signed artifact incomplete'')
          else if \<not> (openssl_ready h \<and>
                     ho_verify h anchor (canonical_payload fl d) (json_str fl (jget d ''signature'')))
          then Inl (Exit ''SKILLS_CONTRACT=FAIL signature mismatch'')
          else Inr d
      | Signed _ \<Rightarrow> Inl (Exit ''SKILLS_CONTRACT=FAIL signed artifact incomplete'')
      | _ \<Rightarrow> Inl Crash)"

definition signed_payload_sha256 :: "(rat \<Rightarrow> string) \<Rightarrow> jobj \<Rightarrow> string" where
  "signed_payload_sha256 fl d = hex_sha256 (canonical_payload fl d)"

definition canonical_request_sha256 :: "(rat \<Rightarrow> string) \<Rightarrow> jobj \<Rightarrow> string" where
  "canonical_request_sha256 fl d = hex_sha256 (json_dumps fl (JObj d))"

definition short_slug :: "nat \<Rightarrow> (char \<Rightarrow> bool) \<Rightarrow> string \<Rightarrow> bool" where
  "short_slug limit ok s = (s \<noteq> [] \<and> is_alnum_ascii (hd s) \<and> list_all ok (tl s) \<and> length (tl s) \<le> limit)"

definition scope_fields_ok :: "jobj \<Rightarrow> bool" where
  "scope_fields_ok scope =
     ((case jget scope ''target_repo'' of JStr s \<Rightarrow> repository_ok s | _ \<Rightarrow> False) \<and>
      (case jget scope ''worktree'' of JStr s \<Rightarrow> s \<noteq> [] | _ \<Rightarrow> False) \<and>
      (case jget scope ''workstream'' of JStr s \<Rightarrow> short_slug 119 slug_char s | _ \<Rightarrow> False) \<and>
      (case jget scope ''branch'' of
         JStr s \<Rightarrow> s \<noteq> [] \<and> length s \<le> 240 \<and> CR \<notin> set s \<and> NL \<notin> set s \<and> CHR 0x00 \<notin> set s | _ \<Rightarrow> False) \<and>
      (case jget scope ''subject_head'' of JStr s \<Rightarrow> full_sha s | _ \<Rightarrow> False) \<and>
      (case jget scope ''intent_revision'' of JInt n \<Rightarrow> 1 \<le> n | _ \<Rightarrow> False) \<and>
      (case jget scope ''session_id'' of
         JStr s \<Rightarrow> short_slug 127 (\<lambda>c. slug_char c \<or> c = CHR '':'') s | _ \<Rightarrow> False))"

text \<open>\<^verbatim>\<open>value == scope[k]\<close> where the scope holds a string or an integer.\<close>

definition same_value :: "json \<Rightarrow> json \<Rightarrow> bool" where
  "same_value v expected = (case expected of JInt n \<Rightarrow> eq_int v n | _ \<Rightarrow> v = expected)"

definition high_risk_scope_problem ::
    "(rat \<Rightarrow> string) \<Rightarrow> repo \<Rightarrow> jobj \<Rightarrow> jobj \<Rightarrow> jobj \<Rightarrow> string option" where
  "high_risk_scope_problem fl rp binding dispatch request =
     (case jget binding ''scope'' of
        JObj scope \<Rightarrow>
          if set (map fst scope) \<noteq> set SCOPE_KEYS then Some ''AUTHORITY_SCOPE_MISSING''
          else if \<not> scope_fields_ok scope then Some ''AUTHORITY_SCOPE_INVALID''
          else if \<not> rp_is_worktree rp (case jget scope ''worktree'' of JStr s \<Rightarrow> s | _ \<Rightarrow> []) then Some ''WORKTREE_SCOPE_MISMATCH''
          else if \<not> list_all (\<lambda>k. same_value (jget request k) (jget scope k))
                      [''target_repo'', ''workstream'', ''branch'', ''subject_head'', ''intent_revision'']
          then Some ''AUTHORITY_SCOPE_MISMATCH''
          else if jget dispatch ''session_id'' \<noteq> jget scope ''session_id'' then Some ''SESSION_SCOPE_MISMATCH''
          else if jget dispatch ''scope_sha256'' \<noteq> JStr (canonical_request_sha256 fl scope)
          then Some ''AUTHORITY_SCOPE_MISMATCH''
          else None
      | _ \<Rightarrow> Some ''AUTHORITY_SCOPE_MISSING'')"

text \<open>The two assertions, read and verified; the left value is an answer, an exit or a crash.\<close>

datatype stop = Verdict verdict | Error auth_error

definition verified_pair :: "(rat \<Rightarrow> string) \<Rightarrow> host \<Rightarrow> string \<Rightarrow> string \<Rightarrow> string \<Rightarrow> stop + jobj \<times> jobj" where
  "verified_pair fl h anchor binding_path dispatch_path =
     (if ho_file h binding_path = NoFile \<or> ho_file h dispatch_path = NoFile
      then Inl (Verdict (deny ''ASSERTION_MISSING''))
      else (let caught = (\<lambda>e. case e of
                 Exit m \<Rightarrow> if contains_sub ''signature mismatch'' m then Verdict (deny ''SIGNATURE_MISMATCH'') else Error e
               | Crash \<Rightarrow> Error e)
            in bindE (map_err caught (verify_signed_json fl h binding_path anchor)) (\<lambda>b.
               bindE (map_err caught (verify_signed_json fl h dispatch_path anchor)) (\<lambda>d. Inr (b, d)))))"

definition request_payload :: "(string + json) option \<Rightarrow> stop + jobj" where
  "request_payload parsed =
     (case parsed of
        None \<Rightarrow> Inr []
      | Some (Inl message) \<Rightarrow> Inl (Error (Exit (''SKILLS_CONTRACT=FAIL request json: '' @ message)))
      | Some (Inr (JObj d)) \<Rightarrow> if untrusted_override d then Inl (Verdict (deny ''UNTRUSTED_OVERRIDE'')) else Inr d
      | Some (Inr _) \<Rightarrow> Inl (Verdict (deny ''REQUEST_INVALID'')))"

definition bound_hashes :: "(rat \<Rightarrow> string) \<Rightarrow> string \<Rightarrow> jobj \<Rightarrow> jobj \<Rightarrow> jobj \<Rightarrow> stop + unit" where
  "bound_hashes fl anchor binding dispatch request =
     (let anchor_hash = JStr (hex_sha256 anchor)
      in if jget binding ''public_key_sha256'' \<noteq> anchor_hash then Inl (Verdict (deny ''TRUST_ANCHOR_MISMATCH''))
         else if jget dispatch ''binding_public_key_sha256'' \<noteq> anchor_hash
         then Inl (Verdict (deny ''TRUST_ANCHOR_MISMATCH''))
         else if jget dispatch ''binding_sha256'' \<noteq> JStr (signed_payload_sha256 fl binding)
         then Inl (Verdict (deny ''BINDING_ASSERTION_MISMATCH''))
         else if jget dispatch ''request_sha256'' \<noteq> JStr (canonical_request_sha256 fl request)
         then Inl (Verdict (deny ''REQUEST_BINDING_MISMATCH''))
         else Inr ())"

definition dispatch_classes :: "(rat \<Rightarrow> string) \<Rightarrow> jobj \<Rightarrow> stop + string set" where
  "dispatch_classes fl dispatch =
     (case json_or (jget dispatch ''classes'') (JList []) of
        JList xs \<Rightarrow> Inr (set (map (json_str fl) xs))
      | _ \<Rightarrow> Inl (Verdict (deny ''CLASSIFICATION_TAMPER'')))"

text \<open>\<^verbatim>\<open>isinstance(expires, int)\<close> takes booleans too.\<close>

definition expiry :: "json \<Rightarrow> int option" where
  "expiry v = (case v of JInt n \<Rightarrow> Some n | JBool b \<Rightarrow> Some (if b then 1 else 0) | _ \<Rightarrow> None)"

text \<open>For a high-risk dispatch its id, after the scope and the expiry were checked.\<close>

definition high_risk_dispatch ::
    "(rat \<Rightarrow> string) \<Rightarrow> host \<Rightarrow> repo \<Rightarrow> jobj \<Rightarrow> jobj \<Rightarrow> jobj \<Rightarrow> string set \<Rightarrow> stop + string option" where
  "high_risk_dispatch fl h rp binding dispatch request classes =
     (if classes \<inter> set HIGH_RISK_CLASSES = {} then Inr None
      else (case high_risk_scope_problem fl rp binding dispatch request of
              Some problem \<Rightarrow> Inl (Verdict (deny problem))
            | None \<Rightarrow>
                (case (jget dispatch ''dispatch_id'', expiry (jget dispatch ''expires_at_unix'')) of
                   (JStr i, Some expires) \<Rightarrow>
                     if py_strip i = [] \<or> expires \<le> 0 then Inl (Verdict (deny ''REPLAY_CONTRACT_INCOMPLETE''))
                     else if expires \<le> ho_now h then Inl (Verdict (deny ''DISPATCH_EXPIRED''))
                     else Inr (Some i)
                 | _ \<Rightarrow> Inl (Verdict (deny ''REPLAY_CONTRACT_INCOMPLETE'')))))"

definition policy_verdict :: "(rat \<Rightarrow> string) \<Rightarrow> repo \<Rightarrow> jobj \<Rightarrow> jobj \<Rightarrow> string set \<Rightarrow> stop + verdict" where
  "policy_verdict fl rp binding dispatch classes =
     bindE (map_err Error (load_effective_state fl rp)) (\<lambda>(profiles, digest).
       if jget binding ''policy_digest'' \<noteq> JStr digest then Inl (Verdict (deny ''POLICY_DIGEST_MISMATCH''))
       else if jget dispatch ''policy_digest'' \<noteq> JStr digest then Inl (Verdict (deny ''POLICY_DIGEST_MISMATCH''))
       else bindE (map_err Error (bind_session fl profiles digest (or_empty fl binding ''profile'')
              (jget binding ''authority_permission'')
              (json_str fl (json_or (jget binding ''authority_basis'') (JStr ''collaborator_permission'')))
              (or_empty fl binding ''policy_digest'') (jget binding ''approved_classes'')
              (or_empty fl binding ''public_key_sha256''))) (\<lambda>b.
            bindE (map_err Error (action_request_for_tool (or_empty fl dispatch ''tool_id''))) (\<lambda>cs.
              if set cs \<noteq> classes then Inl (Verdict (deny ''CLASSIFICATION_TAMPER''))
              else Inr (evaluate_action profiles digest b (or_empty fl dispatch ''tool_id'') cs))))"

definition authorize_checks ::
    "(rat \<Rightarrow> string) \<Rightarrow> host \<Rightarrow> string \<Rightarrow> string \<Rightarrow> string \<Rightarrow> (string + json) option \<Rightarrow> stop + string option" where
  "authorize_checks fl h base binding_path dispatch_path parsed =
     (if \<not> ho_linux h \<or> \<not> openssl_ready h then Inl (Verdict (deny ''BOUNDARY_UNAVAILABLE''))
      else (case trust_anchor h of
              None \<Rightarrow> Inl (Verdict (deny ''BOUNDARY_UNAVAILABLE''))
            | Some anchor \<Rightarrow>
                bindE (request_payload parsed) (\<lambda>request.
                bindE (verified_pair fl h anchor binding_path dispatch_path) (\<lambda>(binding, dispatch).
                bindE (bound_hashes fl anchor binding dispatch request) (\<lambda>_.
                bindE (dispatch_classes fl dispatch) (\<lambda>classes.
                bindE (high_risk_dispatch fl h (ho_repo h base) binding dispatch request classes) (\<lambda>dispatch_id.
                bindE (policy_verdict fl (ho_repo h base) binding dispatch classes) (\<lambda>v.
                  if \<not> vd_allowed v then Inl (Verdict v) else Inr dispatch_id))))))))"

definition authorize ::
    "(rat \<Rightarrow> string) \<Rightarrow> host \<Rightarrow> syscalls \<Rightarrow> string \<Rightarrow> string \<Rightarrow> string \<Rightarrow> (string + json) option \<Rightarrow> bool \<Rightarrow>
     replay_dir \<Rightarrow> replay_dir \<Rightarrow> (auth_error + verdict) \<times> replay_dir" where
  "authorize fl h sc base binding_path dispatch_path parsed consume_replay seen dir =
     (case authorize_checks fl h base binding_path dispatch_path parsed of
        Inl (Verdict v) \<Rightarrow> (Inr v, dir)
      | Inl (Error e) \<Rightarrow> (Inl e, dir)
      | Inr (Some i) \<Rightarrow>
          if \<not> consume_replay then (Inr allow, dir)
          else (let (consumed, dir') = consume_dispatch_once sc i seen dir
                in (Inr (if consumed = ''ok'' then allow else if consumed = ''replay'' then deny ''REPLAY''
                         else deny ''BOUNDARY_UNAVAILABLE''), dir'))
      | Inr None \<Rightarrow> (Inr allow, dir))"

definition emit_authorize :: "verdict \<Rightarrow> string" where
  "emit_authorize v = ''DECISION='' @ (if vd_allowed v then ''ALLOW'' else ''DENY'') @ [NL] @ ''REASON='' @ vd_reason v @ [NL]"

end
