(* ===== verification/Worker.thy ===== *)
theory Worker
  imports Skills
begin

text \<open>
  \<^verbatim>\<open>tools/worker_adapter.py\<close>: the gate of one external write. \<open>worker_evaluate\<close> compares the bound request
  of a worker with the authoritative packet and, when everything matches, asks \<open>authorize\<close>. The
  readers it shares with the planner are those of \<open>Facts\<close>; an \<^verbatim>\<open>AdapterFactsError\<close> is a \<open>facts_error\<close>.
  The effect is passed to \<open>authorize\<close> as the value that \<^verbatim>\<open>json.loads(json.dumps(effect))\<close> gives back.
\<close>

definition ALLOWED_ACTIONS :: "string list" where
  "ALLOWED_ACTIONS = [''update_work_packet'', ''comment_work_packet'', ''create_pull_request'',
     ''update_pull_request'', ''authorize_publication'']"

definition WORKER_RESULTS :: "string list" where
  "WORKER_RESULTS = [''APPLIED'', ''NO_CHANGE'', ''STALE_WORKER'', ''AUTHORITY_DENIED'', ''RESOURCE_BLOCKED'',
     ''RECONCILE_AMBIGUOUS'', ''TRANSIENT_RETRYABLE'', ''FAILED_SEMANTIC'']"

definition AMBIGUOUS_OUTCOMES :: "string list" where
  "AMBIGUOUS_OUTCOMES = [''TIMEOUT'', ''UNKNOWN'', ''AMBIGUOUS'']"

definition MUTATION_OUTCOMES :: "string list" where
  "MUTATION_OUTCOMES = AMBIGUOUS_OUTCOMES @ [''NOT_SENT'', ''APPLIED'']"

definition WORKER_FORBIDDEN_KEYS :: "string list" where
  "WORKER_FORBIDDEN_KEYS = [''command'', ''commands'', ''shell'', ''argv'', ''execute'', ''exec'', ''script'',
     ''subprocess'', ''bash'', ''powershell'', ''endpoint'', ''signing_key'', ''hmac_secret'', ''private_key'', ''mint'']"

definition WORKER_KEYS :: "string list" where
  "WORKER_KEYS = [''bound_request'', ''authoritative'', ''author_permission'', ''author_association'',
     ''trusted_dispatch'', ''resource'', ''admission'', ''prior_delivery'', ''mutation'', ''failure'', ''wait'',
     ''proposed_mutation'', ''verification'']"

definition DISPATCH_TOOL_ID :: string where "DISPATCH_TOOL_ID = ''network.post''"

function (sequential)
  forbidden_in_obj :: "jobj \<Rightarrow> string option" and
  forbidden_in_list :: "json list \<Rightarrow> string option"
where
  "forbidden_in_obj [] = None"
| "forbidden_in_obj ((key, v) # rest) =
     (if py_lower (py_strip key) \<in> set WORKER_FORBIDDEN_KEYS then Some key
      else (case (case v of JObj d \<Rightarrow> forbidden_in_obj d | JList xs \<Rightarrow> forbidden_in_list xs | _ \<Rightarrow> None) of
              Some k \<Rightarrow> Some k
            | None \<Rightarrow> forbidden_in_obj rest))"
| "forbidden_in_list [] = None"
| "forbidden_in_list (v # rest) =
     (case (case v of JObj d \<Rightarrow> forbidden_in_obj d | JList xs \<Rightarrow> forbidden_in_list xs | _ \<Rightarrow> None) of
        Some k \<Rightarrow> Some k
      | None \<Rightarrow> forbidden_in_list rest)"
  by pat_completeness auto
termination
  by (relation "measure (\<lambda>p. case p of
       Inl d \<Rightarrow> size_list (size_prod (\<lambda>_. 0) size) d
     | Inr xs \<Rightarrow> size_list size xs)") auto

section \<open>Facts\<close>

record bound_request =
  bq_repo :: string
  bq_workstream :: string
  bq_revision :: int
  bq_head :: string
  bq_action :: string
  bq_branch :: string
  bq_status :: string

record authoritative_packet =
  ap_repo :: string
  ap_workstream :: string
  ap_revision :: int
  ap_status :: string
  ap_head :: string
  ap_branch :: string

record proposed_mutation =
  pm_kind :: string
  pm_id :: string
  pm_content :: string

record worker_facts_in =
  wi_bound :: bound_request
  wi_authoritative :: authoritative_packet
  wi_proposed :: proposed_mutation
  wi_verification :: "(string \<times> string) option"
  wi_prior :: "string option"
  wi_outcome :: string
  wi_failure :: string
  wi_retry_count :: int
  wi_retry_budget :: int
  wi_resource :: string
  wi_admission :: string
  wi_deny_class :: string

definition worker_sha :: "json \<Rightarrow> string \<Rightarrow> facts_error + string" where
  "worker_sha v label =
     bindE (require_str v label) (\<lambda>s.
       if full_sha (py_lower s) then Inr (py_lower s)
       else Inl (facts_error (label @ '' must be a 40-char lowercase hex Git SHA'')))"

definition parse_bound :: "json \<Rightarrow> facts_error + bound_request" where
  "parse_bound raw =
     bindE (require_mapping raw ''bound_request'') (\<lambda>data.
     bindE (reject_unknown data [''target_repo'', ''workstream'', ''intent_revision'', ''subject_head'',
              ''requested_action'', ''branch'', ''expected_status''] ''bound_request'') (\<lambda>_.
     bindE (require_str (jget data ''target_repo'') ''bound_request.target_repo'') (\<lambda>rep.
     if \<not> repository_ok rep then Inl (facts_error ''bound_request.target_repo must be owner/name'')
     else bindE (require_str (jget data ''workstream'') ''bound_request.workstream'') (\<lambda>ws.
     if \<not> workstream_ok ws then Inl (facts_error ''bound_request.workstream must be a stable slug'')
     else bindE (require_str (jget data ''requested_action'') ''bound_request.requested_action'') (\<lambda>action.
     bindE (enum (jget_or data ''expected_status'' (JStr ''ACTIVE'')) ''bound_request.expected_status'' PACKET_STATUSES) (\<lambda>status.
     bindE (require_int (jget data ''intent_revision'') ''bound_request.intent_revision'' (Some 1)) (\<lambda>revision.
     bindE (worker_sha (jget data ''subject_head'') ''bound_request.subject_head'') (\<lambda>head.
     bindE (require_str (jget data ''branch'') ''bound_request.branch'') (\<lambda>branch.
       Inr \<lparr>bq_repo = rep, bq_workstream = ws, bq_revision = revision, bq_head = head, bq_action = action,
            bq_branch = branch, bq_status = status\<rparr>)))))))))"

definition parse_authoritative :: "json \<Rightarrow> facts_error + authoritative_packet" where
  "parse_authoritative raw =
     bindE (require_mapping raw ''authoritative'') (\<lambda>data.
     bindE (reject_unknown data [''target_repo'', ''workstream'', ''intent_revision'', ''status'', ''subject_head'', ''branch'']
              ''authoritative'') (\<lambda>_.
     bindE (enum (jget data ''status'') ''authoritative.status'' PACKET_STATUSES) (\<lambda>status.
     bindE (require_str (jget data ''target_repo'') ''authoritative.target_repo'') (\<lambda>rep.
     bindE (require_str (jget data ''workstream'') ''authoritative.workstream'') (\<lambda>ws.
     bindE (require_int (jget data ''intent_revision'') ''authoritative.intent_revision'' (Some 1)) (\<lambda>revision.
     bindE (worker_sha (jget data ''subject_head'') ''authoritative.subject_head'') (\<lambda>head.
     bindE (require_str (jget data ''branch'') ''authoritative.branch'') (\<lambda>branch.
       Inr \<lparr>ap_repo = rep, ap_workstream = ws, ap_revision = revision, ap_status = status, ap_head = head,
            ap_branch = branch\<rparr>))))))))"

definition parse_proposed :: "json \<Rightarrow> facts_error + proposed_mutation" where
  "parse_proposed raw =
     bindE (require_mapping raw ''proposed_mutation'') (\<lambda>data.
     bindE (reject_unknown data [''target'', ''content''] ''proposed_mutation'') (\<lambda>_.
     bindE (require_mapping (jget data ''target'') ''proposed_mutation.target'') (\<lambda>target.
     bindE (reject_unknown target [''kind'', ''id''] ''proposed_mutation.target'') (\<lambda>_.
     bindE (require_str (jget target ''kind'') ''proposed_mutation.target.kind'') (\<lambda>kind.
     if kind \<notin> {''issue'', ''pull_request''}
     then Inl (facts_error (''proposed_mutation.target.kind is unknown: '' @ kind))
     else (case jget data ''content'' of
             JStr content \<Rightarrow>
               bindE (require_str (jget target ''id'') ''proposed_mutation.target.id'') (\<lambda>i.
                 Inr \<lparr>pm_kind = kind, pm_id = i, pm_content = content\<rparr>)
           | _ \<Rightarrow> Inl (facts_error ''proposed_mutation.content must be a string'')))))))"

definition parse_verification :: "json \<Rightarrow> facts_error + (string \<times> string) option" where
  "parse_verification raw =
     (if raw = JNull then Inr None
      else bindE (require_mapping raw ''verification'') (\<lambda>data.
           bindE (reject_unknown data [''binding_assertion'', ''dispatch_assertion''] ''verification'') (\<lambda>_.
           bindE (require_str (jget data ''binding_assertion'') ''verification.binding_assertion'') (\<lambda>b.
           bindE (require_str (jget data ''dispatch_assertion'') ''verification.dispatch_assertion'') (\<lambda>d.
             Inr (Some (b, d)))))))"

definition parse_prior :: "json \<Rightarrow> facts_error + string option" where
  "parse_prior raw =
     (if raw = JNull then Inr None
      else bindE (require_mapping raw ''prior_delivery'') (\<lambda>data.
           bindE (reject_unknown data [''applied_digest''] ''prior_delivery'') (\<lambda>_.
             if jget data ''applied_digest'' = JNull then Inr None
             else bindE (require_str (jget data ''applied_digest'') ''prior_delivery.applied_digest'') (\<lambda>s.
                    Inr (Some (py_lower s))))))"

definition parse_outcome :: "json \<Rightarrow> facts_error + string" where
  "parse_outcome raw =
     (if raw = JNull then Inr ''NOT_SENT''
      else bindE (require_mapping raw ''mutation'') (\<lambda>data.
           bindE (reject_unknown data [''outcome''] ''mutation'') (\<lambda>_.
             enum (jget_or data ''outcome'' (JStr ''NOT_SENT'')) ''mutation.outcome'' MUTATION_OUTCOMES)))"

definition upper_str :: "json \<Rightarrow> string \<Rightarrow> facts_error + string" where
  "upper_str v label = bindE (require_str v label) (\<lambda>s. Inr (py_upper s))"

definition worker_failure :: "json \<Rightarrow> facts_error + string" where
  "worker_failure raw =
     (if raw = JNull then Inr ''NONE''
      else bindE (require_mapping raw ''failure'') (\<lambda>data.
           bindE (reject_unknown data [''class''] ''failure'') (\<lambda>_.
             upper_str (jget_or data ''class'' (JStr ''NONE'')) ''failure.class'')))"

definition worker_wait :: "json \<Rightarrow> facts_error + int \<times> int" where
  "worker_wait raw =
     (if raw = JNull then Inr (0, 3)
      else bindE (require_mapping raw ''wait'') (\<lambda>data.
           bindE (reject_unknown data [''retry_count'', ''retry_budget''] ''wait'') (\<lambda>_.
           bindE (require_int (jget_or data ''retry_count'' (JInt 0)) ''wait.retry_count'' (Some 0)) (\<lambda>count.
           bindE (require_int (jget_or data ''retry_budget'' (JInt 3)) ''wait.retry_budget'' (Some 0)) (\<lambda>budget.
             Inr (count, budget))))))"

definition worker_resource :: "jobj \<Rightarrow> facts_error + string" where
  "worker_resource data =
     bindE (require_mapping (jget_or data ''resource'' (JObj [(''result'', JStr ''UNKNOWN'')])) ''resource'') (\<lambda>d.
     bindE (reject_unknown d [''result''] ''resource'') (\<lambda>_.
       upper_str (jget_or d ''result'' (JStr ''UNKNOWN'')) ''resource.result''))"

definition worker_admission :: "(rat \<Rightarrow> string) \<Rightarrow> jobj \<Rightarrow> facts_error + string \<times> string" where
  "worker_admission fl data =
     bindE (require_mapping (jget_or data ''admission'' (JObj [(''decision'', JStr ''UNKNOWN'')])) ''admission'') (\<lambda>d.
     bindE (reject_unknown d [''decision'', ''deny_class''] ''admission'') (\<lambda>_.
     bindE (upper_str (jget_or d ''decision'' (JStr ''UNKNOWN'')) ''admission.decision'') (\<lambda>decision.
       Inr (decision, py_upper (or_empty fl d ''deny_class'')))))"

definition parse_request :: "(rat \<Rightarrow> string) \<Rightarrow> jobj \<Rightarrow> facts_error + worker_facts_in" where
  "parse_request fl data =
     bindE (reject_unknown data WORKER_KEYS ''request'') (\<lambda>_.
     if \<not> jhas data ''bound_request'' \<or> \<not> jhas data ''authoritative''
     then Inl (facts_error ''bound_request and authoritative facts are required'')
     else bindE (parse_bound (jget data ''bound_request'')) (\<lambda>bound.
     bindE (parse_authoritative (jget data ''authoritative'')) (\<lambda>auth.
     if \<not> jhas data ''proposed_mutation'' then Inl (facts_error ''proposed_mutation is required'')
     else bindE (parse_proposed (jget data ''proposed_mutation'')) (\<lambda>proposed.
     bindE (parse_verification (jget data ''verification'')) (\<lambda>verification.
     bindE (parse_prior (jget data ''prior_delivery'')) (\<lambda>prior.
     bindE (parse_outcome (jget data ''mutation'')) (\<lambda>outcome.
     bindE (worker_failure (jget data ''failure'')) (\<lambda>failure.
     bindE (worker_wait (jget data ''wait'')) (\<lambda>(count, budget).
     bindE (worker_resource data) (\<lambda>res.
     bindE (worker_admission fl data) (\<lambda>(admission, deny_class).
       Inr \<lparr>wi_bound = bound, wi_authoritative = auth, wi_proposed = proposed, wi_verification = verification,
            wi_prior = prior, wi_outcome = outcome, wi_failure = failure, wi_retry_count = count,
            wi_retry_budget = budget, wi_resource = res, wi_admission = admission,
            wi_deny_class = deny_class\<rparr>)))))))))))"

section \<open>The effect and its authority\<close>

definition concrete_effect :: "bound_request \<Rightarrow> proposed_mutation \<Rightarrow> jobj" where
  "concrete_effect bound proposed =
     [(''branch'', JStr (bq_branch bound)), (''expected_status'', JStr (bq_status bound)),
      (''intent_revision'', JInt (bq_revision bound)), (''mutation_content'', JStr (pm_content proposed)),
      (''mutation_target'', JObj [(''kind'', JStr (pm_kind proposed)), (''id'', JStr (pm_id proposed))]),
      (''requested_action'', JStr (bq_action bound)), (''subject_head'', JStr (bq_head bound)),
      (''target_repo'', JStr (bq_repo bound)), (''workstream'', JStr (bq_workstream bound))]"

definition request_digest :: "(rat \<Rightarrow> string) \<Rightarrow> bound_request \<Rightarrow> proposed_mutation \<Rightarrow> string" where
  "request_digest fl bound proposed = canonical_request_sha256 fl (concrete_effect bound proposed)"

definition signed_worktree :: "jobj \<Rightarrow> string option" where
  "signed_worktree binding =
     (case jget binding ''scope'' of
        JObj scope \<Rightarrow> (case jget scope ''worktree'' of JStr s \<Rightarrow> if starts_with s ''/'' then Some s else None | _ \<Rightarrow> None)
      | _ \<Rightarrow> None)"

definition authorize_concrete_effect ::
    "(rat \<Rightarrow> string) \<Rightarrow> host \<Rightarrow> syscalls \<Rightarrow> (string \<times> string) option \<Rightarrow> jobj \<Rightarrow> bool \<Rightarrow> replay_dir \<Rightarrow> replay_dir \<Rightarrow>
     (unit + string) \<times> replay_dir" where
  "authorize_concrete_effect fl h sc verification effect consume_replay seen dir =
     (case verification of
        None \<Rightarrow> (Inr ''trusted verification assertions are missing; caller-supplied permission or dispatch facts are not authority'', dir)
      | Some (binding_path, dispatch_path) \<Rightarrow>
     (case trust_anchor h of
        None \<Rightarrow> (Inr ''trusted verification boundary is unavailable'', dir)
      | Some anchor \<Rightarrow>
     (case (verify_signed_json fl h dispatch_path anchor, verify_signed_json fl h binding_path anchor) of
        (Inr dispatch, Inr binding) \<Rightarrow>
          if jget dispatch ''tool_id'' \<noteq> JStr DISPATCH_TOOL_ID \<or>
             \<not> (case jget dispatch ''classes'' of JList xs \<Rightarrow> JStr ''external_write'' \<in> set xs | _ \<Rightarrow> False)
          then (Inr ''dispatch is not a signed network.post external_write for this effect'', dir)
          else if jget dispatch ''request_sha256'' \<noteq> JStr (canonical_request_sha256 fl effect)
          then (Inr ''dispatch is not bound to the concrete mutation target and content'', dir)
          else (case authorize_permission fl (jget binding ''authority_permission'') of
                  Inl _ \<Rightarrow> (Inr ''signed binding permission is missing or weaker than write'', dir)
                | Inr _ \<Rightarrow>
          (case signed_worktree binding of
             None \<Rightarrow> (Inr ''signed binding worktree is missing or invalid'', dir)
           | Some worktree \<Rightarrow>
               (let (r, dir') = authorize fl h sc worktree binding_path dispatch_path (Some (Inr (JObj effect)))
                                  consume_replay seen dir
                in (case r of
                      Inl (Exit m) \<Rightarrow> (Inr ''trusted authorize path failed closed'', dir')
                    | Inl Crash \<Rightarrow> (Inl (), dir')
                    | Inr v \<Rightarrow>
                        (Inr (if vd_allowed v then ''ALLOW'' else if vd_reason v = ''REPLAY'' then ''REPLAY''
                              else ''trusted authorize path denied the effect: '' @ vd_reason v), dir')))))
      | _ \<Rightarrow> (Inr ''trusted dispatch signature verification failed'', dir))))"

section \<open>Classification\<close>

record classification =
  cf_result :: string
  cf_reason :: string
  cf_authorizes_write :: bool
  cf_writes :: int
  cf_issue_mutated :: bool
  cf_digest :: string
  cf_stops_unrelated_sessions :: bool
  cf_spawns_process :: bool
  cf_mints_authority :: bool
  cf_sends_notification :: bool

datatype worker_error = BadFacts facts_error | Uncaught

definition worker_emit :: "string \<Rightarrow> string \<Rightarrow> string \<Rightarrow> bool \<Rightarrow> worker_error + classification" where
  "worker_emit result reason digest write =
     (if result \<notin> set WORKER_RESULTS then Inl (BadFacts (facts_error (''internal result is unknown: '' @ result)))
      else Inr \<lparr>cf_result = result, cf_reason = reason, cf_authorizes_write = write, cf_writes = (if write then 1 else 0),
                cf_issue_mutated = False, cf_digest = digest, cf_stops_unrelated_sessions = False,
                cf_spawns_process = False, cf_mints_authority = False, cf_sends_notification = False\<rparr>)"

definition mismatches :: "bound_request \<Rightarrow> authoritative_packet \<Rightarrow> string list" where
  "mismatches b a =
     (if ap_repo a \<noteq> bq_repo b then [''target_repo''] else []) @
     (if ap_workstream a \<noteq> bq_workstream b then [''workstream''] else []) @
     (if ap_revision a \<noteq> bq_revision b then [''intent_revision''] else []) @
     (if ap_head a \<noteq> bq_head b then [''subject_head''] else []) @
     (if ap_branch a \<noteq> bq_branch b then [''branch''] else []) @
     (if ap_status a \<noteq> bq_status b then [''status''] else [])"

text \<open>The checks before the authority is asked: \<open>Some\<close> result and reason when one of them answers.\<close>

definition worker_blocked :: "(rat \<Rightarrow> string) \<Rightarrow> worker_facts_in \<Rightarrow> (string \<times> string) option" where
  "worker_blocked fl f =
     (let digest = request_digest fl (wi_bound f) (wi_proposed f);
          stale = mismatches (wi_bound f) (wi_authoritative f)
      in if bq_action (wi_bound f) \<notin> set ALLOWED_ACTIONS
         then Some (''AUTHORITY_DENIED'', ''requested_action is outside the typed coordinator action set'')
         else if stale \<noteq> []
         then Some (''STALE_WORKER'', ''authoritative packet no longer matches the bound request: '' @ join_with '','' stale)
         else if wi_outcome f \<in> set AMBIGUOUS_OUTCOMES
         then Some (''RECONCILE_AMBIGUOUS'',
                ''external mutation outcome is unknown; reconcile durable state before any retry'')
         else if wi_failure f = ''SEMANTIC''
         then Some (''FAILED_SEMANTIC'', ''semantic failure must be re-planned rather than rewritten'')
         else if wi_resource f = ''BLOCK'' \<or> (wi_admission f = ''DENY'' \<and> wi_deny_class f = ''HOST_BUDGET'')
         then Some (''RESOURCE_BLOCKED'',
                ''resource or host admission blocks the effect and does not stop unrelated sessions'')
         else if wi_admission f \<noteq> ''ALLOW''
         then Some (''RESOURCE_BLOCKED'', ''admission does not allow the effect'')
         else if wi_prior f = Some digest \<or> wi_outcome f = ''APPLIED''
         then Some (''NO_CHANGE'', ''the same authorized request was already applied'')
         else if wi_failure f = ''TRANSIENT''
         then (if wi_retry_count f < wi_retry_budget f \<and> wi_outcome f = ''NOT_SENT''
               then Some (''TRANSIENT_RETRYABLE'',
                      ''transient failure stayed before send and remains inside the retry budget'')
               else Some (''RECONCILE_AMBIGUOUS'',
                      ''transient retry is not authorized after the budget or after a send attempt''))
         else None)"

definition worker_decide ::
    "(rat \<Rightarrow> string) \<Rightarrow> host \<Rightarrow> syscalls \<Rightarrow> worker_facts_in \<Rightarrow> bool \<Rightarrow> replay_dir \<Rightarrow> replay_dir \<Rightarrow>
     (worker_error + classification) \<times> replay_dir" where
  "worker_decide fl h sc f consume_replay seen dir =
     (let digest = request_digest fl (wi_bound f) (wi_proposed f)
      in case worker_blocked fl f of
           Some (result, reason) \<Rightarrow> (worker_emit result reason digest False, dir)
         | None \<Rightarrow>
             (let (g, dir') = authorize_concrete_effect fl h sc (wi_verification f)
                                (concrete_effect (wi_bound f) (wi_proposed f)) consume_replay seen dir
              in (case g of
                    Inl _ \<Rightarrow> (Inl Uncaught, dir')
                  | Inr gate \<Rightarrow>
                      (if gate = ''REPLAY''
                       then worker_emit ''NO_CHANGE'' ''trusted dispatch was already consumed for this concrete effect'' digest False
                       else if gate \<noteq> ''ALLOW'' then worker_emit ''AUTHORITY_DENIED'' gate digest False
                       else worker_emit ''APPLIED'' ''host-verified dispatch matches this concrete external effect'' digest True,
                       dir'))))"

definition worker_evaluate ::
    "(rat \<Rightarrow> string) \<Rightarrow> host \<Rightarrow> syscalls \<Rightarrow> json \<Rightarrow> bool \<Rightarrow> replay_dir \<Rightarrow> replay_dir \<Rightarrow>
     (worker_error + classification) \<times> replay_dir" where
  "worker_evaluate fl h sc payload consume_replay seen dir =
     (case require_mapping payload ''request'' of
        Inl e \<Rightarrow> (Inl (BadFacts e), dir)
      | Inr data \<Rightarrow>
          (case forbidden_in_obj data of
             Some key \<Rightarrow>
               (worker_emit ''AUTHORITY_DENIED''
                  (''request contains forbidden execution or authority-mint key '' @ key) ''NONE'' False, dir)
           | None \<Rightarrow>
               (case parse_request fl data of
                  Inl e \<Rightarrow> (Inl (BadFacts e), dir)
                | Inr f \<Rightarrow> worker_decide fl h sc f consume_replay seen dir)))"

section \<open>Reports\<close>

definition worker_report :: "classification \<Rightarrow> string" where
  "worker_report c = report_text
     [(''RESULT'', cf_result c), (''EXIT_CODE'', ''0''), (''REASON'', cf_reason c),
      (''AUTHORIZES_WRITE'', yes_no (cf_authorizes_write c)), (''WRITES'', int_text (cf_writes c)),
      (''ISSUE_MUTATED'', ''NO''), (''REQUEST_DIGEST'', cf_digest c), (''STOPS_UNRELATED_SESSIONS'', ''NO''),
      (''SPAWNS_PROCESS'', ''NO''), (''MINTS_AUTHORITY'', ''NO''), (''SENDS_NOTIFICATION'', ''NO'')]"

definition worker_failure_report :: "string \<Rightarrow> string \<times> int" where
  "worker_failure_report reason = (report_text
     [(''RESULT'', ''REJECT_FACTS''), (''EXIT_CODE'', ''3''), (''REASON'', py_strip (replace_char NL '' '' reason)),
      (''AUTHORIZES_WRITE'', ''NO''), (''WRITES'', ''0''), (''ISSUE_MUTATED'', ''NO''),
      (''STOPS_UNRELATED_SESSIONS'', ''NO''), (''SPAWNS_PROCESS'', ''NO''), (''MINTS_AUTHORITY'', ''NO''),
      (''SENDS_NOTIFICATION'', ''NO'')], 3)"

text \<open>\<^verbatim>\<open>main\<close> after the request file was read, or failed to be; \<open>None\<close> for an uncaught exception.\<close>

definition worker_main :: "(rat \<Rightarrow> string) \<Rightarrow> host \<Rightarrow> syscalls \<Rightarrow> facts_error + json \<Rightarrow> replay_dir \<Rightarrow>
     (string \<times> int) option \<times> replay_dir" where
  "worker_main fl h sc loaded dir =
     (case loaded of
        Inl (FactsError reason _) \<Rightarrow> (Some (worker_failure_report reason), dir)
      | Inr payload \<Rightarrow>
          (let (r, dir') = worker_evaluate fl h sc payload True dir dir
           in (case r of
                 Inr c \<Rightarrow> Some (worker_report c, 0)
               | Inl (BadFacts (FactsError reason _)) \<Rightarrow> Some (worker_failure_report reason)
               | Inl Uncaught \<Rightarrow> None, dir')))"

end
