(* ===== verification/Effects.thy ===== *)
theory Effects
  imports Dispatch Coordinator
begin

text \<open>
  \<^verbatim>\<open>tools/coordinator_watch_effects.py\<close>: delivery of one effect, as an issue comment through \<^verbatim>\<open>gh\<close> or as a
  Telegram message, and the check of a trusted executable that it takes from
  \<^verbatim>\<open>tools/coordinator_watch_collect.py\<close>. A \<open>delivery\<close> is what leaves the host, a \<open>reply\<close> what comes back:
  no answer (an error, a time-out, an HTTP error), an exit status with the parsed output, or an
  exception that the code does not catch.
\<close>

record exe_stat =
  ex_symlink :: bool
  ex_regular :: bool
  ex_uid :: nat
  ex_mode :: nat
  ex_may_run :: bool
  ex_parent_symlink :: bool
  ex_parent_uid :: nat
  ex_parent_mode :: nat

definition executable_provenance_ok :: "exe_stat option \<Rightarrow> bool" where
  "executable_provenance_ok st =
     (case st of
        None \<Rightarrow> False
      | Some p \<Rightarrow> \<not> ex_symlink p \<and> ex_regular p \<and> ex_uid p = 0 \<and> \<not> shared_write (ex_mode p) \<and> ex_may_run p \<and>
          \<not> ex_parent_symlink p \<and> ex_parent_uid p = 0 \<and> \<not> shared_write (ex_parent_mode p))"

record secret_file =
  sf_symlink :: bool
  sf_is_file :: bool
  sf_uid :: nat
  sf_mode :: nat
  sf_parent_symlink :: bool
  sf_parent_uid :: nat
  sf_parent_mode :: nat
  sf_text :: "string option"

definition host_file :: "secret_file option \<Rightarrow> string option" where
  "host_file file =
     (case file of
        None \<Rightarrow> None
      | Some p \<Rightarrow>
          if sf_symlink p \<or> \<not> sf_is_file p then None
          else if sf_uid p \<noteq> 0 \<or> shared_write (sf_mode p) then None
          else if sf_parent_symlink p \<or> sf_parent_uid p \<noteq> 0 \<or> shared_write (sf_parent_mode p) then None
          else (case sf_text p of
                  None \<Rightarrow> None
                | Some raw \<Rightarrow>
                    (let txt = py_strip raw
                     in if txt = [] \<or> NL \<in> set txt \<or> CHR 0x00 \<in> set txt \<or> 256 < length txt then None else Some txt)))"

record delivery_host =
  dh_gh :: "exe_stat option"
  dh_token :: "secret_file option"
  dh_chat :: "secret_file option"

definition telegram_configured :: "delivery_host \<Rightarrow> bool" where
  "telegram_configured x = (host_file (dh_token x) \<noteq> None \<and> host_file (dh_chat x) \<noteq> None)"

definition github_configured :: "delivery_host \<Rightarrow> bool" where
  "github_configured x = executable_provenance_ok (dh_gh x)"

datatype delivery =
    GithubComment string string string
  | TelegramMessage string string

datatype reply = NoReply | Replied int "json option" | Raises

record execution =
  xc_outcome :: string
  xc_receipt :: string
  xc_level :: string

definition not_sent :: execution where
  "not_sent = \<lparr>xc_outcome = ''NOT_SENT'', xc_receipt = [], xc_level = ''NONE''\<rparr>"

definition ambiguous :: execution where
  "ambiguous = \<lparr>xc_outcome = ''AMBIGUOUS'', xc_receipt = [], xc_level = ''NONE''\<rparr>"

definition positive_id :: "json \<Rightarrow> int option" where
  "positive_id v = (case v of JInt n \<Rightarrow> if n < 1 then None else Some n | _ \<Rightarrow> None)"

text \<open>
  The result of a send: the exception, or the execution; and what was sent.
\<close>

type_synonym sent = "(unit + execution) \<times> delivery option"

definition issue_ok :: "string \<Rightarrow> bool" where
  "issue_ok s = (s \<noteq> [] \<and> list_all is_digit s)"

definition send_github_comment :: "delivery_host \<Rightarrow> string \<Rightarrow> string \<Rightarrow> string \<Rightarrow> reply \<Rightarrow> sent" where
  "send_github_comment x rep issue body rpl =
     (if \<not> repository_ok rep \<or> \<not> issue_ok issue then (Inr not_sent, None)
      else if body = [] \<or> 4000 < length body \<or> CHR 0x00 \<in> set body then (Inr not_sent, None)
      else if \<not> github_configured x then (Inr not_sent, None)
      else ((case rpl of
               Raises \<Rightarrow> Inl ()
             | Replied code (Some (JObj d)) \<Rightarrow>
                 (if code \<noteq> 0 then Inr ambiguous
                  else (case positive_id (jget d ''id'') of
                          None \<Rightarrow> Inr ambiguous
                        | Some n \<Rightarrow> Inr \<lparr>xc_outcome = ''SUCCEEDED'', xc_receipt = ''github-comment:'' @ int_text n,
                                        xc_level = ''NONE''\<rparr>))
             | _ \<Rightarrow> Inr ambiguous),
            Some (GithubComment rep issue body)))"

definition send_telegram_info :: "delivery_host \<Rightarrow> string \<Rightarrow> reply \<Rightarrow> sent" where
  "send_telegram_info x txt rpl =
     (if txt = [] \<or> 4000 < length txt \<or> CHR 0x00 \<in> set txt \<or> ''COMPLETE'' \<in> set (split_ws txt) then (Inr not_sent, None)
      else (case (host_file (dh_token x), host_file (dh_chat x)) of
              (Some token, Some chat) \<Rightarrow>
                ((case rpl of
                    Raises \<Rightarrow> Inl ()
                  | Replied _ (Some (JObj d)) \<Rightarrow>
                      (case jget d ''result'' of
                         JObj r \<Rightarrow>
                           (case positive_id (jget r ''message_id'') of
                              None \<Rightarrow> Inr ambiguous
                            | Some n \<Rightarrow> Inr \<lparr>xc_outcome = ''SUCCEEDED'', xc_receipt = ''telegram:'' @ int_text n, xc_level = ''INFO''\<rparr>)
                       | _ \<Rightarrow> Inr ambiguous)
                  | _ \<Rightarrow> Inr ambiguous),
                 Some (TelegramMessage chat txt))
            | _ \<Rightarrow> (Inr not_sent, None)))"

definition notice_text :: "(rat \<Rightarrow> string) \<Rightarrow> jobj \<Rightarrow> string" where
  "notice_text fl effect =
     join_with [NL] [''LEVEL=INFO'', ''WATCH_RESULT='' @ json_str fl (jget effect ''watch_result''),
       ''WORKSTREAM='' @ json_str fl (jget effect ''workstream''),
       ''INTENT_REVISION='' @ json_str fl (jget effect ''intent_revision''),
       ''SUBJECT='' @ json_str fl (jget effect ''subject_version'')] @ [NL]"

definition send_effect :: "(rat \<Rightarrow> string) \<Rightarrow> delivery_host \<Rightarrow> string \<Rightarrow> jobj \<Rightarrow> reply \<Rightarrow> sent" where
  "send_effect fl x kind effect rpl =
     (if kind = ''NOTIFY_OWNER'' then
        (if jget effect ''level'' \<noteq> JStr ''INFO'' then (Inr not_sent, None)
         else send_telegram_info x (notice_text fl effect) rpl)
      else if kind \<notin> {''WAKE_COORDINATOR'', ''RESUME_ADMITTED_WORKER''} then (Inr not_sent, None)
      else send_github_comment x (or_empty fl effect ''target_repo'')
             (case jget effect ''mutation_target'' of JObj d \<Rightarrow> or_empty fl d ''id'' | _ \<Rightarrow> [])
             (or_empty fl effect ''mutation_content'') rpl)"

end
