(* ===== verification/Collect.thy ===== *)
theory Collect
  imports Effects Admission Codec
begin

text \<open>
  \<^verbatim>\<open>tools/coordinator_watch_collect.py\<close>: the facts of one watch, read from an issue, the branch head, its
  status and its pull request through \<^verbatim>\<open>gh\<close>, from a pinned worktree through \<^verbatim>\<open>git\<close>, from
  \<^verbatim>\<open>/proc/meminfo\<close> and from the claim files of the host. The record \<open>collect_host\<close> holds what these reads
  meet: for a program its exit status and output by its arguments. A read gives its value, or fails with
  an exception that the code catches around it (\<open>Missed\<close>: an \<^verbatim>\<open>OSError\<close>, a timeout, a \<^verbatim>\<open>JSONDecodeError\<close>), or
  with one that it does not catch (\<open>Escaping\<close>: the \<^verbatim>\<open>UnicodeDecodeError\<close> of text that is not UTF-8, the
  \<^verbatim>\<open>ValueError\<close> of a JSON integer with too many digits). \<^verbatim>\<open>json.loads\<close> and the clock are parameters.
  \<open>CollectError\<close> is the module's error, \<open>CollectCrash\<close> any other exception.
\<close>

datatype 'a reading = Got 'a | Missed | Escaping

datatype collect_stop = CollectError string | CollectCrash

definition CI_FROM_GITHUB :: "(string \<times> string) list" where
  "CI_FROM_GITHUB = [(''success'', ''PASS''), (''pending'', ''PENDING''), (''failure'', ''FAIL''), (''error'', ''FAIL'')]"

record dir_stat =
  dt_symlink :: bool
  dt_is_dir :: bool
  dt_uid :: nat
  dt_mode :: nat
  dt_parent_symlink :: bool
  dt_parent_uid :: nat
  dt_parent_mode :: nat

definition directory_provenance_ok :: "dir_stat option \<Rightarrow> bool" where
  "directory_provenance_ok st =
     (case st of
        None \<Rightarrow> False
      | Some p \<Rightarrow> \<not> dt_symlink p \<and> dt_is_dir p \<and> dt_uid p = 0 \<and> \<not> shared_write (dt_mode p) \<and>
          \<not> dt_parent_symlink p \<and> dt_parent_uid p = 0 \<and> \<not> shared_write (dt_parent_mode p))"

text \<open>
  An entry of the claim directory, and the host. A test of a path is \<open>None\<close> when it raises; it is outside of
  every \<^verbatim>\<open>try\<close>.
\<close>

record claim_entry =
  ce_symlink :: "bool option"
  ce_is_file :: "bool option"
  ce_name :: string
  ce_text :: "string reading"

record collect_host =
  ch_gh :: "exe_stat option"
  ch_gh_run :: "string list \<Rightarrow> (int \<times> string) reading"
  ch_git :: "exe_stat option"
  ch_git_run :: "string list \<Rightarrow> (int \<times> string) reading"
  ch_loads :: "string \<Rightarrow> json reading"
  ch_pin :: "exe_stat option"
  ch_pin_text :: "string reading"
  ch_is_real_dir :: "string \<Rightarrow> bool option"
  ch_meminfo :: "string reading"
  ch_claim_dir :: "dir_stat option"
  ch_claims :: "claim_entry list option"
  ch_now :: string

section \<open>The issue body\<close>

record issue_fields =
  is_fields :: "(string \<times> string) list"
  is_dependencies :: "(string \<times> string) list"

definition parse_line :: "string \<Rightarrow> issue_fields \<Rightarrow> issue_fields" where
  "parse_line raw b =
     (let line = py_strip raw; (key0, eq, value0) = partition_at CHR ''='' line;
          key = py_strip key0; value = py_strip value0
      in if line = [] \<or> starts_with line ''#'' \<or> \<not> eq then b
         else if key = ''DEPENDENCY'' \<and> CHR '':'' \<in> set value
         then (let (ws, _, st) = partition_at CHR '':'' value
               in b\<lparr>is_dependencies := is_dependencies b @ [(py_strip ws, py_upper (py_strip st))]\<rparr>)
         else if key \<noteq> [] \<and> map_of (is_fields b) key = None
         then b\<lparr>is_fields := is_fields b @ [(key, value)]\<rparr> else b)"

definition parse_body :: "string \<Rightarrow> issue_fields" where
  "parse_body body = fold parse_line (py_splitlines body) \<lparr>is_fields = [], is_dependencies = []\<rparr>"

definition required_field :: "issue_fields \<Rightarrow> string \<Rightarrow> collect_stop + string" where
  "required_field b key =
     (case map_of (is_fields b) key of
        None \<Rightarrow> Inl (CollectError (''authoritative packet is missing '' @ key))
      | Some v \<Rightarrow> if py_strip v = [] then Inl (CollectError (''authoritative packet is missing '' @ key)) else Inr (py_strip v))"

definition bool_line :: "issue_fields \<Rightarrow> string \<Rightarrow> bool \<Rightarrow> collect_stop + bool" where
  "bool_line b key fallback =
     (case map_of (is_fields b) key of
        None \<Rightarrow> Inr fallback
      | Some v \<Rightarrow>
          if py_lower v \<notin> {''true'', ''false''}
          then Inl (CollectError (''authoritative packet field '' @ key @ '' is not a boolean''))
          else Inr (py_lower v = ''true''))"

section \<open>Reads\<close>

definition gh_argument_ok :: "string \<Rightarrow> bool" where
  "gh_argument_ok s = (s \<noteq> [] \<and> CHR 0x00 \<notin> set s \<and> NL \<notin> set s)"

definition run_gh :: "collect_host \<Rightarrow> string list \<Rightarrow> collect_stop + json" where
  "run_gh h args =
     (if args = [] \<or> \<not> list_all gh_argument_ok args
      then Inl (CollectError ''collector refused an unbounded gh argument'')
      else if \<not> executable_provenance_ok (ch_gh h) then Inl (CollectError ''trusted gh provenance is unavailable'')
      else (case ch_gh_run h args of
              Escaping \<Rightarrow> Inl CollectCrash
            | Missed \<Rightarrow> Inl (CollectError ''authenticated gh read failed'')
            | Got (code, txt) \<Rightarrow>
                if code \<noteq> 0 \<or> py_strip txt = [] then Inl (CollectError ''authenticated gh read failed'')
                else (case ch_loads h txt of
                        Escaping \<Rightarrow> Inl CollectCrash
                      | Missed \<Rightarrow> Inl (CollectError ''authenticated gh read was not JSON'')
                      | Got v \<Rightarrow> Inr v)))"

definition file_pin_ok :: "exe_stat option \<Rightarrow> bool" where
  "file_pin_ok st =
     (case st of
        None \<Rightarrow> False
      | Some p \<Rightarrow> \<not> ex_symlink p \<and> ex_regular p \<and> ex_uid p = 0 \<and> \<not> shared_write (ex_mode p) \<and>
          \<not> ex_parent_symlink p \<and> ex_parent_uid p = 0 \<and> \<not> shared_write (ex_parent_mode p))"

definition worktree_from_pin :: "collect_host \<Rightarrow> collect_stop + string option" where
  "worktree_from_pin h =
     (case ch_pin_text h of
        Escaping \<Rightarrow> Inl CollectCrash
      | Missed \<Rightarrow> Inr None
      | Got raw \<Rightarrow>
          (let txt = py_strip raw
           in if txt = [] \<or> NL \<in> set txt \<or> CHR 0x00 \<in> set txt \<or> \<not> starts_with txt ''/'' then Inr None
              else (case ch_is_real_dir h txt of
                      None \<Rightarrow> Inl CollectCrash
                    | Some is_dir \<Rightarrow> Inr (if is_dir then Some txt else None))))"

definition pinned_worktree :: "collect_host \<Rightarrow> collect_stop + string option" where
  "pinned_worktree h = (if file_pin_ok (ch_pin h) then worktree_from_pin h else Inr None)"

definition git_stdout :: "collect_host \<Rightarrow> string \<Rightarrow> string list \<Rightarrow> collect_stop + string option" where
  "git_stdout h worktree args =
     (if \<not> executable_provenance_ok (ch_git h) then Inr None
      else (case ch_git_run h ([''-C'', worktree] @ args) of
              Escaping \<Rightarrow> Inl CollectCrash
            | Missed \<Rightarrow> Inr None
            | Got (code, txt) \<Rightarrow> Inr (if code \<noteq> 0 then None else Some txt)))"

text \<open>A substring test, as in the code.\<close>

definition origin_matches :: "collect_host \<Rightarrow> string \<Rightarrow> string \<Rightarrow> collect_stop + bool" where
  "origin_matches h worktree repository =
     bindE (git_stdout h worktree [''remote'', ''get-url'', ''origin'']) (\<lambda>answer.
       Inr (case answer of None \<Rightarrow> False | Some url \<Rightarrow> url \<noteq> [] \<and> contains_sub repository (py_strip url)))"

definition worktree_bound :: "collect_host \<Rightarrow> string \<Rightarrow> string \<Rightarrow> string \<Rightarrow> string \<Rightarrow> collect_stop + bool" where
  "worktree_bound h worktree repository branch head =
     bindE (origin_matches h worktree repository) (\<lambda>origin.
     if \<not> origin then Inr False
     else bindE (git_stdout h worktree [''rev-parse'', ''--abbrev-ref'', ''HEAD'']) (\<lambda>local_branch.
          bindE (git_stdout h worktree [''rev-parse'', ''HEAD'']) (\<lambda>local_head.
            Inr (case (local_branch, local_head) of
                   (Some lb, Some lh) \<Rightarrow> py_strip lb = branch \<and> py_lower (py_strip lh) = py_lower head
                 | _ \<Rightarrow> False))))"

definition UPSTREAM :: string where
  "UPSTREAM = CHR 0x40 # ''{upstream}''"

text \<open>The commits that are not upstream: whether there are any, when the count is known.\<close>

definition unpushed_count :: "string option \<Rightarrow> collect_stop + bool option" where
  "unpushed_count answer =
     (case answer of
        None \<Rightarrow> Inr None
      | Some count \<Rightarrow>
          if \<not> py_isdigit (py_strip count) then Inr None
          else (case py_int (py_strip count) of None \<Rightarrow> Inl CollectCrash | Some n \<Rightarrow> Inr (Some (0 < n))))"

definition observe_git ::
    "collect_host \<Rightarrow> string \<Rightarrow> string \<Rightarrow> string \<Rightarrow> string \<Rightarrow> collect_stop + bool option \<times> bool option" where
  "observe_git h worktree repository branch head =
     bindE (worktree_bound h worktree repository branch head) (\<lambda>bound.
     if \<not> bound then Inr (None, None)
     else bindE (git_stdout h worktree [''status'', ''--porcelain'', ''--untracked-files=all'']) (\<lambda>status.
          let dirty = map_option (\<lambda>s. py_strip s \<noteq> []) status
          in bindE (git_stdout h worktree [''rev-parse'', ''--abbrev-ref'', UPSTREAM]) (\<lambda>upstream.
             if upstream = None then Inr (dirty, None)
             else bindE (git_stdout h worktree [''rev-list'', ''--count'', UPSTREAM @ ''..HEAD'']) (\<lambda>count.
                  bindE (unpushed_count count) (\<lambda>unpushed. Inr (dirty, unpushed))))))"

section \<open>Memory\<close>

text \<open>\<open>None\<close> for the \<^verbatim>\<open>ValueError\<close> of \<^verbatim>\<open>int\<close>.\<close>

definition memory_line :: "string \<Rightarrow> (string \<times> int) list option \<Rightarrow> (string \<times> int) list option" where
  "memory_line raw values_opt =
     (case values_opt of
        None \<Rightarrow> None
      | Some vs \<Rightarrow>
          (let (key, colon, rest) = partition_at CHR '':'' raw; parts = split_ws rest
           in if \<not> colon \<or> parts = [] then Some vs
              else (case py_int (hd parts) of
                      None \<Rightarrow> None
                    | Some n \<Rightarrow> Some (dset (py_strip key)
                        (if 1 < length parts \<and> parts ! 1 = ''kB'' then n * 1024 else n) vs))))"

definition memory_thresholds :: "int \<Rightarrow> int \<times> int" where
  "memory_thresholds mem_total =
     (let gib = 1024 ^ 3; mib = 1024 ^ 2
      in if 24 * gib \<le> mem_total then (8 * gib, gib)
         else if 8 * gib \<le> mem_total then (max gib (mem_total div 4), gib)
         else (max (64 * mib) (mem_total div 5), 256 * mib))"

definition memory_verdict :: "int \<Rightarrow> int \<Rightarrow> int \<Rightarrow> int \<Rightarrow> string" where
  "memory_verdict mem_total available swap_total swap_free =
     (let (block_mem, block_swap) = memory_thresholds mem_total;
          swap_used = (if swap_total \<noteq> 0 then max 0 (swap_total - swap_free) else 0)
      in if available < block_mem \<or> (swap_total \<noteq> 0 \<and> block_swap < swap_used) then ''BLOCK'' else ''PASS'')"

definition memory_report :: "string \<Rightarrow> string" where
  "memory_report txt =
     (case fold memory_line (py_splitlines txt) (Some []) of
        None \<Rightarrow> ''UNKNOWN''
      | Some vs \<Rightarrow>
          (case (map_of vs ''MemTotal'', map_of vs ''MemAvailable'', map_of vs ''SwapTotal'') of
             (Some mem_total, Some available, Some swap_total) \<Rightarrow>
               (let swap_free = (case map_of vs ''SwapFree'' of Some n \<Rightarrow> n | None \<Rightarrow> 0)
                in if mem_total \<le> 0 \<or> available < 0 \<or> swap_total < 0 \<or> swap_free < 0 then ''UNKNOWN''
                   else memory_verdict mem_total available swap_total swap_free)
           | _ \<Rightarrow> ''UNKNOWN''))"

definition observe_resource :: "collect_host \<Rightarrow> collect_stop + string" where
  "observe_resource h =
     (case ch_meminfo h of
        Escaping \<Rightarrow> Inl CollectCrash | Missed \<Rightarrow> Inr ''UNKNOWN'' | Got txt \<Rightarrow> Inr (memory_report txt))"

section \<open>Claims\<close>

definition json_name :: "string \<Rightarrow> bool" where
  "json_name s = (ends_with s ''.json'' \<and> 5 < length s)"

text \<open>The document of an entry, \<open>None\<close> for one that is passed over, \<open>Missed\<close> for one that ends the search.\<close>

definition claim_document :: "collect_host \<Rightarrow> claim_entry \<Rightarrow> jobj reading option" where
  "claim_document h e =
     (case ce_symlink e of
        None \<Rightarrow> Some Escaping
      | Some True \<Rightarrow> None
      | Some False \<Rightarrow>
          (case ce_is_file e of
             None \<Rightarrow> Some Escaping
           | Some False \<Rightarrow> None
           | Some True \<Rightarrow>
               if \<not> json_name (ce_name e) then None
               else Some (case ce_text e of
                            Escaping \<Rightarrow> Escaping
                          | Missed \<Rightarrow> Missed
                          | Got txt \<Rightarrow>
                              (case ch_loads h txt of Escaping \<Rightarrow> Escaping | Got (JObj d) \<Rightarrow> Got d | _ \<Rightarrow> Missed))))"

text \<open>The documents of the directory in their order.\<close>

definition claim_documents :: "collect_host \<Rightarrow> jobj reading list option" where
  "claim_documents h = map_option (List.map_filter (claim_document h)) (ch_claims h)"

definition claim_of :: "string \<Rightarrow> string \<Rightarrow> jobj \<Rightarrow> bool" where
  "claim_of repository workstream d = (jget d ''repository'' = JStr repository \<and> jget d ''workstream'' = JStr workstream)"

definition claim_active :: "(rat \<Rightarrow> string) \<Rightarrow> jobj \<Rightarrow> bool" where
  "claim_active fl d = (py_upper (or_empty fl d ''status'') \<in> set ACTIVE_CLAIM_STATUSES)"

fun matching_from ::
    "(rat \<Rightarrow> string) \<Rightarrow> string \<Rightarrow> string \<Rightarrow> int \<Rightarrow> bool \<Rightarrow> jobj reading list \<Rightarrow> collect_stop + bool option" where
  "matching_from fl repository workstream revision matched [] = Inr (Some matched)"
| "matching_from fl repository workstream revision matched (Escaping # rest) = Inl CollectCrash"
| "matching_from fl repository workstream revision matched (Missed # rest) = Inr None"
| "matching_from fl repository workstream revision matched (Got d # rest) =
     (if \<not> claim_of repository workstream d then matching_from fl repository workstream revision matched rest
      else if \<not> eq_int (jget d ''intent_revision'') revision \<or> \<not> claim_active fl d
      then matching_from fl repository workstream revision matched rest
      else if jget d ''ambiguous'' = JBool True then Inr None
      else matching_from fl repository workstream revision True rest)"

definition matching_claim :: "(rat \<Rightarrow> string) \<Rightarrow> collect_host \<Rightarrow> string \<Rightarrow> string \<Rightarrow> int \<Rightarrow> collect_stop + bool option" where
  "matching_claim fl h repository workstream revision =
     (case claim_documents h of
        None \<Rightarrow> Inr None
      | Some docs \<Rightarrow> matching_from fl repository workstream revision False docs)"

definition observe_admission ::
    "(rat \<Rightarrow> string) \<Rightarrow> collect_host \<Rightarrow> string \<Rightarrow> string \<Rightarrow> string \<Rightarrow> int \<Rightarrow> collect_stop + jobj" where
  "observe_admission fl h res repository workstream revision =
     (if res = ''UNKNOWN'' then Inr [(''decision'', JStr ''UNKNOWN'')]
      else if res = ''BLOCK'' then Inr [(''decision'', JStr ''DENY''), (''deny_class'', JStr ''HOST_BUDGET'')]
      else if \<not> directory_provenance_ok (ch_claim_dir h) then Inr [(''decision'', JStr ''UNKNOWN'')]
      else bindE (matching_claim fl h repository workstream revision) (\<lambda>matched.
             Inr [(''decision'', JStr (if matched = Some True then ''ALLOW'' else ''UNKNOWN''))]))"

definition canonical_claim_worktree :: "jobj \<Rightarrow> string option" where
  "canonical_claim_worktree d =
     (case jget d ''worktree'' of
        JStr raw \<Rightarrow>
          if py_strip raw = [] then None
          else (case canonicalize_worktree raw of
                  Inl e \<Rightarrow> None
                | Inr canonical \<Rightarrow> if forward_slashes raw \<noteq> canonical then None else Some canonical)
      | _ \<Rightarrow> None)"

text \<open>The revisions of the claims on the pinned worktree; \<open>None\<close> when one is unreadable or doubtful.\<close>

fun claim_revisions ::
    "(rat \<Rightarrow> string) \<Rightarrow> string \<Rightarrow> string \<Rightarrow> string \<Rightarrow> int list \<Rightarrow> jobj reading list \<Rightarrow> collect_stop + int list option" where
  "claim_revisions fl repository workstream pinned revs [] = Inr (Some revs)"
| "claim_revisions fl repository workstream pinned revs (Escaping # rest) = Inl CollectCrash"
| "claim_revisions fl repository workstream pinned revs (Missed # rest) = Inr None"
| "claim_revisions fl repository workstream pinned revs (Got d # rest) =
     (if \<not> claim_of repository workstream d \<or> \<not> claim_active fl d
      then claim_revisions fl repository workstream pinned revs rest
      else if jget d ''ambiguous'' = JBool True then Inr None
      else (case jget d ''intent_revision'' of
              JInt n \<Rightarrow>
                if n < 1 then Inr None
                else (case canonical_claim_worktree d of
                        None \<Rightarrow> Inr None
                      | Some tree \<Rightarrow>
                          claim_revisions fl repository workstream pinned (if tree \<noteq> pinned then revs else revs @ [n]) rest)
            | _ \<Rightarrow> Inr None))"

definition bound_claim_revision ::
    "(rat \<Rightarrow> string) \<Rightarrow> collect_host \<Rightarrow> string \<Rightarrow> string \<Rightarrow> string \<Rightarrow> collect_stop + int option" where
  "bound_claim_revision fl h repository workstream worktree =
     (if \<not> directory_provenance_ok (ch_claim_dir h) then Inr None
      else (case (canonicalize_worktree worktree, claim_documents h) of
              (Inr pinned, Some docs) \<Rightarrow>
                bindE (claim_revisions fl repository workstream pinned [] docs) (\<lambda>revs.
                  Inr (case revs of Some [n] \<Rightarrow> Some n | _ \<Rightarrow> None))
            | _ \<Rightarrow> Inr None))"

text \<open>
  The sessions are their workspaces, \<open>None\<close> when they are not known; \<open>same\<close> is the comparison of two
  resolved paths. Nothing calls this function.
\<close>

definition observe_worker ::
    "(rat \<Rightarrow> string) \<Rightarrow> collect_host \<Rightarrow> (string \<Rightarrow> string \<Rightarrow> bool) \<Rightarrow> string list option \<Rightarrow> string option \<Rightarrow> string \<Rightarrow> string \<Rightarrow>
     string \<Rightarrow> string \<Rightarrow> bool option \<Rightarrow> collect_stop + jobj option" where
  "observe_worker fl h same sessions worktree repository workstream branch head dirty =
     (case sessions of
        None \<Rightarrow> Inr None
      | Some spaces \<Rightarrow>
          (let absent = Inr (Some [(''present'', JBool False)])
           in (case worktree of
                 None \<Rightarrow> absent
               | Some tree \<Rightarrow>
                   bindE (worktree_bound h tree repository branch head) (\<lambda>bound.
                   if \<not> bound \<or> \<not> list_ex (\<lambda>s. same s tree) spaces then absent
                   else bindE (bound_claim_revision fl h repository workstream tree) (\<lambda>starting.
                        case starting of
                          None \<Rightarrow> absent
                        | Some n \<Rightarrow> Inr (Some [(''present'', JBool True), (''status'', JStr ''ACTIVE''),
                            (''starting_intent_revision'', JInt n), (''progress_evidence'', JBool (dirty = Some True))]))))))"

section \<open>The facts\<close>

definition quote_path :: "string \<Rightarrow> string" where
  "quote_path s = concat (map (\<lambda>c. if c = CHR '' '' then ''%20'' else quote_plus_char c) s)"

definition collect_branch_ok :: "string \<Rightarrow> bool" where
  "collect_branch_ok s = (s \<noteq> [] \<and> list_all (\<lambda>c. slug_char c \<or> c = CHR ''/'') s)"

text \<open>A field of a document that may not be an object, as text.\<close>

definition doc_text :: "(rat \<Rightarrow> string) \<Rightarrow> json \<Rightarrow> string \<Rightarrow> string" where
  "doc_text fl v key = (case v of JObj d \<Rightarrow> or_empty fl d key | _ \<Rightarrow> [])"

text \<open>The body of the issue, which must be the declared one.\<close>

definition issue_text :: "(rat \<Rightarrow> string) \<Rightarrow> string \<Rightarrow> json \<Rightarrow> collect_stop + string" where
  "issue_text fl issue_id v =
     (case v of
        JObj issue \<Rightarrow>
          if json_str fl (jget issue ''number'') \<noteq> issue_id
          then Inl (CollectError ''gh issue identity does not match the declared issue'')
          else (case jget issue ''body'' of
                  JStr body \<Rightarrow> Inr body | _ \<Rightarrow> Inl (CollectError ''gh issue body is missing''))
      | _ \<Rightarrow> Inl (CollectError ''gh issue identity does not match the declared issue''))"

text \<open>The branch, the status and the intent revision of the packet, which must name the declared watch.\<close>

definition packet_identity :: "issue_fields \<Rightarrow> string \<Rightarrow> string \<Rightarrow> collect_stop + string \<times> string \<times> int" where
  "packet_identity b repository workstream =
     bindE (required_field b ''TARGET_REPO'') (\<lambda>packet_repo.
     bindE (required_field b ''WORKSTREAM'') (\<lambda>packet_workstream.
     if packet_repo \<noteq> repository \<or> packet_workstream \<noteq> workstream
     then Inl (CollectError ''gh issue packet identity does not match the declared watch'')
     else bindE (required_field b ''BRANCH'') (\<lambda>branch.
     if \<not> collect_branch_ok branch
     then Inl (CollectError ''authoritative branch is not a bounded git ref'')
     else bindE (required_field b ''STATUS'') (\<lambda>status.
     bindE (required_field b ''INTENT_REVISION'') (\<lambda>revision.
       case py_int revision of
         None \<Rightarrow> Inl (CollectError ''authoritative intent revision is not an integer'')
       | Some n \<Rightarrow>
           if n < 1 then Inl (CollectError ''authoritative intent revision is not an integer'')
           else Inr (branch, py_upper status, n))))))"

definition read_issue ::
    "(rat \<Rightarrow> string) \<Rightarrow> collect_host \<Rightarrow> string \<Rightarrow> string \<Rightarrow> string \<Rightarrow> collect_stop + issue_fields \<times> string \<times> string \<times> int" where
  "read_issue fl h repository workstream issue_id =
     bindE (run_gh h [''issue'', ''view'', issue_id, ''--repo'', repository, ''--json'', ''number,body'']) (\<lambda>v.
     bindE (issue_text fl issue_id v) (\<lambda>body.
     let b = parse_body body
     in bindE (packet_identity b repository workstream) (\<lambda>(branch, status, n). Inr (b, branch, status, n))))"

text \<open>The state of the pull request, if there is one; a first entry that is no object raises.\<close>

definition pull_request :: "(rat \<Rightarrow> string) \<Rightarrow> string \<Rightarrow> json \<Rightarrow> collect_stop + string option" where
  "pull_request fl sha pulls =
     (case pulls of
        JList [] \<Rightarrow> Inr None
      | JList (JObj p # _) \<Rightarrow>
          if py_lower (or_empty fl p ''headRefOid'') \<noteq> sha
          then Inl (CollectError ''pull request head does not match the authoritative branch head'')
          else Inr (Some (py_upper (or_empty fl p ''state'')))
      | JList _ \<Rightarrow> Inl CollectCrash
      | _ \<Rightarrow> Inl (CollectError ''authenticated pull request read was not a list''))"

text \<open>The head of the branch, the state of its checks, and its pull request's state, if there is one.\<close>

definition read_head :: "(rat \<Rightarrow> string) \<Rightarrow> collect_host \<Rightarrow> string \<Rightarrow> string \<Rightarrow> collect_stop + string \<times> string \<times> string option" where
  "read_head fl h repository branch =
     bindE (run_gh h [''api'', ''repos/'' @ repository @ ''/commits/'' @ quote_path branch]) (\<lambda>commit.
     let sha = py_lower (doc_text fl commit ''sha'')
     in if \<not> full_sha sha then Inl (CollectError ''authoritative branch head is not an exact git sha'')
        else bindE (run_gh h [''api'', ''repos/'' @ repository @ ''/commits/'' @ sha @ ''/status'']) (\<lambda>status_doc.
             let ci = (case map_of CI_FROM_GITHUB (py_lower (doc_text fl status_doc ''state'')) of Some s \<Rightarrow> s | None \<Rightarrow> ''UNKNOWN'')
             in bindE (run_gh h [''pr'', ''list'', ''--repo'', repository, ''--head'', branch, ''--json'', ''number,state,headRefOid'',
                                 ''--limit'', ''1'']) (\<lambda>pulls.
                bindE (pull_request fl sha pulls) (\<lambda>pull_state. Inr (sha, ci, pull_state)))))"

text \<open>\<^verbatim>\<open>PUBLICATION_REVISION\<close>: the \<^verbatim>\<open>ValueError\<close> of \<^verbatim>\<open>int\<close> is not caught.\<close>

definition publication_facts :: "issue_fields \<Rightarrow> collect_stop + jobj" where
  "publication_facts b =
     (let audit = (case map_of (is_fields b) ''PUBLICATION_AUDIT'' of Some v \<Rightarrow> if v = [] then UNKNOWN else v | None \<Rightarrow> UNKNOWN);
          base = [(''coordinator_audit'', JStr (py_upper audit))]
      in (case map_of (is_fields b) ''PUBLICATION_REVISION'' of
            None \<Rightarrow> Inr base
          | Some v \<Rightarrow>
              if py_strip v = [] then Inr base
              else (case py_int v of None \<Rightarrow> Inl CollectCrash | Some n \<Rightarrow> Inr (base @ [(''authorized_intent_revision'', JInt n)]))))"

text \<open>The sections of the answer, in the order of the dictionary of the code.\<close>

definition packet_section ::
    "issue_fields \<Rightarrow> string \<Rightarrow> string \<Rightarrow> string \<Rightarrow> int \<Rightarrow> string \<Rightarrow> string \<Rightarrow> string \<Rightarrow> jobj" where
  "packet_section b repository workstream status revision priority risk kind =
     [(''repository'', JStr repository), (''workstream'', JStr workstream), (''status'', JStr status),
      (''priority'', JStr (py_upper priority)), (''intent_revision'', JInt revision),
      (''change_risk'', JStr (py_upper risk)), (''task_kind'', JStr (py_upper kind)),
      (''dependencies'', JList (map (\<lambda>(ws, st). JObj [(''workstream'', JStr ws), (''status'', JStr st)]) (is_dependencies b)))]"

definition git_section :: "string \<Rightarrow> bool option \<Rightarrow> bool option \<Rightarrow> jobj" where
  "git_section sha dirty unpushed =
     [(''head'', JStr sha), (''yielded_for_audit'', JBool False)] @
     (case dirty of None \<Rightarrow> [] | Some x \<Rightarrow> [(''dirty'', JBool x)]) @
     (case unpushed of None \<Rightarrow> [] | Some x \<Rightarrow> [(''unpushed'', JBool x)])"

definition pr_section :: "string \<Rightarrow> string option \<Rightarrow> jobj" where
  "pr_section sha pull_state =
     (case pull_state of
        None \<Rightarrow> [(''exists'', JBool False)]
      | Some st \<Rightarrow> [(''exists'', JBool True), (''state'', JStr st), (''head'', JStr sha), (''mergeable'', JStr UNKNOWN)])"

definition facts_document ::
    "jobj \<Rightarrow> jobj \<Rightarrow> string \<Rightarrow> jobj \<Rightarrow> bool \<Rightarrow> jobj \<Rightarrow> jobj \<Rightarrow> string \<Rightarrow> string \<Rightarrow> string \<Rightarrow> string \<Rightarrow> jobj" where
  "facts_document pk gt res admission doubt publication pull ci sha watch_class observed_at =
     [(''packet'', JObj pk), (''git'', JObj gt), (''resource'', JObj [(''result'', JStr res)]), (''admission'', JObj admission),
      (''mutation'', JObj [(''ambiguous'', JBool doubt)]),
      (''failure'', JObj [(''class'', JStr ''NONE''), (''identical_semantic_count'', JInt 0)]),
      (''publication'', JObj publication), (''pr'', JObj pull), (''ci'', JObj [(''state'', JStr ci), (''subject_head'', JStr sha)]),
      (''review'', JObj [(''actionable_open'', JBool False), (''state'', JStr UNKNOWN)]),
      (''wait'', JObj [(''external'', JBool False), (''retry_count'', JInt 0), (''retry_budget'', JInt 3)]),
      (''gates'', JObj [(''org_rollout'', JStr ''NOT_REQUIRED'')]),
      (''watch'', JObj [(''watch_class'', JStr watch_class), (''observed_at'', JStr observed_at)])]"

definition observed_git ::
    "collect_host \<Rightarrow> string \<Rightarrow> string \<Rightarrow> string \<Rightarrow> collect_stop + bool option \<times> bool option" where
  "observed_git h repository branch sha =
     bindE (pinned_worktree h) (\<lambda>worktree.
       case worktree of None \<Rightarrow> Inr (None, None) | Some tree \<Rightarrow> observe_git h tree repository branch sha)"

definition collect_authoritative ::
    "(rat \<Rightarrow> string) \<Rightarrow> collect_host \<Rightarrow> string \<Rightarrow> string \<Rightarrow> string \<Rightarrow> string \<Rightarrow> collect_stop + jobj \<times> string" where
  "collect_authoritative fl h repository workstream issue_id watch_class =
     (if \<not> repository_ok repository \<or> \<not> issue_ok issue_id
      then Inl (CollectError ''collector identity is not a repository and issue number'')
      else bindE (read_issue fl h repository workstream issue_id) (\<lambda>(b, branch, status, revision).
           bindE (read_head fl h repository branch) (\<lambda>(sha, ci, pull_state).
           bindE (observed_git h repository branch sha) (\<lambda>(dirty, unpushed).
           bindE (observe_resource h) (\<lambda>res.
           bindE (observe_admission fl h res repository workstream revision) (\<lambda>admission.
           bindE (required_field b ''PRIORITY'') (\<lambda>priority.
           bindE (required_field b ''CHANGE_RISK'') (\<lambda>risk.
           bindE (required_field b ''TASK_KIND'') (\<lambda>kind.
           bindE (bool_line b ''MUTATION_AMBIGUOUS'' False) (\<lambda>doubt.
           bindE (publication_facts b) (\<lambda>publication.
             Inr (facts_document (packet_section b repository workstream status revision priority risk kind)
                       (git_section sha dirty unpushed) res admission doubt publication (pr_section sha pull_state) ci sha
                       watch_class (ch_now h), branch))))))))))))"

end
