(* ===== verification/WatchHost.thy ===== *)
theory WatchHost
  imports Watch Worker Collect
begin

text \<open>
  \<^verbatim>\<open>tools/coordinator_watch_host.py\<close>: one locked pass over one watch. \<open>run_once\<close> evaluates the watch
  (\<open>watch_evaluate\<close>), asks the worker adapter (\<open>worker_evaluate\<close>) or \<open>authorize\<close>, reserves the signed
  dispatch, sends the effect once and finalizes the dispatch, with a journal between the steps.

  \<^verbatim>\<open>HostRequestError\<close> has the shape of the planner's error: \<open>Rejected\<close> holds it. \<open>Escaped\<close> is any other
  exception, \<open>Killed\<close> a process that dies; both keep what was written before. What the two readings
  of the facts meet are inputs of a run. Each watch has a directory with four files;
  what the calls of a run meet is given by the lists of the \<open>world\<close>, with everything working when a
  list is used up. The replay directory is shared: a call finds it as other processes left it.
\<close>

definition HOST_RESULTS :: "string list" where
  "HOST_RESULTS = [''NO_ACTION'', ''DELIVERED'', ''DEDUP'', ''LOCK_HELD'', ''STALE_RECONCILE'', ''RESOURCE_BLOCKED'',
     ''RECONCILE_AMBIGUOUS'', ''AUTHORITY_DENIED'']"

definition TYPED_RESULTS :: "string list" where
  "TYPED_RESULTS = [''WAKE_COORDINATOR'', ''RESUME_ADMITTED_WORKER'', ''NOTIFY_OWNER'']"

definition WRITE_ACTIONS :: "(string \<times> string) list" where
  "WRITE_ACTIONS = [(''WAKE_COORDINATOR'', ''comment_work_packet''), (''RESUME_ADMITTED_WORKER'', ''update_work_packet'')]"

definition HOST_AMBIGUOUS :: "string list" where
  "HOST_AMBIGUOUS = [''AMBIGUOUS'', ''UNKNOWN'', ''TIMEOUT'']"

definition REQUEST_KEYS :: "string list" where
  "REQUEST_KEYS = [''schema_version'', ''target_repo'', ''workstream'', ''watch_class'', ''branch'', ''effect_target_id'',
     ''lock_path'', ''watch_state_path'', ''ledger_path'', ''work_budget'', ''verification'']"

definition EXTRA_FORBIDDEN_KEYS :: "string list" where
  "EXTRA_FORBIDDEN_KEYS = [''endpoint'', ''url'', ''uri'', ''webhook'', ''signing_key'', ''hmac_secret'', ''private_key'',
     ''mint'', ''prompt'', ''chat'', ''secret'', ''token'', ''password'']"

definition JOURNAL_PHASES :: "string list" where
  "JOURNAL_PHASES = [''INTENT'', ''SENDING'', ''AMBIGUOUS'', ''RECEIPT'']"

definition MAX_LEDGER_ENTRIES :: nat where "MAX_LEDGER_ENTRIES = 32"
definition MAX_TEXT :: nat where "MAX_TEXT = 512"

section \<open>Readers\<close>

function (sequential)
  reject_value :: "string \<Rightarrow> json \<Rightarrow> facts_error + unit" and
  reject_entries :: "string \<Rightarrow> jobj \<Rightarrow> facts_error + unit" and
  reject_elems :: "string \<Rightarrow> nat \<Rightarrow> json list \<Rightarrow> facts_error + unit"
where
  "reject_value label (JObj d) = bindE (reject_execution_keys label d) (\<lambda>_. reject_entries label d)"
| "reject_value label (JList xs) = reject_elems label 0 xs"
| "reject_value label v = Inr ()"
| "reject_entries label [] = Inr ()"
| "reject_entries label ((key, v) # rest) =
     (if py_lower (py_strip key) \<in> set EXTRA_FORBIDDEN_KEYS
      then Inl (FactsError (label @ '' contains forbidden execution key '' @ py_repr key) ''EXECUTION_FORBIDDEN'')
      else bindE (reject_value (label @ ''.'' @ key) v) (\<lambda>_. reject_entries label rest))"
| "reject_elems label i [] = Inr ()"
| "reject_elems label i (v # rest) =
     bindE (reject_value (label @ ''['' @ nat_text i @ '']'') v) (\<lambda>_. reject_elems label (Suc i) rest)"
  by pat_completeness auto
termination
  by (relation "measure (\<lambda>p. case p of
       Inl (l, v) \<Rightarrow> size v
     | Inr (Inl (l, d)) \<Rightarrow> size_list (size_prod (\<lambda>_. 0) size) d
     | Inr (Inr (l, i, xs)) \<Rightarrow> size_list size xs)") auto

definition bounded_text :: "string \<Rightarrow> string \<Rightarrow> facts_error + string" where
  "bounded_text s label =
     (if MAX_TEXT < length s \<or> CHR 0x00 \<in> set s \<or> NL \<in> set s
      then Inl (facts_error (label @ '' is not a bounded single-line value'')) else Inr s)"

definition bounded_str :: "jobj \<Rightarrow> string \<Rightarrow> string \<Rightarrow> facts_error + string" where
  "bounded_str d key label = bindE (require_str (jget d key) label) (\<lambda>s. bounded_text s label)"

section \<open>The request\<close>

record host_request =
  hr_repo :: string
  hr_workstream :: string
  hr_class :: string
  hr_branch :: string
  hr_target :: string
  hr_verification :: "(string \<times> string) option"
  hr_lock :: "string option"
  hr_state :: "string option"
  hr_ledger :: "string option"

definition branch_ok :: "string \<Rightarrow> bool" where
  "branch_ok s = (s \<noteq> [] \<and> list_all (\<lambda>c. slug_char c \<or> c = CHR ''/'') s)"

definition target_ok :: "string \<Rightarrow> bool" where
  "target_ok s = (s \<noteq> [] \<and> list_all slug_char s)"

definition optional_path :: "jobj \<Rightarrow> string \<Rightarrow> facts_error + string option" where
  "optional_path raw key = if_not_null raw key (\<lambda>v. require_str v (''request.'' @ key))"

definition request_verification :: "jobj \<Rightarrow> facts_error + (string \<times> string) option" where
  "request_verification raw = if_not_null raw ''verification'' (\<lambda>v.
     bindE (require_mapping v ''verification'') (\<lambda>data.
     bindE (reject_unknown data [''binding_assertion'', ''dispatch_assertion''] ''verification'') (\<lambda>_.
     bindE (require_str (jget data ''binding_assertion'') ''verification.binding_assertion'') (\<lambda>b.
     bindE (require_str (jget data ''dispatch_assertion'') ''verification.dispatch_assertion'') (\<lambda>d. Inr (b, d))))))"

definition parse_host_request :: "jobj \<Rightarrow> facts_error + host_request" where
  "parse_host_request raw =
     bindE (reject_value ''request'' (JObj raw)) (\<lambda>_.
     if jhas raw ''collected_facts_path'' \<or> jhas raw ''authoritative_facts_path''
     then Inl (FactsError ''caller-selected fact paths are not authoritative'' ''AUTHORITY_DENIED'')
     else bindE (reject_unknown raw REQUEST_KEYS ''request'') (\<lambda>_.
     if \<not> eq_int (jget raw ''schema_version'') 1 then Inl (facts_error ''request.schema_version must be 1'')
     else bindE (bounded_str raw ''target_repo'' ''request.target_repo'') (\<lambda>rep.
     if \<not> repository_ok rep then Inl (facts_error ''request.target_repo must be owner/name'')
     else bindE (bounded_str raw ''workstream'' ''request.workstream'') (\<lambda>ws.
     if \<not> workstream_ok ws then Inl (facts_error ''request.workstream must be a stable slug'')
     else bindE (require_str (jget raw ''watch_class'') ''request.watch_class'') (\<lambda>cls.
     if cls \<notin> set WATCH_CLASSES then Inl (facts_error (''request.watch_class is unknown: '' @ cls))
     else bindE (bounded_str raw ''branch'' ''request.branch'') (\<lambda>branch.
     if \<not> branch_ok branch then Inl (facts_error ''request.branch contains unsupported characters'')
     else bindE (bounded_str raw ''effect_target_id'' ''request.effect_target_id'') (\<lambda>target.
     if \<not> target_ok target then Inl (facts_error ''request.effect_target_id contains unsupported characters'')
     else if jget raw ''work_budget'' \<noteq> JInt 1 then Inl (facts_error ''request.work_budget must be 1'')
     else bindE (request_verification raw) (\<lambda>ver.
     bindE (optional_path raw ''lock_path'') (\<lambda>l.
     bindE (optional_path raw ''watch_state_path'') (\<lambda>s.
     bindE (optional_path raw ''ledger_path'') (\<lambda>g.
       Inr \<lparr>hr_repo = rep, hr_workstream = ws, hr_class = cls, hr_branch = branch, hr_target = target,
            hr_verification = ver, hr_lock = l, hr_state = s, hr_ledger = g\<rparr>)))))))))))"

section \<open>Effects\<close>

definition effect_content :: "reentry \<Rightarrow> string" where
  "effect_content r =
     join_with [NL] [''RESULT='' @ re_result r, ''COORDINATOR_DECISION='' @ re_decision r,
       ''NOTIFICATION_KEY='' @ re_key r, ''WATCH_CLASS='' @ re_class r,
       ''INTENT_REVISION='' @ int_text (re_revision r), ''SUBJECT='' @ ps_subject (re_state r)] @ [NL]"

definition owner_notice_effect :: "reentry \<Rightarrow> string \<Rightarrow> jobj" where
  "owner_notice_effect r branch =
     [(''branch'', JStr branch), (''coordinator_decision'', JStr (re_decision r)),
      (''intent_revision'', JInt (re_revision r)), (''kind'', JStr ''owner_notice''), (''level'', JStr ''INFO''),
      (''notification_key'', JStr (re_key r)), (''subject_head'', JStr (ps_subject (re_state r))),
      (''subject_version'', JStr (ps_subject (re_state r))), (''target_repo'', JStr (re_repository r)),
      (''watch_class'', JStr (re_class r)), (''watch_result'', JStr (re_result r)), (''workstream'', JStr (re_workstream r))]"

section \<open>Reconciliation\<close>

record snapshot =
  sn_repository :: string
  sn_workstream :: string
  sn_revision :: int
  sn_status :: string
  sn_branch :: string
  sn_git_head :: string
  sn_pr_head :: string
  sn_ci_head :: string
  sn_resource :: string
  sn_admission :: string
  sn_ambiguous :: bool
  sn_progress :: bool
  sn_starting :: "int option"

definition snapshot_of :: "facts \<Rightarrow> string \<Rightarrow> snapshot" where
  "snapshot_of f branch =
     \<lparr>sn_repository = pk_repository (packet f), sn_workstream = pk_workstream (packet f),
      sn_revision = pk_intent_revision (packet f), sn_status = pk_status (packet f), sn_branch = branch,
      sn_git_head = gt_head (git f), sn_pr_head = pr_head (pr f), sn_ci_head = ci_subject_head f,
      sn_resource = resource_result f, sn_admission = admission_decision f, sn_ambiguous = mutation_ambiguous f,
      sn_progress = wk_progress_evidence (worker f), sn_starting = wk_starting_intent_revision (worker f)\<rparr>"

definition same_identity :: "snapshot \<Rightarrow> snapshot \<Rightarrow> bool" where
  "same_identity a b =
     (sn_repository a = sn_repository b \<and> sn_workstream a = sn_workstream b \<and> sn_revision a = sn_revision b \<and>
      sn_status a = sn_status b \<and> sn_branch a = sn_branch b \<and> sn_git_head a = sn_git_head b \<and>
      sn_pr_head a = sn_pr_head b \<and> sn_ci_head a = sn_ci_head b \<and> sn_progress a = sn_progress b \<and>
      sn_starting a = sn_starting b)"

definition host_reconcile :: "snapshot \<Rightarrow> snapshot \<Rightarrow> string \<Rightarrow> string option" where
  "host_reconcile collected authoritative watch_result =
     (if sn_ambiguous authoritative then Some ''RECONCILE_AMBIGUOUS''
      else if \<not> same_identity collected authoritative then Some ''STALE_RECONCILE''
      else if sn_resource authoritative = ''BLOCK'' \<or> sn_admission authoritative = ''DENY'' then Some ''RESOURCE_BLOCKED''
      else if sn_resource collected \<noteq> sn_resource authoritative \<or> sn_admission collected \<noteq> sn_admission authoritative
      then Some ''STALE_RECONCILE''
      else if watch_result = ''RESUME_ADMITTED_WORKER'' \<and> \<not> sn_progress authoritative then Some ''STALE_RECONCILE''
      else None)"

section \<open>Results\<close>

record host_result =
  hs_result :: string
  hs_reason :: string
  hs_watch_result :: string
  hs_actions :: int
  hs_wakes :: int
  hs_resumes :: int
  hs_notifications :: int
  hs_level :: string
  hs_delivery :: string
  hs_lock :: string
  hs_next :: "string option"
  hs_mutates_github :: bool

text \<open>The checks of \<^verbatim>\<open>_base_result\<close>; the fields it sets to constants are printed by \<open>host_report\<close>.\<close>

definition base_result :: "host_result \<Rightarrow> facts_error + host_result" where
  "base_result r =
     (if hs_result r \<notin> set HOST_RESULTS
      then Inl (facts_error (''internal host result is unknown: '' @ hs_result r))
      else if hs_actions r \<notin> {0, 1} \<or> hs_wakes r + hs_resumes r + hs_notifications r \<noteq> hs_actions r
      then Inl (facts_error ''internal host action count is inconsistent'')
      else Inr r)"

text \<open>A result with the defaults of the keyword arguments.\<close>

definition quiet :: "string \<Rightarrow> string \<Rightarrow> string \<Rightarrow> string \<Rightarrow> string option \<Rightarrow> host_result" where
  "quiet result reason watch delivery nxt =
     \<lparr>hs_result = result, hs_reason = reason, hs_watch_result = watch, hs_actions = 0, hs_wakes = 0, hs_resumes = 0,
      hs_notifications = 0, hs_level = ''NONE'', hs_delivery = delivery, hs_lock = ''ACQUIRED'', hs_next = nxt,
      hs_mutates_github = False\<rparr>"

section \<open>The world\<close>

text \<open>One of the four files of a watch directory.\<close>

datatype doc = Missing | Symlink | NotFile | Unreadable | Doc json

record watch_dir =
  wd_lock :: doc
  wd_state :: doc
  wd_ledger :: doc
  wd_journal :: doc

text \<open>
  One \<^verbatim>\<open>_write_json\<close>: the process dies before the rename, an \<^verbatim>\<open>OSError\<close> before the rename, a short write
  of the temporary file that is renamed all the same, a write whose later \<^verbatim>\<open>fsync\<close> fails, a write.
\<close>

datatype write_outcome = WriteDies | WriteFails | WriteShort | WriteNoSync | WriteWorks

text \<open>
  One call on the replay directory: whether the process dies before it, the directory as other
  processes left it (\<open>None\<close> for unchanged), what the call had seen, its system calls.
\<close>

record store_step =
  ss_dies :: bool
  ss_dir :: "replay_dir option"
  ss_seen :: "replay_dir option"
  ss_calls :: syscalls
  ss_read_calls :: syscalls

definition all_good :: syscalls where
  "all_good = \<lparr>sc_ready = True, sc_open_error = None, sc_read_ok = True, sc_truncate_ok = True, sc_write = Some 4096,
     sc_sync_ok = True\<rparr>"

definition good_step :: store_step where
  "good_step = \<lparr>ss_dies = False, ss_dir = None, ss_seen = None, ss_calls = all_good, ss_read_calls = all_good\<rparr>"

record world =
  wo_dirs :: "string \<Rightarrow> watch_dir"
  wo_replay :: replay_dir
  wo_sent :: "(string \<times> delivery) list"
  wo_writes :: "write_outcome list"
  wo_stores :: "store_step list"
  wo_replies :: "reply option list"

datatype host_stop = Rejected facts_error | Escaped | Killed

type_synonym 'a outcome = "(host_stop + 'a) \<times> world"

definition reject :: "facts_error + 'a \<Rightarrow> host_stop + 'a" where
  "reject m = map_err Rejected m"

definition next_or :: "'a \<Rightarrow> 'a list \<Rightarrow> 'a \<times> 'a list" where
  "next_or d xs = (case xs of [] \<Rightarrow> (d, []) | x # rest \<Rightarrow> (x, rest))"

definition set_dir :: "string \<Rightarrow> (watch_dir \<Rightarrow> watch_dir) \<Rightarrow> world \<Rightarrow> world" where
  "set_dir k f w = w\<lparr>wo_dirs := (wo_dirs w)(k := f (wo_dirs w k))\<rparr>"

text \<open>\<open>write_json field k name payload\<close>: \<open>True\<close> when the written file is also synced if the caller asks.\<close>

definition write_json ::
    "((doc \<Rightarrow> doc) \<Rightarrow> watch_dir \<Rightarrow> watch_dir) \<Rightarrow> (watch_dir \<Rightarrow> doc) \<Rightarrow> string \<Rightarrow> string \<Rightarrow> json \<Rightarrow> world \<Rightarrow> bool outcome" where
  "write_json put field k name payload w =
     (if field (wo_dirs w k) = Symlink then (Inl (Rejected (facts_error ''refusing to write through a symlink'')), w)
      else case reject_value name payload of
        Inl e \<Rightarrow> (Inl (Rejected e), w)
      | Inr _ \<Rightarrow>
          (let (x, rest) = next_or WriteWorks (wo_writes w); w1 = w\<lparr>wo_writes := rest\<rparr>
           in (case x of
                 WriteDies \<Rightarrow> (Inl Killed, w1)
               | WriteFails \<Rightarrow> (Inl (Rejected (facts_error ''host state write failed closed'')), w1)
               | WriteShort \<Rightarrow> (Inr True, set_dir k (put (\<lambda>_. Unreadable)) w1)
               | WriteNoSync \<Rightarrow> (Inr False, set_dir k (put (\<lambda>_. Doc payload)) w1)
               | WriteWorks \<Rightarrow> (Inr True, set_dir k (put (\<lambda>_. Doc payload)) w1))))"

definition read_object :: "string \<Rightarrow> string \<Rightarrow> doc \<Rightarrow> facts_error + jobj" where
  "read_object label name d =
     (case d of
        Doc v \<Rightarrow> bindE (require_mapping v label) (\<lambda>data. bindE (reject_value label (JObj data)) (\<lambda>_. Inr data))
      | Unreadable \<Rightarrow> Inl (facts_error (label @ '' is unreadable''))
      | _ \<Rightarrow> Inl (facts_error (label @ '' is missing: '' @ name)))"

definition load_watch_state :: "doc \<Rightarrow> facts_error + jobj" where
  "load_watch_state d = (if d = Missing then Inr [] else read_object ''watch_state'' ''watch-state.json'' d)"

definition persist_watch :: "string \<Rightarrow> reentry \<Rightarrow> world \<Rightarrow> unit outcome" where
  "persist_watch k r w =
     bindS (write_json wd_state_update wd_state k ''watch-state.json'' (persisted_json (re_state r)) w) (\<lambda>_ w. (Inr (), w))"

section \<open>Ledger\<close>

record ledger_entry =
  le_key :: string
  le_outcome :: string
  le_result :: string

definition parse_ledger_entry :: "nat \<Rightarrow> json \<Rightarrow> facts_error + ledger_entry" where
  "parse_ledger_entry i item =
     (let label = ''ledger.applied['' @ nat_text i @ '']''
      in bindE (require_mapping item label) (\<lambda>data.
         bindE (reject_unknown data [''key'', ''outcome'', ''result''] label) (\<lambda>_.
         bindE (bounded_str data ''key'' ''ledger key'') (\<lambda>key.
         bindE (bounded_str data ''outcome'' ''ledger outcome'') (\<lambda>outcome.
         bindE (bounded_str data ''result'' ''ledger result'') (\<lambda>result.
           Inr \<lparr>le_key = key, le_outcome = outcome, le_result = result\<rparr>))))))"

fun parse_ledger :: "nat \<Rightarrow> json list \<Rightarrow> facts_error + ledger_entry list" where
  "parse_ledger i [] = Inr []"
| "parse_ledger i (x # xs) =
     bindE (parse_ledger_entry i x) (\<lambda>e. bindE (parse_ledger (Suc i) xs) (\<lambda>es. Inr (e # es)))"

definition ledger_entries :: "doc \<Rightarrow> facts_error + ledger_entry list" where
  "ledger_entries d =
     (if d = Missing then Inr []
      else bindE (read_object ''ledger'' ''ledger.json'' d) (\<lambda>raw.
           bindE (reject_unknown raw [''schema_version'', ''applied''] ''ledger'') (\<lambda>_.
           if \<not> eq_int (jget raw ''schema_version'') 1 then Inl (facts_error ''ledger.schema_version must be 1'')
           else (case jget_or raw ''applied'' (JList []) of
                   JList xs \<Rightarrow>
                     if MAX_LEDGER_ENTRIES < length xs
                     then Inl (facts_error ''ledger exceeds the bounded action history'')
                     else parse_ledger 0 xs
                 | _ \<Rightarrow> Inl (facts_error ''ledger.applied must be a JSON array'')))))"

definition ledger_json :: "ledger_entry list \<Rightarrow> json" where
  "ledger_json es = JObj [(''schema_version'', JInt 1), (''applied'', JList (map (\<lambda>e.
     JObj [(''key'', JStr (le_key e)), (''outcome'', JStr (le_outcome e)), (''result'', JStr (le_result e))]) es))]"

definition persist_ledger :: "string \<Rightarrow> ledger_entry list \<Rightarrow> world \<Rightarrow> unit outcome" where
  "persist_ledger k es w =
     (if MAX_LEDGER_ENTRIES < length es
      then (Inl (Rejected (facts_error ''ledger exceeds the bounded action history'')), w)
      else bindS (write_json wd_ledger_update wd_ledger k ''ledger.json'' (ledger_json es) w) (\<lambda>_ w. (Inr (), w)))"

section \<open>Journal\<close>

record journal =
  jn_phase :: string
  jn_effect :: string
  jn_dispatch :: string
  jn_receipt :: string
  jn_kind :: string
  jn_attempt :: string

definition load_journal :: "(rat \<Rightarrow> string) \<Rightarrow> doc \<Rightarrow> facts_error + journal option" where
  "load_journal fl d =
     (if d = Missing then Inr None
      else bindE (read_object ''effect_journal'' ''effect-journal.json'' d) (\<lambda>raw.
           bindE (reject_unknown raw [''schema_version'', ''phase'', ''effect_sha256'', ''dispatch_id'', ''receipt'',
                    ''kind'', ''attempt_id''] ''effect_journal'') (\<lambda>_.
           if \<not> eq_int (jget raw ''schema_version'') 1
           then Inl (facts_error ''effect journal schema_version must be 1'')
           else bindE (require_str (jget raw ''phase'') ''effect_journal.phase'') (\<lambda>phase.
           if phase \<notin> set JOURNAL_PHASES then Inl (facts_error ''effect journal phase is unknown'')
           else bindE (require_str (jget raw ''effect_sha256'') ''effect_journal.effect_sha256'') (\<lambda>effect.
                bindE (require_str (jget raw ''dispatch_id'') ''effect_journal.dispatch_id'') (\<lambda>dispatch.
                bindE (require_str (jget raw ''kind'') ''effect_journal.kind'') (\<lambda>kind.
                bindE (require_str (jget raw ''attempt_id'') ''effect_journal.attempt_id'') (\<lambda>attempt.
                  Inr (Some \<lparr>jn_phase = phase, jn_effect = effect, jn_dispatch = dispatch,
                             jn_receipt = or_empty fl raw ''receipt'', jn_kind = kind, jn_attempt = attempt\<rparr>)))))))))"

definition journal_json :: "journal \<Rightarrow> json" where
  "journal_json j = JObj [(''schema_version'', JInt 1), (''phase'', JStr (jn_phase j)),
     (''effect_sha256'', JStr (jn_effect j)), (''dispatch_id'', JStr (jn_dispatch j)),
     (''receipt'', JStr (jn_receipt j)), (''kind'', JStr (jn_kind j)), (''attempt_id'', JStr (jn_attempt j))]"

text \<open>The \<^verbatim>\<open>fsync\<close> after the write is not guarded.\<close>

definition commit_journal :: "string \<Rightarrow> journal \<Rightarrow> world \<Rightarrow> unit outcome" where
  "commit_journal k j w =
     bindS (write_json wd_journal_update wd_journal k ''effect-journal.json'' (journal_json j) w) (\<lambda>synced w.
       (if synced then Inr () else Inl Escaped, w))"

section \<open>The replay directory\<close>

definition enter_store :: "(store_step \<Rightarrow> world \<Rightarrow> 'a outcome) \<Rightarrow> world \<Rightarrow> 'a outcome" where
  "enter_store call w =
     (let (x, rest) = next_or good_step (wo_stores w);
          w1 = w\<lparr>wo_stores := rest, wo_replay := (case ss_dir x of Some d \<Rightarrow> d | None \<Rightarrow> wo_replay w)\<rparr>
      in if ss_dies x then (Inl Killed, w1) else call x w1)"

definition host_reserve ::
    "(rat \<Rightarrow> string) \<Rightarrow> text_io \<Rightarrow> string \<Rightarrow> string \<Rightarrow> string \<Rightarrow> world \<Rightarrow> string outcome" where
  "host_reserve fl io i effect attempt =
     enter_store (\<lambda>x w.
       let (r, dir) = reserve_dispatch fl io (ss_calls x) (ss_read_calls x) i effect attempt
                        (case ss_seen x of Some d \<Rightarrow> d | None \<Rightarrow> wo_replay w) (wo_replay w)
       in (case r of Answer a \<Rightarrow> Inr a | Raised \<Rightarrow> Inl Escaped, w\<lparr>wo_replay := dir\<rparr>))"

definition host_finalize ::
    "(rat \<Rightarrow> string) \<Rightarrow> text_io \<Rightarrow> string \<Rightarrow> string \<Rightarrow> string \<Rightarrow> world \<Rightarrow> string outcome" where
  "host_finalize fl io i effect attempt =
     enter_store (\<lambda>x w.
       let (a, dir) = finalize_dispatch fl io (ss_calls x) i effect attempt (wo_replay w)
       in (Inr a, w\<lparr>wo_replay := dir\<rparr>))"

text \<open>The send; \<open>None\<close> for a process that dies before it.\<close>

definition host_send :: "(rat \<Rightarrow> string) \<Rightarrow> delivery_host \<Rightarrow> string \<Rightarrow> string \<Rightarrow> jobj \<Rightarrow> world \<Rightarrow> execution outcome" where
  "host_send fl x k kind effect w =
     (let (rpl, rest) = next_or (Some NoReply) (wo_replies w); w1 = w\<lparr>wo_replies := rest\<rparr>
      in (case rpl of
            None \<Rightarrow> (Inl Killed, w1)
          | Some y \<Rightarrow>
              (let (r, out) = send_effect fl x kind effect y;
                   w2 = (case out of None \<Rightarrow> w1 | Some d \<Rightarrow> w1\<lparr>wo_sent := wo_sent w1 @ [(k, d)]\<rparr>)
               in (map_err (\<lambda>_. Escaped) r, w2))))"

section \<open>Execution of an authorized effect\<close>

definition signed_dispatch_id :: "(rat \<Rightarrow> string) \<Rightarrow> host \<Rightarrow> (string \<times> string) option \<Rightarrow> facts_error + string" where
  "signed_dispatch_id fl h verification =
     (case (trust_anchor h, verification) of
        (Some anchor, Some (binding, dispatch)) \<Rightarrow>
          (case verify_signed_json fl h dispatch anchor of
             Inl _ \<Rightarrow> Inl (facts_error ''trusted dispatch signature verification failed'')
           | Inr payload \<Rightarrow>
               (case jget payload ''dispatch_id'' of
                  JStr i \<Rightarrow> if py_strip i = [] then Inl (facts_error ''trusted dispatch id is missing'') else Inr (py_strip i)
                | _ \<Rightarrow> Inl (facts_error ''trusted dispatch id is missing'')))
      | _ \<Rightarrow> Inl (facts_error ''trusted verification boundary is unavailable''))"

definition delivered_result :: "reentry \<Rightarrow> string \<Rightarrow> host_result" where
  "delivered_result r receipt =
     (let name = re_result r; notice = (name = ''NOTIFY_OWNER'');
          n = (\<lambda>b. if b then 1 else 0 :: int)
      in \<lparr>hs_result = ''DELIVERED'',
          hs_reason = (if notice then ''telegram delivery receipt is durable for one INFO owner notice''
                       else ''github delivery receipt '' @ receipt @ '' is durable for the typed action''),
          hs_watch_result = name, hs_actions = 1, hs_wakes = n (name = ''WAKE_COORDINATOR''),
          hs_resumes = n (name = ''RESUME_ADMITTED_WORKER''), hs_notifications = n notice,
          hs_level = (if notice then ''INFO'' else ''NONE''), hs_delivery = (if notice then ''VERIFIED'' else ''NONE''),
          hs_lock = ''ACQUIRED'', hs_next = re_next r, hs_mutates_github = (map_of WRITE_ACTIONS name \<noteq> None)\<rparr>)"

definition record_applied ::
    "string \<Rightarrow> reentry \<Rightarrow> ledger_entry list \<Rightarrow> string \<Rightarrow> world \<Rightarrow> host_result outcome" where
  "record_applied k r es receipt w =
     bindS (if \<exists>e \<in> set es. le_key e = re_key r \<and> le_outcome e = ''APPLIED'' then (Inr (), w)
            else persist_ledger k (es @ [\<lparr>le_key = re_key r, le_outcome = ''APPLIED'', le_result = re_result r\<rparr>]) w) (\<lambda>_ w.
     bindS (persist_watch k r w) (\<lambda>_ w.
       (reject (base_result (delivered_result r receipt)), w)))"

definition answer_with :: "string \<Rightarrow> string \<Rightarrow> string \<Rightarrow> reentry \<Rightarrow> world \<Rightarrow> host_result outcome" where
  "answer_with result reason delivery r w = (reject (base_result (quiet result reason (re_result r) delivery (re_next r))), w)"

definition send_boundary :: "delivery_host \<Rightarrow> string \<Rightarrow> string option" where
  "send_boundary x name =
     (if name = ''NOTIFY_OWNER'' \<and> \<not> telegram_configured x
      then Some ''telegram delivery boundary is unavailable; authorization is not delivery''
      else if map_of WRITE_ACTIONS name \<noteq> None \<and> \<not> github_configured x
      then Some ''github delivery boundary is unavailable; authorization is not delivery''
      else None)"

definition finish_receipt ::
    "(rat \<Rightarrow> string) \<Rightarrow> text_io \<Rightarrow> string \<Rightarrow> reentry \<Rightarrow> ledger_entry list \<Rightarrow> string \<Rightarrow> string \<Rightarrow> string \<Rightarrow> string \<Rightarrow> world \<Rightarrow>
     host_result outcome" where
  "finish_receipt fl io k r es i digest attempt receipt w =
     bindS (host_finalize fl io i digest attempt w) (\<lambda>finalized w.
       if finalized \<noteq> ''ok''
       then answer_with ''RECONCILE_AMBIGUOUS'' ''delivery receipt is durable but dispatch finalization is not confirmed''
              ''NONE'' r w
       else record_applied k r es receipt w)"

text \<open>After the journal says \<open>SENDING\<close>.\<close>

definition send_once ::
    "(rat \<Rightarrow> string) \<Rightarrow> text_io \<Rightarrow> delivery_host \<Rightarrow> string \<Rightarrow> reentry \<Rightarrow> ledger_entry list \<Rightarrow> jobj \<Rightarrow> journal \<Rightarrow> world \<Rightarrow>
     host_result outcome" where
  "send_once fl io x k r es effect base w =
     bindS (host_send fl x k (re_result r) effect w) (\<lambda>e w.
       if xc_outcome e \<noteq> ''SUCCEEDED'' \<or> xc_receipt e = []
       then bindS (commit_journal k (base\<lparr>jn_phase := ''AMBIGUOUS''\<rparr>) w) (\<lambda>_ w.
            bindS (persist_ledger k (es @ [\<lparr>le_key = re_key r, le_outcome = ''AMBIGUOUS'', le_result = re_result r\<rparr>]) w) (\<lambda>_ w.
              answer_with ''RECONCILE_AMBIGUOUS''
                ''effect send did not return a verifiable receipt; reconcile before any retry'' ''NONE'' r w))
       else if re_result r = ''NOTIFY_OWNER'' \<and> xc_level e \<noteq> ''INFO''
       then bindS (commit_journal k (base\<lparr>jn_phase := ''AMBIGUOUS''\<rparr>) w) (\<lambda>_ w.
              answer_with ''RECONCILE_AMBIGUOUS'' ''owner notice receipt was not INFO'' ''NONE'' r w)
       else bindS (commit_journal k (base\<lparr>jn_phase := ''RECEIPT'', jn_receipt := xc_receipt e\<rparr>) w) (\<lambda>_ w.
              finish_receipt fl io k r es (jn_dispatch base) (jn_effect base) (jn_attempt base) (xc_receipt e) w))"

definition reserve_and_send ::
    "(rat \<Rightarrow> string) \<Rightarrow> text_io \<Rightarrow> delivery_host \<Rightarrow> string \<Rightarrow> reentry \<Rightarrow> ledger_entry list \<Rightarrow> jobj \<Rightarrow> journal \<Rightarrow> world \<Rightarrow>
     host_result outcome" where
  "reserve_and_send fl io x k r es effect base w =
     bindS (host_reserve fl io (jn_dispatch base) (jn_effect base) (jn_attempt base) w) (\<lambda>reserved w.
       if reserved = ''conflict''
       then answer_with ''AUTHORITY_DENIED'' ''dispatch is reserved or consumed by another effect owner'' ''DENIED'' r w
       else if reserved = ''unavailable''
       then answer_with ''AUTHORITY_DENIED'' ''dispatch reservation boundary is unavailable'' ''DENIED'' r w
       else if reserved = ''owned_consumed''
       then answer_with ''RECONCILE_AMBIGUOUS'' ''dispatch is consumed without a durable receipt for this attempt'' ''NONE'' r w
       else bindS (commit_journal k (base\<lparr>jn_phase := ''SENDING''\<rparr>) w) (\<lambda>_ w.
              send_once fl io x k r es effect base w))"

definition execute_authorized ::
    "(rat \<Rightarrow> string) \<Rightarrow> text_io \<Rightarrow> host \<Rightarrow> delivery_host \<Rightarrow> string \<Rightarrow> string \<Rightarrow> (string \<times> string) option \<Rightarrow> reentry \<Rightarrow>
     ledger_entry list \<Rightarrow> jobj \<Rightarrow> world \<Rightarrow> host_result outcome" where
  "execute_authorized fl io h x new_attempt k verification r es effect w =
     (let digest = canonical_request_sha256 fl effect; name = re_result r
      in withE (reject (signed_dispatch_id fl h verification)) w (\<lambda>i.
         withE (reject (load_journal fl (wd_journal (wo_dirs w k)))) w (\<lambda>found.
         case found of
           Some j \<Rightarrow>
             if jn_phase j \<in> {''SENDING'', ''AMBIGUOUS''}
             then answer_with ''RECONCILE_AMBIGUOUS'' ''effect send outcome is ambiguous; reconcile before any retry'' ''NONE'' r w
             else if jn_effect j \<noteq> digest
             then bindS (commit_journal k (j\<lparr>jn_phase := ''AMBIGUOUS'', jn_receipt := [], jn_kind := name\<rparr>) w) (\<lambda>_ w.
                    answer_with ''RECONCILE_AMBIGUOUS'' ''durable effect intent does not match this effect'' ''NONE'' r w)
             else if jn_phase j = ''RECEIPT''
             then finish_receipt fl io k r es i digest (jn_attempt j) (jn_receipt j) w
             else (case send_boundary x name of
                     Some reason \<Rightarrow> answer_with ''AUTHORITY_DENIED'' reason ''DENIED'' r w
                   | None \<Rightarrow>
                       reserve_and_send fl io x k r es effect
                         \<lparr>jn_phase = [], jn_effect = digest, jn_dispatch = i, jn_receipt = [], jn_kind = name,
                          jn_attempt = jn_attempt j\<rparr> w)
         | None \<Rightarrow>
             (case send_boundary x name of
                Some reason \<Rightarrow> answer_with ''AUTHORITY_DENIED'' reason ''DENIED'' r w
              | None \<Rightarrow>
                  (let base = \<lparr>jn_phase = [], jn_effect = digest, jn_dispatch = i, jn_receipt = [], jn_kind = name,
                               jn_attempt = new_attempt\<rparr>
                   in bindS (commit_journal k (base\<lparr>jn_phase := ''INTENT''\<rparr>) w) (\<lambda>_ w.
                        reserve_and_send fl io x k r es effect base w))))))"

section \<open>Typed actions\<close>

definition write_request ::
    "facts \<Rightarrow> string \<Rightarrow> string \<Rightarrow> string \<Rightarrow> string \<Rightarrow> (string \<times> string) option \<Rightarrow> reentry \<Rightarrow> jobj" where
  "write_request f subject action branch target verification r =
     (let pk = packet f;
          bound = [(''target_repo'', JStr (pk_repository pk)), (''workstream'', JStr (pk_workstream pk)),
            (''intent_revision'', JInt (pk_intent_revision pk)), (''subject_head'', JStr subject),
            (''requested_action'', JStr action), (''branch'', JStr branch), (''expected_status'', JStr (pk_status pk))];
          auth = [(''target_repo'', JStr (pk_repository pk)), (''workstream'', JStr (pk_workstream pk)),
            (''intent_revision'', JInt (pk_intent_revision pk)), (''status'', JStr (pk_status pk)),
            (''subject_head'', JStr subject), (''branch'', JStr branch)]
      in [(''bound_request'', JObj bound), (''authoritative'', JObj auth),
          (''proposed_mutation'', JObj [(''target'', JObj [(''kind'', JStr ''issue''), (''id'', JStr target)]),
             (''content'', JStr (effect_content r))]),
          (''resource'', JObj [(''result'', JStr (resource_result f))]),
          (''admission'', JObj ((''decision'', JStr (admission_decision f)) #
             (case admission_deny_class f of Some c \<Rightarrow> if c = [] then [] else [(''deny_class'', JStr c)] | None \<Rightarrow> []))),
          (''mutation'', JObj [(''outcome'', JStr ''NOT_SENT'')]), (''failure'', JObj [(''class'', JStr ''NONE'')])] @
         (case verification of None \<Rightarrow> []
          | Some (b, d) \<Rightarrow> [(''verification'', JObj [(''binding_assertion'', JStr b), (''dispatch_assertion'', JStr d)])]))"

definition write_effect :: "facts \<Rightarrow> string \<Rightarrow> string \<Rightarrow> string \<Rightarrow> string \<Rightarrow> reentry \<Rightarrow> jobj" where
  "write_effect f subject action branch target r =
     concrete_effect
       \<lparr>bq_repo = pk_repository (packet f), bq_workstream = pk_workstream (packet f),
        bq_revision = pk_intent_revision (packet f), bq_head = subject, bq_action = action, bq_branch = branch,
        bq_status = pk_status (packet f)\<rparr>
       \<lparr>pm_kind = ''issue'', pm_id = target, pm_content = effect_content r\<rparr>"

text \<open>The effect as the module offers it to its callers.\<close>

definition external_effect ::
    "reentry \<Rightarrow> string \<Rightarrow> string \<Rightarrow> int \<Rightarrow> string \<Rightarrow> string \<Rightarrow> string \<Rightarrow> string \<Rightarrow> facts_error + jobj" where
  "external_effect r rep ws revision head status branch target =
     (case map_of WRITE_ACTIONS (re_result r) of
        None \<Rightarrow> Inl (facts_error ''watch result has no external write action'')
      | Some action \<Rightarrow> Inr (concrete_effect
          \<lparr>bq_repo = rep, bq_workstream = ws, bq_revision = revision, bq_head = head, bq_action = action, bq_branch = branch,
           bq_status = status\<rparr>
          \<lparr>pm_kind = ''issue'', pm_id = target, pm_content = effect_content r\<rparr>))"

text \<open>What \<^verbatim>\<open>_deliver_write\<close> answers: result, reason, whether it authorizes, and the effect.\<close>

definition deliver_write ::
    "(rat \<Rightarrow> string) \<Rightarrow> host \<Rightarrow> host_request \<Rightarrow> facts \<Rightarrow> reentry \<Rightarrow> string \<Rightarrow> replay_dir \<Rightarrow>
     worker_error + (string \<times> string \<times> bool) \<times> jobj option" where
  "deliver_write fl h q f r branch dir =
     (let subject = subject_version f;
          action = (case map_of WRITE_ACTIONS (re_result r) of Some a \<Rightarrow> a | None \<Rightarrow> [])
      in if \<not> full_sha subject
         then Inr ((''AUTHORITY_DENIED'', ''typed action subject is not an exact Git head'', False), None)
         else bindE (fst (worker_evaluate fl h all_good
                  (JObj (write_request f subject action branch (hr_target q) (hr_verification q) r)) False dir dir)) (\<lambda>c.
                Inr ((cf_result c, cf_reason c, cf_authorizes_write c),
                     Some (write_effect f subject action branch (hr_target q) r))))"

definition finish_notice ::
    "(rat \<Rightarrow> string) \<Rightarrow> text_io \<Rightarrow> host \<Rightarrow> delivery_host \<Rightarrow> string \<Rightarrow> string \<Rightarrow> host_request \<Rightarrow> reentry \<Rightarrow> string \<Rightarrow>
     ledger_entry list \<Rightarrow> world \<Rightarrow> host_result outcome" where
  "finish_notice fl io h x new_attempt k q r branch es w =
     (case fst (authorize_concrete_effect fl h all_good (hr_verification q) (owner_notice_effect r (hr_branch q)) False
                  (wo_replay w) (wo_replay w)) of
        Inl _ \<Rightarrow> (Inl Escaped, w)
      | Inr gate \<Rightarrow>
          if gate = ''REPLAY''
          then bindS (persist_watch k r w) (\<lambda>_ w.
                 answer_with ''DEDUP'' ''trusted dispatch was already consumed for this owner notice'' ''DEDUP'' r w)
          else if gate \<noteq> ''ALLOW'' then answer_with ''AUTHORITY_DENIED'' gate ''DENIED'' r w
          else execute_authorized fl io h x new_attempt k (hr_verification q) r es (owner_notice_effect r branch) w)"

definition finish_write ::
    "(rat \<Rightarrow> string) \<Rightarrow> text_io \<Rightarrow> host \<Rightarrow> delivery_host \<Rightarrow> string \<Rightarrow> string \<Rightarrow> host_request \<Rightarrow> reentry \<Rightarrow> facts \<Rightarrow> string \<Rightarrow>
     ledger_entry list \<Rightarrow> world \<Rightarrow> host_result outcome" where
  "finish_write fl io h x new_attempt k q r f branch es w =
     (case deliver_write fl h q f r branch (wo_replay w) of
        Inl (BadFacts (FactsError reason _)) \<Rightarrow> answer_with ''AUTHORITY_DENIED'' reason ''DENIED'' r w
      | Inl _ \<Rightarrow> (Inl Escaped, w)
      | Inr ((result, reason, authorizes), effect) \<Rightarrow>
          if result = ''APPLIED'' \<and> authorizes \<and> effect \<noteq> None
          then execute_authorized fl io h x new_attempt k (hr_verification q) r es (the effect) w
          else if result = ''APPLIED''
          then answer_with ''AUTHORITY_DENIED'' ''worker adapter authorization did not bind a concrete effect'' ''DENIED'' r w
          else if result = ''NO_CHANGE''
          then bindS (persist_watch k r w) (\<lambda>_ w.
                 answer_with ''DEDUP'' ''trusted dispatch was already consumed for this typed action'' ''NONE'' r w)
          else if result = ''STALE_WORKER''
          then answer_with ''STALE_RECONCILE'' ''authoritative packet no longer matches the typed action'' ''NONE'' r w
          else if result = ''RESOURCE_BLOCKED''
          then answer_with ''RESOURCE_BLOCKED''
                 ''resource or admission blocks the typed action and does not stop unrelated sessions'' ''NONE'' r w
          else if result \<in> {''RECONCILE_AMBIGUOUS'', ''TRANSIENT_RETRYABLE'', ''FAILED_SEMANTIC''}
          then bindS (persist_ledger k (es @ [\<lparr>le_key = re_key r, le_outcome = ''AMBIGUOUS'', le_result = re_result r\<rparr>]) w) (\<lambda>_ w.
                 answer_with ''RECONCILE_AMBIGUOUS'' ''typed action outcome is not retryable inside this run'' ''NONE'' r w)
          else answer_with ''AUTHORITY_DENIED'' (if reason = [] then ''trusted dispatch denied the typed action'' else reason)
                 ''DENIED'' r w)"

definition finish_typed ::
    "(rat \<Rightarrow> string) \<Rightarrow> text_io \<Rightarrow> host \<Rightarrow> delivery_host \<Rightarrow> string \<Rightarrow> string \<Rightarrow> host_request \<Rightarrow> reentry \<Rightarrow> facts \<Rightarrow> string \<Rightarrow>
     ledger_entry list \<Rightarrow> world \<Rightarrow> host_result outcome" where
  "finish_typed fl io h x new_attempt k q r f branch es w =
     (let prior = filter (\<lambda>e. le_key e = re_key r) es
      in if \<exists>e \<in> set prior. le_outcome e \<in> set HOST_AMBIGUOUS
         then answer_with ''RECONCILE_AMBIGUOUS'' ''prior typed action outcome is ambiguous; reconcile before any retry'' ''NONE'' r w
         else if \<exists>e \<in> set prior. le_outcome e = ''APPLIED''
         then bindS (persist_watch k r w) (\<lambda>_ w.
                answer_with ''DEDUP'' ''the same typed action was already applied'' ''NONE'' r w)
         else if hr_verification q = None
         then answer_with ''AUTHORITY_DENIED''
                ''trusted verification assertions are missing; caller-supplied permission or dispatch facts are not authority''
                ''NONE'' r w
         else if hr_branch q \<noteq> branch
         then answer_with ''STALE_RECONCILE'' ''requested branch does not match the authoritative branch'' ''NONE'' r w
         else if re_result r = ''NOTIFY_OWNER'' then finish_notice fl io h x new_attempt k q r branch es w
         else finish_write fl io h x new_attempt k q r f branch es w)"

section \<open>One pass\<close>

definition accept_facts :: "json \<Rightarrow> string \<Rightarrow> string \<Rightarrow> string \<Rightarrow> facts_error + jobj \<times> facts" where
  "accept_facts raw watch_class rep ws =
     bindE (require_mapping raw ''facts'') (\<lambda>data.
     bindE (reject_value ''facts'' (JObj data)) (\<lambda>_.
     bindE (require_mapping (jget data ''watch'') ''facts.watch'') (\<lambda>watch.
     if jget watch ''watch_class'' \<noteq> JStr watch_class
     then Inl (facts_error ''facts.watch.watch_class does not match the declared watch'')
     else bindE (normalize_facts (JObj (planner_payload data))) (\<lambda>f.
       if pk_repository (packet f) \<noteq> rep \<or> pk_workstream (packet f) \<noteq> ws
       then Inl (facts_error ''facts do not match the declared repository or workstream'')
       else Inr (data, f)))))"

text \<open>The state root; \<open>resolved\<close> is its real path when that is a directory and no link.\<close>

definition host_directory_provenance_ok :: "dir_stat option \<Rightarrow> bool" where
  "host_directory_provenance_ok st =
     (case st of
        None \<Rightarrow> False
      | Some p \<Rightarrow> \<not> dt_symlink p \<and> dt_is_dir p \<and> dt_uid p = 0 \<and> \<not> shared_write (dt_mode p) \<and>
          \<not> dt_parent_symlink p \<and> dt_parent_uid p = 0 \<and> \<not> shared_write (dt_parent_mode p))"

definition resolve_host_state_root :: "dir_stat option \<Rightarrow> string option \<Rightarrow> string option" where
  "resolve_host_state_root st resolved = (if host_directory_provenance_ok st then resolved else None)"

datatype dir_state = DirFails | DirNotReal | DirReal

datatype lock_outcome = LockTaken | LockHeld | LockFails | LockEscapes

record pass =
  pa_request :: json
  pa_root :: "dir_stat option"
  pa_resolved :: "string option"
  pa_first :: collect_host
  pa_second :: collect_host
  pa_mkdir :: dir_state
  pa_lock :: lock_outcome
  pa_attempt :: string
  pa_host :: host
  pa_delivery :: delivery_host

definition host_collect :: "(rat \<Rightarrow> string) \<Rightarrow> collect_host \<Rightarrow> host_request \<Rightarrow> host_stop + jobj \<times> facts \<times> string" where
  "host_collect fl c q =
     (case collect_authoritative fl c (hr_repo q) (hr_workstream q) (hr_target q) (hr_class q) of
        Inl CollectCrash \<Rightarrow> Inl Escaped
      | Inl (CollectError reason) \<Rightarrow> Inl (Rejected (facts_error reason))
      | Inr (raw, branch) \<Rightarrow>
          reject (bindE (accept_facts (JObj raw) (hr_class q) (hr_repo q) (hr_workstream q)) (\<lambda>(data, f). Inr (data, f, branch))))"

definition canonical_watch_dir :: "host_request \<Rightarrow> facts \<Rightarrow> string" where
  "canonical_watch_dir q f =
     take 32 (hex_sha256 (join_with ''|'' [hr_repo q, hr_workstream q, int_text (pk_intent_revision (packet f)), hr_class q,
       subject_version f]))"

definition supplied_ok :: "string \<Rightarrow> string \<Rightarrow> string \<Rightarrow> string option \<Rightarrow> string \<Rightarrow> facts_error + unit" where
  "supplied_ok state_root k key supplied name =
     (case supplied of
        None \<Rightarrow> Inr ()
      | Some p \<Rightarrow>
          if posix_normpath p \<noteq> state_root @ ''/'' @ k @ ''/'' @ name
          then Inl (facts_error (''request.'' @ key @ '' does not match the canonical watch identity'')) else Inr ())"

definition confine_file :: "string \<Rightarrow> doc \<Rightarrow> facts_error + unit" where
  "confine_file key d =
     (if d = Symlink then Inl (facts_error (''request.'' @ key @ '' must not be a symlink''))
      else if d = NotFile then Inl (facts_error (''request.'' @ key @ '' must be a regular file'')) else Inr ())"

definition bind_canonical :: "pass \<Rightarrow> string \<Rightarrow> host_request \<Rightarrow> string \<Rightarrow> watch_dir \<Rightarrow> facts_error + unit" where
  "bind_canonical p state_root q k d =
     (case pa_mkdir p of
        DirFails \<Rightarrow> Inl (facts_error ''canonical watch directory cannot be created'')
      | DirNotReal \<Rightarrow> Inl (facts_error ''canonical watch directory is not a real directory'')
      | DirReal \<Rightarrow>
          bindE (supplied_ok state_root k ''lock_path'' (hr_lock q) ''lock'') (\<lambda>_.
          bindE (supplied_ok state_root k ''watch_state_path'' (hr_state q) ''watch-state.json'') (\<lambda>_.
          bindE (supplied_ok state_root k ''ledger_path'' (hr_ledger q) ''ledger.json'') (\<lambda>_.
          bindE (confine_file ''lock_path'' (wd_lock d)) (\<lambda>_.
          bindE (confine_file ''watch_state_path'' (wd_state d)) (\<lambda>_.
          bindE (confine_file ''ledger_path'' (wd_ledger d)) (\<lambda>_.
            confine_file ''journal_path'' (wd_journal d))))))))"

text \<open>The part under the lock.\<close>

definition locked_pass ::
    "(rat \<Rightarrow> string) \<Rightarrow> text_io \<Rightarrow> iso \<Rightarrow> pass \<Rightarrow> host_request \<Rightarrow> string \<Rightarrow> jobj \<Rightarrow> facts \<Rightarrow> string \<Rightarrow> world \<Rightarrow>
     host_result outcome" where
  "locked_pass fl io t p q k raw f branch w =
     withE (reject (load_watch_state (wd_state (wo_dirs w k)))) w (\<lambda>state.
     withE (reject (watch_evaluate fl t (JObj raw) (JObj state))) w (\<lambda>r.
     if re_result r \<notin> set TYPED_RESULTS
     then bindS (persist_watch k r w) (\<lambda>_ w.
            if re_result r = ''BLOCK_RECONCILIATION''
            then answer_with ''RECONCILE_AMBIGUOUS'' ''watch reconciliation blocked the action and authorized no retry'' ''NONE'' r w
            else answer_with ''NO_ACTION'' ''watch result requires no typed external action'' ''NONE'' r w)
     else if hr_branch q \<noteq> branch
     then answer_with ''STALE_RECONCILE'' ''requested branch does not match the authoritative branch'' ''NONE'' r w
     else withE (host_collect fl (pa_second p) q) w (\<lambda>(_, g, branch2).
       case host_reconcile (snapshot_of f branch) (snapshot_of g branch2) (re_result r) of
         Some blocked \<Rightarrow>
           answer_with blocked
             (if blocked = ''STALE_RECONCILE'' then ''authoritative packet or subject changed before the typed action''
              else if blocked = ''RESOURCE_BLOCKED'' then ''resource or admission became blocked before the typed action''
              else ''authoritative mutation state is ambiguous; no typed action is retried'') ''NONE'' r w
       | None \<Rightarrow>
           withE (reject (ledger_entries (wd_ledger (wo_dirs w k)))) w (\<lambda>es.
             finish_typed fl io (pa_host p) (pa_delivery p) (pa_attempt p) k q r g branch2 es w))))"

definition run_once :: "(rat \<Rightarrow> string) \<Rightarrow> text_io \<Rightarrow> iso \<Rightarrow> pass \<Rightarrow> world \<Rightarrow> host_result outcome" where
  "run_once fl io t p w =
     withE (reject (require_mapping (pa_request p) ''request'')) w (\<lambda>payload.
     withE (reject (parse_host_request payload)) w (\<lambda>q.
     case resolve_host_state_root (pa_root p) (pa_resolved p) of
       None \<Rightarrow> (Inl (Rejected (FactsError
                 ''host state root is unavailable; caller-selected paths are not a state root'' ''STATE_ROOT_UNAVAILABLE'')), w)
     | Some state_root \<Rightarrow>
     withE (host_collect fl (pa_first p) q) w (\<lambda>(raw, f, branch).
     let k = canonical_watch_dir q f
     in withE (reject (bind_canonical p state_root q k (wo_dirs w k))) w (\<lambda>_.
        case pa_lock p of
          LockFails \<Rightarrow> (Inl (Rejected (facts_error ''lock path cannot be opened'')), w)
        | LockEscapes \<Rightarrow> (Inl Escaped, w)
        | LockHeld \<Rightarrow>
            (reject (base_result ((quiet ''LOCK_HELD''
               ''watch host lock is already owned; this run yields without evaluating'' ''NONE'' ''NONE'' None)
               \<lparr>hs_lock := ''HELD''\<rparr>)), w)
        | LockTaken \<Rightarrow>
            locked_pass fl io t p q k raw f branch (set_dir k (wd_lock_update (\<lambda>_. Unreadable)) w)))))"

section \<open>Reports\<close>

definition host_report :: "host_result \<Rightarrow> string" where
  "host_report r = report_text
     [(''RESULT'', hs_result r), (''EXIT_CODE'', ''0''), (''REASON'', hs_reason r), (''WATCH_RESULT'', hs_watch_result r),
      (''ACTIONS_DELIVERED'', int_text (hs_actions r)), (''WAKES'', int_text (hs_wakes r)),
      (''RESUMES'', int_text (hs_resumes r)), (''NOTIFICATIONS'', int_text (hs_notifications r)),
      (''NOTIFICATION_LEVEL'', hs_level r), (''NOTIFICATION_DELIVERY'', hs_delivery r), (''LOCK'', hs_lock r),
      (''NEXT_ELIGIBLE_CHECK_AT'', text_or (hs_next r) ''NONE''), (''STOPS_UNRELATED_SESSIONS'', ''NO''),
      (''MUTATES_EXISTING_SESSIONS'', ''NO''), (''SPAWNS_PROCESS'', ''NO''),
      (''MUTATES_GITHUB'', yes_no (hs_mutates_github r)), (''EXECUTES_COMMAND'', ''NO''), (''BUSY_LOOP'', ''NO''),
      (''SLEEPS'', ''NO''), (''CADENCE'', ''EXTERNAL'')]"

definition host_failure_report :: "string \<Rightarrow> string \<Rightarrow> string \<times> int" where
  "host_failure_report reason deny_class = (report_text
     [(''RESULT'', ''REJECT_FACTS''), (''EXIT_CODE'', ''3''), (''REASON'', py_strip (replace_char NL '' '' reason)),
      (''DENY_CLASS'', deny_class), (''ACTIONS_DELIVERED'', ''0''), (''WAKES'', ''0''), (''RESUMES'', ''0''),
      (''NOTIFICATIONS'', ''0''), (''STOPS_UNRELATED_SESSIONS'', ''NO''), (''MUTATES_EXISTING_SESSIONS'', ''NO''),
      (''SPAWNS_PROCESS'', ''NO''), (''MUTATES_GITHUB'', ''NO''), (''EXECUTES_COMMAND'', ''NO''), (''BUSY_LOOP'', ''NO''),
      (''SLEEPS'', ''NO'')], 3)"

text \<open>\<^verbatim>\<open>main\<close> after the request file was read, or failed to be; \<open>None\<close> for a process that ends otherwise.\<close>

definition host_main :: "(rat \<Rightarrow> string) \<Rightarrow> text_io \<Rightarrow> iso \<Rightarrow> facts_error + json \<Rightarrow> pass \<Rightarrow> world \<Rightarrow> (string \<times> int) option \<times> world" where
  "host_main fl io t loaded p w =
     (case loaded of
        Inl (FactsError reason deny_class) \<Rightarrow> (Some (host_failure_report reason deny_class), w)
      | Inr payload \<Rightarrow>
          (let (r, w') = run_once fl io t (p\<lparr>pa_request := payload\<rparr>) w
           in (case r of
                 Inr res \<Rightarrow> Some (host_report res, 0)
               | Inl (Rejected (FactsError reason deny_class)) \<Rightarrow> Some (host_failure_report reason deny_class)
               | Inl _ \<Rightarrow> None, w')))"

end
