(* ===== verification/SkillsFacts.thy ===== *)
theory SkillsFacts
  imports Worker
begin

text \<open>
  Lemmas on the authority path: what an allowed verdict rests on (\<open>authorize_allowed\<close>), that a
  contract only narrows the profiles (\<open>merge_narrows\<close>), what a worker's write rests on
  (\<open>worker_write\<close>), and which markers an operation on the replay directory keeps and takes.
\<close>

section \<open>Profiles\<close>

definition good_profile :: "profile \<Rightarrow> profile \<Rightarrow> bool" where
  "good_profile p q =
     (is_narrowing p q \<and> pf_allowed p \<inter> pf_denied p = {} \<and> pf_allowed p \<union> pf_denied p = set ACTION_CLASSES \<and>
      pf_approval p \<subseteq> pf_allowed p)"

definition narrow_profiles :: "(string \<times> profile) list \<Rightarrow> bool" where
  "narrow_profiles ps =
     ((\<forall>name. map_of ps name = None \<longleftrightarrow> map_of DEFAULT_PROFILES name = None) \<and>
      (\<forall>name p. map_of ps name = Some p \<longrightarrow> (\<exists>q. map_of DEFAULT_PROFILES name = Some q \<and> good_profile p q)))"

lemma parsed_profile:
  assumes "parse_profile_mapping fl raw = Some p" "is_narrowing p q" shows "good_profile p q"
proof -
  obtain allowed denied approval where "p = \<lparr>pf_allowed = allowed, pf_denied = denied, pf_approval = approval\<rparr>"
    "allowed \<inter> denied = {}" "allowed \<union> denied = set ACTION_CLASSES" "approval \<subseteq> allowed"
    using assms(1) unfolding parse_profile_mapping_def
    by (clarsimp split: json.splits if_splits option.splits)
  then show ?thesis using assms(2) by (simp add: good_profile_def)
qed

lemma narrow_dset:
  "narrow_profiles ps \<Longrightarrow> map_of DEFAULT_PROFILES name = Some q \<Longrightarrow> good_profile p q \<Longrightarrow> narrow_profiles (dset name p ps)"
  by (simp add: narrow_profiles_def dict_simps)

lemma merge_step_narrows: "narrow_profiles (fst acc) \<Longrightarrow> narrow_profiles (fst (merge_step fl item acc))"
  by (cases item, cases acc) (auto simp: merge_step_def parsed_profile intro: narrow_dset split: option.splits)

lemma fold_narrows: "narrow_profiles (fst acc) \<Longrightarrow> narrow_profiles (fst (fold (merge_step fl) d acc))"
  by (induction d arbitrary: acc) (simp_all add: merge_step_narrows)

lemma default_narrows: "narrow_profiles DEFAULT_PROFILES"
proof -
  have "list_all (\<lambda>(name, p). pf_allowed p \<inter> pf_denied p = {} \<and> pf_allowed p \<union> pf_denied p = set ACTION_CLASSES \<and>
      pf_approval p \<subseteq> pf_allowed p) DEFAULT_PROFILES"
    by code_simp
  then have "good_profile p p" if "map_of DEFAULT_PROFILES name = Some p" for name p
    using map_of_SomeD [OF that] by (auto simp: good_profile_def is_narrowing_def list_all_iff)
  then show ?thesis by (auto simp: narrow_profiles_def)
qed

lemma merge_narrows: "narrow_profiles (fst (merge_profiles fl custom))"
  using default_narrows by (auto simp: merge_profiles_def intro: fold_narrows split: json.split)

lemma effective_narrows: "load_effective_state fl rp = Inr (profiles, digest) \<Longrightarrow> narrow_profiles profiles"
  using merge_narrows [of fl "case load_contract_instance rp of None \<Rightarrow> JNull | Some d \<Rightarrow> jget d ''profiles''"]
  by (auto simp: load_effective_state_def Let_def split: if_splits prod.splits)

section \<open>Verdicts\<close>

lemma check_classes_allowed:
  "vd_allowed (check_classes p approved cs) \<longleftrightarrow>
     (\<forall>c \<in> set cs. c \<in> pf_allowed p \<and> c \<notin> pf_denied p \<and> (c \<in> pf_approval p \<longrightarrow> c \<in> approved))"
  by (induction cs) (auto simp: deny_def allow_def)

lemma deny_simp [simp]: "\<not> vd_allowed (deny r)" "vd_allowed allow" "vd_reason (deny r) = r"
  by (simp_all add: deny_def allow_def)

lemma evaluate_allowed:
  assumes "vd_allowed (evaluate_action profiles expected b tool_id classes)"
  shows "\<exists>p. map_of profiles (sb_profile b) = Some p \<and>
    (\<forall>c \<in> set classes. c \<in> pf_allowed p \<and> c \<notin> pf_denied p \<and> (c \<in> pf_approval p \<longrightarrow> c \<in> sb_approved b))"
  using assms
  by (auto simp: evaluate_action_def Let_def check_classes_allowed split: if_splits option.splits)

text \<open>The classes a tool needs are within the default profile of the session, high-risk ones approved.\<close>

definition within_profile :: "string \<Rightarrow> string set \<Rightarrow> string list \<Rightarrow> bool" where
  "within_profile prof approved classes =
     (\<exists>q. map_of DEFAULT_PROFILES prof = Some q \<and>
       (\<forall>c \<in> set classes. c \<in> pf_allowed q \<and> (c \<in> pf_approval q \<longrightarrow> c \<in> approved)))"

lemma policy_allowed:
  assumes "policy_verdict fl rp binding dispatch classes = Inr v" "vd_allowed v"
  shows "\<exists>cs approved. map_of TOOL_REGISTRY (or_empty fl dispatch ''tool_id'') = Some cs \<and> set cs = classes \<and>
    normalize_classes fl (jget binding ''approved_classes'') = Some approved \<and>
    within_profile (or_empty fl binding ''profile'') approved cs"
proof -
  obtain profiles digest where st: "load_effective_state fl rp = Inr (profiles, digest)"
    using assms(1) by (auto simp: policy_verdict_def bindE_Inr_iff err_simps split: prod.splits)
  obtain b cs where b: "bind_session fl profiles digest (or_empty fl binding ''profile'')
              (jget binding ''authority_permission'')
              (json_str fl (json_or (jget binding ''authority_basis'') (JStr ''collaborator_permission'')))
              (or_empty fl binding ''policy_digest'') (jget binding ''approved_classes'')
              (or_empty fl binding ''public_key_sha256'') = Inr b"
    and cs: "action_request_for_tool (or_empty fl dispatch ''tool_id'') = Inr cs" "set cs = classes"
    and v: "v = evaluate_action profiles digest b (or_empty fl dispatch ''tool_id'') cs"
    using assms(1) st by (auto simp: policy_verdict_def bindE_Inr_iff err_simps split: if_splits)
  have sess: "sb_profile b = or_empty fl binding ''profile''"
    "normalize_classes fl (jget binding ''approved_classes'') = Some (sb_approved b)"
    using b by (auto simp: bind_session_def Let_def bindE_Inr_iff split: if_splits option.splits)
  obtain p where p: "map_of profiles (sb_profile b) = Some p"
    "\<forall>c \<in> set cs. c \<in> pf_allowed p \<and> c \<notin> pf_denied p \<and> (c \<in> pf_approval p \<longrightarrow> c \<in> sb_approved b)"
    using evaluate_allowed assms(2) v by blast
  obtain q where "map_of DEFAULT_PROFILES (sb_profile b) = Some q" "is_narrowing p q"
    using effective_narrows [OF st] p(1) unfolding narrow_profiles_def good_profile_def by blast
  then have "within_profile (sb_profile b) (sb_approved b) cs"
    using p(2) by (auto simp: within_profile_def is_narrowing_def)
  moreover have "map_of TOOL_REGISTRY (or_empty fl dispatch ''tool_id'') = Some cs"
    using cs(1) by (auto simp: action_request_for_tool_def split: option.splits)
  ultimately show ?thesis using cs(2) sess by auto
qed

section \<open>Allowed authorizations\<close>

definition signed_by :: "(rat \<Rightarrow> string) \<Rightarrow> host \<Rightarrow> string \<Rightarrow> string \<Rightarrow> jobj \<Rightarrow> bool" where
  "signed_by fl h anchor path d =
     (ho_file h path = Signed (JObj d) \<and>
      ho_verify h anchor (canonical_payload fl d) (json_str fl (jget d ''signature'')))"

lemma verify_Inr: "verify_signed_json fl h path anchor = Inr d \<longleftrightarrow>
    signed_by fl h anchor path d \<and> jhas d ''signature'' \<and> openssl_ready h"
  by (auto simp: verify_signed_json_def signed_by_def split: signed_file.splits json.splits if_splits)

lemma verified_pair_Inr:
  "verified_pair fl h anchor bp dp = Inr (b, d) \<Longrightarrow> signed_by fl h anchor bp b \<and> signed_by fl h anchor dp d"
  by (auto simp: verified_pair_def Let_def bindE_Inr_iff err_simps verify_Inr split: if_splits)

lemma bound_hashes_Inr:
  "bound_hashes fl anchor b d q = Inr () \<longleftrightarrow>
     jget b ''public_key_sha256'' = JStr (hex_sha256 anchor) \<and>
     jget d ''binding_public_key_sha256'' = JStr (hex_sha256 anchor) \<and>
     jget d ''binding_sha256'' = JStr (signed_payload_sha256 fl b) \<and>
     jget d ''request_sha256'' = JStr (canonical_request_sha256 fl q)"
  by (auto simp: bound_hashes_def Let_def)

text \<open>A high-risk dispatch is for this request, this session and this worktree, and not yet expired.\<close>

definition scoped_dispatch :: "(rat \<Rightarrow> string) \<Rightarrow> host \<Rightarrow> repo \<Rightarrow> jobj \<Rightarrow> jobj \<Rightarrow> jobj \<Rightarrow> string \<Rightarrow> bool" where
  "scoped_dispatch fl h rp binding dispatch request i =
     (high_risk_scope_problem fl rp binding dispatch request = None \<and> jget dispatch ''dispatch_id'' = JStr i \<and>
      (\<exists>expires. expiry (jget dispatch ''expires_at_unix'') = Some expires \<and> ho_now h < expires))"

lemma high_risk_Inr:
  assumes "high_risk_dispatch fl h rp b d q classes = Inr i"
  shows "if classes \<inter> set HIGH_RISK_CLASSES = {} then i = None else (\<exists>k. i = Some k \<and> scoped_dispatch fl h rp b d q k)"
  using assms
  by (auto simp: high_risk_dispatch_def scoped_dispatch_def split: if_splits option.splits json.splits)

lemma checks_Inr:
  assumes "authorize_checks fl h base bp dp parsed = Inr i"
  obtains anchor binding dispatch request classes cs approved where
    "trust_anchor h = Some anchor" "request_payload parsed = Inr request"
    "signed_by fl h anchor bp binding" "signed_by fl h anchor dp dispatch"
    "bound_hashes fl anchor binding dispatch request = Inr ()"
    "map_of TOOL_REGISTRY (or_empty fl dispatch ''tool_id'') = Some cs"
    "normalize_classes fl (jget binding ''approved_classes'') = Some approved"
    "within_profile (or_empty fl binding ''profile'') approved cs"
    "dispatch_classes fl dispatch = Inr (set cs)"
    "if set cs \<inter> set HIGH_RISK_CLASSES = {} then i = None
     else (\<exists>k. i = Some k \<and> scoped_dispatch fl h (ho_repo h base) binding dispatch request k)"
proof -
  obtain anchor where anchor: "trust_anchor h = Some anchor"
    using assms by (auto simp: authorize_checks_def split: if_splits option.splits)
  obtain request binding dispatch classes v where parts: "request_payload parsed = Inr request"
    "verified_pair fl h anchor bp dp = Inr (binding, dispatch)" "bound_hashes fl anchor binding dispatch request = Inr ()"
    "dispatch_classes fl dispatch = Inr classes"
    "high_risk_dispatch fl h (ho_repo h base) binding dispatch request classes = Inr i"
    "policy_verdict fl (ho_repo h base) binding dispatch classes = Inr v" "vd_allowed v"
    using assms anchor by (auto simp: authorize_checks_def bindE_Inr_iff split: if_splits prod.splits)
  obtain cs approved where "map_of TOOL_REGISTRY (or_empty fl dispatch ''tool_id'') = Some cs" "set cs = classes"
    "normalize_classes fl (jget binding ''approved_classes'') = Some approved"
    "within_profile (or_empty fl binding ''profile'') approved cs"
    using policy_allowed [OF parts(6,7)] by blast
  then show thesis
    using that [OF anchor parts(1)] verified_pair_Inr [OF parts(2)] parts(3,4) high_risk_Inr [OF parts(5)] by auto
qed

text \<open>Every answer of the checks is a denial.\<close>

definition denies :: "stop + 'a \<Rightarrow> bool" where
  "denies m = (\<forall>v. m = Inl (Verdict v) \<longrightarrow> \<not> vd_allowed v)"

named_theorems denies_intros

lemma denies_base [denies_intros]:
  "denies (Inr x)" "denies (Inl (Verdict (deny r)))" "denies (Inl (Error e))" "denies (map_err Error k)"
  by (cases k; simp add: denies_def)+

lemma denies_bind [denies_intros]: "denies m \<Longrightarrow> (\<And>x. m = Inr x \<Longrightarrow> denies (f x)) \<Longrightarrow> denies (bindE m f)"
  by (cases m) (auto simp: denies_def)

lemma denies_if [denies_intros]: "(b \<Longrightarrow> denies x) \<Longrightarrow> (\<not> b \<Longrightarrow> denies y) \<Longrightarrow> denies (if b then x else y)"
  by simp

lemma denies_verdict [denies_intros]: "\<not> vd_allowed v \<Longrightarrow> denies (Inl (Verdict v))"
  by (simp add: denies_def)

lemma denies_option [denies_intros]:
  "denies x \<Longrightarrow> (\<And>v. denies (f v)) \<Longrightarrow> denies (case p of None \<Rightarrow> x | Some v \<Rightarrow> f v)"
  by (cases p) simp_all

lemma denies_prod [denies_intros]: "(\<And>a b. denies (f a b)) \<Longrightarrow> denies (case p of (a, b) \<Rightarrow> f a b)"
  by (cases p) simp

lemma denies_parts [denies_intros]:
  "denies (request_payload parsed)" "denies (bound_hashes fl anchor b d q)" "denies (dispatch_classes fl d)"
  by (auto simp: denies_def request_payload_def bound_hashes_def Let_def dispatch_classes_def
      split: option.splits sum.splits json.splits if_splits)

lemma denies_pair [denies_intros]: "denies (verified_pair fl h anchor bp dp)"
  by (auto simp: denies_def verified_pair_def Let_def bindE_Inl_iff map_err_def
      split: if_splits sum.splits auth_error.splits)

lemma denies_high_risk [denies_intros]: "denies (high_risk_dispatch fl h rp b d q classes)"
  by (auto simp: denies_def high_risk_dispatch_def split: if_splits option.splits json.splits)

lemma denies_policy [denies_intros]: "denies (policy_verdict fl rp b d classes)"
  unfolding policy_verdict_def by (intro denies_intros)

lemma denies_checks: "denies (authorize_checks fl h base bp dp parsed)"
  unfolding authorize_checks_def by (intro denies_intros)

lemma authorize_allowed:
  assumes "authorize fl h sc base bp dp parsed c seen dir = (Inr v, dir')" "vd_allowed v"
  shows "\<exists>i. authorize_checks fl h base bp dp parsed = Inr i \<and>
    (case i of Some k \<Rightarrow> c \<longrightarrow> consume_dispatch_once sc k seen dir = (''ok'', dir') | None \<Rightarrow> True)"
proof (cases "authorize_checks fl h base bp dp parsed")
  case (Inl x)
  have "\<not> vd_allowed v" if "authorize_checks fl h base bp dp parsed = Inl (Verdict v)"
    using denies_checks [of fl h base bp dp parsed] that by (simp add: denies_def)
  then show ?thesis using Inl assms by (auto simp: authorize_def split: stop.splits)
next
  case (Inr i)
  then show ?thesis using assms
    by (auto simp: authorize_def Let_def split: option.splits if_splits prod.splits)
qed

section \<open>Worker writes\<close>

lemma worker_emit_write: "worker_emit result reason digest False = Inr c \<Longrightarrow> \<not> cf_authorizes_write c"
  by (auto simp: worker_emit_def split: if_splits)

lemma effect_allowed:
  assumes "authorize_concrete_effect fl h sc ver effect c seen dir = (Inr ''ALLOW'', dir')"
  shows "\<exists>bp dp anchor binding dispatch worktree v. ver = Some (bp, dp) \<and> trust_anchor h = Some anchor \<and>
    signed_by fl h anchor bp binding \<and> signed_by fl h anchor dp dispatch \<and>
    jget dispatch ''tool_id'' = JStr DISPATCH_TOOL_ID \<and>
    jget dispatch ''request_sha256'' = JStr (canonical_request_sha256 fl effect) \<and>
    normalize_permission fl (jget binding ''authority_permission'') \<in> set AUTHORIZED_PERMISSIONS \<and>
    authorize fl h sc worktree bp dp (Some (Inr (JObj effect))) c seen dir = (Inr v, dir') \<and> vd_allowed v"
proof -
  have strings: "''trusted verification assertions are missing; caller-supplied permission or dispatch facts are not authority'' \<noteq> ''ALLOW''"
    "''trusted verification boundary is unavailable'' \<noteq> ''ALLOW''"
    "''dispatch is not a signed network.post external_write for this effect'' \<noteq> ''ALLOW''"
    "''dispatch is not bound to the concrete mutation target and content'' \<noteq> ''ALLOW''"
    "''signed binding permission is missing or weaker than write'' \<noteq> ''ALLOW''"
    "''signed binding worktree is missing or invalid'' \<noteq> ''ALLOW''"
    "''trusted authorize path failed closed'' \<noteq> ''ALLOW''" "''REPLAY'' \<noteq> ''ALLOW''"
    "''trusted authorize path denied the effect: '' @ x \<noteq> ''ALLOW''"
    "''trusted dispatch signature verification failed'' \<noteq> ''ALLOW''" for x
    by simp_all
  obtain bp dp where ver: "ver = Some (bp, dp)"
    using assms strings(1) by (auto simp: authorize_concrete_effect_def split: option.splits)
  obtain anchor where anchor: "trust_anchor h = Some anchor"
    using assms strings(2) ver by (auto simp: authorize_concrete_effect_def split: option.splits)
  obtain dispatch binding where signed: "verify_signed_json fl h dp anchor = Inr dispatch"
    "verify_signed_json fl h bp anchor = Inr binding"
    using assms strings(10) ver anchor by (auto simp: authorize_concrete_effect_def split: sum.splits)
  note step = assms [unfolded authorize_concrete_effect_def ver anchor option.case prod.case signed sum.case]
  have tool: "jget dispatch ''tool_id'' = JStr DISPATCH_TOOL_ID"
    and req: "jget dispatch ''request_sha256'' = JStr (canonical_request_sha256 fl effect)"
    using step strings(3,4) by (auto split: if_splits)
  obtain perm where perm: "authorize_permission fl (jget binding ''authority_permission'') = Inr perm"
    using step strings(3,4,5) by (auto split: if_splits sum.splits)
  obtain worktree where wt: "signed_worktree binding = Some worktree"
    using step perm strings(3,4,6) by (auto split: if_splits option.splits)
  obtain x dir2 where au: "authorize fl h sc worktree bp dp (Some (Inr (JObj effect))) c seen dir = (x, dir2)"
    by (cases "authorize fl h sc worktree bp dp (Some (Inr (JObj effect))) c seen dir")
  obtain v where "x = Inr v" "dir2 = dir'" "vd_allowed v"
    using step perm wt au strings(3,4,7-9)
    by (auto split: if_splits sum.splits auth_error.splits)
  moreover have "normalize_permission fl (jget binding ''authority_permission'') \<in> set AUTHORIZED_PERMISSIONS"
    using perm by (auto simp: authorize_permission_def split: if_splits)
  ultimately show ?thesis using ver anchor signed tool req au by (auto simp: verify_Inr)
qed

text \<open>What a worker's write rests on.\<close>

lemma worker_write:
  assumes "worker_evaluate fl h sc payload c seen dir = (Inr r, dir')" "cf_authorizes_write r"
  obtains data f where "payload = JObj data" "forbidden_in_obj data = None" "parse_request fl data = Inr f"
    "worker_blocked fl f = None"
    "authorize_concrete_effect fl h sc (wi_verification f) (concrete_effect (wi_bound f) (wi_proposed f)) c seen dir
       = (Inr ''ALLOW'', dir')"
proof -
  obtain data where data: "payload = JObj data"
    using assms(1) by (cases payload) (auto simp: worker_evaluate_def require_mapping_def)
  have none: "forbidden_in_obj data = None"
    using assms data worker_emit_write
    by (auto simp: worker_evaluate_def require_mapping_def split: option.splits)
  obtain f where f: "parse_request fl data = Inr f" "worker_decide fl h sc f c seen dir = (Inr r, dir')"
    using assms(1) data none by (auto simp: worker_evaluate_def require_mapping_def split: sum.splits)
  have nb: "worker_blocked fl f = None"
    using f(2) assms(2) worker_emit_write by (auto simp: worker_decide_def Let_def split: option.splits)
  let ?auth = "authorize_concrete_effect fl h sc (wi_verification f) (concrete_effect (wi_bound f) (wi_proposed f)) c seen dir"
  obtain g dir2 where g: "?auth = (g, dir2)" by (cases ?auth)
  have "g = Inr ''ALLOW'' \<and> dir2 = dir'"
    using f(2) nb g assms(2) worker_emit_write
    by (auto simp: worker_decide_def Let_def split: sum.splits if_splits)
  then show thesis using that [OF data none f(1) nb] g by simp
qed

lemma worker_blocked_None:
  "worker_blocked fl f = None \<longleftrightarrow>
     bq_action (wi_bound f) \<in> set ALLOWED_ACTIONS \<and> mismatches (wi_bound f) (wi_authoritative f) = [] \<and>
     wi_outcome f \<notin> set AMBIGUOUS_OUTCOMES \<and> wi_outcome f \<noteq> ''APPLIED'' \<and>
     wi_failure f \<noteq> ''SEMANTIC'' \<and> wi_failure f \<noteq> ''TRANSIENT'' \<and> wi_resource f \<noteq> ''BLOCK'' \<and>
     wi_admission f = ''ALLOW'' \<and> wi_prior f \<noteq> Some (request_digest fl (wi_bound f) (wi_proposed f))"
  by (auto simp: worker_blocked_def Let_def split: if_splits)

lemma mismatches_Nil:
  "mismatches b a = [] \<longleftrightarrow> ap_repo a = bq_repo b \<and> ap_workstream a = bq_workstream b \<and> ap_revision a = bq_revision b \<and>
     ap_head a = bq_head b \<and> ap_branch a = bq_branch b \<and> ap_status a = bq_status b"
  by (auto simp: mismatches_def)

end
