(* ===== verification/HostFacts.thy ===== *)
theory HostFacts
  imports WatchHost SkillsFacts WatchFacts
begin

text \<open>
  Lemmas on the watch host. \<open>still\<close> and \<open>once\<close> relate the world before and after an operation on one
  watch directory: nothing was sent, or one delivery, after which the journal of that directory no
  longer allows a send (\<open>armed\<close>). Each combinator has an introduction rule, so that the relation of an
  operation follows its definition.
\<close>

section \<open>Frames\<close>

abbreviation journal_of :: "world \<Rightarrow> string \<Rightarrow> doc" where
  "journal_of w k \<equiv> wd_journal (wo_dirs w k)"

text \<open>The journals from which \<open>execute_authorized\<close> may go on to send.\<close>

definition armed :: "(rat \<Rightarrow> string) \<Rightarrow> doc \<Rightarrow> bool" where
  "armed fl d = (d = Missing \<or> (\<exists>j. load_journal fl d = Inr (Some j) \<and> jn_phase j = ''INTENT''))"

definition elsewhere :: "string \<Rightarrow> world \<Rightarrow> world \<Rightarrow> bool" where
  "elsewhere k w w' = (\<forall>k'. k' \<noteq> k \<longrightarrow> wo_dirs w' k' = wo_dirs w k')"

definition still :: "(rat \<Rightarrow> string) \<Rightarrow> string \<Rightarrow> world \<Rightarrow> world \<Rightarrow> bool" where
  "still fl k w w' = (elsewhere k w w' \<and> wo_sent w' = wo_sent w \<and> (armed fl (journal_of w' k) \<longrightarrow> armed fl (journal_of w k)))"

definition once :: "(rat \<Rightarrow> string) \<Rightarrow> string \<Rightarrow> world \<Rightarrow> world \<Rightarrow> bool" where
  "once fl k w w' =
     (still fl k w w' \<or>
      elsewhere k w w' \<and> (\<exists>d. wo_sent w' = wo_sent w @ [(k, d)]) \<and> \<not> armed fl (journal_of w' k))"

lemma elsewhere_refl [simp]: "elsewhere k w w"
  by (simp add: elsewhere_def)

lemma elsewhere_trans: "elsewhere k w w1 \<Longrightarrow> elsewhere k w1 w2 \<Longrightarrow> elsewhere k w w2"
  by (simp add: elsewhere_def)

lemma still_refl [simp]: "still fl k w w"
  by (simp add: still_def)

lemma still_trans: "still fl k w w1 \<Longrightarrow> still fl k w1 w2 \<Longrightarrow> still fl k w w2"
  by (auto simp: still_def intro: elsewhere_trans)

lemma still_once: "still fl k w w1 \<Longrightarrow> once fl k w1 w2 \<Longrightarrow> once fl k w w2"
  by (auto simp: once_def still_def intro: elsewhere_trans)

lemma once_still: "once fl k w w1 \<Longrightarrow> still fl k w1 w2 \<Longrightarrow> once fl k w w2"
  by (auto simp: once_def still_def intro: elsewhere_trans)

named_theorems still_intros

lemma still_basic [still_intros]:
  "still fl k w (snd (x, w))" "(b \<Longrightarrow> still fl k w (snd m)) \<Longrightarrow> (\<not> b \<Longrightarrow> still fl k w (snd m')) \<Longrightarrow> still fl k w (snd (if b then m else m'))"
  by simp_all

lemma still_bind [still_intros]:
  "still fl k w (snd m) \<Longrightarrow> (\<And>x w1. m = (Inr x, w1) \<Longrightarrow> still fl k w1 (snd (f x w1))) \<Longrightarrow> still fl k w (snd (bindS m f))"
  by (cases m; cases "fst m") (auto intro: still_trans)

lemma still_with [still_intros]:
  "(\<And>x. m = Inr x \<Longrightarrow> still fl k w (snd (f x))) \<Longrightarrow> still fl k w (snd (withE m w f))"
  by (cases m) auto

lemma once_bind:
  assumes "still fl k w (snd m)" "\<And>x w1. m = (Inr x, w1) \<Longrightarrow> once fl k w1 (snd (f x w1))"
  shows "once fl k w (snd (bindS m f))"
proof (cases "fst m")
  case (Inl e)
  then show ?thesis using assms(1) by (cases m) (simp add: once_def)
next
  case (Inr x)
  then have m: "m = (Inr x, snd m)" by (metis prod.collapse)
  have "once fl k w (snd (f x (snd m)))" using still_once [OF assms(1) assms(2) [OF m]] .
  then show ?thesis by (subst m) simp
qed

lemma once_with: "(\<And>x. m = Inr x \<Longrightarrow> once fl k w (snd (f x))) \<Longrightarrow> once fl k w (snd (withE m w f))"
  by (cases m) (auto simp: once_def)

lemma once_basic: "still fl k w w' \<Longrightarrow> once fl k w w'"
  by (simp add: once_def)

lemma once_if: "once fl k w (snd m) \<Longrightarrow> once fl k w (snd m') \<Longrightarrow> once fl k w (snd (if b then m else m'))"
  by simp

section \<open>Writes\<close>

lemma write_world:
  "write_json put field k name payload w = (r, w') \<Longrightarrow>
     elsewhere k w w' \<and> wo_sent w' = wo_sent w \<and> wo_replay w' = wo_replay w \<and>
     (wo_dirs w' k = wo_dirs w k \<or> wo_dirs w' k = put (\<lambda>_. Unreadable) (wo_dirs w k) \<or>
      wo_dirs w' k = put (\<lambda>_. Doc payload) (wo_dirs w k))"
  by (auto simp: write_json_def set_dir_def elsewhere_def Let_def
      split: if_splits sum.splits prod.splits write_outcome.splits)

lemma not_armed_unreadable [simp]: "\<not> armed fl Unreadable"
  by (simp add: armed_def load_journal_def read_object_def)

lemma loaded_phase:
  assumes "load_journal fl (Doc (journal_json j)) = Inr (Some j')"
  shows "jn_phase j' = py_strip (jn_phase j)"
  using assms
  by (auto simp: load_journal_def read_object_def require_mapping_def bindE_Inr_iff journal_json_def jget_def require_str_def
      split: if_splits)

lemma strip_phases: "py_strip ''SENDING'' = ''SENDING''" "py_strip ''AMBIGUOUS'' = ''AMBIGUOUS''"
  "py_strip ''RECEIPT'' = ''RECEIPT''" "py_strip ''INTENT'' = ''INTENT''"
  by code_simp+

lemma not_armed_journal: "jn_phase j \<in> {''SENDING'', ''AMBIGUOUS'', ''RECEIPT''} \<Longrightarrow> \<not> armed fl (Doc (journal_json j))"
  by (auto simp: armed_def strip_phases dest!: loaded_phase)

lemma persist_still [still_intros]: "still fl k w (snd (persist_watch k r w))" "still fl k w (snd (persist_ledger k es w))"
  by (auto simp: persist_watch_def persist_ledger_def still_def bindS_def dest!: write_world
      split: prod.splits sum.splits)

lemma commit_world:
  assumes "commit_journal k j w = (r, w')"
  shows "elsewhere k w w'" "wo_sent w' = wo_sent w"
    "journal_of w' k \<in> {journal_of w k, Unreadable, Doc (journal_json j)}"
    "r = Inr x \<Longrightarrow> journal_of w' k \<in> {Unreadable, Doc (journal_json j)}"
proof -
  obtain b w1 where b: "write_json wd_journal_update wd_journal k ''effect-journal.json'' (journal_json j) w = (b, w1)"
    by (cases "write_json wd_journal_update wd_journal k ''effect-journal.json'' (journal_json j) w")
  have w1: "w' = w1" using assms b by (auto simp: commit_journal_def bindS_def split: sum.splits)
  show "elsewhere k w w'" "wo_sent w' = wo_sent w" "journal_of w' k \<in> {journal_of w k, Unreadable, Doc (journal_json j)}"
    using write_world [OF b] w1 by auto
  assume "r = Inr x"
  then have "b = Inr True" using assms b by (auto simp: commit_journal_def bindS_def split: sum.splits if_splits)
  then show "journal_of w' k \<in> {Unreadable, Doc (journal_json j)}"
    using b w1 by (auto simp: write_json_def set_dir_def Let_def split: if_splits sum.splits prod.splits write_outcome.splits)
qed

text \<open>A journal that allows no send stays so; one that is written with such a phase allows none.\<close>

lemma commit_still:
  assumes "jn_phase j \<in> {''SENDING'', ''AMBIGUOUS'', ''RECEIPT''}"
  shows "still fl k w (snd (commit_journal k j w))"
    "commit_journal k j w = (Inr x, w1) \<Longrightarrow> \<not> armed fl (journal_of w1 k)"
proof -
  obtain r w2 where c: "commit_journal k j w = (r, w2)" by (cases "commit_journal k j w")
  then show "still fl k w (snd (commit_journal k j w))"
    using commit_world(1-3) [OF c] not_armed_journal [OF assms] by (auto simp: still_def)
  assume "commit_journal k j w = (Inr x, w1)"
  then show "\<not> armed fl (journal_of w1 k)" using commit_world(4) not_armed_journal [OF assms] by fastforce
qed

section \<open>At most one delivery\<close>

lemma answer_still [still_intros]: "still fl k w (snd (answer_with result reason delivery r w))"
  by (simp add: answer_with_def)

lemma store_still [still_intros]:
  "still fl k w (snd (host_reserve gl io i e a w))" "still fl k w (snd (host_finalize gl io i e a w))"
  by (auto simp: host_reserve_def host_finalize_def enter_store_def still_def elsewhere_def Let_def
      split: prod.splits option.splits if_splits)

lemma send_world:
  assumes "host_send fl x k kind effect w = (r, w')"
  shows "elsewhere k w w'" "journal_of w' k = journal_of w k"
    "wo_sent w' = wo_sent w \<or> (\<exists>d. wo_sent w' = wo_sent w @ [(k, d)])"
  using assms
  by (auto simp: host_send_def elsewhere_def Let_def split: prod.splits option.splits)

lemma record_still [still_intros]: "still fl k w (snd (record_applied k r es receipt w))"
  unfolding record_applied_def by (intro still_intros)

lemma finish_receipt_still [still_intros]: "still fl k w (snd (finish_receipt gl io k r es i d a receipt w))"
  unfolding finish_receipt_def by (intro still_intros)

lemma commit_late [still_intros]: "still fl k w (snd (commit_journal k (j\<lparr>jn_phase := ''SENDING''\<rparr>) w))"
  "still fl k w (snd (commit_journal k (j\<lparr>jn_phase := ''AMBIGUOUS''\<rparr>) w))"
  "still fl k w (snd (commit_journal k (j\<lparr>jn_phase := ''RECEIPT'', jn_receipt := rc\<rparr>) w))"
  "still fl k w (snd (commit_journal k (j\<lparr>jn_phase := ''AMBIGUOUS'', jn_receipt := rc, jn_kind := kd\<rparr>) w))"
  by (rule commit_still; simp)+

lemma send_rest:
  assumes "host_send gl x k (re_result r) effect w = (e, w1)"
  shows "still fl k w1 (snd (send_once gl io x k r es effect base w))"
proof (cases e)
  case (Inl y)
  then show ?thesis using assms by (simp add: send_once_def)
next
  case (Inr y)
  show ?thesis unfolding send_once_def assms Inr bindS_simps by (intro still_intros)
qed

text \<open>Once the journal allows no send, \<open>send_once\<close> delivers at most once and leaves it so.\<close>

lemma send_once_once:
  assumes "\<not> armed fl (journal_of w k)"
  shows "once fl k w (snd (send_once gl io x k r es effect base w))"
proof -
  obtain e w1 where s: "host_send gl x k (re_result r) effect w = (e, w1)"
    by (cases "host_send gl x k (re_result r) effect w")
  have "once fl k w w1" using send_world [OF s] assms by (auto simp: once_def still_def)
  then show ?thesis using send_rest [OF s] by (rule once_still)
qed

lemma reserve_and_send_once: "once fl k w (snd (reserve_and_send gl io x k r es effect base w))"
  unfolding reserve_and_send_def
proof (rule once_bind [OF store_still(1)])
  fix reserved w1
  have "once fl k w1 (snd (bindS (commit_journal k (base\<lparr>jn_phase := ''SENDING''\<rparr>) w1)
      (\<lambda>_. send_once gl io x k r es effect base)))"
    by (rule once_bind [OF commit_late(1)], rule send_once_once, rule commit_still(2) [of "base\<lparr>jn_phase := ''SENDING''\<rparr>"]) simp_all
  then show "once fl k w1 (snd (if reserved = ''conflict''
       then answer_with ''AUTHORITY_DENIED'' ''dispatch is reserved or consumed by another effect owner'' ''DENIED'' r w1
       else if reserved = ''unavailable''
       then answer_with ''AUTHORITY_DENIED'' ''dispatch reservation boundary is unavailable'' ''DENIED'' r w1
       else if reserved = ''owned_consumed''
       then answer_with ''RECONCILE_AMBIGUOUS'' ''dispatch is consumed without a durable receipt for this attempt'' ''NONE'' r w1
       else bindS (commit_journal k (base\<lparr>jn_phase := ''SENDING''\<rparr>) w1) (\<lambda>_ w.
              send_once gl io x k r es effect base w)))"
    by (intro once_if once_basic [OF answer_still])
qed

text \<open>A delivery comes after a reservation that this attempt owns.\<close>

lemma send_delivers:
  assumes "host_send fl x k kind effect w = (e, w')" "wo_sent w' \<noteq> wo_sent w"
  shows "\<exists>rpl d. snd (send_effect fl x kind effect rpl) = Some d \<and> wo_sent w' = wo_sent w @ [(k, d)]"
proof -
  obtain rpl rest where n: "next_or (Some NoReply) (wo_replies w) = (rpl, rest)" by (cases "next_or (Some NoReply) (wo_replies w)")
  then obtain y where y: "rpl = Some y" using assms by (cases rpl) (auto simp: host_send_def)
  obtain d where "snd (send_effect fl x kind effect y) = Some d" "wo_sent w' = wo_sent w @ [(k, d)]"
    using assms n y by (cases "snd (send_effect fl x kind effect y)") (auto simp: host_send_def Let_def split: prod.splits)
  then show ?thesis by blast
qed

lemma reserve_answers:
  "fst (host_reserve fl io i e a w) = Inr ans \<Longrightarrow>
     ans \<in> {''reserved'', ''owned_reserved'', ''owned_consumed'', ''conflict'', ''unavailable''}"
  by (auto simp: host_reserve_def enter_store_def reserve_dispatch_def owned_def Let_def
      split: prod.splits if_splits answer.splits option.splits created.splits os_error.splits)

lemma reserve_and_send_sent:
  assumes "wo_sent (snd (reserve_and_send fl io x k r es effect base w)) \<noteq> wo_sent w"
  shows "\<exists>rpl d ans. fst (host_reserve fl io (jn_dispatch base) (jn_effect base) (jn_attempt base) w) = Inr ans \<and>
    ans \<in> {''reserved'', ''owned_reserved''} \<and> snd (send_effect fl x (re_result r) effect rpl) = Some d \<and>
    wo_sent (snd (reserve_and_send fl io x k r es effect base w)) = wo_sent w @ [(k, d)]"
proof -
  obtain a w1 where a: "host_reserve fl io (jn_dispatch base) (jn_effect base) (jn_attempt base) w = (a, w1)"
    by (cases "host_reserve fl io (jn_dispatch base) (jn_effect base) (jn_attempt base) w")
  have w1: "wo_sent w1 = wo_sent w" using store_still(1) a by (metis still_def snd_conv)
  obtain ans where ans: "a = Inr ans" using assms a w1 by (cases a) (auto simp: reserve_and_send_def)
  have "snd (reserve_and_send fl io x k r es effect base w) = w1"
    if "ans \<in> {''conflict'', ''unavailable'', ''owned_consumed''}"
    using that a ans by (auto simp: reserve_and_send_def answer_with_def)
  then have "ans \<notin> {''conflict'', ''unavailable'', ''owned_consumed''}" using assms w1 by metis
  moreover have "fst (host_reserve fl io (jn_dispatch base) (jn_effect base) (jn_attempt base) w) = Inr ans" using a ans by simp
  ultimately have free: "ans \<in> {''reserved'', ''owned_reserved''}"
    using reserve_answers [of fl io "jn_dispatch base" "jn_effect base" "jn_attempt base" w ans]
    by (simp only: insert_iff empty_iff simp_thms) argo
  obtain c w2 where c: "commit_journal k (base\<lparr>jn_phase := ''SENDING''\<rparr>) w1 = (c, w2)"
    by (cases "commit_journal k (base\<lparr>jn_phase := ''SENDING''\<rparr>) w1")
  have w2: "wo_sent w2 = wo_sent w" using commit_world(2) [OF c] w1 by simp
  have c_ok: "c = Inr ()" using assms a ans free c w2 by (cases c) (auto simp: reserve_and_send_def)
  obtain e w3 where e: "host_send fl x k (re_result r) effect w2 = (e, w3)" by (cases "host_send fl x k (re_result r) effect w2")
  have last: "snd (reserve_and_send fl io x k r es effect base w) = snd (send_once fl io x k r es effect base w2)"
    using a ans free c c_ok by (auto simp: reserve_and_send_def)
  then have "wo_sent (snd (reserve_and_send fl io x k r es effect base w)) = wo_sent w3"
    using send_rest [OF e] by (simp add: still_def)
  then show ?thesis using send_delivers [OF e] assms w2 a ans free by auto
qed

text \<open>The \<open>INTENT\<close> record may arm a journal only where there was none.\<close>

lemma commit_intent_still:
  assumes "armed fl (journal_of w k)" shows "still fl k w (snd (commit_journal k j w))"
  using commit_world(1,2) [of k j w] assms by (cases "commit_journal k j w") (auto simp: still_def)

text \<open>Over one execution: at most one delivery, only from an armed journal, and none is armed by it.\<close>

lemma execute_once:
  "once fl k w (snd (execute_authorized fl io h x n k ver r es effect w)) \<and>
   (armed fl (journal_of w k) \<or> still fl k w (snd (execute_authorized fl io h x n k ver r es effect w)))"
proof (cases "reject (signed_dispatch_id fl h ver)")
  case (Inl e)
  then show ?thesis by (simp add: execute_authorized_def once_basic)
next
  case i: (Inr i)
  show ?thesis
  proof (cases "load_journal fl (journal_of w k)")
    case (Inl e)
    then show ?thesis using i by (simp add: execute_authorized_def once_basic reject_def)
  next
    case found: (Inr found)
    show ?thesis
    proof (cases found)
      case None
      have "armed fl (journal_of w k)"
        using found None by (auto simp: armed_def load_journal_def bindE_Inr_iff split: if_splits)
      then show ?thesis
        using i found None
        by (auto simp: execute_authorized_def reject_def Let_def once_basic answer_still
            intro: once_bind commit_intent_still reserve_and_send_once split: option.splits)
    next
      case (Some j)
      have "jn_phase j = ''INTENT'' \<Longrightarrow> armed fl (journal_of w k)" using found Some by (auto simp: armed_def)
      moreover have "jn_phase j \<in> set JOURNAL_PHASES"
        using found Some by (auto simp: load_journal_def bindE_Inr_iff split: if_splits)
      ultimately show ?thesis
        using i found Some
        by (auto simp: execute_authorized_def reject_def Let_def JOURNAL_PHASES_def
            intro!: once_basic still_bind answer_still commit_late(4) finish_receipt_still reserve_and_send_once split: option.splits)
    qed
  qed
qed

text \<open>
  The attempt a pass reserves with: the one of the journal, if there is one, else its own. The answer of a
  reservation depends on the replay directory and its calls only, which a journal write leaves alone.
\<close>

definition pass_attempt :: "(rat \<Rightarrow> string) \<Rightarrow> doc \<Rightarrow> string \<Rightarrow> string" where
  "pass_attempt fl journal new_attempt =
     (case load_journal fl journal of Inr (Some j) \<Rightarrow> jn_attempt j | _ \<Rightarrow> new_attempt)"

lemma reserve_same:
  assumes "wo_replay w1 = wo_replay w" "wo_stores w1 = wo_stores w"
  shows "fst (host_reserve fl io i e a w1) = fst (host_reserve fl io i e a w)"
proof -
  obtain x rest where "next_or good_step (wo_stores w) = (x, rest)" by fastforce
  then show ?thesis
    using assms by (cases "ss_seen x"; cases "ss_dir x") (simp_all add: host_reserve_def enter_store_def Let_def split_def)
qed

lemma commit_keeps_store:
  "wo_replay (snd (commit_journal k j w)) = wo_replay w" "wo_stores (snd (commit_journal k j w)) = wo_stores w"
  by (auto simp: commit_journal_def write_json_def bindS_def set_dir_def Let_def
      split: prod.splits sum.splits write_outcome.splits)

lemma execute_sent:
  assumes "wo_sent (snd (execute_authorized fl io h x n k ver r es effect w)) \<noteq> wo_sent w"
  shows "armed fl (journal_of w k) \<and> (\<exists>i rpl d ans. signed_dispatch_id fl h ver = Inr i \<and>
    fst (host_reserve fl io i (canonical_request_sha256 fl effect) (pass_attempt fl (journal_of w k) n) w) = Inr ans \<and>
    ans \<in> {''reserved'', ''owned_reserved''} \<and> snd (send_effect fl x (re_result r) effect rpl) = Some d \<and>
    wo_sent (snd (execute_authorized fl io h x n k ver r es effect w)) = wo_sent w @ [(k, d)])"
proof -
  have "armed fl (journal_of w k)"
    using execute_once [of fl k w io h x n ver r es effect] assms by (auto simp: still_def)
  moreover obtain i where i: "signed_dispatch_id fl h ver = Inr i"
    using assms by (cases "signed_dispatch_id fl h ver") (auto simp: execute_authorized_def reject_def)
  obtain found where found: "load_journal fl (journal_of w k) = Inr found"
    using assms i by (cases "load_journal fl (journal_of w k)") (auto simp: execute_authorized_def reject_def)
  let ?base = "\<lambda>atm. \<lparr>jn_phase = [], jn_effect = canonical_request_sha256 fl effect, jn_dispatch = i, jn_receipt = [],
     jn_kind = re_result r, jn_attempt = atm\<rparr>"
  obtain atm w1 where go: "wo_sent w1 = wo_sent w" "wo_replay w1 = wo_replay w" "wo_stores w1 = wo_stores w"
    "atm = pass_attempt fl (journal_of w k) n"
    "snd (execute_authorized fl io h x n k ver r es effect w) = snd (reserve_and_send fl io x k r es effect (?base atm) w1)"
  proof (cases found)
    case (Some j)
    have "jn_phase j = ''INTENT''"
      using \<open>armed fl (journal_of w k)\<close> found Some by (auto simp: armed_def load_journal_def)
    moreover have "jn_effect j = canonical_request_sha256 fl effect"
      using assms i found Some calculation commit_world(2) [of k "j\<lparr>jn_phase := ''AMBIGUOUS'', jn_receipt := [], jn_kind := re_result r\<rparr>" w]
      by (cases "commit_journal k (j\<lparr>jn_phase := ''AMBIGUOUS'', jn_receipt := [], jn_kind := re_result r\<rparr>) w")
        (auto simp: execute_authorized_def reject_def Let_def bindS_def answer_with_def split: sum.splits if_splits)
    moreover have "send_boundary x (re_result r) = None"
      using assms i found Some calculation
      by (auto simp: execute_authorized_def reject_def Let_def answer_with_def split: option.splits)
    ultimately show thesis
      using that [of w "jn_attempt j"] i found Some by (simp add: execute_authorized_def reject_def Let_def pass_attempt_def)
  next
    case None
    have "send_boundary x (re_result r) = None"
      using assms i found None
      by (auto simp: execute_authorized_def reject_def Let_def answer_with_def split: option.splits)
    moreover obtain c w2 where c: "commit_journal k ((?base n)\<lparr>jn_phase := ''INTENT''\<rparr>) w = (c, w2)"
      by (cases "commit_journal k ((?base n)\<lparr>jn_phase := ''INTENT''\<rparr>) w")
    moreover have "c = Inr ()"
      using assms i found None calculation commit_world(2) [OF c]
      by (cases c) (auto simp: execute_authorized_def reject_def Let_def)
    ultimately show thesis
      using that [of w2 n] i found None commit_world(2) [OF c] commit_keeps_store [of k "(?base n)\<lparr>jn_phase := ''INTENT''\<rparr>" w] c
      by (simp add: execute_authorized_def reject_def Let_def pass_attempt_def)
  qed
  obtain rpl d ans where "fst (host_reserve fl io i (canonical_request_sha256 fl effect) atm w1) = Inr ans"
    "ans \<in> {''reserved'', ''owned_reserved''}" "snd (send_effect fl x (re_result r) effect rpl) = Some d"
    "wo_sent (snd (reserve_and_send fl io x k r es effect (?base atm) w1)) = wo_sent w1 @ [(k, d)]"
    using reserve_and_send_sent [of fl io x k r es effect "?base atm" w1] assms go by auto
  ultimately show ?thesis using go i reserve_same [OF go(2,3)] by auto
qed

section \<open>Whole passes\<close>

text \<open>\<open>guarded\<close>: at most one delivery, and only where the journal was armed.\<close>

definition guarded :: "(rat \<Rightarrow> string) \<Rightarrow> string \<Rightarrow> world \<Rightarrow> world \<Rightarrow> bool" where
  "guarded fl k w w' = (once fl k w w' \<and> (armed fl (journal_of w k) \<or> still fl k w w'))"

lemma guarded_still: "still fl k w w' \<Longrightarrow> guarded fl k w w'"
  by (simp add: guarded_def once_basic)

lemma still_guarded: "still fl k w w1 \<Longrightarrow> guarded fl k w1 w2 \<Longrightarrow> guarded fl k w w2"
  by (auto simp: guarded_def intro: still_once still_trans) (auto simp: still_def once_def intro: elsewhere_trans)

lemma guarded_with: "(\<And>x. m = Inr x \<Longrightarrow> guarded fl k w (snd (f x))) \<Longrightarrow> guarded fl k w (snd (withE m w f))"
  by (cases m) (auto simp: guarded_still)

lemma guarded_if: "(b \<Longrightarrow> guarded fl k w (snd x)) \<Longrightarrow> (\<not> b \<Longrightarrow> guarded fl k w (snd y)) \<Longrightarrow> guarded fl k w (snd (if b then x else y))"
  by simp

lemma guarded_cases:
  "(v = None \<Longrightarrow> guarded fl k w (snd x)) \<Longrightarrow> (\<And>y. v = Some y \<Longrightarrow> guarded fl k w (snd (f y))) \<Longrightarrow>
     guarded fl k w (snd (case v of None \<Rightarrow> x | Some y \<Rightarrow> f y))"
  "(\<And>a b. guarded fl k w (snd (g a b))) \<Longrightarrow> guarded fl k w (snd (case z of (a, b) \<Rightarrow> g a b))"
  by (cases v; simp) (cases z; simp)

lemma execute_guarded: "guarded fl k w (snd (execute_authorized fl io h x n k ver r es effect w))"
  using execute_once by (simp add: guarded_def)

lemma finish_notice_guarded: "guarded fl k w (snd (finish_notice fl io h x n k q r branch es w))"
  unfolding finish_notice_def
  by (auto intro!: execute_guarded guarded_still still_intros split: sum.splits)

lemma finish_write_guarded: "guarded fl k w (snd (finish_write fl io h x n k q r f branch es w))"
proof (cases "deliver_write fl h q f r branch (wo_replay w)")
  case (Inl e)
  then show ?thesis
    by (auto simp: finish_write_def intro!: guarded_still still_intros split: worker_error.splits facts_error.splits)
next
  case (Inr p)
  obtain result reason au effect where p: "p = ((result, reason, au), effect)" by (metis prod.collapse)
  show ?thesis
    unfolding finish_write_def Inr p sum.case prod.case
    by (intro guarded_if) (auto intro!: execute_guarded guarded_still still_intros)
qed

lemma finish_typed_guarded: "guarded fl k w (snd (finish_typed fl io h x n k q r f branch es w))"
  unfolding finish_typed_def Let_def
  by (intro guarded_if finish_notice_guarded finish_write_guarded guarded_still still_intros)

lemma locked_pass_guarded: "guarded fl k w (snd (locked_pass fl io t p q k raw f branch w))"
  unfolding locked_pass_def
  by (intro guarded_with guarded_if guarded_cases finish_typed_guarded; (rule guarded_still, intro still_intros)?)

text \<open>A pass either stops before it holds the lock, and changes nothing, or runs under it.\<close>

abbreviation held_result :: host_result where
  "held_result \<equiv> (quiet ''LOCK_HELD'' ''watch host lock is already owned; this run yields without evaluating'' ''NONE'' ''NONE'' None)
     \<lparr>hs_lock := ''HELD''\<rparr>"

lemma run_once_cases:
  obtains (locked) payload q st raw f branch where "require_mapping (pa_request p) ''request'' = Inr payload"
    "parse_host_request payload = Inr q" "resolve_host_state_root (pa_root p) (pa_resolved p) = Some st" "host_collect fl (pa_first p) q = Inr (raw, f, branch)"
    "run_once fl io t p w = locked_pass fl io t p q (canonical_watch_dir q f) raw f branch
       (set_dir (canonical_watch_dir q f) (wd_lock_update (\<lambda>_. Unreadable)) w)"
  | (early) "snd (run_once fl io t p w) = w"
      "\<forall>res. fst (run_once fl io t p w) = Inr res \<longrightarrow> res = held_result"
proof (cases "\<exists>payload q st raw f branch. require_mapping (pa_request p) ''request'' = Inr payload \<and> parse_host_request payload = Inr q \<and>
    resolve_host_state_root (pa_root p) (pa_resolved p) = Some st \<and> host_collect fl (pa_first p) q = Inr (raw, f, branch) \<and>
    bind_canonical p st q (canonical_watch_dir q f) (wo_dirs w (canonical_watch_dir q f)) = Inr () \<and> pa_lock p = LockTaken")
  case True
  then obtain payload q st raw f branch where run: "require_mapping (pa_request p) ''request'' = Inr payload"
    "parse_host_request payload = Inr q" "resolve_host_state_root (pa_root p) (pa_resolved p) = Some st" "host_collect fl (pa_first p) q = Inr (raw, f, branch)"
    "bind_canonical p st q (canonical_watch_dir q f) (wo_dirs w (canonical_watch_dir q f)) = Inr ()" "pa_lock p = LockTaken"
    by blast
  then show ?thesis using locked by (simp add: run_once_def reject_def Let_def)
next
  case False
  have "snd (run_once fl io t p w) = w"
    using False
    by (auto simp: run_once_def reject_def withE_def Let_def map_err_Inr_iff
        split: sum.splits option.splits lock_outcome.splits)
  moreover have "\<forall>res. fst (run_once fl io t p w) = Inr res \<longrightarrow> res = held_result"
    using False
    by (auto simp: run_once_def reject_def withE_def Let_def map_err_Inr_iff base_result_def quiet_def
        split: sum.splits option.splits lock_outcome.splits if_splits)
  ultimately show ?thesis by (rule early)
qed

lemma run_once_guarded: "\<exists>k. guarded fl k w (snd (run_once fl io t p w))"
proof (cases rule: run_once_cases [where fl = fl and io = io and t = t and p = p and w = w])
  case (locked payload q st raw f branch)
  let ?k = "canonical_watch_dir q f" and ?w = "set_dir (canonical_watch_dir q f) (wd_lock_update (\<lambda>_. Unreadable)) w"
  have "still fl ?k w ?w" by (simp add: still_def elsewhere_def set_dir_def)
  then show ?thesis using still_guarded locked_pass_guarded unfolding locked(5) by blast
next
  case early
  then show ?thesis using guarded_still [OF still_refl] by simp
qed

section \<open>The effect the adapter authorized\<close>

lemma required_stripped: "require_str v l = Inr s \<Longrightarrow> py_strip s = s"
  by (auto simp: require_str_def Let_def split: json.splits if_splits)

lemma bounded_stripped: "bounded_str d k l = Inr s \<Longrightarrow> py_strip s = s"
  by (auto simp: bounded_str_def bounded_text_def bindE_Inr_iff dest: required_stripped split: if_splits)

lemma request_stripped:
  assumes "parse_host_request raw = Inr q"
  shows "py_strip (hr_repo q) = hr_repo q" "py_strip (hr_workstream q) = hr_workstream q"
    "py_strip (hr_branch q) = hr_branch q" "py_strip (hr_target q) = hr_target q"
    "hr_verification q = Some (b, d) \<Longrightarrow> py_strip b = b \<and> py_strip d = d"
  using assms
  by (auto simp: parse_host_request_def request_verification_def if_not_null_def bindE_Inr_iff
      dest!: bounded_stripped required_stripped split: if_splits prod.splits)

lemma upper_status: "s \<in> set PACKET_STATUSES \<Longrightarrow> py_upper (py_strip s) = s"
proof -
  have "list_all (\<lambda>s. py_upper (py_strip s) = s) PACKET_STATUSES" by code_simp
  then show "s \<in> set PACKET_STATUSES \<Longrightarrow> py_upper (py_strip s) = s" by (simp add: list_all_iff)
qed

lemma required: "require_str (JStr s) l = Inr x \<Longrightarrow> py_strip s = s \<Longrightarrow> x = s"
  by (auto simp: require_str_def split: if_splits)

lemma required_status: "enum (JStr s) l PACKET_STATUSES = Inr x \<Longrightarrow> s \<in> set PACKET_STATUSES \<Longrightarrow> x = s"
  by (auto simp: enum_def require_str_def bindE_Inr_iff upper_status split: if_splits)

lemma required_sha: "worker_sha (JStr s) l = Inr x \<Longrightarrow> full_sha s \<Longrightarrow> x = s"
  by (auto simp: worker_sha_def bindE_Inr_iff full_sha_def hex_lower_plain dest!: required split: if_splits)

lemma parsed_bound:
  assumes "parse_bound (JObj [(''target_repo'', JStr rp), (''workstream'', JStr ws), (''intent_revision'', JInt n),
      (''subject_head'', JStr sha), (''requested_action'', JStr ac), (''branch'', JStr br), (''expected_status'', JStr st)]) = Inr b"
    "py_strip rp = rp" "py_strip ws = ws" "py_strip ac = ac" "py_strip br = br" "full_sha sha" "st \<in> set PACKET_STATUSES"
  shows "b = \<lparr>bq_repo = rp, bq_workstream = ws, bq_revision = n, bq_head = sha, bq_action = ac, bq_branch = br, bq_status = st\<rparr>"
  using assms
  by (auto simp: parse_bound_def require_mapping_def bindE_Inr_iff jget_def jget_or_def require_int_def
      dest!: required required_status required_sha split: if_splits)

lemma parsed_proposed:
  assumes "parse_proposed (JObj [(''target'', JObj [(''kind'', JStr ''issue''), (''id'', JStr i)]), (''content'', JStr c)]) = Inr p"
    "py_strip i = i"
  shows "p = \<lparr>pm_kind = ''issue'', pm_id = i, pm_content = c\<rparr>"
proof -
  have "py_strip ''issue'' = ''issue''" by code_simp
  then show ?thesis
    using assms
    by (auto simp: parse_proposed_def require_mapping_def bindE_Inr_iff jget_def dest!: required split: if_splits)
qed

lemma parsed_verification:
  assumes "parse_verification (JObj [(''binding_assertion'', JStr b), (''dispatch_assertion'', JStr d)]) = Inr v"
    "py_strip b = b" "py_strip d = d"
  shows "v = Some (b, d)"
  using assms
  by (auto simp: parse_verification_def require_mapping_def bindE_Inr_iff jget_def dest!: required split: if_splits)

text \<open>The adapter parses the request back to the facts it was made of.\<close>

lemma parsed_write_request:
  assumes "parse_request fl (write_request f subject action branch target (Some (b, d)) r) = Inr wi"
    "py_strip (pk_repository (packet f)) = pk_repository (packet f)"
    "py_strip (pk_workstream (packet f)) = pk_workstream (packet f)" "pk_status (packet f) \<in> set PACKET_STATUSES"
    "py_strip action = action" "py_strip branch = branch" "py_strip target = target" "full_sha subject"
    "py_strip b = b" "py_strip d = d"
  shows "concrete_effect (wi_bound wi) (wi_proposed wi) = write_effect f subject action branch target r \<and>
    wi_verification wi = Some (b, d)"
proof -
  let ?q = "write_request f subject action branch target (Some (b, d)) r"
  have gets: "jget ?q ''bound_request'' = JObj [(''target_repo'', JStr (pk_repository (packet f))),
      (''workstream'', JStr (pk_workstream (packet f))), (''intent_revision'', JInt (pk_intent_revision (packet f))),
      (''subject_head'', JStr subject), (''requested_action'', JStr action), (''branch'', JStr branch),
      (''expected_status'', JStr (pk_status (packet f)))]"
    "jget ?q ''proposed_mutation'' = JObj [(''target'', JObj [(''kind'', JStr ''issue''), (''id'', JStr target)]),
      (''content'', JStr (effect_content r))]"
    "jget ?q ''verification'' = JObj [(''binding_assertion'', JStr b), (''dispatch_assertion'', JStr d)]"
    by (simp_all add: write_request_def Let_def jget_def)
  have parts: "parse_bound (jget ?q ''bound_request'') = Inr (wi_bound wi)"
    "parse_proposed (jget ?q ''proposed_mutation'') = Inr (wi_proposed wi)"
    "parse_verification (jget ?q ''verification'') = Inr (wi_verification wi)"
    using assms(1) by (auto simp: parse_request_def bindE_Inr_iff split: if_splits prod.splits)
  show ?thesis
    unfolding write_effect_def parsed_bound [OF parts(1) [unfolded gets(1)] assms(2,3,5,6,8,4)]
      parsed_proposed [OF parts(2) [unfolded gets(2)] assms(7)] parsed_verification [OF parts(3) [unfolded gets(3)] assms(9,10)]
    by simp
qed

end
