(* ===== verification/AuthoritySample.thy ===== *)
theory AuthoritySample
  imports SkillsFacts
begin

text \<open>
  A host with one signed binding and one signed dispatch, and a reader of marker records: the samples
  on which the properties of the authority path are applied. The digests in the signed files are left
  as terms, only their length is computed.
\<close>

section \<open>Digests\<close>

lemma length_sha_round: "length (sha_round st kw) = length st"
  by (induction st kw rule: sha_round.induct) (simp_all add: Let_def)

lemma length_foldl: "(\<And>st x. length (f st x) = length st) \<Longrightarrow> length (foldl f st xs) = length st"
  by (induction xs arbitrary: st) simp_all

lemma length_sha_block: "length (sha_block st blk) = length st"
  by (simp add: sha_block_def length_foldl length_sha_round)

lemma length_sha_init: "length sha_init = 8"
proof -
  have "[2..<312] = [2..<20] @ [20..<(312::nat)]" using upt_add_eq_append [of 2 20 292] by simp
  moreover have "length (filter (\<lambda>n. list_all (\<lambda>d. n mod d \<noteq> 0) [2..<n]) [2..<20]) = (8::nat)" by code_simp
  ultimately have "8 \<le> length first_primes" unfolding first_primes_def by (simp only: filter_append length_map length_append)
  then show ?thesis by (simp add: sha_init_def)
qed

lemma length_concat_same: "(\<And>x. length (f x) = n) \<Longrightarrow> length (concat (map f xs)) = n * length xs"
  by (induction xs) simp_all

lemma length_hex_digest: "length (hex_text (sha256 m)) = 64"
proof -
  have "length (sha256 m) = 32"
    by (simp add: sha256_def length_concat_same [of _ 4] word_bytes_def length_foldl length_sha_block length_sha_init)
  then show ?thesis by (simp add: hex_text_def length_concat_same [of _ 2] hex2_def)
qed

lemma hex_digest_hex: "list_all is_hex_lower (hex_text m)"
  using hex2_lower by (auto simp: hex_text_def list_all_iff)

lemma length_hex_sha256 [simp]: "length (hex_sha256 s) = 64"
  by (simp add: hex_sha256_def length_hex_digest)

lemma hex_sha256_nonempty [simp]: "hex_sha256 s \<noteq> []"
  using length_hex_sha256 [of s] by fastforce

lemma hex_sha256_hex [simp]: "list_all is_hex_lower (hex_sha256 s)"
  by (simp add: hex_sha256_def hex_digest_hex)

lemma hex_sha256_plain [simp]: "py_lower (hex_sha256 s) = hex_sha256 s" "py_strip (hex_sha256 s) = hex_sha256 s"
  by (rule hex_lower_plain; simp)+

lemma hex_binding:
  "length s = 64 \<Longrightarrow> list_all is_hex_lower s \<Longrightarrow> safe_dispatch_token a = Some b \<Longrightarrow> effect_binding s a = Some (s, b)"
  by (simp add: effect_binding_def hex_lower_plain)

section \<open>A signed dispatch\<close>

definition no_rat :: "rat \<Rightarrow> string" where "no_rat r = []"

definition sample_bound :: bound_request where
  "sample_bound = \<lparr>bq_repo = ''o/r'', bq_workstream = ''w'', bq_revision = 1, bq_head = replicate 40 CHR ''a'',
     bq_action = ''comment_work_packet'', bq_branch = ''dev'', bq_status = ''ACTIVE''\<rparr>"

definition sample_packet :: authoritative_packet where
  "sample_packet = \<lparr>ap_repo = ''o/r'', ap_workstream = ''w'', ap_revision = 1, ap_status = ''ACTIVE'',
     ap_head = replicate 40 CHR ''a'', ap_branch = ''dev''\<rparr>"

definition sample_proposed :: "string \<Rightarrow> proposed_mutation" where
  "sample_proposed c = \<lparr>pm_kind = ''issue'', pm_id = ''7'', pm_content = c\<rparr>"

definition worker_sample :: "string \<Rightarrow> worker_facts_in" where
  "worker_sample c =
     \<lparr>wi_bound = sample_bound, wi_authoritative = sample_packet, wi_proposed = sample_proposed c,
      wi_verification = Some (''binding'', ''dispatch''), wi_prior = None, wi_outcome = ''NOT_SENT'', wi_failure = ''NONE'',
      wi_retry_count = 0, wi_retry_budget = 3, wi_resource = ''PASS'', wi_admission = ''ALLOW'', wi_deny_class = []\<rparr>"

definition bound_json :: json where
  "bound_json = JObj [(''target_repo'', JStr ''o/r''), (''workstream'', JStr ''w''), (''intent_revision'', JInt 1),
     (''subject_head'', JStr (replicate 40 CHR ''a'')), (''requested_action'', JStr ''comment_work_packet''),
     (''branch'', JStr ''dev''), (''expected_status'', JStr ''ACTIVE'')]"

definition packet_json :: json where
  "packet_json = JObj [(''target_repo'', JStr ''o/r''), (''workstream'', JStr ''w''), (''intent_revision'', JInt 1),
     (''status'', JStr ''ACTIVE''), (''subject_head'', JStr (replicate 40 CHR ''a'')), (''branch'', JStr ''dev'')]"

definition worker_payload :: "string \<Rightarrow> jobj" where
  "worker_payload c =
     [(''bound_request'', bound_json), (''authoritative'', packet_json),
      (''proposed_mutation'', JObj [(''target'', JObj [(''kind'', JStr ''issue''), (''id'', JStr ''7'')]), (''content'', JStr c)]),
      (''resource'', JObj [(''result'', JStr ''PASS'')]), (''admission'', JObj [(''decision'', JStr ''ALLOW'')]),
      (''mutation'', JObj [(''outcome'', JStr ''NOT_SENT'')]), (''failure'', JObj [(''class'', JStr ''NONE'')]),
      (''verification'', JObj [(''binding_assertion'', JStr ''binding''), (''dispatch_assertion'', JStr ''dispatch'')])]"

lemma jget_simps: "jget [] k = JNull" "jget ((k', v) # d) k = (if k' = k then v else jget d k)"
  by (simp_all add: jget_def)

lemma worker_parses: "parse_request no_rat (worker_payload c) = Inr (worker_sample c)" "forbidden_in_obj (worker_payload c) = None"
proof -
  have "parse_bound bound_json = Inr sample_bound" "parse_authoritative packet_json = Inr sample_packet"
    "reject_unknown (worker_payload c) WORKER_KEYS ''request'' = Inr ()"
    "worker_resource (worker_payload c) = Inr ''PASS''" "worker_admission no_rat (worker_payload c) = Inr (''ALLOW'', [])"
    "parse_verification (JObj [(''binding_assertion'', JStr ''binding''), (''dispatch_assertion'', JStr ''dispatch'')]) =
       Inr (Some (''binding'', ''dispatch''))"
    "parse_outcome (JObj [(''outcome'', JStr ''NOT_SENT'')]) = Inr ''NOT_SENT''"
    "worker_failure (JObj [(''class'', JStr ''NONE'')]) = Inr ''NONE''"
    "parse_prior JNull = Inr None" "worker_wait JNull = Inr (0, 3)"
    by code_simp+
  moreover have "parse_proposed (JObj [(''target'', JObj [(''kind'', JStr ''issue''), (''id'', JStr ''7'')]), (''content'', JStr c)]) =
      Inr (sample_proposed c)"
    by code_simp
  ultimately show "parse_request no_rat (worker_payload c) = Inr (worker_sample c)"
    by (simp add: parse_request_def worker_sample_def jhas_def) (simp add: worker_payload_def jget_simps)
  show "forbidden_in_obj (worker_payload c) = None" by code_simp
qed

abbreviation sample_effect :: "string \<Rightarrow> jobj" where
  "sample_effect c \<equiv> concrete_effect sample_bound (sample_proposed c)"

definition sample_scope :: jobj where
  "sample_scope = [(''target_repo'', JStr ''o/r''), (''worktree'', JStr ''/w''), (''workstream'', JStr ''w''),
     (''branch'', JStr ''dev''), (''subject_head'', JStr (replicate 40 CHR ''a'')), (''intent_revision'', JInt 1),
     (''session_id'', JStr ''s1'')]"

definition sample_binding :: jobj where
  "sample_binding = [(''public_key_sha256'', JStr (hex_sha256 ''anchor'')),
     (''policy_digest'', JStr (policy_digest no_rat DEFAULT_PROFILES None)), (''profile'', JStr ''external_write''),
     (''authority_permission'', JStr ''write''), (''approved_classes'', JStr ''external_write''),
     (''scope'', JObj sample_scope), (''signature'', JStr ''signed'')]"

definition sample_dispatch :: "string \<Rightarrow> jobj" where
  "sample_dispatch c = [(''binding_public_key_sha256'', JStr (hex_sha256 ''anchor'')),
     (''binding_sha256'', JStr (signed_payload_sha256 no_rat sample_binding)),
     (''request_sha256'', JStr (canonical_request_sha256 no_rat (sample_effect c))),
     (''policy_digest'', JStr (policy_digest no_rat DEFAULT_PROFILES None)),
     (''scope_sha256'', JStr (canonical_request_sha256 no_rat sample_scope)), (''tool_id'', JStr ''network.post''),
     (''classes'', JList [JStr ''network'', JStr ''external_write'']), (''session_id'', JStr ''s1''),
     (''dispatch_id'', JStr ''d1''), (''expires_at_unix'', JInt 200), (''signature'', JStr ''signed'')]"

definition root_file :: path_stat where
  "root_file = \<lparr>st_is_file = True, st_uid = 0, st_mode = 420, st_parent_uid = 0, st_parent_mode = 493\<rparr>"

definition sample_repo :: repo where
  "sample_repo = \<lparr>rp_contract = Absent, rp_schema = (\<lambda>_. []), rp_inside = (\<lambda>_. True), rp_is_file = (\<lambda>_. False),
     rp_is_worktree = (\<lambda>w. w = ''/w'')\<rparr>"

definition sample_host :: "string \<Rightarrow> host" where
  "sample_host c = \<lparr>ho_linux = True, ho_openssl = Some root_file, ho_openssl_runs = True, ho_anchor = Some root_file,
     ho_anchor_text = ''anchor'', ho_verify = (\<lambda>key msg sig. key = ''anchor'' \<and> sig = ''signed''),
     ho_file = (\<lambda>p. if p = ''binding'' then Signed (JObj sample_binding) else if p = ''dispatch'' then Signed (JObj (sample_dispatch c))
                  else NoFile),
     ho_now = 100, ho_repo = (\<lambda>_. sample_repo)\<rparr>"

definition sample_calls :: syscalls where
  "sample_calls = \<lparr>sc_ready = True, sc_open_error = None, sc_read_ok = True, sc_truncate_ok = True, sc_write = Some 4096,
     sc_sync_ok = True\<rparr>"

lemma sample_ready: "ho_linux (sample_host c)" "openssl_ready (sample_host c)" "trust_anchor (sample_host c) = Some ''anchor''"
  "ho_repo (sample_host c) w = sample_repo" "ho_now (sample_host c) = 100"
  by (simp_all add: sample_host_def openssl_ready_def trust_anchor_def host_path_provenance_ok_def root_file_def shared_write_def)

lemma sample_verified:
  "verify_signed_json no_rat (sample_host c) ''binding'' ''anchor'' = Inr sample_binding"
  "verify_signed_json no_rat (sample_host c) ''dispatch'' ''anchor'' = Inr (sample_dispatch c)"
  by (simp_all add: verify_Inr signed_by_def sample_ready)
    (simp_all add: sample_host_def sample_binding_def sample_dispatch_def jhas_def jget_simps json_str_def)

lemma sample_state: "load_effective_state no_rat sample_repo = Inr (DEFAULT_PROFILES, policy_digest no_rat DEFAULT_PROFILES None)"
  by (simp add: load_effective_state_def check_contract_def sample_repo_def load_contract_instance_def merge_profiles_def Let_def)

lemma sample_scoped: "high_risk_scope_problem no_rat sample_repo sample_binding (sample_dispatch c) (sample_effect c) = None"
proof -
  have scope: "jget sample_binding ''scope'' = JObj sample_scope"
    "jget (sample_dispatch c) ''scope_sha256'' = JStr (canonical_request_sha256 no_rat sample_scope)"
    "jget (sample_dispatch c) ''session_id'' = JStr ''s1''"
    by (simp_all add: sample_binding_def sample_dispatch_def jget_simps)
  have checks: "set (map fst sample_scope) = set SCOPE_KEYS" "scope_fields_ok sample_scope" "jget sample_scope ''worktree'' = JStr ''/w''"
    "list_all (\<lambda>k. same_value (jget (sample_effect c) k) (jget sample_scope k))
       [''target_repo'', ''workstream'', ''branch'', ''subject_head'', ''intent_revision'']" "jget sample_scope ''session_id'' = JStr ''s1''"
    by code_simp+
  show ?thesis
    by (simp only: high_risk_scope_problem_def scope json.case checks) (simp add: sample_repo_def)
qed

lemma sample_fields:
  "jget sample_binding ''public_key_sha256'' = JStr (hex_sha256 ''anchor'')"
  "jget sample_binding ''policy_digest'' = JStr (policy_digest no_rat DEFAULT_PROFILES None)"
  "jget sample_binding ''authority_permission'' = JStr ''write''" "jget sample_binding ''authority_basis'' = JNull"
  "jget sample_binding ''approved_classes'' = JStr ''external_write''" "jget sample_binding ''profile'' = JStr ''external_write''"
  "jget (sample_dispatch c) ''binding_public_key_sha256'' = JStr (hex_sha256 ''anchor'')"
  "jget (sample_dispatch c) ''binding_sha256'' = JStr (signed_payload_sha256 no_rat sample_binding)"
  "jget (sample_dispatch c) ''request_sha256'' = JStr (canonical_request_sha256 no_rat (sample_effect c))"
  "jget (sample_dispatch c) ''policy_digest'' = JStr (policy_digest no_rat DEFAULT_PROFILES None)"
  "jget (sample_dispatch c) ''tool_id'' = JStr ''network.post''" "jget (sample_dispatch c) ''dispatch_id'' = JStr ''d1''"
  "jget (sample_dispatch c) ''classes'' = JList [JStr ''network'', JStr ''external_write'']"
  "jget (sample_dispatch c) ''expires_at_unix'' = JInt 200"
  by (simp_all add: sample_binding_def sample_dispatch_def jget_simps)

lemma sample_or_empty:
  "or_empty no_rat sample_binding ''profile'' = ''external_write''"
  "or_empty no_rat (sample_dispatch c) ''tool_id'' = ''network.post''"
  "or_empty no_rat sample_binding ''public_key_sha256'' = hex_sha256 ''anchor''"
  "or_empty no_rat sample_binding ''policy_digest'' = policy_digest no_rat DEFAULT_PROFILES None"
  by (simp_all add: or_empty_def sample_fields json_or_def json_str_def policy_digest_def)

lemma sample_session:
  "bind_session no_rat DEFAULT_PROFILES d ''external_write'' (JStr ''write'')
     (json_str no_rat (json_or JNull (JStr ''collaborator_permission''))) d (JStr ''external_write'') (hex_sha256 ''anchor'') =
   Inr \<lparr>sb_profile = ''external_write'', sb_digest = d, sb_permission = ''write'', sb_basis = ''collaborator_permission'',
        sb_approved = {''external_write''}, sb_key_hash = hex_sha256 ''anchor''\<rparr>"
proof -
  have "py_lower (py_strip (json_str no_rat (json_or JNull (JStr ''collaborator_permission'')))) = ''collaborator_permission''"
    "session_permission no_rat ''external_write'' (JStr ''write'') ''collaborator_permission'' = Inr ''write''"
    "map_of DEFAULT_PROFILES ''external_write'' \<noteq> None"
    "normalize_classes no_rat (JStr ''external_write'') = Some {''external_write''}"
    "{''external_write''} \<subseteq> set ACTION_CLASSES"
    by code_simp+
  then show ?thesis by (simp add: bind_session_def)
qed

lemma sample_action:
  "evaluate_action DEFAULT_PROFILES d \<lparr>sb_profile = ''external_write'', sb_digest = d, sb_permission = ''write'',
      sb_basis = ''collaborator_permission'', sb_approved = {''external_write''}, sb_key_hash = k\<rparr> ''network.post''
     [''network'', ''external_write''] = allow"
proof -
  have "map_of DEFAULT_PROFILES ''external_write'' = Some (profile_of
      [''read'', ''repo_write'', ''shell'', ''network'', ''external_read'', ''external_write''] [''external_write''])"
    "map_of TOOL_REGISTRY ''network.post'' = Some [''network'', ''external_write'']"
    by (simp_all add: DEFAULT_PROFILES_def TOOL_REGISTRY_def)
  moreover have "sort [''network'', ''external_write''] = [''external_write'', ''network'']" by code_simp
  ultimately show ?thesis
    by (simp add: evaluate_action_def AUTHORIZED_PERMISSIONS_def profile_of_def)
qed

lemma sample_policy:
  "policy_verdict no_rat sample_repo sample_binding (sample_dispatch c) {''network'', ''external_write''} = Inr allow"
proof -
  have "action_request_for_tool ''network.post'' = Inr [''network'', ''external_write'']"
    by (simp add: action_request_for_tool_def TOOL_REGISTRY_def)
  then show ?thesis
    by (simp add: policy_verdict_def sample_state map_err_def sample_fields sample_or_empty sample_session sample_action)
qed

lemma sample_checks:
  "authorize_checks no_rat (sample_host c) w ''binding'' ''dispatch'' (Some (Inr (JObj (sample_effect c)))) = Inr (Some ''d1'')"
proof -
  have request: "request_payload (Some (Inr (JObj (sample_effect c)))) = Inr (sample_effect c)" by code_simp
  have pair: "verified_pair no_rat (sample_host c) ''anchor'' ''binding'' ''dispatch'' = Inr (sample_binding, (sample_dispatch c))"
    by (simp add: verified_pair_def sample_verified map_err_def) (simp add: sample_host_def)
  have hashes: "bound_hashes no_rat ''anchor'' sample_binding (sample_dispatch c) (sample_effect c) = Inr ()"
    by (simp add: bound_hashes_Inr sample_fields)
  have classes: "dispatch_classes no_rat (sample_dispatch c) = Inr {''network'', ''external_write''}"
    by (simp add: dispatch_classes_def sample_fields json_or_def json_str_def)
  have "py_strip ''d1'' \<noteq> []" by code_simp
  then have risk: "high_risk_dispatch no_rat (sample_host c) sample_repo sample_binding (sample_dispatch c) (sample_effect c)
      {''network'', ''external_write''} = Inr (Some ''d1'')"
    by (simp add: high_risk_dispatch_def sample_scoped sample_fields expiry_def sample_ready HIGH_RISK_CLASSES_def)
  show ?thesis
    by (simp add: authorize_checks_def sample_ready request pair hashes classes risk sample_policy)
qed

lemma sample_gate:
  "authorize_concrete_effect no_rat (sample_host c) sc (Some (''binding'', ''dispatch'')) (sample_effect c) False seen dir =
     (Inr ''ALLOW'', dir)"
proof -
  have tree: "signed_worktree sample_binding = Some ''/w''"
    by (simp add: signed_worktree_def sample_binding_def sample_scope_def jget_simps starts_with_def)
  have perm: "authorize_permission no_rat (JStr ''write'') = Inr ''write''" by code_simp
  show ?thesis
    by (simp add: authorize_concrete_effect_def sample_ready sample_verified sample_fields DISPATCH_TOOL_ID_def perm tree
        authorize_def sample_checks)
qed

lemma sample_worker:
  "worker_evaluate no_rat (sample_host c) sc (JObj (worker_payload c)) False seen dir =
     (worker_emit ''APPLIED'' ''host-verified dispatch matches this concrete external effect''
        (request_digest no_rat sample_bound (sample_proposed c)) True, dir)"
proof -
  have blocked: "worker_blocked no_rat (worker_sample c) = None"
    by (simp add: worker_blocked_None mismatches_Nil worker_sample_def sample_bound_def sample_packet_def
        ALLOWED_ACTIONS_def AMBIGUOUS_OUTCOMES_def)
  have parts: "wi_bound (worker_sample c) = sample_bound" "wi_proposed (worker_sample c) = sample_proposed c"
    "wi_verification (worker_sample c) = Some (''binding'', ''dispatch'')"
    by (simp_all add: worker_sample_def)
  show ?thesis
    by (simp add: worker_evaluate_def require_mapping_def worker_parses worker_decide_def blocked parts sample_gate)
qed

section \<open>A reader of marker records\<close>

text \<open>The values between the fixed parts of a record; a text that starts otherwise is refused.\<close>

definition until_quote :: "string \<Rightarrow> string" where
  "until_quote s = takeWhile (\<lambda>c. c \<noteq> DQUOTE) s"

definition read_record :: "string \<Rightarrow> json option" where
  "read_record s =
     (if s = [] then None
      else (let rest = drop 37 s; effect = until_quote rest
            in Some (JObj [(''state'', JStr (take 8 (drop 10 s))), (''effect_sha256'', JStr effect),
                           (''attempt_id'', JStr (until_quote (drop (length effect + 16) rest)))])))"

definition sample_io :: text_io where
  "sample_io = \<lparr>io_loads = read_record, io_strict = Some, io_replace = (\<lambda>s. s)\<rparr>"

lemma hex_token: "is_hex_lower c \<Longrightarrow> token_char c"
  by (auto simp: is_hex_lower_def token_char_def is_alnum_ascii_def is_lower_ascii_def)

lemma token_plain: "token_char c \<Longrightarrow> json_esc_char c = [c] \<and> c \<noteq> DQUOTE"
proof -
  assume c: "token_char c"
  then have code: "45 \<le> code_of c \<and> code_of c \<le> 122 \<and> code_of c \<noteq> 92"
    by (auto simp: token_char_def is_alnum_ascii_def is_digit_def is_lower_ascii_def is_upper_ascii_def)
  then have "c \<noteq> DQUOTE" "c \<noteq> BACKSLASH" by auto
  then show ?thesis using code by (auto simp: json_esc_char_def Let_def)
qed

lemma plain_quote: "list_all token_char s \<Longrightarrow> json_quote s = DQUOTE # s @ [DQUOTE]"
  by (induction s) (simp_all add: json_quote_def token_plain)

lemma plain_until: "list_all token_char s \<Longrightarrow> until_quote (s @ DQUOTE # r) = s"
  by (induction s) (simp_all add: until_quote_def token_plain)

lemma record_plain:
  assumes "state \<in> {''reserved'', ''consumed''}" "list_all token_char x" "list_all token_char y"
  shows "record_text state x y =
    [CHR 0x7B] @ DQUOTE # ''state'' @ [DQUOTE, CHR '':'', DQUOTE] @ state @ [DQUOTE, CHR '','', DQUOTE] @ ''effect_sha256'' @
    [DQUOTE, CHR '':'', DQUOTE] @ x @ [DQUOTE, CHR '','', DQUOTE] @ ''attempt_id'' @ [DQUOTE, CHR '':'', DQUOTE] @ y @ [DQUOTE, CHR 0x7D]"
proof -
  have "list_all token_char state" "list_all token_char ''state''" "list_all token_char ''effect_sha256''"
    "list_all token_char ''attempt_id''"
    using assms(1) by (auto simp: token_char_def is_alnum_ascii_def is_digit_def is_lower_ascii_def is_upper_ascii_def)
  then show ?thesis using assms(2,3) by (simp add: record_text_def plain_quote)
qed

lemma record_reads_back:
  assumes "state \<in> {''reserved'', ''consumed''}" "list_all token_char x" "list_all token_char y"
  shows "read_record (record_text state x y) =
    Some (JObj [(''state'', JStr state), (''effect_sha256'', JStr x), (''attempt_id'', JStr y)])"
proof -
  have "length state = 8" using assms(1) by auto
  then show ?thesis
    using plain_until [OF assms(2)] plain_until [OF assms(3)]
    by (simp add: record_plain [OF assms] read_record_def Let_def)
qed

lemma hex_tokens: "list_all is_hex_lower s \<Longrightarrow> list_all token_char s"
  by (simp add: list_all_iff hex_token)

end
