(* ===== verification/AuthorityProps.thy ===== *)
theory AuthorityProps
  imports AuthoritySample
begin

text \<open>
  What the authority path promises: a contract can only narrow the profiles, an allowed action rests
  on two signed assertions for exactly that request, a worker's write is bound to the authoritative
  packet and to one dispatch, and a dispatch is taken once over any interleaving of the calls that
  take it.
\<close>

section \<open>Markers\<close>

definition keeps_markers :: "replay_dir \<Rightarrow> replay_dir \<Rightarrow> bool" where
  "keeps_markers dir dir' = (\<forall>k. map_of dir k \<noteq> None \<longrightarrow> map_of dir' k \<noteq> None)"

text \<open>\<open>takes name\<close>: the marker was not there before and is there afterwards.\<close>

definition takes :: "string \<Rightarrow> replay_dir \<Rightarrow> replay_dir \<Rightarrow> bool" where
  "takes name dir dir' = (map_of dir name = None \<and> map_of dir' name \<noteq> None)"

lemma keeps_markers_refl [simp]: "keeps_markers dir dir"
  by (simp add: keeps_markers_def)

lemma create_takes:
  "create_marker sc name content dir = (r, dir') \<Longrightarrow> keeps_markers dir dir' \<and> (r = Created \<longrightarrow> takes name dir dir')"
  by (auto simp: create_marker_def keeps_markers_def takes_def map_add_def split: option.splits if_splits)

lemma consume_takes:
  assumes "consume_dispatch_once sc i seen dir = (r, dir')"
  shows "keeps_markers dir dir'" "r = ''ok'' \<Longrightarrow> \<exists>tok. safe_dispatch_token i = Some tok \<and> takes (dispatch_marker tok) dir dir'"
  using assms
  by (auto simp: consume_dispatch_once_def dest!: create_takes
      split: option.splits if_splits prod.splits created.splits os_error.splits)

lemma reserve_takes:
  assumes "reserve_dispatch fl io sc sc2 i e a seen dir = (r, dir')"
  shows "keeps_markers dir dir'"
    "r = Answer ''reserved'' \<Longrightarrow> \<exists>tok. safe_dispatch_token i = Some tok \<and> takes (dispatch_marker tok) dir dir'"
proof -
  have "owned x y z \<noteq> ''reserved''" for x y z by (simp add: owned_def)
  then show "keeps_markers dir dir'"
    "r = Answer ''reserved'' \<Longrightarrow> \<exists>tok. safe_dispatch_token i = Some tok \<and> takes (dispatch_marker tok) dir dir'"
    using assms
    by (auto simp: reserve_dispatch_def dest!: create_takes
        split: option.splits if_splits prod.splits created.splits os_error.splits)
qed

lemma finalize_keeps: "finalize_dispatch fl io sc i e a dir = (r, dir') \<Longrightarrow> keeps_markers dir dir'"
  by (auto simp: finalize_dispatch_def rewrite_marker_def Let_def keeps_markers_def dict_simps
      split: option.splits if_splits prod.splits json.splits)

lemma authorize_keeps: "authorize fl h sc base bp dp parsed c seen dir = (r, dir') \<Longrightarrow> keeps_markers dir dir'"
  by (auto simp: authorize_def Let_def dest: consume_takes(1) split: sum.splits stop.splits option.splits if_splits prod.splits)

lemma effect_keeps: "authorize_concrete_effect fl h sc ver eff c seen dir = (r, dir') \<Longrightarrow> keeps_markers dir dir'"
  by (auto simp: authorize_concrete_effect_def Let_def dest: authorize_keeps
      split: option.splits prod.splits sum.splits if_splits auth_error.splits)

lemma worker_keeps: "worker_evaluate fl h sc p c seen dir = (r, dir') \<Longrightarrow> keeps_markers dir dir'"
  by (auto simp: worker_evaluate_def worker_decide_def Let_def dest: effect_keeps
      split: sum.splits option.splits prod.splits)

section \<open>Runs of the replay boundary\<close>

text \<open>
  One call of one process: a consumption, a reservation, a finalisation, or a worker evaluation that
  may write. \<open>call_step\<close> gives the dispatch it took, if any: consumed, reserved or written under.
\<close>

datatype store_call =
    Consume syscalls string
  | Reserve syscalls syscalls string string string
  | Finalize syscalls string string string
  | Evaluate host syscalls json

definition dispatch_of :: "(rat \<Rightarrow> string) \<Rightarrow> host \<Rightarrow> json \<Rightarrow> string option" where
  "dispatch_of fl h payload =
     (case payload of
        JObj data \<Rightarrow>
          (case parse_request fl data of
             Inr f \<Rightarrow>
               (case wi_verification f of
                  Some (bp, dp) \<Rightarrow>
                    (case ho_file h dp of
                       Signed (JObj d) \<Rightarrow> (case jget d ''dispatch_id'' of JStr i \<Rightarrow> safe_dispatch_token i | _ \<Rightarrow> None)
                     | _ \<Rightarrow> None)
                | None \<Rightarrow> None)
           | Inl _ \<Rightarrow> None)
      | _ \<Rightarrow> None)"

fun call_step :: "(rat \<Rightarrow> string) \<Rightarrow> text_io \<Rightarrow> store_call \<Rightarrow> replay_dir \<Rightarrow> replay_dir \<Rightarrow> string option \<times> replay_dir" where
  "call_step fl io (Consume sc i) seen dir =
     (let (r, dir') = consume_dispatch_once sc i seen dir in (if r = ''ok'' then safe_dispatch_token i else None, dir'))"
| "call_step fl io (Reserve sc sc2 i e a) seen dir =
     (let (r, dir') = reserve_dispatch fl io sc sc2 i e a seen dir
      in (if r = Answer ''reserved'' then safe_dispatch_token i else None, dir'))"
| "call_step fl io (Finalize sc i e a) seen dir = (let (r, dir') = finalize_dispatch fl io sc i e a dir in (None, dir'))"
| "call_step fl io (Evaluate h sc p) seen dir =
     (let (r, dir') = worker_evaluate fl h sc p True seen dir
      in (case r of Inr c \<Rightarrow> if cf_authorizes_write c then dispatch_of fl h p else None | Inl e \<Rightarrow> None, dir'))"

text \<open>
  Any number of processes: each call may have looked at any directory before it created its file.
  The list holds what each call took.
\<close>

inductive store_run :: "(rat \<Rightarrow> string) \<Rightarrow> text_io \<Rightarrow> replay_dir \<Rightarrow> string option list \<Rightarrow> bool"
  for fl :: "rat \<Rightarrow> string" and io :: text_io
where
  start: "store_run fl io dir []"
| call: "store_run fl io dir taken \<Longrightarrow> call_step fl io c seen dir = (took, dir') \<Longrightarrow> store_run fl io dir' (taken @ [took])"

inductive_cases store_run_Nil: "store_run fl io dir []"

lemma write_takes:
  assumes "worker_evaluate fl h sc p True seen dir = (Inr c, dir')" "cf_authorizes_write c"
  shows "\<exists>tok. dispatch_of fl h p = Some tok \<and> takes (dispatch_marker tok) dir dir'"
proof -
  obtain data f where w: "p = JObj data" "parse_request fl data = Inr f"
    "authorize_concrete_effect fl h sc (wi_verification f) (concrete_effect (wi_bound f) (wi_proposed f)) True seen dir
       = (Inr ''ALLOW'', dir')"
    using worker_write [OF assms] by metis
  obtain bp dp anchor dispatch worktree v where e: "wi_verification f = Some (bp, dp)"
    "signed_by fl h anchor dp dispatch" "jget dispatch ''tool_id'' = JStr DISPATCH_TOOL_ID"
    "authorize fl h sc worktree bp dp (Some (Inr (JObj (concrete_effect (wi_bound f) (wi_proposed f))))) True seen dir
       = (Inr v, dir')" "vd_allowed v"
    using effect_allowed [OF w(3)] by blast
  obtain i where i: "authorize_checks fl h worktree bp dp (Some (Inr (JObj (concrete_effect (wi_bound f) (wi_proposed f))))) = Inr i"
    "case i of Some k \<Rightarrow> consume_dispatch_once sc k seen dir = (''ok'', dir') | None \<Rightarrow> True"
    using authorize_allowed [OF e(4,5)] by (auto split: option.splits)
  obtain dispatch' cs binding request where c: "signed_by fl h anchor dp dispatch' \<or> True"
    "ho_file h dp = Signed (JObj dispatch')"
    "map_of TOOL_REGISTRY (or_empty fl dispatch' ''tool_id'') = Some cs"
    "if set cs \<inter> set HIGH_RISK_CLASSES = {} then i = None
     else (\<exists>k. i = Some k \<and> scoped_dispatch fl h (ho_repo h worktree) binding dispatch' request k)"
    by (rule checks_Inr [OF i(1)]) (auto simp: signed_by_def)
  have same: "dispatch' = dispatch" using c(2) e(2) by (simp add: signed_by_def)
  have "or_empty fl dispatch ''tool_id'' = DISPATCH_TOOL_ID"
    using e(3) by (simp add: or_empty_def json_or_def json_str_def DISPATCH_TOOL_ID_def)
  then have "cs = [''network'', ''external_write'']" using c(3) same by (simp add: DISPATCH_TOOL_ID_def TOOL_REGISTRY_def)
  then have "set cs \<inter> set HIGH_RISK_CLASSES \<noteq> {}" by (simp add: HIGH_RISK_CLASSES_def)
  then obtain k where k: "i = Some k" "jget dispatch ''dispatch_id'' = JStr k"
    using c(4) same by (auto simp: scoped_dispatch_def)
  then obtain tok where "safe_dispatch_token k = Some tok" "takes (dispatch_marker tok) dir dir'"
    using i(2) consume_takes(2) by fastforce
  moreover have "dispatch_of fl h p = safe_dispatch_token k"
    using w(1,2) e(1) c(2) same k(2) by (simp add: dispatch_of_def)
  ultimately show ?thesis by simp
qed

lemma call_takes:
  assumes "call_step fl io c seen dir = (took, dir')"
  shows "keeps_markers dir dir' \<and> (\<forall>tok. took = Some tok \<longrightarrow> takes (dispatch_marker tok) dir dir')"
proof (cases c)
  case (Consume sc i)
  then show ?thesis using assms consume_takes [of sc i seen dir]
    by (auto split: prod.splits if_splits)
next
  case (Reserve sc sc2 i e a)
  then show ?thesis using assms reserve_takes [of fl io sc sc2 i e a seen dir]
    by (auto split: prod.splits if_splits)
next
  case (Finalize sc i e a)
  then show ?thesis using assms finalize_keeps by (auto split: prod.splits)
next
  case (Evaluate h sc p)
  then show ?thesis using assms worker_keeps write_takes [of fl h sc p seen dir]
    by (auto split: prod.splits sum.splits if_splits)
qed

lemma run_taken:
  assumes "store_run fl io dir taken"
  shows "(Some tok \<in> set taken \<longrightarrow> map_of dir (dispatch_marker tok) \<noteq> None) \<and> count_list taken (Some tok) \<le> 1"
  using assms
proof induction
  case (call dir taken c seen took dir')
  note step = call_takes [OF call.hyps(2)]
  have new: "took = Some tok \<Longrightarrow> Some tok \<notin> set taken"
    using step call.IH by (auto simp: takes_def)
  then show ?case
    using step call.IH by (auto simp: keeps_markers_def takes_def count_list_0_iff)
qed simp

text \<open>
  C22: a dispatch is taken once. Over any interleaving of consumptions, reservations, finalisations and
  worker evaluations, whatever each of them saw before it created its marker and whichever system
  calls fail, at most one call is told that it consumed the dispatch, reserved it or may write.
\<close>

theorem dispatch_taken_once:
  assumes "store_run fl io dir taken" shows "count_list taken (Some tok) \<le> 1"
  using run_taken [OF assms] by blast

text \<open>The second consumption looked at the directory before the first one created its marker.\<close>

lemma consumed_short: "take 4096 consumed_text = consumed_text"
proof -
  have "length consumed_text = 21" by code_simp
  then show ?thesis by simp
qed

lemma sample_token: "safe_dispatch_token ''d1'' = Some ''d1''" "safe_dispatch_token ''t1'' = Some ''t1''"
  by code_simp+

lemma sample_markers: "dispatch_marker ''d1'' = ''dispatch-d1''" "legacy_consumed_marker ''d1'' = ''consumed-d1''"
  by (simp_all add: dispatch_marker_def legacy_consumed_marker_def)

lemma raced_run: "store_run no_rat sample_io [(''dispatch-d1'', consumed_text)] [Some ''d1'', None]"
proof -
  have steps: "call_step no_rat sample_io (Consume sample_calls ''d1'') [] [] = (Some ''d1'', [(''dispatch-d1'', consumed_text)])"
    "call_step no_rat sample_io (Consume sample_calls ''d1'') [] [(''dispatch-d1'', consumed_text)] =
       (None, [(''dispatch-d1'', consumed_text)])"
    by (simp_all add: consume_dispatch_once_def create_marker_def sample_token sample_markers sample_calls_def consumed_short)
  have "store_run no_rat sample_io [] []" by (rule start)
  then have "store_run no_rat sample_io [(''dispatch-d1'', consumed_text)] [Some ''d1'']" using call [OF _ steps(1)] by fastforce
  then show ?thesis using call [OF _ steps(2)] by fastforce
qed

lemma dispatch_taken_once_witness: "count_list [Some ''d1'', None] (Some ''d1'') \<le> 1"
  using dispatch_taken_once [OF raced_run, of "''d1''"] by simp

section \<open>Writes\<close>

definition bound_keys :: "string list" where
  "bound_keys = [''target_repo'', ''workstream'', ''branch'', ''subject_head'', ''intent_revision'']"

lemma if_Some_None: "(if b then Some x else y) = None \<longleftrightarrow> \<not> b \<and> y = None"
  by simp

lemma scope_matches:
  assumes "high_risk_scope_problem fl rp binding dispatch request = None"
  shows "\<exists>scope. jget binding ''scope'' = JObj scope \<and> scope_fields_ok scope \<and>
    list_all (\<lambda>k. same_value (jget request k) (jget scope k)) bound_keys \<and>
    jget dispatch ''session_id'' = jget scope ''session_id''"
proof -
  obtain scope where scope: "jget binding ''scope'' = JObj scope"
    using assms unfolding high_risk_scope_problem_def by (cases "jget binding ''scope''") simp_all
  then show ?thesis
    using assms unfolding high_risk_scope_problem_def bound_keys_def scope json.case if_Some_None not_not by blast
qed

lemma parse_outcome_known: "parse_outcome raw = Inr x \<Longrightarrow> x \<in> set MUTATION_OUTCOMES"
  by (auto simp: parse_outcome_def bindE_Inr_iff MUTATION_OUTCOMES_def dest: enum_Inr split: if_splits)

lemma request_outcome: "parse_request fl data = Inr f \<Longrightarrow> wi_outcome f \<in> set MUTATION_OUTCOMES"
  by (auto simp: parse_request_def bindE_Inr_iff dest: parse_outcome_known split: if_splits prod.splits)

lemma effect_values:
  "jget (concrete_effect b p) ''target_repo'' = JStr (bq_repo b)" "jget (concrete_effect b p) ''workstream'' = JStr (bq_workstream b)"
  "jget (concrete_effect b p) ''branch'' = JStr (bq_branch b)" "jget (concrete_effect b p) ''subject_head'' = JStr (bq_head b)"
  "jget (concrete_effect b p) ''intent_revision'' = JInt (bq_revision b)"
  by (simp_all add: concrete_effect_def jget_def)

lemma same_value_str: "same_value (JStr a) v \<Longrightarrow> v = JStr a"
  by (auto simp: same_value_def split: json.splits)

lemma same_value_int: "same_value (JInt a) v \<Longrightarrow> v = JInt a"
  by (auto simp: same_value_def split: json.splits)

text \<open>What a write under one signed dispatch needs: the two assertions, bound to each other and to the effect.\<close>

definition dispatched ::
    "(rat \<Rightarrow> string) \<Rightarrow> host \<Rightarrow> string \<Rightarrow> string \<Rightarrow> bound_request \<Rightarrow> proposed_mutation \<Rightarrow> bool" where
  "dispatched fl h bp dp b p =
     (\<exists>anchor binding dispatch scope expires approved.
        trust_anchor h = Some anchor \<and> signed_by fl h anchor bp binding \<and> signed_by fl h anchor dp dispatch \<and>
        jget dispatch ''binding_sha256'' = JStr (signed_payload_sha256 fl binding) \<and>
        jget dispatch ''request_sha256'' = JStr (request_digest fl b p) \<and>
        jget dispatch ''tool_id'' = JStr ''network.post'' \<and>
        normalize_permission fl (jget binding ''authority_permission'') \<in> {''admin'', ''maintain'', ''write''} \<and>
        normalize_classes fl (jget binding ''approved_classes'') = Some approved \<and>
        within_profile (or_empty fl binding ''profile'') approved [''network'', ''external_write''] \<and>
        jget binding ''scope'' = JObj scope \<and> jget scope ''target_repo'' = JStr (bq_repo b) \<and>
        jget scope ''workstream'' = JStr (bq_workstream b) \<and> jget scope ''branch'' = JStr (bq_branch b) \<and>
        jget scope ''subject_head'' = JStr (bq_head b) \<and> jget scope ''intent_revision'' = JInt (bq_revision b) \<and>
        jget dispatch ''session_id'' = jget scope ''session_id'' \<and>
        expiry (jget dispatch ''expires_at_unix'') = Some expires \<and> ho_now h < expires)"

lemma allowed_dispatched:
  assumes "authorize_concrete_effect fl h sc (Some (bp, dp)) (concrete_effect b p) c seen dir = (Inr ''ALLOW'', dir')"
  shows "dispatched fl h bp dp b p"
proof -
  let ?eff = "concrete_effect b p"
  obtain anchor binding dispatch worktree v where e: "trust_anchor h = Some anchor"
    "signed_by fl h anchor bp binding" "signed_by fl h anchor dp dispatch"
    "jget dispatch ''tool_id'' = JStr DISPATCH_TOOL_ID" "jget dispatch ''request_sha256'' = JStr (canonical_request_sha256 fl ?eff)"
    "normalize_permission fl (jget binding ''authority_permission'') \<in> set AUTHORIZED_PERMISSIONS"
    "authorize fl h sc worktree bp dp (Some (Inr (JObj ?eff))) c seen dir = (Inr v, dir')" "vd_allowed v"
    using effect_allowed [OF assms] by auto
  obtain i where i: "authorize_checks fl h worktree bp dp (Some (Inr (JObj ?eff))) = Inr i"
    using authorize_allowed [OF e(7,8)] by blast
  obtain anchor' binding' dispatch' request cs approved where c: "trust_anchor h = Some anchor'"
    "request_payload (Some (Inr (JObj ?eff))) = Inr request"
    "signed_by fl h anchor' bp binding'" "signed_by fl h anchor' dp dispatch'"
    "bound_hashes fl anchor' binding' dispatch' request = Inr ()"
    "map_of TOOL_REGISTRY (or_empty fl dispatch' ''tool_id'') = Some cs"
    "normalize_classes fl (jget binding' ''approved_classes'') = Some approved"
    "within_profile (or_empty fl binding' ''profile'') approved cs"
    "if set cs \<inter> set HIGH_RISK_CLASSES = {} then i = None
     else (\<exists>k. i = Some k \<and> scoped_dispatch fl h (ho_repo h worktree) binding' dispatch' request k)"
    by (rule checks_Inr [OF i])
  have same: "binding' = binding" "dispatch' = dispatch" using c(3,4) e(2,3) by (simp_all add: signed_by_def)
  have req: "request = ?eff" using c(2) by (auto simp: request_payload_def split: if_splits)
  have "or_empty fl dispatch ''tool_id'' = DISPATCH_TOOL_ID"
    using e(4) by (simp add: or_empty_def json_or_def json_str_def DISPATCH_TOOL_ID_def)
  then have cs: "cs = [''network'', ''external_write'']" using c(6) same by (simp add: DISPATCH_TOOL_ID_def TOOL_REGISTRY_def)
  then have "set cs \<inter> set HIGH_RISK_CLASSES \<noteq> {}" by (simp add: HIGH_RISK_CLASSES_def)
  then obtain k where k: "scoped_dispatch fl h (ho_repo h worktree) binding dispatch ?eff k"
    using c(9) same req by auto
  obtain expires where ex: "expiry (jget dispatch ''expires_at_unix'') = Some expires" "ho_now h < expires"
    using k by (auto simp: scoped_dispatch_def)
  obtain scope where scope: "jget binding ''scope'' = JObj scope"
    "list_all (\<lambda>key. same_value (jget ?eff key) (jget scope key)) bound_keys" "jget dispatch ''session_id'' = jget scope ''session_id''"
    using k scope_matches [of fl "ho_repo h worktree" binding dispatch ?eff] by (auto simp: scoped_dispatch_def)
  have fields: "jget scope ''target_repo'' = JStr (bq_repo b)" "jget scope ''workstream'' = JStr (bq_workstream b)"
    "jget scope ''branch'' = JStr (bq_branch b)" "jget scope ''subject_head'' = JStr (bq_head b)"
    "jget scope ''intent_revision'' = JInt (bq_revision b)"
    using scope(2) by (simp_all add: bound_keys_def effect_values same_value_str same_value_int)
  have "jget dispatch ''binding_sha256'' = JStr (signed_payload_sha256 fl binding)"
    using c(5) same by (simp add: bound_hashes_Inr)
  moreover have "normalize_permission fl (jget binding ''authority_permission'') \<in> {''admin'', ''maintain'', ''write''}"
    using e(6) by (simp add: AUTHORIZED_PERMISSIONS_def)
  moreover have "jget dispatch ''tool_id'' = JStr ''network.post''" using e(4) by (simp add: DISPATCH_TOOL_ID_def)
  moreover have "normalize_classes fl (jget binding ''approved_classes'') = Some approved"
    "within_profile (or_empty fl binding ''profile'') approved [''network'', ''external_write'']"
    using c(7,8) same cs by simp_all
  ultimately show ?thesis
    unfolding dispatched_def request_digest_def using e(1-3,5) scope(1,3) fields ex by blast
qed



text \<open>
  C24: a contract can only narrow. Whatever the custom profiles are, the merged profiles have the
  names of the defaults, and each allows no class its default denies, drops no required approval, and
  still splits all classes into allowed and denied.
\<close>

theorem contract_only_narrows:
  assumes "merge_profiles fl custom = (profiles, findings)"
  shows "dom (map_of profiles) = dom (map_of DEFAULT_PROFILES) \<and>
    (\<forall>name p q. map_of profiles name = Some p \<and> map_of DEFAULT_PROFILES name = Some q \<longrightarrow>
       pf_allowed p \<subseteq> pf_allowed q \<and> pf_denied q \<subseteq> pf_denied p \<and> pf_approval q \<subseteq> pf_approval p \<and>
       pf_allowed p \<inter> pf_denied p = {} \<and> pf_allowed p \<union> pf_denied p = set ACTION_CLASSES \<and>
       pf_approval p \<subseteq> pf_allowed p)"
proof -
  have narrow: "narrow_profiles profiles" using merge_narrows [of fl custom] assms by simp
  then have "dom (map_of profiles) = dom (map_of DEFAULT_PROFILES)" by (simp add: narrow_profiles_def dom_def)
  moreover have "good_profile p q" if "map_of profiles name = Some p" "map_of DEFAULT_PROFILES name = Some q" for name p q
    using narrow that unfolding narrow_profiles_def by fastforce
  ultimately show ?thesis unfolding good_profile_def is_narrowing_def by blast
qed

lemma narrowed_sample:
  "merge_profiles no_rat (JObj [(''repo_write'', JObj [(''allowed'', JStr ''read''),
       (''denied'', JStr ''repo_write,shell,network,external_read,external_write,production_read,production_write,destructive''),
       (''require_approval'', JStr ''read'')]), (''other'', JNull)]) =
     (dset ''repo_write'' (profile_of [''read''] [''read'']) DEFAULT_PROFILES, [finding ''PROFILE'' ''unknown profile other''])"
  by code_simp

lemma contract_only_narrows_witness:
  "dom (map_of (dset ''repo_write'' (profile_of [''read''] [''read'']) DEFAULT_PROFILES)) = dom (map_of DEFAULT_PROFILES)"
  using contract_only_narrows [OF narrowed_sample] by blast

section \<open>Owned reservations\<close>

text \<open>
  \<^verbatim>\<open>json.loads\<close> and UTF-8 decoding give back the records that the code writes, and refuse an empty text.
\<close>

definition reads_records :: "text_io \<Rightarrow> bool" where
  "reads_records io =
     ((\<forall>state effect attempt. state \<in> {''reserved'', ''consumed''} \<and> list_all is_hex_lower effect \<and> list_all token_char attempt \<longrightarrow>
         io_replace io (record_text state effect attempt) = record_text state effect attempt \<and>
         io_strict io (record_text state effect attempt) = Some (record_text state effect attempt) \<and>
         io_loads io (record_text state effect attempt) =
           Some (JObj [(''state'', JStr state), (''effect_sha256'', JStr effect), (''attempt_id'', JStr attempt)])) \<and>
      io_replace io [] = [] \<and> io_strict io [] = Some [] \<and> io_loads io [] = None)"

text \<open>Every system call works and writes at least a page.\<close>

definition all_work :: "syscalls \<Rightarrow> bool" where
  "all_work sc = (sc_ready sc \<and> sc_open_error sc = None \<and> sc_read_ok sc \<and> sc_truncate_ok sc \<and> sc_sync_ok sc \<and>
     (case sc_write sc of Some n \<Rightarrow> 4096 \<le> n | None \<Rightarrow> False))"

lemma length_quote: "length (json_quote s) \<le> 6 * length s + 2"
proof -
  have "length (json_esc_char c) \<le> 6" for c by (simp add: json_esc_char_def Let_def hex2_def)
  then have "length (concat (map json_esc_char s)) \<le> 6 * length s"
    by (induction s) (simp_all add: add_le_mono)
  then show ?thesis by (simp add: json_quote_def)
qed

lemma binding_shape:
  assumes "effect_binding e a = Some (x, y)"
  shows "length x = 64" "list_all is_hex_lower x" "length y \<le> 128" "list_all token_char y"
  using assms by (auto simp: effect_binding_def safe_dispatch_token_def Let_def split: option.splits if_splits)

lemma record_short:
  assumes "effect_binding e a = Some (x, y)" "state \<in> {''reserved'', ''consumed''}"
  shows "length (record_text state x y) \<le> 4096"
proof -
  have "length state = 8" using assms(2) by auto
  then show ?thesis
    using binding_shape(1,3) [OF assms(1)] length_quote [of x] length_quote [of y] length_quote [of state]
      length_quote [of "''state''"] length_quote [of "''effect_sha256''"] length_quote [of "''attempt_id''"]
    by (simp add: record_text_def)
qed

lemma or_empty_record:
  "or_empty fl [(''state'', JStr s), (''effect_sha256'', JStr x), (''attempt_id'', JStr y)] ''state'' = s"
  "or_empty fl [(''state'', JStr s), (''effect_sha256'', JStr x), (''attempt_id'', JStr y)] ''effect_sha256'' = x"
  "or_empty fl [(''state'', JStr s), (''effect_sha256'', JStr x), (''attempt_id'', JStr y)] ''attempt_id'' = y"
  by (simp_all add: or_empty_def jget_def json_or_def json_str_def)

lemma record_read:
  assumes "reads_records io" "effect_binding e a = Some (x, y)" "state \<in> {''reserved'', ''consumed''}"
  shows "record_of_text fl io (record_text state x y) = \<lparr>dr_state = state, dr_effect = Some x, dr_attempt = Some y\<rparr>"
    "loads_strict io (take 4096 (record_text state x y)) =
       Some (JObj [(''state'', JStr state), (''effect_sha256'', JStr x), (''attempt_id'', JStr y)])"
proof -
  have law: "io_replace io (record_text state x y) = record_text state x y"
    "io_strict io (record_text state x y) = Some (record_text state x y)"
    "io_loads io (record_text state x y) =
       Some (JObj [(''state'', JStr state), (''effect_sha256'', JStr x), (''attempt_id'', JStr y)])"
    using assms binding_shape [OF assms(2)] unfolding reads_records_def by blast+
  have short: "take 4096 (record_text state x y) = record_text state x y" using record_short [OF assms(2,3)] by simp
  have "record_text state x y \<noteq> ''consumed'' @ [NL]" by (simp add: record_text_def)
  then show "record_of_text fl io (record_text state x y) = \<lparr>dr_state = state, dr_effect = Some x, dr_attempt = Some y\<rparr>"
    using assms(3) by (auto simp: record_of_text_def law short or_empty_def jget_def json_or_def json_str_def)
  show "loads_strict io (take 4096 (record_text state x y)) =
       Some (JObj [(''state'', JStr state), (''effect_sha256'', JStr x), (''attempt_id'', JStr y)])"
    by (simp add: loads_strict_def law short)
qed

text \<open>What a directory answers whose marker holds the record of one owner.\<close>

definition holds :: "replay_dir \<Rightarrow> string \<Rightarrow> string \<Rightarrow> string \<Rightarrow> string \<Rightarrow> bool" where
  "holds dir i state x y = (\<exists>tok. safe_dispatch_token i = Some tok \<and> map_of dir (dispatch_marker tok) = Some (record_text state x y))"

lemma reserved_holds:
  assumes "reserve_dispatch fl io sc sc2 i e a seen dir = (Answer ''reserved'', d1)"
    "effect_binding e a = Some (x, y)" "sc_write sc = Some n" "4096 \<le> n"
  shows "holds d1 i ''reserved'' x y"
proof -
  have "owned r u v \<noteq> ''reserved''" for r u v by (simp add: owned_def)
  then obtain tok where "safe_dispatch_token i = Some tok"
    "create_marker sc (dispatch_marker tok) (record_text ''reserved'' x y) dir = (Created, d1)"
    using assms(1,2) by (auto simp: reserve_dispatch_def split: option.splits if_splits prod.splits created.splits os_error.splits)
  moreover have "take n (record_text ''reserved'' x y) = record_text ''reserved'' x y"
    using record_short [OF assms(2), of "''reserved''"] assms(4) by simp
  ultimately show ?thesis
    using assms(3) by (auto simp: holds_def create_marker_def map_add_def split: option.splits if_splits)
qed

lemma holds_consume:
  assumes "holds dir i state x y"
  shows "fst (consume_dispatch_once sc i seen dir) \<noteq> ''ok'' \<and> snd (consume_dispatch_once sc i seen dir) = dir"
  using assms
  by (auto simp: holds_def consume_dispatch_once_def create_marker_def split: option.splits os_error.splits created.splits)

lemma holds_reserve_other:
  assumes "reads_records io" "effect_binding e a = Some (x, y)" "state \<in> {''reserved'', ''consumed''}" "holds dir i state x y"
    "effect_binding e' a' \<noteq> Some (x, y)"
  shows "fst (reserve_dispatch fl io sc sc2 i e' a' seen dir) \<in> {Answer ''conflict'', Answer ''unavailable'', Raised} \<and>
    snd (reserve_dispatch fl io sc sc2 i e' a' seen dir) = dir"
proof -
  obtain tok where tok: "safe_dispatch_token i = Some tok"
    "map_of dir (dispatch_marker tok) = Some (record_text state x y)" using assms(4) by (auto simp: holds_def)
  show ?thesis
  proof (cases "effect_binding e' a'")
    case None
    then show ?thesis using tok by (simp add: reserve_dispatch_def)
  next
    case (Some p)
    obtain u v where p: "p = (u, v)" "x \<noteq> u \<or> y \<noteq> v" using Some assms(5) by (cases p) auto
    show ?thesis
      using tok Some p record_read(1) [OF assms(1-3)]
      by (auto simp: reserve_dispatch_def create_marker_def read_dispatch_record_def owned_def binding_matches_def
          split: option.splits os_error.splits created.splits)
  qed
qed

lemma holds_finalize_other:
  assumes "reads_records io" "effect_binding e a = Some (x, y)" "state \<in> {''reserved'', ''consumed''}" "holds dir i state x y"
    "effect_binding e' a' \<noteq> Some (x, y)"
  shows "fst (finalize_dispatch fl io sc i e' a' dir) \<in> {''conflict'', ''unavailable''} \<and>
    snd (finalize_dispatch fl io sc i e' a' dir) = dir"
proof -
  obtain tok where tok: "safe_dispatch_token i = Some tok"
    "map_of dir (dispatch_marker tok) = Some (record_text state x y)" using assms(4) by (auto simp: holds_def)
  show ?thesis
  proof (cases "effect_binding e' a'")
    case None
    then show ?thesis using tok by (simp add: finalize_dispatch_def)
  next
    case (Some p)
    obtain u v where p: "p = (u, v)" "x \<noteq> u \<or> y \<noteq> v" using Some assms(5) by (cases p) auto
    show ?thesis
      using tok Some p record_read(2) [OF assms(1-3)]
      by (auto simp: finalize_dispatch_def or_empty_record split: option.splits)
  qed
qed

lemma holds_finalize_owner:
  assumes "reads_records io" "effect_binding e a = Some (x, y)" "holds dir i ''reserved'' x y" "all_work sc"
  obtains d where "finalize_dispatch fl io sc i e a dir = (''ok'', d)" "holds d i ''consumed'' x y"
proof -
  obtain tok where tok: "safe_dispatch_token i = Some tok"
    "map_of dir (dispatch_marker tok) = Some (record_text ''reserved'' x y)" using assms(3) by (auto simp: holds_def)
  obtain n where n: "sc_write sc = Some n" "4096 \<le> n" using assms(4) by (auto simp: all_work_def split: option.splits)
  have cut: "take n (record_text ''consumed'' x y) = record_text ''consumed'' x y"
    using record_short [OF assms(2), of "''consumed''"] n(2) by simp
  let ?d = "dset (dispatch_marker tok) (record_text ''consumed'' x y) dir"
  have "finalize_dispatch fl io sc i e a dir = (''ok'', ?d)"
    using tok assms(2,4) n cut record_read(2) [OF assms(1,2), of "''reserved''"]
    by (simp add: finalize_dispatch_def all_work_def rewrite_marker_def or_empty_record)
  moreover have "holds ?d i ''consumed'' x y" using tok(1) by (simp add: holds_def map_of_dset)
  ultimately show thesis by (rule that)
qed

lemma holds_consumed_owner:
  assumes "reads_records io" "effect_binding e a = Some (x, y)" "holds dir i ''consumed'' x y" "all_work sc"
  shows "finalize_dispatch fl io sc i e a dir = (''ok'', dir)"
    "map_of seen (legacy_consumed_marker (the (safe_dispatch_token i))) = None \<Longrightarrow>
       reserve_dispatch fl io sc sc i e a seen dir = (Answer ''owned_consumed'', dir)"
proof -
  obtain tok where tok: "safe_dispatch_token i = Some tok"
    "map_of dir (dispatch_marker tok) = Some (record_text ''consumed'' x y)" using assms(3) by (auto simp: holds_def)
  show "finalize_dispatch fl io sc i e a dir = (''ok'', dir)"
    using tok assms(2,4) record_read(2) [OF assms(1,2), of "''consumed''"]
    by (simp add: finalize_dispatch_def all_work_def or_empty_record)
  assume "map_of seen (legacy_consumed_marker (the (safe_dispatch_token i))) = None"
  then show "reserve_dispatch fl io sc sc i e a seen dir = (Answer ''owned_consumed'', dir)"
    using tok assms(2,4) record_read(1) [OF assms(1,2), of "''consumed''"]
    by (simp add: reserve_dispatch_def all_work_def create_marker_def read_dispatch_record_def owned_def binding_matches_def)
qed

text \<open>
  C23: a reservation belongs to its owner. Once a dispatch is reserved for an effect and an attempt,
  whatever system calls fail and whatever a call saw before: nobody consumes that dispatch; a call
  for another effect or attempt reserves or finalizes nothing and changes nothing; and the owner,
  when the system calls work, finalizes it, may repeat that, and is told so when it reserves again.
\<close>

theorem reservation_is_owned:
  assumes "reads_records io" "reserve_dispatch fl io sc sc2 i e a seen dir = (Answer ''reserved'', d1)"
    "effect_binding e a = Some (x, y)" "sc_write sc = Some n" "4096 \<le> n"
  shows "(\<forall>s seen. fst (consume_dispatch_once s i seen d1) \<noteq> ''ok'' \<and> snd (consume_dispatch_once s i seen d1) = d1) \<and>
    (\<forall>e' a' s s2 seen. effect_binding e' a' \<noteq> Some (x, y) \<longrightarrow>
       fst (reserve_dispatch fl io s s2 i e' a' seen d1) \<in> {Answer ''conflict'', Answer ''unavailable'', Raised} \<and>
       snd (reserve_dispatch fl io s s2 i e' a' seen d1) = d1 \<and>
       fst (finalize_dispatch fl io s i e' a' d1) \<in> {''conflict'', ''unavailable''} \<and>
       snd (finalize_dispatch fl io s i e' a' d1) = d1) \<and>
    (\<forall>s. all_work s \<longrightarrow> (\<exists>d2. finalize_dispatch fl io s i e a d1 = (''ok'', d2) \<and>
       finalize_dispatch fl io s i e a d2 = (''ok'', d2) \<and>
       (\<forall>seen. map_of seen (legacy_consumed_marker (the (safe_dispatch_token i))) = None \<longrightarrow>
          reserve_dispatch fl io s s i e a seen d2 = (Answer ''owned_consumed'', d2))))"
proof -
  have held: "holds d1 i ''reserved'' x y" by (rule reserved_holds [OF assms(2-5)])
  have others: "fst (reserve_dispatch fl io s s2 i e' a' seen d1) \<in> {Answer ''conflict'', Answer ''unavailable'', Raised} \<and>
       snd (reserve_dispatch fl io s s2 i e' a' seen d1) = d1 \<and>
       fst (finalize_dispatch fl io s i e' a' d1) \<in> {''conflict'', ''unavailable''} \<and>
       snd (finalize_dispatch fl io s i e' a' d1) = d1"
    if "effect_binding e' a' \<noteq> Some (x, y)" for e' a' s s2 seen
    using holds_reserve_other [OF assms(1,3) _ held that] holds_finalize_other [OF assms(1,3) _ held that] by blast
  have owner: "\<exists>d2. finalize_dispatch fl io s i e a d1 = (''ok'', d2) \<and> finalize_dispatch fl io s i e a d2 = (''ok'', d2) \<and>
       (\<forall>seen. map_of seen (legacy_consumed_marker (the (safe_dispatch_token i))) = None \<longrightarrow>
          reserve_dispatch fl io s s i e a seen d2 = (Answer ''owned_consumed'', d2))" if works: "all_work s" for s
  proof -
    obtain d2 where d2: "finalize_dispatch fl io s i e a d1 = (''ok'', d2)" "holds d2 i ''consumed'' x y"
      by (rule holds_finalize_owner [OF assms(1,3) held works])
    show ?thesis using d2(1) holds_consumed_owner [OF assms(1,3) d2(2) works] by blast
  qed
  show ?thesis using holds_consume [OF held] others owner by blast
qed

lemma sample_reads: "reads_records sample_io"
proof -
  have "read_record [] = None" by (simp add: read_record_def)
  then show ?thesis unfolding reads_records_def using record_reads_back hex_tokens by (auto simp: sample_io_def)
qed

lemma sample_reservation:
  "reserve_dispatch no_rat sample_io sample_calls sample_calls ''d1'' (replicate 64 CHR ''e'') ''t1'' [] [] =
     (Answer ''reserved'', [(''dispatch-d1'', record_text ''reserved'' (replicate 64 CHR ''e'') ''t1'')])"
  "effect_binding (replicate 64 CHR ''e'') ''t1'' = Some (replicate 64 CHR ''e'', ''t1'')" "sc_write sample_calls = Some 4096"
  "effect_binding (replicate 64 CHR ''f'') ''t1'' = Some (replicate 64 CHR ''f'', ''t1'')"
proof -
  have bound: "effect_binding (replicate 64 c) ''t1'' = Some (replicate 64 c, ''t1'')" if "is_hex_lower c" for c
    using that sample_token(2) by (intro hex_binding) (simp_all add: list_all_iff)
  have hex: "is_hex_lower (CHR ''e'')" "is_hex_lower (CHR ''f'')" by code_simp+
  show e: "effect_binding (replicate 64 CHR ''e'') ''t1'' = Some (replicate 64 CHR ''e'', ''t1'')"
    and "effect_binding (replicate 64 CHR ''f'') ''t1'' = Some (replicate 64 CHR ''f'', ''t1'')" by (rule bound, rule hex)+
  show "sc_write sample_calls = Some 4096" by (simp add: sample_calls_def)
  show "reserve_dispatch no_rat sample_io sample_calls sample_calls ''d1'' (replicate 64 CHR ''e'') ''t1'' [] [] =
      (Answer ''reserved'', [(''dispatch-d1'', record_text ''reserved'' (replicate 64 CHR ''e'') ''t1'')])"
    using record_short [OF e, of "''reserved''"]
    by (simp add: reserve_dispatch_def create_marker_def sample_token e sample_markers sample_calls_def)
qed

lemma reservation_is_owned_witness:
  "snd (finalize_dispatch no_rat sample_io sample_calls ''d1'' (replicate 64 CHR ''f'') ''t1''
     [(''dispatch-d1'', record_text ''reserved'' (replicate 64 CHR ''e'') ''t1'')]) =
   [(''dispatch-d1'', record_text ''reserved'' (replicate 64 CHR ''e'') ''t1'')]"
proof -
  have "effect_binding (replicate 64 CHR ''f'') ''t1'' \<noteq> Some (replicate 64 CHR ''e'', ''t1'')"
    by (simp add: sample_reservation(4))
  then show ?thesis
    using reservation_is_owned [OF sample_reads sample_reservation(1-3)] by blast
qed

text \<open>
  An interrupted finalize strands its owner. The rewrite truncates the record in place before it
  writes the new one, so when that write fails the marker is empty: the call says unavailable, and
  from then on the owner itself is told conflict, by reserve and by finalize, although nothing else
  fails.
\<close>

theorem interrupted_finalize_strands_owner:
  assumes "reads_records io" "holds d1 i ''reserved'' x y" "effect_binding e a = Some (x, y)"
    "sc_ready sc" "sc_open_error sc = None" "sc_read_ok sc" "sc_truncate_ok sc" "sc_write sc = None"
  shows "\<exists>d2. finalize_dispatch fl io sc i e a d1 = (''unavailable'', d2) \<and>
    (\<forall>s. all_work s \<longrightarrow> finalize_dispatch fl io s i e a d2 = (''conflict'', d2) \<and>
       (\<forall>seen. reserve_dispatch fl io s s i e a seen d2 = (Answer ''conflict'', d2)))"
proof -
  obtain tok where tok: "safe_dispatch_token i = Some tok"
    "map_of d1 (dispatch_marker tok) = Some (record_text ''reserved'' x y)" using assms(2) by (auto simp: holds_def)
  let ?d = "dset (dispatch_marker tok) [] d1"
  have empty: "loads_strict io [] = None" "record_of_text fl io [] = consumed_record"
    using assms(1) by (simp_all add: reads_records_def loads_strict_def record_of_text_def)
  have "length x = 64" by (rule binding_shape(1) [OF assms(3)])
  then have foreign: "\<not> binding_matches consumed_record x y" by (auto simp: binding_matches_def consumed_record_def)
  have "finalize_dispatch fl io sc i e a d1 = (''unavailable'', ?d)"
    using tok assms(3-8) record_read(2) [OF assms(1,3), of "''reserved''"]
    by (simp add: finalize_dispatch_def rewrite_marker_def or_empty_record)
  moreover have "finalize_dispatch fl io s i e a ?d = (''conflict'', ?d)" if "all_work s" for s
    using that tok assms(3) empty(1) by (simp add: finalize_dispatch_def all_work_def map_of_dset)
  moreover have "reserve_dispatch fl io s s i e a seen ?d = (Answer ''conflict'', ?d)" if "all_work s" for s seen
    using that tok assms(3) empty(2) foreign
    by (simp add: reserve_dispatch_def all_work_def map_of_dset create_marker_def read_dispatch_record_def owned_def)
  ultimately show ?thesis by blast
qed

lemma interrupted_finalize_strands_owner_witness:
  "\<exists>d2. finalize_dispatch no_rat sample_io (sample_calls\<lparr>sc_write := None\<rparr>) ''d1'' (replicate 64 CHR ''e'') ''t1''
     [(''dispatch-d1'', record_text ''reserved'' (replicate 64 CHR ''e'') ''t1'')] = (''unavailable'', d2) \<and>
   reserve_dispatch no_rat sample_io sample_calls sample_calls ''d1'' (replicate 64 CHR ''e'') ''t1'' [] d2 = (Answer ''conflict'', d2)"
proof -
  let ?d = "[(''dispatch-d1'', record_text ''reserved'' (replicate 64 CHR ''e'') ''t1'')]"
  have held: "holds ?d ''d1'' ''reserved'' (replicate 64 CHR ''e'') ''t1''"
    by (rule reserved_holds [OF sample_reservation(1-3)]) simp
  have works: "all_work sample_calls" by (simp add: all_work_def sample_calls_def)
  have broken: "sc_ready (sample_calls\<lparr>sc_write := None\<rparr>)" "sc_open_error (sample_calls\<lparr>sc_write := None\<rparr>) = None"
    "sc_read_ok (sample_calls\<lparr>sc_write := None\<rparr>)" "sc_truncate_ok (sample_calls\<lparr>sc_write := None\<rparr>)"
    "sc_write (sample_calls\<lparr>sc_write := None\<rparr>) = None"
    by (simp_all add: sample_calls_def)
  show ?thesis
    using interrupted_finalize_strands_owner [OF sample_reads held sample_reservation(2) broken, of no_rat] works by blast
qed

end
