(* ===== verification/HostLive.thy ===== *)
theory HostLive
  imports HostFacts AuthorityProps
begin

text \<open>
  The watch host when its calls work: what each write, each call on the replay directory and the send
  answer, the documents it writes read back, and the execution of an effect up to its end.
\<close>

section \<open>Documents\<close>

lemma journal_keys: "reject_value label (journal_json j) = Inr ()"
proof -
  have "list_all (\<lambda>k. \<not> is_execution_key k \<and> py_lower (py_strip k) \<notin> set EXTRA_FORBIDDEN_KEYS)
      [''schema_version'', ''phase'', ''effect_sha256'', ''dispatch_id'', ''receipt'', ''kind'', ''attempt_id'']"
    by code_simp
  then show ?thesis by (simp add: journal_json_def)
qed

text \<open>A journal that can be written and read.\<close>

definition plain_journal :: "journal \<Rightarrow> bool" where
  "plain_journal j = (jn_phase j \<in> set JOURNAL_PHASES \<and>
     list_all (\<lambda>s. s \<noteq> [] \<and> py_strip s = s) [jn_effect j, jn_dispatch j, jn_kind j, jn_attempt j])"

lemma or_empty_str: "jget d k = JStr s \<Longrightarrow> or_empty fl d k = s"
  by (simp add: or_empty_def json_or_def json_str_def)

lemma journal_reads:
  assumes "plain_journal j" shows "load_journal fl (Doc (journal_json j)) = Inr (Some j)"
proof -
  have phases: "list_all (\<lambda>p. py_strip p = p \<and> p \<noteq> []) JOURNAL_PHASES" by code_simp
  have known: "reject_unknown [(''schema_version'', a), (''phase'', b), (''effect_sha256'', c), (''dispatch_id'', d),
      (''receipt'', e), (''kind'', g), (''attempt_id'', i)] [''schema_version'', ''phase'', ''effect_sha256'', ''dispatch_id'',
      ''receipt'', ''kind'', ''attempt_id''] ''effect_journal'' = Inr ()" for a b c d e g i
    by (simp add: reject_unknown_def)
  have "or_empty fl [(''schema_version'', a), (''phase'', b), (''effect_sha256'', c), (''dispatch_id'', d),
      (''receipt'', JStr e), (''kind'', g), (''attempt_id'', i)] ''receipt'' = e" for a b c d e g i
    by (rule or_empty_str) (simp add: jget_def)
  then show ?thesis
    using assms phases journal_keys [of "''effect_journal''" j] known
    by (auto simp: load_journal_def read_object_def require_mapping_def journal_json_def plain_journal_def list_all_iff
        jget_def require_str_def)
qed

lemma loaded_plain:
  assumes "load_journal fl d = Inr (Some j)" shows "plain_journal j"
proof -
  have req: "require_str v l = Inr s \<Longrightarrow> s \<noteq> [] \<and> py_strip s = s" for v l s
    by (auto simp: require_str_def Let_def split: json.splits if_splits)
  show ?thesis
    using assms
    by (auto simp: load_journal_def plain_journal_def bindE_Inr_iff dest!: req split: if_splits)
qed

lemma reject_elems_ok: "(\<And>l v. v \<in> set xs \<Longrightarrow> reject_value l v = Inr ()) \<Longrightarrow> reject_elems label i xs = Inr ()"
  by (induction xs arbitrary: i) simp_all

lemma reject_items_ok:
  "\<forall>v \<in> set xs. \<exists>d. v = JObj d \<and> (\<forall>l. reject_execution_keys l d = Inr ()) \<Longrightarrow> reject_in_items label i xs = Inr ()"
  by (induction xs arbitrary: i) auto

lemma plain_keys:
  "list_all (\<lambda>k. \<not> is_execution_key k \<and> py_lower (py_strip k) \<notin> set EXTRA_FORBIDDEN_KEYS)
     [''schema_version'', ''target_repo'', ''workstream'', ''intent_revision'', ''watch_class'', ''subject_version'',
      ''last_observation_digest'', ''last_decision'', ''last_decision_key'', ''last_transition_at'',
      ''consecutive_transient_failures'', ''next_eligible_check_at'', ''terminal_state'', ''last_observation_at'',
      ''applied'', ''key'', ''outcome'', ''result'']"
  by code_simp

lemma state_keys: "reject_value label (persisted_json s) = Inr ()"
  using plain_keys by (simp add: persisted_json_def opt_json_def split: option.split)

lemma ledger_keys: "reject_value label (ledger_json es) = Inr ()"
proof -
  let ?items = "map (\<lambda>e. JObj [(''key'', JStr (le_key e)), (''outcome'', JStr (le_outcome e)), (''result'', JStr (le_result e))]) es"
  have "reject_value l (JObj [(''key'', JStr a), (''outcome'', JStr b), (''result'', JStr c)]) = Inr ()" for l a b c
    using plain_keys by simp
  then have "reject_elems l 0 ?items = Inr ()" for l by (intro reject_elems_ok) auto
  moreover have "reject_in_items l 0 ?items = Inr ()" for l using plain_keys by (intro reject_items_ok) simp
  ultimately show ?thesis using plain_keys by (simp add: ledger_json_def)
qed

section \<open>Calls that work\<close>

text \<open>The calls of a run all work; no file of the watch is a symbolic link.\<close>

definition working :: "string \<Rightarrow> world \<Rightarrow> bool" where
  "working k w = (wo_writes w = [] \<and> wo_stores w = [] \<and> wd_state (wo_dirs w k) \<noteq> Symlink \<and>
     wd_ledger (wo_dirs w k) \<noteq> Symlink \<and> wd_journal (wo_dirs w k) \<noteq> Symlink)"

lemma stores_done: "wo_stores w = [] \<Longrightarrow> w\<lparr>wo_stores := []\<rparr> = w"
  by (cases w) simp

lemma set_dir_simps [simp]: "wo_dirs (set_dir k f w) k = f (wo_dirs w k)" "wo_sent (set_dir k f w) = wo_sent w"
  "wo_replay (set_dir k f w) = wo_replay w" "wo_replies (set_dir k f w) = wo_replies w"
  by (simp_all add: set_dir_def)

lemma working_set [simp]: "working k w \<Longrightarrow> working k (set_dir k (wd_journal_update (\<lambda>_. Doc v)) w)"
  "working k w \<Longrightarrow> working k (set_dir k (wd_state_update (\<lambda>_. Doc v)) w)"
  "working k w \<Longrightarrow> working k (set_dir k (wd_ledger_update (\<lambda>_. Doc v)) w)"
  "working k w \<Longrightarrow> working k (w\<lparr>wo_replay := d\<rparr>)" "working k w \<Longrightarrow> working k (w\<lparr>wo_replies := ps\<rparr>)"
  "working k w \<Longrightarrow> working k (w\<lparr>wo_sent := ds\<rparr>)"
  by (simp_all add: working_def set_dir_def)

lemma commit_works:
  "working k w \<Longrightarrow> commit_journal k j w = (Inr (), set_dir k (wd_journal_update (\<lambda>_. Doc (journal_json j))) w)"
  by (simp add: working_def commit_journal_def write_json_def next_or_def Let_def set_dir_def journal_keys)

lemma persist_works:
  "working k w \<Longrightarrow> persist_watch k r w = (Inr (), set_dir k (wd_state_update (\<lambda>_. Doc (persisted_json (re_state r)))) w)"
  "working k w \<Longrightarrow> length es \<le> MAX_LEDGER_ENTRIES \<Longrightarrow>
     persist_ledger k es w = (Inr (), set_dir k (wd_ledger_update (\<lambda>_. Doc (ledger_json es))) w)"
  by (simp_all add: working_def persist_watch_def persist_ledger_def write_json_def next_or_def Let_def set_dir_def
      state_keys ledger_keys)

lemma good_works: "all_work all_good"
  by (simp add: all_work_def all_good_def)

text \<open>A dispatch that nobody took, or that this attempt has reserved.\<close>

definition reservable :: "replay_dir \<Rightarrow> string \<Rightarrow> string \<Rightarrow> string \<Rightarrow> bool" where
  "reservable dir i x y = (\<exists>tok. safe_dispatch_token i = Some tok \<and> map_of dir (legacy_consumed_marker tok) = None \<and>
     map_of dir (dispatch_marker tok) \<in> {None, Some (record_text ''reserved'' x y)})"

lemma reserve_works:
  assumes "working k w" "reads_records io" "effect_binding e a = Some (x, y)" "reservable (wo_replay w) i x y"
  obtains d ans where "host_reserve fl io i e a w = (Inr ans, w\<lparr>wo_replay := d\<rparr>)"
    "ans \<in> {''reserved'', ''owned_reserved''}" "holds d i ''reserved'' x y"
proof -
  let ?rec = "record_text ''reserved'' x y"
  obtain tok where tok: "safe_dispatch_token i = Some tok" "map_of (wo_replay w) (legacy_consumed_marker tok) = None"
    "map_of (wo_replay w) (dispatch_marker tok) \<in> {None, Some ?rec}"
    using assms(4) by (auto simp: reservable_def)
  have short: "take 4096 ?rec = ?rec" using record_short [OF assms(3), of "''reserved''"] by simp
  have call: "host_reserve fl io i e a w =
      (let (r, dir) = reserve_dispatch fl io all_good all_good i e a (wo_replay w) (wo_replay w)
       in (case r of Answer b \<Rightarrow> Inr b | Raised \<Rightarrow> Inl Escaped, w\<lparr>wo_replay := dir\<rparr>))"
    using assms(1) by (simp add: host_reserve_def enter_store_def next_or_def good_step_def working_def stores_done)
  show thesis
  proof (cases "map_of (wo_replay w) (dispatch_marker tok)")
    case None
    then have "reserve_dispatch fl io all_good all_good i e a (wo_replay w) (wo_replay w) =
        (Answer ''reserved'', wo_replay w @ [(dispatch_marker tok, ?rec)])"
      using tok assms(3) short by (simp add: reserve_dispatch_def create_marker_def all_good_def)
    moreover have "holds (wo_replay w @ [(dispatch_marker tok, ?rec)]) i ''reserved'' x y"
      using tok(1) None by (simp add: holds_def map_add_def)
    ultimately show thesis using that call by simp
  next
    case (Some raw)
    then have raw: "raw = ?rec" using tok(3) by simp
    have "reserve_dispatch fl io all_good all_good i e a (wo_replay w) (wo_replay w) = (Answer ''owned_reserved'', wo_replay w)"
      using tok assms(3) Some raw record_read(1) [OF assms(2,3), of "''reserved''"]
      by (simp add: reserve_dispatch_def create_marker_def all_good_def read_dispatch_record_def owned_def binding_matches_def)
    moreover have "holds (wo_replay w) i ''reserved'' x y" using tok(1) Some raw by (simp add: holds_def)
    ultimately show thesis using that [of "''owned_reserved''" "wo_replay w"] call by simp
  qed
qed

lemma finalize_works:
  assumes "working k w" "reads_records io" "effect_binding e a = Some (x, y)" "holds (wo_replay w) i ''reserved'' x y"
  obtains d where "host_finalize fl io i e a w = (Inr ''ok'', w\<lparr>wo_replay := d\<rparr>)" "holds d i ''consumed'' x y"
proof -
  obtain d where d: "finalize_dispatch fl io all_good i e a (wo_replay w) = (''ok'', d)" "holds d i ''consumed'' x y"
    by (rule holds_finalize_owner [OF assms(2-4) good_works])
  then have "host_finalize fl io i e a w = (Inr ''ok'', w\<lparr>wo_replay := d\<rparr>)"
    using assms(1) by (simp add: host_finalize_def enter_store_def next_or_def good_step_def working_def stores_done)
  then show thesis using that d(2) by blast
qed

lemma send_works:
  "wo_replies w = Some rpl # rest \<Longrightarrow> send_effect fl x kind effect rpl = (Inr e, Some d) \<Longrightarrow>
   host_send fl x k kind effect w = (Inr e, w\<lparr>wo_replies := rest, wo_sent := wo_sent w @ [(k, d)]\<rparr>)"
  by (simp add: host_send_def next_or_def Let_def map_err_def)

section \<open>A delivery up to its end\<close>

lemma outcomes [simp]: "xc_outcome not_sent \<noteq> ''SUCCEEDED''" "xc_outcome ambiguous \<noteq> ''SUCCEEDED''"
  by (simp_all add: not_sent_def ambiguous_def)

lemma comment_succeeds:
  assumes "send_github_comment x rep issue body rpl = (Inr e, delivered)" "xc_outcome e = ''SUCCEEDED''"
  shows "xc_receipt e \<noteq> [] \<and> delivered \<noteq> None"
proof -
  note step = assms(1) [unfolded send_github_comment_def]
  have sent: "\<not> (\<not> repository_ok rep \<or> \<not> issue_ok issue)" "\<not> (body = [] \<or> 4000 < length body \<or> CHR 0x00 \<in> set body)"
    "\<not> \<not> github_configured x"
    using step assms(2) by (auto split: if_splits)
  note step = step [unfolded if_not_P [OF sent(1)] if_not_P [OF sent(2)] if_not_P [OF sent(3)]]
  show ?thesis
    using step assms(2)
    by (cases rpl) (auto split: option.splits json.splits if_splits)
qed

lemma notice_succeeds:
  assumes "send_telegram_info x txt rpl = (Inr e, delivered)" "xc_outcome e = ''SUCCEEDED''"
  shows "xc_receipt e \<noteq> [] \<and> xc_level e = ''INFO'' \<and> delivered \<noteq> None"
proof -
  note step = assms(1) [unfolded send_telegram_info_def]
  have sent: "\<not> (txt = [] \<or> 4000 < length txt \<or> CHR 0x00 \<in> set txt \<or> ''COMPLETE'' \<in> set (split_ws txt))"
    using step assms(2) by (auto split: if_splits)
  note step = step [unfolded if_not_P [OF sent]]
  obtain a b where ab: "host_file (dh_token x) = Some a" "host_file (dh_chat x) = Some b"
    using step assms(2) by (auto split: option.splits)
  show ?thesis
    using step [unfolded ab] assms(2)
    by (cases rpl) (auto split: option.splits json.splits)
qed

lemma send_succeeds:
  assumes "send_effect fl x kind effect rpl = (Inr e, delivered)" "xc_outcome e = ''SUCCEEDED''"
  shows "xc_receipt e \<noteq> []" "kind = ''NOTIFY_OWNER'' \<Longrightarrow> xc_level e = ''INFO''" "delivered \<noteq> None"
proof -
  show "xc_receipt e \<noteq> []" "delivered \<noteq> None"
    using assms unfolding send_effect_def by (auto split: if_splits dest: comment_succeeds notice_succeeds)
  show "xc_level e = ''INFO''" if "kind = ''NOTIFY_OWNER''"
    using assms that unfolding send_effect_def by (auto split: if_splits dest: notice_succeeds)
qed

lemma delivered_answer: "re_result r \<in> set TYPED_RESULTS \<Longrightarrow> base_result (delivered_result r rc) = Inr (delivered_result r rc)"
  by (auto simp: TYPED_RESULTS_def base_result_def delivered_result_def HOST_RESULTS_def Let_def)

lemma record_works:
  assumes "working k w" "re_result r \<in> set TYPED_RESULTS" "length es < MAX_LEDGER_ENTRIES"
    "\<not> (\<exists>e \<in> set es. le_key e = re_key r \<and> le_outcome e = ''APPLIED'')"
  shows "record_applied k r es rc w = (Inr (delivered_result r rc),
    set_dir k (wd_state_update (\<lambda>_. Doc (persisted_json (re_state r))))
      (set_dir k (wd_ledger_update (\<lambda>_. Doc (ledger_json (es @ [\<lparr>le_key = re_key r, le_outcome = ''APPLIED'',
         le_result = re_result r\<rparr>])))) w))"
proof -
  have "length (es @ [\<lparr>le_key = re_key r, le_outcome = ''APPLIED'', le_result = re_result r\<rparr>]) \<le> MAX_LEDGER_ENTRIES"
    using assms(3) by simp
  note ledger = persist_works(2) [OF assms(1) this]
  show ?thesis
    unfolding record_applied_def if_not_P [OF assms(4)] ledger bindS_simps
    using assms(1) by (simp add: persist_works(1) delivered_answer [OF assms(2)] reject_def)
qed

text \<open>The files and the replay directory after a delivery.\<close>

definition finished ::
    "string \<Rightarrow> reentry \<Rightarrow> ledger_entry list \<Rightarrow> journal \<Rightarrow> string \<Rightarrow> string \<Rightarrow> string \<Rightarrow> world \<Rightarrow> bool" where
  "finished k r es base rc x y w =
     (wd_journal (wo_dirs w k) = Doc (journal_json (base\<lparr>jn_phase := ''RECEIPT'', jn_receipt := rc\<rparr>)) \<and>
      wd_ledger (wo_dirs w k) = Doc (ledger_json (es @ [\<lparr>le_key = re_key r, le_outcome = ''APPLIED'', le_result = re_result r\<rparr>])) \<and>
      wd_state (wo_dirs w k) = Doc (persisted_json (re_state r)) \<and> holds (wo_replay w) (jn_dispatch base) ''consumed'' x y)"

lemma reserve_and_send_works:
  assumes "working k w" "reads_records io" "effect_binding (jn_effect base) (jn_attempt base) = Some (x, y)"
    "reservable (wo_replay w) (jn_dispatch base) x y" "wo_replies w = Some rpl # rest"
    "send_effect fl dh (re_result r) effect rpl = (Inr e, Some d)" "xc_outcome e = ''SUCCEEDED''"
    "re_result r \<in> set TYPED_RESULTS" "length es < MAX_LEDGER_ENTRIES"
    "\<not> (\<exists>e \<in> set es. le_key e = re_key r \<and> le_outcome e = ''APPLIED'')"
  shows "\<exists>w'. reserve_and_send fl io dh k r es effect base w = (Inr (delivered_result r (xc_receipt e)), w') \<and>
    wo_sent w' = wo_sent w @ [(k, d)] \<and> finished k r es base (xc_receipt e) x y w'"
proof -
  let ?rc = "xc_receipt e"
  obtain d1 ans where res: "host_reserve fl io (jn_dispatch base) (jn_effect base) (jn_attempt base) w = (Inr ans, w\<lparr>wo_replay := d1\<rparr>)"
    "ans \<in> {''reserved'', ''owned_reserved''}" "holds d1 (jn_dispatch base) ''reserved'' x y"
    by (rule reserve_works [OF assms(1-4)])
  let ?sending = "Doc (journal_json (base\<lparr>jn_phase := ''SENDING''\<rparr>))"
  let ?w1 = "set_dir k (wd_journal_update (\<lambda>_. ?sending)) (w\<lparr>wo_replay := d1\<rparr>)"
  let ?w2 = "?w1\<lparr>wo_replies := rest, wo_sent := wo_sent ?w1 @ [(k, d)]\<rparr>"
  let ?receipt = "Doc (journal_json (base\<lparr>jn_phase := ''RECEIPT'', jn_receipt := ?rc\<rparr>))"
  let ?w3 = "set_dir k (wd_journal_update (\<lambda>_. ?receipt)) ?w2"
  have w1: "working k ?w1" "wo_replies ?w1 = Some rpl # rest" using assms(1,5) by simp_all
  have w2: "working k ?w2" using w1(1) by simp
  have w3: "working k ?w3" "wo_replay ?w3 = d1" using w2 by simp_all
  obtain d2 where fin: "host_finalize fl io (jn_dispatch base) (jn_effect base) (jn_attempt base) ?w3 = (Inr ''ok'', ?w3\<lparr>wo_replay := d2\<rparr>)"
    "holds d2 (jn_dispatch base) ''consumed'' x y"
    using finalize_works [OF w3(1) assms(2,3)] res(3) w3(2) by metis
  let ?w4 = "?w3\<lparr>wo_replay := d2\<rparr>"
  have w4: "working k ?w4" using w3(1) by simp
  have ok: "\<not> (xc_outcome e \<noteq> ''SUCCEEDED'' \<or> ?rc = [])" "\<not> (re_result r = ''NOTIFY_OWNER'' \<and> xc_level e \<noteq> ''INFO'')"
    using send_succeeds [OF assms(6,7)] assms(7) by auto
  have after: "send_once fl io dh k r es effect base ?w1 = record_applied k r es ?rc ?w4"
    unfolding send_once_def send_works [OF w1(2) assms(6)] bindS_simps if_not_P [OF ok(1)] if_not_P [OF ok(2)]
      commit_works [OF w2] finish_receipt_def fin(1)
    by simp
  have gone: "ans \<noteq> ''conflict''" "ans \<noteq> ''unavailable''" "ans \<noteq> ''owned_consumed''" using res(2) by auto
  have w0: "working k (w\<lparr>wo_replay := d1\<rparr>)" using assms(1) by simp
  have "reserve_and_send fl io dh k r es effect base w = record_applied k r es ?rc ?w4"
    unfolding reserve_and_send_def res(1) bindS_simps if_not_P [OF gone(1)] if_not_P [OF gone(2)] if_not_P [OF gone(3)]
      commit_works [OF w0] after ..
  then show ?thesis
    unfolding record_works [OF w4 assms(8-10)] finished_def using fin(2) by simp
qed

text \<open>
  The journal of a watch that has not sent: none, so that the attempt is the new one, or the intent of
  this effect by an attempt that stopped before its send.
\<close>

definition resumable :: "(rat \<Rightarrow> string) \<Rightarrow> doc \<Rightarrow> string \<Rightarrow> string \<Rightarrow> string \<Rightarrow> bool" where
  "resumable fl d digest new_attempt attempt =
     (d = Missing \<and> attempt = new_attempt \<or>
      (\<exists>j. load_journal fl d = Inr (Some j) \<and> jn_phase j = ''INTENT'' \<and> jn_effect j = digest \<and> jn_attempt j = attempt))"

definition base_journal :: "string \<Rightarrow> string \<Rightarrow> string \<Rightarrow> string \<Rightarrow> journal" where
  "base_journal digest i name attempt =
     \<lparr>jn_phase = [], jn_effect = digest, jn_dispatch = i, jn_receipt = [], jn_kind = name, jn_attempt = attempt\<rparr>"

lemma digest_binding:
  "safe_dispatch_token a = Some b \<Longrightarrow> effect_binding (canonical_request_sha256 fl effect) a = Some (canonical_request_sha256 fl effect, b)"
  by (simp add: canonical_request_sha256_def hex_binding)

lemma boundary_open:
  "send_effect fl x kind effect rpl = (Inr e, Some d) \<Longrightarrow> send_boundary x kind = None"
  by (auto simp: send_effect_def send_boundary_def send_telegram_info_def send_github_comment_def WRITE_ACTIONS_def
      telegram_configured_def not_sent_def split: if_splits option.splits)

lemma execute_resumes:
  assumes "signed_dispatch_id fl h ver = Inr i" "resumable fl (journal_of w k) (canonical_request_sha256 fl effect) n a"
    "send_boundary x (re_result r) = None" "working k w"
  shows "\<exists>w1. execute_authorized fl io h x n k ver r es effect w =
      reserve_and_send fl io x k r es effect (base_journal (canonical_request_sha256 fl effect) i (re_result r) a) w1 \<and>
    working k w1 \<and> wo_replay w1 = wo_replay w \<and> wo_replies w1 = wo_replies w \<and> wo_sent w1 = wo_sent w"
  using assms(2) unfolding resumable_def
proof (elim disjE exE conjE)
  let ?base = "base_journal (canonical_request_sha256 fl effect) i (re_result r) a"
  let ?w1 = "set_dir k (wd_journal_update (\<lambda>_. Doc (journal_json (?base\<lparr>jn_phase := ''INTENT''\<rparr>)))) w"
  assume "journal_of w k = Missing" "a = n"
  then have "execute_authorized fl io h x n k ver r es effect w = reserve_and_send fl io x k r es effect ?base ?w1"
    using assms(1,3,4)
    by (simp add: execute_authorized_def reject_def Let_def load_journal_def commit_works base_journal_def)
  then show ?thesis using assms(4) by (intro exI [of _ ?w1]) simp
next
  fix j
  assume "load_journal fl (journal_of w k) = Inr (Some j)" "jn_phase j = ''INTENT''"
    "jn_effect j = canonical_request_sha256 fl effect" "jn_attempt j = a"
  then show ?thesis
    using assms(1,3,4) by (auto simp: execute_authorized_def reject_def Let_def base_journal_def)
qed

lemma execute_works:
  assumes "signed_dispatch_id fl h ver = Inr i" "resumable fl (journal_of w k) (canonical_request_sha256 fl effect) n a"
    "safe_dispatch_token a = Some b" "reservable (wo_replay w) i (canonical_request_sha256 fl effect) b"
    "working k w" "reads_records io" "wo_replies w = Some rpl # rest"
    "send_effect fl x (re_result r) effect rpl = (Inr e, Some d)" "xc_outcome e = ''SUCCEEDED''"
    "re_result r \<in> set TYPED_RESULTS" "length es < MAX_LEDGER_ENTRIES"
    "\<not> (\<exists>e \<in> set es. le_key e = re_key r \<and> le_outcome e = ''APPLIED'')"
  shows "\<exists>w'. execute_authorized fl io h x n k ver r es effect w = (Inr (delivered_result r (xc_receipt e)), w') \<and>
    wo_sent w' = wo_sent w @ [(k, d)] \<and>
    finished k r es (base_journal (canonical_request_sha256 fl effect) i (re_result r) a) (xc_receipt e)
      (canonical_request_sha256 fl effect) b w'"
proof -
  let ?base = "base_journal (canonical_request_sha256 fl effect) i (re_result r) a"
  obtain w1 where w1: "execute_authorized fl io h x n k ver r es effect w = reserve_and_send fl io x k r es effect ?base w1"
    "working k w1" "wo_replay w1 = wo_replay w" "wo_replies w1 = wo_replies w" "wo_sent w1 = wo_sent w"
    using execute_resumes [OF assms(1,2) boundary_open [OF assms(8)] assms(5)] by blast
  have "effect_binding (jn_effect ?base) (jn_attempt ?base) = Some (canonical_request_sha256 fl effect, b)"
    using digest_binding [OF assms(3)] by (simp add: base_journal_def)
  moreover have "reservable (wo_replay w1) (jn_dispatch ?base) (canonical_request_sha256 fl effect) b"
    using assms(4) w1(3) by (simp add: base_journal_def)
  ultimately show ?thesis
    using reserve_and_send_works [OF w1(2) assms(6) _ _ _ assms(8-12)] assms(7) w1 by metis
qed

end
