(* ===== verification/CollectProps.thy ===== *)
theory CollectProps
  imports Collect WatchProps AuthoritySample
begin

text \<open>
  What the collector promises. The sample host at the start answers \<^verbatim>\<open>gh\<close> and \<^verbatim>\<open>git\<close> for one clean and
  pushed branch whose claim is active.
\<close>

section \<open>A sample host\<close>

definition safe_exe :: exe_stat where
  "safe_exe = \<lparr>ex_symlink = False, ex_regular = True, ex_uid = 0, ex_mode = 493, ex_may_run = True,
     ex_parent_symlink = False, ex_parent_uid = 0, ex_parent_mode = 493\<rparr>"

definition safe_dir :: dir_stat where
  "safe_dir = \<lparr>dt_symlink = False, dt_is_dir = True, dt_uid = 0, dt_mode = 493, dt_parent_symlink = False, dt_parent_uid = 0,
     dt_parent_mode = 493\<rparr>"

definition issue_body :: string where
  "issue_body = ''# packet'' @ [NL] @ ''TARGET_REPO=o/r'' @ [NL] @ ''WORKSTREAM=w'' @ [NL] @ ''BRANCH=dev'' @ [NL] @
     ''STATUS=active'' @ [NL] @ ''INTENT_REVISION=1'' @ [NL] @ ''PRIORITY=normal'' @ [NL] @ ''CHANGE_RISK=medium'' @ [NL] @
     ''TASK_KIND=code'' @ [NL]"

definition memory_body :: string where
  "memory_body = ''MemTotal: 33554432 kB'' @ [NL] @ ''MemAvailable: 16777216 kB'' @ [NL] @ ''SwapTotal: 0 kB'' @ [NL]"

text \<open>The outputs of the programs, each named by a word that \<open>ch_loads\<close> reads as its document.\<close>

definition sample_documents :: "string \<Rightarrow> (string \<times> json) list" where
  "sample_documents body =
     [(''issue'', JObj [(''number'', JInt 7), (''body'', JStr body)]),
      (''commit'', JObj [(''sha'', JStr demo_sha)]), (''checks'', JObj [(''state'', JStr ''success'')]), (''pulls'', JList []),
      (''claim'', JObj [(''repository'', JStr ''o/r''), (''workstream'', JStr ''w''), (''intent_revision'', JInt 1),
         (''status'', JStr ''ACTIVE'')])]"

definition sample_loads :: "string \<Rightarrow> string \<Rightarrow> json reading" where
  "sample_loads body txt = (case map_of (sample_documents body) txt of Some v \<Rightarrow> Got v | None \<Rightarrow> Missed)"

definition sample_gh :: "string list \<Rightarrow> (int \<times> string) reading" where
  "sample_gh args =
     Got (0, if hd args = ''issue'' then ''issue'' else if hd args = ''pr'' then ''pulls''
              else if args = [''api'', ''repos/o/r/commits/dev''] then ''commit'' else ''checks'')"

definition sample_git :: "string list \<Rightarrow> (int \<times> string) reading" where
  "sample_git args =
     (let cmd = drop 2 args
      in Got (0, if hd cmd = ''remote'' then ''https://github.com/o/r.git''
                  else if cmd = [''rev-parse'', ''--abbrev-ref'', ''HEAD''] then ''dev''
                  else if cmd = [''rev-parse'', ''HEAD''] then demo_sha
                  else if hd cmd = ''status'' then []
                  else if hd cmd = ''rev-parse'' then ''origin/dev'' else ''0''))"

text \<open>The host whose issue has the given body.\<close>

definition issue_host :: "string \<Rightarrow> collect_host" where
  "issue_host body = \<lparr>ch_gh = Some safe_exe, ch_gh_run = sample_gh, ch_git = Some safe_exe, ch_git_run = sample_git,
     ch_loads = sample_loads body, ch_pin = Some safe_exe, ch_pin_text = Got ''/w'', ch_is_real_dir = (\<lambda>_. Some True),
     ch_meminfo = Got memory_body, ch_claim_dir = Some safe_dir,
     ch_claims = Some [\<lparr>ce_symlink = Some False, ce_is_file = Some True, ce_name = ''c.json'', ce_text = Got ''claim''\<rparr>],
     ch_now = ''1000Z''\<rparr>"

abbreviation sample_collect :: collect_host where
  "sample_collect \<equiv> issue_host issue_body"

lemma sample_parts: "executable_provenance_ok (ch_gh (issue_host body))" "executable_provenance_ok (ch_git (issue_host body))"
  "file_pin_ok (ch_pin (issue_host body))" "directory_provenance_ok (ch_claim_dir (issue_host body))"
  "ch_gh_run (issue_host body) = sample_gh" "ch_git_run (issue_host body) = sample_git" "ch_loads (issue_host body) = sample_loads body"
  "ch_now (issue_host body) = ''1000Z''"
  by (simp_all add: issue_host_def executable_provenance_ok_def file_pin_ok_def directory_provenance_ok_def
      safe_exe_def safe_dir_def shared_write_def)

definition sample_issue_fields :: issue_fields where
  "sample_issue_fields = \<lparr>is_fields = [(''TARGET_REPO'', ''o/r''), (''WORKSTREAM'', ''w''), (''BRANCH'', ''dev''), (''STATUS'', ''active''),
     (''INTENT_REVISION'', ''1''), (''PRIORITY'', ''normal''), (''CHANGE_RISK'', ''medium''), (''TASK_KIND'', ''code'')],
     is_dependencies = []\<rparr>"

lemma sample_body: "parse_body issue_body = sample_issue_fields"
  by code_simp

lemma sample_issue: "read_issue no_rat sample_collect ''o/r'' ''w'' ''7'' = Inr (sample_issue_fields, ''dev'', ''ACTIVE'', 1)"
proof -
  have args: "list_all gh_argument_ok [''issue'', ''view'', ''7'', ''--repo'', ''o/r'', ''--json'', ''number,body'']"
    "py_strip ''issue'' \<noteq> []" by code_simp+
  have "run_gh sample_collect [''issue'', ''view'', ''7'', ''--repo'', ''o/r'', ''--json'', ''number,body''] =
      Inr (JObj [(''number'', JInt 7), (''body'', JStr issue_body)])"
    using args by (simp add: run_gh_def sample_parts sample_gh_def sample_loads_def sample_documents_def)
  moreover have "required_field sample_issue_fields ''TARGET_REPO'' = Inr ''o/r''" "required_field sample_issue_fields ''WORKSTREAM'' = Inr ''w''"
    "required_field sample_issue_fields ''BRANCH'' = Inr ''dev''" "required_field sample_issue_fields ''STATUS'' = Inr ''active''"
    "required_field sample_issue_fields ''INTENT_REVISION'' = Inr ''1''" "collect_branch_ok ''dev''" "py_int ''1'' = Some 1"
    "py_upper ''active'' = ''ACTIVE''" "json_str no_rat (JInt 7) = ''7''" by code_simp+
  ultimately show ?thesis by (simp add: read_issue_def issue_text_def packet_identity_def jget_simps sample_body Let_def)
qed

lemma sample_head: "read_head no_rat (issue_host body) ''o/r'' ''dev'' = Inr (demo_sha, ''PASS'', None)"
proof -
  have sha: "full_sha demo_sha" by code_simp
  then have plain: "py_lower demo_sha = demo_sha" "demo_sha \<noteq> []" "NL \<notin> set demo_sha" "CHR 0x00 \<notin> set demo_sha"
    using hex_lower_plain(1) by (auto simp: full_sha_def list_all_iff is_hex_lower_def is_digit_def)
  have args: "list_all gh_argument_ok [''api'', ''repos/o/r/commits/'' @ quote_path ''dev'']" "quote_path ''dev'' = ''dev''"
    "list_all gh_argument_ok [''pr'', ''list'', ''--repo'', ''o/r'', ''--head'', ''dev'', ''--json'', ''number,state,headRefOid'', ''--limit'', ''1'']"
    "py_strip ''commit'' \<noteq> []" "py_strip ''checks'' \<noteq> []" "py_strip ''pulls'' \<noteq> []" by code_simp+
  have commit: "run_gh (issue_host body) [''api'', ''repos/'' @ ''o/r'' @ ''/commits/'' @ quote_path ''dev''] = Inr (JObj [(''sha'', JStr demo_sha)])"
    using args by (simp add: run_gh_def sample_parts sample_gh_def sample_loads_def sample_documents_def)
  have checks: "run_gh (issue_host body) [''api'', ''repos/'' @ ''o/r'' @ ''/commits/'' @ demo_sha @ ''/status''] =
      Inr (JObj [(''state'', JStr ''success'')])"
    using args plain by (simp add: run_gh_def sample_parts sample_gh_def sample_loads_def sample_documents_def gh_argument_ok_def)
  have pulls: "run_gh (issue_host body) [''pr'', ''list'', ''--repo'', ''o/r'', ''--head'', ''dev'', ''--json'', ''number,state,headRefOid'',
      ''--limit'', ''1''] = Inr (JList [])"
    using args by (simp add: run_gh_def sample_parts sample_gh_def sample_loads_def sample_documents_def)
  have "py_lower ''success'' = ''success''" by code_simp
  then show ?thesis
    unfolding read_head_def commit
    by (simp add: doc_text_def or_empty_def jget_simps json_or_def json_str_def plain sha checks pulls CI_FROM_GITHUB_def Let_def
        pull_request_def del: append.simps)
qed

lemma sample_observed: "observe_git (issue_host body) ''/w'' ''o/r'' ''dev'' demo_sha = Inr (Some False, Some False)"
proof -
  have out: "git_stdout (issue_host body) ''/w'' [''remote'', ''get-url'', ''origin''] = Inr (Some ''https://github.com/o/r.git'')"
    "git_stdout (issue_host body) ''/w'' [''rev-parse'', ''--abbrev-ref'', ''HEAD''] = Inr (Some ''dev'')"
    "git_stdout (issue_host body) ''/w'' [''rev-parse'', ''HEAD''] = Inr (Some demo_sha)"
    "git_stdout (issue_host body) ''/w'' [''status'', ''--porcelain'', ''--untracked-files=all''] = Inr (Some [])"
    "git_stdout (issue_host body) ''/w'' [''rev-parse'', ''--abbrev-ref'', UPSTREAM] = Inr (Some ''origin/dev'')"
    "git_stdout (issue_host body) ''/w'' [''rev-list'', ''--count'', UPSTREAM @ ''..HEAD''] = Inr (Some ''0'')"
    by (simp_all add: git_stdout_def sample_parts sample_git_def UPSTREAM_def)
  have "full_sha demo_sha" by code_simp
  then have "py_strip demo_sha = demo_sha" using hex_lower_plain(2) by (simp add: full_sha_def)
  moreover have "contains_sub ''o/r'' (py_strip ''https://github.com/o/r.git'')" "py_strip ''dev'' = ''dev''" "py_strip [] = []"
    "unpushed_count (Some ''0'') = Inr (Some False)" by code_simp+
  ultimately show ?thesis by (simp add: observe_git_def worktree_bound_def origin_matches_def out)
qed

lemma sample_pin: "pinned_worktree (issue_host body) = Inr (Some ''/w'')"
proof -
  have "py_strip ''/w'' = ''/w''" "starts_with ''/w'' ''/''" by code_simp+
  then show ?thesis
    by (simp add: pinned_worktree_def worktree_from_pin_def sample_parts Let_def) (simp add: issue_host_def)
qed

lemma sample_memory: "observe_resource (issue_host body) = Inr ''PASS''"
proof -
  have "ch_meminfo (issue_host body) = Got memory_body" by (simp add: issue_host_def)
  moreover have "fold memory_line (py_splitlines memory_body) (Some []) =
      Some [(''MemTotal'', 34359738368), (''MemAvailable'', 17179869184), (''SwapTotal'', 0)]"
    "memory_verdict 34359738368 17179869184 0 0 = ''PASS''" by code_simp+
  ultimately show ?thesis by (simp add: observe_resource_def memory_report_def)
qed

lemma sample_admission: "observe_admission no_rat (issue_host body) ''PASS'' ''o/r'' ''w'' 1 = Inr [(''decision'', JStr ''ALLOW'')]"
proof -
  let ?d = "[(''repository'', JStr ''o/r''), (''workstream'', JStr ''w''), (''intent_revision'', JInt 1), (''status'', JStr ''ACTIVE'')]"
  have "json_name ''c.json''" "claim_active no_rat ?d" by code_simp+
  moreover have "claim_documents (issue_host body) = Some [Got ?d]"
    using \<open>json_name ''c.json''\<close> by (simp add: claim_documents_def claim_document_def map_filter_simps sample_parts)
      (simp add: issue_host_def claim_document_def map_filter_simps sample_loads_def sample_documents_def)
  ultimately show ?thesis
    by (simp add: observe_admission_def matching_claim_def sample_parts claim_of_def jget_simps)
qed

definition sample_facts :: jobj where
  "sample_facts =
     [(''packet'', JObj [(''repository'', JStr ''o/r''), (''workstream'', JStr ''w''), (''status'', JStr ''ACTIVE''),
         (''priority'', JStr ''NORMAL''), (''intent_revision'', JInt 1), (''change_risk'', JStr ''MEDIUM''), (''task_kind'', JStr ''CODE''),
         (''dependencies'', JList [])]),
      (''git'', JObj [(''head'', JStr demo_sha), (''yielded_for_audit'', JBool False), (''dirty'', JBool False), (''unpushed'', JBool False)]),
      (''resource'', JObj [(''result'', JStr ''PASS'')]), (''admission'', JObj [(''decision'', JStr ''ALLOW'')]),
      (''mutation'', JObj [(''ambiguous'', JBool False)]),
      (''failure'', JObj [(''class'', JStr ''NONE''), (''identical_semantic_count'', JInt 0)]),
      (''publication'', JObj [(''coordinator_audit'', JStr UNKNOWN)]), (''pr'', JObj [(''exists'', JBool False)]),
      (''ci'', JObj [(''state'', JStr ''PASS''), (''subject_head'', JStr demo_sha)]),
      (''review'', JObj [(''actionable_open'', JBool False), (''state'', JStr UNKNOWN)]),
      (''wait'', JObj [(''external'', JBool False), (''retry_count'', JInt 0), (''retry_budget'', JInt 3)]),
      (''gates'', JObj [(''org_rollout'', JStr ''NOT_REQUIRED'')]),
      (''watch'', JObj [(''watch_class'', JStr ''worker_progress_or_yield''), (''observed_at'', JStr ''1000Z'')])]"

lemma sample_collects:
  "collect_authoritative no_rat sample_collect ''o/r'' ''w'' ''7'' ''worker_progress_or_yield'' = Inr (sample_facts, ''dev'')"
proof -
  have "repository_ok ''o/r''" "issue_ok ''7''" "required_field sample_issue_fields ''PRIORITY'' = Inr ''normal''"
    "required_field sample_issue_fields ''CHANGE_RISK'' = Inr ''medium''" "required_field sample_issue_fields ''TASK_KIND'' = Inr ''code''"
    "bool_line sample_issue_fields ''MUTATION_AMBIGUOUS'' False = Inr False"
    "publication_facts sample_issue_fields = Inr [(''coordinator_audit'', JStr UNKNOWN)]"
    "py_upper ''normal'' = ''NORMAL''" "py_upper ''medium'' = ''MEDIUM''" "py_upper ''code'' = ''CODE''" by code_simp+
  moreover have "is_dependencies sample_issue_fields = []" by code_simp+
  ultimately show ?thesis
    by (simp add: collect_authoritative_def sample_issue sample_head observed_git_def sample_pin sample_parts sample_observed
        sample_memory sample_admission sample_facts_def Let_def facts_document_def packet_section_def git_section_def
        pr_section_def)
qed

section \<open>What was read\<close>

lemma collect_Inr:
  assumes "collect_authoritative fl h repository workstream issue_id watch_class = Inr (raw, branch)"
  obtains b status revision sha ci pull_state dirty unpushed res admission priority risk kind doubt publication where
    "repository_ok repository" "issue_ok issue_id"
    "read_issue fl h repository workstream issue_id = Inr (b, branch, status, revision)"
    "read_head fl h repository branch = Inr (sha, ci, pull_state)" "observed_git h repository branch sha = Inr (dirty, unpushed)"
    "observe_resource h = Inr res" "observe_admission fl h res repository workstream revision = Inr admission"
    "bool_line b ''MUTATION_AMBIGUOUS'' False = Inr doubt" "publication_facts b = Inr publication"
    "raw = facts_document (packet_section b repository workstream status revision priority risk kind)
       (git_section sha dirty unpushed) res admission doubt publication (pr_section sha pull_state) ci sha watch_class (ch_now h)"
  using assms that by (auto simp: collect_authoritative_def bindE_Inr_iff Let_def split: if_splits)

lemma run_gh_Inr: "run_gh h args = Inr v \<Longrightarrow> executable_provenance_ok (ch_gh h) \<and> list_all gh_argument_ok args"
  by (auto simp: run_gh_def split: if_splits)

text \<open>The issue is the declared one, its packet names the declared watch, and its branch and revision are bounded.\<close>

lemma issue_text_Inr:
  assumes "issue_text fl issue_id v = Inr body"
  shows "\<exists>issue. v = JObj issue \<and> json_str fl (jget issue ''number'') = issue_id \<and> jget issue ''body'' = JStr body"
proof -
  obtain issue where v: "v = JObj issue" using assms by (cases v) (simp_all add: issue_text_def)
  then show ?thesis using assms by (cases "jget issue ''body''") (auto simp: issue_text_def split: if_splits)
qed

lemma packet_identity_Inr:
  assumes "packet_identity b repository workstream = Inr (branch, status, revision)"
  shows "required_field b ''TARGET_REPO'' = Inr repository" "required_field b ''WORKSTREAM'' = Inr workstream"
    "required_field b ''BRANCH'' = Inr branch" "collect_branch_ok branch" "revision \<ge> 1"
    "\<exists>v. required_field b ''INTENT_REVISION'' = Inr v \<and> py_int v = Some revision"
  using assms by (auto simp: packet_identity_def bindE_Inr_iff split: if_splits option.splits)

lemma read_issue_Inr:
  assumes "read_issue fl h repository workstream issue_id = Inr (b, branch, status, revision)"
  obtains issue body where
    "run_gh h [''issue'', ''view'', issue_id, ''--repo'', repository, ''--json'', ''number,body''] = Inr (JObj issue)"
    "json_str fl (jget issue ''number'') = issue_id" "jget issue ''body'' = JStr body" "b = parse_body body"
    "packet_identity b repository workstream = Inr (branch, status, revision)"
  using assms by (auto simp: read_issue_def bindE_Inr_iff Let_def dest!: issue_text_Inr)

text \<open>The head is what \<^verbatim>\<open>gh\<close> answers for the branch, and a pull request has the same head.\<close>

lemma read_head_Inr:
  assumes "read_head fl h repository branch = Inr (sha, ci, pull_state)"
  shows "full_sha sha" "\<exists>commit. run_gh h [''api'', ''repos/'' @ repository @ ''/commits/'' @ quote_path branch] = Inr commit \<and>
      sha = py_lower (doc_text fl commit ''sha'')"
    "\<exists>l. run_gh h [''pr'', ''list'', ''--repo'', repository, ''--head'', branch, ''--json'', ''number,state,headRefOid'',
        ''--limit'', ''1''] = Inr (JList l) \<and> (l = [] \<and> pull_state = None \<or>
        (\<exists>p rest. l = JObj p # rest \<and> py_lower (or_empty fl p ''headRefOid'') = sha \<and> pull_state \<noteq> None))"
proof -
  obtain commit st pulls where c: "run_gh h [''api'', ''repos/'' @ repository @ ''/commits/'' @ quote_path branch] = Inr commit"
    "sha = py_lower (doc_text fl commit ''sha'')" "full_sha sha"
    "run_gh h [''pr'', ''list'', ''--repo'', repository, ''--head'', branch, ''--json'', ''number,state,headRefOid'', ''--limit'', ''1''] =
      Inr pulls" "pull_request fl sha pulls = Inr pull_state"
    using assms by (auto simp: read_head_def bindE_Inr_iff Let_def simp del: append.simps split: if_splits)
  then show "full_sha sha" "\<exists>commit. run_gh h [''api'', ''repos/'' @ repository @ ''/commits/'' @ quote_path branch] = Inr commit \<and>
      sha = py_lower (doc_text fl commit ''sha'')" by blast+
  have "\<exists>l. pulls = JList l \<and> (l = [] \<and> pull_state = None \<or>
        (\<exists>p rest. l = JObj p # rest \<and> py_lower (or_empty fl p ''headRefOid'') = sha \<and> pull_state \<noteq> None))"
    using c(5) by (auto simp: pull_request_def split: json.splits list.splits if_splits)
  then show "\<exists>l. run_gh h [''pr'', ''list'', ''--repo'', repository, ''--head'', branch, ''--json'', ''number,state,headRefOid'',
        ''--limit'', ''1''] = Inr (JList l) \<and> (l = [] \<and> pull_state = None \<or>
        (\<exists>p rest. l = JObj p # rest \<and> py_lower (or_empty fl p ''headRefOid'') = sha \<and> pull_state \<noteq> None))"
    using c(4) by blast
qed

lemma observed_git_Inr:
  assumes "observed_git h repository branch sha = Inr (dirty, unpushed)" "dirty \<noteq> None \<or> unpushed \<noteq> None"
  shows "\<exists>tree. pinned_worktree h = Inr (Some tree) \<and> worktree_bound h tree repository branch sha = Inr True \<and>
    (\<forall>x. dirty = Some x \<longrightarrow> (\<exists>txt. git_stdout h tree [''status'', ''--porcelain'', ''--untracked-files=all''] = Inr (Some txt) \<and>
       (x \<longleftrightarrow> py_strip txt \<noteq> [])))"
proof -
  obtain tree where t: "pinned_worktree h = Inr (Some tree)" "observe_git h tree repository branch sha = Inr (dirty, unpushed)"
    using assms by (auto simp: observed_git_def bindE_Inr_iff split: option.splits)
  then have "worktree_bound h tree repository branch sha = Inr True"
    using assms(2) by (auto simp: observe_git_def bindE_Inr_iff split: if_splits)
  moreover have "\<exists>status. git_stdout h tree [''status'', ''--porcelain'', ''--untracked-files=all''] = Inr status \<and>
      dirty = map_option (\<lambda>s. py_strip s \<noteq> []) status"
    using t(2) calculation by (auto simp: observe_git_def bindE_Inr_iff Let_def split: if_splits)
  ultimately show ?thesis using t(1) by auto
qed

section \<open>What the planner makes of it\<close>

lemma document_normal:
  assumes "normalize_facts (JObj (planner_payload (facts_document pk gt res adm doubt pub pull ci sha cls now))) = Inr f"
  shows "parse_packet (JObj pk) = Inr (packet f)" "worker f = no_worker" "parse_git (Some gt) = Inr (git f)"
    "parse_resource (Some [(''result'', JStr res)]) = Inr (resource_result f)"
    "parse_admission (Some adm) = Inr (admission_decision f, admission_deny_class f)"
    "rv_state (review f) = UNKNOWN" "wt_retry_count (wait f) = 0" "parse_pr (Some pull) = Inr (pr f)"
proof -
  let ?d = "facts_document pk gt res adm doubt pub pull ci sha cls now"
  have sections: "section_facts (planner_payload ?d) ''worker'' parse = parse None"
    "section_facts (planner_payload ?d) ''git'' parse2 = parse2 (Some gt)"
    "section_facts (planner_payload ?d) ''resource'' parse3 = parse3 (Some [(''result'', JStr res)])"
    "section_facts (planner_payload ?d) ''admission'' parse4 = parse4 (Some adm)"
    "section_facts (planner_payload ?d) ''pr'' parse5 = parse5 (Some pull)"
    "section_facts (planner_payload ?d) ''review'' parse6 =
       parse6 (Some [(''actionable_open'', JBool False), (''state'', JStr UNKNOWN)])"
    "section_facts (planner_payload ?d) ''wait'' parse7 =
       parse7 (Some [(''external'', JBool False), (''retry_count'', JInt 0), (''retry_budget'', JInt 3)])"
    "map_of (planner_payload ?d) ''packet'' = Some (JObj pk)"
    for parse :: "jobj option \<Rightarrow> facts_error + 'a" and parse2 :: "jobj option \<Rightarrow> facts_error + 'b"
      and parse3 :: "jobj option \<Rightarrow> facts_error + 'c" and parse4 :: "jobj option \<Rightarrow> facts_error + 'd"
      and parse5 :: "jobj option \<Rightarrow> facts_error + 'e" and parse6 :: "jobj option \<Rightarrow> facts_error + 'f"
      and parse7 :: "jobj option \<Rightarrow> facts_error + 'g"
    by (simp_all add: section_facts_def optional_mapping_def planner_payload_def facts_document_def require_mapping_def)
  have fixed: "parse_review (Some [(''actionable_open'', JBool False), (''state'', JStr UNKNOWN)]) =
      Inr \<lparr>rv_actionable_open = Some False, rv_state = UNKNOWN, rv_subject_head = UNKNOWN\<rparr>"
    "parse_wait (Some [(''external'', JBool False), (''retry_count'', JInt 0), (''retry_budget'', JInt 3)]) =
      Inr \<lparr>wt_external = False, wt_condition = None, wt_retry_count = 0, wt_retry_budget = 3\<rparr>" by code_simp+
  note n = assms [unfolded normalize_Inr_iff]
  have "parse_review (Some [(''actionable_open'', JBool False), (''state'', JStr UNKNOWN)]) = Inr (review f)"
    "parse_wait (Some [(''external'', JBool False), (''retry_count'', JInt 0), (''retry_budget'', JInt 3)]) = Inr (wait f)"
    using n by (auto simp: sections)
  then have "review f = \<lparr>rv_actionable_open = Some False, rv_state = UNKNOWN, rv_subject_head = UNKNOWN\<rparr>"
    "wait f = \<lparr>wt_external = False, wt_condition = None, wt_retry_count = 0, wt_retry_budget = 3\<rparr>"
    using fixed by simp_all
  then show "rv_state (review f) = UNKNOWN" "wt_retry_count (wait f) = 0" by simp_all
  show "parse_packet (JObj pk) = Inr (packet f)" "worker f = no_worker" "parse_git (Some gt) = Inr (git f)"
    "parse_resource (Some [(''result'', JStr res)]) = Inr (resource_result f)"
    "parse_admission (Some adm) = Inr (admission_decision f, admission_deny_class f)" "parse_pr (Some pull) = Inr (pr f)"
    using n by (auto simp: sections parse_worker_def)
qed

lemma section_values:
  assumes "parse_git (Some (git_section sha dirty unpushed)) = Inr g" shows "gt_dirty g = dirty" "gt_unpushed g = unpushed"
  using assms
  by (auto simp: parse_git_def git_section_def bindE_Inr_iff if_present_def some_bool_def require_bool_def split: option.splits)

lemma pr_section_value:
  assumes "parse_pr (Some (pr_section sha pull_state)) = Inr p" shows "pr_exists p \<longleftrightarrow> pull_state \<noteq> None"
  using assms
  by (auto simp: parse_pr_def pr_section_def no_pr_def bindE_Inr_iff require_bool_def jget_simps split: option.splits if_splits)

lemma resource_values: "observe_resource h = Inr res \<Longrightarrow> res \<in> {''PASS'', ''BLOCK'', ''UNKNOWN''}"
proof -
  have "memory_report s \<in> {''PASS'', ''BLOCK'', ''UNKNOWN''}" for s
    by (simp add: memory_report_def memory_verdict_def Let_def split: option.splits prod.splits)
  then show "observe_resource h = Inr res \<Longrightarrow> ?thesis" by (auto simp: observe_resource_def split: reading.splits)
qed

lemma resource_value:
  assumes "observe_resource h = Inr res" "parse_resource (Some [(''result'', JStr res)]) = Inr r" shows "r = res"
proof -
  have "parse_resource (Some [(''result'', JStr ''PASS'')]) = Inr ''PASS''" "parse_resource (Some [(''result'', JStr ''BLOCK'')]) = Inr ''BLOCK''"
    "parse_resource (Some [(''result'', JStr ''UNKNOWN'')]) = Inr ''UNKNOWN''" by code_simp+
  then show ?thesis using resource_values [OF assms(1)] assms(2) by auto
qed

section \<open>Claim files\<close>

text \<open>A live claim for this revision of the watch.\<close>

definition live_claim :: "(rat \<Rightarrow> string) \<Rightarrow> string \<Rightarrow> string \<Rightarrow> int \<Rightarrow> jobj \<Rightarrow> bool" where
  "live_claim fl repository workstream revision d =
     (claim_of repository workstream d \<and> eq_int (jget d ''intent_revision'') revision \<and> claim_active fl d)"

definition claims_settle :: "(rat \<Rightarrow> string) \<Rightarrow> string \<Rightarrow> string \<Rightarrow> int \<Rightarrow> jobj reading list \<Rightarrow> bool" where
  "claims_settle fl repository workstream revision docs =
     ((\<forall>x \<in> set docs. \<exists>d. x = Got d \<and> \<not> (live_claim fl repository workstream revision d \<and> jget d ''ambiguous'' = JBool True)) \<and>
      (\<exists>d. Got d \<in> set docs \<and> live_claim fl repository workstream revision d))"

lemma matching_step:
  "matching_from fl repository workstream revision m (Got d # docs) =
     (if live_claim fl repository workstream revision d
      then if jget d ''ambiguous'' = JBool True then Inr None else matching_from fl repository workstream revision True docs
      else matching_from fl repository workstream revision m docs)"
  by (simp add: live_claim_def)

lemma matching_from_iff:
  "matching_from fl repository workstream revision m docs = Inr (Some True) \<longleftrightarrow>
     (\<forall>x \<in> set docs. \<exists>d. x = Got d \<and> \<not> (live_claim fl repository workstream revision d \<and> jget d ''ambiguous'' = JBool True)) \<and>
     (m \<or> (\<exists>d. Got d \<in> set docs \<and> live_claim fl repository workstream revision d))"
proof (induction docs arbitrary: m)
  case (Cons x docs)
  show ?case
  proof (cases x)
    case (Got d)
    show ?thesis
      unfolding Got matching_step using Cons.IH [of m] Cons.IH [of True]
      by (cases "live_claim fl repository workstream revision d"; cases "jget d ''ambiguous'' = JBool True")
        (simp_all del: matching_from.simps, blast+)
  qed simp_all
qed simp

lemma admission_allows:
  assumes "observe_admission fl h res repository workstream revision = Inr admission"
    "jget admission ''decision'' = JStr ''ALLOW''"
  shows "directory_provenance_ok (ch_claim_dir h)"
    "\<exists>docs. claim_documents h = Some docs \<and> claims_settle fl repository workstream revision docs"
proof -
  have "directory_provenance_ok (ch_claim_dir h) \<and> matching_claim fl h repository workstream revision = Inr (Some True)"
    using assms by (auto simp: observe_admission_def jget_simps bindE_Inr_iff split: if_splits)
  then show "directory_provenance_ok (ch_claim_dir h)"
    "\<exists>docs. claim_documents h = Some docs \<and> claims_settle fl repository workstream revision docs"
    by (auto simp: matching_claim_def matching_from_iff claims_settle_def split: option.splits)
qed

lemma admission_value:
  assumes "observe_admission fl h res repository workstream revision = Inr admission" "parse_admission (Some admission) = Inr (dec, den)"
  shows "jget admission ''decision'' = JStr dec"
proof -
  have "parse_admission (Some [(''decision'', JStr ''UNKNOWN'')]) = Inr (''UNKNOWN'', None)"
    "parse_admission (Some [(''decision'', JStr ''ALLOW'')]) = Inr (''ALLOW'', None)"
    "parse_admission (Some [(''decision'', JStr ''DENY''), (''deny_class'', JStr ''HOST_BUDGET'')]) = Inr (''DENY'', Some ''HOST_BUDGET'')"
    by code_simp+
  then show ?thesis using assms by (auto simp: observe_admission_def jget_simps bindE_Inr_iff split: if_splits)
qed

section \<open>Claims\<close>

text \<open>A section of the collected facts.\<close>

definition fact_section :: "jobj \<Rightarrow> string \<Rightarrow> jobj" where
  "fact_section raw key = (case jget raw key of JObj d \<Rightarrow> d | _ \<Rightarrow> [])"

lemma document_sections:
  "fact_section (facts_document pk gt res adm doubt pub pull ci sha cls now) ''packet'' = pk"
  "fact_section (facts_document pk gt res adm doubt pub pull ci sha cls now) ''git'' = gt"
  "fact_section (facts_document pk gt res adm doubt pub pull ci sha cls now) ''pr'' = pull"
  "fact_section (facts_document pk gt res adm doubt pub pull ci sha cls now) ''ci'' = [(''state'', JStr ci), (''subject_head'', JStr sha)]"
  by (simp_all add: fact_section_def facts_document_def jget_simps)

text \<open>
  C32: the collected facts describe one commit of one declared packet: the trusted \<^verbatim>\<open>gh\<close> answered for the
  declared issue, whose body names the declared repository and workstream and a bounded branch; the
  facts carry that identity and the body's revision, which is at least 1; the full commit that \<^verbatim>\<open>gh\<close> names
  for the branch is the Git head, the subject of the checks and the head of the pull request; and the
  state of the working tree is reported only for a pinned worktree on that branch at that commit.
\<close>

theorem collected_facts_accurate:
  assumes "collect_authoritative fl h repository workstream issue_id watch_class = Inr (raw, branch)"
  shows "\<exists>issue body b commit sha. executable_provenance_ok (ch_gh h) \<and>
     run_gh h [''issue'', ''view'', issue_id, ''--repo'', repository, ''--json'', ''number,body''] = Inr (JObj issue) \<and>
     json_str fl (jget issue ''number'') = issue_id \<and> jget issue ''body'' = JStr body \<and> b = parse_body body \<and>
     required_field b ''TARGET_REPO'' = Inr repository \<and> required_field b ''WORKSTREAM'' = Inr workstream \<and>
     required_field b ''BRANCH'' = Inr branch \<and> collect_branch_ok branch \<and>
     (\<exists>v n. required_field b ''INTENT_REVISION'' = Inr v \<and> py_int v = Some n \<and> 1 \<le> n \<and>
        jget (fact_section raw ''packet'') ''intent_revision'' = JInt n) \<and>
     jget (fact_section raw ''packet'') ''repository'' = JStr repository \<and>
     jget (fact_section raw ''packet'') ''workstream'' = JStr workstream \<and>
     run_gh h [''api'', ''repos/'' @ repository @ ''/commits/'' @ quote_path branch] = Inr commit \<and>
     sha = py_lower (doc_text fl commit ''sha'') \<and> full_sha sha \<and>
     jget (fact_section raw ''git'') ''head'' = JStr sha \<and> jget (fact_section raw ''ci'') ''subject_head'' = JStr sha \<and>
     (jget (fact_section raw ''pr'') ''exists'' = JBool True \<longrightarrow> jget (fact_section raw ''pr'') ''head'' = JStr sha \<and>
        (\<exists>p rest. run_gh h [''pr'', ''list'', ''--repo'', repository, ''--head'', branch, ''--json'', ''number,state,headRefOid'',
            ''--limit'', ''1''] = Inr (JList (JObj p # rest)) \<and> py_lower (or_empty fl p ''headRefOid'') = sha)) \<and>
     (jhas (fact_section raw ''git'') ''dirty'' \<or> jhas (fact_section raw ''git'') ''unpushed'' \<longrightarrow>
        (\<exists>tree. pinned_worktree h = Inr (Some tree) \<and> worktree_bound h tree repository branch sha = Inr True))"
proof -
  obtain b status revision sha ci pull_state dirty unpushed res admission priority risk kind doubt publication where c:
    "read_issue fl h repository workstream issue_id = Inr (b, branch, status, revision)"
    "read_head fl h repository branch = Inr (sha, ci, pull_state)" "observed_git h repository branch sha = Inr (dirty, unpushed)"
    "raw = facts_document (packet_section b repository workstream status revision priority risk kind)
       (git_section sha dirty unpushed) res admission doubt publication (pr_section sha pull_state) ci sha watch_class (ch_now h)"
    by (rule collect_Inr [OF assms])
  obtain issue body where i: "run_gh h [''issue'', ''view'', issue_id, ''--repo'', repository, ''--json'', ''number,body''] = Inr (JObj issue)"
    "json_str fl (jget issue ''number'') = issue_id" "jget issue ''body'' = JStr body" "b = parse_body body"
    "packet_identity b repository workstream = Inr (branch, status, revision)"
    by (rule read_issue_Inr [OF c(1)])
  note p = packet_identity_Inr [OF i(5)]
  have sections: "jget (packet_section b repository workstream status revision priority risk kind) ''intent_revision'' = JInt revision"
    "jget (packet_section b repository workstream status revision priority risk kind) ''repository'' = JStr repository"
    "jget (packet_section b repository workstream status revision priority risk kind) ''workstream'' = JStr workstream"
    "jget (git_section sha dirty unpushed) ''head'' = JStr sha"
    "jget (pr_section sha pull_state) ''exists'' = JBool True \<longleftrightarrow> pull_state \<noteq> None"
    "pull_state \<noteq> None \<Longrightarrow> jget (pr_section sha pull_state) ''head'' = JStr sha"
    "jhas (git_section sha dirty unpushed) ''dirty'' \<or> jhas (git_section sha dirty unpushed) ''unpushed'' \<longleftrightarrow>
       dirty \<noteq> None \<or> unpushed \<noteq> None"
    by (auto simp: packet_section_def git_section_def pr_section_def jget_simps jhas_def split: option.splits)
  have pull: "\<exists>p rest. run_gh h [''pr'', ''list'', ''--repo'', repository, ''--head'', branch, ''--json'', ''number,state,headRefOid'',
      ''--limit'', ''1''] = Inr (JList (JObj p # rest)) \<and> py_lower (or_empty fl p ''headRefOid'') = sha" if "pull_state \<noteq> None"
    using that read_head_Inr(3) [OF c(2)] by blast
  have tree: "\<exists>tree. pinned_worktree h = Inr (Some tree) \<and> worktree_bound h tree repository branch sha = Inr True"
    if "dirty \<noteq> None \<or> unpushed \<noteq> None" using observed_git_Inr [OF c(3) that] by blast
  obtain commit where commit: "run_gh h [''api'', ''repos/'' @ repository @ ''/commits/'' @ quote_path branch] = Inr commit"
    "sha = py_lower (doc_text fl commit ''sha'')" using read_head_Inr(2) [OF c(2)] by blast
  have trusted: "executable_provenance_ok (ch_gh h)" using run_gh_Inr [OF i(1)] by blast
  have revision: "\<exists>v n. required_field b ''INTENT_REVISION'' = Inr v \<and> py_int v = Some n \<and> 1 \<le> n \<and>
      jget (packet_section b repository workstream status revision priority risk kind) ''intent_revision'' = JInt n"
    using p(5,6) sections(1) by auto
  have subject: "jget [(''state'', JStr ci), (''subject_head'', JStr sha)] ''subject_head'' = JStr sha" by (simp add: jget_simps)
  show ?thesis
    unfolding c(4) document_sections sections(5,7)
    by (rule exI [of _ issue], rule exI [of _ body], rule exI [of _ b], rule exI [of _ commit], rule exI [of _ sha], intro conjI impI)
      (rule trusted i(1-4) p(1-4) revision sections(2-4) commit read_head_Inr(1) [OF c(2)] subject; assumption?
       | rule sections(6) pull tree, assumption)+
qed

theorem collected_facts_accurate_witness:
  "\<exists>sha. full_sha sha \<and> jget (fact_section sample_facts ''git'') ''head'' = JStr sha \<and>
     jget (fact_section sample_facts ''ci'') ''subject_head'' = JStr sha"
  using collected_facts_accurate [OF sample_collects] by blast

text \<open>
  C31: from collected facts the planner never resumes a worker and never declares a merge ready, and it
  launches a worker only when the memory of the host passes, the claim files are readable and
  unambiguous with a live claim for the packet's revision, there is no pull request, and the pinned
  worktree is on the branch at its head without a change.
\<close>

theorem collected_launch_gates:
  assumes "collect_authoritative fl h repository workstream issue_id watch_class = Inr (raw, branch)"
    "plan (JObj (planner_payload raw)) = Inr d"
  shows "dc_decision d \<noteq> ''RESUME_WORKER'' \<and> dc_decision d \<noteq> ''MERGE_READY'' \<and>
    (dc_launches_worker d \<longrightarrow> observe_resource h = Inr ''PASS'' \<and> directory_provenance_ok (ch_claim_dir h) \<and>
       (\<exists>docs n. claim_documents h = Some docs \<and> claims_settle fl repository workstream n docs \<and>
          jget (fact_section raw ''packet'') ''intent_revision'' = JInt n) \<and>
       jget (fact_section raw ''pr'') ''exists'' = JBool False \<and>
       (\<exists>tree sha txt. pinned_worktree h = Inr (Some tree) \<and> worktree_bound h tree repository branch sha = Inr True \<and>
          jget (fact_section raw ''git'') ''head'' = JStr sha \<and>
          git_stdout h tree [''status'', ''--porcelain'', ''--untracked-files=all''] = Inr (Some txt) \<and> py_strip txt = []))"
proof -
  obtain b status revision sha ci pull_state dirty unpushed res admission priority risk kind doubt publication where c:
    "observed_git h repository branch sha = Inr (dirty, unpushed)"
    "observe_resource h = Inr res" "observe_admission fl h res repository workstream revision = Inr admission"
    "raw = facts_document (packet_section b repository workstream status revision priority risk kind)
       (git_section sha dirty unpushed) res admission doubt publication (pr_section sha pull_state) ci sha watch_class (ch_now h)"
    by (rule collect_Inr [OF assms(1)])
  obtain f where f: "normalize_facts (JObj (planner_payload raw)) = Inr f" "decide f = Inr d" using assms(2) by (auto simp: plan_Inr)
  note n = document_normal [OF f(1) [unfolded c(4)]]
  have decided: "out (decide f) = Some (dc_decision d)" using f(2) by (simp add: out_def)
  have "UNKNOWN \<noteq> ''CLEAR''" by code_simp
  then have "out (decide f) \<noteq> Some ''RESUME_WORKER''" "out (decide f) \<noteq> Some ''MERGE_READY''"
    using n(2,6) by (auto simp: decide_resumes decide_merges pipeline_out active_worker_def live_status_def no_worker_def)
  moreover have "observe_resource h = Inr ''PASS'' \<and> directory_provenance_ok (ch_claim_dir h) \<and>
      (\<exists>docs. claim_documents h = Some docs \<and> claims_settle fl repository workstream revision docs) \<and> pull_state = None \<and>
      dirty = Some False" if launch: "dc_launches_worker d"
  proof -
    have "out (decide f) = Some ''ADMIT_IMPLEMENTATION''"
      using launch plan_well [OF assms(2) f(1)] by (simp add: well_emitted_def out_def)
    then have g: "resource_result f \<in> {''PASS'', ''WARN''}" "admission_decision f = ''ALLOW''" "gt_dirty (git f) = Some False"
      "\<not> pr_exists (pr f)" unfolding decide_admits by blast+
    have "pull_state = None" using g(4) pr_section_value [OF n(8)] by simp
    moreover have "observe_resource h = Inr ''PASS''" using g(1) resource_value [OF c(2) n(4)] resource_values [OF c(2)] c(2) by auto
    ultimately show ?thesis
      using g(2,3) admission_value [OF c(3) n(5)] section_values(1) [OF n(3)] admission_allows [OF c(3)] by simp
  qed
  moreover have "jget (packet_section b repository workstream status revision priority risk kind) ''intent_revision'' = JInt revision"
    "jget (git_section sha dirty unpushed) ''head'' = JStr sha" "jget (pr_section sha None) ''exists'' = JBool False"
    by (simp_all add: packet_section_def git_section_def pr_section_def jget_simps)
  moreover have "\<exists>tree txt. pinned_worktree h = Inr (Some tree) \<and> worktree_bound h tree repository branch sha = Inr True \<and>
      git_stdout h tree [''status'', ''--porcelain'', ''--untracked-files=all''] = Inr (Some txt) \<and> py_strip txt = []" if "dirty = Some False"
    using observed_git_Inr [OF c(1)] that by auto
  ultimately show ?thesis unfolding c(4) document_sections using decided by auto
qed

lemma sample_normal: "planner_payload sample_facts = butlast sample_facts"
  "normalize_facts (JObj (butlast sample_facts)) = Inr (demo_start_facts
     \<lparr>packet := (packet demo_start_facts)\<lparr>pk_task_kind := Some ''CODE''\<rparr>, ci_state := ''PASS'', ci_subject_head := demo_sha,
      review := \<lparr>rv_actionable_open = Some False, rv_state = UNKNOWN, rv_subject_head = UNKNOWN\<rparr>\<rparr>)"
  by (simp add: planner_payload_def sample_facts_def) code_simp

theorem collected_launch_gates_witness:
  "\<exists>d. plan (JObj (planner_payload sample_facts)) = Inr d \<and> dc_launches_worker d \<and> observe_resource sample_collect = Inr ''PASS'' \<and>
     (\<exists>tree. pinned_worktree sample_collect = Inr (Some tree))"
proof -
  let ?f = "demo_start_facts
     \<lparr>packet := (packet demo_start_facts)\<lparr>pk_task_kind := Some ''CODE''\<rparr>, ci_state := ''PASS'', ci_subject_head := demo_sha,
      review := \<lparr>rv_actionable_open = Some False, rv_state = UNKNOWN, rv_subject_head = UNKNOWN\<rparr>\<rparr>"
  have d: "plan (JObj (planner_payload sample_facts)) = Inr (planned ?f)"
    unfolding sample_normal(1) by (rule planned_eq [OF sample_normal(2)])
  moreover have "dc_launches_worker (planned ?f)" by code_simp
  ultimately show ?thesis using collected_launch_gates [OF sample_collects d] by blast
qed

text \<open>
  The memory check passes only on a readable report, with a positive total and no negative number,
  that leaves 64 MiB and, by the size of the machine, a fifth, a quarter or 8 GiB of it available, and
  that has no more than 1 GiB of swap in use.
\<close>

theorem memory_pass_bounds:
  assumes "observe_resource h = Inr ''PASS''"
  shows "\<exists>txt vs mem_total available swap_total swap_free. ch_meminfo h = Got txt \<and>
     fold memory_line (py_splitlines txt) (Some []) = Some vs \<and> map_of vs ''MemTotal'' = Some mem_total \<and>
     map_of vs ''MemAvailable'' = Some available \<and> map_of vs ''SwapTotal'' = Some swap_total \<and>
     swap_free = (case map_of vs ''SwapFree'' of Some n \<Rightarrow> n | None \<Rightarrow> 0) \<and> 0 < mem_total \<and> 64 * 1024 ^ 2 \<le> available \<and>
     (mem_total < 8 * 1024 ^ 3 \<longrightarrow> mem_total < 5 * available + 5 \<and> swap_total - swap_free \<le> 256 * 1024 ^ 2) \<and>
     (8 * 1024 ^ 3 \<le> mem_total \<and> mem_total < 24 * 1024 ^ 3 \<longrightarrow> mem_total < 4 * available + 4) \<and>
     (24 * 1024 ^ 3 \<le> mem_total \<longrightarrow> 8 * 1024 ^ 3 \<le> available) \<and> swap_total - swap_free \<le> 1024 ^ 3"
proof -
  obtain report vs mem_total available swap_total where m: "ch_meminfo h = Got report"
    "fold memory_line (py_splitlines report) (Some []) = Some vs" "map_of vs ''MemTotal'' = Some mem_total"
    "map_of vs ''MemAvailable'' = Some available" "map_of vs ''SwapTotal'' = Some swap_total"
    using assms by (auto simp: observe_resource_def memory_report_def split: reading.splits option.splits)
  define swap_free where "swap_free = (case map_of vs ''SwapFree'' of Some n \<Rightarrow> n | None \<Rightarrow> 0)"
  have "\<not> (mem_total \<le> 0 \<or> available < 0 \<or> swap_total < 0 \<or> swap_free < 0)"
    "memory_verdict mem_total available swap_total swap_free = ''PASS''"
    using assms unfolding observe_resource_def memory_report_def m reading.case option.case prod.case Let_def swap_free_def by (auto split: if_splits)
  then have "0 < mem_total \<and> 64 * 1024 ^ 2 \<le> available \<and>
     (mem_total < 8 * 1024 ^ 3 \<longrightarrow> mem_total < 5 * available + 5 \<and> swap_total - swap_free \<le> 256 * 1024 ^ 2) \<and>
     (8 * 1024 ^ 3 \<le> mem_total \<and> mem_total < 24 * 1024 ^ 3 \<longrightarrow> mem_total < 4 * available + 4) \<and>
     (24 * 1024 ^ 3 \<le> mem_total \<longrightarrow> 8 * 1024 ^ 3 \<le> available) \<and> swap_total - swap_free \<le> 1024 ^ 3"
    by (auto simp: memory_verdict_def memory_thresholds_def Let_def split: if_splits)
  then show ?thesis using m swap_free_def by blast
qed

theorem memory_pass_bounds_witness: "\<exists>txt. ch_meminfo sample_collect = Got txt"
  using memory_pass_bounds [OF sample_memory] by blast

text \<open>The exceptions that a call of \<^verbatim>\<open>gh\<close> or \<^verbatim>\<open>git\<close>, the pin, or a claim file can raise past the guards.\<close>

definition gh_escapes :: "collect_host \<Rightarrow> string list \<Rightarrow> bool" where
  "gh_escapes h args =
     (ch_gh_run h args = Escaping \<or> (\<exists>txt. ch_gh_run h args = Got (0, txt) \<and> ch_loads h txt = Escaping))"

definition pin_escapes :: "collect_host \<Rightarrow> bool" where
  "pin_escapes h = (ch_pin_text h = Escaping \<or> (\<exists>txt. ch_pin_text h = Got txt \<and> ch_is_real_dir h (py_strip txt) = None))"

definition entry_escapes :: "collect_host \<Rightarrow> claim_entry \<Rightarrow> bool" where
  "entry_escapes h e =
     (ce_symlink e = None \<or> ce_is_file e = None \<or> ce_text e = Escaping \<or> (\<exists>txt. ce_text e = Got txt \<and> ch_loads h txt = Escaping))"

lemma run_gh_crash: "run_gh h args = Inl CollectCrash \<Longrightarrow> gh_escapes h args"
  by (auto simp: run_gh_def gh_escapes_def split: reading.splits if_splits prod.splits)

lemma pinned_worktree_crash: "pinned_worktree h = Inl CollectCrash \<Longrightarrow> file_pin_ok (ch_pin h) \<and> pin_escapes h"
  by (auto simp: pinned_worktree_def worktree_from_pin_def pin_escapes_def Let_def split: reading.splits option.splits if_splits)

lemma git_stdout_crash:
  "git_stdout h tree args = Inl e \<Longrightarrow> e = CollectCrash \<and> ch_git_run h (''-C'' # tree # args) = Escaping"
  by (auto simp: git_stdout_def split: reading.splits if_splits prod.splits)

lemma worktree_bound_crash:
  assumes "worktree_bound h tree repository branch sha = Inl e" shows "\<exists>args. ch_git_run h (''-C'' # tree # args) = Escaping"
  using assms
  by (auto simp: worktree_bound_def origin_matches_def bindE_Inl_iff split: if_splits dest: git_stdout_crash)

lemma observe_git_crash:
  assumes "observe_git h tree repository branch sha = Inl e"
  shows "(\<exists>args. ch_git_run h (''-C'' # tree # args) = Escaping) \<or>
    (\<exists>n. git_stdout h tree [''rev-list'', ''--count'', UPSTREAM @ ''..HEAD''] = Inr (Some n) \<and>
       py_isdigit (py_strip n) \<and> py_int (py_strip n) = None)"
proof -
  have count: "\<exists>n. answer = Some n \<and> py_isdigit (py_strip n) \<and> py_int (py_strip n) = None"
    if "unpushed_count answer = Inl e" for answer
    using that by (auto simp: unpushed_count_def split: option.splits if_splits)
  from assms show ?thesis
    by (auto simp: observe_git_def bindE_Inl_iff Let_def split: if_splits
        dest!: worktree_bound_crash git_stdout_crash count)
qed

lemma matching_from_crash:
  "matching_from fl repository workstream revision m docs = Inl e \<Longrightarrow> e = CollectCrash \<and> Escaping \<in> set docs"
  by (induction fl repository workstream revision m docs rule: matching_from.induct) (auto split: if_splits)

lemma claim_document_crash: "claim_document h e = Some Escaping \<Longrightarrow> entry_escapes h e"
  by (auto simp: claim_document_def entry_escapes_def split: option.splits bool.splits reading.splits json.splits if_splits)

lemma admission_crash:
  assumes "observe_admission fl h res repository workstream revision = Inl e"
  shows "directory_provenance_ok (ch_claim_dir h) \<and> (\<exists>es entry. ch_claims h = Some es \<and> entry \<in> set es \<and> entry_escapes h entry)"
proof -
  obtain docs where d: "directory_provenance_ok (ch_claim_dir h)" "claim_documents h = Some docs" "Escaping \<in> set docs"
    using assms by (auto simp: observe_admission_def matching_claim_def bindE_Inl_iff split: if_splits option.splits
        dest!: matching_from_crash)
  then show ?thesis
    by (auto simp: claim_documents_def map_filter_def dest!: claim_document_crash) blast
qed


definition crash_body :: string where
  "crash_body = issue_body @ ''PUBLICATION_REVISION=next'' @ [NL]"

definition crash_issue_fields :: issue_fields where
  "crash_issue_fields = sample_issue_fields
     \<lparr>is_fields := is_fields sample_issue_fields @ [(''PUBLICATION_REVISION'', ''next'')]\<rparr>"

lemma crash_fields: "parse_body crash_body = crash_issue_fields"
  by code_simp

lemma crash_issue:
  "read_issue no_rat (issue_host crash_body) ''o/r'' ''w'' ''7'' = Inr (crash_issue_fields, ''dev'', ''ACTIVE'', 1)"
proof -
  have args: "list_all gh_argument_ok [''issue'', ''view'', ''7'', ''--repo'', ''o/r'', ''--json'', ''number,body'']"
    "py_strip ''issue'' \<noteq> []" by code_simp+
  have "run_gh (issue_host crash_body) [''issue'', ''view'', ''7'', ''--repo'', ''o/r'', ''--json'', ''number,body''] =
      Inr (JObj [(''number'', JInt 7), (''body'', JStr crash_body)])"
    using args by (simp add: run_gh_def sample_parts sample_gh_def sample_loads_def sample_documents_def)
  moreover have "packet_identity (crash_issue_fields) ''o/r'' ''w'' = Inr (''dev'', ''ACTIVE'', 1)" "json_str no_rat (JInt 7) = ''7''"
    by code_simp+
  ultimately show ?thesis by (simp add: read_issue_def crash_fields issue_text_def jget_simps Let_def)
qed

lemma crash_collects: "collect_authoritative no_rat (issue_host crash_body) ''o/r'' ''w'' ''7'' cls = Inl CollectCrash"
proof -
  have "repository_ok ''o/r''" "issue_ok ''7''" "required_field (crash_issue_fields) ''PRIORITY'' = Inr ''normal''"
    "required_field (crash_issue_fields) ''CHANGE_RISK'' = Inr ''medium''"
    "required_field (crash_issue_fields) ''TASK_KIND'' = Inr ''code''"
    "bool_line (crash_issue_fields) ''MUTATION_AMBIGUOUS'' False = Inr False"
    "publication_facts (crash_issue_fields) = Inl CollectCrash"
    by code_simp+
  then show ?thesis
    by (simp add: collect_authoritative_def crash_issue sample_head observed_git_def sample_pin sample_parts sample_observed
        sample_memory sample_admission)
qed


end
