(* ===== verification/HostSample.thy ===== *)
theory HostSample
  imports HostLive WatchProps CollectProps
begin

text \<open>
  A pass that delivers: the facts that the collector reads from the sample host of \<^verbatim>\<open>CollectProps\<close>, a new
  watch, and the signed dispatch of \<^verbatim>\<open>AuthoritySample\<close> for the comment that wakes the coordinator. The
  digests stay terms.
\<close>

section \<open>The watch asks to wake the coordinator\<close>

definition wake_payload_facts :: jobj where
  "wake_payload_facts = butlast sample_facts"

definition wake_facts :: facts where
  "wake_facts = demo_start_facts
     \<lparr>packet := (packet demo_start_facts)\<lparr>pk_task_kind := Some ''CODE''\<rparr>, ci_state := ''PASS'', ci_subject_head := demo_sha,
      review := \<lparr>rv_actionable_open = Some False, rv_state = UNKNOWN, rv_subject_head = UNKNOWN\<rparr>\<rparr>"

lemma wake_payload_facts: "planner_payload sample_facts = wake_payload_facts"
  by (simp add: planner_payload_def wake_payload_facts_def sample_facts_def)

lemma wake_facts: "normalize_facts (JObj wake_payload_facts) = Inr wake_facts"
  unfolding wake_payload_facts_def wake_facts_def by (rule sample_normal(2))

lemma wake_plan: "plan (JObj wake_payload_facts) = Inr (planned wake_facts)"
  by (rule planned_eq [OF wake_facts])

definition wake_ask :: "string \<Rightarrow> emission" where
  "wake_ask dig = (asking ''WAKE_COORDINATOR'' ''coordinator decision changed to ADMIT_IMPLEMENTATION''
     ''ADMIT_IMPLEMENTATION'' demo_sha dig ''NONE'' ''SEND'')\<lparr>rq_next := Some ''1300Z''\<rparr>"

definition wake_result :: reentry where
  "wake_result = (case watch_emit wake_facts demo_watch_facts new_state
       (wake_ask (observation_digest no_rat wake_facts ''ADMIT_IMPLEMENTATION'')) of Inr r \<Rightarrow> r | Inl _ \<Rightarrow> undefined)"

lemma wake_fields:
  "re_result wake_result = ''WAKE_COORDINATOR''" "re_next wake_result = Some ''1300Z''"
  "re_key wake_result = watch_key wake_facts ''WAKE_COORDINATOR'' demo_sha ''ADMIT_IMPLEMENTATION''"
  "re_decision wake_result = ''ADMIT_IMPLEMENTATION''" "re_class wake_result = ''worker_progress_or_yield''"
  "re_revision wake_result = 1" "ps_subject (re_state wake_result) = demo_sha"
  unfolding wake_result_def
  by (simp_all add: watch_emit_def wake_ask_def asking_def RESULTS_def Let_def reported_decision_def emitted_key_def
      wake_facts_def demo_start_facts_def demo_watch_facts_def override_identity_def watch_persist_def)

lemma wake_inputs: "watch_inputs no_rat demo_iso sample_facts (JObj []) demo_watch_facts new_state wake_facts"
proof -
  have "map_option (parse_watch demo_iso) (map_of sample_facts ''watch'') = Some (Inr demo_watch_facts)"
    "parse_state no_rat demo_iso (JObj []) = Inr new_state"
    "check_binding wake_facts demo_watch_facts new_state = Inr ()" by code_simp+
  moreover have "planner_payload sample_facts = wake_payload_facts"
    by (rule wake_payload_facts)
  ultimately show ?thesis by (simp add: watch_inputs_def wake_facts)
qed

lemma wake_evaluates: "watch_evaluate no_rat demo_iso (JObj sample_facts) (JObj []) = Inr wake_result"
proof -
  let ?f = wake_facts and ?w = demo_watch_facts and ?s = new_state
  have payload: "planner_payload sample_facts = wake_payload_facts"
    by (rule wake_payload_facts)
  have "reject_execution_keys ''facts'' sample_facts = Inr ()"
    "reject_unknown sample_facts (TOP_LEVEL_KEYS @ [''watch'']) ''facts'' = Inr ()" "ws_terminal ?s \<noteq> ''CLOSED''"
    by code_simp+
  then have step: "watch_evaluate no_rat demo_iso (JObj sample_facts) (JObj []) = evaluate_open no_rat demo_iso wake_payload_facts ?f ?w ?s"
    using evaluates_to [OF _ _ wake_inputs] payload by simp
  have plain: "\<not> is_stale ?f ?w ?s" "observation_is_older demo_iso ?w ?s = Inr False" "\<not> mutation_ambiguous ?f"
    "failure_class ?f \<noteq> ''AMBIGUOUS_MUTATION''" "failure_class ?f \<noteq> ''TRANSIENT''" "pk_status (packet ?f) \<noteq> ''COMPLETE''"
    "subject_version ?f = demo_sha" "ws_decision ?s = []" "next_check demo_iso (wf_observed_at ?w) ?s False = Inr ''1300Z''"
    "dc_decision (planned ?f) = ''ADMIT_IMPLEMENTATION''" "''ADMIT_IMPLEMENTATION'' \<in> set WAKE_DECISIONS"
    "''ADMIT_IMPLEMENTATION'' \<notin> set WAIT_DECISIONS"
    by code_simp+
  have plan: "plan (JObj (bind_transient_retry wake_payload_facts ?f ?s)) = Inr (planned ?f)"
    using wake_plan plain by (simp add: bind_transient_retry_def)
  have emits: "watch_emit ?f ?w ?s (wake_ask d) = Inr (case watch_emit ?f ?w ?s (wake_ask d) of Inr r \<Rightarrow> r | Inl _ \<Rightarrow> undefined)" for d
    by (simp add: watch_emit_def wake_ask_def asking_def RESULTS_def Let_def)
  have "evaluate_open no_rat demo_iso wake_payload_facts ?f ?w ?s = Inr wake_result"
    unfolding wake_result_def emits [symmetric]
    by (simp add: evaluate_open_def plain plan map_decision_def map_wake_def rescheduled_def Let_def wake_ask_def asking_def)
  then show ?thesis using step by simp
qed

section \<open>The effect is signed\<close>

definition wake_content :: string where "wake_content = effect_content wake_result"

definition wake_effect :: jobj where "wake_effect = sample_effect wake_content"

lemma wake_text: "wake_content \<noteq> []" "length wake_content \<le> 4000" "CHR 0x00 \<notin> set wake_content"
proof -
  have key: "length (watch_key wake_facts ''WAKE_COORDINATOR'' demo_sha ''ADMIT_IMPLEMENTATION'') \<le> 1000 \<and>
      CHR 0x00 \<notin> set (watch_key wake_facts ''WAKE_COORDINATOR'' demo_sha ''ADMIT_IMPLEMENTATION'')"
    "length demo_sha = 40 \<and> CHR 0x00 \<notin> set demo_sha" "int_text 1 = ''1''"
    by code_simp+
  then show "wake_content \<noteq> []" "length wake_content \<le> 4000" "CHR 0x00 \<notin> set wake_content"
    by (simp_all add: wake_content_def effect_content_def wake_fields)
qed

lemma wake_request: "write_request wake_facts demo_sha ''comment_work_packet'' ''dev'' ''7''
    (Some (''binding'', ''dispatch'')) wake_result = worker_payload wake_content"
  by (simp add: write_request_def worker_payload_def wake_facts_def demo_start_facts_def demo_sha_def bound_json_def packet_json_def
      wake_content_def)

lemma wake_write_effect: "write_effect wake_facts demo_sha ''comment_work_packet'' ''dev'' ''7'' wake_result = wake_effect"
  by (simp add: write_effect_def wake_effect_def sample_bound_def sample_proposed_def wake_facts_def demo_start_facts_def demo_sha_def
      wake_content_def)

section \<open>The pass\<close>

definition wake_query :: host_request where
  "wake_query = \<lparr>hr_repo = ''o/r'', hr_workstream = ''w'', hr_class = ''worker_progress_or_yield'', hr_branch = ''dev'',
     hr_target = ''7'', hr_verification = Some (''binding'', ''dispatch''), hr_lock = None, hr_state = None, hr_ledger = None\<rparr>"

definition wake_payload :: jobj where
  "wake_payload = [(''schema_version'', JInt 1), (''target_repo'', JStr ''o/r''), (''workstream'', JStr ''w''),
     (''watch_class'', JStr ''worker_progress_or_yield''), (''branch'', JStr ''dev''), (''effect_target_id'', JStr ''7''),
     (''work_budget'', JInt 1),
     (''verification'', JObj [(''binding_assertion'', JStr ''binding''), (''dispatch_assertion'', JStr ''dispatch'')])]"

definition wake_delivery :: delivery_host where
  "wake_delivery = \<lparr>dh_gh = Some safe_exe, dh_token = None, dh_chat = None\<rparr>"

definition wake_pass :: pass where
  "wake_pass = \<lparr>pa_request = JObj wake_payload, pa_root = Some safe_dir, pa_resolved = Some ''/s'',
     pa_first = sample_collect, pa_second = sample_collect, pa_mkdir = DirReal, pa_lock = LockTaken, pa_attempt = ''a1'',
     pa_host = sample_host wake_content, pa_delivery = wake_delivery\<rparr>"

definition wake_world :: world where
  "wake_world = \<lparr>wo_dirs = (\<lambda>_. \<lparr>wd_lock = Missing, wd_state = Missing, wd_ledger = Missing, wd_journal = Missing\<rparr>),
     wo_replay = [], wo_sent = [], wo_writes = [], wo_stores = [],
     wo_replies = [Some (Replied 0 (Some (JObj [(''id'', JInt 5)])))]\<rparr>"

definition wake_dir :: string where "wake_dir = canonical_watch_dir wake_query wake_facts"

definition locked_world :: world where "locked_world = set_dir wake_dir (wd_lock_update (\<lambda>_. Unreadable)) wake_world"

lemma wake_parses: "parse_host_request wake_payload = Inr wake_query"
  by code_simp

lemma wake_accepted: "host_collect no_rat sample_collect wake_query = Inr (sample_facts, wake_facts, ''dev'')"
proof -
  have "reject_value ''facts'' (JObj sample_facts) = Inr ()" by code_simp
  moreover have "jget sample_facts ''watch'' = JObj [(''watch_class'', JStr ''worker_progress_or_yield''), (''observed_at'', JStr ''1000Z'')]"
    by (simp add: sample_facts_def jget_simps)
  moreover have "packet wake_facts = (packet demo_start_facts)\<lparr>pk_task_kind := Some ''CODE''\<rparr>" by (simp add: wake_facts_def)
  moreover have "pk_repository (packet demo_start_facts) = ''o/r''" "pk_workstream (packet demo_start_facts) = ''w''"
    by (simp_all add: demo_start_facts_def)
  ultimately show ?thesis
    by (simp add: host_collect_def wake_query_def sample_collects reject_def accept_facts_def require_mapping_def jget_simps
        wake_facts wake_payload_facts)
qed

lemma wake_written:
  "deliver_write no_rat (sample_host wake_content) wake_query wake_facts wake_result ''dev'' dir =
     Inr ((''APPLIED'', ''host-verified dispatch matches this concrete external effect'', True), Some wake_effect)"
proof -
  have "subject_version wake_facts = demo_sha" "full_sha demo_sha" by code_simp+
  then show ?thesis
    by (simp add: deliver_write_def wake_fields WRITE_ACTIONS_def wake_query_def wake_request wake_write_effect
        sample_worker worker_emit_def WORKER_RESULTS_def)
qed

lemma wake_sends:
  "send_effect no_rat wake_delivery (re_result wake_result) wake_effect (Replied 0 (Some (JObj [(''id'', JInt 5)]))) =
     (Inr \<lparr>xc_outcome = ''SUCCEEDED'', xc_receipt = ''github-comment:5'', xc_level = ''NONE''\<rparr>,
      Some (GithubComment ''o/r'' ''7'' wake_content))"
proof -
  have "repository_ok ''o/r''" "issue_ok ''7''" "int_text 5 = ''5''" by code_simp+
  moreover have "github_configured wake_delivery"
    by (simp add: github_configured_def wake_delivery_def safe_exe_def executable_provenance_ok_def shared_write_def)
  moreover have "or_empty no_rat wake_effect ''target_repo'' = ''o/r''" "or_empty no_rat wake_effect ''mutation_content'' = wake_content"
    "jget wake_effect ''mutation_target'' = JObj [(''kind'', JStr ''issue''), (''id'', JStr ''7'')]"
    by (simp_all add: wake_effect_def concrete_effect_def or_empty_def json_or_def json_str_def jget_simps
        sample_bound_def sample_proposed_def)
  ultimately show ?thesis
    using wake_text
    by (simp add: send_effect_def wake_fields send_github_comment_def or_empty_def json_or_def json_str_def jget_simps positive_id_def)
qed

lemma wake_locked: "working wake_dir locked_world" "journal_of locked_world wake_dir = Missing"
  "wd_state (wo_dirs locked_world wake_dir) = Missing" "wd_ledger (wo_dirs locked_world wake_dir) = Missing"
  "wo_replay locked_world = []" "wo_sent locked_world = []"
  "wo_replies locked_world = [Some (Replied 0 (Some (JObj [(''id'', JInt 5)])))]"
  by (simp_all add: locked_world_def wake_world_def working_def set_dir_def)

lemma wake_dispatch: "signed_dispatch_id no_rat (sample_host wake_content) (Some (''binding'', ''dispatch'')) = Inr ''d1''"
proof -
  have "py_strip ''d1'' = ''d1''" by code_simp
  then show ?thesis by (simp add: signed_dispatch_id_def sample_ready sample_verified sample_fields)
qed

lemma wake_executes:
  "\<exists>w'. execute_authorized no_rat sample_io (sample_host wake_content) wake_delivery ''a1'' wake_dir
      (Some (''binding'', ''dispatch'')) wake_result [] wake_effect locked_world =
        (Inr (delivered_result wake_result ''github-comment:5''), w') \<and>
    wo_sent w' = [(wake_dir, GithubComment ''o/r'' ''7'' wake_content)] \<and>
    finished wake_dir wake_result [] (base_journal (canonical_request_sha256 no_rat wake_effect) ''d1'' ''WAKE_COORDINATOR'' ''a1'')
      ''github-comment:5'' (canonical_request_sha256 no_rat wake_effect) ''a1'' w'"
proof -
  have token: "safe_dispatch_token ''a1'' = Some ''a1''" by code_simp
  have "resumable no_rat (journal_of locked_world wake_dir) (canonical_request_sha256 no_rat wake_effect) ''a1'' ''a1''"
    by (simp add: resumable_def wake_locked)
  moreover have "reservable (wo_replay locked_world) ''d1'' (canonical_request_sha256 no_rat wake_effect) ''a1''"
    by (simp add: reservable_def wake_locked sample_token)
  ultimately show ?thesis
    using execute_works [OF wake_dispatch _ token _ wake_locked(1) sample_reads wake_locked(7) wake_sends, of "''a1''" "[]"]
    by (simp add: wake_fields TYPED_RESULTS_def MAX_LEDGER_ENTRIES_def wake_locked)
qed

lemma wake_run:
  "\<exists>w'. run_once no_rat sample_io demo_iso wake_pass wake_world = (Inr (delivered_result wake_result ''github-comment:5''), w') \<and>
    wo_sent w' = [(wake_dir, GithubComment ''o/r'' ''7'' wake_content)] \<and>
    finished wake_dir wake_result [] (base_journal (canonical_request_sha256 no_rat wake_effect) ''d1'' ''WAKE_COORDINATOR'' ''a1'')
      ''github-comment:5'' (canonical_request_sha256 no_rat wake_effect) ''a1'' w'"
proof -
  have bind: "bind_canonical wake_pass ''/s'' wake_query wake_dir (wo_dirs wake_world wake_dir) = Inr ()"
    by (simp add: bind_canonical_def wake_pass_def wake_query_def wake_world_def supplied_ok_def confine_file_def)
  have parts: "pa_request wake_pass = JObj wake_payload" "resolve_host_state_root (pa_root wake_pass) (pa_resolved wake_pass) = Some ''/s''"
    "pa_first wake_pass = sample_collect" "pa_second wake_pass = sample_collect"
    "pa_lock wake_pass = LockTaken" "pa_attempt wake_pass = ''a1''" "pa_host wake_pass = sample_host wake_content"
    "pa_delivery wake_pass = wake_delivery"
    by (simp_all add: wake_pass_def resolve_host_state_root_def host_directory_provenance_ok_def safe_dir_def shared_write_def)
  have query: "hr_branch wake_query = ''dev''" "hr_verification wake_query = Some (''binding'', ''dispatch'')"
    by (simp_all add: wake_query_def)
  have same: "host_reconcile (snapshot_of wake_facts ''dev'') (snapshot_of wake_facts ''dev'') ''WAKE_COORDINATOR'' = None"
    by code_simp
  have "finish_typed no_rat sample_io (sample_host wake_content) wake_delivery ''a1'' wake_dir wake_query wake_result wake_facts
      ''dev'' [] locked_world =
    execute_authorized no_rat sample_io (sample_host wake_content) wake_delivery ''a1'' wake_dir
      (Some (''binding'', ''dispatch'')) wake_result [] wake_effect locked_world"
    by (simp add: finish_typed_def query wake_fields finish_write_def wake_written)
  then have "locked_pass no_rat sample_io demo_iso wake_pass wake_query wake_dir sample_facts wake_facts ''dev'' locked_world =
    execute_authorized no_rat sample_io (sample_host wake_content) wake_delivery ''a1'' wake_dir
      (Some (''binding'', ''dispatch'')) wake_result [] wake_effect locked_world"
    by (simp add: locked_pass_def wake_locked load_watch_state_def reject_def wake_evaluates wake_fields TYPED_RESULTS_def
        query parts wake_accepted same ledger_entries_def)
  then have "run_once no_rat sample_io demo_iso wake_pass wake_world =
    execute_authorized no_rat sample_io (sample_host wake_content) wake_delivery ''a1'' wake_dir
      (Some (''binding'', ''dispatch'')) wake_result [] wake_effect locked_world"
    by (simp add: run_once_def parts require_mapping_def wake_parses wake_accepted reject_def Let_def bind
        wake_dir_def [symmetric] locked_world_def)
  then show ?thesis using wake_executes by simp
qed

end
