(* ===== verification/HostProps.thy ===== *)
theory HostProps
  imports HostSample
begin

text \<open>
  What the watch host promises: one delivery for a watch directory over any passes, whichever calls
  fail and wherever a process dies; a delivery only behind its gates and with the signed content; a
  pass that was interrupted before the send delivers when it is repeated.
\<close>

section \<open>What is delivered\<close>

lemma write_delivery:
  assumes "snd (send_effect fl x kind (write_effect g subject action branch target r) rpl) = Some d" "kind \<noteq> ''NOTIFY_OWNER''"
  shows "d = GithubComment (pk_repository (packet g)) target (effect_content r)"
proof -
  let ?e = "write_effect g subject action branch target r"
  have gets: "jget ?e ''target_repo'' = JStr (pk_repository (packet g))" "jget ?e ''mutation_content'' = JStr (effect_content r)"
    "jget ?e ''mutation_target'' = JObj [(''kind'', JStr ''issue''), (''id'', JStr target)]"
    by (simp_all add: write_effect_def concrete_effect_def jget_def)
  have "or_empty fl [(''kind'', JStr ''issue''), (''id'', JStr target)] ''id'' = target"
    by (rule or_empty_str) (simp add: jget_def)
  then show ?thesis
    using assms
    by (auto simp: send_effect_def gets or_empty_str [OF gets(1)] or_empty_str [OF gets(2)] send_github_comment_def
        split: if_splits)
qed

lemma notice_delivery:
  assumes "snd (send_effect fl x ''NOTIFY_OWNER'' effect rpl) = Some d"
  shows "\<exists>chat. host_file (dh_chat x) = Some chat \<and> d = TelegramMessage chat (notice_text fl effect)"
  using assms
  by (auto simp: send_effect_def send_telegram_info_def split: if_splits option.splits)

section \<open>Sends\<close>

lemma still_sent: "still fl k w w' \<Longrightarrow> wo_sent w' = wo_sent w"
  by (simp add: still_def)

lemma silent_answers:
  "wo_sent (snd (answer_with a b c r w)) = wo_sent w"
  "wo_sent (snd (bindS (persist_watch k r w) (\<lambda>_ w. answer_with a b c r w))) = wo_sent w"
  "wo_sent (snd (bindS (persist_ledger k es w) (\<lambda>_ w. answer_with a b c r w))) = wo_sent w"
  by (rule still_sent [of undefined k], intro still_intros)+

lemma notice_sent:
  assumes "wo_sent (snd (finish_notice fl io h x n k q r branch es w)) \<noteq> wo_sent w"
  shows "fst (authorize_concrete_effect fl h all_good (hr_verification q) (owner_notice_effect r (hr_branch q)) False
      (wo_replay w) (wo_replay w)) = Inr ''ALLOW'' \<and>
    finish_notice fl io h x n k q r branch es w =
      execute_authorized fl io h x n k (hr_verification q) r es (owner_notice_effect r branch) w"
proof -
  let ?a = "authorize_concrete_effect fl h all_good (hr_verification q) (owner_notice_effect r (hr_branch q)) False
      (wo_replay w) (wo_replay w)"
  obtain gate where gate: "fst ?a = Inr gate" using assms by (cases "fst ?a") (simp_all add: finish_notice_def)
  have "wo_sent (snd (finish_notice fl io h x n k q r branch es w)) = wo_sent w" if "gate \<noteq> ''ALLOW''"
    using that by (simp add: finish_notice_def gate silent_answers)
  then have "gate = ''ALLOW''" using assms by blast
  then show ?thesis using gate by (simp add: finish_notice_def)
qed

lemma write_sent:
  assumes "wo_sent (snd (finish_write fl io h x n k q r f branch es w)) \<noteq> wo_sent w"
    "map_of WRITE_ACTIONS (re_result r) = Some action"
  shows "\<exists>c. full_sha (subject_version f) \<and>
    fst (worker_evaluate fl h all_good (JObj (write_request f (subject_version f) action branch (hr_target q) (hr_verification q) r))
      False (wo_replay w) (wo_replay w)) = Inr c \<and> cf_authorizes_write c \<and>
    finish_write fl io h x n k q r f branch es w =
      execute_authorized fl io h x n k (hr_verification q) r es
        (write_effect f (subject_version f) action branch (hr_target q) r) w"
proof -
  obtain p where p: "deliver_write fl h q f r branch (wo_replay w) = Inr p"
    using assms(1) silent_answers
    by (cases "deliver_write fl h q f r branch (wo_replay w)")
      (auto simp: finish_write_def split: worker_error.splits facts_error.splits)
  obtain result reason au effect where q: "p = ((result, reason, au), effect)" by (metis prod.collapse)
  have "wo_sent (snd (finish_write fl io h x n k q r f branch es w)) = wo_sent w"
    if "\<not> (result = ''APPLIED'' \<and> au \<and> effect \<noteq> None)"
    unfolding finish_write_def p q sum.case prod.case if_not_P [OF that] by (simp only: if_distrib [of snd] if_distrib [of wo_sent] silent_answers if_cancel)
  then have go: "result = ''APPLIED'' \<and> au \<and> effect \<noteq> None" using assms(1) by blast
  have sha: "full_sha (subject_version f)" using p q go by (auto simp: deliver_write_def Let_def split: if_splits)
  obtain c where "fst (worker_evaluate fl h all_good (JObj (write_request f (subject_version f) action branch (hr_target q)
      (hr_verification q) r)) False (wo_replay w) (wo_replay w)) = Inr c"
    "au = cf_authorizes_write c" "effect = Some (write_effect f (subject_version f) action branch (hr_target q) r)"
    using p q sha assms(2) by (auto simp: deliver_write_def Let_def bindE_Inr_iff)
  then show ?thesis using go sha by (simp add: finish_write_def p q)
qed

text \<open>A binding and a dispatch, signed under the trust anchor, for exactly this effect.\<close>

definition signed_for :: "(rat \<Rightarrow> string) \<Rightarrow> host \<Rightarrow> (string \<times> string) option \<Rightarrow> jobj \<Rightarrow> bool" where
  "signed_for fl h verification effect =
     (\<exists>bp dp anchor binding dispatch. verification = Some (bp, dp) \<and> trust_anchor h = Some anchor \<and>
        signed_by fl h anchor bp binding \<and> signed_by fl h anchor dp dispatch \<and>
        jget dispatch ''tool_id'' = JStr DISPATCH_TOOL_ID \<and>
        jget dispatch ''request_sha256'' = JStr (canonical_request_sha256 fl effect) \<and>
        normalize_permission fl (jget binding ''authority_permission'') \<in> set AUTHORIZED_PERMISSIONS)"

lemma allowed_signed:
  assumes "fst (authorize_concrete_effect fl h sc ver effect c seen dir) = Inr ''ALLOW''"
  shows "signed_for fl h ver effect"
proof -
  have "authorize_concrete_effect fl h sc ver effect c seen dir =
      (Inr ''ALLOW'', snd (authorize_concrete_effect fl h sc ver effect c seen dir))"
    using assms by (simp add: prod_eq_iff)
  from effect_allowed [OF this] show ?thesis unfolding signed_for_def by blast
qed

lemma reject_Inr: "reject m = Inr x \<longleftrightarrow> m = Inr x"
  by (simp add: reject_def map_err_Inr_iff)

text \<open>The facts that the host accepted, in the form the request was compared with.\<close>

lemma accepted_facts:
  assumes "host_collect fl c q = Inr (raw, f, branch)"
  shows "normalize_facts (JObj (planner_payload raw)) = Inr f" "pk_repository (packet f) = hr_repo q"
    "pk_workstream (packet f) = hr_workstream q"
  using assms
  by (auto simp: host_collect_def reject_Inr accept_facts_def bindE_Inr_iff split: prod.splits if_splits sum.splits collect_stop.splits)

lemma write_actions: "map_of WRITE_ACTIONS name = Some action \<longleftrightarrow>
    name = ''WAKE_COORDINATOR'' \<and> action = ''comment_work_packet'' \<or>
    name = ''RESUME_ADMITTED_WORKER'' \<and> action = ''update_work_packet''"
  by (auto simp: WRITE_ACTIONS_def)

lemma write_signed:
  assumes "fst (worker_evaluate fl h sc (JObj (write_request f (subject_version f) action branch (hr_target q) (hr_verification q) r))
      False dir dir) = Inr c" "cf_authorizes_write c" "map_of WRITE_ACTIONS (re_result r) = Some action"
    "full_sha (subject_version f)" "parse_host_request payload = Inr q" "host_collect fl ch q = Inr (raw, f, br)"
    "hr_branch q = branch" "hr_verification q = Some (bp, dp)"
  shows "signed_for fl h (hr_verification q) (write_effect f (subject_version f) action branch (hr_target q) r)"
proof -
  let ?p = "write_request f (subject_version f) action branch (hr_target q) (hr_verification q) r"
  have ev: "worker_evaluate fl h sc (JObj ?p) False dir dir = (Inr c, snd (worker_evaluate fl h sc (JObj ?p) False dir dir))"
    using assms(1) by (simp add: prod_eq_iff)
  obtain data wi dir' where wi: "JObj ?p = JObj data" "parse_request fl data = Inr wi"
    "authorize_concrete_effect fl h sc (wi_verification wi) (concrete_effect (wi_bound wi) (wi_proposed wi)) False dir dir =
       (Inr ''ALLOW'', dir')"
    by (rule worker_write [OF ev assms(2)]) blast
  have status: "pk_status (packet f) \<in> set PACKET_STATUSES"
    using normalized(3) [OF accepted_facts(1) [OF assms(6)]] by simp
  have "py_strip ''comment_work_packet'' = ''comment_work_packet''" "py_strip ''update_work_packet'' = ''update_work_packet''"
    by code_simp+
  then have strips: "py_strip action = action" "py_strip (pk_repository (packet f)) = pk_repository (packet f)"
    "py_strip (pk_workstream (packet f)) = pk_workstream (packet f)" "py_strip branch = branch"
    "py_strip (hr_target q) = hr_target q" "py_strip bp = bp \<and> py_strip dp = dp"
    using assms(3,7) request_stripped(1-4) [OF assms(5)] request_stripped(5) [OF assms(5,8)] accepted_facts(2,3) [OF assms(6)]
    by (auto simp: write_actions)
  have "parse_request fl (write_request f (subject_version f) action branch (hr_target q) (Some (bp, dp)) r) = Inr wi"
    using wi(1,2) assms(8) by simp
  from parsed_write_request [OF this] show ?thesis
    using allowed_signed [of fl h sc "wi_verification wi" _ False dir dir] wi(3) strips status assms(4,8) by simp
qed

lemma typed_sent:
  assumes "wo_sent (snd (finish_typed fl io h x n k q r f branch es w)) \<noteq> wo_sent w"
  shows "(\<forall>e \<in> set es. le_key e = re_key r \<longrightarrow> le_outcome e \<noteq> ''APPLIED'' \<and> le_outcome e \<notin> set HOST_AMBIGUOUS) \<and>
    hr_verification q \<noteq> None \<and> hr_branch q = branch \<and>
    finish_typed fl io h x n k q r f branch es w =
      (if re_result r = ''NOTIFY_OWNER'' then finish_notice fl io h x n k q r branch es w
       else finish_write fl io h x n k q r f branch es w)"
proof -
  let ?prior = "filter (\<lambda>e. le_key e = re_key r) es"
  have no_amb: "\<not> (\<exists>e \<in> set ?prior. le_outcome e \<in> set HOST_AMBIGUOUS)"
  proof
    assume amb: "\<exists>e \<in> set ?prior. le_outcome e \<in> set HOST_AMBIGUOUS"
    show False using assms silent_answers(1) unfolding finish_typed_def Let_def if_P [OF amb] by blast
  qed
  have no_app: "\<not> (\<exists>e \<in> set ?prior. le_outcome e = ''APPLIED'')"
  proof
    assume "\<exists>e \<in> set ?prior. le_outcome e = ''APPLIED''"
    then have "finish_typed fl io h x n k q r f branch es w = bindS (persist_watch k r w)
        (\<lambda>_ w. answer_with ''DEDUP'' ''the same typed action was already applied'' ''NONE'' r w)"
      unfolding finish_typed_def Let_def by (simp only: no_amb if_False if_True)
    then show False using assms silent_answers by metis
  qed
  have ver: "hr_verification q \<noteq> None"
    using assms silent_answers unfolding finish_typed_def Let_def by (simp only: no_amb no_app if_False) (auto split: if_splits)
  have br: "hr_branch q = branch"
    using assms silent_answers ver unfolding finish_typed_def Let_def
    by (simp only: no_amb no_app if_False) (auto split: if_splits)
  have "finish_typed fl io h x n k q r f branch es w =
      (if re_result r = ''NOTIFY_OWNER'' then finish_notice fl io h x n k q r branch es w
       else finish_write fl io h x n k q r f branch es w)"
    unfolding finish_typed_def Let_def by (simp only: no_amb no_app ver br if_False simp_thms)
  then show ?thesis using no_amb no_app ver br by auto
qed

lemma with_sent: "wo_sent (snd (withE m w f)) \<noteq> wo_sent w \<Longrightarrow> \<exists>x. m = Inr x \<and> withE m w f = f x"
  by (cases m) auto

lemma locked_sent:
  assumes "wo_sent (snd (locked_pass fl io t p q k raw f branch w)) \<noteq> wo_sent w"
  shows "\<exists>state r raw2 g branch2 es. load_watch_state (wd_state (wo_dirs w k)) = Inr state \<and>
    watch_evaluate fl t (JObj raw) (JObj state) = Inr r \<and> re_result r \<in> set TYPED_RESULTS \<and> hr_branch q = branch \<and>
    host_collect fl (pa_second p) q = Inr (raw2, g, branch2) \<and>
    host_reconcile (snapshot_of f branch) (snapshot_of g branch2) (re_result r) = None \<and>
    ledger_entries (wd_ledger (wo_dirs w k)) = Inr es \<and>
    locked_pass fl io t p q k raw f branch w = finish_typed fl io (pa_host p) (pa_delivery p) (pa_attempt p) k q r g branch2 es w"
proof -
  obtain state where st: "load_watch_state (wd_state (wo_dirs w k)) = Inr state"
    using assms by (cases "load_watch_state (wd_state (wo_dirs w k))") (simp_all add: locked_pass_def reject_def)
  obtain r where r: "watch_evaluate fl t (JObj raw) (JObj state) = Inr r"
    using assms st by (cases "watch_evaluate fl t (JObj raw) (JObj state)") (simp_all add: locked_pass_def reject_def)
  have typed: "re_result r \<in> set TYPED_RESULTS"
  proof (rule ccontr)
    assume no: "re_result r \<notin> set TYPED_RESULTS"
    have "still fl k w (snd (locked_pass fl io t p q k raw f branch w))"
      unfolding locked_pass_def st r reject_def map_err_simps withE_simps if_P [OF no] by (intro still_intros)
    then show False using assms still_sent by blast
  qed
  note step = assms [unfolded locked_pass_def st r reject_def map_err_simps withE_simps, unfolded if_not_P [OF not_not [THEN iffD2, OF typed]]]
  have br: "hr_branch q = branch" using step silent_answers by (auto split: if_splits)
  obtain raw2 g branch2 where g: "host_collect fl (pa_second p) q = Inr (raw2, g, branch2)"
    using step br by (cases "host_collect fl (pa_second p) q") auto
  have rec: "host_reconcile (snapshot_of f branch) (snapshot_of g branch2) (re_result r) = None"
    using step br g silent_answers by (auto split: option.splits)
  obtain es where es: "ledger_entries (wd_ledger (wo_dirs w k)) = Inr es"
    using step br g rec by (cases "ledger_entries (wd_ledger (wo_dirs w k))") auto
  show ?thesis
    using st r typed br g rec es by (simp add: locked_pass_def reject_def)
qed

text \<open>The effect a delivery was made for, and what left the host.\<close>

definition delivers ::
    "(rat \<Rightarrow> string) \<Rightarrow> delivery_host \<Rightarrow> host_request \<Rightarrow> facts \<Rightarrow> reentry \<Rightarrow> jobj \<Rightarrow> delivery \<Rightarrow> bool" where
  "delivers fl x q g r effect d =
     (if re_result r = ''NOTIFY_OWNER''
      then effect = owner_notice_effect r (hr_branch q) \<and>
        (\<exists>chat. host_file (dh_chat x) = Some chat \<and> d = TelegramMessage chat (notice_text fl effect))
      else d = GithubComment (hr_repo q) (hr_target q) (effect_content r) \<and>
        (\<exists>action. (re_result r, action) \<in> set WRITE_ACTIONS \<and>
           effect = write_effect g (subject_version g) action (hr_branch q) (hr_target q) r))"

lemma typed_delivers:
  assumes "wo_sent (snd (finish_typed fl io h x n k q r g (hr_branch q) es w)) \<noteq> wo_sent w"
    "parse_host_request payload = Inr q" "host_collect fl c q = Inr (raw, g, br)" "re_result r \<in> set TYPED_RESULTS"
  shows "\<exists>effect i d. armed fl (journal_of w k) \<and> signed_for fl h (hr_verification q) effect \<and>
    signed_dispatch_id fl h (hr_verification q) = Inr i \<and>
    fst (host_reserve fl io i (canonical_request_sha256 fl effect) (pass_attempt fl (journal_of w k) n) w)
      \<in> {Inr ''reserved'', Inr ''owned_reserved''} \<and>
    wo_sent (snd (finish_typed fl io h x n k q r g (hr_branch q) es w)) = wo_sent w @ [(k, d)] \<and>
    delivers fl x q g r effect d"
proof -
  let ?ver = "hr_verification q"
  note ty = typed_sent [OF assms(1)]
  obtain bp dp where ver: "?ver = Some (bp, dp)" using ty by auto
  obtain effect where e: "finish_typed fl io h x n k q r g (hr_branch q) es w = execute_authorized fl io h x n k ?ver r es effect w"
    "signed_for fl h ?ver effect" "if re_result r = ''NOTIFY_OWNER'' then effect = owner_notice_effect r (hr_branch q)
      else \<exists>action. (re_result r, action) \<in> set WRITE_ACTIONS \<and>
        effect = write_effect g (subject_version g) action (hr_branch q) (hr_target q) r"
  proof (cases "re_result r = ''NOTIFY_OWNER''")
    case True
    have go: "wo_sent (snd (finish_notice fl io h x n k q r (hr_branch q) es w)) \<noteq> wo_sent w" using ty assms(1) True by simp
    then show thesis
      using that [of "owner_notice_effect r (hr_branch q)"] ty True notice_sent [OF go] allowed_signed by fastforce
  next
    case False
    then obtain action where ac: "map_of WRITE_ACTIONS (re_result r) = Some action"
      using assms(4) by (auto simp: TYPED_RESULTS_def WRITE_ACTIONS_def)
    have go: "wo_sent (snd (finish_write fl io h x n k q r g (hr_branch q) es w)) \<noteq> wo_sent w" using ty assms(1) False by simp
    obtain c where c: "full_sha (subject_version g)" "fst (worker_evaluate fl h all_good (JObj (write_request g (subject_version g) action
        (hr_branch q) (hr_target q) ?ver r)) False (wo_replay w) (wo_replay w)) = Inr c" "cf_authorizes_write c"
      "finish_write fl io h x n k q r g (hr_branch q) es w = execute_authorized fl io h x n k ?ver r es
        (write_effect g (subject_version g) action (hr_branch q) (hr_target q) r) w"
      using write_sent [OF go ac] by blast
    show thesis
      using that [OF _ write_signed [OF c(2,3) ac c(1) assms(2,3) refl ver]] False c(4) ty map_of_SomeD [OF ac] by auto
  qed
  obtain i rpl d ans where x: "armed fl (journal_of w k)" "signed_dispatch_id fl h ?ver = Inr i"
    "fst (host_reserve fl io i (canonical_request_sha256 fl effect) (pass_attempt fl (journal_of w k) n) w) = Inr ans" "ans \<in> {''reserved'', ''owned_reserved''}"
    "snd (send_effect fl x (re_result r) effect rpl) = Some d"
    "wo_sent (snd (execute_authorized fl io h x n k ?ver r es effect w)) = wo_sent w @ [(k, d)]"
    using execute_sent [of fl io h x n k ?ver r es effect w] assms(1) e(1) by auto
  have "delivers fl x q g r effect d"
  proof (cases "re_result r = ''NOTIFY_OWNER''")
    case True
    then show ?thesis using e(3) notice_delivery [OF x(5) [unfolded True]] by (simp add: delivers_def)
  next
    case False
    then obtain action where ac: "(re_result r, action) \<in> set WRITE_ACTIONS"
      "effect = write_effect g (subject_version g) action (hr_branch q) (hr_target q) r"
      using e(3) by auto
    show ?thesis using write_delivery [OF x(5) [unfolded ac(2)] False] ac False accepted_facts(2) [OF assms(3)] by (auto simp: delivers_def)
  qed
  then show ?thesis using e(1,2) x by (metis insert_iff empty_iff)
qed

text \<open>What the module offers as the effect of a result is what the host has authorized and delivers.\<close>

lemma external_effect_written:
  "map_of WRITE_ACTIONS (re_result r) = Some action \<Longrightarrow>
   external_effect r (pk_repository (packet f)) (pk_workstream (packet f)) (pk_intent_revision (packet f)) subject
     (pk_status (packet f)) branch target = Inr (write_effect f subject action branch target r)"
  by (simp add: external_effect_def write_effect_def)

section \<open>Claims\<close>

text \<open>
  C25: a delivery happens only behind its gates. When a pass delivers, the request and both readings of
  the facts were accepted, the branch is the requested one, the second reading agrees with the first
  and is neither ambiguous nor blocked, the evaluation of the first reading asked for a typed action,
  the ledger knows no applied or ambiguous outcome for its key, the journal shows no earlier send, a
  binding and a dispatch are signed for exactly this effect, the replay directory and the calls that the
  pass meets answer the reservation of that dispatch for that digest, by the attempt of the journal or else
  of the pass, as taken or as its own, and what leaves the host is that effect.
\<close>

theorem delivery_gates:
  assumes "run_once fl io t p w = (res, w')" "wo_sent w' \<noteq> wo_sent w"
  shows "\<exists>payload q raw f raw2 g state r es effect i d.
    pa_request p = JObj payload \<and> parse_host_request payload = Inr q \<and>
    host_collect fl (pa_first p) q = Inr (raw, f, hr_branch q) \<and> host_collect fl (pa_second p) q = Inr (raw2, g, hr_branch q) \<and>
    same_identity (snapshot_of f (hr_branch q)) (snapshot_of g (hr_branch q)) \<and> \<not> mutation_ambiguous g \<and>
    resource_result g \<noteq> ''BLOCK'' \<and> admission_decision g \<noteq> ''DENY'' \<and>
    load_watch_state (wd_state (wo_dirs w (canonical_watch_dir q f))) = Inr state \<and>
    watch_evaluate fl t (JObj raw) (JObj state) = Inr r \<and> re_result r \<in> set TYPED_RESULTS \<and>
    ledger_entries (wd_ledger (wo_dirs w (canonical_watch_dir q f))) = Inr es \<and>
    (\<forall>e \<in> set es. le_key e = re_key r \<longrightarrow> le_outcome e \<noteq> ''APPLIED'' \<and> le_outcome e \<notin> set HOST_AMBIGUOUS) \<and>
    armed fl (wd_journal (wo_dirs w (canonical_watch_dir q f))) \<and>
    signed_for fl (pa_host p) (hr_verification q) effect \<and>
    signed_dispatch_id fl (pa_host p) (hr_verification q) = Inr i \<and>
    fst (host_reserve fl io i (canonical_request_sha256 fl effect)
        (pass_attempt fl (wd_journal (wo_dirs w (canonical_watch_dir q f))) (pa_attempt p)) w)
      \<in> {Inr ''reserved'', Inr ''owned_reserved''} \<and>
    wo_sent w' = wo_sent w @ [(canonical_watch_dir q f, d)] \<and> delivers fl (pa_delivery p) q g r effect d"
proof (cases rule: run_once_cases [where fl = fl and io = io and t = t and p = p and w = w])
  case early
  then show ?thesis using assms by simp
next
  case (locked payload q st raw f branch)
  let ?k = "canonical_watch_dir q f"
  let ?w = "set_dir ?k (wd_lock_update (\<lambda>_. Unreadable)) w"
  have files: "wd_state (wo_dirs ?w ?k) = wd_state (wo_dirs w ?k)" "wd_ledger (wo_dirs ?w ?k) = wd_ledger (wo_dirs w ?k)"
    "wd_journal (wo_dirs ?w ?k) = wd_journal (wo_dirs w ?k)" "wo_sent ?w = wo_sent w"
    by (simp_all add: set_dir_def)
  have out: "w' = snd (locked_pass fl io t p q ?k raw f branch ?w)" using assms(1) locked(5) by simp
  have sent: "wo_sent (snd (locked_pass fl io t p q ?k raw f branch ?w)) \<noteq> wo_sent ?w" using assms(2) out files(4) by simp
  obtain state r raw2 g branch2 es where l: "load_watch_state (wd_state (wo_dirs w ?k)) = Inr state"
    "watch_evaluate fl t (JObj raw) (JObj state) = Inr r" "re_result r \<in> set TYPED_RESULTS" "hr_branch q = branch"
    "host_collect fl (pa_second p) q = Inr (raw2, g, branch2)"
    "host_reconcile (snapshot_of f branch) (snapshot_of g branch2) (re_result r) = None"
    "ledger_entries (wd_ledger (wo_dirs w ?k)) = Inr es"
    "locked_pass fl io t p q ?k raw f branch ?w =
       finish_typed fl io (pa_host p) (pa_delivery p) (pa_attempt p) ?k q r g branch2 es ?w"
    using locked_sent [OF sent] unfolding files by blast
  note ty = typed_sent [OF sent [unfolded l(8)]]
  have branch2: "branch2 = hr_branch q" using ty by simp
  have payload: "pa_request p = JObj payload"
    using locked(1) by (cases "pa_request p") (simp_all add: require_mapping_def)
  have recon: "same_identity (snapshot_of f (hr_branch q)) (snapshot_of g (hr_branch q))" "\<not> mutation_ambiguous g"
    "resource_result g \<noteq> ''BLOCK''" "admission_decision g \<noteq> ''DENY''"
    using l(4,6) branch2 by (auto simp: host_reconcile_def snapshot_of_def split: if_splits)
  obtain effect i d where e: "armed fl (journal_of ?w ?k)" "signed_for fl (pa_host p) (hr_verification q) effect"
    "signed_dispatch_id fl (pa_host p) (hr_verification q) = Inr i"
    "fst (host_reserve fl io i (canonical_request_sha256 fl effect) (pass_attempt fl (journal_of ?w ?k) (pa_attempt p)) ?w)
      \<in> {Inr ''reserved'', Inr ''owned_reserved''}"
    "wo_sent (snd (locked_pass fl io t p q ?k raw f branch ?w)) = wo_sent ?w @ [(?k, d)]"
    "delivers fl (pa_delivery p) q g r effect d"
    using typed_delivers [OF sent [unfolded l(8) branch2] locked(2) l(5,3)] unfolding l(8) branch2 by blast
  have "fst (host_reserve fl io i (canonical_request_sha256 fl effect) (pass_attempt fl (journal_of w ?k) (pa_attempt p)) w)
      \<in> {Inr ''reserved'', Inr ''owned_reserved''}"
    using e(4) reserve_same [of ?w w] unfolding files by (simp add: set_dir_def)
  then show ?thesis
    using payload locked(2,4) l(1-5,7) recon e(1-3,5,6) ty branch2 out unfolding files by blast
qed

lemma delivery_gates_witness:
  "\<exists>q f r effect. parse_host_request wake_payload = Inr q \<and> host_collect no_rat (pa_second wake_pass) q = Inr (sample_facts, f, hr_branch q) \<and>
     signed_for no_rat (sample_host wake_content) (hr_verification q) effect \<and>
     delivers no_rat wake_delivery q f r effect (GithubComment ''o/r'' ''7'' wake_content)"
proof -
  obtain w' where w': "run_once no_rat sample_io demo_iso wake_pass wake_world = (Inr (delivered_result wake_result ''github-comment:5''), w')"
    "wo_sent w' = [(wake_dir, GithubComment ''o/r'' ''7'' wake_content)]" using wake_run by blast
  have none: "wo_sent wake_world = []" by (simp add: wake_world_def)
  then have sent: "wo_sent w' \<noteq> wo_sent wake_world" using w'(2) by simp
  have parts: "pa_request wake_pass = JObj wake_payload" "pa_host wake_pass = sample_host wake_content"
    "pa_delivery wake_pass = wake_delivery" "pa_second wake_pass = sample_collect"
    by (simp_all add: wake_pass_def)
  show ?thesis
    using delivery_gates [OF w'(1) sent] unfolding parts w'(2) none
    by (auto simp: wake_parses wake_accepted)
qed

section \<open>One delivery\<close>

text \<open>
  Any passes over any watches, one after the other as the lock of each watch orders them. Between two
  passes other processes may change the replay directory, not the files of a watch; each pass meets
  its own failures.
\<close>

inductive host_runs :: "(rat \<Rightarrow> string) \<Rightarrow> text_io \<Rightarrow> iso \<Rightarrow> world \<Rightarrow> bool"
  for fl :: "rat \<Rightarrow> string" and io :: text_io and t :: iso
where
  none: "wo_sent w = [] \<Longrightarrow> host_runs fl io t w"
| pass: "host_runs fl io t w \<Longrightarrow>
    run_once fl io t p (w\<lparr>wo_replay := dir, wo_writes := ws, wo_stores := ss, wo_replies := rs\<rparr>) = (res, w') \<Longrightarrow>
    host_runs fl io t w'"

abbreviation sent_for :: "string \<Rightarrow> world \<Rightarrow> (string \<times> delivery) list" where
  "sent_for k w \<equiv> filter (\<lambda>s. fst s = k) (wo_sent w)"

lemma pass_sends:
  assumes "guarded fl j w w'" "length (sent_for k w) \<le> 1" "sent_for k w \<noteq> [] \<Longrightarrow> \<not> armed fl (journal_of w k)"
  shows "length (sent_for k w') \<le> 1 \<and> (sent_for k w' \<noteq> [] \<longrightarrow> \<not> armed fl (journal_of w' k))"
proof (cases "j = k")
  case True
  have "sent_for k w = []" if "armed fl (journal_of w k)" using that assms(3) by blast
  then show ?thesis using assms(1,2) True by (auto simp: guarded_def once_def still_def)
next
  case False
  then have "sent_for k w' = sent_for k w" "journal_of w' k = journal_of w k"
    using assms(1) by (auto simp: guarded_def once_def still_def elsewhere_def)
  then show ?thesis using assms(2,3) by simp
qed

text \<open>
  C26: over any passes a watch directory delivers at most once, whichever writes, syncs and calls fail,
  whatever is answered, and wherever a process dies.
\<close>

theorem host_sends_once:
  assumes "host_runs fl io t w" shows "length (sent_for k w) \<le> 1"
proof -
  have "length (sent_for k w) \<le> 1 \<and> (sent_for k w \<noteq> [] \<longrightarrow> \<not> armed fl (journal_of w k))"
    using assms
  proof induction
    case (pass w p rs ss ws dir res w')
    let ?w = "w\<lparr>wo_replay := dir, wo_writes := ws, wo_stores := ss, wo_replies := rs\<rparr>"
    obtain j where "guarded fl j ?w w'" using run_once_guarded [of fl ?w io t p] pass.hyps(2) by auto
    then show ?case using pass_sends [of fl j ?w w' k] pass.IH by simp
  qed simp
  then show ?thesis by blast
qed

lemma wake_runs: "\<exists>w'. host_runs no_rat sample_io demo_iso w' \<and> wo_sent w' = [(wake_dir, GithubComment ''o/r'' ''7'' wake_content)]"
proof -
  obtain w' where w': "run_once no_rat sample_io demo_iso wake_pass wake_world = (Inr (delivered_result wake_result ''github-comment:5''), w')"
    "wo_sent w' = [(wake_dir, GithubComment ''o/r'' ''7'' wake_content)]" using wake_run by blast
  have "host_runs no_rat sample_io demo_iso wake_world" by (rule host_runs.none) (simp add: wake_world_def)
  moreover have "wake_world\<lparr>wo_replay := wo_replay wake_world, wo_writes := wo_writes wake_world, wo_stores := wo_stores wake_world,
      wo_replies := wo_replies wake_world\<rparr> = wake_world" by simp
  ultimately have "host_runs no_rat sample_io demo_iso w'" using host_runs.pass w'(1) by metis
  then show ?thesis using w'(2) by blast
qed

lemma host_sends_once_witness: "\<exists>w'. length (sent_for wake_dir w') = 1 \<and> length (sent_for wake_dir w') \<le> 1"
proof -
  obtain w' where w': "host_runs no_rat sample_io demo_iso w'" "wo_sent w' = [(wake_dir, GithubComment ''o/r'' ''7'' wake_content)]"
    using wake_runs by blast
  show ?thesis using host_sends_once [OF w'(1), of wake_dir] w'(2) by (intro exI [of _ w']) simp
qed

section \<open>A delivery is completed\<close>


text \<open>The sample attempt died after it had written its intent and reserved the dispatch.\<close>

definition stopped_world :: world where
  "stopped_world = set_dir wake_dir (wd_journal_update (\<lambda>_. Doc (journal_json
     ((base_journal (canonical_request_sha256 no_rat wake_effect) ''d1'' ''WAKE_COORDINATOR'' ''a1'')\<lparr>jn_phase := ''INTENT''\<rparr>))))
     (wake_world\<lparr>wo_replay := [(''dispatch-d1'', record_text ''reserved'' (canonical_request_sha256 no_rat wake_effect) ''a1'')]\<rparr>)"


section \<open>After a delivery\<close>

lemma late_phase_answers:
  assumes "load_journal fl (journal_of w k) = Inr (Some j)" "jn_phase j \<in> {''SENDING'', ''AMBIGUOUS''}"
    "signed_dispatch_id fl h ver = Inr i"
  shows "execute_authorized fl io h x n k ver r es effect w =
    answer_with ''RECONCILE_AMBIGUOUS'' ''effect send outcome is ambiguous; reconcile before any retry'' ''NONE'' r w"
  using assms by (simp add: execute_authorized_def reject_def)

text \<open>
  C28: a delivered journal blocks the next effect of its watch. The journal of a delivery is never
  cleared: when the watch later asks for another effect, the finished record counts as an intent that
  does not match, becomes ambiguous, and from then on every effect of this watch is answered
  \<^verbatim>\<open>RECONCILE_AMBIGUOUS\<close> without a send, whatever is signed for it.
\<close>

theorem delivered_journal_blocks_next:
  assumes "load_journal fl (journal_of w k) = Inr (Some j)" "jn_phase j = ''RECEIPT''"
    "jn_effect j \<noteq> canonical_request_sha256 fl effect" "signed_dispatch_id fl h ver = Inr i"
    "re_result r \<in> set TYPED_RESULTS" "wo_writes w = []"
  shows "\<exists>res w'. execute_authorized fl io h x n k ver r es effect w = (Inr res, w') \<and>
    hs_result res = ''RECONCILE_AMBIGUOUS'' \<and> wo_sent w' = wo_sent w \<and>
    (\<forall>u h2 x2 n2 ver2 i2 r2 es2 effect2. journal_of u k = journal_of w' k \<and> signed_dispatch_id fl h2 ver2 = Inr i2 \<longrightarrow>
       (\<exists>res2. execute_authorized fl io h2 x2 n2 k ver2 r2 es2 effect2 u = (Inr res2, u) \<and>
          hs_result res2 = ''RECONCILE_AMBIGUOUS''))"
proof -
  let ?j = "j\<lparr>jn_phase := ''AMBIGUOUS'', jn_receipt := [], jn_kind := re_result r\<rparr>"
  let ?w = "set_dir k (wd_journal_update (\<lambda>_. Doc (journal_json ?j))) w"
  have answer: "answer_with ''RECONCILE_AMBIGUOUS'' reason ''NONE'' q u =
      (Inr (quiet ''RECONCILE_AMBIGUOUS'' reason (re_result q) ''NONE'' (re_next q)), u)" for reason q u
    by (simp add: answer_with_def reject_def base_result_def quiet_def HOST_RESULTS_def)
  have real: "journal_of w k \<noteq> Symlink" using assms(1) by (auto simp: load_journal_def read_object_def)
  have commit: "commit_journal k ?j w = (Inr (), ?w)"
    using real assms(6) journal_keys
    by (simp add: commit_journal_def write_json_def next_or_def Let_def set_dir_def fun_upd_def)
  have "py_strip ''WAKE_COORDINATOR'' = ''WAKE_COORDINATOR''" "py_strip ''NOTIFY_OWNER'' = ''NOTIFY_OWNER''"
    "py_strip ''RESUME_ADMITTED_WORKER'' = ''RESUME_ADMITTED_WORKER''"
    by code_simp+
  then have "plain_journal ?j"
    using loaded_plain [OF assms(1)] assms(5) by (auto simp: plain_journal_def JOURNAL_PHASES_def TYPED_RESULTS_def)
  then have left: "load_journal fl (journal_of ?w k) = Inr (Some ?j)" by (simp add: set_dir_def journal_reads)
  have later: "execute_authorized fl io h2 x2 n2 k ver2 r2 es2 effect2 u = (Inr (quiet ''RECONCILE_AMBIGUOUS''
      ''effect send outcome is ambiguous; reconcile before any retry'' (re_result r2) ''NONE'' (re_next r2)), u)"
    if "journal_of u k = journal_of ?w k" "signed_dispatch_id fl h2 ver2 = Inr i2" for u h2 x2 n2 ver2 i2 r2 es2 effect2
    using late_phase_answers [of fl u k ?j h2 ver2 i2 io x2 n2 r2 es2 effect2] left that answer by simp
  have "execute_authorized fl io h x n k ver r es effect w = (Inr (quiet ''RECONCILE_AMBIGUOUS''
      ''durable effect intent does not match this effect'' (re_result r) ''NONE'' (re_next r)), ?w)"
    using assms(1-4) commit answer by (simp add: execute_authorized_def reject_def Let_def)
  moreover have "wo_sent ?w = wo_sent w" by (simp add: set_dir_def)
  ultimately show ?thesis using later by (auto simp: quiet_def)
qed

text \<open>The sample journal of a delivered effect, whose digest is another one.\<close>

lemma delivered_journal_blocks_next_witness:
  "\<exists>res w'. execute_authorized no_rat sample_io (sample_host wake_content) wake_delivery ''a2'' wake_dir
      (Some (''binding'', ''dispatch'')) wake_result [] wake_effect
      (set_dir wake_dir (wd_journal_update (\<lambda>_. Doc (journal_json
         ((base_journal ''e'' ''d0'' ''WAKE_COORDINATOR'' ''a1'')\<lparr>jn_phase := ''RECEIPT''\<rparr>)))) wake_world) = (Inr res, w') \<and>
    hs_result res = ''RECONCILE_AMBIGUOUS'' \<and> wo_sent w' = []"
proof -
  let ?j = "(base_journal ''e'' ''d0'' ''WAKE_COORDINATOR'' ''a1'')\<lparr>jn_phase := ''RECEIPT''\<rparr>"
  let ?w = "set_dir wake_dir (wd_journal_update (\<lambda>_. Doc (journal_json ?j))) wake_world"
  have "plain_journal ?j" by code_simp
  then have loads: "load_journal no_rat (journal_of ?w wake_dir) = Inr (Some ?j)" by (simp add: journal_reads)
  have "canonical_request_sha256 no_rat wake_effect \<noteq> ''e''"
  proof
    assume "canonical_request_sha256 no_rat wake_effect = ''e''"
    then have "length (canonical_request_sha256 no_rat wake_effect) = 1" by simp
    then show False by (simp add: canonical_request_sha256_def)
  qed
  then have other: "jn_effect ?j \<noteq> canonical_request_sha256 no_rat wake_effect" by (simp add: base_journal_def)
  have rest: "jn_phase ?j = ''RECEIPT''" "re_result wake_result \<in> set TYPED_RESULTS" "wo_writes ?w = []" "wo_sent ?w = []"
    by (simp_all add: wake_fields TYPED_RESULTS_def wake_world_def set_dir_def)
  show ?thesis
    using delivered_journal_blocks_next [OF loads rest(1) other wake_dispatch rest(2,3)] rest(4) by metis
qed

section \<open>Results\<close>

text \<open>A result that a report may print: counts, level, lock and the GitHub flag agree with what happened.\<close>

definition host_result_ok :: "host_result \<Rightarrow> bool" where
  "host_result_ok r =
     (let one = (\<lambda>name. if hs_result r = ''DELIVERED'' \<and> hs_watch_result r = name then 1 else 0)
      in hs_result r \<in> set HOST_RESULTS \<and>
         hs_wakes r = one ''WAKE_COORDINATOR'' \<and> hs_resumes r = one ''RESUME_ADMITTED_WORKER'' \<and>
         hs_notifications r = one ''NOTIFY_OWNER'' \<and> hs_actions r = (if hs_result r = ''DELIVERED'' then 1 else 0) \<and>
         (hs_result r = ''DELIVERED'' \<longrightarrow> hs_watch_result r \<in> set TYPED_RESULTS) \<and>
         (hs_level r = ''INFO'' \<longleftrightarrow> hs_notifications r = 1) \<and> hs_level r \<in> {''INFO'', ''NONE''} \<and>
         (hs_mutates_github r \<longleftrightarrow> hs_wakes r + hs_resumes r = 1) \<and>
         (hs_lock r = ''HELD'' \<longleftrightarrow> hs_result r = ''LOCK_HELD''))"

text \<open>An answer is well formed and reports what the watch asked for.\<close>

definition well_typed :: "string \<Rightarrow> host_result outcome \<Rightarrow> bool" where
  "well_typed name m = (\<forall>res. fst m = Inr res \<longrightarrow> host_result_ok res \<and> hs_watch_result res = name)"

named_theorems typed_intros

lemma typed_bind [typed_intros]: "(\<And>x w1. m = (Inr x, w1) \<Longrightarrow> well_typed name (f x w1)) \<Longrightarrow> well_typed name (bindS m f)"
  by (cases m; cases "fst m") (auto simp: well_typed_def)

lemma typed_with [typed_intros]: "(\<And>x. m = Inr x \<Longrightarrow> well_typed name (f x)) \<Longrightarrow> well_typed name (withE m w f)"
  by (cases m) (auto simp: well_typed_def)

lemma typed_if [typed_intros]: "(b \<Longrightarrow> well_typed name m) \<Longrightarrow> (\<not> b \<Longrightarrow> well_typed name m') \<Longrightarrow> well_typed name (if b then m else m')"
  by simp

lemma typed_stop [typed_intros]: "well_typed name (Inl e, w)"
  by (simp add: well_typed_def)

lemma typed_quiet: "result \<notin> {''DELIVERED'', ''LOCK_HELD''} \<Longrightarrow> well_typed (re_result r) (answer_with result reason delivery r w)"
  by (auto simp: well_typed_def answer_with_def reject_def base_result_def quiet_def host_result_ok_def map_err_def Let_def
      split: if_splits)

lemma typed_answers [typed_intros]:
  "well_typed (re_result r) (answer_with ''AUTHORITY_DENIED'' reason delivery r w)" "well_typed (re_result r) (answer_with ''RECONCILE_AMBIGUOUS'' reason delivery r w)"
  "well_typed (re_result r) (answer_with ''DEDUP'' reason delivery r w)" "well_typed (re_result r) (answer_with ''STALE_RECONCILE'' reason delivery r w)"
  "well_typed (re_result r) (answer_with ''RESOURCE_BLOCKED'' reason delivery r w)" "well_typed (re_result r) (answer_with ''NO_ACTION'' reason delivery r w)"
  by (rule typed_quiet; simp)+

lemma typed_delivered:
  assumes "re_result r \<in> set TYPED_RESULTS"
  shows "host_result_ok (delivered_result r rc)" "hs_watch_result (delivered_result r rc) = re_result r"
  using assms by (auto simp: host_result_ok_def delivered_result_def TYPED_RESULTS_def HOST_RESULTS_def WRITE_ACTIONS_def Let_def)

lemma typed_record [typed_intros]: "re_result r \<in> set TYPED_RESULTS \<Longrightarrow> well_typed (re_result r) (record_applied k r es rc w)"
  unfolding record_applied_def
  by (intro typed_intros) (simp_all add: well_typed_def delivered_answer reject_def typed_delivered)

lemma typed_execute [typed_intros]:
  assumes "re_result r \<in> set TYPED_RESULTS" shows "well_typed (re_result r) (execute_authorized fl io h x n k ver r es effect w)"
proof -
  have receipt: "well_typed (re_result r) (finish_receipt fl io k r es i digest a rc w)" for i digest a rc w
    unfolding finish_receipt_def using assms by (intro typed_intros)
  have send: "well_typed (re_result r) (send_once fl io x k r es effect base w)" for base w
    unfolding send_once_def by (intro typed_intros receipt)
  have reserve: "well_typed (re_result r) (reserve_and_send fl io x k r es effect base w)" for base w
    unfolding reserve_and_send_def by (intro typed_intros send)
  have one: "well_typed (re_result r) (case send_boundary x name of Some reason \<Rightarrow> answer_with ''AUTHORITY_DENIED'' reason ''DENIED'' r w | None \<Rightarrow> m)"
    if "well_typed (re_result r) m" for name m w
    using that by (cases "send_boundary x name") (simp_all add: typed_answers)
  have found: "well_typed (re_result r) (case found of Some j \<Rightarrow> m j | None \<Rightarrow> m')" if "\<And>j. well_typed (re_result r) (m j)" "well_typed (re_result r) m'" for found m m'
    using that by (cases found) simp_all
  show ?thesis
    unfolding execute_authorized_def Let_def by (intro typed_with found typed_if typed_bind one reserve receipt typed_answers)
qed

lemma typed_finish [typed_intros]:
  assumes "re_result r \<in> set TYPED_RESULTS" shows "well_typed (re_result r) (finish_typed fl io h x n k q r f branch es w)"
proof -
  have "well_typed (re_result r) (finish_notice fl io h x n k q r branch es w)"
    unfolding finish_notice_def using assms by (auto split: sum.split intro!: typed_intros)
  moreover have "well_typed (re_result r) (finish_write fl io h x n k q r f branch es w)"
    unfolding finish_write_def using assms
    by (auto simp del: insert_iff split: sum.split worker_error.split facts_error.split prod.split intro!: typed_intros)
  ultimately show ?thesis unfolding finish_typed_def Let_def by (intro typed_intros)
qed

lemma typed_locked:
  assumes "fst (locked_pass fl io t p q k raw f branch w) = Inr res"
  shows "\<exists>state r. watch_evaluate fl t (JObj raw) (JObj state) = Inr r \<and> host_result_ok res \<and> hs_watch_result res = re_result r"
proof -
  obtain state where state: "load_watch_state (wd_state (wo_dirs w k)) = Inr state"
    using assms by (cases "load_watch_state (wd_state (wo_dirs w k))") (simp_all add: locked_pass_def reject_def)
  obtain r where r: "watch_evaluate fl t (JObj raw) (JObj state) = Inr r"
    using assms state by (cases "watch_evaluate fl t (JObj raw) (JObj state)") (simp_all add: locked_pass_def reject_def)
  have blocked: "well_typed (re_result r) (answer_with b reason delivery r w)" if "host_reconcile s1 s2 name = Some b"
    for b reason delivery w s1 s2 name
    using that by (intro typed_quiet) (auto simp: host_reconcile_def split: if_splits)
  have "well_typed (re_result r) (locked_pass fl io t p q k raw f branch w)"
    unfolding locked_pass_def state r reject_def map_err_simps withE_simps
    by (intro typed_if) (auto simp: reject_def split: option.split prod.split intro!: typed_intros blocked)
  then show ?thesis using assms r by (auto simp: well_typed_def)
qed

text \<open>
  C29: whatever a pass answers is one of the results and prints consistent counts: one action exactly
  for a delivery, counted under what the watch asked for, level INFO exactly for an owner notice, a
  GitHub mutation exactly for a comment, and a held lock exactly when the answer says so.
\<close>

theorem host_result_typed:
  assumes "run_once fl io t p w = (Inr res, w')" shows "host_result_ok res"
proof (cases rule: run_once_cases [where fl = fl and io = io and t = t and p = p and w = w])
  case early
  have "host_result_ok held_result" by (simp add: host_result_ok_def quiet_def HOST_RESULTS_def Let_def)
  then show ?thesis using early(2) assms by simp
next
  case (locked payload q st raw f branch)
  have "fst (locked_pass fl io t p q (canonical_watch_dir q f) raw f branch
      (set_dir (canonical_watch_dir q f) (wd_lock_update (\<lambda>_. Unreadable)) w)) = Inr res" using assms unfolding locked(5) by simp
  then show ?thesis using typed_locked by blast
qed

lemma host_result_typed_witness:
  "host_result_ok (delivered_result wake_result ''github-comment:5'') \<and> hs_actions (delivered_result wake_result ''github-comment:5'') = 1"
proof
  obtain w' where w': "run_once no_rat sample_io demo_iso wake_pass wake_world = (Inr (delivered_result wake_result ''github-comment:5''), w')"
    using wake_run by blast
  show "host_result_ok (delivered_result wake_result ''github-comment:5'')" by (rule host_result_typed [OF w'])
qed (simp add: delivered_result_def Let_def)

section \<open>No resume\<close>

text \<open>A watch asks for a resume only when the facts have a live worker; the collector reports none.\<close>

lemma resume_needs_worker:
  assumes "watch_evaluate fl t (JObj raw) st = Inr r" "normalize_facts (JObj (planner_payload raw)) = Inr f"
    "\<not> live_status (worker f)"
  shows "re_result r \<noteq> ''RESUME_ADMITTED_WORKER''"
proof -
  obtain raw' w s f' where e: "JObj raw = JObj raw'" "watch_inputs fl t raw' st w s f'"
    "(if ws_terminal s = ''CLOSED'' then already_closed f' w s else evaluate_open fl t (planner_payload raw') f' w s) = Inr r"
    by (rule evaluate_Inr [OF assms(1)])
  have f: "f' = f" using e(1,2) assms(2) by (simp add: watch_inputs_def)
  show ?thesis
  proof (cases "ws_terminal s = ''CLOSED''")
    case True
    then show ?thesis using e(3) already_closed_fields(1) by auto
  next
    case False
    then have "evaluate_open fl t (planner_payload raw) f w s = Inr r" using e f by simp
    then show ?thesis
    proof (cases rule: evaluate_open_cases)
      case (stale reason)
      then show ?thesis using close_stale_fields(1) by auto
    next
      case older
      then show ?thesis using rejected_older_fields(1) by auto
    next
      case (mapped name reason)
      obtain q where q: "decided_request f w s name (observation_digest fl f name) (subject_version f) q" "mapped_by t f w s q (Inr r)"
        by (rule map_decision_fields [OF mapped(3)])
      then have "re_result r = rq_result q" using mapped_by_fields(1) by (auto simp: decided_request_def plain_request_def)
      moreover have "name \<noteq> ''RESUME_WORKER''"
        using mapped(4) bound_plan_resumes [OF assms(2)] assms(3) by (auto simp: decide_resumes active_worker_def split: if_splits)
      ultimately show ?thesis using q(1) by (simp add: decided_request_def)
    qed
  qed
qed

lemma collected_no_resume:
  assumes "host_collect fl c q = Inr (raw, f, branch)" "watch_evaluate fl t (JObj raw) st = Inr r"
  shows "re_result r \<noteq> ''RESUME_ADMITTED_WORKER''"
proof -
  obtain br where "collect_authoritative fl c (hr_repo q) (hr_workstream q) (hr_target q) (hr_class q) = Inr (raw, br)"
    using assms(1)
    by (auto simp: host_collect_def reject_Inr accept_facts_def require_mapping_def bindE_Inr_iff
        split: prod.splits if_splits sum.splits collect_stop.splits)
  note c = this and f = accepted_facts(1) [OF assms(1)]
  have "worker f = no_worker" by (rule collect_Inr [OF c]) (use f document_normal(2) in blast)
  then have "\<not> live_status (worker f)" by (simp add: live_status_def no_worker_def)
  with resume_needs_worker [OF assms(2) f] show ?thesis .
qed

text \<open>
  C30: a pass never resumes a worker: no answer counts one or reports that the watch asked for one, and
  whatever a pass sends is what the evaluation of its own first reading on the stored state asked for,
  under the directory of its watch: the owner's notice to the configured chat, or the comment on the
  requested issue that wakes the coordinator.
\<close>

theorem host_never_resumes:
  assumes "run_once fl io t p w = (res, w')"
  shows "(\<forall>x. res = Inr x \<longrightarrow> hs_resumes x = 0 \<and> hs_watch_result x \<noteq> ''RESUME_ADMITTED_WORKER'') \<and>
    (wo_sent w' = wo_sent w \<or>
     (\<exists>payload q raw f state r d. pa_request p = JObj payload \<and> parse_host_request payload = Inr q \<and>
        host_collect fl (pa_first p) q = Inr (raw, f, hr_branch q) \<and>
        load_watch_state (wd_state (wo_dirs w (canonical_watch_dir q f))) = Inr state \<and>
        watch_evaluate fl t (JObj raw) (JObj state) = Inr r \<and> wo_sent w' = wo_sent w @ [(canonical_watch_dir q f, d)] \<and>
        (re_result r = ''NOTIFY_OWNER'' \<and> (\<exists>chat. host_file (dh_chat (pa_delivery p)) = Some chat \<and>
            d = TelegramMessage chat (notice_text fl (owner_notice_effect r (hr_branch q)))) \<or>
         re_result r = ''WAKE_COORDINATOR'' \<and> d = GithubComment (hr_repo q) (hr_target q) (effect_content r))))"
proof (cases rule: run_once_cases [where fl = fl and io = io and t = t and p = p and w = w])
  case early
  have "w' = w" using early(1) unfolding assms by simp
  moreover have "hs_resumes x = 0 \<and> hs_watch_result x \<noteq> ''RESUME_ADMITTED_WORKER''" if "res = Inr x" for x
    using early(2) that unfolding assms by (simp add: quiet_def)
  ultimately show ?thesis by blast
next
  case (locked payload q st raw f branch)
  let ?k = "canonical_watch_dir q f"
  let ?w = "set_dir ?k (wd_lock_update (\<lambda>_. Unreadable)) w"
  let ?m = "locked_pass fl io t p q ?k raw f branch ?w"
  have m: "?m = (res, w')" using assms unfolding locked(5) .
  have none: "re_result r \<noteq> ''RESUME_ADMITTED_WORKER''" if "watch_evaluate fl t (JObj raw) (JObj state) = Inr r" for state r
    by (rule collected_no_resume [OF locked(4) that])
  have "hs_resumes x = 0 \<and> hs_watch_result x \<noteq> ''RESUME_ADMITTED_WORKER''" if "res = Inr x" for x
  proof -
    have "fst ?m = Inr x" using m that by simp
    then obtain state r where "watch_evaluate fl t (JObj raw) (JObj state) = Inr r" "host_result_ok x" "hs_watch_result x = re_result r"
      using typed_locked by blast
    then show ?thesis using none by (simp add: host_result_ok_def Let_def)
  qed
  moreover have "\<exists>state r d. hr_branch q = branch \<and> load_watch_state (wd_state (wo_dirs w ?k)) = Inr state \<and>
      watch_evaluate fl t (JObj raw) (JObj state) = Inr r \<and> wo_sent w' = wo_sent w @ [(?k, d)] \<and>
      (re_result r = ''NOTIFY_OWNER'' \<and> (\<exists>chat. host_file (dh_chat (pa_delivery p)) = Some chat \<and>
          d = TelegramMessage chat (notice_text fl (owner_notice_effect r (hr_branch q)))) \<or>
       re_result r = ''WAKE_COORDINATOR'' \<and> d = GithubComment (hr_repo q) (hr_target q) (effect_content r))"
    if sent: "wo_sent w' \<noteq> wo_sent w"
  proof -
    have sent': "wo_sent (snd ?m) \<noteq> wo_sent ?w" using m sent by (simp add: set_dir_def)
    obtain state r raw2 g branch2 es where l: "watch_evaluate fl t (JObj raw) (JObj state) = Inr r" "re_result r \<in> set TYPED_RESULTS"
      "host_collect fl (pa_second p) q = Inr (raw2, g, branch2)" "hr_branch q = branch"
      "load_watch_state (wd_state (wo_dirs ?w ?k)) = Inr state"
      "?m = finish_typed fl io (pa_host p) (pa_delivery p) (pa_attempt p) ?k q r g branch2 es ?w"
      using locked_sent [OF sent'] by blast
    have branch2: "branch2 = hr_branch q" using typed_sent [OF sent' [unfolded l(6)]] by simp
    obtain effect d where "wo_sent (snd ?m) = wo_sent ?w @ [(?k, d)]" "delivers fl (pa_delivery p) q g r effect d"
      using typed_delivers [OF sent' [unfolded l(6) branch2] locked(2) l(3,2)] unfolding l(6) branch2 by blast
    moreover have "re_result r \<in> {''WAKE_COORDINATOR'', ''NOTIFY_OWNER''}"
      using l(2) none [OF l(1)] by (auto simp: TYPED_RESULTS_def)
    moreover have "wo_sent ?w = wo_sent w" "wo_sent w' = wo_sent (snd ?m)" "wd_state (wo_dirs ?w ?k) = wd_state (wo_dirs w ?k)"
      using m by (simp_all add: set_dir_def)
    ultimately show ?thesis using l(1,4,5) by (auto simp: delivers_def split: if_splits)
  qed
  moreover have "pa_request p = JObj payload"
    using locked(1) by (cases "pa_request p") (simp_all add: require_mapping_def)
  ultimately show ?thesis using locked(2,4) by blast
qed

lemma host_never_resumes_witness:
  "\<exists>w' :: world. wo_sent w' = [(wake_dir, GithubComment ''o/r'' ''7'' wake_content)] \<and>
     hs_resumes (delivered_result wake_result ''github-comment:5'') = 0"
proof -
  obtain w' where w': "run_once no_rat sample_io demo_iso wake_pass wake_world = (Inr (delivered_result wake_result ''github-comment:5''), w')"
    "wo_sent w' = [(wake_dir, GithubComment ''o/r'' ''7'' wake_content)]" using wake_run by blast
  have "hs_resumes (delivered_result wake_result ''github-comment:5'') = 0"
    using conjunct1 [OF host_never_resumes [OF w'(1)]] by simp
  then show ?thesis using w'(2) by blast
qed

end
