(* ===== verification/Verifier.thy ===== *)
theory Verifier
  imports Coordinator
begin

text \<open>
  \<^verbatim>\<open>tools/independent_verifier.py\<close>: whether terminal evidence may pass. \<^verbatim>\<open>VerifierFactsError\<close> has the shape of
  the planner's error, and the readers it repeats are those of \<^verbatim>\<open>Facts\<close>. A denial is a report like a
  pass; the parts of \<open>evaluate\<close> answer \<open>Some\<close> report when they deny.
\<close>

definition ORACLE_PASS :: string where "ORACLE_PASS = ''PASS''"

definition REVIEW_OK :: "string list" where
  "REVIEW_OK = [''FIXED'', ''EVIDENCE_DISPOSITION'', ''NOT_ACTIONABLE'']"

definition REVIEW_OPEN :: "string list" where
  "REVIEW_OPEN = [''OPEN'', ''UNRESOLVED'', []]"

definition MUTABLE_KINDS :: "string list" where
  "MUTABLE_KINDS = [''ci'', ''review'', ''runtime'']"

definition VERIFIER_REPORT_KEYS :: "string list" where
  "VERIFIER_REPORT_KEYS = [''DECISION'', ''EXIT_CODE'', ''REASON'', ''DENY_CLASS'', ''SUBJECT_HEAD'', ''CHANGE_RISK'',
     ''VERIFIER_REQUIRED'', ''EXECUTES_REQUEST_COMMANDS'']"

section \<open>Readers\<close>

definition require_full_sha :: "json \<Rightarrow> string \<Rightarrow> facts_error + string" where
  "require_full_sha v label =
     bindE (require_str v label) (\<lambda>s.
       if \<not> full_sha (py_lower s) then Inl (facts_error (label @ '' must be a 40-char lowercase hex Git SHA''))
       else Inr (py_lower s))"

definition require_upper :: "json \<Rightarrow> string \<Rightarrow> facts_error + string" where
  "require_upper v label = bindE (require_str v label) (\<lambda>s. Inr (py_upper s))"

record actor =
  ac_identity :: string
  ac_context :: string

definition parse_actor :: "json \<Rightarrow> string \<Rightarrow> facts_error + actor" where
  "parse_actor raw label =
     bindE (require_mapping raw label) (\<lambda>d.
     bindE (require_str (jget d ''identity'') (label @ ''.identity'')) (\<lambda>i.
     bindE (require_str (jget d ''context_id'') (label @ ''.context_id'')) (\<lambda>c.
       Inr \<lparr>ac_identity = i, ac_context = c\<rparr>)))"

record oracle_fact =
  or_id :: string
  or_result :: string
  or_head :: string

definition parse_oracle :: "json \<Rightarrow> string \<Rightarrow> facts_error + oracle_fact" where
  "parse_oracle raw label =
     bindE (require_mapping raw label) (\<lambda>d.
     bindE (require_upper (jget d ''result'') (label @ ''.result'')) (\<lambda>result.
     bindE (require_str (jget d ''id'') (label @ ''.id'')) (\<lambda>i.
     bindE (require_full_sha (jget d ''subject_head'') (label @ ''.subject_head'')) (\<lambda>h.
       Inr \<lparr>or_id = i, or_result = result, or_head = h\<rparr>))))"

record review_finding =
  fi_id :: string
  fi_actionable :: bool
  fi_disposition :: string

definition parse_review_finding :: "json \<Rightarrow> string \<Rightarrow> facts_error + review_finding" where
  "parse_review_finding raw label =
     bindE (require_mapping raw label) (\<lambda>d.
     bindE (require_upper (jget d ''disposition'') (label @ ''.disposition'')) (\<lambda>disposition.
     bindE (require_str (jget d ''id'') (label @ ''.id'')) (\<lambda>i.
     bindE (require_bool (jget d ''actionable'') (label @ ''.actionable'')) (\<lambda>a.
       Inr \<lparr>fi_id = i, fi_actionable = a, fi_disposition = disposition\<rparr>))))"

record mutable_fact =
  mu_kind :: string
  mu_subject :: string
  mu_version :: string
  mu_result :: string

definition parse_mutable :: "json \<Rightarrow> string \<Rightarrow> facts_error + mutable_fact" where
  "parse_mutable raw label =
     bindE (require_mapping raw label) (\<lambda>d.
     bindE (require_str (jget d ''kind'') (label @ ''.kind'')) (\<lambda>k.
     if py_lower k \<notin> set MUTABLE_KINDS then Inl (facts_error (label @ ''.kind must be ci, review, or runtime''))
     else bindE (require_str (jget d ''subject_id'') (label @ ''.subject_id'')) (\<lambda>subject.
     bindE (require_str (jget d ''version_id'') (label @ ''.version_id'')) (\<lambda>version.
     bindE (require_upper (jget d ''result'') (label @ ''.result'')) (\<lambda>result.
       Inr \<lparr>mu_kind = py_lower k, mu_subject = subject, mu_version = version, mu_result = result\<rparr>)))))"

text \<open>The expected kinds with subject and version, in the order of the dict; a later key of the same kind wins.\<close>

type_synonym expectation = "(string \<times> string \<times> string) list"

definition contract_error :: "string \<Rightarrow> facts_error" where
  "contract_error reason = FactsError reason ''MUTABLE_CONTRACT_MISSING''"

fun expected_entries :: "string \<Rightarrow> jobj \<Rightarrow> expectation \<Rightarrow> facts_error + expectation" where
  "expected_entries subject [] acc = Inr acc"
| "expected_entries subject ((kind, v) # rest) acc =
     bindE (require_str (JStr kind) ''expected_mutable kind'') (\<lambda>k0.
     let k = py_lower k0; label = ''expected_mutable.'' @ k
     in if k \<notin> set MUTABLE_KINDS then Inl (facts_error (''expected_mutable contains unknown kind '' @ k))
        else bindE (require_mapping v label) (\<lambda>entry.
             bindE (require_str (jget entry ''subject_id'') (label @ ''.subject_id'')) (\<lambda>sid.
             bindE (require_str (jget entry ''version_id'') (label @ ''.version_id'')) (\<lambda>vid.
             if k = ''ci'' \<and> vid \<noteq> subject
             then Inl (contract_error ''expected_mutable.ci.version_id must equal subject_head'')
             else expected_entries subject rest (dset k (sid, vid) acc)))))"

definition parse_expected_mutable :: "json \<Rightarrow> string \<Rightarrow> string \<Rightarrow> facts_error + expectation option" where
  "parse_expected_mutable raw subject risk =
     (if raw = JNull
      then (if risk \<in> set HIGH_RISKS
            then Inl (contract_error ''HIGH/CRITICAL requires expected_mutable subject/version contract'') else Inr None)
      else bindE (require_mapping raw ''expected_mutable'') (\<lambda>d.
           if d = [] then Inl (contract_error ''expected_mutable must declare at least one kind'')
           else bindE (expected_entries subject d []) (\<lambda>es.
                if risk \<in> set HIGH_RISKS \<and> map_of es ''ci'' = None
                then Inl (contract_error ''HIGH/CRITICAL expected_mutable must include ci bound to subject_head'')
                else Inr (Some es))))"

section \<open>Verdicts\<close>

type_synonym verdict_report = "(string \<times> string) list"

definition subject_fields :: "string \<Rightarrow> string \<Rightarrow> verdict_report" where
  "subject_fields subject risk =
     [(''SUBJECT_HEAD'', subject), (''CHANGE_RISK'', risk),
      (''VERIFIER_REQUIRED'', if risk \<in> set HIGH_RISKS then ''YES'' else ''NO'')]"

definition verifier_deny :: "string \<Rightarrow> string \<Rightarrow> verdict_report \<Rightarrow> verdict_report" where
  "verifier_deny reason deny_class extra =
     [(''DECISION'', ''DENY''), (''EXIT_CODE'', ''2''), (''REASON'', reason), (''DENY_CLASS'', deny_class),
      (''EXECUTES_REQUEST_COMMANDS'', ''NO'')] @ extra"

definition verifier_allow :: "string \<Rightarrow> verdict_report \<Rightarrow> verdict_report" where
  "verifier_allow reason extra =
     [(''DECISION'', ''PASS''), (''EXIT_CODE'', ''0''), (''REASON'', reason), (''DENY_CLASS'', ''NONE''),
      (''EXECUTES_REQUEST_COMMANDS'', ''NO'')] @ extra"

section \<open>The evaluation\<close>

definition check_actors :: "jobj \<Rightarrow> actor \<Rightarrow> verdict_report \<Rightarrow> bool \<Rightarrow> facts_error + verdict_report option" where
  "check_actors request implementer extra required =
     (let raw = jget request ''verifier''
      in if required \<and> raw = JNull
         then Inr (Some (verifier_deny ''HIGH/CRITICAL requires an independent verifier actor'' ''VERIFIER_REQUIRED'' extra))
         else if raw = JNull then Inr None
         else bindE (parse_actor raw ''verifier'') (\<lambda>v.
           if ac_identity v = ac_identity implementer \<or> ac_context v = ac_context implementer
           then Inr (Some (verifier_deny ''implementer identity/context cannot satisfy an independent verifier actor''
                  ''SAME_ACTOR'' extra))
           else Inr None))"

fun check_oracles :: "string \<Rightarrow> verdict_report \<Rightarrow> nat \<Rightarrow> json list \<Rightarrow> facts_error + verdict_report option" where
  "check_oracles subject extra i [] = Inr None"
| "check_oracles subject extra i (x # rest) =
     bindE (parse_oracle x (''oracle_evidence['' @ nat_text i @ '']'')) (\<lambda>ora.
     if or_head ora \<noteq> subject
     then Inr (Some (verifier_deny (''oracle '' @ or_id ora @ '' subject_head does not match verification subject'')
            ''HEAD_MISMATCH'' extra))
     else if or_result ora \<noteq> ORACLE_PASS
     then Inr (Some (verifier_deny (''oracle '' @ or_id ora @ '' result '' @ or_result ora @ '' cannot satisfy terminal PASS'')
            ''ORACLE_NOT_PASS'' extra))
     else check_oracles subject extra (Suc i) rest)"

fun check_findings :: "verdict_report \<Rightarrow> nat \<Rightarrow> json list \<Rightarrow> facts_error + verdict_report option" where
  "check_findings extra i [] = Inr None"
| "check_findings extra i (x # rest) =
     bindE (parse_review_finding x (''review_findings['' @ nat_text i @ '']'')) (\<lambda>fi.
     if \<not> fi_actionable fi then check_findings extra (Suc i) rest
     else if fi_disposition fi \<in> set REVIEW_OPEN \<or> fi_disposition fi \<notin> set REVIEW_OK
     then Inr (Some (verifier_deny (''actionable review finding '' @ fi_id fi @ '' is not resolved/dispositioned'')
            ''REVIEW_OPEN'' extra))
     else check_findings extra (Suc i) rest)"

text \<open>The kinds seen, or a denial.\<close>

fun check_mutables ::
    "expectation option \<Rightarrow> verdict_report \<Rightarrow> nat \<Rightarrow> string list \<Rightarrow> json list \<Rightarrow> facts_error + (verdict_report + string list)" where
  "check_mutables expected extra i seen [] = Inr (Inr seen)"
| "check_mutables expected extra i seen (x # rest) =
     bindE (parse_mutable x (''mutable_evidence['' @ nat_text i @ '']'')) (\<lambda>m.
     if mu_result m \<noteq> ORACLE_PASS
     then Inr (Inl (verifier_deny (''mutable '' @ mu_kind m @ '' evidence result '' @ mu_result m @ '' is not PASS'')
            ''MUTABLE_NOT_PASS'' extra))
     else (case expected of
             None \<Rightarrow> check_mutables expected extra (Suc i) (mu_kind m # seen) rest
           | Some es \<Rightarrow>
               (case map_of es (mu_kind m) of
                  None \<Rightarrow> Inr (Inl (verifier_deny
                    (''mutable '' @ mu_kind m @ '' evidence has no expected subject/version contract'') ''STALE_MUTABLE'' extra))
                | Some e \<Rightarrow>
                    if mu_subject m \<noteq> fst e \<or> mu_version m \<noteq> snd e
                    then Inr (Inl (verifier_deny
                      (''mutable '' @ mu_kind m @ '' evidence subject/version does not match expected contract'') ''STALE_MUTABLE'' extra))
                    else check_mutables expected extra (Suc i) (mu_kind m # seen) rest)))"

definition check_missing :: "string \<Rightarrow> expectation option \<Rightarrow> string list \<Rightarrow> verdict_report \<Rightarrow> verdict_report option" where
  "check_missing risk expected seen extra =
     (case expected of
        None \<Rightarrow> None
      | Some es \<Rightarrow>
          (let missing = sort (filter (\<lambda>k. k \<notin> set seen) (map fst es))
           in if risk \<in> set HIGH_RISKS \<and> missing \<noteq> []
              then Some (verifier_deny (''required mutable evidence kinds are missing: '' @ join_with '','' missing)
                ''MUTABLE_MISSING'' extra)
              else None))"

definition check_approval :: "jobj \<Rightarrow> string \<Rightarrow> verdict_report \<Rightarrow> facts_error + verdict_report option" where
  "check_approval request risk extra =
     (if risk \<noteq> ''CRITICAL'' then Inr None
      else if jget request ''human_approval'' = JNull
      then Inr (Some (verifier_deny ''CRITICAL requires human_approval evidence'' ''HUMAN_APPROVAL_MISSING'' extra))
      else bindE (require_mapping (jget request ''human_approval'') ''human_approval'') (\<lambda>approval.
           bindE (require_bool (jget_or approval ''required'' (JBool True)) ''human_approval.required'') (\<lambda>_.
           bindE (require_bool (jget approval ''present'') ''human_approval.present'') (\<lambda>present.
             if \<not> present
             then Inr (Some (verifier_deny ''CRITICAL human approval is required but not present'' ''HUMAN_APPROVAL_MISSING'' extra))
             else Inr None))))"

text \<open>A part that may deny, then the rest.\<close>

definition unless_denied ::
    "facts_error + verdict_report option \<Rightarrow> (unit \<Rightarrow> facts_error + verdict_report) \<Rightarrow> facts_error + verdict_report" where
  "unless_denied m rest = bindE m (\<lambda>r. case r of Some d \<Rightarrow> Inr d | None \<Rightarrow> rest ())"

definition check_evidence :: "jobj \<Rightarrow> string \<Rightarrow> string \<Rightarrow> verdict_report \<Rightarrow> facts_error + verdict_report option" where
  "check_evidence request subject risk extra =
     bindE (parse_expected_mutable (jget request ''expected_mutable'') subject risk) (\<lambda>expected.
     bindE (require_list (jget_or request ''mutable_evidence'' (JList [])) ''mutable_evidence'') (\<lambda>mutables.
     if risk \<in> set HIGH_RISKS \<and> mutables = []
     then Inr (Some (verifier_deny (risk @ '' requires mutable evidence with subject/version identity'') ''MUTABLE_MISSING'' extra))
     else if mutables \<noteq> [] \<and> expected = None \<and> risk \<in> {''MEDIUM'', ''HIGH'', ''CRITICAL''}
     then Inr (Some (verifier_deny ''mutable evidence requires expected_mutable subject/version contract''
            ''MUTABLE_CONTRACT_MISSING'' extra))
     else bindE (check_mutables expected extra 0 [] mutables) (\<lambda>r.
          case r of Inl d \<Rightarrow> Inr (Some d) | Inr seen \<Rightarrow> Inr (check_missing risk expected seen extra))))"

definition verifier_evaluate :: "jobj \<Rightarrow> facts_error + verdict_report" where
  "verifier_evaluate request =
     bindE (reject_execution_keys ''request'' request) (\<lambda>_.
     bindE (require_full_sha (jget request ''subject_head'') ''subject_head'') (\<lambda>subject.
     bindE (require_upper (jget request ''change_risk'') ''change_risk'') (\<lambda>risk.
     if risk \<notin> set CHANGE_RISKS then Inl (facts_error ''change_risk must be LOW, MEDIUM, HIGH, or CRITICAL'')
     else let extra = subject_fields subject risk
     in bindE (parse_actor (jget request ''implementer'') ''implementer'') (\<lambda>implementer.
        unless_denied (check_actors request implementer extra (risk \<in> set HIGH_RISKS)) (\<lambda>_.
        bindE (require_list (jget request ''oracle_evidence'') ''oracle_evidence'') (\<lambda>oracles.
        if oracles = [] then Inr (verifier_deny ''completion-oracle evidence is missing'' ''ORACLE_MISSING'' extra)
        else unless_denied (check_oracles subject extra 0 oracles) (\<lambda>_.
        bindE (require_list (jget_or request ''review_findings'' (JList [])) ''review_findings'') (\<lambda>findings.
        unless_denied (check_findings extra 0 findings) (\<lambda>_.
        unless_denied (check_evidence request subject risk extra) (\<lambda>_.
        unless_denied (check_approval request risk extra) (\<lambda>_.
          Inr (verifier_allow ''terminal evidence satisfies independent-verifier contract'' extra))))))))))))"

section \<open>Reports\<close>

definition verifier_line :: "string \<Rightarrow> string \<Rightarrow> string" where
  "verifier_line key v = key @ ''='' @ py_strip (replace_char NL '' '' v)"

definition verifier_format :: "verdict_report \<Rightarrow> string" where
  "verifier_format kvs =
     join_with [NL] (concat (map (\<lambda>k. case map_of kvs k of None \<Rightarrow> [] | Some v \<Rightarrow> [verifier_line k v]) VERIFIER_REPORT_KEYS) @
       map (\<lambda>(k, v). verifier_line k v) (filter (\<lambda>(k, v). k \<notin> set VERIFIER_REPORT_KEYS) kvs)) @ [NL]"

definition verifier_failure :: "string \<Rightarrow> string \<Rightarrow> string \<times> int" where
  "verifier_failure reason deny_class =
     (verifier_format [(''DECISION'', ''DENY''), (''EXIT_CODE'', ''3''), (''REASON'', reason), (''DENY_CLASS'', deny_class),
        (''EXECUTES_REQUEST_COMMANDS'', ''NO'')], 3)"

text \<open>\<^verbatim>\<open>main\<close> after the request was read, or failed to be: the text printed and the exit status.\<close>

definition verifier_main :: "facts_error + json \<Rightarrow> string \<times> int" where
  "verifier_main loaded =
     (case bindE loaded (\<lambda>v. case v of JObj d \<Rightarrow> verifier_evaluate d | _ \<Rightarrow> Inl (facts_error ''request JSON must be an object'')) of
        Inr r \<Rightarrow> (verifier_format r, if map_of r ''EXIT_CODE'' = Some ''0'' then 0 else 2)
      | Inl (FactsError reason deny_class) \<Rightarrow> verifier_failure reason deny_class)"

end
