(* ===== verification/VerifierProps.thy ===== *)
theory VerifierProps
  imports Verifier CoordinatorProps
begin

text \<open>
  What the independent verifier promises. A part of the evaluation denies nothing exactly when every
  item it looks at is good; a label only appears in an error text.
\<close>

section \<open>Readers\<close>

lemma require_str_Inr: "require_str v l = Inr s \<longleftrightarrow> (\<exists>t. v = JStr t \<and> s = py_strip t \<and> s \<noteq> [])"
  by (auto simp: require_str_def Let_def split: json.splits)

lemma require_mapping_Inr: "require_mapping v l = Inr d \<longleftrightarrow> v = JObj d"
  by (auto simp: require_mapping_def split: json.splits)

lemma require_list_Inr: "require_list v l = Inr xs \<longleftrightarrow> v = JList xs"
  by (auto simp: require_list_def split: json.splits)

lemma require_bool_Inr: "require_bool v l = Inr b \<longleftrightarrow> v = JBool b"
  by (auto simp: require_bool_def split: json.splits)

lemma require_upper_Inr: "require_upper v l = Inr s \<longleftrightarrow> (\<exists>t. v = JStr t \<and> py_strip t \<noteq> [] \<and> s = py_upper (py_strip t))"
  by (auto simp: require_upper_def bindE_Inr_iff require_str_Inr)

lemma require_full_sha_Inr:
  "require_full_sha v l = Inr s \<longleftrightarrow> (\<exists>t. v = JStr t \<and> py_strip t \<noteq> [] \<and> s = py_lower (py_strip t) \<and> full_sha s)"
  by (auto simp: require_full_sha_def bindE_Inr_iff require_str_Inr)

lemmas reader_Inr = require_str_Inr require_mapping_Inr require_list_Inr require_bool_Inr require_upper_Inr require_full_sha_Inr

text \<open>What an item says, if it is well formed.\<close>

definition oracle_of :: "json \<Rightarrow> oracle_fact option" where
  "oracle_of x = (case parse_oracle x [] of Inr ora \<Rightarrow> Some ora | Inl _ \<Rightarrow> None)"

definition finding_of :: "json \<Rightarrow> review_finding option" where
  "finding_of x = (case parse_review_finding x [] of Inr fi \<Rightarrow> Some fi | Inl _ \<Rightarrow> None)"

definition mutable_of :: "json \<Rightarrow> mutable_fact option" where
  "mutable_of x = (case parse_mutable x [] of Inr m \<Rightarrow> Some m | Inl _ \<Rightarrow> None)"

lemma same_labels:
  "parse_oracle x l = Inr ora \<longleftrightarrow> parse_oracle x l' = Inr ora"
  "parse_review_finding x l = Inr fi \<longleftrightarrow> parse_review_finding x l' = Inr fi"
  "parse_mutable x l = Inr m \<longleftrightarrow> parse_mutable x l' = Inr m"
  by (auto simp: parse_oracle_def parse_review_finding_def parse_mutable_def bindE_Inr_iff reader_Inr)

lemma option_of_sum:
  "(\<And>y. m = Inr y \<longleftrightarrow> m' = Inr y) \<Longrightarrow> m = Inr x \<longleftrightarrow> (case m' of Inr y \<Rightarrow> Some y | Inl _ \<Rightarrow> None) = Some x"
  by (auto split: sum.split)

lemma item_Inr:
  "parse_oracle x l = Inr ora \<longleftrightarrow> oracle_of x = Some ora" "parse_review_finding x l = Inr fi \<longleftrightarrow> finding_of x = Some fi"
  "parse_mutable x l = Inr m \<longleftrightarrow> mutable_of x = Some m"
  unfolding oracle_of_def finding_of_def mutable_of_def by (rule option_of_sum, rule same_labels)+

lemma item_Inl:
  "parse_oracle x l = Inl e \<Longrightarrow> oracle_of x = None" "parse_review_finding x l = Inl e \<Longrightarrow> finding_of x = None"
  "parse_mutable x l = Inl e \<Longrightarrow> mutable_of x = None"
  using item_Inr [of x l] by (metis not_None_eq sum.distinct(1))+

section \<open>Items\<close>

text \<open>
  What the gates ask of the JSON itself, without the readers of the code: a text of a field without the
  white space around it, an actor, an oracle, a finding, mutable evidence, an entry of the contract.
\<close>

definition text_at :: "jobj \<Rightarrow> string \<Rightarrow> string \<Rightarrow> bool" where
  "text_at d key s = (\<exists>t. jget d key = JStr t \<and> s = py_strip t \<and> s \<noteq> [])"

definition names_actor :: "json \<Rightarrow> string \<Rightarrow> string \<Rightarrow> bool" where
  "names_actor v i c = (\<exists>d. v = JObj d \<and> text_at d ''identity'' i \<and> text_at d ''context_id'' c)"

definition oracle_passes :: "string \<Rightarrow> json \<Rightarrow> bool" where
  "oracle_passes subject x =
     (\<exists>d i r h. x = JObj d \<and> text_at d ''id'' i \<and> text_at d ''result'' r \<and> py_upper r = ''PASS'' \<and>
        text_at d ''subject_head'' h \<and> py_lower h = subject \<and> full_sha subject)"

definition finding_settled :: "json \<Rightarrow> bool" where
  "finding_settled x =
     (\<exists>d i p b. x = JObj d \<and> text_at d ''id'' i \<and> text_at d ''disposition'' p \<and> jget d ''actionable'' = JBool b \<and>
        (b \<longrightarrow> py_upper p \<in> {''FIXED'', ''EVIDENCE_DISPOSITION'', ''NOT_ACTIONABLE''}))"

definition mutable_says :: "json \<Rightarrow> string \<Rightarrow> string \<Rightarrow> string \<Rightarrow> string \<Rightarrow> bool" where
  "mutable_says x k subject version res =
     (\<exists>d t q. x = JObj d \<and> text_at d ''kind'' t \<and> k = py_lower t \<and> k \<in> {''ci'', ''review'', ''runtime''} \<and>
        text_at d ''subject_id'' subject \<and> text_at d ''version_id'' version \<and> text_at d ''result'' q \<and> res = py_upper q)"

definition mutable_current :: "expectation option \<Rightarrow> json \<Rightarrow> bool" where
  "mutable_current expected x =
     (\<exists>k subject version. mutable_says x k subject version ''PASS'' \<and>
        (\<forall>es. expected = Some es \<longrightarrow> map_of es k = Some (subject, version)))"

definition contract_entry :: "string \<Rightarrow> string \<times> json \<Rightarrow> string \<times> string \<times> string \<Rightarrow> bool" where
  "contract_entry commit entry row =
     (case (entry, row) of ((kind, v), (k, subject, version)) \<Rightarrow>
        py_strip kind \<noteq> [] \<and> k = py_lower (py_strip kind) \<and> k \<in> {''ci'', ''review'', ''runtime''} \<and>
        (\<exists>d. v = JObj d \<and> text_at d ''subject_id'' subject \<and> text_at d ''version_id'' version) \<and>
        (k = ''ci'' \<longrightarrow> version = commit))"

definition mutable_contract :: "json \<Rightarrow> string \<Rightarrow> string \<Rightarrow> expectation option \<Rightarrow> bool" where
  "mutable_contract raw commit risk expected =
     (if raw = JNull then risk \<notin> set HIGH_RISKS \<and> expected = None
      else \<exists>d rows. raw = JObj d \<and> d \<noteq> [] \<and> list_all2 (contract_entry commit) d rows \<and>
             expected = Some (fold (\<lambda>(k, v). dset k v) rows []) \<and>
             (risk \<in> set HIGH_RISKS \<longrightarrow> ''ci'' \<in> fst ` set rows))"

text \<open>The readers of the code say the same.\<close>

lemma guard_Inr: "(if b then Inl e else m) = Inr x \<longleftrightarrow> \<not> b \<and> m = Inr x"
  by simp

lemma text_Inr: "require_str (JStr t) l = Inr s \<longleftrightarrow> s = py_strip t \<and> s \<noteq> []"
  by (auto simp: require_str_Inr)

lemma text_at_Inr: "require_str (jget d key) l = Inr s \<longleftrightarrow> text_at d key s"
  by (auto simp: text_at_def require_str_Inr)

lemma actor_Inr: "parse_actor v l = Inr a \<longleftrightarrow> names_actor v (ac_identity a) (ac_context a)"
  by (cases a) (auto simp: parse_actor_def names_actor_def bindE_Inr_iff require_mapping_Inr text_at_Inr)

lemma head_Inr: "require_full_sha (jget d key) l = Inr s \<longleftrightarrow> (\<exists>h. text_at d key h \<and> s = py_lower h \<and> full_sha s)"
  by (auto simp: require_full_sha_Inr text_at_def)

lemma upper_Inr: "require_upper (jget d key) l = Inr s \<longleftrightarrow> (\<exists>t. text_at d key t \<and> s = py_upper t)"
  by (auto simp: require_upper_Inr text_at_def)

lemma oracle_Inr:
  "parse_oracle x l = Inr ora \<longleftrightarrow>
     (\<exists>d r h. x = JObj d \<and> text_at d ''id'' (or_id ora) \<and> text_at d ''result'' r \<and> or_result ora = py_upper r \<and>
        text_at d ''subject_head'' h \<and> or_head ora = py_lower h \<and> full_sha (py_lower h))"
  by (cases ora) (simp add: parse_oracle_def bindE_Inr_iff require_mapping_Inr text_at_Inr head_Inr upper_Inr, blast)

lemma finding_Inr:
  "parse_review_finding x l = Inr fi \<longleftrightarrow>
     (\<exists>d p. x = JObj d \<and> text_at d ''id'' (fi_id fi) \<and> text_at d ''disposition'' p \<and> fi_disposition fi = py_upper p \<and>
        jget d ''actionable'' = JBool (fi_actionable fi))"
  by (cases fi) (simp add: parse_review_finding_def bindE_Inr_iff require_mapping_Inr require_bool_Inr text_at_Inr upper_Inr, blast)

lemma oracle_passes_of: "oracle_passes subject x \<longleftrightarrow> (\<exists>ora. oracle_of x = Some ora \<and> or_head ora = subject \<and> or_result ora = ''PASS'')"
proof
  assume "oracle_passes subject x"
  then obtain d i r h where "x = JObj d" "text_at d ''id'' i" "text_at d ''result'' r" "py_upper r = ''PASS''"
    "text_at d ''subject_head'' h" "py_lower h = subject" "full_sha subject" unfolding oracle_passes_def by blast
  then have "parse_oracle x [] = Inr \<lparr>or_id = i, or_result = ''PASS'', or_head = subject\<rparr>"
    unfolding oracle_Inr by (intro exI [of _ d] exI [of _ r] exI [of _ h]) simp
  then show "\<exists>ora. oracle_of x = Some ora \<and> or_head ora = subject \<and> or_result ora = ''PASS''" by (force simp: item_Inr)
next
  assume "\<exists>ora. oracle_of x = Some ora \<and> or_head ora = subject \<and> or_result ora = ''PASS''"
  then obtain ora where "parse_oracle x [] = Inr ora" "or_head ora = subject" "or_result ora = ''PASS''" by (auto simp: item_Inr)
  then show "oracle_passes subject x" unfolding oracle_Inr oracle_passes_def by metis
qed

lemma finding_settled_of: "finding_settled x \<longleftrightarrow> (\<exists>fi. finding_of x = Some fi \<and> (fi_actionable fi \<longrightarrow> fi_disposition fi \<in> set REVIEW_OK))"
proof
  assume "finding_settled x"
  then obtain d i p b where "x = JObj d" "text_at d ''id'' i" "text_at d ''disposition'' p" "jget d ''actionable'' = JBool b"
    and ok: "b \<longrightarrow> py_upper p \<in> {''FIXED'', ''EVIDENCE_DISPOSITION'', ''NOT_ACTIONABLE''}" unfolding finding_settled_def by blast
  then have "parse_review_finding x [] = Inr \<lparr>fi_id = i, fi_actionable = b, fi_disposition = py_upper p\<rparr>"
    unfolding finding_Inr by (intro exI [of _ d] exI [of _ p]) simp
  then show "\<exists>fi. finding_of x = Some fi \<and> (fi_actionable fi \<longrightarrow> fi_disposition fi \<in> set REVIEW_OK)"
    using ok by (force simp: item_Inr REVIEW_OK_def)
next
  assume "\<exists>fi. finding_of x = Some fi \<and> (fi_actionable fi \<longrightarrow> fi_disposition fi \<in> set REVIEW_OK)"
  then obtain fi where "parse_review_finding x [] = Inr fi" "fi_actionable fi \<longrightarrow> fi_disposition fi \<in> set REVIEW_OK" by (auto simp: item_Inr)
  then show "finding_settled x" unfolding finding_Inr finding_settled_def REVIEW_OK_def list.set by metis
qed

lemma mutable_of_says: "mutable_of x = Some m \<longleftrightarrow> mutable_says x (mu_kind m) (mu_subject m) (mu_version m) (mu_result m)"
proof -
  have kinds: "set MUTABLE_KINDS = {''ci'', ''review'', ''runtime''}" by (auto simp: MUTABLE_KINDS_def)
  have "parse_mutable x [] = Inr m \<longleftrightarrow> mutable_says x (mu_kind m) (mu_subject m) (mu_version m) (mu_result m)"
    unfolding parse_mutable_def mutable_says_def bindE_Inr_iff require_mapping_Inr text_at_Inr upper_Inr kinds guard_Inr
    by (cases m) (simp only: not_not sum.inject mutable_fact.ext_inject mutable_fact.select_convs, blast)
  then show ?thesis by (simp add: item_Inr)
qed

lemma mutable_says_of:
  "mutable_says x k subject version res \<longleftrightarrow> mutable_of x = Some \<lparr>mu_kind = k, mu_subject = subject, mu_version = version, mu_result = res\<rparr>"
  by (simp add: mutable_of_says)

lemma mutable_kind_of: "(\<exists>sub ver res. mutable_says x k sub ver res) \<longleftrightarrow> (\<exists>m. mutable_of x = Some m \<and> mu_kind m = k)"
  unfolding mutable_of_says by (metis mutable_fact.select_convs)

lemma actor_ex:
  "(\<exists>a. names_actor v (ac_identity a) (ac_context a) \<and> P (ac_identity a) (ac_context a)) \<longleftrightarrow> (\<exists>i c. names_actor v i c \<and> P i c)"
  by (metis actor.select_convs(1,2))

lemma mutable_current_of:
  "mutable_current expected x \<longleftrightarrow> (\<exists>m. mutable_of x = Some m \<and> mu_result m = ''PASS'' \<and>
     (\<forall>es. expected = Some es \<longrightarrow> map_of es (mu_kind m) = Some (mu_subject m, mu_version m)))"
proof
  assume "mutable_current expected x"
  then obtain k subject version where "mutable_says x k subject version ''PASS''"
    "\<forall>es. expected = Some es \<longrightarrow> map_of es k = Some (subject, version)" unfolding mutable_current_def by blast
  then show "\<exists>m. mutable_of x = Some m \<and> mu_result m = ''PASS'' \<and>
     (\<forall>es. expected = Some es \<longrightarrow> map_of es (mu_kind m) = Some (mu_subject m, mu_version m))"
    unfolding mutable_says_of by force
next
  assume "\<exists>m. mutable_of x = Some m \<and> mu_result m = ''PASS'' \<and>
     (\<forall>es. expected = Some es \<longrightarrow> map_of es (mu_kind m) = Some (mu_subject m, mu_version m))"
  then show "mutable_current expected x" unfolding mutable_of_says mutable_current_def by metis
qed

lemma expected_entries_Inr:
  "expected_entries commit d acc = Inr es \<longleftrightarrow>
     (\<exists>rows. list_all2 (contract_entry commit) d rows \<and> es = fold (\<lambda>(k, v). dset k v) rows acc)"
proof (induction d arbitrary: acc)
  case (Cons x d)
  obtain kind v where x: "x = (kind, v)" by (cases x)
  have kinds: "set MUTABLE_KINDS = {''ci'', ''review'', ''runtime''}" by (auto simp: MUTABLE_KINDS_def)
  have "expected_entries commit (x # d) acc = Inr es \<longleftrightarrow>
      (\<exists>k subject version. contract_entry commit x (k, subject, version) \<and> expected_entries commit d (dset k (subject, version) acc) = Inr es)"
    unfolding x contract_entry_def expected_entries.simps bindE_Inr_iff require_mapping_Inr text_at_Inr text_Inr Let_def guard_Inr
      prod.case kinds by blast
  then show ?case unfolding Cons.IH by (simp add: list_all2_Cons1) force
qed auto

lemma fold_dset_has: "map_of (fold (\<lambda>(k, v). dset k v) rows acc) x \<noteq> None \<longleftrightarrow> x \<in> fst ` set rows \<or> map_of acc x \<noteq> None"
  by (induction rows arbitrary: acc) (auto simp: map_of_dset split: if_splits)

lemma expected_mutable_Inr: "parse_expected_mutable raw commit risk = Inr expected \<longleftrightarrow> mutable_contract raw commit risk expected"
proof (cases "raw = JNull")
  case False
  have "''ci'' \<in> fst ` set rows \<longleftrightarrow> map_of (fold (\<lambda>(k, v). dset k v) rows []) ''ci'' \<noteq> None" for rows :: expectation
    using fold_dset_has [of rows "[]" "''ci''"] by simp
  then show ?thesis
    using False
    by (auto simp: parse_expected_mutable_def mutable_contract_def bindE_Inr_iff require_mapping_Inr expected_entries_Inr split: if_splits)
qed (auto simp: parse_expected_mutable_def mutable_contract_def)

lemma oracles_checked:
  "check_oracles subject extra i xs = Inr None \<longleftrightarrow> (\<forall>x \<in> set xs. oracle_passes subject x)"
proof (induction xs arbitrary: i)
  case (Cons x xs)
  show ?case
    using Cons by (auto simp: bindE_Inr_iff item_Inr oracle_passes_of ORACLE_PASS_def split: if_splits)
qed simp

lemma findings_checked: "check_findings extra i xs = Inr None \<longleftrightarrow> (\<forall>x \<in> set xs. finding_settled x)"
proof (induction xs arbitrary: i)
  case (Cons x xs)
  have "d \<in> set REVIEW_OK \<Longrightarrow> d \<notin> set REVIEW_OPEN" for d by (auto simp: REVIEW_OK_def REVIEW_OPEN_def)
  then show ?case
    using Cons by (auto simp: bindE_Inr_iff item_Inr finding_settled_of split: if_splits)
qed simp

lemma mutables_checked:
  "check_mutables expected extra i seen xs = Inr (Inr kinds) \<longleftrightarrow>
     (\<forall>x \<in> set xs. mutable_current expected x) \<and> kinds = rev (map (\<lambda>x. mu_kind (the (mutable_of x))) xs) @ seen"
proof (induction xs arbitrary: i seen)
  case (Cons x xs)
  show ?case
  proof (cases "parse_mutable x (''mutable_evidence['' @ nat_text i @ '']'')")
    case (Inl e)
    then show ?thesis using item_Inl(3) by (auto simp: mutable_current_of)
  next
    case (Inr m)
    then have m: "mutable_of x = Some m" by (simp add: item_Inr)
    have "mutable_current expected x \<longleftrightarrow> mu_result m = ''PASS'' \<and>
        (\<forall>es. expected = Some es \<longrightarrow> map_of es (mu_kind m) = Some (mu_subject m, mu_version m))"
      by (simp add: mutable_current_of m)
    then show ?thesis
      using Inr m Cons by (cases expected; cases "map_of (the expected) (mu_kind m)") (auto simp: ORACLE_PASS_def)
  qed
qed auto

section \<open>Parts\<close>

lemma unless_denied_Inr:
  "unless_denied m f = Inr r \<longleftrightarrow> m = Inr (Some r) \<or> m = Inr None \<and> f () = Inr r"
  by (auto simp: unless_denied_def bindE_Inr_iff split: option.splits)

definition denial :: "verdict_report \<Rightarrow> bool" where
  "denial r = (map_of r ''DECISION'' = Some ''DENY'')"

lemma verdict_decisions [simp]:
  "denial (verifier_deny reason cls extra)" "\<not> denial (verifier_allow reason extra)"
  "map_of (verifier_allow reason extra) ''DECISION'' = Some ''PASS''"
  "map_of (verifier_deny reason cls extra) ''DECISION'' = Some ''DENY''"
  by (simp_all add: denial_def verifier_deny_def verifier_allow_def)

lemma parts_deny:
  "check_actors request implementer extra required = Inr (Some r) \<Longrightarrow> denial r"
  "check_approval request risk extra = Inr (Some r) \<Longrightarrow> denial r"
  "check_missing risk expected seen extra = Some r \<Longrightarrow> denial r"
  by (auto simp: check_actors_def check_approval_def check_missing_def bindE_Inr_iff Let_def split: if_splits option.splits)

lemma items_deny:
  "check_oracles subject extra i xs = Inr (Some r) \<Longrightarrow> denial r"
  "check_findings extra i xs = Inr (Some r) \<Longrightarrow> denial r"
proof (induction xs arbitrary: i)
  case (Cons x xs)
  { case 1 then show ?case using Cons(1) by (auto simp: bindE_Inr_iff split: if_splits) }
  { case 2 then show ?case using Cons(2) by (auto simp: bindE_Inr_iff split: if_splits) }
qed simp_all

lemma mutables_deny: "check_mutables expected extra i seen xs = Inr (Inl r) \<Longrightarrow> denial r"
  by (induction expected extra i seen xs rule: check_mutables.induct)
    (auto simp: bindE_Inr_iff split: if_splits option.splits)

lemma mutables_end:
  "(case r of Inl d \<Rightarrow> Inr (Some d) | Inr seen \<Rightarrow> Inr (check_missing risk expected seen extra)) = (Inr y :: facts_error + _) \<longleftrightarrow>
     (\<exists>d. r = Inl d \<and> y = Some d) \<or> (\<exists>seen. r = Inr seen \<and> check_missing risk expected seen extra = y)"
  by (cases r) auto

lemma two_denials:
  "(if a then Inr (Some d) else if b then Inr (Some d') else bindE m (\<lambda>r.
      case r of Inl d \<Rightarrow> Inr (Some d) | Inr seen \<Rightarrow> Inr (check_missing risk expected seen extra))) = (Inr None :: facts_error + _) \<longleftrightarrow>
    \<not> a \<and> \<not> b \<and> (\<exists>seen. m = Inr (Inr seen) \<and> check_missing risk expected seen extra = None)"
proof (cases m)
  case (Inr r)
  then show ?thesis by (cases r) simp_all
qed simp

lemma evidence_deny: "check_evidence request subject risk extra = Inr (Some r) \<Longrightarrow> denial r"
  by (auto simp: check_evidence_def bindE_Inr_iff mutables_end dest: parts_deny(3) mutables_deny split: if_splits)

text \<open>The gates, part by part.\<close>

definition independent_verifier :: "jobj \<Rightarrow> string \<Rightarrow> string \<Rightarrow> string \<Rightarrow> bool" where
  "independent_verifier request risk i c =
     (if jget request ''verifier'' = JNull then risk \<notin> set HIGH_RISKS
      else \<exists>vi vc. names_actor (jget request ''verifier'') vi vc \<and> vi \<noteq> i \<and> vc \<noteq> c)"

definition evidence_current :: "jobj \<Rightarrow> string \<Rightarrow> string \<Rightarrow> bool" where
  "evidence_current request subject risk =
     (\<exists>expected. mutable_contract (jget request ''expected_mutable'') subject risk expected \<and>
        (\<exists>mutables. jget_or request ''mutable_evidence'' (JList []) = JList mutables \<and>
          \<not> (risk \<in> set HIGH_RISKS \<and> mutables = []) \<and>
          \<not> (mutables \<noteq> [] \<and> expected = None \<and> risk \<in> {''MEDIUM'', ''HIGH'', ''CRITICAL''}) \<and>
          (\<forall>x \<in> set mutables. mutable_current expected x) \<and>
          (\<forall>es. expected = Some es \<and> risk \<in> set HIGH_RISKS \<longrightarrow>
             (\<forall>k \<in> fst ` set es. \<exists>x \<in> set mutables. \<exists>sub ver res. mutable_says x k sub ver res))))"

definition human_approved :: "jobj \<Rightarrow> bool" where
  "human_approved request =
     (\<exists>d b. jget request ''human_approval'' = JObj d \<and> jget_or d ''required'' (JBool True) = JBool b \<and> jget d ''present'' = JBool True)"

lemma actors_checked: "check_actors request implementer extra (risk \<in> set HIGH_RISKS) = Inr None \<longleftrightarrow>
    independent_verifier request risk (ac_identity implementer) (ac_context implementer)"
proof (cases "jget request ''verifier'' = JNull")
  case False
  then have "check_actors request implementer extra (risk \<in> set HIGH_RISKS) = Inr None \<longleftrightarrow>
      (\<exists>v. parse_actor (jget request ''verifier'') ''verifier'' = Inr v \<and>
         ac_identity v \<noteq> ac_identity implementer \<and> ac_context v \<noteq> ac_context implementer)"
    by (auto simp: check_actors_def bindE_Inr_iff Let_def)
  then show ?thesis
    using False actor_ex [where P = "\<lambda>i c. i \<noteq> ac_identity implementer \<and> c \<noteq> ac_context implementer"]
    by (simp add: independent_verifier_def actor_Inr)
qed (simp add: check_actors_def independent_verifier_def Let_def)

lemma approval_checked: "check_approval request risk extra = Inr None \<longleftrightarrow> (risk = ''CRITICAL'' \<longrightarrow> human_approved request)"
  by (auto simp: check_approval_def human_approved_def bindE_Inr_iff reader_Inr)

lemma missing_checked: "check_missing risk expected seen extra = None \<longleftrightarrow>
    (\<forall>es. expected = Some es \<and> risk \<in> set HIGH_RISKS \<longrightarrow> fst ` set es \<subseteq> set seen)"
proof (cases expected)
  case (Some es)
  have "sort ks = [] \<longleftrightarrow> ks = []" for ks :: "string list" by (simp flip: length_0_conv)
  moreover have "filter (\<lambda>k. k \<notin> set seen) (map fst es) = [] \<longleftrightarrow> fst ` set es \<subseteq> set seen"
    unfolding filter_empty_conv by auto
  ultimately show ?thesis using Some by (simp add: check_missing_def Let_def)
qed (simp add: check_missing_def)

lemma evidence_checked: "check_evidence request subject risk extra = Inr None \<longleftrightarrow> evidence_current request subject risk"
proof -
  have kinds: "(\<forall>es. expected = Some es \<and> risk \<in> set HIGH_RISKS \<longrightarrow> fst ` set es \<subseteq> set (rev (map (\<lambda>x. mu_kind (the (mutable_of x))) xs) @ [])) \<longleftrightarrow>
      (\<forall>es. expected = Some es \<and> risk \<in> set HIGH_RISKS \<longrightarrow>
         (\<forall>k \<in> fst ` set es. \<exists>x \<in> set xs. \<exists>sub ver res. mutable_says x k sub ver res))"
    if "\<forall>x \<in> set xs. mutable_current expected x" for xs expected
  proof -
    have "\<exists>m. mutable_of x = Some m" if "x \<in> set xs" for x
      using \<open>\<forall>x \<in> set xs. mutable_current expected x\<close> that by (auto simp: mutable_current_of)
    then have "k \<in> set (rev (map (\<lambda>x. mu_kind (the (mutable_of x))) xs) @ []) \<longleftrightarrow>
        (\<exists>x \<in> set xs. \<exists>sub ver res. mutable_says x k sub ver res)" for k unfolding mutable_kind_of by force
    then show ?thesis by blast
  qed
  have mid: "(\<exists>seen. check_mutables expected extra 0 [] xs = Inr (Inr seen) \<and> check_missing risk expected seen extra = None) \<longleftrightarrow>
      (\<forall>x \<in> set xs. mutable_current expected x) \<and>
      (\<forall>es. expected = Some es \<and> risk \<in> set HIGH_RISKS \<longrightarrow>
         (\<forall>k \<in> fst ` set es. \<exists>x \<in> set xs. \<exists>sub ver res. mutable_says x k sub ver res))" for expected xs
  proof (cases "\<forall>x \<in> set xs. mutable_current expected x")
    case True
    show ?thesis unfolding mutables_checked missing_checked kinds [OF True, symmetric] by (simp add: True)
  next
    case False
    show ?thesis unfolding mutables_checked by (simp only: False simp_thms)
  qed
  show ?thesis
    unfolding check_evidence_def bindE_Inr_iff [where m = "parse_expected_mutable a b c" for a b c]
      bindE_Inr_iff [where m = "require_list a b" for a b] reader_Inr expected_mutable_Inr evidence_current_def two_denials mid by (rule refl)
qed

section \<open>Passing\<close>

definition verifier_passes :: "facts_error + verdict_report \<Rightarrow> bool" where
  "verifier_passes m = (\<exists>r. m = Inr r \<and> map_of r ''DECISION'' = Some ''PASS'')"

lemma passes_denied: "(\<And>r. m = Inr (Some r) \<Longrightarrow> denial r) \<Longrightarrow> verifier_passes (unless_denied m f) \<longleftrightarrow> m = Inr None \<and> verifier_passes (f ())"
  by (auto simp: verifier_passes_def unless_denied_Inr denial_def)

lemma passes_plain:
  "verifier_passes (bindE m f) \<longleftrightarrow> (\<exists>x. m = Inr x \<and> verifier_passes (f x))"
  "verifier_passes (if b then x else y) \<longleftrightarrow> (if b then verifier_passes x else verifier_passes y)"
  "\<not> verifier_passes (Inl e)" "\<not> verifier_passes (Inr (verifier_deny reason cls extra))"
  "verifier_passes (Inr (verifier_allow reason extra))"
  by (auto simp: verifier_passes_def bindE_Inr_iff)

lemma passes_parts:
  "verifier_passes (unless_denied (check_actors request implementer extra required) f) \<longleftrightarrow>
     check_actors request implementer extra required = Inr None \<and> verifier_passes (f ())"
  "verifier_passes (unless_denied (check_approval request risk extra) f) \<longleftrightarrow>
     check_approval request risk extra = Inr None \<and> verifier_passes (f ())"
  "verifier_passes (unless_denied (check_oracles subject extra i xs) f) \<longleftrightarrow>
     check_oracles subject extra i xs = Inr None \<and> verifier_passes (f ())"
  "verifier_passes (unless_denied (check_findings extra i xs) f) \<longleftrightarrow>
     check_findings extra i xs = Inr None \<and> verifier_passes (f ())"
  "verifier_passes (unless_denied (check_evidence request subject risk extra) f) \<longleftrightarrow>
     check_evidence request subject risk extra = Inr None \<and> verifier_passes (f ())"
  by (rule passes_denied, erule parts_deny items_deny evidence_deny)+

lemma risks: "set CHANGE_RISKS = {''LOW'', ''MEDIUM'', ''HIGH'', ''CRITICAL''}"
  by (auto simp: CHANGE_RISKS_def)

lemma passes_parsed:
  "verifier_passes (verifier_evaluate request) \<longleftrightarrow>
     (\<forall>k \<in> set (visited_keys request). \<not> is_execution_key k) \<and>
     (\<exists>subject risk oracles findings.
        require_full_sha (jget request ''subject_head'') ''subject_head'' = Inr subject \<and>
        require_upper (jget request ''change_risk'') ''change_risk'' = Inr risk \<and> risk \<in> set CHANGE_RISKS \<and>
        (\<exists>a. parse_actor (jget request ''implementer'') ''implementer'' = Inr a \<and>
           independent_verifier request risk (ac_identity a) (ac_context a)) \<and>
        jget request ''oracle_evidence'' = JList oracles \<and> oracles \<noteq> [] \<and> (\<forall>x \<in> set oracles. oracle_passes subject x) \<and>
        jget_or request ''review_findings'' (JList []) = JList findings \<and> (\<forall>x \<in> set findings. finding_settled x) \<and>
        evidence_current request subject risk \<and> (risk = ''CRITICAL'' \<longrightarrow> human_approved request))"
proof -
  have keys: "(\<exists>x. reject_execution_keys ''request'' request = Inr x \<and> P) \<longleftrightarrow>
      (\<forall>k \<in> set (visited_keys request). \<not> is_execution_key k) \<and> P" for P
    using reject_execution_keys_iff(1) [of "''request''" request] by auto
  show ?thesis
    unfolding verifier_evaluate_def Let_def passes_plain passes_parts keys actors_checked oracles_checked findings_checked
      evidence_checked approval_checked require_list_Inr if_bool_eq_conj
    by (simp only: simp_thms ex_simps passes_plain) blast
qed

section \<open>Claims\<close>

lemma named:
  "(\<exists>a. parse_actor v l = Inr a \<and> independent_verifier request risk (ac_identity a) (ac_context a)) \<longleftrightarrow>
     (\<exists>i c. names_actor v i c \<and> independent_verifier request risk i c)"
  unfolding actor_Inr by (rule actor_ex)

lemma pulled_out:
  "(\<exists>s r os fs. (\<exists>h. A h \<and> s = f h \<and> F s) \<and> (\<exists>t. B t \<and> r = g t) \<and> R r \<and> (\<exists>i c. N i c \<and> V r i c) \<and> rest s r os fs) \<longleftrightarrow>
   (\<exists>h s t r i c os fs. A h \<and> s = f h \<and> F s \<and> B t \<and> r = g t \<and> R r \<and> N i c \<and> V r i c \<and> rest s r os fs)"
  by blast


definition demo_terminal :: jobj where
  "demo_terminal =
     [(''subject_head'', JStr demo_sha), (''change_risk'', JStr ''high''),
      (''implementer'', JObj [(''identity'', JStr ''a''), (''context_id'', JStr ''1'')]),
      (''verifier'', JObj [(''identity'', JStr ''b''), (''context_id'', JStr ''2'')]),
      (''oracle_evidence'', JList [JObj [(''id'', JStr ''t''), (''result'', JStr ''pass''), (''subject_head'', JStr demo_sha)]]),
      (''expected_mutable'', JObj [(''ci'', JObj [(''subject_id'', JStr ''c''), (''version_id'', JStr demo_sha)])]),
      (''mutable_evidence'', JList [JObj [(''kind'', JStr ''ci''), (''subject_id'', JStr ''c''), (''version_id'', JStr demo_sha),
         (''result'', JStr ''pass'')]])]"

lemma demo_terminal_passes: "verifier_passes (verifier_evaluate demo_terminal)"
proof -
  have "(case verifier_evaluate demo_terminal of Inr r \<Rightarrow> map_of r ''DECISION'' = Some ''PASS'' | Inl _ \<Rightarrow> False)"
    by code_simp
  then show ?thesis by (auto simp: verifier_passes_def split: sum.splits)
qed


end
