(* ===== verification/Profile.thy ===== *)
theory Profile
  imports PyJson Config
begin

text \<open>
  \<^verbatim>\<open>tools/execution_profile.py\<close>: the execution profile of a repository, the metadata at the head of a work
  packet, and whether the profile gives a packet its authority. \<open>ProfileError\<close> is the module's error,
  \<open>ProfileCrash\<close> any other exception. The YAML reader and the regular expressions of a profile are
  parameters: \<open>compiles\<close> says which compile, \<open>search\<close> is \<^verbatim>\<open>re.search(pattern, text)\<close>.
\<close>

datatype profile_stop = ProfileError string | ProfileCrash

section \<open>Lines of a packet\<close>

definition id_char :: "char \<Rightarrow> bool" where
  "id_char c = (is_alnum_ascii c \<or> c \<in> set ''._-'')"

text \<open>\<^verbatim>\<open>[A-Za-z0-9][A-Za-z0-9._-]{0,63}\<close>, for profiles and runtimes.\<close>

definition runtime_id_ok :: "string \<Rightarrow> bool" where
  "runtime_id_ok s = (case s of [] \<Rightarrow> False | c # cs \<Rightarrow> is_alnum_ascii c \<and> list_all id_char cs \<and> length cs \<le> 63)"

definition effect_id_ok :: "string \<Rightarrow> bool" where
  "effect_id_ok s =
     (case s of
        [] \<Rightarrow> False
      | c # cs \<Rightarrow> (is_lower_ascii c \<or> is_digit c) \<and> list_all (\<lambda>x. is_lower_ascii x \<or> is_digit x \<or> x \<in> set ''._-'') cs \<and>
          length cs \<le> 63)"

definition meta_key_char :: "char \<Rightarrow> bool" where
  "meta_key_char c = (is_upper_ascii c \<or> is_digit c \<or> c = CHR ''_'')"

text \<open>\<^verbatim>\<open>META_RE\<close>: the key and the rest of a line.\<close>

definition meta_of :: "string \<Rightarrow> (string \<times> string) option" where
  "meta_of line =
     (let key = takeWhile meta_key_char line; rest = dropWhile meta_key_char line
      in if 2 \<le> length key \<and> is_upper_ascii (hd key) \<and> rest \<noteq> [] \<and> hd rest = CHR ''=''
         then Some (key, tl rest) else None)"

text \<open>\<^verbatim>\<open>HEADING_RE\<close>, with the title stripped: white space of length one is no title.\<close>

definition heading_of :: "string \<Rightarrow> string option" where
  "heading_of line =
     (case line of
        a # b # c # cs \<Rightarrow>
          if a = CHR ''#'' \<and> b = CHR ''#'' \<and> is_space c \<and> cs \<noteq> [] then Some (py_strip (c # cs)) else None
      | _ \<Rightarrow> None)"

text \<open>\<^verbatim>\<open>FENCE_RE\<close>: the family and the length of the marker.\<close>

definition fence_of :: "string \<Rightarrow> (char \<times> nat) option" where
  "fence_of line =
     (let rest = dropWhile is_space line
      in if 3 < length (takeWhile is_space line) then None
         else (case rest of
                 [] \<Rightarrow> None
               | c # _ \<Rightarrow>
                   (let n = length (takeWhile (\<lambda>x. x = c) rest)
                    in if (c = CHR 0x60 \<or> c = CHR 0x7E) \<and> 3 \<le> n then Some (c, n) else None)))"

text \<open>The open fence after a marker.\<close>

definition next_fence :: "(char \<times> nat) option \<Rightarrow> char \<times> nat \<Rightarrow> (char \<times> nat) option" where
  "next_fence open_fence marker =
     (case open_fence of
        None \<Rightarrow> Some marker
      | Some f \<Rightarrow> if fst f = fst marker \<and> snd f \<le> snd marker then None else open_fence)"

fun scan_lines ::
    "(char \<times> nat) option \<Rightarrow> (string \<times> string) list \<Rightarrow> string list \<Rightarrow> string list \<Rightarrow> (string \<times> string) list \<times> string list" where
  "scan_lines fence meta dups [] = (meta, dups)"
| "scan_lines fence meta dups (line # rest) =
     (case fence_of line of
        Some marker \<Rightarrow> scan_lines (next_fence fence marker) meta dups rest
      | None \<Rightarrow>
          if fence \<noteq> None then scan_lines fence meta dups rest
          else if heading_of line \<noteq> None then (meta, dups)
          else (case meta_of line of
                  None \<Rightarrow> scan_lines fence meta dups rest
                | Some (key, v) \<Rightarrow>
                    if map_of meta key \<noteq> None then scan_lines fence meta (dups @ [key]) rest
                    else scan_lines fence (meta @ [(key, py_strip v)]) dups rest))"

definition scan_packet_metadata :: "string \<Rightarrow> (string \<times> string) list \<times> string list" where
  "scan_packet_metadata body = scan_lines None [] [] (py_splitlines body)"

definition parse_packet_metadata :: "string \<Rightarrow> profile_stop + (string \<times> string) list" where
  "parse_packet_metadata body =
     (case scan_packet_metadata body of
        (meta, []) \<Rightarrow> Inr meta
      | (meta, d # _) \<Rightarrow> Inl (ProfileError (''PACKET_METADATA_DUPLICATE:'' @ d)))"

section \<open>The profile\<close>

record exec_profile =
  ep_id :: string
  ep_revision :: int
  ep_authority :: string
  ep_primary :: string
  ep_reviewers :: "string list"
  ep_disabled :: "string list"
  ep_legacy :: "(string \<times> string) list"
  ep_artifacts :: "string list"
  ep_patterns :: "string list"
  ep_removals :: "string list"
  ep_effects :: "string list"
  ep_profile_markers :: "string list"
  ep_write_markers :: "string list"

definition PROFILE_KEYS :: "string list" where
  "PROFILE_KEYS = [''contract_version'', ''profile_id'', ''revision'', ''authority_contract'', ''runtime'',
     ''packet_compatibility'', ''retired_surface'', ''effect_policy'', ''policy_migration'']"

definition profile_mapping :: "json \<Rightarrow> string \<Rightarrow> profile_stop + jobj" where
  "profile_mapping v label = (case v of JObj d \<Rightarrow> Inr d | _ \<Rightarrow> Inl (ProfileError (label @ ''_INVALID'')))"

definition with_keys :: "json \<Rightarrow> string \<Rightarrow> string \<Rightarrow> string set \<Rightarrow> profile_stop + jobj" where
  "with_keys v label bad keys =
     bindE (profile_mapping v label) (\<lambda>d. if set (map fst d) \<noteq> keys then Inl (ProfileError bad) else Inr d)"

fun string_items :: "string \<Rightarrow> (string \<Rightarrow> bool) \<Rightarrow> string list \<Rightarrow> json list \<Rightarrow> profile_stop + string list" where
  "string_items label good acc [] = Inr acc"
| "string_items label good acc (x # rest) =
     (case x of
        JStr s \<Rightarrow>
          if \<not> good s then Inl (ProfileError (label @ ''_INVALID''))
          else if s \<in> set acc then Inl (ProfileError (label @ ''_DUPLICATE''))
          else string_items label good (acc @ [s]) rest
      | _ \<Rightarrow> Inl (ProfileError (label @ ''_INVALID'')))"

definition string_list :: "json \<Rightarrow> string \<Rightarrow> (string \<Rightarrow> bool) \<Rightarrow> profile_stop + string list" where
  "string_list v label good =
     (case v of JList xs \<Rightarrow> string_items label good [] xs | _ \<Rightarrow> Inl (ProfileError (label @ ''_INVALID'')))"

text \<open>A list of texts that are not empty and pass a test.\<close>

definition text_list :: "json \<Rightarrow> string \<Rightarrow> (string \<Rightarrow> bool) \<Rightarrow> profile_stop + string list" where
  "text_list v bad good =
     (case v of
        JList xs \<Rightarrow>
          if list_all (\<lambda>x. case x of JStr s \<Rightarrow> s \<noteq> [] \<and> good s | _ \<Rightarrow> False) xs
          then Inr (map (\<lambda>x. case x of JStr s \<Rightarrow> s | _ \<Rightarrow> []) xs) else Inl (ProfileError bad)
      | _ \<Rightarrow> Inl (ProfileError bad))"

fun legacy_items :: "string \<Rightarrow> string list \<Rightarrow> (string \<times> string) list \<Rightarrow> jobj \<Rightarrow> profile_stop + (string \<times> string) list" where
  "legacy_items profile_id disabled acc [] = Inr acc"
| "legacy_items profile_id disabled acc ((key, v) # rest) =
     (case v of
        JStr target \<Rightarrow>
          if \<not> runtime_id_ok key \<or> \<not> runtime_id_ok target then Inl (ProfileError ''PROFILE_LEGACY_IMPLEMENTERS_INVALID'')
          else if target \<noteq> profile_id then Inl (ProfileError ''PROFILE_LEGACY_IMPLEMENTER_TARGET_INVALID'')
          else if key \<in> set disabled then Inl (ProfileError ''PROFILE_LEGACY_IMPLEMENTER_DISABLED'')
          else legacy_items profile_id disabled (acc @ [(key, target)]) rest
      | _ \<Rightarrow> Inl (ProfileError ''PROFILE_LEGACY_IMPLEMENTERS_INVALID''))"

definition artifact_ok :: "string \<Rightarrow> bool" where
  "artifact_ok s = (\<not> starts_with s ''/'' \<and> ''..'' \<notin> set (split_on CHR ''/'' s))"

definition profile_id_of :: "jobj \<Rightarrow> profile_stop + string" where
  "profile_id_of d =
     (case jget d ''profile_id'' of
        JStr pid \<Rightarrow> if runtime_id_ok pid then Inr pid else Inl (ProfileError ''PROFILE_ID_INVALID'')
      | _ \<Rightarrow> Inl (ProfileError ''PROFILE_ID_INVALID''))"

definition profile_revision_of :: "jobj \<Rightarrow> profile_stop + int" where
  "profile_revision_of d =
     (case jget d ''revision'' of
        JInt n \<Rightarrow> if n < 1 then Inl (ProfileError ''PROFILE_REVISION_INVALID'') else Inr n
      | _ \<Rightarrow> Inl (ProfileError ''PROFILE_REVISION_INVALID''))"

text \<open>A list or a dict cannot be looked up in a set.\<close>

definition authority_contract_of :: "jobj \<Rightarrow> profile_stop + string" where
  "authority_contract_of d =
     (case jget d ''authority_contract'' of
        JStr c \<Rightarrow>
          if c \<in> {''legacy-v2'', ''profile-v3''} then Inr c else Inl (ProfileError ''PROFILE_AUTHORITY_CONTRACT_INVALID'')
      | JList _ \<Rightarrow> Inl ProfileCrash
      | JObj _ \<Rightarrow> Inl ProfileCrash
      | _ \<Rightarrow> Inl (ProfileError ''PROFILE_AUTHORITY_CONTRACT_INVALID''))"

definition profile_head :: "jobj \<Rightarrow> profile_stop + string \<times> int \<times> string" where
  "profile_head d =
     (case sort (filter (\<lambda>k. k \<notin> set PROFILE_KEYS) (map fst d)) of
        k # _ \<Rightarrow> Inl (ProfileError (''PROFILE_UNKNOWN_KEY:'' @ k))
      | [] \<Rightarrow>
          if \<not> eq_int (jget d ''contract_version'') 1 then Inl (ProfileError ''PROFILE_CONTRACT_VERSION_INVALID'')
          else bindE (profile_id_of d) (\<lambda>pid.
               bindE (profile_revision_of d) (\<lambda>n.
               bindE (authority_contract_of d) (\<lambda>c. Inr (pid, n, c)))))"

definition profile_runtime :: "jobj \<Rightarrow> profile_stop + string \<times> string list \<times> string list" where
  "profile_runtime d =
     bindE (with_keys (jget d ''runtime'') ''PROFILE_RUNTIME'' ''PROFILE_RUNTIME_KEYS_INVALID''
       {''primary'', ''optional_reviewers'', ''disabled''}) (\<lambda>r.
     case jget r ''primary'' of
       JStr p \<Rightarrow>
         if \<not> runtime_id_ok p then Inl (ProfileError ''PROFILE_PRIMARY_RUNTIME_INVALID'')
         else bindE (string_list (jget r ''optional_reviewers'') ''PROFILE_OPTIONAL_REVIEWERS'' runtime_id_ok) (\<lambda>reviewers.
              bindE (string_list (jget r ''disabled'') ''PROFILE_DISABLED_RUNTIMES'' runtime_id_ok) (\<lambda>disabled.
              if p \<in> set disabled then Inl (ProfileError ''PROFILE_PRIMARY_RUNTIME_DISABLED'') else Inr (p, reviewers, disabled)))
     | _ \<Rightarrow> Inl (ProfileError ''PROFILE_PRIMARY_RUNTIME_INVALID''))"

definition profile_legacy :: "jobj \<Rightarrow> string \<Rightarrow> string list \<Rightarrow> profile_stop + (string \<times> string) list" where
  "profile_legacy d pid disabled =
     bindE (with_keys (jget d ''packet_compatibility'') ''PROFILE_PACKET_COMPATIBILITY''
       ''PROFILE_PACKET_COMPATIBILITY_KEYS_INVALID'' {''legacy_v2_implementers''}) (\<lambda>c.
     case jget c ''legacy_v2_implementers'' of
       JObj l \<Rightarrow> legacy_items pid disabled [] l
     | _ \<Rightarrow> Inl (ProfileError ''PROFILE_LEGACY_IMPLEMENTERS_INVALID''))"

definition profile_retired :: "(string \<Rightarrow> bool) \<Rightarrow> jobj \<Rightarrow> profile_stop + string list \<times> string list \<times> string list" where
  "profile_retired compiles d =
     bindE (with_keys (jget d ''retired_surface'') ''PROFILE_RETIRED_SURFACE'' ''PROFILE_RETIRED_SURFACE_KEYS_INVALID''
       {''artifact_paths'', ''text_patterns'', ''remove_exact_text''}) (\<lambda>r.
     bindE (text_list (jget r ''artifact_paths'') ''PROFILE_RETIRED_ARTIFACTS_INVALID'' artifact_ok) (\<lambda>artifacts.
     if \<not> distinct artifacts then Inl (ProfileError ''PROFILE_RETIRED_ARTIFACTS_DUPLICATE'')
     else bindE (text_list (jget r ''text_patterns'') ''PROFILE_RETIRED_PATTERNS_INVALID'' (\<lambda>_. True)) (\<lambda>patterns.
     if \<not> list_all compiles patterns then Inl (ProfileError ''PROFILE_RETIRED_PATTERN_INVALID'')
     else bindE (text_list (jget r ''remove_exact_text'') ''PROFILE_RETIRED_REMOVALS_INVALID'' (\<lambda>_. True)) (\<lambda>removals.
       Inr (artifacts, patterns, removals)))))"

definition profile_migration :: "jobj \<Rightarrow> profile_stop + string list \<times> string list" where
  "profile_migration d =
     bindE (with_keys (jget d ''policy_migration'') ''PROFILE_POLICY_MIGRATION'' ''PROFILE_POLICY_MIGRATION_KEYS_INVALID''
       {''legacy_execution_profile_markers'', ''legacy_external_write_markers''}) (\<lambda>m.
     bindE (text_list (jget m ''legacy_execution_profile_markers'') ''PROFILE_LEGACY_EXECUTION_MARKERS_INVALID'' (\<lambda>_. True)) (\<lambda>a.
     bindE (text_list (jget m ''legacy_external_write_markers'') ''PROFILE_LEGACY_WRITE_MARKERS_INVALID'' (\<lambda>_. True)) (\<lambda>b.
       Inr (a, b))))"

definition profile_effects :: "jobj \<Rightarrow> profile_stop + string list" where
  "profile_effects d =
     bindE (with_keys (jget d ''effect_policy'') ''PROFILE_EFFECT_POLICY'' ''PROFILE_EFFECT_POLICY_KEYS_INVALID''
       {''trusted_boundary_required''}) (\<lambda>e.
       string_list (jget e ''trusted_boundary_required'') ''PROFILE_TRUSTED_BOUNDARY_EFFECTS'' effect_id_ok)"

definition load_profile_text :: "(string \<Rightarrow> json option) \<Rightarrow> (string \<Rightarrow> bool) \<Rightarrow> string \<Rightarrow> profile_stop + exec_profile" where
  "load_profile_text yaml compiles body =
     (case yaml body of
        None \<Rightarrow> Inl (ProfileError ''PROFILE_YAML_INVALID'')
      | Some raw \<Rightarrow>
          bindE (profile_mapping (if truthy raw then raw else JObj []) ''PROFILE'') (\<lambda>d.
          bindE (profile_head d) (\<lambda>(pid, revision, authority).
          bindE (profile_runtime d) (\<lambda>(primary, reviewers, disabled).
          bindE (profile_legacy d pid disabled) (\<lambda>legacy.
          bindE (profile_retired compiles d) (\<lambda>(artifacts, patterns, removals).
          bindE (profile_migration d) (\<lambda>(profile_markers, write_markers).
          bindE (profile_effects d) (\<lambda>effects.
            Inr \<lparr>ep_id = pid, ep_revision = revision, ep_authority = authority, ep_primary = primary,
                 ep_reviewers = reviewers, ep_disabled = disabled, ep_legacy = legacy, ep_artifacts = artifacts,
                 ep_patterns = patterns, ep_removals = removals, ep_effects = effects,
                 ep_profile_markers = profile_markers, ep_write_markers = write_markers\<rparr>))))))))"

text \<open>The file, \<open>None\<close> when it cannot be read.\<close>

definition load_profile :: "(string \<Rightarrow> json option) \<Rightarrow> (string \<Rightarrow> bool) \<Rightarrow> string option \<Rightarrow> profile_stop + exec_profile" where
  "load_profile yaml compiles file_text =
     (case file_text of
        None \<Rightarrow> Inl (ProfileError ''PROFILE_UNAVAILABLE'') | Some body \<Rightarrow> load_profile_text yaml compiles body)"

definition profile_identity :: "exec_profile \<Rightarrow> string \<times> int" where
  "profile_identity p = (ep_id p, ep_revision p)"

definition stop_text :: "profile_stop \<Rightarrow> string option" where
  "stop_text e = (case e of ProfileError r \<Rightarrow> Some r | ProfileCrash \<Rightarrow> None)"

text \<open>\<open>None\<close> is an exception that escapes.\<close>

definition profile_transition_reasons ::
    "(string \<Rightarrow> json option) \<Rightarrow> (string \<Rightarrow> bool) \<Rightarrow> string \<Rightarrow> string \<Rightarrow> string list option" where
  "profile_transition_reasons yaml compiles base_text head_text =
     (case bindE (load_profile_text yaml compiles base_text) (\<lambda>b.
           bindE (load_profile_text yaml compiles head_text) (\<lambda>h. Inr (b, h))) of
        Inl e \<Rightarrow> map_option (\<lambda>r. [r]) (stop_text e)
      | Inr (b, h) \<Rightarrow>
          if base_text = head_text then Some []
          else if ep_revision h \<noteq> ep_revision b + 1 then Some [''EXECUTION_PROFILE_REVISION_NOT_INCREMENTED'']
          else Some [])"

section \<open>Authority of a packet\<close>

definition sorted_set :: "string list \<Rightarrow> string list" where
  "sorted_set xs = sort (remdups xs)"

text \<open>\<^verbatim>\<open>not s.isdigit() or int(s) < 1\<close>, with what the number is otherwise; \<open>None\<close> when \<^verbatim>\<open>int\<close> raises.\<close>

definition positive_text :: "string \<Rightarrow> int option option" where
  "positive_text s =
     (if \<not> py_isdigit s then Some None
      else (case py_int s of None \<Rightarrow> None | Some n \<Rightarrow> if n < 1 then Some None else Some (Some n)))"

definition meta_text :: "(string \<times> string) list \<Rightarrow> string \<Rightarrow> string" where
  "meta_text meta key = (case map_of meta key of None \<Rightarrow> [] | Some v \<Rightarrow> v)"

definition packet_authority ::
    "exec_profile \<Rightarrow> (string \<times> string) list \<Rightarrow> (string list \<times> string list) option" where
  "packet_authority p meta =
     (let version = meta_text meta ''PACKET_VERSION''
      in if version = ''3''
         then (case positive_text (meta_text meta ''EXECUTION_PROFILE_REVISION'') of
                 None \<Rightarrow> None
               | Some n \<Rightarrow>
                   Some (sorted_set
                     ((if map_of meta ''IMPLEMENTER'' \<noteq> None then [''EXECUTION_AUTHORITY_AMBIGUOUS''] else []) @
                      (if map_of meta ''EXECUTION_PROFILE'' \<noteq> Some (ep_id p) then [''EXECUTION_PROFILE_ID_MISMATCH''] else []) @
                      (case n of
                         None \<Rightarrow> [''EXECUTION_PROFILE_REVISION_INVALID'']
                       | Some k \<Rightarrow> if k \<noteq> ep_revision p then [''EXECUTION_PROFILE_REVISION_MISMATCH''] else [])), []))
         else if version = ''2''
         then (let both = (if map_of meta ''EXECUTION_PROFILE'' \<noteq> None \<or> map_of meta ''EXECUTION_PROFILE_REVISION'' \<noteq> None
                           then [''EXECUTION_AUTHORITY_AMBIGUOUS''] else [])
               in if map_of (ep_legacy p) (meta_text meta ''IMPLEMENTER'') \<noteq> Some (ep_id p)
                  then Some (sorted_set (both @ [''LEGACY_PACKET_IMPLEMENTER_MISMATCH'']), [])
                  else Some (sorted_set both, if both = [] then [''LEGACY_EXECUTION_PROFILE_COMPAT''] else []))
         else Some ([''PACKET_PROFILE_AUTHORITY_UNSUPPORTED''], []))"

section \<open>The retired surface\<close>

definition retired_rule_present :: "(string \<Rightarrow> string \<Rightarrow> bool) \<Rightarrow> string \<Rightarrow> exec_profile \<Rightarrow> bool" where
  "retired_rule_present search body p = list_ex (\<lambda>pattern. search pattern body) (ep_patterns p)"

text \<open>\<^verbatim>\<open>text.replace(old, '')\<close>.\<close>

function remove_all :: "string \<Rightarrow> string \<Rightarrow> string" where
  "remove_all old s =
     (if old = [] then s
      else case s of
             [] \<Rightarrow> []
           | c # cs \<Rightarrow> if starts_with s old then remove_all old (drop (length old) s) else c # remove_all old cs)"
  by pat_completeness auto
termination by (relation "measure (\<lambda>(old, s). length s)") auto

declare remove_all.simps [simp del]

definition rewrite_retired_text :: "string \<Rightarrow> exec_profile \<Rightarrow> string" where
  "rewrite_retired_text body p = fold remove_all (ep_removals p) body"

definition retired_artifact_paths :: "exec_profile \<Rightarrow> string list" where
  "retired_artifact_paths p = ep_artifacts p"

definition requires_trusted_boundary :: "string \<Rightarrow> exec_profile \<Rightarrow> bool" where
  "requires_trusted_boundary effect_class p = (effect_class \<in> set (ep_effects p))"

section \<open>The command\<close>

datatype profile_command = CheckProfile | AuthorizePacket string | ClassifyEffect string

definition profile_lines :: "string list \<Rightarrow> string" where
  "profile_lines ls = concat (map (\<lambda>l. l @ [NL]) ls)"

definition profile_stopped :: "profile_stop \<Rightarrow> (string \<times> int) option" where
  "profile_stopped e = map_option (\<lambda>r. (profile_lines [''EXECUTION_PROFILE=BLOCK reason='' @ r], 3)) (stop_text e)"

definition profile_main :: "profile_stop + exec_profile \<Rightarrow> profile_command \<Rightarrow> (string \<times> int) option" where
  "profile_main loaded cmd =
     (case loaded of
        Inl e \<Rightarrow> profile_stopped e
      | Inr p \<Rightarrow>
          (case cmd of
             AuthorizePacket body \<Rightarrow>
               (case parse_packet_metadata body of
                  Inl e \<Rightarrow> profile_stopped e
                | Inr meta \<Rightarrow>
                    (case packet_authority p meta of
                       None \<Rightarrow> None
                     | Some (blocking, warnings) \<Rightarrow>
                         (let warned = map (\<lambda>w. ''WARNING='' @ w) warnings
                          in if blocking \<noteq> []
                             then Some (profile_lines (warned @ [''EXECUTION_PROFILE_AUTHORITY=BLOCK''] @
                                    map (\<lambda>r. ''REASON='' @ r) blocking), 3)
                             else Some (profile_lines (warned @ [''EXECUTION_PROFILE_AUTHORITY=PASS'']), 0))))
           | ClassifyEffect c \<Rightarrow>
               Some (profile_lines [''TRUSTED_BOUNDARY_REQUIRED='' @ (if requires_trusted_boundary c p then ''YES'' else ''NO'')], 0)
           | CheckProfile \<Rightarrow>
               Some (profile_lines [''EXECUTION_PROFILE=PASS'', ''PROFILE_ID='' @ ep_id p,
                 ''PROFILE_REVISION='' @ int_text (ep_revision p)], 0)))"

end
