(* ===== verification/Epoch.thy ===== *)
theory Epoch
  imports Profile Skills
begin

text \<open>
  \<^verbatim>\<open>tools/context_epoch.py\<close>: a work packet as text, its audit, a projection of bounded size, its identity and
  the check that a packet fetched again is the same, the decision when a context ends, and the fields
  of a hook event that may be kept. \<open>ContextError\<close> is the module's error, \<open>ContextCrash\<close> any other
  exception. The profile that \<^verbatim>\<open>analyze_packet\<close> loads is an argument.
\<close>

datatype context_stop = ContextError string | ContextCrash

definition ALLOWED_STATUSES :: "string list" where
  "ALLOWED_STATUSES = [''ACTIVE'', ''PAUSED'', ''BLOCKED'', ''COMPLETE'']"

definition REQUIRED_META_COMMON :: "string list" where
  "REQUIRED_META_COMMON = [''PACKET_VERSION'', ''TARGET_REPO'', ''WORKSTREAM'', ''STATUS'', ''BRANCH'', ''TASK_KIND'',
     ''OWNER_INTENT'', ''INTENT_REVISION'', ''CHANGE_RISK'']"

definition META_ORDER :: "string list" where
  "META_ORDER = [''PACKET_VERSION'', ''TARGET_REPO'', ''WORKSTREAM'', ''STATUS'', ''BRANCH'', ''TASK_KIND'', ''OWNER_INTENT'',
     ''LAST_VERIFIED_HEAD'', ''PRIORITY'', ''INTENT_REVISION'', ''CHANGE_RISK'', ''EXECUTION_PROFILE'',
     ''EXECUTION_PROFILE_REVISION'', ''IMPLEMENTER'']"

definition CANONICAL_SECTIONS :: "string list" where
  "CANONICAL_SECTIONS = [''Goal'', ''Current State'', ''Next Action'', ''Handoff Sizing'', ''Completion Contract'',
     ''Follow-up Discoveries'', ''Constraints'', ''Canonical References'', ''Latest Evidence'', ''Blockers'']"

definition REQUIRED_SECTIONS :: "string list" where
  "REQUIRED_SECTIONS = [''Goal'', ''Current State'', ''Next Action'', ''Blockers'']"

definition PROJECT_SECTIONS :: "string list" where
  "PROJECT_SECTIONS = [''Goal'', ''Current State'', ''Next Action'', ''Blockers'', ''Handoff Sizing'', ''Completion Contract'',
     ''Constraints'', ''Canonical References'', ''Latest Evidence'']"

definition PACKET_IDENTITY_KEYS :: "string list" where
  "PACKET_IDENTITY_KEYS = [''PACKET_VERSION'', ''TARGET_REPO'', ''WORKSTREAM'', ''STATUS'', ''BRANCH'', ''TASK_KIND'', ''INTENT_REVISION'',
     ''CHANGE_RISK'', ''EXECUTION_PROFILE'', ''EXECUTION_PROFILE_REVISION'', ''IMPLEMENTER'']"

definition MISSING_IDENTITY_VALUE :: string where "MISSING_IDENTITY_VALUE = ''<missing>''"

definition DEFAULT_META_VALUE_CAP :: nat where "DEFAULT_META_VALUE_CAP = 512"
definition DEFAULT_SECTION_CHAR_CAP :: nat where "DEFAULT_SECTION_CHAR_CAP = 3500"
definition DEFAULT_PROJECTION_CHAR_CAP :: nat where "DEFAULT_PROJECTION_CHAR_CAP = 14000"
definition PROJECTION_TAIL_RESERVE :: nat where "PROJECTION_TAIL_RESERVE = 512"

definition TEMPLATE_META_SENTINELS :: "(string \<times> string) list" where
  "TEMPLATE_META_SENTINELS = [(''TARGET_REPO'', ''owner/repository''), (''WORKSTREAM'', ''replace-with-stable-slug''),
     (''BRANCH'', ''replace-with-branch-or-N/A''),
     (''OWNER_INTENT'', ''State the owner'' @ [QUOTE] @ ''s current explicit request in one concise line.'')]"

definition TEMPLATE_SECTION_SENTINELS :: "(string \<times> string) list" where
  "TEMPLATE_SECTION_SENTINELS = [(''Goal'', ''State the stable workstream outcome in one concise paragraph.''),
     (''Current State'', ''- Keep only facts needed to resume now.''),
     (''Next Action'', ''State the next bounded **outcome / execution bundle**, not one command, one tiny Issue, or one micro-step.'')]"

definition NATIVE_EVENTS :: "string list" where
  "NATIVE_EVENTS = [''sessionStart'', ''sessionEnd'', ''beforeSubmitPrompt'', ''preCompact'', ''stop'', ''subagentStart'',
     ''subagentStop'']"

section \<open>Identifiers\<close>

text \<open>A first character, then up to so many others.\<close>

definition shaped :: "(char \<Rightarrow> bool) \<Rightarrow> (char \<Rightarrow> bool) \<Rightarrow> nat \<Rightarrow> string \<Rightarrow> bool" where
  "shaped first_ok other_ok n s = (case s of [] \<Rightarrow> False | c # cs \<Rightarrow> first_ok c \<and> list_all other_ok cs \<and> length cs \<le> n)"

definition safe_repo :: "string \<Rightarrow> bool" where
  "safe_repo s = (let (owner, slash, name) = partition_at CHR ''/'' s
                  in slash \<and> owner \<noteq> [] \<and> name \<noteq> [] \<and> list_all id_char owner \<and> list_all id_char name)"

definition safe_workstream :: "string \<Rightarrow> bool" where "safe_workstream = shaped is_alnum_ascii id_char 127"

definition safe_branch :: "string \<Rightarrow> bool" where
  "safe_branch = shaped is_alnum_ascii (\<lambda>c. id_char c \<or> c = CHR ''/'') 239"

definition safe_task_kind :: "string \<Rightarrow> bool" where
  "safe_task_kind = shaped is_upper_ascii (\<lambda>c. meta_key_char c \<or> c = CHR ''-'') 63"

definition safe_hook_label :: "string \<Rightarrow> bool" where
  "safe_hook_label = shaped is_alnum_ascii (\<lambda>c. id_char c \<or> c \<in> set '':/+'') 127"

definition sha_text :: "string \<Rightarrow> bool" where
  "sha_text s = (length s = 64 \<and> list_all is_hex_lower s)"

section \<open>The packet\<close>

record packet_text =
  pt_metadata :: "(string \<times> string) list"
  pt_sections :: "(string \<times> string) list"
  pt_duplicate_metadata :: "string list"
  pt_duplicate_sections :: "string list"
  pt_headings :: "string list"
  pt_chars :: nat
  pt_lines :: nat
  pt_sha :: string

record section_scan =
  sc_sections :: "(string \<times> string list) list"
  sc_duplicates :: "string list"
  sc_headings :: "string list"
  sc_current :: "string option"
  sc_fence :: "(char \<times> nat) option"

definition keep_line :: "string \<Rightarrow> section_scan \<Rightarrow> section_scan" where
  "keep_line raw s =
     (case sc_current s of
        None \<Rightarrow> s
      | Some name \<Rightarrow> s\<lparr>sc_sections := map (\<lambda>(k, ls). (k, if k = name then ls @ [raw] else ls)) (sc_sections s)\<rparr>)"

definition scan_section_line :: "string \<Rightarrow> section_scan \<Rightarrow> section_scan" where
  "scan_section_line raw s =
     (case fence_of raw of
        Some marker \<Rightarrow> keep_line raw (s\<lparr>sc_fence := next_fence (sc_fence s) marker\<rparr>)
      | None \<Rightarrow>
          if sc_fence s \<noteq> None then keep_line raw s
          else (case heading_of raw of
                  Some name \<Rightarrow>
                    (let known = map_of (sc_sections s) name \<noteq> None
                     in s\<lparr>sc_current := Some name, sc_headings := sc_headings s @ [name],
                          sc_duplicates := sc_duplicates s @ (if known then [name] else []),
                          sc_sections := sc_sections s @ (if known then [] else [(name, [])])\<rparr>)
                | None \<Rightarrow> keep_line raw s))"

text \<open>\<^verbatim>\<open>hashlib.sha256(text.encode('utf-8')).hexdigest()\<close>.\<close>

definition text_sha256 :: "string \<Rightarrow> string" where
  "text_sha256 body = hex_text (sha256 (map word_of_nat (concat (map utf8 body))))"

definition parse_packet_text :: "string \<Rightarrow> packet_text" where
  "parse_packet_text body =
     (let (meta, dups) = scan_packet_metadata body;
          s = fold scan_section_line (py_splitlines body)
                \<lparr>sc_sections = [], sc_duplicates = [], sc_headings = [], sc_current = None, sc_fence = None\<rparr>
      in \<lparr>pt_metadata = meta, pt_sections = map (\<lambda>(k, ls). (k, py_strip (join_with [NL] ls))) (sc_sections s),
          pt_duplicate_metadata = dups, pt_duplicate_sections = sc_duplicates s, pt_headings = sc_headings s,
          pt_chars = length body, pt_lines = length (py_splitlines body), pt_sha = text_sha256 body\<rparr>)"

section \<open>The audit\<close>

record packet_audit =
  au_status :: string
  au_blocking :: "string list"
  au_warnings :: "string list"
  au_compatibility :: "string list"
  au_chars :: nat
  au_lines :: nat
  au_headings :: nat
  au_noncanonical :: "string list"

definition given_meta :: "(string \<times> string) list \<Rightarrow> string \<Rightarrow> (string \<Rightarrow> bool) \<Rightarrow> string \<Rightarrow> string list" where
  "given_meta meta key bad reason =
     (case map_of meta key of None \<Rightarrow> [] | Some v \<Rightarrow> if v \<noteq> [] \<and> bad v then [reason] else [])"

definition required_meta :: "string \<Rightarrow> string list" where
  "required_meta version =
     REQUIRED_META_COMMON @ (if version = ''2'' then [''IMPLEMENTER''] else [''EXECUTION_PROFILE'', ''EXECUTION_PROFILE_REVISION''])"

definition version_reasons :: "(string \<times> string) list \<Rightarrow> string list" where
  "version_reasons meta =
     (let version = meta_text meta ''PACKET_VERSION''
      in if version \<in> {''2'', ''3''}
         then map (\<lambda>k. ''MISSING_META:'' @ k) (filter (\<lambda>k. meta_text meta k = []) (required_meta version))
         else if version = [] then [''MISSING_META:PACKET_VERSION''] else [''PACKET_VERSION_INVALID''])"

definition repo_reasons :: "(string \<times> string) list \<Rightarrow> string option \<Rightarrow> string list" where
  "repo_reasons meta expected =
     (let repository = meta_text meta ''TARGET_REPO''; odd_repo = (\<lambda>r. 200 < length r \<or> \<not> safe_repo r)
      in (if repository \<noteq> [] \<and> odd_repo repository then [''TARGET_REPO_INVALID''] else []) @
         (case expected of
            None \<Rightarrow> []
          | Some e \<Rightarrow> if odd_repo e then [''EXPECTED_TARGET_REPO_INVALID'']
                      else if repository \<noteq> [] \<and> repository \<noteq> e then [''TARGET_REPO_SCOPE_MISMATCH''] else []))"

definition field_reasons :: "(string \<times> string) list \<Rightarrow> string list" where
  "field_reasons meta =
     given_meta meta ''WORKSTREAM'' (\<lambda>s. \<not> safe_workstream s) ''WORKSTREAM_INVALID'' @
     given_meta meta ''BRANCH'' (\<lambda>s. \<not> safe_branch s \<or> contains_sub ''..'' s \<or> ends_with s ''/'') ''BRANCH_INVALID'' @
     given_meta meta ''TASK_KIND'' (\<lambda>s. \<not> safe_task_kind s) ''TASK_KIND_INVALID'' @
     given_meta meta ''CHANGE_RISK'' (\<lambda>s. s \<notin> {''LOW'', ''MEDIUM'', ''HIGH'', ''CRITICAL''}) ''CHANGE_RISK_INVALID'' @
     given_meta meta ''STATUS'' (\<lambda>s. s \<notin> set ALLOWED_STATUSES) ''STATUS_INVALID''"

text \<open>\<open>None\<close> when \<^verbatim>\<open>int\<close> raises.\<close>

definition revision_reasons :: "(string \<times> string) list \<Rightarrow> string list option" where
  "revision_reasons meta =
     (let revision = meta_text meta ''INTENT_REVISION''
      in if revision = [] then Some []
         else (case positive_text revision of
                 None \<Rightarrow> None | Some None \<Rightarrow> Some [''INTENT_REVISION_INVALID''] | Some (Some _) \<Rightarrow> Some []))"

text \<open>Blocking reasons and warnings of the profile.\<close>

definition profile_reasons ::
    "profile_stop + exec_profile \<Rightarrow> (string \<times> string) list \<Rightarrow> (string list \<times> string list) option" where
  "profile_reasons loaded meta =
     (case loaded of
        Inl (ProfileError _) \<Rightarrow> Some ([''EXECUTION_PROFILE_UNAVAILABLE''], [])
      | Inl ProfileCrash \<Rightarrow> None
      | Inr p \<Rightarrow> packet_authority p meta)"

definition section_text :: "packet_text \<Rightarrow> string \<Rightarrow> string" where
  "section_text p name = (case map_of (pt_sections p) name of None \<Rightarrow> [] | Some b \<Rightarrow> b)"

definition template_reasons :: "packet_text \<Rightarrow> string list" where
  "template_reasons p =
     (if meta_text (pt_metadata p) ''PACKET_VERSION'' \<noteq> ''3'' then []
      else map (\<lambda>(k, _). ''PACKET_TEMPLATE_PLACEHOLDER:'' @ k)
             (filter (\<lambda>(k, sentinel). map_of (pt_metadata p) k = Some sentinel) TEMPLATE_META_SENTINELS) @
           map (\<lambda>(k, _). ''PACKET_TEMPLATE_PLACEHOLDER:'' @ k)
             (filter (\<lambda>(k, sentinel). contains_sub sentinel (section_text p k)) TEMPLATE_SECTION_SENTINELS))"

definition section_reasons :: "packet_text \<Rightarrow> string list" where
  "section_reasons p =
     map (\<lambda>n. ''MISSING_SECTION:'' @ n) (filter (\<lambda>n. map_of (pt_sections p) n = None) REQUIRED_SECTIONS) @
     map (\<lambda>n. ''DUPLICATE_SECTION:'' @ n) (filter (\<lambda>n. n \<in> set CANONICAL_SECTIONS) (pt_duplicate_sections p))"

definition canary :: "int option \<Rightarrow> nat \<Rightarrow> string \<Rightarrow> string list" where
  "canary cap n reason = (case cap of None \<Rightarrow> [] | Some c \<Rightarrow> if c < int n then [reason] else [])"

definition analyze_packet ::
    "profile_stop + exec_profile \<Rightarrow> string option \<Rightarrow> int option \<Rightarrow> int option \<Rightarrow> packet_text \<Rightarrow> packet_audit option" where
  "analyze_packet loaded expected warn_chars warn_lines p =
     (case (revision_reasons (pt_metadata p), profile_reasons loaded (pt_metadata p)) of
        (Some revision, Some (blocked, aged)) \<Rightarrow>
          (let blocking = version_reasons (pt_metadata p) @ map (\<lambda>k. ''DUPLICATE_META:'' @ k) (pt_duplicate_metadata p) @
                 repo_reasons (pt_metadata p) expected @ field_reasons (pt_metadata p) @ revision @ blocked @
                 template_reasons p @ section_reasons p;
               noncanonical = sorted_set (filter (\<lambda>n. n \<notin> set CANONICAL_SECTIONS) (pt_headings p));
               reasons = (if noncanonical \<noteq> [] then [''NONCANONICAL_HISTORY_SECTIONS''] else []) @
                 canary warn_chars (pt_chars p) ''CHAR_CANARY_EXCEEDED'' @ canary warn_lines (pt_lines p) ''LINE_CANARY_EXCEEDED''
           in Some \<lparr>au_status = (if blocking \<noteq> [] then ''BLOCK'' else if reasons \<noteq> [] then ''WARN'' else ''PASS''),
                    au_blocking = sorted_set blocking, au_warnings = sorted_set reasons, au_compatibility = sorted_set aged,
                    au_chars = pt_chars p, au_lines = pt_lines p, au_headings = length (pt_headings p),
                    au_noncanonical = noncanonical\<rparr>)
      | _ \<Rightarrow> None)"

section \<open>The projection\<close>

definition truncation_mark :: string where
  "truncation_mark = NL # ''...[SECTION_TRUNCATED: inspect authoritative Issue only if required]''"

definition bounded_section :: "string \<Rightarrow> nat \<Rightarrow> string \<times> bool" where
  "bounded_section body cap =
     (if length body \<le> cap then (body, False)
      else (py_rstrip (take (cap - length truncation_mark) body) @ truncation_mark, True))"

text \<open>\<^verbatim>\<open>analyze_packet(packet)\<close>, as the projection and the identity call it.\<close>

definition plain_audit :: "profile_stop + exec_profile \<Rightarrow> packet_text \<Rightarrow> packet_audit option" where
  "plain_audit loaded p = analyze_packet loaded None None None p"

text \<open>The audit, or the error that lists its blocking reasons.\<close>

definition unblocked :: "string \<Rightarrow> profile_stop + exec_profile \<Rightarrow> packet_text \<Rightarrow> context_stop + packet_audit" where
  "unblocked label loaded p =
     (case plain_audit loaded p of
        None \<Rightarrow> Inl ContextCrash
      | Some a \<Rightarrow> if au_status a = ''BLOCK'' then Inl (ContextError (label @ join_with '','' (au_blocking a))) else Inr a)"

definition head_keys :: "packet_text \<Rightarrow> string list" where
  "head_keys p = filter (\<lambda>k. meta_text (pt_metadata p) k \<noteq> []) META_ORDER"

definition meta_bounded :: "packet_text \<Rightarrow> string \<Rightarrow> string \<times> bool" where
  "meta_bounded p k = bounded_section (meta_text (pt_metadata p) k) DEFAULT_META_VALUE_CAP"

definition listed_or_none :: "string list \<Rightarrow> string" where
  "listed_or_none xs = (if join_with '','' xs = [] then ''NONE'' else join_with '','' xs)"

definition audit_metrics :: "packet_audit \<Rightarrow> json" where
  "audit_metrics a =
     JObj [(''chars'', JInt (int (au_chars a))), (''lines'', JInt (int (au_lines a))), (''sections'', JInt (int (au_headings a))),
           (''noncanonical_sections'', JInt (int (length (au_noncanonical a))))]"

definition head_chunks :: "packet_text \<Rightarrow> packet_audit \<Rightarrow> string list" where
  "head_chunks p a =
     map (\<lambda>k. k @ ''='' @ replace_char NL '' '' (fst (meta_bounded p k))) (head_keys p) @
     [''PACKET_CONTEXT_AUDIT='' @ au_status a @ '';warnings='' @ listed_or_none (au_warnings a) @
        '';compatibility='' @ listed_or_none (au_compatibility a),
      ''PACKET_CONTEXT_METRICS='' @ json_dumps (\<lambda>_. []) (audit_metrics a)]"

definition section_chunk :: "string \<Rightarrow> string \<Rightarrow> string" where
  "section_chunk name body = py_rstrip (''## '' @ name @ [NL, NL] @ body)"

definition joined :: "string list \<Rightarrow> string" where
  "joined parts = join_with [NL, NL] parts"

text \<open>The parts, the names of truncated sections, and whether optional sections were omitted.\<close>

fun project_sections ::
    "(string \<times> string) list \<Rightarrow> nat \<Rightarrow> nat \<Rightarrow> string list \<Rightarrow> string list \<Rightarrow> string list \<Rightarrow>
     context_stop + string list \<times> string list \<times> bool" where
  "project_sections sections cap content_cap parts truncated [] = Inr (parts, truncated, False)"
| "project_sections sections cap content_cap parts truncated (name # rest) =
     (case map_of sections name of
        None \<Rightarrow> project_sections sections cap content_cap parts truncated rest
      | Some body \<Rightarrow>
          (let (bounded, clipped) = bounded_section body cap;
               truncated' = truncated @ (if clipped then [name] else []);
               parts' = parts @ [section_chunk name bounded]
           in if content_cap < length (joined parts')
              then (if name \<in> set REQUIRED_SECTIONS then Inl (ContextError (''PROJECTION_REQUIRED_SECTION_UNFIT:'' @ name))
                    else Inr (parts, truncated', True))
              else project_sections sections cap content_cap parts' truncated' rest))"

definition listed :: "string \<Rightarrow> string list \<Rightarrow> string list" where
  "listed label xs = (if xs = [] then [] else [label @ join_with '','' xs])"

definition tail_chunks :: "string list \<Rightarrow> string list \<Rightarrow> bool \<Rightarrow> string list" where
  "tail_chunks metadata sections omitted =
     listed ''TRUNCATED_METADATA='' metadata @ listed ''TRUNCATED_SECTIONS='' sections @
     (if omitted then [''PROJECTION_TRUNCATED=YES''] else []) @ [''PACKET_PROJECTION=PASS'']"

definition section_cap :: "int \<Rightarrow> int \<Rightarrow> int" where
  "section_cap section_char_cap content_cap =
     min section_char_cap (max 256 ((content_cap - 2048) div int (length REQUIRED_SECTIONS)))"

definition project_packet :: "profile_stop + exec_profile \<Rightarrow> packet_text \<Rightarrow> int \<Rightarrow> int \<Rightarrow> context_stop + string" where
  "project_packet loaded p section_char_cap projection_char_cap =
     (if section_char_cap < 256 \<or> projection_char_cap < 1024 then Inl (ContextError ''PROJECTION_BOUND_INVALID'')
      else bindE (unblocked ''PACKET_STRUCTURE_INVALID:'' loaded p) (\<lambda>a.
      let content_cap = projection_char_cap - int PROJECTION_TAIL_RESERVE
      in if content_cap < 512 then Inl (ContextError ''PROJECTION_BOUND_INVALID'')
         else bindE (project_sections (pt_sections p) (nat (section_cap section_char_cap content_cap)) (nat content_cap)
                       (head_chunks p a) [] PROJECT_SECTIONS) (\<lambda>(parts, truncated, omitted).
         let rendered = joined (parts @ tail_chunks (filter (\<lambda>k. snd (meta_bounded p k)) (head_keys p)) truncated omitted) @ [NL]
         in if projection_char_cap < int (length rendered) then Inl (ContextError ''PROJECTION_BOUND_EXCEEDED'')
            else Inr rendered)))"

section \<open>The identity\<close>

definition identity_value :: "packet_text \<Rightarrow> string \<Rightarrow> string" where
  "identity_value p k = (case map_of (pt_metadata p) k of None \<Rightarrow> MISSING_IDENTITY_VALUE | Some v \<Rightarrow> v)"

definition identity_lines :: "packet_text \<Rightarrow> string \<Rightarrow> string list" where
  "identity_lines p status =
     map (\<lambda>k. k @ ''='' @ identity_value p k) PACKET_IDENTITY_KEYS @
     [''PACKET_BODY_SHA256='' @ pt_sha p, ''PACKET_CONTEXT_AUDIT='' @ status, ''PACKET_IDENTITY=PASS'']"

definition packet_identity_text :: "profile_stop + exec_profile \<Rightarrow> packet_text \<Rightarrow> context_stop + string" where
  "packet_identity_text loaded p =
     bindE (unblocked ''PACKET_IDENTITY_INVALID:'' loaded p) (\<lambda>a. Inr (join_with [NL] (identity_lines p (au_status a)) @ [NL]))"

fun binding_lines :: "(string \<times> string) list \<Rightarrow> string list \<Rightarrow> context_stop + (string \<times> string) list" where
  "binding_lines acc [] = Inr acc"
| "binding_lines acc (raw # rest) =
     (case meta_of raw of
        None \<Rightarrow> Inl (ContextError ''PACKET_IDENTITY_BINDING_INVALID'')
      | Some (key, v) \<Rightarrow>
          if map_of acc key \<noteq> None then Inl (ContextError (''PACKET_IDENTITY_BINDING_DUPLICATE:'' @ key))
          else binding_lines (acc @ [(key, py_strip v)]) rest)"

text \<open>The text of the file, \<open>None\<close> when it cannot be read; the fields and the digest.\<close>

definition load_identity_binding :: "string option \<Rightarrow> context_stop + (string \<times> string) list \<times> string" where
  "load_identity_binding file_text =
     (case file_text of
        None \<Rightarrow> Inl (ContextError ''PACKET_UNREADABLE'')
      | Some body \<Rightarrow>
          if 4096 < length body \<or> 16 < length (py_splitlines body) then Inl (ContextError ''PACKET_IDENTITY_BINDING_OVERSIZED'')
          else bindE (binding_lines [] (py_splitlines body)) (\<lambda>values.
          if map_of values ''PACKET_IDENTITY'' \<noteq> Some ''PASS'' then Inl (ContextError ''PACKET_IDENTITY_BINDING_NOT_PASS'')
          else if map_of values ''PACKET_CONTEXT_AUDIT'' \<notin> {Some ''PASS'', Some ''WARN''}
          then Inl (ContextError ''PACKET_IDENTITY_BINDING_AUDIT_INVALID'')
          else (case filter (\<lambda>k. map_of values k = None) (PACKET_IDENTITY_KEYS @ [''PACKET_BODY_SHA256'']) of
                  k # ks \<Rightarrow> Inl (ContextError (''PACKET_IDENTITY_BINDING_MISSING:'' @ join_with '','' (k # ks)))
                | [] \<Rightarrow>
                    if \<not> sha_text (meta_text values ''PACKET_BODY_SHA256'') then Inl (ContextError ''PACKET_BODY_SHA256_INVALID'')
                    else Inr (map (\<lambda>k. (k, meta_text values k)) PACKET_IDENTITY_KEYS, meta_text values ''PACKET_BODY_SHA256''))))"

text \<open>A key the packet does not carry as expected; a key with no expectation is skipped.\<close>

definition identity_mismatch :: "packet_text \<Rightarrow> (string \<times> string) list \<Rightarrow> string \<Rightarrow> bool" where
  "identity_mismatch p expected k =
     (case map_of expected k of
        None \<Rightarrow> False
      | Some v \<Rightarrow> if v = MISSING_IDENTITY_VALUE then map_of (pt_metadata p) k \<noteq> None else map_of (pt_metadata p) k \<noteq> Some v)"

definition require_identity ::
    "profile_stop + exec_profile \<Rightarrow> packet_text \<Rightarrow> (string \<times> string) list \<Rightarrow> string option \<Rightarrow> context_stop + unit" where
  "require_identity loaded p expected digest =
     bindE (unblocked ''PACKET_IDENTITY_INVALID:'' loaded p) (\<lambda>_.
     let differ = filter (identity_mismatch p expected) PACKET_IDENTITY_KEYS;
         answer = (\<lambda>ks. if ks \<noteq> [] then Inl (ContextError (''PACKET_IDENTITY_MISMATCH:'' @ join_with '','' ks)) else Inr ())
     in case digest of
          None \<Rightarrow> answer differ
        | Some h \<Rightarrow> if \<not> sha_text h then Inl (ContextError ''PACKET_BODY_SHA256_INVALID'')
                    else answer (differ @ (if pt_sha p \<noteq> h then [''PACKET_BODY_SHA256''] else [])))"

end
