(* ===== verification/EpochHook.thy ===== *)
theory EpochHook
  imports Epoch
begin

text \<open>
  \<^verbatim>\<open>tools/context_epoch.py\<close>, second half: \<^verbatim>\<open>decide_epoch\<close>, \<^verbatim>\<open>sanitize_hook\<close> and \<^verbatim>\<open>main\<close>. Looking a list or a dict
  up in a set raises \<^verbatim>\<open>TypeError\<close>, which is \<open>ContextCrash\<close>. The UTF-8 encoder of \<^verbatim>\<open>str.encode\<close> is the parameter
  \<open>enc\<close>: a text of a JSON event can hold a lone surrogate, which it refuses with \<^verbatim>\<open>UnicodeEncodeError\<close> (\<open>None\<close>).
  \<^verbatim>\<open>json.loads\<close> is the parameter \<open>parse\<close>; its answer \<open>JsonRaises\<close> is an exception other than \<^verbatim>\<open>JSONDecodeError\<close>.
\<close>

section \<open>The end of a context\<close>

definition fact_bool :: "jobj \<Rightarrow> string \<Rightarrow> bool \<Rightarrow> context_stop + bool" where
  "fact_bool facts key b0 =
     (case map_of facts key of
        None \<Rightarrow> Inr b0
      | Some (JBool b) \<Rightarrow> Inr b
      | Some _ \<Rightarrow> Inl (ContextError (''FACT_INVALID:'' @ key)))"

text \<open>\<^verbatim>\<open>any\<close>: the facts after the first true one are not read.\<close>

fun any_fact :: "jobj \<Rightarrow> string list \<Rightarrow> context_stop + bool" where
  "any_fact facts [] = Inr False"
| "any_fact facts (key # rest) = bindE (fact_bool facts key False) (\<lambda>b. if b then Inr True else any_fact facts rest)"

definition BOUNDARY_FACTS :: "string list" where
  "BOUNDARY_FACTS = [''logical_boundary'', ''workstream_changed'', ''next_action_changed'', ''profile_change_pending'',
     ''repeated_failure'']"

definition precompact_error :: "string \<Rightarrow> context_stop" where
  "precompact_error key = ContextError (''PRECOMPACT_INVALID:'' @ key)"

fun precompact_counts :: "jobj \<Rightarrow> string list \<Rightarrow> context_stop + jobj" where
  "precompact_counts d [] = Inr []"
| "precompact_counts d (key # rest) =
     (case jget d key of
        JNull \<Rightarrow> precompact_counts d rest
      | JInt n \<Rightarrow> if n < 0 then Inl (precompact_error key)
                  else bindE (precompact_counts d rest) (\<lambda>r. Inr ((key, JInt n) # r))
      | _ \<Rightarrow> Inl (precompact_error key))"

definition percent_ok :: "json \<Rightarrow> bool" where
  "percent_ok v = (case v of JInt n \<Rightarrow> 0 \<le> n \<and> n \<le> 100 | JFloat r \<Rightarrow> 0 \<le> r \<and> r \<le> 100 | _ \<Rightarrow> False)"

definition precompact_percent :: "jobj \<Rightarrow> context_stop + jobj" where
  "precompact_percent d =
     (let v = jget d ''context_usage_percent''
      in if v = JNull then Inr [] else if percent_ok v then Inr [(''context_usage_percent'', v)]
         else Inl (precompact_error ''context_usage_percent''))"

definition precompact_trigger :: "jobj \<Rightarrow> context_stop + jobj" where
  "precompact_trigger d =
     (case map_of d ''trigger'' of
        None \<Rightarrow> Inr []
      | Some (JStr s) \<Rightarrow> if s \<in> {''auto'', ''manual''} then Inr [(''trigger'', JStr s)] else Inl (precompact_error ''trigger'')
      | Some (JList _) \<Rightarrow> Inl ContextCrash
      | Some (JObj _) \<Rightarrow> Inl ContextCrash
      | Some _ \<Rightarrow> Inl (precompact_error ''trigger''))"

definition precompact_first :: "jobj \<Rightarrow> context_stop + jobj" where
  "precompact_first d =
     (case map_of d ''is_first_compaction'' of
        None \<Rightarrow> Inr []
      | Some (JBool b) \<Rightarrow> Inr [(''is_first_compaction'', JBool b)]
      | Some _ \<Rightarrow> Inl (precompact_error ''is_first_compaction''))"

definition validate_precompact :: "json \<Rightarrow> context_stop + jobj option" where
  "validate_precompact v =
     (case v of
        JNull \<Rightarrow> Inr None
      | JObj d \<Rightarrow>
          bindE (precompact_counts d [''context_tokens'', ''context_window_size'', ''message_count'', ''messages_to_compact'']) (\<lambda>a.
          bindE (precompact_percent d) (\<lambda>b.
          bindE (precompact_trigger d) (\<lambda>c.
          bindE (precompact_first d) (\<lambda>e. Inr (Some (a @ b @ c @ e))))))
      | _ \<Rightarrow> Inl (ContextError ''PRECOMPACT_INVALID''))"

definition epoch_answer :: "string \<Rightarrow> string \<Rightarrow> jobj option \<Rightarrow> jobj" where
  "epoch_answer action reason precompact =
     [(''action'', JStr action), (''reason'', JStr reason)] @
     (case precompact of None \<Rightarrow> [] | Some d \<Rightarrow> [(''precompact'', JObj d)])"

definition decide_epoch :: "json \<Rightarrow> context_stop + jobj" where
  "decide_epoch v =
     (case v of
        JObj facts \<Rightarrow>
          bindE (fact_bool facts ''in_flight'' False) (\<lambda>in_flight.
          bindE (fact_bool facts ''unreconciled_mutation'' False) (\<lambda>unreconciled.
          bindE (fact_bool facts ''durable_checkpoint'' False) (\<lambda>checkpoint.
          bindE (fact_bool facts ''same_atomic_task'' True) (\<lambda>same_atomic.
          bindE (any_fact facts BOUNDARY_FACTS) (\<lambda>boundary.
          bindE (validate_precompact (jget facts ''precompact'')) (\<lambda>precompact.
            Inr (if in_flight \<or> unreconciled then epoch_answer ''CONTINUE'' ''MUTATION_IN_FLIGHT'' None
                 else if boundary \<and> \<not> checkpoint then epoch_answer ''CHECKPOINT_REQUIRED'' ''DURABLE_STATE_REQUIRED'' None
                 else if boundary \<and> checkpoint then epoch_answer ''CLEAR'' ''SEMANTIC_BOUNDARY'' None
                 else if precompact \<noteq> None
                 then (if same_atomic then epoch_answer ''SUMMARIZE'' ''NATIVE_PRECOMPACT_SAME_ATOMIC_TASK'' precompact
                       else if checkpoint then epoch_answer ''CLEAR'' ''NATIVE_PRECOMPACT_NEW_CONTEXT'' precompact
                       else epoch_answer ''CHECKPOINT_REQUIRED'' ''NATIVE_PRECOMPACT_NEEDS_CHECKPOINT'' precompact)
                 else epoch_answer ''CONTINUE'' ''NO_BOUNDARY'' None)))))))
      | _ \<Rightarrow> Inl (ContextError ''FACTS_INVALID''))"

section \<open>Hook events\<close>

definition hash_id :: "(string \<Rightarrow> 8 word list option) \<Rightarrow> string \<Rightarrow> context_stop + string" where
  "hash_id enc v = (case enc v of None \<Rightarrow> Inl ContextCrash | Some bytes \<Rightarrow> Inr (take 24 (hex_text (sha256 bytes))))"

definition HASHED_KEYS :: "string list" where
  "HASHED_KEYS = [''conversation_id'', ''generation_id'']"

definition LABEL_KEYS :: "string list" where
  "LABEL_KEYS = [''client_version'', ''model'', ''model_id'', ''trigger'', ''status'']"

definition COUNT_KEYS :: "string list" where
  "COUNT_KEYS = [''context_tokens'', ''context_window_size'', ''message_count'', ''messages_to_compact'', ''loop_count'',
     ''duration_ms'']"

definition MODEL_PARAM_IDS :: "string list" where
  "MODEL_PARAM_IDS = [''effort'', ''reasoning'', ''thinking'', ''context'']"

definition hashed_entry :: "(string \<Rightarrow> 8 word list option) \<Rightarrow> jobj \<Rightarrow> string \<Rightarrow> context_stop + jobj" where
  "hashed_entry enc d key =
     (case jget d key of
        JStr s \<Rightarrow> if s \<noteq> [] then bindE (hash_id enc s) (\<lambda>h. Inr [(key @ ''_hash'', JStr h)]) else Inr []
      | _ \<Rightarrow> Inr [])"

definition label_entry :: "jobj \<Rightarrow> string \<Rightarrow> jobj" where
  "label_entry d key = (case jget d key of JStr s \<Rightarrow> if safe_hook_label s then [(key, JStr s)] else [] | _ \<Rightarrow> [])"

definition count_entry :: "jobj \<Rightarrow> string \<Rightarrow> jobj" where
  "count_entry d key = (case jget d key of JInt n \<Rightarrow> if 0 \<le> n then [(key, JInt n)] else [] | _ \<Rightarrow> [])"

fun safe_params :: "json list \<Rightarrow> context_stop + json list" where
  "safe_params [] = Inr []"
| "safe_params (x # rest) =
     (case x of
        JObj it \<Rightarrow>
          (case jget it ''id'' of
             JList _ \<Rightarrow> Inl ContextCrash
           | JObj _ \<Rightarrow> Inl ContextCrash
           | JStr i \<Rightarrow>
               (case jget it ''value'' of
                  JStr v \<Rightarrow>
                    if i \<in> set MODEL_PARAM_IDS \<and> safe_hook_label v
                    then bindE (safe_params rest) (\<lambda>ps. Inr (JObj [(''id'', JStr i), (''value'', JStr v)] # ps))
                    else safe_params rest
                | _ \<Rightarrow> safe_params rest)
           | _ \<Rightarrow> safe_params rest)
      | _ \<Rightarrow> safe_params rest)"

definition params_entry :: "jobj \<Rightarrow> context_stop + jobj" where
  "params_entry d =
     (case jget d ''model_params'' of
        JList xs \<Rightarrow> bindE (safe_params xs) (\<lambda>ps. Inr (if ps \<noteq> [] then [(''model_params'', JList ps)] else []))
      | _ \<Rightarrow> Inr [])"

definition percent_entry :: "jobj \<Rightarrow> jobj" where
  "percent_entry d =
     (let v = jget d ''context_usage_percent'' in if percent_ok v then [(''context_usage_percent'', v)] else [])"

definition first_entry :: "jobj \<Rightarrow> jobj" where
  "first_entry d = (case jget d ''is_first_compaction'' of JBool b \<Rightarrow> [(''is_first_compaction'', JBool b)] | _ \<Rightarrow> [])"

definition sanitize_hook :: "(string \<Rightarrow> 8 word list option) \<Rightarrow> json \<Rightarrow> context_stop + jobj" where
  "sanitize_hook enc v =
     (case v of
        JObj d \<Rightarrow>
          (case jget d ''hook_event_name'' of
             JStr event \<Rightarrow>
               if event \<notin> set NATIVE_EVENTS then Inl (ContextError ''HOOK_EVENT_UNSUPPORTED'')
               else bindE (mapE (hashed_entry enc d) HASHED_KEYS) (\<lambda>hs.
                    bindE (params_entry d) (\<lambda>ps.
                      Inr ((''hook_event_name'', JStr event) # concat hs @
                           concat (map (label_entry d) LABEL_KEYS) @ ps @ concat (map (count_entry d) COUNT_KEYS) @
                           percent_entry d @ first_entry d)))
           | _ \<Rightarrow> Inl (ContextError ''HOOK_EVENT_UNSUPPORTED''))
      | _ \<Rightarrow> Inl (ContextError ''HOOK_INVALID''))"

section \<open>The command\<close>

text \<open>
  The commands with their arguments; a file is its text, \<open>None\<close> when it cannot be read. \<open>pc_identity\<close> is
  the \<^verbatim>\<open>--expect-identity-file\<close>, \<open>pc_expected\<close> the \<^verbatim>\<open>--expect-\<close> options that were given.
\<close>

record project_command =
  pc_body :: "string option"
  pc_section_cap :: int
  pc_projection_cap :: int
  pc_identity :: "string option option"
  pc_expected :: "(string \<times> string) list"
  pc_digest :: "string option"

datatype context_command =
    PacketIdentity "string option"
  | PacketProject project_command
  | PacketLint "string option" "profile_stop + exec_profile" "string option" "int option" "int option"
  | EpochDecide "string option"
  | SanitizeHook "string option"

text \<open>What is printed: a text, the audit or a JSON object; and the exit status.\<close>

datatype context_output = Written string | Audited packet_audit | Answered jobj

definition read_packet :: "string option \<Rightarrow> context_stop + packet_text" where
  "read_packet file_text =
     (case file_text of None \<Rightarrow> Inl (ContextError ''PACKET_UNREADABLE'') | Some body \<Rightarrow> Inr (parse_packet_text body))"

datatype json_read = JsonValue json | JsonInvalid | JsonRaises

definition read_json :: "(string \<Rightarrow> json_read) \<Rightarrow> string option \<Rightarrow> context_stop + json" where
  "read_json parse file_text =
     (case file_text of
        None \<Rightarrow> Inl (ContextError ''PACKET_UNREADABLE'')
      | Some body \<Rightarrow>
          (case parse body of
             JsonInvalid \<Rightarrow> Inl (ContextError ''JSON_INVALID'') | JsonRaises \<Rightarrow> Inl ContextCrash | JsonValue v \<Rightarrow> Inr v))"

definition project_bound :: "profile_stop + exec_profile \<Rightarrow> project_command \<Rightarrow> context_stop + string" where
  "project_bound loaded c =
     bindE (read_packet (pc_body c)) (\<lambda>p.
     if pc_identity c \<noteq> None \<and> (pc_expected c \<noteq> [] \<or> pc_digest c \<noteq> None)
     then Inl (ContextError ''PACKET_IDENTITY_BINDING_AMBIGUOUS'')
     else bindE (case pc_identity c of
                   Some f \<Rightarrow> bindE (load_identity_binding f) (\<lambda>(fields, h). Inr (fields, Some h))
                 | None \<Rightarrow> Inr (pc_expected c, pc_digest c)) (\<lambda>(expected, digest).
          bindE (require_identity loaded p expected digest) (\<lambda>_.
            project_packet loaded p (pc_section_cap c) (pc_projection_cap c))))"

definition context_run ::
    "(string \<Rightarrow> json_read) \<Rightarrow> (string \<Rightarrow> 8 word list option) \<Rightarrow> profile_stop + exec_profile \<Rightarrow> context_command \<Rightarrow> context_stop + context_output \<times> int" where
  "context_run parse enc loaded c =
     (case c of
        PacketIdentity body \<Rightarrow>
          bindE (read_packet body) (\<lambda>p. bindE (packet_identity_text loaded p) (\<lambda>s. Inr (Written s, 0)))
      | PacketProject pc \<Rightarrow> bindE (project_bound loaded pc) (\<lambda>s. Inr (Written s, 0))
      | PacketLint body root_profile expected warn_chars warn_lines \<Rightarrow>
          bindE (read_packet body) (\<lambda>p.
          case analyze_packet root_profile expected warn_chars warn_lines p of
            None \<Rightarrow> Inl ContextCrash
          | Some a \<Rightarrow> Inr (Audited a, if au_status a = ''BLOCK'' then 2 else 0))
      | EpochDecide facts \<Rightarrow>
          bindE (read_json parse facts) (\<lambda>v. bindE (decide_epoch v) (\<lambda>d. Inr (Answered d, 0)))
      | SanitizeHook event \<Rightarrow>
          bindE (read_json parse event) (\<lambda>v. bindE (sanitize_hook enc v) (\<lambda>d. Inr (Answered d, 0))))"

text \<open>Standard output, standard error and the exit status; \<open>None\<close> is an exception that escapes.\<close>

definition context_main ::
    "(string \<Rightarrow> json_read) \<Rightarrow> (string \<Rightarrow> 8 word list option) \<Rightarrow> profile_stop + exec_profile \<Rightarrow> context_command \<Rightarrow> (context_output option \<times> string \<times> int) option" where
  "context_main parse enc loaded c =
     (case context_run parse enc loaded c of
        Inr (out, n) \<Rightarrow> Some (Some out, [], n)
      | Inl (ContextError reason) \<Rightarrow> Some (None, ''CONTEXT_EPOCH=BLOCK reason='' @ reason @ [NL], 2)
      | Inl ContextCrash \<Rightarrow> None)"

end
