(* ===== verification/EpochProps.thy ===== *)
theory EpochProps
  imports EpochHook AuthoritySample
begin

text \<open>
  What the packet commands promise: the projection always has room for its last lines and for the
  required sections, the identity of a packet is read back and accepted by no packet with other fields
  or another digest, and a sanitized hook event keeps only safe fields.
\<close>

section \<open>Lengths\<close>

lemma length_join: "length (join_with sep xs) \<le> sum_list (map (\<lambda>x. length sep + length x) xs)"
  by (induction sep xs rule: join_with.induct) auto

lemma length_join_app:
  "xs \<noteq> [] \<Longrightarrow>
   length (join_with sep (xs @ ys)) = length (join_with sep xs) + sum_list (map (\<lambda>y. length sep + length y) ys)"
proof (induction ys arbitrary: xs)
  case (Cons y ys)
  have "length (join_with sep (xs @ y # ys)) = length (join_with sep (xs @ [y])) + sum_list (map (\<lambda>y. length sep + length y) ys)"
    using Cons.IH [of "xs @ [y]"] by simp
  then show ?case using join_append [OF Cons.prems, of "[y]" sep] by simp
qed simp

lemma join_contains: "x \<in> set xs \<Longrightarrow> contains_sub x (join_with sep xs)"
proof -
  assume "x \<in> set xs"
  then obtain as bs where xs: "xs = as @ x # bs" by (metis split_list)
  have "\<exists>b. join_with sep (x # bs) = x @ b" by (cases bs) auto
  then obtain b where "join_with sep (x # bs) = x @ b" by blast
  then show ?thesis unfolding xs contains_sub_iff
    by (cases "as = []") (force, metis append_assoc join_append list.distinct(1))
qed

lemma length_rstrip: "length (py_rstrip s) \<le> length s"
  by (simp add: py_rstrip_def) (metis length_dropWhile_le length_rev)

lemma length_bounded:
  "length truncation_mark \<le> cap \<Longrightarrow> length (fst (bounded_section body cap)) \<le> cap"
  using length_rstrip [of "take (cap - length truncation_mark) body"] by (auto simp: bounded_section_def)

lemma length_section_chunk: "length (section_chunk name body) \<le> 5 + length name + length body"
  using length_rstrip [of "''## '' @ name @ [NL, NL] @ body"] by (simp add: section_chunk_def)

section \<open>The sections\<close>

definition shown_chunk :: "(string \<times> string) list \<Rightarrow> nat \<Rightarrow> string \<Rightarrow> string" where
  "shown_chunk sections cap name =
     section_chunk name (fst (bounded_section (case map_of sections name of None \<Rightarrow> [] | Some b \<Rightarrow> b) cap))"

lemma length_shown:
  "length truncation_mark \<le> cap \<Longrightarrow> length (shown_chunk sections cap name) \<le> 5 + length name + cap"
  using length_section_chunk length_bounded order_trans unfolding shown_chunk_def
  by (metis (no_types, lifting) add_le_cancel_left)

lemma project_step:
  "map_of sections x = Some body \<Longrightarrow>
   project_sections sections cap room parts truncated (x # xs) =
   (let truncated' = truncated @ (if snd (bounded_section body cap) then [x] else []);
        parts' = parts @ [shown_chunk sections cap x]
    in if room < length (joined parts')
       then (if x \<in> set REQUIRED_SECTIONS then Inl (ContextError (''PROJECTION_REQUIRED_SECTION_UNFIT:'' @ x))
             else Inr (parts, truncated', True))
       else project_sections sections cap room parts' truncated' xs)"
  by (cases "bounded_section body cap") (simp add: shown_chunk_def Let_def)

declare project_sections.simps(2) [simp del]

lemma project_absent [simp]:
  "map_of sections x = None \<Longrightarrow>
   project_sections sections cap room parts truncated (x # xs) = project_sections sections cap room parts truncated xs"
  by (simp add: project_sections.simps)

lemma project_append:
  "project_sections sections cap room parts truncated (xs @ ys) =
   bindE (project_sections sections cap room parts truncated xs) (\<lambda>(parts', truncated', omitted).
     if omitted then Inr (parts', truncated', omitted) else project_sections sections cap room parts' truncated' ys)"
proof (induction xs arbitrary: parts truncated)
  case (Cons x xs)
  show ?case by (cases "map_of sections x") (simp_all add: Cons project_step Let_def)
qed simp

text \<open>Sections that are there and required.\<close>

lemma project_required:
  assumes "\<forall>x \<in> set xs. x \<in> set REQUIRED_SECTIONS \<and> map_of sections x \<noteq> None"
  shows "(case project_sections sections cap room parts truncated xs of
      Inr (parts', truncated', omitted) \<Rightarrow>
        parts' = parts @ map (shown_chunk sections cap) xs \<and> \<not> omitted \<and> (xs \<noteq> [] \<longrightarrow> length (joined parts') \<le> room)
    | Inl e \<Rightarrow>
        \<exists>name \<in> set xs. e = ContextError (''PROJECTION_REQUIRED_SECTION_UNFIT:'' @ name) \<and>
          (parts \<noteq> [] \<longrightarrow> room < length (joined (parts @ map (shown_chunk sections cap) xs))))"
  using assms
proof (induction xs arbitrary: parts truncated)
  case (Cons x xs)
  obtain body where body: "map_of sections x = Some body" using Cons.prems by auto
  define next_parts where "next_parts = parts @ [shown_chunk sections cap x]"
  have IH: "\<And>truncated. case project_sections sections cap room next_parts truncated xs of
      Inr (parts', truncated', omitted) \<Rightarrow>
        parts' = next_parts @ map (shown_chunk sections cap) xs \<and> \<not> omitted \<and> (xs \<noteq> [] \<longrightarrow> length (joined parts') \<le> room)
    | Inl e \<Rightarrow>
        \<exists>name \<in> set xs. e = ContextError (''PROJECTION_REQUIRED_SECTION_UNFIT:'' @ name) \<and>
          (next_parts \<noteq> [] \<longrightarrow> room < length (joined (next_parts @ map (shown_chunk sections cap) xs)))"
    using Cons by (auto intro: Cons.IH)
  show ?case
  proof (cases "room < length (joined next_parts)")
    case True
    have "length (joined next_parts) \<le> length (joined (next_parts @ map (shown_chunk sections cap) xs))"
      unfolding joined_def by (subst length_join_app) (simp_all add: next_parts_def)
    with True have "room < length (joined (next_parts @ map (shown_chunk sections cap) xs))" by linarith
    with True show ?thesis using Cons.prems
      by (simp add: project_step [OF body] next_parts_def Let_def)
  next
    case False
    have step: "\<exists>t. project_sections sections cap room parts truncated (x # xs) = project_sections sections cap room next_parts t xs"
      using False by (auto simp: project_step [OF body] next_parts_def Let_def)
    then obtain t where t: "project_sections sections cap room parts truncated (x # xs) =
        project_sections sections cap room next_parts t xs" by blast
    show ?thesis using IH [of t] False unfolding t
      by (cases "project_sections sections cap room next_parts t xs"; cases xs) (auto simp: next_parts_def)
  qed
qed simp

lemma project_optional:
  assumes "\<forall>x \<in> set xs. x \<notin> set REQUIRED_SECTIONS" and "length (joined parts) \<le> room"
  shows "\<exists>more truncated' omitted.
     project_sections sections cap room parts truncated xs = Inr (parts @ more, truncated', omitted) \<and>
     length (joined (parts @ more)) \<le> room"
  using assms
proof (induction xs arbitrary: parts truncated)
  case (Cons x xs)
  show ?case
  proof (cases "map_of sections x")
    case None
    then show ?thesis using Cons by simp
  next
    case (Some body)
    show ?thesis
    proof (cases "room < length (joined (parts @ [shown_chunk sections cap x]))")
      case True
      then show ?thesis using Cons.prems by (auto simp: project_step [OF Some] Let_def)
    next
      case False
      then obtain t where "project_sections sections cap room parts truncated (x # xs) =
          project_sections sections cap room (parts @ [shown_chunk sections cap x]) t xs"
        by (simp add: project_step [OF Some] Let_def)
      moreover have "\<exists>m t' om. project_sections sections cap room (parts @ [shown_chunk sections cap x]) t xs =
            Inr ((parts @ [shown_chunk sections cap x]) @ m, t', om) \<and> length (joined ((parts @ [shown_chunk sections cap x]) @ m)) \<le> room"
        by (rule Cons.IH) (use Cons.prems False in auto)
      ultimately show ?thesis by auto
    qed
  qed
qed auto

text \<open>The truncated sections are among those visited, once each.\<close>

lemma truncated_sum:
  "project_sections sections cap room parts truncated xs = Inr (parts', truncated', omitted) \<Longrightarrow>
   sum_list (map w truncated') \<le> sum_list (map w truncated) + sum_list (map w xs)" for w :: "string \<Rightarrow> nat"
proof (induction xs arbitrary: parts truncated)
  case (Cons x xs)
  show ?case
  proof (cases "map_of sections x")
    case None
    then show ?thesis using Cons by fastforce
  next
    case (Some body)
    show ?thesis
      using Cons.prems Cons.IH [of "parts @ [shown_chunk sections cap x]" "truncated @ (if snd (bounded_section body cap) then [x] else [])"]
      by (auto simp: project_step [OF Some] Let_def split: if_splits)
  qed
qed simp

section \<open>A packet that is not blocked\<close>

lemma audit_clear:
  assumes "plain_audit loaded p = Some a" and "au_status a \<noteq> ''BLOCK''"
  shows "version_reasons (pt_metadata p) = []" "repo_reasons (pt_metadata p) None = []" "field_reasons (pt_metadata p) = []"
    "revision_reasons (pt_metadata p) = Some []" "\<exists>aged. profile_reasons loaded (pt_metadata p) = Some ([], aged)"
    "section_reasons p = []" "au_status a \<in> {''PASS'', ''WARN''}"
  using assms by (auto simp: plain_audit_def analyze_packet_def Let_def split: option.splits prod.splits if_splits)

lemma unblocked_Inr:
  "unblocked label loaded p = Inr a \<longleftrightarrow> plain_audit loaded p = Some a \<and> au_status a \<noteq> ''BLOCK''"
  by (auto simp: unblocked_def split: option.splits)

lemma required_present:
  assumes "plain_audit loaded p = Some a" and "au_status a \<noteq> ''BLOCK''"
  shows "\<forall>x \<in> set REQUIRED_SECTIONS. x \<in> set REQUIRED_SECTIONS \<and> map_of (pt_sections p) x \<noteq> None"
  using audit_clear(6) [OF assms] by (auto simp: section_reasons_def filter_empty_conv)

section \<open>The bound of the projection\<close>

lemma length_tail:
  "sum_list (map (\<lambda>y. length [NL, NL] + length y) (tail_chunks metadata sections omitted)) \<le>
   94 + sum_list (map (\<lambda>x. Suc (length x)) metadata) + sum_list (map (\<lambda>x. Suc (length x)) sections)"
  using length_join [of "'',''" metadata] length_join [of "'',''" sections]
  by (auto simp: tail_chunks_def listed_def)

lemma sum_META_ORDER: "sum_list (map (\<lambda>x. Suc (length x)) (filter P META_ORDER)) \<le> 188"
proof -
  have "sum_list (map (\<lambda>x. Suc (length x)) META_ORDER) = 188" by (simp add: META_ORDER_def)
  then show ?thesis using sum_list_filter_le_nat [of "\<lambda>x. Suc (length x)" P META_ORDER] by linarith
qed

lemma sum_PROJECT_SECTIONS: "sum_list (map (\<lambda>x. Suc (length x)) PROJECT_SECTIONS) = 124"
  by (simp add: PROJECT_SECTIONS_def)

lemma length_truncation_mark: "length truncation_mark \<le> 256"
  by (simp add: truncation_mark_def)

lemma project_sections_split: "PROJECT_SECTIONS = REQUIRED_SECTIONS @ drop 4 PROJECT_SECTIONS"
  by (simp add: PROJECT_SECTIONS_def REQUIRED_SECTIONS_def)

lemma optional_sections: "\<forall>x \<in> set (drop 4 PROJECT_SECTIONS). x \<notin> set REQUIRED_SECTIONS"
  by (simp add: PROJECT_SECTIONS_def REQUIRED_SECTIONS_def)

lemma required_length:
  assumes "parts \<noteq> []" and "256 \<le> cap"
  shows "length (joined (parts @ map (shown_chunk sections cap) REQUIRED_SECTIONS)) \<le> length (joined parts) + 4 * cap + 64"
proof -
  have c: "length (shown_chunk sections cap x) \<le> 5 + length x + cap" for x
    by (rule length_shown) (use length_truncation_mark assms in linarith)
  show ?thesis unfolding joined_def length_join_app [OF assms(1)]
    using c [of "''Goal''"] c [of "''Current State''"] c [of "''Next Action''"] c [of "''Blockers''"]
    by (simp add: REQUIRED_SECTIONS_def)
qed

text \<open>All sections: the required ones are shown, or one of them does not fit.\<close>

lemma project_all:
  assumes "parts \<noteq> []" and "256 \<le> cap"
    and "\<forall>x \<in> set REQUIRED_SECTIONS. x \<in> set REQUIRED_SECTIONS \<and> map_of sections x \<noteq> None"
  shows "(case project_sections sections cap room parts [] PROJECT_SECTIONS of
      Inr (parts', truncated', omitted) \<Rightarrow>
        set (map (shown_chunk sections cap) REQUIRED_SECTIONS) \<subseteq> set parts' \<and> length (joined parts') \<le> room \<and>
        sum_list (map (\<lambda>x. Suc (length x)) truncated') \<le> 124
    | Inl e \<Rightarrow>
        \<exists>name \<in> set REQUIRED_SECTIONS. e = ContextError (''PROJECTION_REQUIRED_SECTION_UNFIT:'' @ name) \<and>
          room < length (joined parts) + 4 * cap + 64)"
proof (cases "project_sections sections cap room parts [] REQUIRED_SECTIONS")
  case (Inl e)
  then have "project_sections sections cap room parts [] PROJECT_SECTIONS = Inl e"
    by (subst project_sections_split) (simp only: project_append bindE_simps)
  with project_required [OF assms(3), where cap = cap and room = room and parts = parts and truncated = "[]"] Inl assms required_length [OF assms(1,2), of sections]
  show ?thesis by fastforce
next
  case (Inr r)
  obtain p1 t1 o1 where r: "r = (p1, t1, o1)" by (cases r)
  have p1: "p1 = parts @ map (shown_chunk sections cap) REQUIRED_SECTIONS" "\<not> o1" "length (joined p1) \<le> room"
    using project_required [OF assms(3), where cap = cap and room = room and parts = parts and truncated = "[]"] Inr r by (auto simp: REQUIRED_SECTIONS_def)
  obtain m t2 o2 where rest: "project_sections sections cap room p1 t1 (drop 4 PROJECT_SECTIONS) = Inr (p1 @ m, t2, o2)"
      "length (joined (p1 @ m)) \<le> room"
    using project_optional [OF optional_sections p1(3)] by metis
  have all: "project_sections sections cap room parts [] PROJECT_SECTIONS = Inr (p1 @ m, t2, o2)"
    using Inr p1(2) rest(1) r by (subst project_sections_split) (simp only: project_append bindE_simps split_conv if_False)
  have "sum_list (map (\<lambda>x. Suc (length x)) t2) \<le> 124"
    using truncated_sum [OF all, of "\<lambda>x. Suc (length x)"] by (simp add: sum_PROJECT_SECTIONS)
  then show ?thesis using rest(2) p1(1) unfolding all by auto
qed

text \<open>The rendered text: its length, its last line and what it shows.\<close>

lemma rendered_text:
  assumes "parts \<noteq> []"
    and s: "s = joined (parts @ tail_chunks (filter P META_ORDER) truncated omitted) @ [NL]"
    and "sum_list (map (\<lambda>x. Suc (length x)) truncated) \<le> 124"
  shows "length s \<le> length (joined parts) + 407" "ends_with s (''PACKET_PROJECTION=PASS'' @ [NL])"
    "x \<in> set parts \<Longrightarrow> contains_sub x s"
proof -
  have "length (joined (parts @ tail_chunks (filter P META_ORDER) truncated omitted)) \<le> length (joined parts) + 406"
    unfolding joined_def length_join_app [OF assms(1)]
    using length_tail [of "filter P META_ORDER" truncated omitted] sum_META_ORDER [of P] assms(3) by linarith
  then show "length s \<le> length (joined parts) + 407" by (simp add: s)
  obtain xs where xs: "tail_chunks (filter P META_ORDER) truncated omitted = xs @ [''PACKET_PROJECTION=PASS'']"
    by (simp add: tail_chunks_def)
  have "joined ((parts @ xs) @ [''PACKET_PROJECTION=PASS'']) = joined (parts @ xs) @ [NL, NL] @ ''PACKET_PROJECTION=PASS''"
    unfolding joined_def using assms(1) by (subst join_append) auto
  then show "ends_with s (''PACKET_PROJECTION=PASS'' @ [NL])" unfolding s xs by (simp add: ends_with_def)
  show "contains_sub x s" if "x \<in> set parts"
  proof -
    have "contains_sub x (joined (parts @ tail_chunks (filter P META_ORDER) truncated omitted))"
      unfolding joined_def using that by (intro join_contains) simp
    then show ?thesis unfolding s contains_sub_iff by (metis append_assoc)
  qed
qed


section \<open>Hook events\<close>

text \<open>What an entry of a sanitized event may be.\<close>

definition safe_param :: "json \<Rightarrow> bool" where
  "safe_param x =
     (\<exists>i v. x = JObj [(''id'', JStr i), (''value'', JStr v)] \<and> i \<in> set MODEL_PARAM_IDS \<and> safe_hook_label v)"

definition safe_hook_entry :: "string \<times> json \<Rightarrow> bool" where
  "safe_hook_entry e =
     (case e of (key, v) \<Rightarrow>
        (key = ''hook_event_name'' \<and> (\<exists>s \<in> set NATIVE_EVENTS. v = JStr s)) \<or>
        (key \<in> {''conversation_id_hash'', ''generation_id_hash''} \<and>
          (\<exists>s. v = JStr s \<and> length s = 24 \<and> list_all is_hex_lower s)) \<or>
        (key \<in> set LABEL_KEYS \<and> (\<exists>s. v = JStr s \<and> safe_hook_label s)) \<or>
        (key = ''model_params'' \<and> (\<exists>xs. v = JList xs \<and> list_all safe_param xs)) \<or>
        (key \<in> set COUNT_KEYS \<and> (\<exists>n \<ge> 0. v = JInt n)) \<or>
        (key = ''context_usage_percent'' \<and> percent_ok v) \<or>
        (key = ''is_first_compaction'' \<and> (\<exists>b. v = JBool b)))"

definition unhashable :: "json \<Rightarrow> bool" where
  "unhashable v = (case v of JList _ \<Rightarrow> True | JObj _ \<Rightarrow> True | _ \<Rightarrow> False)"

lemma hash_id_hex: "length (take 24 (hex_text (sha256 bs))) = 24" "list_all is_hex_lower (take 24 (hex_text (sha256 bs)))"
proof -
  show "length (take 24 (hex_text (sha256 bs))) = 24" by (simp add: length_hex_digest)
  show "list_all is_hex_lower (take 24 (hex_text (sha256 bs)))" unfolding list_all_iff
    using hex_digest_hex [unfolded list_all_iff] in_set_takeD by fast
qed

lemma hashed_safe:
  assumes "key \<in> set HASHED_KEYS"
  shows "case hashed_entry enc d key of
      Inr es \<Rightarrow> list_all safe_hook_entry es
    | Inl e \<Rightarrow> e = ContextCrash \<and> (\<exists>s. jget d key = JStr s \<and> s \<noteq> [] \<and> enc s = None)"
proof (cases "jget d key")
  case (JStr s)
  then show ?thesis
    using assms hash_id_hex
    by (cases "enc s") (auto simp: hashed_entry_def hash_id_def HASHED_KEYS_def safe_hook_entry_def)
qed (simp_all add: hashed_entry_def)

lemma hashes_safe:
  "case mapE (hashed_entry enc d) HASHED_KEYS of
     Inr hs \<Rightarrow> list_all safe_hook_entry (concat hs)
   | Inl e \<Rightarrow> e = ContextCrash \<and> (\<exists>key \<in> set HASHED_KEYS. \<exists>s. jget d key = JStr s \<and> s \<noteq> [] \<and> enc s = None)"
  using hashed_safe [of "''conversation_id''" d enc] hashed_safe [of "''generation_id''" d enc]
  by (auto simp: HASHED_KEYS_def bindE_def split: sum.splits)

lemma entries_safe:
  "key \<in> set LABEL_KEYS \<Longrightarrow> list_all safe_hook_entry (label_entry d key)"
  "key \<in> set COUNT_KEYS \<Longrightarrow> list_all safe_hook_entry (count_entry d key)"
  "list_all safe_hook_entry (percent_entry d)" "list_all safe_hook_entry (first_entry d)"
  by (auto simp: label_entry_def count_entry_def percent_entry_def first_entry_def safe_hook_entry_def Let_def split: json.split)

lemma safe_params_step:
  "safe_params (x # rest) = Inl ContextCrash \<and> (\<exists>it. x = JObj it \<and> unhashable (jget it ''id'')) \<or>
   safe_params (x # rest) = safe_params rest \<or>
   (\<exists>y. safe_param y \<and> safe_params (x # rest) = bindE (safe_params rest) (\<lambda>ps. Inr (y # ps)))"
proof (cases x)
  case (JObj it)
  show ?thesis
  proof (cases "\<exists>i v. jget it ''id'' = JStr i \<and> jget it ''value'' = JStr v \<and> i \<in> set MODEL_PARAM_IDS \<and> safe_hook_label v")
    case True
    then obtain i v where iv: "jget it ''id'' = JStr i" "jget it ''value'' = JStr v" "i \<in> set MODEL_PARAM_IDS" "safe_hook_label v"
      by blast
    then have "safe_param (JObj [(''id'', JStr i), (''value'', JStr v)])" by (auto simp: safe_param_def)
    moreover have "safe_params (x # rest) = bindE (safe_params rest) (\<lambda>ps. Inr (JObj [(''id'', JStr i), (''value'', JStr v)] # ps))"
      using JObj iv by simp
    ultimately show ?thesis by blast
  next
    case False
    then show ?thesis
      by (cases "jget it ''id''"; cases "jget it ''value''") (auto simp: JObj unhashable_def)
  qed
qed simp_all

lemma params_safe:
  "case safe_params xs of
     Inr ps \<Rightarrow> list_all safe_param ps
   | Inl e \<Rightarrow> e = ContextCrash \<and> (\<exists>it. JObj it \<in> set xs \<and> unhashable (jget it ''id''))"
proof (induction xs)
  case (Cons x rest)
  from safe_params_step [of x rest] show ?case
  proof (elim disjE exE conjE)
    fix y assume "safe_param y" "safe_params (x # rest) = bindE (safe_params rest) (\<lambda>ps. Inr (y # ps))"
    then show ?thesis using Cons.IH by (cases "safe_params rest") auto
  next
    assume "safe_params (x # rest) = safe_params rest"
    then show ?thesis using Cons.IH by (cases "safe_params rest") auto
  qed auto
qed simp

lemma concat_safe: "(\<And>k. k \<in> set ks \<Longrightarrow> list_all P (f k)) \<Longrightarrow> list_all P (concat (map f ks))"
  by (auto simp: list_all_iff)


section \<open>Lines\<close>

definition unbroken :: "string \<Rightarrow> bool" where
  "unbroken l = (\<forall>c \<in> set l. \<not> line_break c)"

definition clean :: "string \<Rightarrow> bool" where
  "clean v = (py_strip v = v \<and> unbroken v)"

lemma splitlines_unbroken: "\<forall>l \<in> set (py_splitlines s). unbroken l"
proof (induction s rule: py_splitlines.induct)
  case (2 c cs)
  then show ?case
    by (cases "line_break c"; cases "py_splitlines cs") (auto simp: unbroken_def)
qed simp

lemma splitlines_line: "unbroken l \<Longrightarrow> py_splitlines (l @ NL # rest) = l # py_splitlines rest"
  by (induction l) (auto simp: unbroken_def line_break_def skip_lf_def split: list.split)

lemma splitlines_lines: "\<forall>l \<in> set ls. unbroken l \<Longrightarrow> py_splitlines (concat (map (\<lambda>l. l @ [NL]) ls)) = ls"
  by (induction ls) (simp_all add: splitlines_line)

lemma join_lines: "ls \<noteq> [] \<Longrightarrow> join_with [NL] ls @ [NL] = concat (map (\<lambda>l. l @ [NL]) ls)"
  by (induction "[NL]" ls rule: join_with.induct) simp_all

lemma hex_not_break: "is_hex_lower c \<Longrightarrow> \<not> line_break c"
  by (auto simp: is_hex_lower_def is_digit_def line_break_def)

lemma clean_hex: "list_all is_hex_lower s \<Longrightarrow> clean s"
  using hex_lower_plain(2) [of s] hex_not_break by (auto simp: clean_def unbroken_def list_all_iff)

lemma clean_meta: "meta_of l = Some (k, v) \<Longrightarrow> unbroken l \<Longrightarrow> clean (py_strip v)"
proof -
  assume m: "meta_of l = Some (k, v)" and l: "unbroken l"
  then have "v = tl (dropWhile meta_key_char l)" by (auto simp: meta_of_def Let_def split: if_splits)
  then have "set v \<subseteq> set (dropWhile meta_key_char l)" by (cases "dropWhile meta_key_char l") auto
  then have "set v \<subseteq> set l" using set_dropWhileD [of _ meta_key_char l] by blast
  moreover have "set (py_strip v) \<subseteq> set v"
    by (auto simp: py_strip_def py_lstrip_def py_rstrip_def dest!: set_dropWhileD)
  ultimately show ?thesis using l by (auto simp: clean_def unbroken_def)
qed

lemma scan_clean:
  "\<forall>l \<in> set ls. unbroken l \<Longrightarrow> \<forall>v \<in> snd ` set meta. clean v \<Longrightarrow>
   \<forall>v \<in> snd ` set (fst (scan_lines fence meta dups ls)). clean v"
  by (induction fence meta dups ls rule: scan_lines.induct)
    (auto simp: clean_meta split: option.split prod.split)

lemma packet_clean:
  assumes "map_of (pt_metadata (parse_packet_text body)) k = Some v"
  shows "clean v"
proof -
  have "\<forall>v \<in> snd ` set (fst (scan_packet_metadata body)). clean v"
    unfolding scan_packet_metadata_def using splitlines_unbroken by (intro scan_clean) auto
  moreover have "pt_metadata (parse_packet_text body) = fst (scan_packet_metadata body)"
    by (simp add: parse_packet_text_def Let_def split: prod.split)
  ultimately show ?thesis using assms by (force dest: map_of_SomeD)
qed

section \<open>Reading an identity back\<close>

definition meta_key :: "string \<Rightarrow> bool" where
  "meta_key k = (2 \<le> length k \<and> list_all meta_key_char k \<and> is_upper_ascii (hd k))"

lemma meta_of_line: "meta_key k \<Longrightarrow> meta_of (k @ ''='' @ v) = Some (k, v)"
proof -
  assume k: "meta_key k"
  have "\<not> meta_key_char CHR ''=''" by code_simp
  with k have "takeWhile meta_key_char (k @ ''='' @ v) = k" "dropWhile meta_key_char (k @ ''='' @ v) = ''='' @ v"
    by (auto simp: meta_key_def list_all_iff takeWhile_append2 dropWhile_append2)
  with k show ?thesis unfolding meta_of_def Let_def meta_key_def by simp
qed

lemma binding_lines_read:
  "\<forall>(k, v) \<in> set kvs. meta_key k \<and> clean v \<Longrightarrow> distinct (map fst (acc @ kvs)) \<Longrightarrow>
   binding_lines acc (map (\<lambda>(k, v). k @ ''='' @ v) kvs) = Inr (acc @ kvs)"
proof (induction kvs arbitrary: acc)
  case (Cons kv kvs)
  obtain k v where kv: "kv = (k, v)" by (cases kv)
  have "map_of acc k = None" using Cons.prems(2) by (auto simp: kv map_of_eq_None_iff)
  moreover have "binding_lines (acc @ [(k, v)]) (map (\<lambda>(k, v). k @ ''='' @ v) kvs) = Inr ((acc @ [(k, v)]) @ kvs)"
    by (rule Cons.IH) (use Cons.prems in \<open>simp_all add: kv\<close>)
  ultimately show ?case using Cons.prems(1) meta_of_line [of k v] by (simp add: kv clean_def)
qed simp

definition identity_pairs :: "packet_text \<Rightarrow> string \<Rightarrow> (string \<times> string) list" where
  "identity_pairs p status =
     map (\<lambda>k. (k, identity_value p k)) PACKET_IDENTITY_KEYS @
     [(''PACKET_BODY_SHA256'', pt_sha p), (''PACKET_CONTEXT_AUDIT'', status), (''PACKET_IDENTITY'', ''PASS'')]"

lemma identity_lines_pairs: "identity_lines p status = map (\<lambda>(k, v). k @ ''='' @ v) (identity_pairs p status)"
  by (simp add: identity_lines_def identity_pairs_def)

lemma identity_keys:
  "\<forall>k \<in> set (PACKET_IDENTITY_KEYS @ [''PACKET_BODY_SHA256'', ''PACKET_CONTEXT_AUDIT'', ''PACKET_IDENTITY'']). meta_key k"
  "distinct (PACKET_IDENTITY_KEYS @ [''PACKET_BODY_SHA256'', ''PACKET_CONTEXT_AUDIT'', ''PACKET_IDENTITY''])"
  by code_simp+

lemma identity_value_clean: "clean (identity_value (parse_packet_text body) k)"
proof -
  have "clean MISSING_IDENTITY_VALUE" unfolding clean_def unbroken_def MISSING_IDENTITY_VALUE_def by code_simp
  then show ?thesis using packet_clean by (auto simp: identity_value_def split: option.split)
qed

lemma packet_sha: "pt_sha (parse_packet_text body) = text_sha256 body" "sha_text (text_sha256 body)"
  using length_hex_digest hex_digest_hex
  by (simp_all add: parse_packet_text_def Let_def text_sha256_def sha_text_def split: prod.split)

text \<open>The identifiers of a loaded profile, and no field of a packet that is not blocked, spell the missing value.\<close>

lemma legacy_ids:
  "legacy_items pid disabled acc d = Inr l \<Longrightarrow> \<forall>k \<in> fst ` set acc. runtime_id_ok k \<Longrightarrow> \<forall>k \<in> fst ` set l. runtime_id_ok k"
  by (induction pid disabled acc d rule: legacy_items.induct) (auto split: json.splits if_splits)

lemma bindE_InrE: "bindE m f = Inr y \<Longrightarrow> (\<And>x. m = Inr x \<Longrightarrow> f x = Inr y \<Longrightarrow> P) \<Longrightarrow> P"
  by (cases m) auto

lemma pairE: "(case x of (a, b) \<Rightarrow> f a b) = y \<Longrightarrow> (\<And>a b. x = (a, b) \<Longrightarrow> f a b = y \<Longrightarrow> P) \<Longrightarrow> P"
  by (cases x) auto

lemma loaded_parts:
  assumes "load_profile_text yaml compiles body = Inr prof"
  shows "\<exists>d revision authority disabled. profile_head d = Inr (ep_id prof, revision, authority) \<and>
     profile_legacy d (ep_id prof) disabled = Inr (ep_legacy prof)"
proof -
  obtain raw where "yaml body = Some raw"
    using assms unfolding load_profile_text_def by (cases "yaml body") simp_all
  then show ?thesis using assms unfolding load_profile_text_def
    by (simp only: option.case) (elim bindE_InrE pairE, clarsimp, blast)
qed

lemma head_id: "profile_head d = Inr (pid, n, c) \<Longrightarrow> runtime_id_ok pid"
  by (auto simp: profile_head_def profile_id_of_def bindE_Inr_iff split: list.splits json.splits if_splits)

lemma profile_ids:
  assumes "load_profile yaml compiles f = Inr prof"
  shows "runtime_id_ok (ep_id prof)" "map_of (ep_legacy prof) k = Some v \<Longrightarrow> runtime_id_ok k"
proof -
  obtain body where "load_profile_text yaml compiles body = Inr prof"
    using assms by (auto simp: load_profile_def split: option.splits)
  then obtain d revision authority disabled where head: "profile_head d = Inr (ep_id prof, revision, authority)"
      and legacy: "profile_legacy d (ep_id prof) disabled = Inr (ep_legacy prof)"
    using loaded_parts by blast
  show "runtime_id_ok (ep_id prof)"
    using head by (rule head_id)
  show "runtime_id_ok k" if "map_of (ep_legacy prof) k = Some v"
  proof -
    obtain r where r: "(case jget r ''legacy_v2_implementers'' of
        JObj l \<Rightarrow> legacy_items (ep_id prof) disabled [] l
      | _ \<Rightarrow> Inl (ProfileError ''PROFILE_LEGACY_IMPLEMENTERS_INVALID'')) = Inr (ep_legacy prof)"
      using legacy by (auto simp: profile_legacy_def bindE_Inr_iff)
    then obtain l where "legacy_items (ep_id prof) disabled [] l = Inr (ep_legacy prof)"
      by (cases "jget r ''legacy_v2_implementers''") simp_all
    then have "\<forall>k \<in> fst ` set (ep_legacy prof). runtime_id_ok k" by (rule legacy_ids) simp
    then show ?thesis using that by (force dest: map_of_SomeD)
  qed
qed

lemma given_meta_Nil: "given_meta meta key bad r = [] \<Longrightarrow> map_of meta key = Some v \<Longrightarrow> v \<noteq> [] \<Longrightarrow> \<not> bad v"
  by (auto simp: given_meta_def split: if_splits)

lemma sorted_set_Nil [simp]: "sorted_set xs = [] \<longleftrightarrow> xs = []"
  by (cases xs) (auto simp: sorted_set_def dest: arg_cong [where f = set])

lemma authority_fields:
  assumes "packet_authority prof meta = Some ([], aged)"
  shows "map_of meta ''IMPLEMENTER'' = None \<and> map_of meta ''EXECUTION_PROFILE'' = Some (ep_id prof) \<and>
      (\<exists>n. positive_text (meta_text meta ''EXECUTION_PROFILE_REVISION'') = Some (Some n)) \<or>
    map_of meta ''EXECUTION_PROFILE'' = None \<and> map_of meta ''EXECUTION_PROFILE_REVISION'' = None \<and>
      map_of (ep_legacy prof) (meta_text meta ''IMPLEMENTER'') = Some (ep_id prof)"
  using assms by (auto simp: packet_authority_def Let_def split: if_splits option.splits)

lemma missing_refused:
  "\<not> safe_repo MISSING_IDENTITY_VALUE" "\<not> safe_workstream MISSING_IDENTITY_VALUE" "\<not> safe_branch MISSING_IDENTITY_VALUE"
  "\<not> safe_task_kind MISSING_IDENTITY_VALUE" "positive_text MISSING_IDENTITY_VALUE = Some None"
  "\<not> runtime_id_ok MISSING_IDENTITY_VALUE" "MISSING_IDENTITY_VALUE \<noteq> []"
  "MISSING_IDENTITY_VALUE \<notin> set ALLOWED_STATUSES" "MISSING_IDENTITY_VALUE \<notin> {''LOW'', ''MEDIUM'', ''HIGH'', ''CRITICAL''}"
  by code_simp+

lemma not_missing:
  assumes audit: "plain_audit (load_profile yaml compiles f) p = Some a" "au_status a \<noteq> ''BLOCK''"
    and "k \<in> set PACKET_IDENTITY_KEYS"
  shows "map_of (pt_metadata p) k \<noteq> Some MISSING_IDENTITY_VALUE"
proof -
  note clear = audit_clear [OF audit]
  obtain prof aged where prof: "load_profile yaml compiles f = Inr prof" "packet_authority prof (pt_metadata p) = Some ([], aged)"
    using clear(5) by (auto simp: profile_reasons_def split: sum.splits profile_stop.splits)
  note authority = authority_fields [OF prof(2)]
  note ids = profile_ids [OF prof(1)]
  note fields = clear(3) [unfolded field_reasons_def append_is_Nil_conv]
  have text_k: "meta_text (pt_metadata p) k = MISSING_IDENTITY_VALUE"
    if "map_of (pt_metadata p) k = Some MISSING_IDENTITY_VALUE" for k
    using that by (simp add: meta_text_def)
  have "MISSING_IDENTITY_VALUE \<notin> {''2'', ''3'', []}" by (simp add: MISSING_IDENTITY_VALUE_def)
  then have 1: "map_of (pt_metadata p) ''PACKET_VERSION'' \<noteq> Some MISSING_IDENTITY_VALUE"
    using clear(1) text_k [of "''PACKET_VERSION''"] by (auto simp: version_reasons_def Let_def split: if_splits)
  have 2: "map_of (pt_metadata p) ''TARGET_REPO'' \<noteq> Some MISSING_IDENTITY_VALUE"
    using clear(2) text_k [of "''TARGET_REPO''"] missing_refused by (auto simp: repo_reasons_def Let_def)
  have 3: "map_of (pt_metadata p) ''WORKSTREAM'' \<noteq> Some MISSING_IDENTITY_VALUE"
    using given_meta_Nil [OF fields [THEN conjunct1]] missing_refused by blast
  have 4: "map_of (pt_metadata p) ''STATUS'' \<noteq> Some MISSING_IDENTITY_VALUE"
    using given_meta_Nil [OF fields [THEN conjunct2, THEN conjunct2, THEN conjunct2, THEN conjunct2]] missing_refused by blast
  have 5: "map_of (pt_metadata p) ''BRANCH'' \<noteq> Some MISSING_IDENTITY_VALUE"
    using given_meta_Nil [OF fields [THEN conjunct2, THEN conjunct1]] missing_refused by blast
  have 6: "map_of (pt_metadata p) ''TASK_KIND'' \<noteq> Some MISSING_IDENTITY_VALUE"
    using given_meta_Nil [OF fields [THEN conjunct2, THEN conjunct2, THEN conjunct1]] missing_refused by blast
  have 7: "map_of (pt_metadata p) ''INTENT_REVISION'' \<noteq> Some MISSING_IDENTITY_VALUE"
    using clear(4) text_k [of "''INTENT_REVISION''"] missing_refused by (auto simp: revision_reasons_def Let_def)
  have 8: "map_of (pt_metadata p) ''CHANGE_RISK'' \<noteq> Some MISSING_IDENTITY_VALUE"
    using given_meta_Nil [OF fields [THEN conjunct2, THEN conjunct2, THEN conjunct2, THEN conjunct1]] missing_refused by blast
  have 9: "map_of (pt_metadata p) ''EXECUTION_PROFILE'' \<noteq> Some MISSING_IDENTITY_VALUE"
    using authority ids(1) missing_refused by auto
  have 10: "map_of (pt_metadata p) ''EXECUTION_PROFILE_REVISION'' \<noteq> Some MISSING_IDENTITY_VALUE"
    using authority text_k [of "''EXECUTION_PROFILE_REVISION''"] missing_refused by auto
  have 11: "map_of (pt_metadata p) ''IMPLEMENTER'' \<noteq> Some MISSING_IDENTITY_VALUE"
    using authority ids(2) text_k [of "''IMPLEMENTER''"] missing_refused by auto
  have "list_all (\<lambda>k. map_of (pt_metadata p) k \<noteq> Some MISSING_IDENTITY_VALUE) PACKET_IDENTITY_KEYS"
    unfolding PACKET_IDENTITY_KEYS_def list.pred_inject(2) by (intro conjI 1 2 3 4 5 6 7 8 9 10 11 list.pred_inject(1))
  then show ?thesis using assms(3) by (simp add: list_all_iff)
qed

text \<open>What is written is read back.\<close>

lemma identity_read_back:
  assumes "status \<in> {''PASS'', ''WARN''}"
    and s: "s = join_with [NL] (identity_lines (parse_packet_text body) status) @ [NL]" and "length s \<le> 4096"
  shows "load_identity_binding (Some s) =
    Inr (map (\<lambda>k. (k, identity_value (parse_packet_text body) k)) PACKET_IDENTITY_KEYS, text_sha256 body)"
proof -
  define kvs where "kvs = identity_pairs (parse_packet_text body) status"
  have status: "clean status" using assms(1) unfolding clean_def unbroken_def by (elim insertE; simp; code_simp)
  have pass: "clean ''PASS''" unfolding clean_def unbroken_def by code_simp
  have sha: "clean (text_sha256 body)" using packet_sha(2) [of body] by (simp add: sha_text_def clean_hex)
  have ok: "\<forall>(k, v) \<in> set kvs. meta_key k \<and> clean v"
    using identity_keys(1) identity_value_clean status pass sha packet_sha(1) [of body]
    by (auto simp: kvs_def identity_pairs_def)
  have keys: "map fst kvs = PACKET_IDENTITY_KEYS @ [''PACKET_BODY_SHA256'', ''PACKET_CONTEXT_AUDIT'', ''PACKET_IDENTITY'']"
    by (simp add: kvs_def identity_pairs_def comp_def)
  have key_unbroken: "unbroken k" if "meta_key k" for k
    using that by (auto simp: meta_key_def unbroken_def list_all_iff meta_key_char_def is_upper_ascii_def is_digit_def line_break_def)
  have unbroken: "\<forall>l \<in> set (identity_lines (parse_packet_text body) status). unbroken l"
    using ok key_unbroken unfolding identity_lines_pairs kvs_def [symmetric]
    by (fastforce simp: clean_def unbroken_def line_break_def)
  have ne: "identity_lines (parse_packet_text body) status \<noteq> []" by (simp add: identity_lines_def)
  have lines: "py_splitlines s = map (\<lambda>(k, v). k @ ''='' @ v) kvs"
    unfolding s join_lines [OF ne] splitlines_lines [OF unbroken] by (simp add: identity_lines_pairs kvs_def)
  have count: "length (py_splitlines s) \<le> 16"
    using arg_cong [OF keys, of length] unfolding lines by (simp add: PACKET_IDENTITY_KEYS_def)
  have "binding_lines [] (map (\<lambda>(k, v). k @ ''='' @ v) kvs) = Inr ([] @ kvs)"
    by (rule binding_lines_read [OF ok]) (use identity_keys(2) in \<open>simp add: keys\<close>)
  then have read: "binding_lines [] (py_splitlines s) = Inr kvs" unfolding lines by simp
  have value_of: "map_of kvs k = Some v" if "(k, v) \<in> set kvs" for k v
    using that identity_keys(2) by (simp add: keys)
  have vals: "map_of kvs ''PACKET_IDENTITY'' = Some ''PASS''" "map_of kvs ''PACKET_CONTEXT_AUDIT'' = Some status"
    "map_of kvs ''PACKET_BODY_SHA256'' = Some (text_sha256 body)"
    "\<And>k. k \<in> set PACKET_IDENTITY_KEYS \<Longrightarrow> map_of kvs k = Some (identity_value (parse_packet_text body) k)"
    by (rule value_of; simp add: kvs_def identity_pairs_def packet_sha(1))+
  have missing: "filter (\<lambda>k. map_of kvs k = None) (PACKET_IDENTITY_KEYS @ [''PACKET_BODY_SHA256'']) = []"
    using vals(3,4) by (auto simp: filter_empty_conv)
  have read_text: "meta_text kvs ''PACKET_BODY_SHA256'' = text_sha256 body"
    "map (\<lambda>k. (k, meta_text kvs k)) PACKET_IDENTITY_KEYS = map (\<lambda>k. (k, identity_value (parse_packet_text body) k)) PACKET_IDENTITY_KEYS"
    using vals by (auto simp: meta_text_def)
  have "\<not> (4096 < length s \<or> 16 < length (py_splitlines s))" using assms(3) count by simp
  then show ?thesis unfolding load_identity_binding_def
    using assms(1) vals(1,2) packet_sha(2) [of body] missing read_text
    by (simp only: option.case if_False read bindE_simps list.case) auto
qed


text \<open>A profile and a packet to which it applies. Everything of the packet but its digest is computed.\<close>

definition demo_profile :: json where
  "demo_profile = JObj
     [(''contract_version'', JInt 1), (''profile_id'', JStr ''p''), (''revision'', JInt 2), (''authority_contract'', JStr ''profile-v3''),
      (''runtime'', JObj [(''primary'', JStr ''r''), (''optional_reviewers'', JList []), (''disabled'', JList [])]),
      (''packet_compatibility'', JObj [(''legacy_v2_implementers'', JObj [])]),
      (''retired_surface'', JObj [(''artifact_paths'', JList []), (''text_patterns'', JList []), (''remove_exact_text'', JList [])]),
      (''effect_policy'', JObj [(''trusted_boundary_required'', JList [])]),
      (''policy_migration'', JObj [(''legacy_execution_profile_markers'', JList []), (''legacy_external_write_markers'', JList [])])]"

definition demo_loaded :: "profile_stop + exec_profile" where
  "demo_loaded = load_profile (\<lambda>_. Some demo_profile) (\<lambda>_. True) (Some [])"

definition demo_body :: string where
  "demo_body = concat (map (\<lambda>l. l @ [NL])
     [''PACKET_VERSION=3'', ''TARGET_REPO=o/r'', ''WORKSTREAM=w'', ''STATUS=ACTIVE'', ''BRANCH=b'', ''TASK_KIND=FIX'', ''OWNER_INTENT=x'',
      ''INTENT_REVISION=1'', ''CHANGE_RISK=LOW'', ''EXECUTION_PROFILE=p'', ''EXECUTION_PROFILE_REVISION=2'', ''## Goal'', ''g'',
      ''## Current State'', ''c'', ''## Next Action'', ''n'', ''## Blockers'', ''none''])"

definition packet_shape :: "string \<Rightarrow> packet_text" where
  "packet_shape body =
     (let (meta, dups) = scan_packet_metadata body;
          s = fold scan_section_line (py_splitlines body)
                \<lparr>sc_sections = [], sc_duplicates = [], sc_headings = [], sc_current = None, sc_fence = None\<rparr>
      in \<lparr>pt_metadata = meta, pt_sections = map (\<lambda>(k, ls). (k, py_strip (join_with [NL] ls))) (sc_sections s),
          pt_duplicate_metadata = dups, pt_duplicate_sections = sc_duplicates s, pt_headings = sc_headings s,
          pt_chars = length body, pt_lines = length (py_splitlines body), pt_sha = []\<rparr>)"

lemma parse_shape: "parse_packet_text body = packet_shape body\<lparr>pt_sha := text_sha256 body\<rparr>"
  by (simp add: parse_packet_text_def packet_shape_def Let_def split: prod.split)

lemma audit_shape: "plain_audit loaded (p\<lparr>pt_sha := h\<rparr>) = plain_audit loaded p"
  by (simp add: plain_audit_def analyze_packet_def template_reasons_def section_reasons_def section_text_def
      split: option.split prod.split)

lemma demo_audit: "\<exists>a. plain_audit demo_loaded (parse_packet_text demo_body) = Some a \<and> au_status a = ''PASS''"
proof -
  have "map_option au_status (plain_audit demo_loaded (packet_shape demo_body)) = Some ''PASS''" by code_simp
  then show ?thesis by (auto simp: parse_shape audit_shape)
qed

lemma demo_identity:
  "map (identity_value (parse_packet_text demo_body)) PACKET_IDENTITY_KEYS =
   [''3'', ''o/r'', ''w'', ''ACTIVE'', ''b'', ''FIX'', ''1'', ''LOW'', ''p'', ''2'', ''<missing>'']"
proof -
  have "map (identity_value (packet_shape demo_body)) PACKET_IDENTITY_KEYS =
      [''3'', ''o/r'', ''w'', ''ACTIVE'', ''b'', ''FIX'', ''1'', ''LOW'', ''p'', ''2'', ''<missing>'']" by code_simp
  then show ?thesis by (simp add: parse_shape identity_value_def [abs_def])
qed


end
