(* ===== verification/Spec2Isabelle.thy ===== *)
theory Spec2Isabelle
  imports OAuthProps OAuthOutput OAuthDurable RelayProps RateLimit CoordinatorProps AdmissionProps WatchProps
    HostProps VerifierProps EpochProps
begin

text \<open>
  Verification of \<^verbatim>\<open>datarelay-link-plugin\<close>: the OAuth relay under \<^verbatim>\<open>src/relay\<close> and the planning tools
  under \<^verbatim>\<open>src/tools\<close>.

  \<^bold>\<open>The relay.\<close> \<^verbatim>\<open>server.py\<close> routes HTTP requests. OAuth requests go to \<^verbatim>\<open>OAuthService\<close> of \<^verbatim>\<open>oauth.py\<close>, which keeps
  the registered clients, codes, access and refresh tokens and pending authorizations, limits the rate
  of three operations with \<^verbatim>\<open>_SlidingWindow\<close>, and writes clients and refresh tokens to the state file of
  \<^verbatim>\<open>oauth_state.py\<close>. MCP requests go through \<^verbatim>\<open>binding.py\<close>, which checks the bearer token, to \<^verbatim>\<open>proxy.py\<close>,
  which forwards them to the upstream address that \<^verbatim>\<open>config.py\<close> validated at start.

  \<^item> \<^verbatim>\<open>RateLimit\<close>: \<^verbatim>\<open>_SlidingWindow\<close>. The record \<open>window\<close> is the object, \<open>allow_event\<close> and \<open>record_event\<close> its
    methods. The locale \<open>rate_limiter\<close> is the interface (allow, record, number of hits, invariant);
    its interpretation \<open>sw\<close> is on the code's window. The claim bounds the attempts of every source
    over any history.
  \<^item> \<^verbatim>\<open>Config\<close>, with \<^verbatim>\<open>IpAddr\<close> and \<^verbatim>\<open>Url\<close> for what it uses of \<^verbatim>\<open>ipaddress\<close> and \<^verbatim>\<open>urllib.parse\<close>: \<open>load_config\<close>
    from the environment, name resolution as the parameter \<open>resolve\<close>.
  \<^item> \<^verbatim>\<open>DurableStore\<close>: \<^verbatim>\<open>DurableOAuthStore\<close>. A save is a list of system calls of which any may fail, with a
    write that may be short, and a crash may happen between two.
  \<^item> \<^verbatim>\<open>OAuth\<close>: the state and its clean-up and persistence; \<^verbatim>\<open>OAuthOps\<close>: the endpoints. The record
    \<open>oauth\<close> is \<^verbatim>\<open>OAuthService\<close>; \<open>world\<close> holds what one request reads from outside: the clock readings
    in order, the random bytes in order, which system calls succeed. A failure is a value
    \<open>oauth_error\<close> beside the state it leaves. \<^verbatim>\<open>OAuthFacts\<close> and \<^verbatim>\<open>OAuthTrace\<close> hold the invariant
    \<open>oauth_ok\<close>, what each operation leaves unchanged, and requests as a datatype with the step
    \<open>serve\<close>; the locale \<open>machine\<close> of the prelude, interpreted on \<open>serve\<close>, gives invariants along runs.
  \<^item> \<^verbatim>\<open>OAuthProps\<close> (authority of tokens and codes, lockout, caps, clean-up, registration), \<^verbatim>\<open>OAuthOutput\<close>
    (consent page and challenge header), \<^verbatim>\<open>OAuthDurable\<close> (round trip, secrets, atomicity): claims.
  \<^item> \<^verbatim>\<open>Relay\<close>: \<^verbatim>\<open>binding.py\<close>, \<^verbatim>\<open>proxy.py\<close> and the handlers of \<^verbatim>\<open>server.py\<close>; \<^verbatim>\<open>RelayProps\<close>: their claims.

  \<^bold>\<open>The planner.\<close> \<^verbatim>\<open>coordinator.py\<close> turns facts about a work packet into one decision and prints it.

  \<^item> \<^verbatim>\<open>Facts\<close>: the readers of JSON facts and the execution-key check.
  \<^item> \<^verbatim>\<open>Coordinator\<close>: parsers, decision procedure, notification keys, reports. \<^verbatim>\<open>CoordinatorFacts\<close>: the decision
    of each branch and what the parsers guarantee. \<^verbatim>\<open>CoordinatorProps\<close>: the gates of a launch and a
    merge, totality, execution keys, notification keys, reports.

  \<^bold>\<open>The watch.\<close> \<^verbatim>\<open>coordinator_watch.py\<close> calls the planner on the facts of a packet under a durable watch and
  answers whether to wake, resume, notify, recheck, block or close; its answer carries the next state.

  \<^item> \<^verbatim>\<open>Watch\<close>: parsing of the watch and its state, \<open>map_decision\<close>, \<open>watch_evaluate\<close>, reports. \<^verbatim>\<open>WatchFacts\<close>: the
    request every branch makes, a written state read back, the plan under a bound retry count.
    \<^verbatim>\<open>WatchProps\<close>: the gates of a resume, closing is final (the locale \<open>machine\<close>, as \<open>closing\<close>), no repeated
    notification, the bounds of the next check. \<open>iso\<close> stands for the timestamp functions of \<^verbatim>\<open>datetime\<close>.

  \<^bold>\<open>Admission.\<close> \<^verbatim>\<open>work_admission.py\<close> decides whether a worker may start beside the live claims, how to size
  a handoff, and whether a claim may be released.

  \<^item> \<^verbatim>\<open>Admission\<close>: paths, claims, the three commands and their reports. \<^verbatim>\<open>AdmissionProps\<close>: the overlap test is
    directory containment, admission is independence, a board of claims keeps its invariant (the
    locale \<open>machine\<close> again, as \<open>board\<close>), release is safe.

  \<^bold>\<open>Authority.\<close> \<^verbatim>\<open>worker_adapter.py\<close> decides whether a worker's external write may happen. It compares the
  request with the authoritative packet and asks \<^verbatim>\<open>skills-contract.py\<close>, which verifies a signed binding and
  a signed dispatch and takes the dispatch in the replay directory of the host.

  \<^item> \<^verbatim>\<open>Dispatch\<close>: the replay directory, with system calls that fail and checks that are out of date.
    \<^verbatim>\<open>Skills\<close>: permission profiles, the contract check, \<open>authorize\<close>, and \<^verbatim>\<open>work_packet_authority.py\<close>.
    \<^verbatim>\<open>Worker\<close>: the adapter. Parameters: \<open>text_io\<close> (JSON and UTF-8 readers), \<open>repo\<close> (YAML, schema validator, paths),
    \<open>host\<close> (OpenSSL, trust anchor, signed files, clock), \<open>syscalls\<close> (which system calls fail).
  \<^item> \<^verbatim>\<open>SkillsFacts\<close>: what an allowed answer rests on. \<^verbatim>\<open>AuthoritySample\<close>: a host with one signed dispatch.
    \<^verbatim>\<open>AuthorityProps\<close>: the gates of a write, a dispatch is taken once over interleaved calls (\<open>store_run\<close>),
    a reservation belongs to its owner, a contract only narrows.

  \<^bold>\<open>The watch host.\<close> \<^verbatim>\<open>coordinator_watch_host.py\<close> runs one locked pass over one watch: it has
  \<^verbatim>\<open>coordinator_watch_collect.py\<close> read the facts, calls the watch evaluator, has the facts read again, asks the worker adapter or the contract, reserves the
  signed dispatch, delivers through \<^verbatim>\<open>coordinator_watch_effects.py\<close> and finalizes the dispatch, with a journal
  between the steps.

  \<^item> \<^verbatim>\<open>Collect\<close>: the collector. The record \<open>collect_host\<close> is what its reads meet: \<^verbatim>\<open>gh\<close> and \<^verbatim>\<open>git\<close> by their
    arguments, the memory report, the pinned worktree, the claim files, the clock. \<^verbatim>\<open>CollectProps\<close>: the facts
    describe one commit of one declared packet, what the planner can make of them, the memory check,
    the exceptions that escape.
  \<^item> \<^verbatim>\<open>Effects\<close>: the two deliveries. \<^verbatim>\<open>WatchHost\<close>: the pass. Its state is the record \<open>world\<close>: four documents for
    each watch directory, the replay directory, what was sent, and lists that say what each write, call
    on the replay directory and send meets (an error, a short write, a death of the process, other
    processes' changes); when a list is used up everything works. A \<open>pass\<close> holds the inputs: request,
    what both readings of the facts meet, lock, attempt id, trust host. A result is \<open>Inr\<close>, a \<^verbatim>\<open>HostRequestError\<close>
    \<open>Rejected\<close>, any other exception \<open>Escaped\<close>, a dead process \<open>Killed\<close>; each keeps what was written.
  \<^item> \<^verbatim>\<open>HostFacts\<close>: what each operation leaves unchanged (\<open>still\<close>, \<open>once\<close>). \<^verbatim>\<open>HostLive\<close>: documents read back, and a
    delivery up to its end when the calls work. \<^verbatim>\<open>HostSample\<close>: a pass that delivers. \<^verbatim>\<open>HostProps\<close>: the gates
    of a delivery, one delivery for a watch directory over any passes (\<open>host_runs\<close>), an interrupted pass
    delivers when repeated, a delivered journal blocks the next effect, well-formed results, no
    resume of a worker.

  \<^bold>\<open>Evidence and packets.\<close> \<^verbatim>\<open>independent_verifier.py\<close> decides whether terminal evidence may pass.
  \<^verbatim>\<open>execution_profile.py\<close> reads the profile of a repository and says whether it gives a work packet its
  authority. \<^verbatim>\<open>context_epoch.py\<close> audits the text of a packet with it, prints a projection of bounded size and
  an identity, checks a packet fetched again against an identity, decides when a context ends and
  strips hook events.

  \<^item> \<^verbatim>\<open>Verifier\<close>: the verifier, on the readers of \<^verbatim>\<open>Facts\<close>. \<^verbatim>\<open>VerifierProps\<close>: the gates of a pass.
  \<^item> \<^verbatim>\<open>Profile\<close>: the profile, with the YAML reader and its regular expressions as parameters. \<^verbatim>\<open>Epoch\<close>:
    the record \<open>packet_text\<close>, its audit, projection and identity. \<^verbatim>\<open>EpochHook\<close>: the end of a context, hook
    events, the command. An exception other than the module's own is \<open>ProfileCrash\<close> or \<open>ContextCrash\<close>.
    \<^verbatim>\<open>EpochProps\<close>: the reserve of 512 characters is enough for the last lines of a projection (they
    need 407), an identity is read back and accepts no other packet, what a hook event keeps.

  \<^bold>\<open>Shared.\<close> \<^verbatim>\<open>Prelude\<close>: errors as sums with \<open>bindE\<close>, dicts as association lists in insertion order,
  invariants of step functions. \<^verbatim>\<open>PyText\<close>, \<^verbatim>\<open>PyJson\<close>, \<^verbatim>\<open>Codec\<close>: Python strings, JSON values and
  \<^verbatim>\<open>json.dumps\<close>, base64, SHA-256, HTML and URL escaping.

  \<^bold>\<open>Bounds.\<close> Strings are lists of 8-bit characters. Times are exact rationals; floats are exact, and
  only a configured number may be infinite or NaN. Python integers are \<open>int\<close>. The eviction loop has
  as much fuel as there are clients; each round removes one, and the claim on it shows that the fuel
  makes no difference. Everything else is structural recursion or has a measure.

  \<^bold>\<open>Not modelled.\<close> Audit log lines and their redaction; the lock (each locked section is one
  step, requests interleave between them only as whole requests); \<^verbatim>\<open>argparse\<close>; sockets, TLS and the HTTP
  client and server of the standard library; the JSON parser and UTF-8 decoding, which are
  parameters; a YAML mapping with keys that are no texts. The other tools are listed in the manifest.
\<close>

end
